(* ===== verification/Prelude.thy ===== *)
theory Prelude
  imports Main "HOL-Library.Word" "HOL-Library.Signed_Division"
begin

text \<open>
  Shared vocabulary of the development: the names of the C++ machine types, the result
  type of code that can throw, the signed 64-bit range, the small string functions of the
  C++ standard library that several components use, and the collections of rewrite rules
  the component theories extend.

  Conventions.  An unsigned C++ integer is a word of its width, so its arithmetic wraps.
  A signed integer is an \<open>int\<close> wherever it is computed with (signed overflow is undefined
  behaviour in C++, so every defined execution stays inside the type's range) and is
  turned into its two's complement word where it is stored in memory.
\<close>

unbundle bit_operations_syntax

named_theorems mem_simps \<open>reads over writes of the byte memory\<close>
named_theorems frame_simps \<open>accessors of frames and pages over stores\<close>
named_theorems json_simps \<open>lookups in json objects built by to_json\<close>

section \<open>Machine types\<close>

type_synonym u8 = "8 word"
type_synonym u16 = "16 word"
type_synonym u32 = "32 word"
type_synonym u64 = "64 word"
type_synonym i32 = int
type_synonym i64 = int

definition in_i64 :: "int \<Rightarrow> bool" where
  "in_i64 x \<longleftrightarrow> - (2 ^ 63) \<le> x \<and> x < 2 ^ 63"

definition in_i32 :: "int \<Rightarrow> bool" where
  "in_i32 x \<longleftrightarrow> - (2 ^ 31) \<le> x \<and> x < 2 ^ 31"

lemma sint_i64 [simp]: "in_i64 x \<Longrightarrow> sint (word_of_int x :: u64) = x"
  by (simp add: in_i64_def sint_sbintrunc' signed_take_bit_int_eq_self)

lemma sint_i32 [simp]: "in_i32 x \<Longrightarrow> sint (word_of_int x :: u32) = x"
  by (simp add: in_i32_def sint_sbintrunc' signed_take_bit_int_eq_self)

text \<open>The exclusive or of words, used to build and to undo the identifiers of the system.\<close>

lemma xor_cancel_right [simp]: "(a XOR b) XOR b = (a :: 'a::len word)"
  by (simp add: xor.assoc)

lemma xor_eq_iff_right: "a XOR b = a XOR c \<longleftrightarrow> b = (c :: 'a::len word)"
  by (metis xor.assoc xor_self_eq xor.left_neutral)

lemma xor_eq_iff_left: "b XOR a = c XOR a \<longleftrightarrow> b = (c :: 'a::len word)"
  by (metis xor_cancel_right)

lemma xor_eq_self_iff: "a XOR b = a \<longleftrightarrow> b = (0 :: 'a::len word)"
  by (metis xor_eq_iff_right xor.right_neutral)

lemma xor_eq_0_iff: "a XOR b = 0 \<longleftrightarrow> a = (b :: 'a::len word)"
  by (metis xor_cancel_right xor.left_neutral xor_self_eq)

lemma unat_of_nat_small: "n < 2 ^ LENGTH('a) \<Longrightarrow> unat (of_nat n :: 'a::len word) = n"
  by (simp add: unat_of_nat)

lemma unat_ucast_u8 [simp]: "unat (ucast (x :: u8) :: u32) = unat x"
proof -
  have "unat x < 256" using unsigned_less [of x, where ?'a = nat] by simp
  then show ?thesis by (simp add: unsigned_ucast_eq take_bit_nat_eq_self)
qed

section \<open>Code that can throw\<close>

text \<open>\<open>Inl\<close> is the thrown value; the rest of the function is skipped.\<close>

fun bindE :: "'e + 'a \<Rightarrow> ('a \<Rightarrow> 'e + 'b) \<Rightarrow> 'e + 'b" where
  "bindE (Inl e) f = Inl e"
| "bindE (Inr x) f = f x"

lemma bindE_split:
  "P (bindE r f) \<longleftrightarrow> (\<forall>e. r = Inl e \<longrightarrow> P (Inl e)) \<and> (\<forall>x. r = Inr x \<longrightarrow> P (f x))"
  by (cases r) auto

lemma bindE_Inr_iff: "bindE r f = Inr y \<longleftrightarrow> (\<exists>x. r = Inr x \<and> f x = Inr y)"
  by (cases r) auto

lemma bindE_Inl_iff:
  "bindE r f = Inl e \<longleftrightarrow> r = Inl e \<or> (\<exists>x. r = Inr x \<and> f x = Inl e)"
  by (cases r) auto

lemma bindE_assoc: "bindE (bindE r f) g = bindE r (\<lambda>x. bindE (f x) g)"
  by (cases r) auto

section \<open>Strings\<close>

text \<open>\<open>std::string::ends_with\<close>, \<open>starts_with\<close>, and the decimal printing of
  \<open>std::to_string\<close>.\<close>

definition has_suffix :: "string \<Rightarrow> string \<Rightarrow> bool" where
  "has_suffix s suf \<longleftrightarrow>
     length suf \<le> length s \<and> drop (length s - length suf) s = suf"

definition has_prefix :: "string \<Rightarrow> string \<Rightarrow> bool" where
  "has_prefix s pre \<longleftrightarrow> length pre \<le> length s \<and> take (length pre) s = pre"

lemma has_suffix_append: "has_suffix s suf \<longleftrightarrow> (\<exists>p. s = p @ suf)"
proof
  assume "has_suffix s suf"
  then show "\<exists>p. s = p @ suf"
    by (metis append_take_drop_id has_suffix_def)
qed (auto simp: has_suffix_def)

lemma has_prefix_append: "has_prefix s pre \<longleftrightarrow> (\<exists>q. s = pre @ q)"
proof
  assume "has_prefix s pre"
  then show "\<exists>q. s = pre @ q"
    by (metis append_take_drop_id has_prefix_def)
qed (auto simp: has_prefix_def)

definition digit_char :: "nat \<Rightarrow> char" where
  "digit_char d = char_of (48 + d)"

definition char_digit :: "char \<Rightarrow> nat" where
  "char_digit c = of_char c - 48"

lemma char_digit_char [simp]: "d < 10 \<Longrightarrow> char_digit (digit_char d) = d"
  by (simp add: char_digit_def digit_char_def)

fun show_nat :: "nat \<Rightarrow> string" where
  "show_nat n = (if n < 10 then [digit_char n] else show_nat (n div 10) @ [digit_char (n mod 10)])"

declare show_nat.simps [simp del]

definition show_int :: "int \<Rightarrow> string" where
  "show_int i = (if i < 0 then CHR ''-'' # show_nat (nat (- i)) else show_nat (nat i))"

definition read_nat :: "string \<Rightarrow> nat" where
  "read_nat s = foldl (\<lambda>n c. 10 * n + char_digit c) 0 s"

lemma read_show_nat [simp]: "read_nat (show_nat n) = n"
proof (induction n rule: show_nat.induct)
  case (1 n)
  show ?case
  proof (cases "n < 10")
    case True
    then show ?thesis by (simp add: show_nat.simps [of n] read_nat_def)
  next
    case False
    with 1 have "read_nat (show_nat (n div 10)) = n div 10" by simp
    with False show ?thesis by (simp add: show_nat.simps [of n] read_nat_def)
  qed
qed

lemma show_nat_inject [simp]: "show_nat m = show_nat n \<longleftrightarrow> m = n"
  by (metis read_show_nat)

lemma show_nat_length: "n < 10 ^ Suc k \<Longrightarrow> length (show_nat n) \<le> Suc k"
proof (induction k arbitrary: n)
  case 0
  then show ?case by (subst show_nat.simps) simp
next
  case (Suc k)
  then have "n div 10 < 10 ^ Suc k" by (simp add: less_mult_imp_div_less)
  with Suc.IH have "length (show_nat (n div 10)) \<le> Suc k" by blast
  then show ?case by (subst show_nat.simps) simp
qed

lemma show_nat_nonempty [simp]: "show_nat n \<noteq> []"
  by (simp add: show_nat.simps [of n])

section \<open>Maps\<close>

text \<open>An \<open>std::unordered_map\<close> or \<open>std::map\<close> is a partial map; the loops over it that the
  model needs visit the keys of a list that holds exactly the map's domain.\<close>

lemma dom_map_upd_None: "dom (m(k := None)) = dom m - {k}"
  by auto

definition map_filter_values :: "('v \<Rightarrow> bool) \<Rightarrow> ('k \<rightharpoonup> 'v) \<Rightarrow> ('k \<rightharpoonup> 'v)" where
  "map_filter_values P m = (\<lambda>k. case m k of None \<Rightarrow> None | Some v \<Rightarrow> if P v then Some v else None)"

lemma map_filter_values_Some [simp]:
  "map_filter_values P m k = Some v \<longleftrightarrow> m k = Some v \<and> P v"
  by (auto simp: map_filter_values_def split: option.splits)

lemma map_filter_values_None:
  "map_filter_values P m k = None \<longleftrightarrow> (\<forall>v. m k = Some v \<longrightarrow> \<not> P v)"
  by (auto simp: map_filter_values_def split: option.splits)

end
