(* ===== verification/Memory.thy ===== *)
theory Memory
  imports Prelude
begin

text \<open>
  The bytes of a memory-mapped file.  A page of the journal is a file mapped with
  \<open>mmap\<close>; writer and readers see the same bytes (\<open>MAP_SHARED\<close>).  A memory is a function
  from the offset in the page to the byte there.  Packed integers are stored in the
  little-endian order of the machines the program runs on.
\<close>

type_synonym mem = "nat \<Rightarrow> u8"

definition zero_mem :: mem where
  "zero_mem = (\<lambda>_. 0)"

definition store_bytes :: "nat \<Rightarrow> u8 list \<Rightarrow> mem \<Rightarrow> mem" where
  "store_bytes a bs m = (\<lambda>i. if a \<le> i \<and> i < a + length bs then bs ! (i - a) else m i)"

text \<open>A sequence of stores, and the stores of \<open>memcpy\<close> and \<open>memset\<close>: one for every byte.\<close>

definition run_stores :: "(mem \<Rightarrow> mem) list \<Rightarrow> mem \<Rightarrow> mem" where
  "run_stores fs m = fold (\<lambda>f. f) fs m"

definition byte_stores :: "nat \<Rightarrow> u8 list \<Rightarrow> (mem \<Rightarrow> mem) list" where
  "byte_stores a bs = map (\<lambda>i. store_bytes (a + i) [bs ! i]) [0..<length bs]"

lemma run_stores_Nil [simp]: "run_stores [] m = m"
  by (simp add: run_stores_def)

lemma run_stores_Cons [simp]: "run_stores (f # fs) m = run_stores fs (f m)"
  by (simp add: run_stores_def)

lemma run_stores_append [simp]: "run_stores (fs @ gs) m = run_stores gs (run_stores fs m)"
  by (simp add: run_stores_def)

lemma length_byte_stores [simp]: "length (byte_stores a bs) = length bs"
  by (simp add: byte_stores_def)

lemma byte_stores_snoc: "byte_stores a (bs @ [b]) = byte_stores a bs @ [store_bytes (a + length bs) [b]]"
  by (simp add: byte_stores_def nth_append)

lemma run_byte_stores [simp]: "run_stores (byte_stores a bs) m = store_bytes a bs m"
proof (induction bs rule: rev_induct)
  case Nil
  show ?case by (rule ext) (auto simp: byte_stores_def store_bytes_def)
next
  case (snoc b bs)
  then show ?case by (intro ext) (auto simp: byte_stores_snoc store_bytes_def nth_append)
qed

definition load_bytes :: "mem \<Rightarrow> nat \<Rightarrow> nat \<Rightarrow> u8 list" where
  "load_bytes m a n = map m [a..<a + n]"

section \<open>Little-endian integers\<close>

fun to_le :: "nat \<Rightarrow> nat \<Rightarrow> u8 list" where
  "to_le 0 v = []"
| "to_le (Suc n) v = of_nat (v mod 256) # to_le n (v div 256)"

fun of_le :: "u8 list \<Rightarrow> nat" where
  "of_le [] = 0"
| "of_le (b # bs) = unat b + 256 * of_le bs"

lemma length_to_le [simp]: "length (to_le n v) = n"
  by (induction n arbitrary: v) auto

lemma of_le_to_le: "of_le (to_le n v) = v mod 256 ^ n"
proof (induction n arbitrary: v)
  case (Suc n)
  have "unat (of_nat (v mod 256) :: u8) = v mod 256"
    by (simp add: unat_of_nat)
  with Suc show ?case
    by (simp add: mod_mult2_eq)
qed simp

lemma of_le_bound: "of_le bs < 256 ^ length bs"
proof (induction bs)
  case (Cons b bs)
  have "unat b < 256" using unsigned_less [of b, where ?'a = nat] by simp
  with Cons have "unat b + 256 * of_le bs < 256 + 256 * of_le bs" by simp
  also have "\<dots> \<le> 256 * 256 ^ length bs"
  proof -
    have "Suc (of_le bs) \<le> 256 ^ length bs" using Cons by simp
    then have "256 * Suc (of_le bs) \<le> 256 * 256 ^ length bs" by (rule mult_le_mono2)
    then show ?thesis by simp
  qed
  finally show ?case by simp
qed simp

definition get32 :: "mem \<Rightarrow> nat \<Rightarrow> u32" where
  "get32 m a = of_nat (of_le (load_bytes m a 4))"

definition put32 :: "nat \<Rightarrow> u32 \<Rightarrow> mem \<Rightarrow> mem" where
  "put32 a w = store_bytes a (to_le 4 (unat w))"

definition get64 :: "mem \<Rightarrow> nat \<Rightarrow> u64" where
  "get64 m a = of_nat (of_le (load_bytes m a 8))"

definition put64 :: "nat \<Rightarrow> u64 \<Rightarrow> mem \<Rightarrow> mem" where
  "put64 a w = store_bytes a (to_le 8 (unat w))"

section \<open>Reads over writes\<close>

lemma length_load_bytes [simp]: "length (load_bytes m a n) = n"
  by (simp add: load_bytes_def)

lemma load_store_same [mem_simps]:
  "n = length bs \<Longrightarrow> load_bytes (store_bytes a bs m) a n = bs"
  by (auto simp: load_bytes_def store_bytes_def intro!: nth_equalityI)

lemma load_store_other [mem_simps]:
  "a + n \<le> b \<or> b + length bs \<le> a \<Longrightarrow> load_bytes (store_bytes b bs m) a n = load_bytes m a n"
  by (auto simp: load_bytes_def store_bytes_def)

lemma load_bytes_cong:
  "(\<And>i. a \<le> i \<Longrightarrow> i < a + n \<Longrightarrow> m i = m' i) \<Longrightarrow> load_bytes m a n = load_bytes m' a n"
  by (auto simp: load_bytes_def)

lemma get32_cong:
  "(\<And>i. a \<le> i \<Longrightarrow> i < a + 4 \<Longrightarrow> m i = m' i) \<Longrightarrow> get32 m a = get32 m' a"
  unfolding get32_def by (metis load_bytes_cong)

lemma get64_cong:
  "(\<And>i. a \<le> i \<Longrightarrow> i < a + 8 \<Longrightarrow> m i = m' i) \<Longrightarrow> get64 m a = get64 m' a"
  unfolding get64_def by (metis load_bytes_cong)

lemma load_zero: "load_bytes zero_mem a n = replicate n 0"
  by (simp add: load_bytes_def zero_mem_def map_replicate_const)

lemma of_le_zero: "of_le (replicate n 0) = 0"
  by (induction n) auto

lemma of_nat_mod_32: "(of_nat (unat w mod 256 ^ 4) :: u32) = (w :: u32)"
proof -
  have "unat w < 256 ^ 4" using unsigned_less [of w, where ?'a = nat] by simp
  then show ?thesis by simp
qed

lemma of_nat_mod_64: "(of_nat (unat w mod 256 ^ 8) :: u64) = (w :: u64)"
proof -
  have "unat w < 256 ^ 8" using unsigned_less [of w, where ?'a = nat] by simp
  then show ?thesis by simp
qed

lemma get32_put32 [mem_simps]: "get32 (put32 a w m) a = w"
  unfolding get32_def put32_def
  by (simp only: load_store_same length_to_le of_le_to_le of_nat_mod_32)

lemma get64_put64 [mem_simps]: "get64 (put64 a w m) a = w"
  unfolding get64_def put64_def
  by (simp only: load_store_same length_to_le of_le_to_le of_nat_mod_64)

lemma get32_put32_other [mem_simps]:
  "a + 4 \<le> b \<or> b + 4 \<le> a \<Longrightarrow> get32 (put32 b w m) a = get32 m a"
  by (simp add: get32_def put32_def load_store_other)

lemma get32_put64_other [mem_simps]:
  "a + 4 \<le> b \<or> b + 8 \<le> a \<Longrightarrow> get32 (put64 b w m) a = get32 m a"
  by (simp add: get32_def put64_def load_store_other)

lemma get64_put32_other [mem_simps]:
  "a + 8 \<le> b \<or> b + 4 \<le> a \<Longrightarrow> get64 (put32 b w m) a = get64 m a"
  by (simp add: get64_def put32_def load_store_other)

lemma get64_put64_other [mem_simps]:
  "a + 8 \<le> b \<or> b + 8 \<le> a \<Longrightarrow> get64 (put64 b w m) a = get64 m a"
  by (simp add: get64_def put64_def load_store_other)

lemma get32_store_other [mem_simps]:
  "a + 4 \<le> b \<or> b + length bs \<le> a \<Longrightarrow> get32 (store_bytes b bs m) a = get32 m a"
  by (simp add: get32_def load_store_other)

lemma get64_store_other [mem_simps]:
  "a + 8 \<le> b \<or> b + length bs \<le> a \<Longrightarrow> get64 (store_bytes b bs m) a = get64 m a"
  by (simp add: get64_def load_store_other)

lemma load_put32_other [mem_simps]:
  "a + n \<le> b \<or> b + 4 \<le> a \<Longrightarrow> load_bytes (put32 b w m) a n = load_bytes m a n"
  by (simp add: put32_def load_store_other)

lemma load_put64_other [mem_simps]:
  "a + n \<le> b \<or> b + 8 \<le> a \<Longrightarrow> load_bytes (put64 b w m) a n = load_bytes m a n"
  by (simp add: put64_def load_store_other)

lemma get32_zero_mem [simp]: "get32 zero_mem a = 0"
  by (simp add: get32_def load_zero of_le_zero)

lemma get64_zero_mem [simp]: "get64 zero_mem a = 0"
  by (simp add: get64_def load_zero of_le_zero)

text \<open>Clearing a region with \<open>memset\<close>: every integer inside it reads zero.\<close>

lemma get32_memset [mem_simps]:
  assumes "b \<le> a" "a + 4 \<le> b + n"
  shows "get32 (store_bytes b (replicate n 0) m) a = 0"
proof -
  have "load_bytes (store_bytes b (replicate n 0) m) a 4 = replicate 4 0"
    using assms by (auto simp: load_bytes_def store_bytes_def map_replicate_const
        intro!: nth_equalityI)
  then show ?thesis by (simp add: get32_def of_le_zero)
qed

section \<open>Memories that agree below an address\<close>

definition agree_below :: "nat \<Rightarrow> mem \<Rightarrow> mem \<Rightarrow> bool" where
  "agree_below a m m' \<longleftrightarrow> (\<forall>i < a. m i = m' i)"

lemma agree_below_refl [simp]: "agree_below a m m"
  by (simp add: agree_below_def)

lemma agree_below_trans: "agree_below a m m' \<Longrightarrow> agree_below a m' m'' \<Longrightarrow> agree_below a m m''"
  by (simp add: agree_below_def)

lemma agree_below_store [simp]: "a \<le> b \<Longrightarrow> agree_below a m (store_bytes b bs m)"
  by (simp add: agree_below_def store_bytes_def)

lemma agree_below_put32 [simp]: "a \<le> b \<Longrightarrow> agree_below a m (put32 b w m)"
  by (simp add: put32_def)

lemma agree_below_put64 [simp]: "a \<le> b \<Longrightarrow> agree_below a m (put64 b w m)"
  by (simp add: put64_def)

end
