(* ===== verification/Frame.thy ===== *)
theory Frame
  imports Memory
begin

text \<open>
  Frames and page headers as bytes (journal/frame.h, journal/page.h).  Both are packed C
  structs in the mapped file; every accessor reads or writes the integer at its field's
  offset.  A frame is named by the offset of its header from the start of the page.  The
  second half gives the abstract frame, what a reader sees of one, and the facts on
  accessors over stores that the journal's proofs rewrite with.
\<close>

section \<open>struct frame_header\<close>

definition sizeof_frame_header :: nat where "sizeof_frame_header = 36"
definition off_length :: nat where "off_length = 0"
definition off_header_length :: nat where "off_header_length = 4"
definition off_gen_time :: nat where "off_gen_time = 8"
definition off_trigger_time :: nat where "off_trigger_time = 16"
definition off_msg_type :: nat where "off_msg_type = 24"
definition off_source :: nat where "off_source = 28"
definition off_dest :: nat where "off_dest = 32"

lemmas frame_offsets = sizeof_frame_header_def off_length_def off_header_length_def
  off_gen_time_def off_trigger_time_def off_msg_type_def off_source_def off_dest_def

section \<open>class frame\<close>

definition frame_length :: "mem \<Rightarrow> nat \<Rightarrow> u32" where
  "frame_length m a = get32 m (a + off_length)"

definition header_length :: "mem \<Rightarrow> nat \<Rightarrow> u32" where
  "header_length m a = get32 m (a + off_header_length)"

definition data_length :: "mem \<Rightarrow> nat \<Rightarrow> u32" where
  "data_length m a = frame_length m a - header_length m a"

definition gen_time :: "mem \<Rightarrow> nat \<Rightarrow> i64" where
  "gen_time m a = sint (get64 m (a + off_gen_time))"

definition trigger_time :: "mem \<Rightarrow> nat \<Rightarrow> i64" where
  "trigger_time m a = sint (get64 m (a + off_trigger_time))"

definition msg_type :: "mem \<Rightarrow> nat \<Rightarrow> i32" where
  "msg_type m a = sint (get32 m (a + off_msg_type))"

definition source :: "mem \<Rightarrow> nat \<Rightarrow> u32" where
  "source m a = get32 m (a + off_source)"

definition dest :: "mem \<Rightarrow> nat \<Rightarrow> u32" where
  "dest m a = get32 m (a + off_dest)"

definition has_data :: "mem \<Rightarrow> nat \<Rightarrow> bool" where
  "has_data m a \<longleftrightarrow> frame_length m a > 0 \<and> msg_type m a > 0"

definition data_as_bytes :: "mem \<Rightarrow> nat \<Rightarrow> u8 list" where
  "data_as_bytes m a = load_bytes m (a + unat (header_length m a)) (unat (data_length m a))"

definition frame_to_string :: "mem \<Rightarrow> nat \<Rightarrow> u8 list" where
  "frame_to_string m a = load_bytes m a (unat (frame_length m a))"

definition copy_data :: "nat \<Rightarrow> u8 list \<Rightarrow> mem \<Rightarrow> mem" where
  "copy_data a bs m = store_bytes (a + unat (header_length m a)) bs m"

definition move_to_next :: "mem \<Rightarrow> nat \<Rightarrow> nat" where
  "move_to_next m a = a + unat (frame_length m a)"

definition set_header_length :: "nat \<Rightarrow> mem \<Rightarrow> mem" where
  "set_header_length a m = put32 (a + off_header_length) (of_nat sizeof_frame_header) m"

definition set_data_length :: "nat \<Rightarrow> u32 \<Rightarrow> mem \<Rightarrow> mem" where
  "set_data_length a n m = put32 (a + off_length) (header_length m a + n) m"

definition set_gen_time :: "nat \<Rightarrow> i64 \<Rightarrow> mem \<Rightarrow> mem" where
  "set_gen_time a t m = put64 (a + off_gen_time) (word_of_int t) m"

definition set_trigger_time :: "nat \<Rightarrow> i64 \<Rightarrow> mem \<Rightarrow> mem" where
  "set_trigger_time a t m = put64 (a + off_trigger_time) (word_of_int t) m"

definition set_msg_type :: "nat \<Rightarrow> i32 \<Rightarrow> mem \<Rightarrow> mem" where
  "set_msg_type a t m = put32 (a + off_msg_type) (word_of_int t) m"

definition set_source :: "nat \<Rightarrow> u32 \<Rightarrow> mem \<Rightarrow> mem" where
  "set_source a s m = put32 (a + off_source) s m"

definition set_dest :: "nat \<Rightarrow> u32 \<Rightarrow> mem \<Rightarrow> mem" where
  "set_dest a d m = put32 (a + off_dest) d m"

lemmas frame_getters = frame_length_def header_length_def data_length_def gen_time_def
  trigger_time_def msg_type_def source_def dest_def

lemmas frame_setters = set_header_length_def set_data_length_def set_gen_time_def
  set_trigger_time_def set_msg_type_def set_source_def set_dest_def

section \<open>struct page_header and class page\<close>

definition sizeof_page_header :: nat where "sizeof_page_header = 24"

definition pg_version :: "mem \<Rightarrow> u32" where "pg_version m = get32 m 0"
definition pg_header_length :: "mem \<Rightarrow> u32" where "pg_header_length m = get32 m 4"
definition get_page_size :: "mem \<Rightarrow> u32" where "get_page_size m = get32 m 8"
definition pg_frame_header_length :: "mem \<Rightarrow> u32" where "pg_frame_header_length m = get32 m 12"
definition last_frame_position :: "mem \<Rightarrow> u64" where "last_frame_position m = get64 m 16"

definition set_last_frame_position :: "u64 \<Rightarrow> mem \<Rightarrow> mem" where
  "set_last_frame_position p m = put64 16 p m"

lemmas page_getters = pg_version_def pg_header_length_def get_page_size_def
  pg_frame_header_length_def last_frame_position_def

text \<open>Addresses of the class are absolute; here they are offsets in the page, so
  \<open>address ()\<close> is 0.\<close>

definition address_border :: "mem \<Rightarrow> nat" where
  "address_border m = unat (get_page_size m) - sizeof_frame_header"

definition first_frame_address :: "mem \<Rightarrow> nat" where
  "first_frame_address m = unat (pg_header_length m)"

definition last_frame_address :: "mem \<Rightarrow> nat" where
  "last_frame_address m = unat (last_frame_position m)"

definition begin_time :: "mem \<Rightarrow> i64" where
  "begin_time m = gen_time m (first_frame_address m)"

definition end_time :: "mem \<Rightarrow> i64" where
  "end_time m = gen_time m (last_frame_address m)"

definition is_full :: "mem \<Rightarrow> bool" where
  "is_full m \<longleftrightarrow>
    last_frame_address m + unat (frame_length m (last_frame_address m)) > address_border m"

section \<open>What a reader sees of a frame\<close>

record event =
  e_gen_time :: i64
  e_trigger_time :: i64
  e_msg_type :: i32
  e_source :: u32
  e_dest :: u32
  e_data :: "u8 list"

definition frame_at :: "mem \<Rightarrow> nat \<Rightarrow> event" where
  "frame_at m a =
    \<lparr>e_gen_time = gen_time m a, e_trigger_time = trigger_time m a, e_msg_type = msg_type m a,
     e_source = source m a, e_dest = dest m a, e_data = data_as_bytes m a\<rparr>"

text \<open>The frame whose bytes a store leaves alone reads the same.\<close>

lemma frame_cong:
  assumes "\<And>i. a \<le> i \<Longrightarrow> i < a + 36 \<Longrightarrow> m i = m' i"
  shows "frame_length m a = frame_length m' a" "header_length m a = header_length m' a"
    "gen_time m a = gen_time m' a" "trigger_time m a = trigger_time m' a"
    "msg_type m a = msg_type m' a" "source m a = source m' a" "dest m a = dest m' a"
  using assms
  by (auto simp: frame_getters frame_offsets intro!: get32_cong get64_cong
      arg_cong [where f = sint])

text \<open>A published frame: it has data, and its length covers its header.\<close>

definition good_frame :: "mem \<Rightarrow> nat \<Rightarrow> bool" where
  "good_frame m a \<longleftrightarrow> has_data m a \<and> unat (header_length m a) = 36 \<and> 36 \<le> unat (frame_length m a)"

lemma unat_data_length:
  "good_frame m a \<Longrightarrow> unat (data_length m a) = unat (frame_length m a) - 36"
  by (simp add: data_length_def good_frame_def unat_sub_if_size word_le_nat_alt)

lemma good_frame_cong:
  assumes "good_frame m a"
    and agree: "\<And>i. a \<le> i \<Longrightarrow> i < a + unat (frame_length m a) \<Longrightarrow> m i = m' i"
  shows "good_frame m' a" "frame_at m' a = frame_at m a" "frame_length m' a = frame_length m a"
proof -
  have h: "\<And>i. a \<le> i \<Longrightarrow> i < a + 36 \<Longrightarrow> m i = m' i"
    using assms by (auto simp: good_frame_def)
  note eqs = frame_cong [OF h, symmetric]
  show len: "frame_length m' a = frame_length m a" by (rule eqs)
  show good: "good_frame m' a"
    using assms(1) by (simp add: good_frame_def has_data_def eqs)
  have "data_as_bytes m' a = data_as_bytes m a"
    using assms(1) agree
    by (auto simp: data_as_bytes_def data_length_def eqs good_frame_def unat_sub_if_size
        word_le_nat_alt intro!: load_bytes_cong)
  then show "frame_at m' a = frame_at m a"
    by (simp add: frame_at_def eqs)
qed

lemma good_frame_has_data: "good_frame m a \<Longrightarrow> has_data m a"
  by (simp add: good_frame_def)

end
