(* ===== verification/Hash.thy ===== *)
theory Hash
  imports Memory
begin

text \<open>
  The hash functions of the program: \<open>MurmurHash3_x86_32\<close> with its mixing steps
  (util/MurmurHash3.cpp) and the two entry points of util/hash.cpp, which give every
  location, account and instrument its 32-bit identifier.  The lemmas show that each mixing
  step loses nothing, so that two keys that differ in a single byte never share a hash.
\<close>

section \<open>The code\<close>

definition KUNGFU_HASH_SEED :: u32 where
  "KUNGFU_HASH_SEED = 42"

definition rotl32 :: "u32 \<Rightarrow> nat \<Rightarrow> u32" where
  "rotl32 x r = (push_bit r x) OR (drop_bit (32 - r) x)"

definition getblock32 :: "u8 list \<Rightarrow> u32" where
  "getblock32 bs = of_nat (of_le (take 4 bs))"

definition fmix32 :: "u32 \<Rightarrow> u32" where
  "fmix32 h0 =
    (let h1 = h0 XOR drop_bit 16 h0;
         h2 = h1 * 0x85ebca6b;
         h3 = h2 XOR drop_bit 13 h2;
         h4 = h3 * 0xc2b2ae35
     in h4 XOR drop_bit 16 h4)"

definition mm_c1 :: u32 where "mm_c1 = 0xcc9e2d51"
definition mm_c2 :: u32 where "mm_c2 = 0x1b873593"

definition mm_scramble :: "u32 \<Rightarrow> u32" where
  "mm_scramble k = rotl32 (k * mm_c1) 15 * mm_c2"

text \<open>One round of the loop over the four-byte blocks, and the loop itself, which leaves the
  hash so far and the bytes that do not fill a block.\<close>

definition mm_round :: "u32 \<Rightarrow> u32 \<Rightarrow> u32" where
  "mm_round h1 k1 = rotl32 (h1 XOR mm_scramble k1) 13 * 5 + 0xe6546b64"

fun mm_body :: "u32 \<Rightarrow> u8 list \<Rightarrow> u32 \<times> u8 list" where
  "mm_body h1 (b0 # b1 # b2 # b3 # bs) = mm_body (mm_round h1 (getblock32 [b0, b1, b2, b3])) bs"
| "mm_body h1 tail_bs = (h1, tail_bs)"

fun mm_tail :: "u32 \<Rightarrow> u8 list \<Rightarrow> u32" where
  "mm_tail h1 [] = h1"
| "mm_tail h1 [t0] = h1 XOR mm_scramble (ucast t0)"
| "mm_tail h1 [t0, t1] = h1 XOR mm_scramble (push_bit 8 (ucast t1) XOR ucast t0)"
| "mm_tail h1 (t0 # t1 # t2 # ts) =
    h1 XOR mm_scramble ((push_bit 16 (ucast t2) XOR push_bit 8 (ucast t1)) XOR ucast t0)"

definition MurmurHash3_x86_32 :: "u8 list \<Rightarrow> u32 \<Rightarrow> u32" where
  "MurmurHash3_x86_32 key seed =
    (let (h1, tail_bs) = mm_body seed key
     in fmix32 (mm_tail h1 tail_bs XOR of_nat (length key)))"

definition hash_32 :: "u8 list \<Rightarrow> u32 \<Rightarrow> u32" where
  "hash_32 key seed = MurmurHash3_x86_32 key seed"

definition bytes_of :: "string \<Rightarrow> u8 list" where
  "bytes_of s = map (\<lambda>c. of_nat (of_char c)) s"

definition hash_str_32 :: "string \<Rightarrow> u32" where
  "hash_str_32 key = hash_32 (bytes_of key) KUNGFU_HASH_SEED"

definition ends_with :: "string \<Rightarrow> string \<Rightarrow> bool" where
  "ends_with str suffix \<longleftrightarrow>
    length str \<ge> length suffix \<and> drop (length str - length suffix) str = suffix"

section \<open>Every mixing step is injective\<close>

lemma bytes_of_inj: "bytes_of s = bytes_of t \<longleftrightarrow> s = t"
proof -
  have "(of_nat (of_char c) :: u8) = of_nat (of_char d) \<longleftrightarrow> c = d" for c d :: char
  proof
    assume "(of_nat (of_char c) :: u8) = of_nat (of_char d)"
    then have "unat (of_nat (of_char c) :: u8) = unat (of_nat (of_char d) :: u8)" by simp
    then have "(of_char c :: nat) = of_char d"
      by (simp add: unat_of_nat)
    then show "c = d" by simp
  qed simp
  then have "inj (\<lambda>c :: char. (of_nat (of_char c) :: u8))" by (auto intro!: injI)
  then show ?thesis by (simp add: bytes_of_def inj_map_eq_map)
qed

lemma xorshift_inj:
  fixes x y :: u32
  assumes n: "11 \<le> n" and eq: "x XOR drop_bit n x = y XOR drop_bit n y"
  shows "x = y"
proof -
  let ?d = "x XOR y"
  have d: "?d = drop_bit n ?d"
  proof (rule bit_eqI)
    fix i
    have "bit (x XOR drop_bit n x) i = bit (y XOR drop_bit n y) i" using eq by simp
    then show "bit ?d i = bit (drop_bit n ?d) i"
      by (auto simp: bit_simps)
  qed
  have "?d = drop_bit (n + n + n) ?d"
    by (metis d drop_bit_drop_bit)
  also have "\<dots> = 0"
  proof -
    have "drop_bit (n + n + n) ?d = 0"
      using n by (intro bit_eqI) (auto simp: bit_drop_bit_eq dest: bit_imp_le_length)
    then show ?thesis .
  qed
  finally have "?d = 0" .
  then show "x = y" by (simp add: xor_eq_0_iff)
qed

lemma mult_inj:
  fixes x y c d :: u32
  assumes "c * d = 1" "x * c = y * c"
  shows "x = y"
proof -
  have "x * (c * d) = y * (c * d)" using assms(2) by (simp only: mult.assoc [symmetric])
  with assms(1) show ?thesis by simp
qed

lemma fmix32_inj: "fmix32 x = fmix32 y \<Longrightarrow> x = y"
  unfolding fmix32_def Let_def
  apply (drule xorshift_inj [rotated], simp)
  apply (drule mult_inj [of "0xc2b2ae35" "0x7ed1b41d", rotated], simp)
  apply (drule xorshift_inj [rotated], simp)
  apply (drule mult_inj [of "0x85ebca6b" "0xa5cb9243", rotated], simp)
  apply (drule xorshift_inj [rotated], simp_all)
  done

lemma rotl32_inj:
  assumes r: "0 < r" "r < 32" and eq: "rotl32 x r = rotl32 y r"
  shows "x = y"
proof (rule bit_eqI)
  fix n assume "possible_bit TYPE(u32) n"
  then have n: "n < 32" by (simp add: possible_bit_def)
  have b: "bit (rotl32 z r) m = (if r \<le> m then bit z (m - r) else bit z (m + 32 - r))"
    if "m < 32" for m z
  proof (cases "r \<le> m")
    case True
    then have "\<not> bit z (32 - r + m)" using that r by (auto dest: bit_imp_le_length)
    with True that show ?thesis by (simp add: rotl32_def bit_simps)
  next
    case False
    then have "m + 32 - r = 32 - r + m" using r by simp
    with False that show ?thesis by (simp add: rotl32_def bit_simps)
  qed
  show "bit x n = bit y n"
  proof (cases "n + r < 32")
    case True
    then show ?thesis using b [of "n + r" x] b [of "n + r" y] eq by simp
  next
    case False
    then have "n + r - 32 < 32" "\<not> r \<le> n + r - 32" "n + r - 32 + 32 - r = n"
      using n r by auto
    then show ?thesis using b [of "n + r - 32" x] b [of "n + r - 32" y] eq by simp
  qed
qed

lemma mm_scramble_inj: "mm_scramble x = mm_scramble y \<Longrightarrow> x = y"
  unfolding mm_scramble_def mm_c1_def mm_c2_def
  by (drule mult_inj [of "0x1b873593" "0x56ed309b", rotated], simp,
      drule rotl32_inj [rotated 2], simp, simp,
      drule mult_inj [of "0xcc9e2d51" "0xdee13bb1", rotated], simp)

lemma mm_round_rotl: "mm_round h k = mm_round h' k' \<Longrightarrow> h XOR mm_scramble k = h' XOR mm_scramble k'"
  unfolding mm_round_def
  by (simp, drule mult_inj [of 5 "0xcccccccd", rotated], simp, drule rotl32_inj [rotated 2], simp_all)

lemma mm_round_inj_h: "mm_round h k = mm_round h' k \<Longrightarrow> h = h'"
  by (drule mm_round_rotl) (metis xor_cancel_right)

lemma mm_round_inj_k: "mm_round h k = mm_round h k' \<Longrightarrow> k = k'"
  by (drule mm_round_rotl) (metis xor_eq_iff_right mm_scramble_inj)

lemma mm_body_tail: "snd (mm_body h bs) = snd (mm_body h' bs)"
  by (induction h bs arbitrary: h' rule: mm_body.induct) auto

lemma mm_body_inj_h: "fst (mm_body h bs) = fst (mm_body h' bs) \<Longrightarrow> h = h'"
proof (induction h bs arbitrary: h' rule: mm_body.induct)
  case (1 h1 b0 b1 b2 b3 bs)
  then show ?case by (auto dest: mm_round_inj_h)
qed auto

lemma mm_tail_inj_h: "mm_tail h tail_bs = mm_tail h' tail_bs \<Longrightarrow> h = h'"
  by (cases "(h, tail_bs)" rule: mm_tail.cases) (auto, (metis xor_cancel_right)+)

section \<open>Keys that differ in one byte\<close>

definition one_byte_apart :: "u8 list \<Rightarrow> u8 list \<Rightarrow> bool" where
  "one_byte_apart xs ys \<longleftrightarrow> (\<exists>p a b q. a \<noteq> b \<and> xs = p @ a # q \<and> ys = p @ b # q)"

lemma one_byte_apart_Cons:
  "one_byte_apart (x # xs) (y # ys) \<longleftrightarrow> (x \<noteq> y \<and> xs = ys) \<or> (x = y \<and> one_byte_apart xs ys)"
  (is "?l \<longleftrightarrow> ?r")
proof
  assume ?l
  then obtain p a b q where "a \<noteq> b" "x # xs = p @ a # q" "y # ys = p @ b # q"
    by (auto simp: one_byte_apart_def)
  then show ?r by (cases p) (auto simp: one_byte_apart_def)
next
  assume ?r
  then show ?l
  proof
    assume "x \<noteq> y \<and> xs = ys"
    then show ?l by (auto simp: one_byte_apart_def intro: exI [of _ "[]"])
  next
    assume "x = y \<and> one_byte_apart xs ys"
    then obtain p a b q where "a \<noteq> b" "x = y" "xs = p @ a # q" "ys = p @ b # q"
      by (auto simp: one_byte_apart_def)
    then have "a \<noteq> b \<and> x # xs = (x # p) @ a # q \<and> y # ys = (x # p) @ b # q" by simp
    then show ?l unfolding one_byte_apart_def by blast
  qed
qed

lemma one_byte_apart_Nil [simp]: "\<not> one_byte_apart [] ys" "\<not> one_byte_apart xs []"
  by (auto simp: one_byte_apart_def)

lemma one_byte_apart_length: "one_byte_apart xs ys \<Longrightarrow> length xs = length ys"
  by (auto simp: one_byte_apart_def)

lemma base_256_step:
  fixes a b m n :: nat
  assumes "a < 256" "b < 256" "a + 256 * m = b + 256 * n"
  shows "a = b \<and> m = n"
proof -
  have "(a + 256 * m) mod 256 = a" "(b + 256 * n) mod 256 = b"
    "(a + 256 * m) div 256 = m" "(b + 256 * n) div 256 = n" using assms(1,2) by simp_all
  with assms(3) show ?thesis by metis
qed

lemma of_le_inj: "length xs = length ys \<Longrightarrow> of_le xs = of_le ys \<Longrightarrow> xs = ys"
proof (induction xs ys rule: list_induct2)
  case (Cons x xs y ys)
  have "unat x < 256" "unat y < 256"
    using unsigned_less [of x, where ?'a = nat] unsigned_less [of y, where ?'a = nat] by simp_all
  moreover have "unat x + 256 * of_le xs = unat y + 256 * of_le ys"
    using Cons.prems by simp
  ultimately have "unat x = unat y \<and> of_le xs = of_le ys" by (rule base_256_step)
  then show ?case using Cons.IH by (simp add: word_unat_eq_iff)
qed simp

lemma getblock32_inj:
  assumes "length xs = 4" "length ys = 4" "getblock32 xs = getblock32 ys"
  shows "xs = ys"
proof -
  have "unat (getblock32 zs) = of_le zs" if "length zs = 4" for zs
  proof -
    have "of_le zs < 2 ^ LENGTH(32)" using of_le_bound [of zs] that by simp
    then show ?thesis using that by (simp add: getblock32_def unat_of_nat_small)
  qed
  with assms have "of_le xs = of_le ys" by metis
  then show ?thesis using assms by (intro of_le_inj) auto
qed

lemma ucast_u8_inj: "(ucast x :: u32) = ucast y \<longleftrightarrow> x = (y :: u8)"
proof
  assume "(ucast x :: u32) = ucast y"
  then have "unat (ucast x :: u32) = unat (ucast y :: u32)" by simp
  then show "x = y" by (simp add: word_unat_eq_iff)
qed simp

lemma push_bit_u8_inj:
  assumes "n \<le> 16"
  shows "push_bit n (ucast x :: u32) = push_bit n (ucast y) \<longleftrightarrow> x = (y :: u8)"
proof
  assume eq: "push_bit n (ucast x :: u32) = push_bit n (ucast y)"
  have "unat (push_bit n (ucast z :: u32)) = unat z * 2 ^ n" for z :: u8
  proof -
    have "unat z < 256" using unsigned_less [of z, where ?'a = nat] by simp
    moreover have "(2::nat) ^ n \<le> 2 ^ 16" using assms by (intro power_increasing) auto
    ultimately have "unat z * 2 ^ n < 256 * 2 ^ 16" by (intro mult_less_le_imp_less) auto
    then have "unat z * 2 ^ n < 2 ^ LENGTH(32)" by simp
    moreover have "push_bit n (ucast z :: u32) = of_nat (unat z * 2 ^ n)"
      by (simp add: push_bit_eq_mult)
    ultimately show ?thesis by (simp only: unat_of_nat_small)
  qed
  with eq have "unat x * 2 ^ n = unat y * 2 ^ n" by metis
  then show "x = y" by (simp add: word_unat_eq_iff)
qed simp

lemma mm_body_short: "length bs < 4 \<Longrightarrow> mm_body h bs = (h, bs)"
  by (cases "(h, bs)" rule: mm_body.cases) auto

lemma mm_tail_apart:
  assumes "length xs < 4" "one_byte_apart xs ys"
  shows "mm_tail h xs \<noteq> mm_tail h ys"
proof
  assume eq: "mm_tail h xs = mm_tail h ys"
  have len: "length ys = length xs" using one_byte_apart_length [OF assms(2)] by simp
  consider (0) "xs = []" | (1) a where "xs = [a]" | (2) a b where "xs = [a, b]"
    | (3) a b c where "xs = [a, b, c]"
    using assms(1) by (auto simp: less_Suc_eq numeral_eq_Suc length_Suc_conv)
  then show False
  proof cases
    case 0
    with assms show ?thesis by simp
  next
    case 1
    then obtain a' where "ys = [a']" using len by (auto simp: length_Suc_conv)
    with 1 assms(2) eq show ?thesis
      by (auto simp: one_byte_apart_Cons xor_eq_iff_right ucast_u8_inj dest: mm_scramble_inj)
  next
    case 2
    then obtain a' b' where "ys = [a', b']" using len by (auto simp: length_Suc_conv)
    with 2 assms(2) eq show ?thesis
      by (auto simp: one_byte_apart_Cons xor_eq_iff_right xor_eq_iff_left ucast_u8_inj
          push_bit_u8_inj dest!: mm_scramble_inj)
  next
    case 3
    then obtain a' b' c' where "ys = [a', b', c']" using len by (auto simp: length_Suc_conv)
    with 3 assms(2) eq show ?thesis
      by (auto simp: one_byte_apart_Cons xor_eq_iff_right xor_eq_iff_left ucast_u8_inj
          push_bit_u8_inj dest!: mm_scramble_inj)
  qed
qed

lemma mm_apart_short:
  assumes "one_byte_apart xs ys" "length xs < 4"
  shows "mm_tail (fst (mm_body h xs)) (snd (mm_body h xs)) \<noteq>
    mm_tail (fst (mm_body h ys)) (snd (mm_body h ys))"
  using assms one_byte_apart_length [OF assms(1)] by (simp add: mm_body_short mm_tail_apart)

lemma mm_apart:
  "one_byte_apart xs ys \<Longrightarrow>
    mm_tail (fst (mm_body h xs)) (snd (mm_body h xs)) \<noteq>
    mm_tail (fst (mm_body h ys)) (snd (mm_body h ys))"
proof (induction h xs arbitrary: ys rule: mm_body.induct)
  case (1 h b0 b1 b2 b3 bs)
  from 1(2) obtain c0 c1 c2 c3 cs where ys: "ys = c0 # c1 # c2 # c3 # cs"
    using one_byte_apart_length [OF 1(2), symmetric] by (auto simp: length_Suc_conv)
  show ?case
  proof (cases "[b0, b1, b2, b3] = [c0, c1, c2, c3]")
    case True
    then have "one_byte_apart bs cs" using 1(2) ys by (auto simp: one_byte_apart_Cons)
    from 1(1) [OF this] True ys show ?thesis by simp
  next
    case False
    then have "cs = bs" using 1(2) ys by (auto simp: one_byte_apart_Cons)
    moreover have "mm_round h (getblock32 [b0, b1, b2, b3]) \<noteq> mm_round h (getblock32 [c0, c1, c2, c3])"
      using False by (auto dest!: mm_round_inj_k getblock32_inj [rotated 2])
    ultimately show ?thesis using ys
      by simp (metis mm_body_tail mm_tail_inj_h mm_body_inj_h)
  qed
qed (rule mm_apart_short, assumption, simp)+

lemma MurmurHash3_x86_32_apart:
  assumes "one_byte_apart xs ys"
  shows "MurmurHash3_x86_32 xs seed \<noteq> MurmurHash3_x86_32 ys seed"
proof
  assume "MurmurHash3_x86_32 xs seed = MurmurHash3_x86_32 ys seed"
  then have "mm_tail (fst (mm_body seed xs)) (snd (mm_body seed xs)) XOR of_nat (length xs) =
      mm_tail (fst (mm_body seed ys)) (snd (mm_body seed ys)) XOR of_nat (length xs)"
    using one_byte_apart_length [OF assms]
    by (auto simp: MurmurHash3_x86_32_def split_beta dest: fmix32_inj)
  then show False using mm_apart [OF assms] by (metis xor_cancel_right)
qed

text \<open>The hash of a concrete string evaluates by rewriting.\<close>

lemmas hash_eval = hash_str_32_def hash_32_def MurmurHash3_x86_32_def bytes_of_def KUNGFU_HASH_SEED_def
  mm_scramble_def mm_c1_def mm_c2_def rotl32_def fmix32_def mm_round_def getblock32_def

end
