(* ===== verification/Locations.thy ===== *)
theory Locations
  imports Hash
begin

text \<open>
  Names and places (yijinjing/common.h, time.h, nanomsg/socket.h, io.cpp): the modes,
  categories and layouts and their names, the location of a process with its unique name
  and 32-bit identifier, the page size of a journal, the units of time, and the socket
  protocols with the files they meet at.
\<close>

section \<open>Sizes and time\<close>

definition KB :: nat where "KB = 1024"
definition MB :: nat where "MB = KB * KB"

definition NANOSECONDS_PER_MILLISECOND :: i64 where "NANOSECONDS_PER_MILLISECOND = 1000000"
definition NANOSECONDS_PER_SECOND :: i64 where "NANOSECONDS_PER_SECOND = 1000000000"
definition NANOSECONDS_PER_MINUTE :: i64 where "NANOSECONDS_PER_MINUTE = NANOSECONDS_PER_SECOND * 60"
definition NANOSECONDS_PER_HOUR :: i64 where "NANOSECONDS_PER_HOUR = NANOSECONDS_PER_SECOND * (60 * 60)"
definition NANOSECONDS_PER_DAY :: i64 where "NANOSECONDS_PER_DAY = NANOSECONDS_PER_HOUR * 24"

lemmas time_units = NANOSECONDS_PER_MILLISECOND_def NANOSECONDS_PER_SECOND_def
  NANOSECONDS_PER_MINUTE_def NANOSECONDS_PER_HOUR_def NANOSECONDS_PER_DAY_def

text \<open>The clock: the wall time when the process started, advanced by a steady clock.\<close>

record clock =
  start_time_since_epoch :: i64
  start_time_steady :: i64

definition now_in_nano :: "clock \<Rightarrow> i64 \<Rightarrow> i64" where
  "now_in_nano c steady_now = start_time_since_epoch c + (steady_now - start_time_steady c)"

text \<open>\<open>%\<close> of C++ truncates towards zero.\<close>

definition next_minute_nano :: "i64 \<Rightarrow> i64" where
  "next_minute_nano nanotime =
    nanotime - nanotime smod NANOSECONDS_PER_MINUTE + NANOSECONDS_PER_MINUTE"

definition next_day_nano :: "i64 \<Rightarrow> i64 \<Rightarrow> i64" where
  "next_day_nano now nanotime =
    (let day = nanotime - nanotime smod NANOSECONDS_PER_DAY
               + 7 * NANOSECONDS_PER_HOUR + 30 * NANOSECONDS_PER_MINUTE
     in if day < now then day + NANOSECONDS_PER_DAY else day)"

lemma now_in_nano_mono: "s \<le> t \<Longrightarrow> now_in_nano c s \<le> now_in_nano c t"
  by (simp add: now_in_nano_def)

lemma smod_nonneg: "0 \<le> (a::int) \<Longrightarrow> 0 < b \<Longrightarrow> a smod b = a mod b"
  by (cases "a = 0") (simp_all add: signed_modulo_int_def signed_divide_int_def minus_div_mult_eq_mod
      flip: minus_mult_div_eq_mod)

lemma next_minute_nano_bounds:
  assumes "0 \<le> t"
  shows "t < next_minute_nano t" "next_minute_nano t \<le> t + NANOSECONDS_PER_MINUTE"
    "NANOSECONDS_PER_MINUTE dvd next_minute_nano t"
proof -
  have p: "0 < NANOSECONDS_PER_MINUTE" by (simp add: time_units)
  have eq: "next_minute_nano t = t - t mod NANOSECONDS_PER_MINUTE + NANOSECONDS_PER_MINUTE"
    using smod_nonneg [OF assms p] by (simp add: next_minute_nano_def)
  show "t < next_minute_nano t" using eq pos_mod_bound [OF p, of t] by simp
  show "next_minute_nano t \<le> t + NANOSECONDS_PER_MINUTE"
    using eq pos_mod_sign [OF p, of t] by simp
  show "NANOSECONDS_PER_MINUTE dvd next_minute_nano t"
    unfolding eq by (simp add: minus_mod_eq_mult_div)
qed

section \<open>Modes, categories, layouts\<close>

datatype mode = LIVE | DATA | REPLAY | BACKTEST

fun get_mode_name :: "mode \<Rightarrow> string" where
  "get_mode_name LIVE = ''live''"
| "get_mode_name DATA = ''data''"
| "get_mode_name REPLAY = ''replay''"
| "get_mode_name BACKTEST = ''backtest''"

definition get_mode_by_name :: "string \<Rightarrow> mode" where
  "get_mode_by_name name =
    (if name = ''live'' then LIVE
     else if name = ''data'' then DATA
     else if name = ''replay'' then REPLAY
     else if name = ''backtest'' then BACKTEST
     else LIVE)"

datatype category = MD | TD | STRATEGY | SYSTEM

fun get_category_name :: "category \<Rightarrow> string" where
  "get_category_name MD = ''md''"
| "get_category_name TD = ''td''"
| "get_category_name STRATEGY = ''strategy''"
| "get_category_name SYSTEM = ''system''"

datatype layout = JOURNAL | SQLITE | NANOMSG | LOG

fun get_layout_name :: "layout \<Rightarrow> string" where
  "get_layout_name JOURNAL = ''journal''"
| "get_layout_name SQLITE = ''db''"
| "get_layout_name NANOMSG = ''nn''"
| "get_layout_name LOG = ''log''"

lemma get_mode_by_name_of_name [simp]: "get_mode_by_name (get_mode_name m) = m"
  by (cases m) (simp_all add: get_mode_by_name_def)

lemma get_mode_name_inject: "get_mode_name m = get_mode_name m' \<longleftrightarrow> m = m'"
  by (metis get_mode_by_name_of_name)

lemma get_category_name_inject: "get_category_name c = get_category_name c' \<longleftrightarrow> c = c'"
  by (cases c; cases c') simp_all

lemma category_name_no_slash: "CHR ''/'' \<notin> set (get_category_name c)"
  by (cases c) simp_all

lemma mode_name_no_slash: "CHR ''/'' \<notin> set (get_mode_name m)"
  by (cases m) simp_all

section \<open>Locations\<close>

record location =
  l_mode :: mode
  l_category :: category
  l_group :: string
  l_name :: string

definition uname :: "location \<Rightarrow> string" where
  "uname l = get_category_name (l_category l) @ ''/'' @ l_group l @ ''/'' @ l_name l @ ''/''
             @ get_mode_name (l_mode l)"

definition uid :: "location \<Rightarrow> u32" where
  "uid l = hash_str_32 (uname l)"

definition make_location :: "mode \<Rightarrow> category \<Rightarrow> string \<Rightarrow> string \<Rightarrow> location" where
  "make_location m c g n = \<lparr>l_mode = m, l_category = c, l_group = g, l_name = n\<rparr>"

lemma append_sep_inject:
  assumes "x \<notin> set a" "x \<notin> set a'"
  shows "a @ x # b = a' @ x # b' \<longleftrightarrow> a = a' \<and> b = b'"
proof
  assume eq: "a @ x # b = a' @ x # b'"
  then have "takeWhile ((\<noteq>) x) (a @ x # b) = takeWhile ((\<noteq>) x) (a' @ x # b')" by simp
  moreover have "takeWhile ((\<noteq>) x) (c @ x # d) = c" if "x \<notin> set c" for c d
    using that by (induction c) auto
  ultimately have "a = a'" using assms by metis
  with eq show "a = a' \<and> b = b'" by simp
qed simp

lemma uname_inject:
  assumes "CHR ''/'' \<notin> set (l_group l)" "CHR ''/'' \<notin> set (l_name l)"
    and "CHR ''/'' \<notin> set (l_group l')" "CHR ''/'' \<notin> set (l_name l')"
    and "uname l = uname l'"
  shows "l = l'"
proof -
  have "get_category_name (l_category l) = get_category_name (l_category l') \<and>
    l_group l = l_group l' \<and> l_name l = l_name l' \<and> get_mode_name (l_mode l) = get_mode_name (l_mode l')"
    using assms by (simp add: uname_def append_sep_inject category_name_no_slash)
  then show ?thesis by (simp add: get_mode_name_inject get_category_name_inject)
qed

section \<open>The page size of a journal (page.h)\<close>

definition find_page_size :: "category \<Rightarrow> u32 \<Rightarrow> u32" where
  "find_page_size cat dest_id =
    (if cat = MD \<and> dest_id = 0 then of_nat (128 * MB)
     else if (cat = TD \<or> cat = STRATEGY) \<and> dest_id \<noteq> 0 then of_nat (4 * MB)
     else of_nat MB)"

lemma find_page_size_cases:
  "find_page_size c d \<in> {0x8000000, 0x400000, 0x100000}"
  by (simp add: find_page_size_def MB_def KB_def)

lemma find_page_size_ge: "1048576 \<le> unat (find_page_size c d)"
  using find_page_size_cases [of c d] by auto

section \<open>Sockets\<close>

datatype protocol = UNKNOWN | REPLY | REQUEST | PUSH | PULL | PUBLISH | SUBSCRIBE

fun get_protocol_name :: "protocol \<Rightarrow> string" where
  "get_protocol_name REPLY = ''rep''"
| "get_protocol_name REQUEST = ''req''"
| "get_protocol_name PUSH = ''push''"
| "get_protocol_name PULL = ''pull''"
| "get_protocol_name PUBLISH = ''pub''"
| "get_protocol_name SUBSCRIBE = ''sub''"
| "get_protocol_name UNKNOWN = ''unknown''"

fun get_opposite_protol :: "protocol \<Rightarrow> protocol" where
  "get_opposite_protol REPLY = REQUEST"
| "get_opposite_protol REQUEST = REPLY"
| "get_opposite_protol PUSH = PULL"
| "get_opposite_protol PULL = PUSH"
| "get_opposite_protol PUBLISH = SUBSCRIBE"
| "get_opposite_protol SUBSCRIBE = PUBLISH"
| "get_opposite_protol UNKNOWN = UNKNOWN"

text \<open>The files of a layout come from the locator, an interface the front end implements:
  it is a parameter.\<close>

definition make_path_bind ::
    "(location \<Rightarrow> layout \<Rightarrow> string \<Rightarrow> string) \<Rightarrow> location \<Rightarrow> protocol \<Rightarrow> string" where
  "make_path_bind layout_file l p = layout_file l NANOMSG (get_protocol_name p)"

definition make_path_connect ::
    "(location \<Rightarrow> layout \<Rightarrow> string \<Rightarrow> string) \<Rightarrow> location \<Rightarrow> protocol \<Rightarrow> string" where
  "make_path_connect layout_file l p =
    layout_file l NANOMSG (get_protocol_name (get_opposite_protol p))"

text \<open>The location every process meets the master at, and the sockets of the two ends: the
  master binds, the clients connect.\<close>

definition master_location :: location where
  "master_location = make_location LIVE SYSTEM ''master'' ''master''"

datatype device_role = MasterDevice | ClientDevice

fun publisher_protocol :: "device_role \<Rightarrow> protocol" where
  "publisher_protocol MasterDevice = PUBLISH"
| "publisher_protocol ClientDevice = PUSH"

fun observer_protocol :: "device_role \<Rightarrow> protocol" where
  "observer_protocol MasterDevice = PULL"
| "observer_protocol ClientDevice = SUBSCRIBE"

fun init_socket ::
    "(location \<Rightarrow> layout \<Rightarrow> string \<Rightarrow> string) \<Rightarrow> device_role \<Rightarrow> protocol \<Rightarrow> string" where
  "init_socket layout_file MasterDevice p = make_path_bind layout_file master_location p"
| "init_socket layout_file ClientDevice p = make_path_connect layout_file master_location p"

text \<open>The journals of the master are opened eagerly, those of a client lazily.\<close>

fun device_lazy :: "device_role \<Rightarrow> bool" where
  "device_lazy MasterDevice = False"
| "device_lazy ClientDevice = True"

definition live_home :: "location \<Rightarrow> location" where
  "live_home home = make_location LIVE (l_category home) (l_group home) (l_name home)"

lemma opposite_involution: "get_opposite_protol (get_opposite_protol p) = p"
  by (cases p) simp_all

lemma observer_meets_publisher:
  "init_socket f ClientDevice (publisher_protocol ClientDevice) =
   init_socket f MasterDevice (observer_protocol MasterDevice)"
  "init_socket f ClientDevice (observer_protocol ClientDevice) =
   init_socket f MasterDevice (publisher_protocol MasterDevice)"
  by (simp_all add: make_path_bind_def make_path_connect_def)

end
