(* ===== verification/Journal.thy ===== *)
theory Journal
  imports Frame Locations "HOL-Library.Monad_Syntax"
begin

text \<open>
  Pages on disk and the journal cursor (util/mmap.cpp, journal/page.cpp, journal/journal.cpp).

  A journal directory holds the files of one journal, page by page: \<open>files\<close> gives the length
  of the file linked under a page's name, \<open>pages\<close> its bytes.  A page that is mapped keeps its
  bytes after its file is unlinked.  Bytes past the end of a file are zero.

  A \<open>journal\<close> is one process's cursor: the page it maps and the offset of its frame.  Every
  system call can fail; \<open>os_env\<close> says which do.  An error value stands for the exception the
  code throws, the signal that kills the process, or the failed assertion.
\<close>

section \<open>The file system\<close>

record jdir =
  files :: "int \<rightharpoonup> nat"
  pages :: "int \<Rightarrow> mem"

definition empty_dir :: jdir where
  "empty_dir = \<lparr>files = (\<lambda>_. None), pages = (\<lambda>_. zero_mem)\<rparr>"

record os_env =
  open_ok :: bool
  lseek_ok :: bool
  write_ok :: bool
  mmap_ok :: bool
  madvise_ok :: bool
  mlock_ok :: bool
  clear_journal :: bool

definition healthy :: "os_env \<Rightarrow> bool" where
  "healthy e \<longleftrightarrow> open_ok e \<and> lseek_ok e \<and> write_ok e \<and> mmap_ok e \<and> madvise_ok e \<and> mlock_ok e"

datatype jerror =
    OpenFailed | StretchFailed | WriteFailed | MapFailed | LockMemoryFailed
  | VersionMismatch u32 | HeaderLengthMismatch u32 | PageSizeMismatch u32
  | BusError | SegmentationFault | WriterLocked | LockPending | AssertFailed

section \<open>load_mmap_buffer\<close>

definition load_mmap_buffer ::
    "os_env \<Rightarrow> int \<Rightarrow> nat \<Rightarrow> bool \<Rightarrow> bool \<Rightarrow> jdir \<Rightarrow> jerror + jdir" where
  "load_mmap_buffer e pid sz is_writing lazy d =
    (let master = is_writing \<or> \<not> lazy in
     if \<not> open_ok e then Inl OpenFailed
     else
       let d1 = (case files d pid of
                   None \<Rightarrow> d\<lparr>files := (files d)(pid \<mapsto> 0), pages := (pages d)(pid := zero_mem)\<rparr>
                 | Some n \<Rightarrow> d)
       in
       if master \<and> \<not> lseek_ok e then Inl StretchFailed
       else if master \<and> \<not> write_ok e then Inl WriteFailed
       else
         let d2 = (if master
                   then d1\<lparr>files := (files d1)(pid \<mapsto> max sz (case files d1 pid of None \<Rightarrow> 0 | Some n \<Rightarrow> n)),
                           pages := (pages d1)(pid := store_bytes (sz - 1) [0] (pages d1 pid))\<rparr>
                   else d1)
         in
         if \<not> mmap_ok e then Inl MapFailed
         else if \<not> lazy \<and> \<not> madvise_ok e \<and> \<not> mlock_ok e then Inl LockMemoryFailed
         else Inr d2)"

section \<open>page::load and page::find_page_id\<close>

definition JOURNAL_VERSION :: u32 where "JOURNAL_VERSION = 4"

definition init_page :: "u32 \<Rightarrow> mem \<Rightarrow> mem" where
  "init_page page_size m =
    (let m1 = put32 0 JOURNAL_VERSION m;
         m2 = put32 4 (of_nat sizeof_page_header) m1;
         m3 = put32 8 page_size m2;
         m4 = put32 12 (of_nat sizeof_frame_header) m3
     in set_last_frame_position (ucast (pg_header_length m4)) m4)"

definition check_page :: "u32 \<Rightarrow> mem \<Rightarrow> jerror option" where
  "check_page page_size m =
    (if pg_version m \<noteq> JOURNAL_VERSION then Some (VersionMismatch (pg_version m))
     else if pg_header_length m \<noteq> of_nat sizeof_page_header
       then Some (HeaderLengthMismatch (pg_header_length m))
     else if get_page_size m \<noteq> page_size then Some (PageSizeMismatch (get_page_size m))
     else None)"

text \<open>A mapping of an empty file faults when the header is read, and a reader that maps a page
  nobody has initialised faults when it writes the header into its read-only mapping.\<close>

definition page_load ::
    "os_env \<Rightarrow> category \<Rightarrow> u32 \<Rightarrow> int \<Rightarrow> bool \<Rightarrow> bool \<Rightarrow> jdir \<Rightarrow> jerror + jdir" where
  "page_load e cat dest_id pid is_writing lazy d =
    (let page_size = find_page_size cat dest_id in
     bindE (load_mmap_buffer e pid (unat page_size) is_writing lazy d) (\<lambda>d1.
       if files d1 pid = Some 0 then Inl BusError
       else if last_frame_position (pages d1 pid) = 0 \<and> \<not> (is_writing \<or> \<not> lazy)
         then Inl SegmentationFault
       else
         let d2 = (if last_frame_position (pages d1 pid) = 0
                   then d1\<lparr>pages := (pages d1)(pid := init_page page_size (pages d1 pid))\<rparr>
                   else d1)
         in case check_page page_size (pages d2 pid) of
              Some err \<Rightarrow> Inl err
            | None \<Rightarrow> Inr d2))"

fun find_page_loop ::
    "os_env \<Rightarrow> category \<Rightarrow> u32 \<Rightarrow> i64 \<Rightarrow> int list \<Rightarrow> int \<Rightarrow> jdir \<Rightarrow> jerror + jdir \<times> int" where
  "find_page_loop e cat dest_id time [] front d = Inr (d, front)"
| "find_page_loop e cat dest_id time (pid # pids) front d =
    bindE (page_load e cat dest_id pid False True d) (\<lambda>d1.
      if begin_time (pages d1 pid) < time then Inr (d1, pid)
      else find_page_loop e cat dest_id time pids front d1)"

text \<open>\<open>page_ids\<close> is what \<open>locator->list_page_id\<close> returns: the ids of the page files, ascending.\<close>

definition find_page_id ::
    "os_env \<Rightarrow> category \<Rightarrow> u32 \<Rightarrow> int list \<Rightarrow> i64 \<Rightarrow> jdir \<Rightarrow> jerror + jdir \<times> int" where
  "find_page_id e cat dest_id page_ids time d =
    (if page_ids = [] then Inr (d, 1)
     else if time = 0 then Inr (d, hd page_ids)
     else find_page_loop e cat dest_id time (rev page_ids) (hd page_ids) d)"

section \<open>class journal\<close>

record journal =
  j_location_uid :: u32
  j_category :: category
  j_dest_id :: u32
  j_is_writing :: bool
  j_lazy :: bool
  j_page :: "int option"
  j_frame :: nat
  j_page_frame_nb :: i32

definition new_journal :: "location \<Rightarrow> u32 \<Rightarrow> bool \<Rightarrow> bool \<Rightarrow> journal" where
  "new_journal l dest_id is_writing lazy =
    \<lparr>j_location_uid = uid l, j_category = l_category l, j_dest_id = dest_id,
     j_is_writing = is_writing, j_lazy = lazy, j_page = None, j_frame = 0, j_page_frame_nb = 0\<rparr>"

definition MAX_MD_PAGE_NUMBER :: int where "MAX_MD_PAGE_NUMBER = 8"
definition MAX_PAGE_NUMBER :: int where "MAX_PAGE_NUMBER = 50"

definition PageEnd :: i32 where "PageEnd = 10000"

definition clear_old_page :: "os_env \<Rightarrow> int \<Rightarrow> journal \<Rightarrow> jdir \<Rightarrow> jdir" where
  "clear_old_page e page_id j d =
    (if clear_journal e \<and> (j_is_writing j \<or> \<not> j_lazy j)
     then let page_number = (if j_category j = MD \<and> j_dest_id j = 0
                             then MAX_MD_PAGE_NUMBER else MAX_PAGE_NUMBER)
          in if page_id > page_number
             then d\<lparr>files := (files d)(page_id - MAX_PAGE_NUMBER := None)\<rparr>
             else d
     else d)"

definition load_page :: "os_env \<Rightarrow> int \<Rightarrow> jdir \<times> journal \<Rightarrow> jerror + jdir \<times> journal" where
  "load_page e page_id s =
    (let (d, j) = s in
     bindE (if j_page j \<noteq> Some page_id
            then bindE (page_load e (j_category j) (j_dest_id j) page_id (j_is_writing j) (j_lazy j) d)
                  (\<lambda>d1. Inr (d1, j\<lparr>j_page := Some page_id,
                                   j_frame := first_frame_address (pages d1 page_id),
                                   j_page_frame_nb := 0\<rparr>))
            else Inr (d, j))
       (\<lambda>(d1, j1). Inr (clear_old_page e page_id j1 d1, j1)))"

definition load_next_page :: "os_env \<Rightarrow> jdir \<times> journal \<Rightarrow> jerror + jdir \<times> journal" where
  "load_next_page e s =
    (case j_page (snd s) of
       None \<Rightarrow> Inl SegmentationFault
     | Some p \<Rightarrow> load_page e (p + 1) s)"

definition next_frame :: "os_env \<Rightarrow> jdir \<times> journal \<Rightarrow> jerror + jdir \<times> journal" where
  "next_frame e s =
    (let (d, j) = s in
     case j_page j of
       None \<Rightarrow> Inl AssertFailed
     | Some p \<Rightarrow>
         if msg_type (pages d p) (j_frame j) = PageEnd then load_next_page e (d, j)
         else Inr (d, j\<lparr>j_frame := move_to_next (pages d p) (j_frame j),
                        j_page_frame_nb := j_page_frame_nb j + 1\<rparr>))"

text \<open>The page the cursor is on, as memory.\<close>

definition cur_mem :: "jdir \<times> journal \<Rightarrow> mem" where
  "cur_mem s = (case j_page (snd s) of None \<Rightarrow> zero_mem | Some p \<Rightarrow> pages (fst s) p)"

definition cur_has_data :: "jdir \<times> journal \<Rightarrow> bool" where
  "cur_has_data s = has_data (cur_mem s) (j_frame (snd s))"

definition cur_event :: "jdir \<times> journal \<Rightarrow> event" where
  "cur_event s = frame_at (cur_mem s) (j_frame (snd s))"

text \<open>The two loops of \<open>seek_to_time\<close>.  They run as long as the pages and frames go on, so they are
  partial functions: \<open>None\<close> would be a loop that never ends.\<close>

partial_function (option) seek_pages ::
    "os_env \<Rightarrow> i64 \<Rightarrow> jdir \<times> journal \<Rightarrow> (jerror + jdir \<times> journal) option" where
  "seek_pages e nanotime s =
    (if is_full (cur_mem s) \<and> end_time (cur_mem s) \<le> nanotime
     then (case load_next_page e s of
             Inl err \<Rightarrow> Some (Inl err)
           | Inr s' \<Rightarrow> seek_pages e nanotime s')
     else Some (Inr s))"

partial_function (option) seek_frames ::
    "os_env \<Rightarrow> i64 \<Rightarrow> jdir \<times> journal \<Rightarrow> (jerror + jdir \<times> journal) option" where
  "seek_frames e nanotime s =
    (if cur_has_data s \<and> gen_time (cur_mem s) (j_frame (snd s)) \<le> nanotime
     then (case next_frame e s of
             Inl err \<Rightarrow> Some (Inl err)
           | Inr s' \<Rightarrow> seek_frames e nanotime s')
     else Some (Inr s))"

definition seek_to_time ::
    "os_env \<Rightarrow> int list \<Rightarrow> i64 \<Rightarrow> jdir \<times> journal \<Rightarrow> (jerror + jdir \<times> journal) option" where
  "seek_to_time e page_ids nanotime s =
    (let (d, j) = s in
     case bindE (find_page_id e (j_category j) (j_dest_id j) page_ids nanotime d)
           (\<lambda>(d1, page_id). load_page e page_id (d1, j)) of
       Inl err \<Rightarrow> Some (Inl err)
     | Inr s1 \<Rightarrow>
         (case seek_pages e nanotime s1 of
            None \<Rightarrow> None
          | Some (Inl err) \<Rightarrow> Some (Inl err)
          | Some (Inr s2) \<Rightarrow> seek_frames e nanotime s2))"

end
