(* ===== verification/Log.thy ===== *)
theory Log
  imports Journal
begin

text \<open>
  The abstract view of a journal: a chain of frames from one position to another, across
  pages, as a list of events.  Positions are a page id and an offset.  The lemmas give the
  two facts everything else rests on: a chain is not disturbed by a change outside it, and a
  cursor on a chain walks along it.
\<close>

section \<open>Chains of frames\<close>

definition page_ok :: "u32 \<Rightarrow> jdir \<Rightarrow> int \<Rightarrow> bool" where
  "page_ok sz d p \<longleftrightarrow>
    (\<exists>n. files d p = Some n \<and> 0 < n) \<and> check_page sz (pages d p) = None \<and>
    last_frame_position (pages d p) \<noteq> 0"

fun jchain :: "u32 \<Rightarrow> jdir \<Rightarrow> int \<Rightarrow> nat \<Rightarrow> event list \<Rightarrow> int \<Rightarrow> nat \<Rightarrow> bool" where
  "jchain sz d p a [] p' a' \<longleftrightarrow> p = p' \<and> a = a' \<and> page_ok sz d p"
| "jchain sz d p a (f # fs) p' a' \<longleftrightarrow>
    page_ok sz d p \<and> good_frame (pages d p) a \<and> frame_at (pages d p) a = f \<and>
    a + unat (frame_length (pages d p) a) < unat sz \<and>
    (if e_msg_type f = PageEnd
     then unat (last_frame_position (pages d p)) = a \<and> jchain sz d (p + 1) 24 fs p' a'
     else jchain sz d p (a + unat (frame_length (pages d p) a)) fs p' a')"

lemma jchain_append:
  "jchain sz d p a (fs @ gs) p'' a'' \<longleftrightarrow>
    (\<exists>p' a'. jchain sz d p a fs p' a' \<and> jchain sz d p' a' gs p'' a'')"
proof (induction fs arbitrary: p a)
  case Nil
  show ?case by (cases gs) auto
next
  case (Cons f fs)
  then show ?case by auto
qed

lemma jchain_mono:
  "jchain sz d p a fs p' a' \<Longrightarrow> p \<le> p' \<and> (p = p' \<longrightarrow> a \<le> a')"
proof (induction fs arbitrary: p a)
  case (Cons f fs)
  show ?case
  proof (cases "e_msg_type f = PageEnd")
    case True
    with Cons.prems have "jchain sz d (p + 1) 24 fs p' a'" by simp
    from Cons.IH [OF this] show ?thesis by simp
  next
    case False
    with Cons.prems have "jchain sz d p (a + unat (frame_length (pages d p) a)) fs p' a'" by simp
    from Cons.IH [OF this] show ?thesis by (auto dest: add_leD1)
  qed
qed simp

lemma jchain_page_ok: "jchain sz d p a fs p' a' \<Longrightarrow> page_ok sz d p \<and> page_ok sz d p'"
proof (induction fs arbitrary: p a)
  case (Cons f fs)
  then show ?case by (cases "e_msg_type f = PageEnd") auto
qed simp

text \<open>\<open>d'\<close> keeps what \<open>d\<close> holds up to page \<open>P\<close> and offset \<open>A\<close>.  The last byte of a page, which
  mapping it writes, and the page header of \<open>P\<close>, which every write updates, are free.\<close>

definition extends :: "u32 \<Rightarrow> int \<Rightarrow> nat \<Rightarrow> jdir \<Rightarrow> jdir \<Rightarrow> bool" where
  "extends sz P A d d' \<longleftrightarrow>
    (\<forall>p \<le> P. page_ok sz d p \<longrightarrow> page_ok sz d' p \<and>
      (\<forall>i < unat sz - 1. p < P \<or> 24 \<le> i \<and> i < A \<longrightarrow> pages d' p i = pages d p i))"

definition keeps :: "u32 \<Rightarrow> jdir \<Rightarrow> jdir \<Rightarrow> bool" where
  "keeps sz d d' \<longleftrightarrow>
    (\<forall>p. page_ok sz d p \<longrightarrow> page_ok sz d' p \<and>
      (\<forall>i < unat sz - 1. pages d' p i = pages d p i)) \<and>
    (\<forall>p. files d p = None \<longrightarrow> files d' p = None)"

lemma keeps_refl [simp]: "keeps sz d d"
  by (simp add: keeps_def)

lemma keeps_trans: "keeps sz d d' \<Longrightarrow> keeps sz d' d'' \<Longrightarrow> keeps sz d d''"
  unfolding keeps_def by metis

lemma keeps_extends: "keeps sz d d' \<Longrightarrow> extends sz P A d d'"
  by (simp add: keeps_def extends_def)

lemma extends_refl [simp]: "extends sz P A d d"
  by (simp add: extends_def)

lemma extends_trans:
  "extends sz P A d d' \<Longrightarrow> extends sz P A d' d'' \<Longrightarrow> extends sz P A d d''"
  unfolding extends_def by metis

lemma jchain_extends:
  assumes "jchain sz d p a fs p' a'" "extends sz p' a' d d'" "24 \<le> a" "1000 < unat sz"
  shows "jchain sz d' p a fs p' a'"
  using assms
proof (induction fs arbitrary: p a)
  case Nil
  then show ?case by (auto simp: extends_def)
next
  case (Cons f fs)
  let ?n = "unat (frame_length (pages d p) a)"
  have ok: "page_ok sz d p" and good: "good_frame (pages d p) a" and
    bound: "a + ?n < unat sz" using Cons.prems by simp_all
  have le: "p \<le> p'" using jchain_mono [OF Cons.prems(1)] by simp
  show ?case
  proof (cases "e_msg_type f = PageEnd")
    case True
    then have rest: "jchain sz d (p + 1) 24 fs p' a'"
      and last: "unat (last_frame_position (pages d p)) = a" using Cons.prems by simp_all
    have lt: "p < p'" using jchain_mono [OF rest] by simp
    then have agree: "pages d p i = pages d' p i" if "i < unat sz - 1" for i
      using Cons.prems(2) ok le that by (auto simp: extends_def)
    have "\<And>i. a \<le> i \<Longrightarrow> i < a + ?n \<Longrightarrow> pages d p i = pages d' p i"
      using agree bound by simp
    note frame = good_frame_cong [OF good this]
    have "last_frame_position (pages d' p) = last_frame_position (pages d p)"
      unfolding last_frame_position_def using agree Cons.prems(4)
      by (intro get64_cong) (simp add: eq_sym_conv)
    moreover have "jchain sz d' (p + 1) 24 fs p' a'"
      using Cons.IH [OF rest Cons.prems(2)] Cons.prems(4) by simp
    moreover have "page_ok sz d' p" using Cons.prems(2) ok le by (simp add: extends_def)
    ultimately show ?thesis
      using True frame last bound Cons.prems(1) by simp
  next
    case False
    then have rest: "jchain sz d p (a + ?n) fs p' a'" using Cons.prems by simp
    have mono: "p = p' \<longrightarrow> a + ?n \<le> a'" using jchain_mono [OF rest] by simp
    have "\<And>i. a \<le> i \<Longrightarrow> i < a + ?n \<Longrightarrow> pages d p i = pages d' p i"
    proof -
      fix i assume i: "a \<le> i" "i < a + ?n"
      then have "p < p' \<or> 24 \<le> i \<and> i < a'"
        using mono le Cons.prems(3) by (cases "p = p'") auto
      moreover have "i < unat sz - 1" using i bound by simp
      ultimately show "pages d p i = pages d' p i"
        using Cons.prems(2) ok le unfolding extends_def by metis
    qed
    note frame = good_frame_cong [OF good this]
    have "jchain sz d' p (a + ?n) fs p' a'"
      using Cons.IH [OF rest Cons.prems(2)] Cons.prems(3,4) by simp
    moreover have "page_ok sz d' p" using Cons.prems(2) ok le by (simp add: extends_def)
    ultimately show ?thesis
      using False frame bound Cons.prems(1) by simp
  qed
qed

lemma jchain_keeps:
  "jchain sz d p a fs p' a' \<Longrightarrow> keeps sz d d' \<Longrightarrow> 24 \<le> a \<Longrightarrow> 1000 < unat sz \<Longrightarrow>
    jchain sz d' p a fs p' a'"
  by (rule jchain_extends) (auto intro: keeps_extends)

section \<open>Loading a page that is already there\<close>

lemma check_page_cong:
  "(\<And>i. i < 12 \<Longrightarrow> m i = m' i) \<Longrightarrow> check_page sz m = check_page sz m'"
proof -
  assume "\<And>i. i < 12 \<Longrightarrow> m i = m' i"
  then have "pg_version m = pg_version m'" "pg_header_length m = pg_header_length m'"
    "get_page_size m = get_page_size m'"
    by (auto simp: page_getters intro!: get32_cong)
  then show ?thesis by (simp add: check_page_def)
qed

lemma page_ok_cong:
  assumes "page_ok sz d p" "\<And>i. i < 24 \<Longrightarrow> pages d' p i = pages d p i"
    "\<exists>n. files d' p = Some n \<and> 0 < n"
  shows "page_ok sz d' p"
proof -
  have "check_page sz (pages d' p) = check_page sz (pages d p)"
    using assms(2) by (intro check_page_cong) simp
  moreover have "last_frame_position (pages d' p) = last_frame_position (pages d p)"
    unfolding last_frame_position_def using assms(2) by (intro get64_cong) simp
  ultimately show ?thesis using assms by (simp add: page_ok_def)
qed

lemma page_ok_header:
  "page_ok sz d p \<Longrightarrow> pg_header_length (pages d p) = 24 \<and> get_page_size (pages d p) = sz"
  by (auto simp: page_ok_def check_page_def sizeof_page_header_def split: if_splits)

lemma page_ok_border: "page_ok sz d p \<Longrightarrow> address_border (pages d p) = unat sz - 36"
  using page_ok_header by (simp add: address_border_def sizeof_frame_header_def)

lemma page_ok_first: "page_ok sz d p \<Longrightarrow> first_frame_address (pages d p) = 24"
  using page_ok_header by (simp add: first_frame_address_def)

lemma page_load_existing:
  assumes "page_ok sz d p" "healthy e" "sz = find_page_size cat dst"
  shows "\<exists>d'. page_load e cat dst p wr lz d = Inr d' \<and> keeps sz d d' \<and> page_ok sz d' p"
proof -
  have big: "1000 < unat sz" using find_page_size_ge [of cat dst] assms(3) by simp
  obtain n where n: "files d p = Some n" "0 < n" using assms(1) by (auto simp: page_ok_def)
  define d1 where "d1 = (if wr \<or> \<not> lz
     then d\<lparr>files := (files d)(p \<mapsto> max (unat sz) n),
            pages := (pages d)(p := store_bytes (unat sz - 1) [0] (pages d p))\<rparr> else d)"
  have load: "load_mmap_buffer e p (unat sz) wr lz d = Inr d1"
    using assms(2) n by (simp add: load_mmap_buffer_def healthy_def d1_def Let_def)
  have same: "pages d1 q i = pages d q i" if "i < unat sz - 1" for q i
    using that by (simp add: d1_def store_bytes_def)
  have linked: "\<exists>m. files d1 q = Some m \<and> 0 < m" if "page_ok sz d q" for q
    using that n by (auto simp: d1_def page_ok_def)
  have keep: "keeps sz d d1"
    unfolding keeps_def
  proof (intro allI impI conjI)
    fix q assume q: "page_ok sz d q"
    show "page_ok sz d1 q" by (rule page_ok_cong [OF q same linked [OF q]]) (use big in simp)
  qed (use same n in \<open>auto simp: d1_def\<close>)
  then have ok1: "page_ok sz d1 p" using assms(1) by (simp add: keeps_def)
  have "page_load e cat dst p wr lz d = Inr d1"
    using load ok1 assms(3) by (auto simp: page_load_def page_ok_def Let_def)
  with keep ok1 show ?thesis by blast
qed

section \<open>A cursor on a chain\<close>

text \<open>An environment where no system call fails and old pages are not deleted.\<close>

definition quiet :: "os_env \<Rightarrow> bool" where
  "quiet e \<longleftrightarrow> healthy e \<and> \<not> clear_journal e"

definition cursor :: "u32 \<Rightarrow> journal \<Rightarrow> int \<Rightarrow> nat \<Rightarrow> bool" where
  "cursor sz j p a \<longleftrightarrow> j_page j = Some p \<and> j_frame j = a \<and>
     sz = find_page_size (j_category j) (j_dest_id j)"

text \<open>Moving changes the position only.\<close>

definition moved :: "journal \<Rightarrow> journal \<Rightarrow> bool" where
  "moved j j' \<longleftrightarrow> j_category j' = j_category j \<and> j_dest_id j' = j_dest_id j \<and>
    j_location_uid j' = j_location_uid j \<and> j_is_writing j' = j_is_writing j \<and> j_lazy j' = j_lazy j"

lemma moved_refl [simp]: "moved j j"
  by (simp add: moved_def)

lemma moved_trans: "moved j j' \<Longrightarrow> moved j' j'' \<Longrightarrow> moved j j''"
  by (simp add: moved_def)

lemma cursor_size: "cursor sz j p a \<Longrightarrow> sz = find_page_size (j_category j) (j_dest_id j)"
  by (simp add: cursor_def)

lemma cursor_big: "cursor sz j p a \<Longrightarrow> 1048576 \<le> unat sz"
  by (simp add: cursor_def find_page_size_ge)

lemma load_page_existing:
  assumes "page_ok sz d p" "quiet e" "sz = find_page_size (j_category j) (j_dest_id j)"
    "j_page j \<noteq> Some p"
  shows "\<exists>d' j'. load_page e p (d, j) = Inr (d', j') \<and> cursor sz j' p 24 \<and> moved j j' \<and>
    j_page_frame_nb j' = 0 \<and> keeps sz d d'"
proof -
  obtain d' where d': "page_load e (j_category j) (j_dest_id j) p (j_is_writing j) (j_lazy j) d = Inr d'"
    "keeps sz d d'" "page_ok sz d' p"
    using page_load_existing [OF assms(1) _ assms(3), of e] assms(2) unfolding quiet_def by blast
  let ?j = "j\<lparr>j_page := Some p, j_frame := 24, j_page_frame_nb := 0\<rparr>"
  have "load_page e p (d, j) = Inr (d', ?j)"
    using d'(1) assms(2,4) page_ok_first [OF d'(3)]
    by (simp add: load_page_def clear_old_page_def quiet_def)
  moreover have "cursor sz ?j p 24" using assms(3) by (simp add: cursor_def)
  moreover have "moved j ?j" by (simp add: moved_def)
  ultimately show ?thesis using d'(2) by (intro exI conjI) auto
qed

lemma cursor_event:
  assumes "jchain sz d p a (f # fs) p' a'" "cursor sz j p a"
  shows "cur_event (d, j) = f" "cur_has_data (d, j)" "gen_time (cur_mem (d, j)) (j_frame j) = e_gen_time f"
  using assms by (auto simp: cursor_def cur_event_def cur_has_data_def cur_mem_def good_frame_def frame_at_def)

lemma next_step:
  assumes chain: "jchain sz d p a (f # fs) p' a'" and cur: "cursor sz j p a" and "quiet e" "24 \<le> a"
  shows "\<exists>d' j' p1 a1. next_frame e (d, j) = Inr (d', j') \<and> cursor sz j' p1 a1 \<and> 24 \<le> a1 \<and>
    moved j j' \<and> keeps sz d d' \<and> jchain sz d' p1 a1 fs p' a' \<and> jchain sz d' p a [f] p1 a1"
proof -
  let ?n = "unat (frame_length (pages d p) a)"
  have big: "1000 < unat sz" using cursor_big [OF cur] by simp
  have mt: "msg_type (pages d p) (j_frame j) = e_msg_type f"
    using chain cur by (auto simp: cursor_def frame_at_def)
  show ?thesis
  proof (cases "e_msg_type f = PageEnd")
    case True
    with chain have rest: "jchain sz d (p + 1) 24 fs p' a'" by simp
    then have ok: "page_ok sz d (p + 1)" using jchain_page_ok by blast
    have neq: "j_page j \<noteq> Some (p + 1)" using cur by (simp add: cursor_def)
    obtain d' j' where 1: "load_page e (p + 1) (d, j) = Inr (d', j')" "cursor sz j' (p + 1) 24"
      "moved j j'" "keeps sz d d'"
      using load_page_existing [OF ok \<open>quiet e\<close> _ neq] cur unfolding cursor_def by blast
    have "next_frame e (d, j) = Inr (d', j')"
      using 1(1) mt True cur by (simp add: next_frame_def load_next_page_def cursor_def)
    moreover have "jchain sz d' (p + 1) 24 fs p' a'"
      using jchain_keeps [OF rest 1(4)] big by simp
    moreover have "jchain sz d' p a [f] (p + 1) 24"
      using jchain_keeps [OF _ 1(4) \<open>24 \<le> a\<close> big, of p "[f]" "p + 1" 24] chain True ok by simp
    ultimately show ?thesis using 1 by (intro exI conjI) auto
  next
    case False
    let ?j = "j\<lparr>j_frame := a + ?n, j_page_frame_nb := j_page_frame_nb j + 1\<rparr>"
    have "next_frame e (d, j) = Inr (d, ?j)"
      using mt False cur by (simp add: next_frame_def cursor_def move_to_next_def)
    moreover have "cursor sz ?j p (a + ?n)" using cur by (simp add: cursor_def)
    moreover have "moved j ?j" by (simp add: moved_def)
    moreover have "jchain sz d p (a + ?n) fs p' a'" "jchain sz d p a [f] p (a + ?n)"
      using chain False by simp_all
    ultimately show ?thesis using False \<open>24 \<le> a\<close>
      by (intro exI [of _ d] exI [of _ ?j] exI [of _ p] exI [of _ "a + ?n"]) simp
  qed
qed

text \<open>Reading up to \<open>n\<close> events the way every consumer does: look whether the current frame has
  data, take it, go to the next.\<close>

fun read_log :: "os_env \<Rightarrow> nat \<Rightarrow> jdir \<times> journal \<Rightarrow> jerror + event list \<times> (jdir \<times> journal)" where
  "read_log e 0 s = Inr ([], s)"
| "read_log e (Suc n) s =
    (if cur_has_data s
     then bindE (next_frame e s) (\<lambda>s'.
            bindE (read_log e n s') (\<lambda>(es, s''). Inr (cur_event s # es, s'')))
     else Inr ([], s))"

definition log_end :: "jdir \<Rightarrow> int \<Rightarrow> nat \<Rightarrow> bool" where
  "log_end d p a \<longleftrightarrow> frame_length (pages d p) a = 0"

lemma log_end_no_data: "log_end d p a \<Longrightarrow> \<not> has_data (pages d p) a"
  by (simp add: log_end_def has_data_def)

lemma log_end_keeps:
  assumes "log_end d p a" "keeps sz d d'" "page_ok sz d p" "a + 36 < unat sz"
  shows "log_end d' p a"
proof -
  have "frame_length (pages d' p) a = frame_length (pages d p) a"
    using assms by (intro frame_cong) (auto simp: keeps_def)
  with assms(1) show ?thesis by (simp add: log_end_def)
qed

lemma read_log_chain:
  assumes "jchain sz d p a fs p' a'" "log_end d p' a'" "a' + 36 < unat sz"
    "cursor sz j p a" "quiet e" "24 \<le> a"
  shows "\<exists>d' j' p1 a1. read_log e n (d, j) = Inr (take n fs, (d', j')) \<and>
    cursor sz j' p1 a1 \<and> moved j j' \<and> keeps sz d d' \<and> jchain sz d' p1 a1 (drop n fs) p' a'"
  using assms
proof (induction n arbitrary: d j p a fs)
  case 0
  then show ?case by auto
next
  case (Suc n)
  show ?case
  proof (cases fs)
    case Nil
    with Suc.prems have "\<not> cur_has_data (d, j)"
      using log_end_no_data by (auto simp: cur_has_data_def cur_mem_def cursor_def)
    with Nil Suc.prems show ?thesis by auto
  next
    case (Cons f gs)
    note ev = cursor_event [OF Suc.prems(1) [unfolded Cons] Suc.prems(4)]
    obtain d1 j1 p1 a1 where 1: "next_frame e (d, j) = Inr (d1, j1)" "cursor sz j1 p1 a1" "24 \<le> a1"
      "moved j j1" "keeps sz d d1" "jchain sz d1 p1 a1 gs p' a'"
      using next_step [OF Suc.prems(1) [unfolded Cons] Suc.prems(4-6)] by blast
    have "log_end d1 p' a'"
      using log_end_keeps [OF Suc.prems(2) 1(5) _ Suc.prems(3)] jchain_page_ok [OF Suc.prems(1)] by blast
    then obtain d2 j2 p2 a2 where 2: "read_log e n (d1, j1) = Inr (take n gs, (d2, j2))"
      "cursor sz j2 p2 a2" "moved j1 j2" "keeps sz d1 d2" "jchain sz d2 p2 a2 (drop n gs) p' a'"
      using Suc.IH [OF 1(6) _ Suc.prems(3) 1(2) Suc.prems(5) 1(3)] by blast
    have "read_log e (Suc n) (d, j) = Inr (take (Suc n) fs, (d2, j2))"
      using ev 1(1) 2(1) Cons by simp
    then show ?thesis
      using 1 2 Cons by (auto intro: moved_trans keeps_trans)
  qed
qed

text \<open>The frame loop of \<open>seek_to_time\<close> ends on the first event later than the time given.\<close>

lemma seek_frames_chain:
  assumes "jchain sz d p a fs p' a'" "log_end d p' a'" "a' + 36 < unat sz"
    "cursor sz j p a" "quiet e" "24 \<le> a"
  shows "\<exists>d' j' p1 a1. seek_frames e t (d, j) = Some (Inr (d', j')) \<and>
    cursor sz j' p1 a1 \<and> 24 \<le> a1 \<and> moved j j' \<and> keeps sz d d' \<and>
    jchain sz d' p a (takeWhile (\<lambda>f. e_gen_time f \<le> t) fs) p1 a1 \<and>
    jchain sz d' p1 a1 (dropWhile (\<lambda>f. e_gen_time f \<le> t) fs) p' a'"
  using assms
proof (induction fs arbitrary: d j p a)
  case Nil
  then have "\<not> cur_has_data (d, j)"
    using log_end_no_data by (auto simp: cur_has_data_def cur_mem_def cursor_def)
  then have "seek_frames e t (d, j) = Some (Inr (d, j))" by (simp add: seek_frames.simps)
  with Nil show ?case by (intro exI conjI) auto
next
  case (Cons f fs)
  note ev = cursor_event [OF Cons.prems(1,4)]
  have big: "1000 < unat sz" using cursor_big [OF Cons.prems(4)] by simp
  show ?case
  proof (cases "e_gen_time f \<le> t")
    case False
    with ev have "seek_frames e t (d, j) = Some (Inr (d, j))" by (simp add: seek_frames.simps)
    with False Cons.prems jchain_page_ok [OF Cons.prems(1)] show ?thesis
      by (intro exI [of _ d] exI [of _ j] exI [of _ p] exI [of _ a] conjI) simp_all
  next
    case True
    obtain d1 j1 p1 a1 where 1: "next_frame e (d, j) = Inr (d1, j1)" "cursor sz j1 p1 a1" "24 \<le> a1"
      "moved j j1" "keeps sz d d1" "jchain sz d1 p1 a1 fs p' a'" "jchain sz d1 p a [f] p1 a1"
      using next_step [OF Cons.prems(1) Cons.prems(4-6)] by blast
    have "log_end d1 p' a'"
      using log_end_keeps [OF Cons.prems(2) 1(5) _ Cons.prems(3)] jchain_page_ok [OF Cons.prems(1)] by blast
    then obtain d2 j2 p2 a2 where 2: "seek_frames e t (d1, j1) = Some (Inr (d2, j2))"
      "cursor sz j2 p2 a2" "24 \<le> a2" "moved j1 j2" "keeps sz d1 d2"
      "jchain sz d2 p1 a1 (takeWhile (\<lambda>f. e_gen_time f \<le> t) fs) p2 a2"
      "jchain sz d2 p2 a2 (dropWhile (\<lambda>f. e_gen_time f \<le> t) fs) p' a'"
      using Cons.IH [OF 1(6) _ Cons.prems(3) 1(2) Cons.prems(5) 1(3)] by blast
    have "seek_frames e t (d, j) = Some (Inr (d2, j2))"
      using ev True 1(1) 2(1) by (simp add: seek_frames.simps [of e t "(d, j)"])
    moreover have "jchain sz d2 p a (takeWhile (\<lambda>f. e_gen_time f \<le> t) (f # fs)) p2 a2"
    proof -
      have "jchain sz d2 p a [f] p1 a1"
        using jchain_keeps [OF 1(7) 2(5) Cons.prems(6) big] .
      then have "jchain sz d2 p a ([f] @ takeWhile (\<lambda>f. e_gen_time f \<le> t) fs) p2 a2"
        unfolding jchain_append using 2(6) by blast
      with True show ?thesis by simp
    qed
    moreover have "dropWhile (\<lambda>f. e_gen_time f \<le> t) (f # fs) = dropWhile (\<lambda>f. e_gen_time f \<le> t) fs"
      using True by simp
    moreover have "moved j j2" by (rule moved_trans [OF 1(4) 2(4)])
    moreover have "keeps sz d d2" by (rule keeps_trans [OF 1(5) 2(5)])
    ultimately show ?thesis
      using 2(2,3,7) by (intro exI [of _ d2] exI [of _ j2] exI [of _ p2] exI [of _ a2]) simp
  qed
qed

end
