(* ===== verification/Writer.thy ===== *)
theory Writer
  imports Log
begin

text \<open>
  The writer of a journal (journal/writer.cpp and the templates of journal/journal.h).  A
  write opens a frame at the cursor, fills it, and closes it: closing clears the next header,
  then publishes the frame by storing its length.  When the frame does not fit, the page is
  closed with a PageEnd frame after the next page has been created.

  The clock readings of a call are its \<open>ticks\<close>: the time the spin lock starts, the polls of
  the lock, the time the PageEnd frame gets and the time the frame gets.
\<close>

section \<open>State\<close>

record writer =
  w_journal :: journal
  w_locked :: bool
  w_frame_id_base :: u64
  w_size_to_write :: nat
  w_notified :: nat

record ticks =
  tk_start :: i64
  tk_polls :: "(bool \<times> i64) list"
  tk_page :: i64
  tk_close :: i64

text \<open>Every operation works on the directory and the writer.\<close>

type_synonym wstate = "jdir \<times> writer"

definition on_page :: "int \<Rightarrow> (mem \<Rightarrow> mem) \<Rightarrow> jdir \<Rightarrow> jdir" where
  "on_page p f d = d\<lparr>pages := (pages d)(p := f (pages d p))\<rparr>"

text \<open>An operation of the journal inside the writer.\<close>

definition via_journal ::
    "(jdir \<times> journal \<Rightarrow> jerror + jdir \<times> journal) \<Rightarrow> wstate \<Rightarrow> jerror + wstate" where
  "via_journal op s =
    bindE (op (fst s, w_journal (snd s))) (\<lambda>(d', j'). Inr (d', (snd s)\<lparr>w_journal := j'\<rparr>))"

section \<open>Frame identifiers\<close>

definition PAGE_ID_TRANC :: u32 where "PAGE_ID_TRANC = 0xFFFF0000"
definition FRAME_ID_TRANC :: u32 where "FRAME_ID_TRANC = 0x0000FFFF"

definition frame_id_base :: "u32 \<Rightarrow> u32 \<Rightarrow> u32 \<Rightarrow> u64" where
  "frame_id_base location_uid dest_id uuid =
    push_bit 32 (ucast ((location_uid XOR dest_id) XOR uuid))"

definition frame_uid :: "u64 \<Rightarrow> int \<Rightarrow> i32 \<Rightarrow> u64" where
  "frame_uid base page_id page_frame_nb =
    (let page_part = push_bit 16 (word_of_int page_id :: u32) AND PAGE_ID_TRANC;
         frame_part = (word_of_int page_frame_nb :: u32) AND FRAME_ID_TRANC
     in base OR ucast (page_part OR frame_part))"

definition current_frame_uid :: "writer \<Rightarrow> u64" where
  "current_frame_uid w =
    (let j = w_journal w in
     frame_uid (w_frame_id_base w)
       (case j_page j of None \<Rightarrow> 0 | Some p \<Rightarrow> p) (j_page_frame_nb j))"

section \<open>Operations\<close>

text \<open>The constructor: \<open>uuid\<close> is the hash of a random uuid.\<close>

definition new_writer ::
    "os_env \<Rightarrow> int list \<Rightarrow> i64 \<Rightarrow> u32 \<Rightarrow> location \<Rightarrow> u32 \<Rightarrow> bool \<Rightarrow> jdir \<Rightarrow> (jerror + wstate) option" where
  "new_writer e page_ids now uuid l dest_id lazy d =
    (case seek_to_time e page_ids now (d, new_journal l dest_id True lazy) of
       None \<Rightarrow> None
     | Some (Inl err) \<Rightarrow> Some (Inl err)
     | Some (Inr (d', j)) \<Rightarrow>
         Some (Inr (d', \<lparr>w_journal = j, w_locked = False,
                         w_frame_id_base = frame_id_base (uid l) dest_id uuid,
                         w_size_to_write = 0, w_notified = 0\<rparr>)))"

datatype lock_result = Acquired | TimedOut | StillSpinning

text \<open>Each turn of the spin loop polls the lock and, when it is taken, reads the clock.\<close>

fun lock_spin :: "i64 \<Rightarrow> (bool \<times> i64) list \<Rightarrow> lock_result" where
  "lock_spin t [] = StillSpinning"
| "lock_spin t ((got, now) # polls) =
    (if got then Acquired
     else if now - t > NANOSECONDS_PER_MILLISECOND then TimedOut
     else lock_spin t polls)"

text \<open>What a write stores into the page, in the order of the code: the header of the frame, the bytes of
  the message, and what \<open>close_frame\<close> stores: the empty next header, the time, the length, and the position of
  the last frame.\<close>

definition opening_stores :: "i64 \<Rightarrow> i32 \<Rightarrow> u32 \<Rightarrow> u32 \<Rightarrow> nat \<Rightarrow> (mem \<Rightarrow> mem) list" where
  "opening_stores trigger mt src dst a =
    [set_header_length a, set_trigger_time a trigger, set_msg_type a mt, set_source a src, set_dest a dst]"

definition copying_stores :: "nat \<Rightarrow> u8 list \<Rightarrow> mem \<Rightarrow> (mem \<Rightarrow> mem) list" where
  "copying_stores a bs m = byte_stores (a + unat (header_length m a)) bs"

definition closing_stores :: "i64 \<Rightarrow> nat \<Rightarrow> nat \<Rightarrow> nat \<Rightarrow> (mem \<Rightarrow> mem) list" where
  "closing_stores now a next_frame_address dlen =
    byte_stores next_frame_address (replicate sizeof_frame_header 0) @
    [set_gen_time a now, set_data_length a (of_nat dlen), set_last_frame_position (of_nat a)]"

definition set_frame_header :: "i64 \<Rightarrow> i32 \<Rightarrow> u32 \<Rightarrow> u32 \<Rightarrow> nat \<Rightarrow> mem \<Rightarrow> mem" where
  "set_frame_header trigger mt src dst a m = run_stores (opening_stores trigger mt src dst a) m"

lemma set_frame_header_eq:
  "set_frame_header trigger mt src dst a m =
    set_dest a dst (set_source a src (set_msg_type a mt (set_trigger_time a trigger (set_header_length a m))))"
  by (simp add: set_frame_header_def opening_stores_def)

lemma run_copying_stores [simp]: "run_stores (copying_stores a bs m) m = copy_data a bs m"
  by (simp add: copying_stores_def copy_data_def)

lemma run_closing_stores [simp]:
  "run_stores (closing_stores now a b n) m = set_last_frame_position (of_nat a) (set_data_length a (of_nat n)
    (set_gen_time a now (store_bytes b (replicate sizeof_frame_header 0) m)))"
  by (simp add: closing_stores_def)

definition close_page :: "os_env \<Rightarrow> i64 \<Rightarrow> i64 \<Rightarrow> wstate \<Rightarrow> jerror + wstate" where
  "close_page e now trigger s =
    (case j_page (w_journal (snd s)) of
       None \<Rightarrow> Inl SegmentationFault
     | Some last_page \<Rightarrow>
         bindE (via_journal (load_next_page e) s) (\<lambda>(d, w).
           let j = w_journal w;
               m = pages d last_page;
               a = move_to_next m (last_frame_address m);
               m1 = set_frame_header trigger PageEnd (j_location_uid j) (j_dest_id j) a m;
               m2 = set_data_length a 0 (set_gen_time a now m1);
               m3 = set_last_frame_position (of_nat a) m2
           in Inr (on_page last_page (\<lambda>_. m3) d, w)))"

definition open_frame :: "os_env \<Rightarrow> ticks \<Rightarrow> i64 \<Rightarrow> i32 \<Rightarrow> nat \<Rightarrow> wstate \<Rightarrow> jerror + wstate" where
  "open_frame e tk trigger mt dlen s =
    (let (d, w) = s; m = cur_mem (d, w_journal w) in
     if \<not> sizeof_frame_header + dlen + sizeof_frame_header \<le> unat (get_page_size m)
     then Inl AssertFailed
     else
       case lock_spin (tk_start tk) (tk_polls tk) of
         StillSpinning \<Rightarrow> Inl LockPending
       | TimedOut \<Rightarrow> Inl WriterLocked
       | Acquired \<Rightarrow>
           let w0 = w\<lparr>w_locked := True\<rparr> in
           bindE (if j_frame (w_journal w) + sizeof_frame_header + dlen \<ge> address_border m
                  then close_page e (tk_page tk) trigger (d, w0)
                  else Inr (d, w0))
             (\<lambda>(d1, w1).
               let j = w_journal w1 in
               case j_page j of
                 None \<Rightarrow> Inl SegmentationFault
               | Some p \<Rightarrow>
                   Inr (on_page p (set_frame_header trigger mt (j_location_uid j) (j_dest_id j)
                                     (j_frame j)) d1, w1)))"

definition close_frame :: "os_env \<Rightarrow> ticks \<Rightarrow> nat \<Rightarrow> wstate \<Rightarrow> jerror + wstate" where
  "close_frame e tk dlen s =
    (let (d, w) = s; j = w_journal w; a = j_frame j in
     case j_page j of
       None \<Rightarrow> Inl SegmentationFault
     | Some p \<Rightarrow>
         let m = pages d p;
             next_frame_address = a + unat (header_length m a) + dlen
         in if \<not> next_frame_address < address_border m then Inl AssertFailed
            else
              let m1 = run_stores (closing_stores (tk_close tk) a next_frame_address dlen) m
              in bindE (via_journal (next_frame e) (on_page p (\<lambda>_. m1) d, w)) (\<lambda>(d', w').
                   Inr (d', w'\<lparr>w_locked := False, w_notified := w_notified w' + 1\<rparr>)))"

definition mark :: "os_env \<Rightarrow> ticks \<Rightarrow> i64 \<Rightarrow> i32 \<Rightarrow> wstate \<Rightarrow> jerror + wstate" where
  "mark e tk trigger mt s = bindE (open_frame e tk trigger mt 0 s) (close_frame e tk 0)"

definition copy_to_frame :: "u8 list \<Rightarrow> wstate \<Rightarrow> jerror + wstate" where
  "copy_to_frame bs s =
    (let (d, w) = s; j = w_journal w in
     case j_page j of
       None \<Rightarrow> Inl SegmentationFault
     | Some p \<Rightarrow> Inr (on_page p (\<lambda>m. run_stores (copying_stores (j_frame j) bs m) m) d, w))"

definition write_frame :: "os_env \<Rightarrow> ticks \<Rightarrow> i64 \<Rightarrow> i32 \<Rightarrow> u8 list \<Rightarrow> wstate \<Rightarrow> jerror + wstate" where
  "write_frame e tk trigger mt bs s =
    bindE (open_frame e tk trigger mt (length bs) s) (\<lambda>s1.
      bindE (copy_to_frame bs s1) (close_frame e tk (length bs)))"

definition write_raw :: "os_env \<Rightarrow> ticks \<Rightarrow> i64 \<Rightarrow> i32 \<Rightarrow> u8 list \<Rightarrow> nat \<Rightarrow> wstate \<Rightarrow> jerror + wstate" where
  "write_raw e tk trigger mt src len s =
    bindE (open_frame e tk trigger mt len s) (\<lambda>s1.
      bindE (copy_to_frame (take len src) s1) (close_frame e tk len))"

definition write_string :: "os_env \<Rightarrow> ticks \<Rightarrow> i64 \<Rightarrow> i32 \<Rightarrow> string \<Rightarrow> wstate \<Rightarrow> jerror + wstate" where
  "write_string e tk trigger mt str s = write_raw e tk trigger mt (bytes_of str) (length str) s"

text \<open>The two halves of an in-place write: the caller fills the frame between them.\<close>

definition open_data :: "os_env \<Rightarrow> ticks \<Rightarrow> i64 \<Rightarrow> i32 \<Rightarrow> nat \<Rightarrow> wstate \<Rightarrow> jerror + wstate" where
  "open_data e tk trigger mt sizeofT s =
    bindE (open_frame e tk trigger mt sizeofT s) (\<lambda>(d, w). Inr (d, w\<lparr>w_size_to_write := sizeofT\<rparr>))"

definition close_data :: "os_env \<Rightarrow> ticks \<Rightarrow> wstate \<Rightarrow> jerror + wstate" where
  "close_data e tk s =
    (let (d, w) = s; len = w_size_to_write w
     in close_frame e tk len (d, w\<lparr>w_size_to_write := 0\<rparr>))"

text \<open>Writes that bring their own generation time.  They do not take the lock; on a full page
  they mark the end of the page and then load the next page.\<close>

definition mark_with_time :: "os_env \<Rightarrow> ticks \<Rightarrow> i64 \<Rightarrow> i32 \<Rightarrow> wstate \<Rightarrow> jerror + wstate" where
  "mark_with_time e tk gen mt s =
    (let (d, w) = s; m = cur_mem (d, w_journal w) in
     if \<not> sizeof_frame_header + sizeof_frame_header \<le> unat (get_page_size m) then Inl AssertFailed
     else
       bindE (if j_frame (w_journal w) + sizeof_frame_header > address_border m
              then bindE (mark e tk gen PageEnd s) (via_journal (load_next_page e))
              else Inr s)
         (\<lambda>(d1, w1).
           let j = w_journal w1; a = j_frame j in
           case j_page j of
             None \<Rightarrow> Inl SegmentationFault
           | Some p \<Rightarrow>
               let m1 = set_frame_header gen mt (j_location_uid j) (j_dest_id j) a (pages d1 p);
                   m2 = store_bytes (a + unat (header_length m1 a)) (replicate sizeof_frame_header 0) m1;
                   m3 = set_data_length a 0 (set_gen_time a gen m2);
                   m4 = set_last_frame_position (of_nat a) m3
               in via_journal (next_frame e) (on_page p (\<lambda>_. m4) d1, w1)))"

definition write_with_time ::
    "os_env \<Rightarrow> ticks \<Rightarrow> i64 \<Rightarrow> i32 \<Rightarrow> u8 list \<Rightarrow> wstate \<Rightarrow> jerror + wstate" where
  "write_with_time e tk gen mt bs s =
    (let (d, w) = s; m = cur_mem (d, w_journal w) in
     if \<not> sizeof_frame_header + length bs + sizeof_frame_header \<le> unat (get_page_size m)
     then Inl AssertFailed
     else
       bindE (if j_frame (w_journal w) + sizeof_frame_header + length bs > address_border m
              then bindE (mark e tk gen PageEnd s) (via_journal (load_next_page e))
              else Inr s)
         (\<lambda>(d1, w1).
           let j = w_journal w1; a = j_frame j in
           case j_page j of
             None \<Rightarrow> Inl SegmentationFault
           | Some p \<Rightarrow>
               let m1 = set_frame_header 0 mt (j_location_uid j) (j_dest_id j) a (pages d1 p);
                   m2 = copy_data a bs m1;
                   m3 = set_data_length a (of_nat (length bs)) (set_gen_time a gen m2);
                   m4 = set_last_frame_position (of_nat a) m3
               in via_journal (next_frame e) (on_page p (\<lambda>_. m4) d1, w1)))"

end
