(* ===== verification/Append.thy ===== *)
theory Append
  imports Writer
begin

text \<open>
  What the writer does to the log: every write appends one event, a full page is closed with
  one PageEnd event first, and nothing else changes.
\<close>

section \<open>The stores of a write\<close>

text \<open>The stores of a write into the page, in program order, for a frame at \<open>a\<close>.\<close>

definition publish ::
    "i64 \<Rightarrow> i64 \<Rightarrow> i32 \<Rightarrow> u32 \<Rightarrow> u32 \<Rightarrow> u8 list \<Rightarrow> nat \<Rightarrow> mem \<Rightarrow> mem" where
  "publish now trigger mt src dst bs a m =
    (let m1 = copy_data a bs (set_frame_header trigger mt src dst a m);
         m2 = store_bytes (a + unat (header_length m1 a) + length bs) (replicate sizeof_frame_header 0) m1
     in set_last_frame_position (of_nat a)
          (set_data_length a (of_nat (length bs)) (set_gen_time a now m2)))"

definition end_page :: "i64 \<Rightarrow> i64 \<Rightarrow> u32 \<Rightarrow> u32 \<Rightarrow> nat \<Rightarrow> mem \<Rightarrow> mem" where
  "end_page now trigger src dst a m =
    set_last_frame_position (of_nat a)
      (set_data_length a 0 (set_gen_time a now (set_frame_header trigger PageEnd src dst a m)))"

definition new_event :: "i64 \<Rightarrow> i64 \<Rightarrow> i32 \<Rightarrow> u32 \<Rightarrow> u32 \<Rightarrow> u8 list \<Rightarrow> event" where
  "new_event now trigger mt src dst bs =
    \<lparr>e_gen_time = now, e_trigger_time = trigger, e_msg_type = mt, e_source = src, e_dest = dst, e_data = bs\<rparr>"

lemmas header_stores = set_frame_header_eq frame_setters frame_offsets set_last_frame_position_def

lemma header_length_header: "header_length (set_frame_header tr mt src dst a m) a = 36"
  by (simp add: header_stores frame_getters mem_simps)

lemma publish_unfold:
  assumes "24 \<le> a"
  shows "publish now tr mt src dst bs a m =
    put64 16 (of_nat a) (put32 a (36 + of_nat (length bs)) (put64 (a + 8) (word_of_int now)
      (store_bytes (a + 36 + length bs) (replicate 36 0) (store_bytes (a + 36) bs
        (put32 (a + 32) dst (put32 (a + 28) src (put32 (a + 24) (word_of_int mt)
          (put64 (a + 16) (word_of_int tr) (put32 (a + 4) 36 m)))))))))"
  using assms
  by (simp add: publish_def Let_def copy_data_def header_stores header_length_def mem_simps)

lemma end_page_unfold:
  assumes "24 \<le> a"
  shows "end_page now tr src dst a m =
    put64 16 (of_nat a) (put32 a 36 (put64 (a + 8) (word_of_int now)
        (put32 (a + 32) dst (put32 (a + 28) src (put32 (a + 24) (word_of_int PageEnd)
          (put64 (a + 16) (word_of_int tr) (put32 (a + 4) 36 m)))))))"
  using assms
  by (simp add: end_page_def header_stores header_length_def mem_simps)

lemma publish_header:
  assumes "24 \<le> a"
  shows "check_page sz (publish now tr mt src dst bs a m) = check_page sz m"
    "last_frame_position (publish now tr mt src dst bs a m) = of_nat a"
  unfolding publish_unfold [OF assms] using assms
  by (simp_all add: check_page_def page_getters mem_simps)

lemma end_page_header:
  assumes "24 \<le> a"
  shows "check_page sz (end_page now tr src dst a m) = check_page sz m"
    "last_frame_position (end_page now tr src dst a m) = of_nat a"
  unfolding end_page_unfold [OF assms] using assms
  by (simp_all add: check_page_def page_getters mem_simps)

lemma store_bytes_at: "i < a \<or> a + length bs \<le> i \<Longrightarrow> store_bytes a bs m i = m i"
  by (auto simp: store_bytes_def)

lemma publish_below:
  assumes "24 \<le> i" "i < a"
  shows "publish now tr mt src dst bs a m i = m i"
proof -
  have "24 \<le> a" using assms by simp
  then show ?thesis unfolding publish_unfold [OF \<open>24 \<le> a\<close>] put32_def put64_def
    using assms by (simp add: store_bytes_at)
qed

lemma end_page_below:
  assumes "24 \<le> i" "i < a"
  shows "end_page now tr src dst a m i = m i"
proof -
  have "24 \<le> a" using assms by simp
  then show ?thesis unfolding end_page_unfold [OF \<open>24 \<le> a\<close>] put32_def put64_def
    using assms by (simp add: store_bytes_at)
qed

lemma publish_frame:
  fixes m :: mem and src dst :: u32
  assumes a: "24 \<le> a" and len: "a + 36 + length bs < 2 ^ 32"
    and t: "in_i64 now" "in_i64 tr" "in_i32 mt" "0 < mt"
  defines "m' \<equiv> publish now tr mt src dst bs a m"
  shows "frame_length m' a = 36 + of_nat (length bs)" "good_frame m' a"
    "frame_at m' a = new_event now tr mt src dst bs"
    "frame_length m' (a + 36 + length bs) = 0"
proof -
  note u = m'_def publish_unfold [OF a]
  show fl: "frame_length m' a = 36 + of_nat (length bs)"
    unfolding u using a by (simp add: frame_length_def off_length_def mem_simps)
  have hl: "header_length m' a = 36"
    unfolding u using a by (simp add: header_length_def off_header_length_def mem_simps)
  have un: "unat (36 + of_nat (length bs) :: u32) = 36 + length bs"
  proof -
    have "(36 + of_nat (length bs) :: u32) = of_nat (36 + length bs)" by simp
    moreover have "36 + length bs < 2 ^ LENGTH(32)" using len by simp
    ultimately show ?thesis by (simp only: unat_of_nat_small)
  qed
  have ty: "msg_type m' a = mt"
    unfolding u using a t by (simp add: msg_type_def off_msg_type_def mem_simps)
  have "(36 + of_nat (length bs) :: u32) > 0" using un by (metis add_is_0 unat_eq_zero word_neq_0_conv zero_neq_numeral)
  then show "good_frame m' a"
    using t by (simp add: good_frame_def has_data_def ty fl hl un)
  have "gen_time m' a = now" "trigger_time m' a = tr"
    unfolding u using a t by (simp_all add: gen_time_def trigger_time_def frame_offsets mem_simps)
  moreover have "source m' a = src" "dest m' a = dst"
    unfolding u using a by (simp_all add: source_def dest_def frame_offsets mem_simps)
  moreover have "data_as_bytes m' a = bs"
  proof -
    have "unat (data_length m' a) = length bs"
    proof -
      have "data_length m' a = of_nat (length bs)" by (simp add: data_length_def fl hl)
      moreover have "length bs < 2 ^ LENGTH(32)" using len by simp
      ultimately show ?thesis by (simp only: unat_of_nat_small)
    qed
    then have "data_as_bytes m' a = load_bytes m' (a + 36) (length bs)"
      by (simp add: data_as_bytes_def hl)
    also have "\<dots> = bs" unfolding u using a by (simp add: mem_simps)
    finally show ?thesis .
  qed
  ultimately show "frame_at m' a = new_event now tr mt src dst bs"
    by (simp add: frame_at_def new_event_def ty)
  show "frame_length m' (a + 36 + length bs) = 0"
    unfolding u using a by (simp add: frame_length_def off_length_def mem_simps)
qed

lemma end_page_frame:
  fixes m :: mem and src dst :: u32
  assumes a: "24 \<le> a" and t: "in_i64 now" "in_i64 tr"
  defines "m' \<equiv> end_page now tr src dst a m"
  shows "frame_length m' a = 36" "good_frame m' a"
    "frame_at m' a = new_event now tr PageEnd src dst []"
proof -
  note u = m'_def end_page_unfold [OF a]
  show fl: "frame_length m' a = 36"
    unfolding u using a by (simp add: frame_length_def off_length_def mem_simps)
  have hl: "header_length m' a = 36"
    unfolding u using a by (simp add: header_length_def off_header_length_def mem_simps)
  have ty: "msg_type m' a = PageEnd"
    unfolding u using a by (simp add: msg_type_def off_msg_type_def mem_simps PageEnd_def)
  show "good_frame m' a"
    by (simp add: good_frame_def has_data_def ty fl hl PageEnd_def)
  have "gen_time m' a = now" "trigger_time m' a = tr"
    unfolding u using a t by (simp_all add: gen_time_def trigger_time_def frame_offsets mem_simps)
  moreover have "source m' a = src" "dest m' a = dst"
    unfolding u using a by (simp_all add: source_def dest_def frame_offsets mem_simps)
  moreover have "data_as_bytes m' a = []"
    by (simp add: data_as_bytes_def data_length_def fl hl load_bytes_def)
  ultimately show "frame_at m' a = new_event now tr PageEnd src dst []"
    by (simp add: frame_at_def new_event_def ty)
qed

section \<open>A page that does not exist yet\<close>

lemma init_page_ok:
  assumes "sz \<noteq> 0"
  shows "check_page sz (init_page sz m) = None" "last_frame_position (init_page sz m) = 24"
  by (simp_all add: init_page_def check_page_def Let_def page_getters set_last_frame_position_def
      sizeof_page_header_def mem_simps)

lemma get32_zero_bytes:
  "(\<And>i. a \<le> i \<Longrightarrow> i < a + 4 \<Longrightarrow> m i = 0) \<Longrightarrow> get32 m a = 0"
proof -
  assume "\<And>i. a \<le> i \<Longrightarrow> i < a + 4 \<Longrightarrow> m i = 0"
  then have "get32 m a = get32 zero_mem a" by (intro get32_cong) (simp add: zero_mem_def)
  then show ?thesis by simp
qed

lemma page_load_fresh:
  assumes new: "files d p = None" and "healthy e" and sz: "sz = find_page_size cat dst"
  shows "\<exists>d'. page_load e cat dst p True lz d = Inr d' \<and> page_ok sz d' p \<and>
    frame_length (pages d' p) 24 = 0 \<and> last_frame_position (pages d' p) = 24 \<and>
    (\<forall>q. q \<noteq> p \<longrightarrow> files d' q = files d q \<and> pages d' q = pages d q)"
proof -
  have big: "1000 < unat sz" using find_page_size_ge [of cat dst] sz by simp
  let ?m = "store_bytes (unat sz - 1) [0] zero_mem"
  let ?d1 = "d\<lparr>files := (files d)(p \<mapsto> unat sz), pages := (pages d)(p := ?m)\<rparr>"
  have load: "load_mmap_buffer e p (unat sz) True lz d = Inr ?d1"
    using assms(2) new by (simp add: load_mmap_buffer_def healthy_def Let_def)
  have zero: "?m i = 0" for i by (simp add: store_bytes_def zero_mem_def)
  have lfp: "last_frame_position ?m = 0"
    using big by (simp add: last_frame_position_def mem_simps)
  let ?d2 = "d\<lparr>files := (files d)(p \<mapsto> unat sz), pages := (pages d)(p := init_page sz ?m)\<rparr>"
  have sz0: "sz \<noteq> 0" using big by auto
  have "page_load e cat dst p True lz d = Inr ?d2"
    using load lfp sz0 big sz by (simp add: page_load_def init_page_ok Let_def)
  moreover have "page_ok sz ?d2 p"
    using sz0 big by (simp add: page_ok_def init_page_ok)
  moreover have "frame_length (init_page sz ?m) 24 = 0"
  proof -
    have "frame_length (init_page sz ?m) 24 = get32 ?m 24"
      by (simp add: frame_length_def off_length_def init_page_def Let_def set_last_frame_position_def mem_simps)
    also have "\<dots> = 0" by (rule get32_zero_bytes) (rule zero)
    finally show ?thesis .
  qed
  ultimately show ?thesis using sz0 by (intro exI [of _ ?d2]) (simp add: init_page_ok)
qed

section \<open>The invariant of a writer\<close>

text \<open>The log is the chain of \<open>fs\<close> from the first page \<open>p0\<close> to its end at page \<open>p\<close> and offset
  \<open>b\<close>; there are no other pages, and the header of the last page knows where its last frame
  ends.  A writer stands on the end.\<close>

definition logged :: "u32 \<Rightarrow> int \<Rightarrow> event list \<Rightarrow> jdir \<Rightarrow> int \<Rightarrow> nat \<Rightarrow> bool" where
  "logged sz p0 fs d p b \<longleftrightarrow>
    jchain sz d p0 24 fs p b \<and> 24 \<le> b \<and> b + 36 < unat sz \<and> log_end d p b \<and>
    move_to_next (pages d p) (last_frame_address (pages d p)) = b \<and>
    (\<forall>q. files d q \<noteq> None \<longrightarrow> p0 \<le> q \<and> q \<le> p)"

definition writing :: "u32 \<Rightarrow> int \<Rightarrow> event list \<Rightarrow> wstate \<Rightarrow> int \<Rightarrow> nat \<Rightarrow> bool" where
  "writing sz p0 fs s p b \<longleftrightarrow>
    cursor sz (w_journal (snd s)) p b \<and> j_is_writing (w_journal (snd s)) \<and> logged sz p0 fs (fst s) p b"

lemma logged_le: "logged sz p0 fs d p b \<Longrightarrow> p0 \<le> p"
  using jchain_mono unfolding logged_def by blast

text \<open>What a write leaves of the writer: everything but the position, the lock and the count of
  notifications.\<close>

definition same_writer :: "writer \<Rightarrow> writer \<Rightarrow> bool" where
  "same_writer w w' \<longleftrightarrow> moved (w_journal w) (w_journal w') \<and> w_frame_id_base w' = w_frame_id_base w"

lemma same_writer_refl [simp]: "same_writer w w"
  by (simp add: same_writer_def)

lemma same_writer_trans: "same_writer w w' \<Longrightarrow> same_writer w' w'' \<Longrightarrow> same_writer w w''"
  by (auto simp: same_writer_def intro: moved_trans)

lemma find_page_size_le: "unat (find_page_size c d) \<le> 0x8000000"
  using find_page_size_cases [of c d] by auto

lemma on_page_simps [simp]:
  "pages (on_page p f d) p = f (pages d p)" "q \<noteq> p \<Longrightarrow> pages (on_page p f d) q = pages d q"
  "files (on_page p f d) = files d"
  by (simp_all add: on_page_def)

text \<open>Stores behind the end of the log that keep the page header in order extend it.\<close>

lemma on_page_extends:
  assumes "page_ok sz d p" "check_page sz (f (pages d p)) = None"
    "last_frame_position (f (pages d p)) \<noteq> 0" "\<And>i. 24 \<le> i \<Longrightarrow> i < b \<Longrightarrow> f (pages d p) i = pages d p i"
  shows "extends sz p b d (on_page p f d)" "page_ok sz (on_page p f d) p"
proof -
  show ok: "page_ok sz (on_page p f d) p" using assms(1-3) by (simp add: page_ok_def)
  have "page_ok sz (on_page p f d) q" if "page_ok sz d q" "q \<noteq> p" for q
    using that by (simp add: page_ok_def)
  then show "extends sz p b d (on_page p f d)"
    unfolding extends_def using ok assms(4) by (metis on_page_simps(2) on_page_simps(1) order_less_irrefl)
qed

lemma of_nat_unat_small:
  "n < 2 ^ 32 \<Longrightarrow> unat (of_nat n :: u64) = n"
  by (rule unat_of_nat_small) simp

text \<open>A PageEnd frame at the end of the log, with the next page in place, moves the end of the
  log to that page.\<close>

lemma turn_page:
  assumes lg: "logged sz p0 fs d p b" and big: "1000 < unat sz" "unat sz \<le> 0x8000000"
    and hdr: "check_page sz (pages d' p) = None" "last_frame_position (pages d' p) = of_nat b"
    and below: "\<And>i. 24 \<le> i \<Longrightarrow> i < b \<Longrightarrow> pages d' p i = pages d p i"
    and fr: "frame_length (pages d' p) b = 36" "good_frame (pages d' p) b" "frame_at (pages d' p) b = f"
      "e_msg_type f = PageEnd"
    and nxt: "page_ok sz d' (p + 1)" "frame_length (pages d' (p + 1)) 24 = 0"
      "last_frame_position (pages d' (p + 1)) = 24"
    and rest: "\<forall>q. q \<noteq> p + 1 \<longrightarrow> files d' q = files d q \<and> (q \<noteq> p \<longrightarrow> pages d' q = pages d q)"
  shows "logged sz p0 (fs @ [f]) d' (p + 1) 24"
proof -
  from lg have chain: "jchain sz d p0 24 fs p b" and b: "24 \<le> b" "b + 36 < unat sz"
    and only: "\<forall>q. files d q \<noteq> None \<longrightarrow> p0 \<le> q \<and> q \<le> p" by (simp_all add: logged_def)
  have ok: "page_ok sz d p" using jchain_page_ok [OF chain] by simp
  have lfp: "unat (last_frame_position (pages d' p)) = b"
    using hdr(2) b big by (simp add: of_nat_unat_small)
  then have "last_frame_position (pages d' p) \<noteq> 0" using b by auto
  then have okp: "page_ok sz d' p" using ok hdr(1) rest by (simp add: page_ok_def)
  have other: "page_ok sz d' q" if "page_ok sz d q" "q \<noteq> p" "q \<noteq> p + 1" for q
    using that rest by (simp add: page_ok_def)
  have "extends sz p b d d'"
    unfolding extends_def
  proof (intro allI impI conjI)
    fix q assume q: "q \<le> p" "page_ok sz d q"
    show "page_ok sz d' q" using okp other [OF q(2)] q(1) by (cases "q = p") auto
    fix i assume "i < unat sz - 1" "q < p \<or> 24 \<le> i \<and> i < b"
    then show "pages d' q i = pages d q i" using q below rest by (cases "q = p") auto
  qed
  then have "jchain sz d' p0 24 fs p b" using jchain_extends [OF chain _ _ big(1)] by simp
  moreover have "jchain sz d' p b [f] (p + 1) 24"
    using fr okp nxt(1) b lfp by simp
  ultimately have "jchain sz d' p0 24 (fs @ [f]) (p + 1) 24" unfolding jchain_append by blast
  moreover have "\<forall>q. files d' q \<noteq> None \<longrightarrow> p0 \<le> q \<and> q \<le> p + 1"
  proof (intro allI impI)
    fix q assume q: "files d' q \<noteq> None"
    show "p0 \<le> q \<and> q \<le> p + 1"
      using jchain_mono [OF chain] only rest q by (cases "q = p + 1") force+
  qed
  ultimately show ?thesis
    using nxt big by (simp add: logged_def log_end_def move_to_next_def last_frame_address_def)
qed

text \<open>Loading the page after the last one: it is new and empty.\<close>

lemma load_fresh_page:
  assumes fresh: "files d (p + 1) = None" and cur: "cursor sz (w_journal w) p b" "j_is_writing (w_journal w)"
    and e: "quiet e"
  defines "w' \<equiv> w\<lparr>w_journal := (w_journal w)\<lparr>j_page := Some (p + 1), j_frame := 24, j_page_frame_nb := 0\<rparr>\<rparr>"
  shows "\<exists>d'. via_journal (load_next_page e) (d, w) = Inr (d', w') \<and> page_ok sz d' (p + 1) \<and>
    frame_length (pages d' (p + 1)) 24 = 0 \<and> last_frame_position (pages d' (p + 1)) = 24 \<and>
    (\<forall>q. q \<noteq> p + 1 \<longrightarrow> files d' q = files d q \<and> pages d' q = pages d q) \<and>
    cursor sz (w_journal w') (p + 1) 24 \<and> j_is_writing (w_journal w') \<and> same_writer w w'"
proof -
  let ?j = "w_journal w"
  have sz: "sz = find_page_size (j_category ?j) (j_dest_id ?j)" using cur(1) by (simp add: cursor_def)
  have he: "healthy e" using e by (simp add: quiet_def)
  obtain d1 where d1: "page_load e (j_category ?j) (j_dest_id ?j) (p + 1) True (j_lazy ?j) d = Inr d1"
    "page_ok sz d1 (p + 1)" "frame_length (pages d1 (p + 1)) 24 = 0"
    "last_frame_position (pages d1 (p + 1)) = 24"
    "\<forall>q. q \<noteq> p + 1 \<longrightarrow> files d1 q = files d q \<and> pages d1 q = pages d q"
    using page_load_fresh [OF fresh he sz] by blast
  have "via_journal (load_next_page e) (d, w) = Inr (d1, w')"
    using d1(1) cur e page_ok_first [OF d1(2)]
    by (simp add: via_journal_def load_next_page_def load_page_def clear_old_page_def quiet_def cursor_def w'_def)
  then show ?thesis using d1(2-5) sz cur(2) by (intro exI [of _ d1]) (simp add: w'_def cursor_def same_writer_def moved_def)
qed

lemma logged_fresh: "logged sz p0 fs d p b \<Longrightarrow> p < q \<Longrightarrow> files d q = None"
  unfolding logged_def by force

lemma writing_facts:
  assumes "writing sz p0 fs (d, w) p b"
  shows "cursor sz (w_journal w) p b" "j_is_writing (w_journal w)" "logged sz p0 fs d p b"
    "1000 < unat sz" "unat sz \<le> 0x8000000" "page_ok sz d p" "24 \<le> b" "b + 36 < unat sz"
    "jchain sz d p0 24 fs p b" "move_to_next (pages d p) (last_frame_address (pages d p)) = b"
proof -
  show cur: "cursor sz (w_journal w) p b" "j_is_writing (w_journal w)" and lg: "logged sz p0 fs d p b"
    using assms by (simp_all add: writing_def)
  show "1000 < unat sz" "unat sz \<le> 0x8000000"
    using cursor_big [OF cur(1)] cur(1) find_page_size_le by (simp_all add: cursor_def)
  show "24 \<le> b" "b + 36 < unat sz" and chain: "jchain sz d p0 24 fs p b"
    "move_to_next (pages d p) (last_frame_address (pages d p)) = b"
    using lg by (simp_all add: logged_def)
  show "page_ok sz d p" using jchain_page_ok [OF chain(1)] by simp
qed

text \<open>Closing the page: the PageEnd event is appended and the writer stands on a new page.\<close>

lemma close_page_writing:
  assumes inv: "writing sz p0 fs (d, w) p b" and e: "quiet e"
    and t: "in_i64 now" "in_i64 tr"
  defines "src \<equiv> j_location_uid (w_journal w)" and "dst \<equiv> j_dest_id (w_journal w)"
  shows "\<exists>d' w'. close_page e now tr (d, w) = Inr (d', w') \<and> same_writer w w' \<and>
    w_locked w' = w_locked w \<and> w_notified w' = w_notified w \<and>
    writing sz p0 (fs @ [new_event now tr PageEnd src dst []]) (d', w') (p + 1) 24"
proof -
  note wf = writing_facts [OF inv]
  let ?m = "pages d p"
  let ?w' = "w\<lparr>w_journal := (w_journal w)\<lparr>j_page := Some (p + 1), j_frame := 24, j_page_frame_nb := 0\<rparr>\<rparr>"
  have fnone: "files d (p + 1) = None" using logged_fresh [OF wf(3)] by simp
  obtain d1 where d1: "via_journal (load_next_page e) (d, w) = Inr (d1, ?w')" "page_ok sz d1 (p + 1)"
    "frame_length (pages d1 (p + 1)) 24 = 0" "last_frame_position (pages d1 (p + 1)) = 24"
    "\<forall>q. q \<noteq> p + 1 \<longrightarrow> files d1 q = files d q \<and> pages d1 q = pages d q"
    "cursor sz (w_journal ?w') (p + 1) 24" "j_is_writing (w_journal ?w')" "same_writer w ?w'"
    using load_fresh_page [OF fnone wf(1,2) e] by blast
  have m1: "pages d1 p = ?m" using d1(5) by simp
  let ?d' = "on_page p (\<lambda>_. end_page now tr src dst b ?m) d1"
  have "close_page e now tr (d, w) = Inr (?d', ?w')"
    using wf(1,10) d1(1) by (simp add: close_page_def cursor_def m1 end_page_def src_def dst_def)
  moreover have "logged sz p0 (fs @ [new_event now tr PageEnd src dst []]) ?d' (p + 1) 24"
  proof (rule turn_page [OF wf(3-5)])
    show "check_page sz (pages ?d' p) = None"
      using wf(6) end_page_header(1) [OF wf(7)] by (simp add: page_ok_def)
    show "page_ok sz ?d' (p + 1)" using d1(2) by (simp add: page_ok_def)
  qed (use d1(3-5) end_page_header(2) [OF wf(7)] end_page_below
      end_page_frame [OF wf(7) t, of src dst ?m] in \<open>simp_all add: new_event_def\<close>)
  ultimately show ?thesis using d1(6-8)
    by (intro exI [of _ ?d'] exI [of _ ?w']) (simp add: writing_def)
qed

section \<open>Writing a frame\<close>

lemma on_page_on_page: "on_page p f (on_page p g d) = on_page p (\<lambda>m. f (g m)) d"
  by (simp add: on_page_def)

lemma on_page_const: "on_page p (\<lambda>_. f (pages d p)) d = on_page p f d"
  by (simp add: on_page_def)

lemma get_page_size_header:
  "24 \<le> a \<Longrightarrow> get_page_size (set_frame_header tr mt src dst a m) = get_page_size m"
  by (simp add: header_stores get_page_size_def mem_simps)

lemma get_page_size_copy:
  "24 \<le> a \<Longrightarrow> get_page_size (copy_data a bs m) = get_page_size m"
  by (simp add: copy_data_def get_page_size_def mem_simps)

lemma header_length_copy:
  "header_length (copy_data a bs (set_frame_header tr mt src dst a m)) a = 36"
  by (simp add: copy_data_def header_length_header)
    (simp add: header_length_def off_header_length_def mem_simps header_length_header
      [unfolded header_length_def off_header_length_def])

text \<open>Filling and closing an opened frame.\<close>

lemma finish_write:
  assumes inv: "writing sz p0 fs (d, w) p b" and e: "quiet e"
    and t: "in_i64 (tk_close tk)" "in_i64 tr" "in_i32 mt" "0 < mt" "mt \<noteq> PageEnd"
    and room: "b + 36 + length bs + 36 < unat sz"
  defines "src \<equiv> j_location_uid (w_journal w)" and "dst \<equiv> j_dest_id (w_journal w)"
  shows "\<exists>d' w'. bindE (copy_to_frame bs (on_page p (set_frame_header tr mt src dst b) d, w))
      (close_frame e tk (length bs)) = Inr (d', w') \<and> same_writer w w' \<and> \<not> w_locked w' \<and>
      w_notified w' = w_notified w + 1 \<and> j_page_frame_nb (w_journal w') = j_page_frame_nb (w_journal w) + 1 \<and>
      d' = on_page p (publish (tk_close tk) tr mt src dst bs b) d \<and>
      writing sz p0 (fs @ [new_event (tk_close tk) tr mt src dst bs]) (d', w') p (b + 36 + length bs)"
proof -
  let ?j = "w_journal w" and ?m = "pages d p"
  let ?e = "new_event (tk_close tk) tr mt src dst bs"
  let ?pub = "publish (tk_close tk) tr mt src dst bs b"
  from inv have cur: "cursor sz ?j p b" "j_is_writing ?j" and chain: "jchain sz d p0 24 fs p b"
    and b: "24 \<le> b" "b + 36 < unat sz" and fresh: "\<forall>q. files d q \<noteq> None \<longrightarrow> p0 \<le> q \<and> q \<le> p"
    by (simp_all add: writing_def logged_def)
  have big: "1000 < unat sz" "unat sz \<le> 0x8000000"
    using cursor_big [OF cur(1)] cur(1) find_page_size_le by (simp_all add: cursor_def)
  have ok: "page_ok sz d p" using jchain_page_ok [OF chain] by simp
  let ?d' = "on_page p ?pub d"
  let ?w' = "w\<lparr>w_journal := ?j\<lparr>j_frame := b + 36 + length bs, j_page_frame_nb := j_page_frame_nb ?j + 1\<rparr>,
    w_locked := False, w_notified := w_notified w + 1\<rparr>"
  have len: "b + 36 + length bs < 2 ^ 32" using room big by simp
  note fr = publish_frame [OF b(1) len t(1-4), of src dst ?m]
  have mt: "msg_type (?pub ?m) b \<noteq> PageEnd"
    using fr(3) t(5) by (simp add: frame_at_def new_event_def)
  have n: "unat (frame_length (?pub ?m) b) = 36 + length bs"
  proof -
    have "frame_length (?pub ?m) b = of_nat (36 + length bs)" using fr(1) by simp
    moreover have "36 + length bs < 2 ^ LENGTH(32)" using len by simp
    ultimately show ?thesis by (simp only: unat_of_nat_small)
  qed
  have border: "address_border (copy_data b bs (set_frame_header tr mt src dst b ?m)) = unat sz - 36"
    using page_ok_header [OF ok] b(1)
    by (simp add: address_border_def get_page_size_copy get_page_size_header sizeof_frame_header_def)
  have nf: "next_frame e (?d', ?j) =
      Inr (?d', ?j\<lparr>j_frame := b + 36 + length bs, j_page_frame_nb := j_page_frame_nb ?j + 1\<rparr>)"
    using cur(1) mt n by (simp add: next_frame_def cursor_def move_to_next_def)
  have "bindE (copy_to_frame bs (on_page p (set_frame_header tr mt src dst b) d, w))
      (close_frame e tk (length bs)) = Inr (?d', ?w')"
  proof -
    have copy: "copy_to_frame bs (on_page p (set_frame_header tr mt src dst b) d, w) =
        Inr (on_page p (\<lambda>m. copy_data b bs (set_frame_header tr mt src dst b m)) d, w)"
      using cur(1) by (simp add: copy_to_frame_def cursor_def on_page_on_page)
    have "on_page p (\<lambda>_. ?pub ?m) (on_page p (\<lambda>m. copy_data b bs (set_frame_header tr mt src dst b m)) d) = ?d'"
      by (simp add: on_page_def)
    then show ?thesis
      unfolding copy bindE.simps using cur(1) room border nf
      by (simp add: close_frame_def cursor_def header_length_copy sizeof_frame_header_def
          publish_def Let_def via_journal_def)
  qed
  moreover have "same_writer w ?w'" by (simp add: same_writer_def moved_def)
  moreover have "writing sz p0 (fs @ [?e]) (?d', ?w') p (b + 36 + length bs)"
  proof -
    have lfp: "unat (last_frame_position (?pub ?m)) = b"
      using publish_header(2) [OF b(1)] b big by (simp add: of_nat_unat_small)
    then have nz: "last_frame_position (?pub ?m) \<noteq> 0" using b by auto
    have hdr: "check_page sz (?pub ?m) = None"
      using ok publish_header(1) [OF b(1)] by (simp add: page_ok_def)
    have ext: "extends sz p b d ?d'" "page_ok sz ?d' p"
      using on_page_extends [of sz d p ?pub b] ok hdr nz publish_below by auto
    have "jchain sz ?d' p0 24 fs p b"
      using jchain_extends [OF chain ext(1)] big by simp
    moreover have "jchain sz ?d' p b [?e] p (b + 36 + length bs)"
      using fr ext(2) t(5) n room by (simp add: new_event_def)
    ultimately have "jchain sz ?d' p0 24 (fs @ [?e]) p (b + 36 + length bs)"
      unfolding jchain_append by blast
    moreover have "log_end ?d' p (b + 36 + length bs)" using fr(4) by (simp add: log_end_def)
    moreover have "move_to_next (pages ?d' p) (last_frame_address (pages ?d' p)) = b + 36 + length bs"
      using lfp n by (simp add: move_to_next_def last_frame_address_def)
    ultimately show ?thesis
      using fresh cur b room by (simp add: writing_def logged_def cursor_def)
  qed
  ultimately show ?thesis by (intro exI [of _ ?d'] exI [of _ ?w']) simp
qed

text \<open>Opening a frame: the page is closed first when the frame does not fit below its border.\<close>

definition rolls :: "u32 \<Rightarrow> nat \<Rightarrow> nat \<Rightarrow> bool" where
  "rolls sz b n \<longleftrightarrow> b + 36 + n \<ge> unat sz - 36"

lemma open_frame_writing:
  assumes inv: "writing sz p0 fs (d, w) p b" and e: "quiet e"
    and t: "in_i64 (tk_page tk)" "in_i64 tr" and lock: "lock_spin (tk_start tk) (tk_polls tk) = Acquired"
    and room: "n + 96 < unat sz"
  defines "src \<equiv> j_location_uid (w_journal w)" and "dst \<equiv> j_dest_id (w_journal w)"
  shows "\<exists>d0 w0 p1 b1. open_frame e tk tr mt n (d, w) =
      Inr (on_page p1 (set_frame_header tr mt src dst b1) d0, w0) \<and> same_writer w w0 \<and>
      w_notified w0 = w_notified w \<and> b1 + 36 + n + 36 < unat sz \<and>
      (if rolls sz b n then p1 = p + 1 \<and> b1 = 24 else d0 = d \<and> p1 = p \<and> b1 = b \<and>
         j_page_frame_nb (w_journal w0) = j_page_frame_nb (w_journal w)) \<and>
      writing sz p0 (if rolls sz b n then fs @ [new_event (tk_page tk) tr PageEnd src dst []] else fs)
        (d0, w0) p1 b1"
proof -
  let ?w = "w\<lparr>w_locked := True\<rparr>"
  from inv have cur: "cursor sz (w_journal w) p b" and chain: "jchain sz d p0 24 fs p b"
    by (simp_all add: writing_def logged_def)
  have ok: "page_ok sz d p" using jchain_page_ok [OF chain] by simp
  have m: "cur_mem (d, w_journal w) = pages d p" using cur by (simp add: cur_mem_def cursor_def)
  have hdr: "get_page_size (pages d p) = sz" "address_border (pages d p) = unat sz - 36"
    using page_ok_header [OF ok] page_ok_border [OF ok] by simp_all
  have fr: "j_frame (w_journal w) = b" "j_page (w_journal w) = Some p" using cur by (simp_all add: cursor_def)
  have inv': "writing sz p0 fs (d, ?w) p b" using inv by (simp add: writing_def)
  show ?thesis
  proof (cases "rolls sz b n")
    case False
    then have "open_frame e tk tr mt n (d, w) = Inr (on_page p (set_frame_header tr mt src dst b) d, ?w)"
      using room lock m hdr fr by (simp add: open_frame_def sizeof_frame_header_def rolls_def src_def dst_def Let_def)
    then show ?thesis using False inv' room
      by (intro exI [of _ d] exI [of _ ?w] exI [of _ p] exI [of _ b]) (simp add: rolls_def same_writer_def)
  next
    case True
    obtain d0 w0 where cp: "close_page e (tk_page tk) tr (d, ?w) = Inr (d0, w0)" "same_writer ?w w0"
      "w_notified w0 = w_notified w"
      "writing sz p0 (fs @ [new_event (tk_page tk) tr PageEnd src dst []]) (d0, w0) (p + 1) 24"
      using close_page_writing [OF inv' e t] by (auto simp: src_def dst_def)
    have j0: "j_page (w_journal w0) = Some (p + 1)" "j_frame (w_journal w0) = 24"
      "j_location_uid (w_journal w0) = src" "j_dest_id (w_journal w0) = dst"
      using cp(2,4) by (auto simp: writing_def logged_def cursor_def same_writer_def moved_def src_def dst_def)
    have "open_frame e tk tr mt n (d, w) = Inr (on_page (p + 1) (set_frame_header tr mt src dst 24) d0, w0)"
      using True room lock m hdr fr cp(1) j0
      by (simp add: open_frame_def sizeof_frame_header_def rolls_def)
    moreover have "same_writer w w0" using cp(2) by (simp add: same_writer_def)
    ultimately show ?thesis using True cp(3,4) room
      by (intro exI [of _ d0] exI [of _ w0] exI [of _ "p + 1"] exI [of _ 24]) simp
  qed
qed

text \<open>The event list a write of \<open>n\<close> bytes appends.\<close>

definition appended :: "bool \<Rightarrow> ticks \<Rightarrow> i64 \<Rightarrow> i32 \<Rightarrow> u32 \<Rightarrow> u32 \<Rightarrow> u8 list \<Rightarrow> event list" where
  "appended roll tk tr mt src dst bs =
    (if roll then [new_event (tk_page tk) tr PageEnd src dst []] else []) @
    [new_event (tk_close tk) tr mt src dst bs]"

definition ticks_ok :: "ticks \<Rightarrow> bool" where
  "ticks_ok tk \<longleftrightarrow> in_i64 (tk_page tk) \<and> in_i64 (tk_close tk) \<and>
     lock_spin (tk_start tk) (tk_polls tk) = Acquired"

lemma write_frame_writing:
  assumes inv: "writing sz p0 fs (d, w) p b" and e: "quiet e"
    and t: "ticks_ok tk" "in_i64 tr" "in_i32 mt" "0 < mt" "mt \<noteq> PageEnd"
    and room: "length bs + 96 < unat sz"
  defines "src \<equiv> j_location_uid (w_journal w)" and "dst \<equiv> j_dest_id (w_journal w)"
  shows "\<exists>d' w' p' b'. write_frame e tk tr mt bs (d, w) = Inr (d', w') \<and> same_writer w w' \<and>
      \<not> w_locked w' \<and> w_notified w' = w_notified w + 1 \<and>
      (if rolls sz b (length bs) then p' = p + 1 \<and> b' = 60 + length bs else p' = p \<and> b' = b + 36 + length bs) \<and>
      writing sz p0 (fs @ appended (rolls sz b (length bs)) tk tr mt src dst bs) (d', w') p' b'"
proof -
  have lock: "lock_spin (tk_start tk) (tk_polls tk) = Acquired" and tt: "in_i64 (tk_page tk)" "in_i64 (tk_close tk)"
    using t(1) by (simp_all add: ticks_ok_def)
  let ?fs = "if rolls sz b (length bs) then fs @ [new_event (tk_page tk) tr PageEnd src dst []] else fs"
  obtain d0 w0 p1 b1 where 1: "open_frame e tk tr mt (length bs) (d, w) =
      Inr (on_page p1 (set_frame_header tr mt src dst b1) d0, w0)" "same_writer w w0"
      "w_notified w0 = w_notified w" "b1 + 36 + length bs + 36 < unat sz"
      "if rolls sz b (length bs) then p1 = p + 1 \<and> b1 = 24 else p1 = p \<and> b1 = b"
      "writing sz p0 ?fs (d0, w0) p1 b1"
    using open_frame_writing [OF inv e tt(1) t(2) lock room, of mt] unfolding src_def dst_def
    by (auto split: if_splits)
  have ids: "j_location_uid (w_journal w0) = src" "j_dest_id (w_journal w0) = dst"
    using 1(2) by (simp_all add: same_writer_def moved_def src_def dst_def)
  obtain d' w' where 2: "bindE (copy_to_frame bs (on_page p1 (set_frame_header tr mt src dst b1) d0, w0))
      (close_frame e tk (length bs)) = Inr (d', w')" "same_writer w0 w'" "\<not> w_locked w'"
      "w_notified w' = w_notified w0 + 1"
      "writing sz p0 (?fs @ [new_event (tk_close tk) tr mt src dst bs]) (d', w') p1 (b1 + 36 + length bs)"
    using finish_write [OF 1(6) e tt(2) t(2-5) 1(4)] unfolding ids by blast
  have "write_frame e tk tr mt bs (d, w) = Inr (d', w')"
    using 1(1) 2(1) by (simp add: write_frame_def)
  then show ?thesis
    using 1 2 same_writer_trans [OF 1(2) 2(2)]
    by (intro exI [of _ d'] exI [of _ w'] exI [of _ p1] exI [of _ "b1 + 36 + length bs"])
       (auto simp: appended_def)
qed

end
