(* ===== verification/Resume.thy ===== *)
theory Resume
  imports Append
begin

text \<open>
  Finding a place in a log: \<open>find_page_id\<close>, \<open>seek_to_time\<close>, the constructor of a writer, and the
  round trip from a sequence of writes to what a reader of the journal sees.
\<close>

section \<open>Pages of a chain\<close>

text \<open>The events of a page end with its PageEnd event, which is its last frame.\<close>

lemma jchain_page:
  "jchain sz d p a fs p' a' \<Longrightarrow> p < p' \<Longrightarrow>
    \<exists>fs1 f fs2. fs = fs1 @ [f] @ fs2 \<and> jchain sz d p a (fs1 @ [f]) (p + 1) 24 \<and>
      jchain sz d (p + 1) 24 fs2 p' a' \<and> end_time (pages d p) = e_gen_time f"
proof (induction fs arbitrary: a)
  case (Cons f fs)
  show ?case
  proof (cases "e_msg_type f = PageEnd")
    case True
    with Cons.prems have rest: "jchain sz d (p + 1) 24 fs p' a'" by simp
    then have "jchain sz d p a [f] (p + 1) 24"
      using Cons.prems(1) True jchain_page_ok by auto
    moreover have "end_time (pages d p) = e_gen_time f"
      using Cons.prems(1) True by (auto simp: end_time_def last_frame_address_def frame_at_def)
    ultimately show ?thesis using rest
      by (intro exI [of _ "[]"] exI [of _ f] exI [of _ fs]) (simp only: append_Nil append_Cons simp_thms)
  next
    case False
    let ?a = "a + unat (frame_length (pages d p) a)"
    have "jchain sz d p ?a fs p' a'" using Cons.prems(1) False by simp
    then obtain fs1 g fs2 where 1: "fs = fs1 @ [g] @ fs2" "jchain sz d p ?a (fs1 @ [g]) (p + 1) 24"
      "jchain sz d (p + 1) 24 fs2 p' a'" "end_time (pages d p) = e_gen_time g"
      using Cons.IH [of ?a] Cons.prems(2) by blast
    then have "jchain sz d p a ((f # fs1) @ [g]) (p + 1) 24" using Cons.prems(1) False by simp
    then show ?thesis using 1 by (intro exI [of _ "f # fs1"] exI [of _ g] exI [of _ fs2]) simp
  qed
qed simp

text \<open>A log splits at the start of any of its pages.\<close>

definition splits_at :: "u32 \<Rightarrow> int \<Rightarrow> event list \<Rightarrow> jdir \<Rightarrow> int \<Rightarrow> nat \<Rightarrow> int \<Rightarrow> event list \<Rightarrow> event list \<Rightarrow> bool" where
  "splits_at sz p0 fs d p b q xs ys \<longleftrightarrow>
    fs = xs @ ys \<and> jchain sz d p0 24 xs q 24 \<and> jchain sz d q 24 ys p b"

lemma splits_first:
  assumes "logged sz p0 fs d p b"
  shows "splits_at sz p0 fs d p b p0 [] fs"
  using assms jchain_page_ok by (auto simp: splits_at_def logged_def)

lemma splits_step:
  assumes "splits_at sz p0 fs d p b q xs ys" "q < p"
  shows "\<exists>zs f ys'. splits_at sz p0 fs d p b (q + 1) (xs @ zs @ [f]) ys' \<and> ys = zs @ [f] @ ys' \<and>
    end_time (pages d q) = e_gen_time f"
proof -
  obtain zs f ys' where "ys = zs @ [f] @ ys'" "jchain sz d q 24 (zs @ [f]) (q + 1) 24"
    "jchain sz d (q + 1) 24 ys' p b" "end_time (pages d q) = e_gen_time f"
    using jchain_page [of sz d q 24 ys p b] assms by (auto simp: splits_at_def)
  moreover have "jchain sz d p0 24 ((xs @ zs) @ [f]) (q + 1) 24"
    using calculation(2) assms(1) jchain_append [of sz d p0 24 xs "zs @ [f]" "q + 1" 24]
    by (auto simp: splits_at_def)
  ultimately show ?thesis using assms(1) by (auto simp: splits_at_def)
qed

lemma splits_exists:
  assumes "logged sz p0 fs d p b" "p0 \<le> q" "q \<le> p"
  shows "\<exists>xs ys. splits_at sz p0 fs d p b q xs ys"
  using assms(2,3)
proof (induction q rule: int_ge_induct)
  case base
  then show ?case using splits_first [OF assms(1)] by blast
next
  case (step q)
  then obtain xs ys where "splits_at sz p0 fs d p b q xs ys" by auto
  then show ?case using splits_step step.prems by (metis zless_add1_eq add.commute less_add_one order_less_le_trans)
qed

section \<open>What loading pages leaves of a log\<close>

lemma last_frame_below:
  "logged sz p0 fs d p b \<Longrightarrow> last_frame_address (pages d p) \<le> b"
  by (auto simp: logged_def move_to_next_def)

lemma logged_big: "logged sz p0 fs d p b \<Longrightarrow> 60 < unat sz"
  by (simp add: logged_def)

lemma logged_keeps:
  assumes lg: "logged sz p0 fs d p b" and k: "keeps sz d d'" and big: "1000 < unat sz"
  shows "logged sz p0 fs d' p b"
proof -
  from lg have chain: "jchain sz d p0 24 fs p b" and b: "24 \<le> b" "b + 36 < unat sz" and le: "log_end d p b"
    and mv: "move_to_next (pages d p) (last_frame_address (pages d p)) = b"
    and only: "\<forall>q. files d q \<noteq> None \<longrightarrow> p0 \<le> q \<and> q \<le> p"
    by (simp_all add: logged_def)
  have ok: "page_ok sz d p" using jchain_page_ok [OF chain] by simp
  have same: "pages d' p i = pages d p i" if "i < unat sz - 1" for i
    using k ok that by (simp add: keeps_def)
  have "last_frame_position (pages d' p) = last_frame_position (pages d p)"
    unfolding last_frame_position_def using big same by (intro get64_cong) simp
  then have la: "last_frame_address (pages d' p) = last_frame_address (pages d p)"
    by (simp add: last_frame_address_def)
  have "frame_length (pages d' p) (last_frame_address (pages d p)) =
      frame_length (pages d p) (last_frame_address (pages d p))"
    unfolding frame_length_def off_length_def
    using same last_frame_below [OF lg] b(2) by (intro get32_cong) simp
  with la mv have "move_to_next (pages d' p) (last_frame_address (pages d' p)) = b"
    by (simp add: move_to_next_def)
  moreover have "\<forall>q. files d' q \<noteq> None \<longrightarrow> p0 \<le> q \<and> q \<le> p"
  proof (intro allI impI)
    fix q assume "files d' q \<noteq> None"
    then have "files d q \<noteq> None" using k by (auto simp: keeps_def)
    then show "p0 \<le> q \<and> q \<le> p" using only by simp
  qed
  moreover have "jchain sz d' p0 24 fs p b"
    by (rule jchain_keeps [OF chain k _ big]) simp
  moreover have "log_end d' p b"
    by (rule log_end_keeps [OF le k ok b(2)])
  ultimately show ?thesis using b by (simp add: logged_def)
qed

lemma logged_not_full:
  assumes "logged sz p0 fs d p b"
  shows "\<not> is_full (pages d p)"
proof -
  have ok: "page_ok sz d p" using assms jchain_page_ok by (auto simp: logged_def)
  have "last_frame_address (pages d p) + unat (frame_length (pages d p) (last_frame_address (pages d p))) = b"
    "b + 36 < unat sz" using assms by (simp_all add: logged_def move_to_next_def)
  then show ?thesis by (simp add: is_full_def page_ok_border [OF ok])
qed

lemma logged_page_ok:
  assumes "logged sz p0 fs d p b" "p0 \<le> q" "q \<le> p"
  shows "page_ok sz d q"
  using splits_exists [OF assms] jchain_page_ok by (auto simp: splits_at_def)

text \<open>The events before page \<open>q\<close> are all old.\<close>

definition old_before :: "i64 \<Rightarrow> u32 \<Rightarrow> int \<Rightarrow> event list \<Rightarrow> jdir \<Rightarrow> int \<Rightarrow> nat \<Rightarrow> int \<Rightarrow> bool" where
  "old_before t sz p0 fs d p b q \<longleftrightarrow>
    (\<exists>xs ys. splits_at sz p0 fs d p b q xs ys \<and> (\<forall>f \<in> set xs. e_gen_time f \<le> t))"

lemma splits_keeps:
  "splits_at sz p0 fs d p b q xs ys \<Longrightarrow> keeps sz d d' \<Longrightarrow> 1000 < unat sz \<Longrightarrow>
    splits_at sz p0 fs d' p b q xs ys"
  using jchain_keeps by (auto simp: splits_at_def)

lemma old_before_keeps:
  "old_before t sz p0 fs d p b q \<Longrightarrow> keeps sz d d' \<Longrightarrow> 1000 < unat sz \<Longrightarrow>
    old_before t sz p0 fs d' p b q"
  unfolding old_before_def using splits_keeps by blast

section \<open>seek_to_time\<close>

lemma seek_pages_logged:
  assumes "logged sz p0 fs d p b" "cursor sz j q 24" "p0 \<le> q" "q \<le> p" "quiet e"
    "sorted (map e_gen_time fs)" "old_before t sz p0 fs d p b q"
  shows "\<exists>d' j' q'. seek_pages e t (d, j) = Some (Inr (d', j')) \<and> cursor sz j' q' 24 \<and>
    p0 \<le> q' \<and> q' \<le> p \<and> moved j j' \<and> keeps sz d d' \<and> old_before t sz p0 fs d' p b q'"
  using assms
proof (induction "nat (p - q)" arbitrary: d j q)
  case 0
  then have "q = p" by simp
  then have "\<not> is_full (cur_mem (d, j))"
    using logged_not_full [OF 0(2)] 0(3) by (simp add: cur_mem_def cursor_def)
  then have "seek_pages e t (d, j) = Some (Inr (d, j))" by (simp add: seek_pages.simps)
  then show ?case using 0 by (intro exI conjI) auto
next
  case (Suc k)
  have big: "1000 < unat sz" using cursor_big [OF Suc(4)] by simp
  have lt: "q < p" using Suc(2) by simp
  have m: "cur_mem (d, j) = pages d q" using Suc(4) by (simp add: cur_mem_def cursor_def)
  show ?case
  proof (cases "is_full (pages d q) \<and> end_time (pages d q) \<le> t")
    case False
    then have "seek_pages e t (d, j) = Some (Inr (d, j))"
      using m by (subst seek_pages.simps) (simp only: if_False)
    then show ?thesis using Suc by (intro exI conjI) auto
  next
    case True
    have ok: "page_ok sz d (q + 1)" using logged_page_ok [OF Suc(3)] Suc(5) lt by simp
    have "j_page j \<noteq> Some (q + 1)" using Suc(4) by (simp add: cursor_def)
    then obtain d1 j1 where 1: "load_page e (q + 1) (d, j) = Inr (d1, j1)" "cursor sz j1 (q + 1) 24"
      "moved j j1" "keeps sz d d1"
      using load_page_existing [OF ok Suc(7) cursor_size [OF Suc(4)]] by blast
    obtain xs ys where s: "splits_at sz p0 fs d p b q xs ys" "\<forall>f \<in> set xs. e_gen_time f \<le> t"
      using Suc(9) by (auto simp: old_before_def)
    obtain zs f ys' where s': "splits_at sz p0 fs d p b (q + 1) (xs @ zs @ [f]) ys'"
      "end_time (pages d q) = e_gen_time f" using splits_step [OF s(1) lt] by blast
    have "\<forall>g \<in> set (xs @ zs @ [f]). e_gen_time g \<le> t"
    proof -
      have "sorted (map e_gen_time (zs @ [f]))"
        using Suc(8) s'(1) by (auto simp: splits_at_def sorted_append)
      then have "\<forall>g \<in> set zs. e_gen_time g \<le> e_gen_time f" by (auto simp: sorted_append)
      then show ?thesis using s(2) s'(2) True by force
    qed
    then have "old_before t sz p0 fs d p b (q + 1)" using s'(1) unfolding old_before_def by blast
    then have ob: "old_before t sz p0 fs d1 p b (q + 1)" using old_before_keeps [OF _ 1(4) big] by blast
    have k: "k = nat (p - (q + 1))" using Suc(2) by simp
    obtain d2 j2 q2 where 2: "seek_pages e t (d1, j1) = Some (Inr (d2, j2))" "cursor sz j2 q2 24"
      "p0 \<le> q2" "q2 \<le> p" "moved j1 j2" "keeps sz d1 d2" "old_before t sz p0 fs d2 p b q2"
      using Suc(1) [OF k logged_keeps [OF Suc(3) 1(4) big] 1(2) _ _ Suc(7,8) ob] Suc(5) lt by auto
    have "load_next_page e (d, j) = Inr (d1, j1)"
      using 1(1) Suc(4) by (simp add: load_next_page_def cursor_def)
    then have "seek_pages e t (d, j) = Some (Inr (d2, j2))"
      using True m 2(1) by (simp add: seek_pages.simps [of e t "(d, j)"])
    then show ?thesis using 2 moved_trans [OF 1(3) 2(5)] keeps_trans [OF 1(4) 2(6)] by blast
  qed
qed

text \<open>\<open>list_page_id\<close> of the locator: the ids of the page files, in order.\<close>

definition list_page_id :: "jdir \<Rightarrow> int list" where
  "list_page_id d = sorted_list_of_set (dom (files d))"

lemma list_page_id_logged:
  assumes "logged sz p0 fs d p b"
  shows "list_page_id d = [p0..p]"
proof -
  have le: "p0 \<le> p" by (rule logged_le [OF assms])
  have "dom (files d) = {p0..p}"
  proof (intro equalityI subsetI)
    fix q assume "q \<in> {p0..p}"
    then have "page_ok sz d q" using logged_page_ok [OF assms] by simp
    then show "q \<in> dom (files d)" by (auto simp: page_ok_def)
  qed (use assms in \<open>auto simp: logged_def\<close>)
  then have "list_page_id d = sorted_list_of_set (set [p0..p])" by (simp add: list_page_id_def)
  also have "\<dots> = [p0..p]" by (rule sorted_list_of_set.idem_if_sorted_distinct) simp_all
  finally show ?thesis .
qed

lemma begin_time_old:
  assumes s: "splits_at sz p0 fs d p b q xs ys" and "sorted (map e_gen_time fs)"
    and "begin_time (pages d q) < t" and ne: "ys \<noteq> []"
  shows "\<forall>f \<in> set xs. e_gen_time f \<le> t"
proof -
  obtain g gs where ys: "ys = g # gs" using ne by (cases ys) auto
  then have "e_gen_time g = begin_time (pages d q)"
    using s page_ok_first by (auto simp: splits_at_def begin_time_def frame_at_def)
  moreover have "\<forall>f \<in> set xs. e_gen_time f \<le> e_gen_time g"
    using s assms(2) ys by (auto simp: splits_at_def sorted_append)
  ultimately show ?thesis using assms(3) by force
qed

text \<open>A log whose last page is not empty, unless it is the only one.\<close>

definition no_empty_page :: "int \<Rightarrow> int \<Rightarrow> nat \<Rightarrow> bool" where
  "no_empty_page p0 p b \<longleftrightarrow> p = p0 \<or> 24 < b"

lemma splits_nonempty:
  assumes "splits_at sz p0 fs d p b q xs ys" "logged sz p0 fs d p b" "q < p \<or> 24 < b"
  shows "ys \<noteq> []"
  using assms by (auto simp: splits_at_def)

lemma find_page_loop_logged:
  assumes "logged sz p0 fs d p b" "set pids \<subseteq> {p0..p}" "quiet e" "sz = find_page_size cat dst"
    "sorted (map e_gen_time fs)" "no_empty_page p0 p b" "0 \<le> t"
  shows "\<exists>d' q. find_page_loop e cat dst t pids p0 d = Inr (d', q) \<and> p0 \<le> q \<and> q \<le> p \<and>
    keeps sz d d' \<and> old_before t sz p0 fs d' p b q"
  using assms(1,2)
proof (induction pids arbitrary: d)
  case Nil
  have "old_before t sz p0 fs d p b p0"
    using splits_first [OF Nil(1)] unfolding old_before_def by (intro exI conjI) auto
  then show ?case using logged_le [OF Nil(1)] by (intro exI conjI) auto
next
  case (Cons q pids)
  have big: "1000 < unat sz" using find_page_size_ge [of cat dst] assms(4) by simp
  have q: "p0 \<le> q" "q \<le> p" using Cons(3) by auto
  have ok: "page_ok sz d q" by (rule logged_page_ok [OF Cons(2) q])
  have he: "healthy e" using assms(3) by (simp add: quiet_def)
  obtain d1 where 1: "page_load e cat dst q False True d = Inr d1" "keeps sz d d1"
    using page_load_existing [OF ok he assms(4)] by blast
  have lg: "logged sz p0 fs d1 p b" by (rule logged_keeps [OF Cons(2) 1(2) big])
  show ?case
  proof (cases "begin_time (pages d1 q) < t")
    case True
    obtain xs ys where s: "splits_at sz p0 fs d1 p b q xs ys" using splits_exists [OF lg q] by blast
    have "\<forall>f \<in> set xs. e_gen_time f \<le> t"
    proof (cases "q < p \<or> 24 < b")
      case T: True
      then show ?thesis using begin_time_old [OF s assms(5) True splits_nonempty [OF s lg T]] by simp
    next
      case False
      then have "q = p0" "b = 24" using q lg assms(6) by (auto simp: no_empty_page_def logged_def)
      then have "xs = []" using s q False unfolding splits_at_def
        by (cases xs) (auto dest!: jchain_mono simp: good_frame_def split: if_splits)
      then show ?thesis by simp
    qed
    then have "old_before t sz p0 fs d1 p b q" using s unfolding old_before_def by blast
    then show ?thesis using 1 True q by (intro exI [of _ d1] exI [of _ q]) simp
  next
    case False
    obtain d' q' where 2: "find_page_loop e cat dst t pids p0 d1 = Inr (d', q')" "p0 \<le> q'" "q' \<le> p"
      "keeps sz d1 d'" "old_before t sz p0 fs d' p b q'"
      using Cons(1) [OF lg] Cons(3) by auto
    then show ?thesis using 1 False keeps_trans [OF 1(2) 2(4)]
      by (intro exI [of _ d'] exI [of _ q']) simp
  qed
qed

lemma find_page_id_logged:
  assumes "logged sz p0 fs d p b" "quiet e" "sz = find_page_size cat dst"
    "sorted (map e_gen_time fs)" "no_empty_page p0 p b" "0 \<le> t"
  shows "\<exists>d' q. find_page_id e cat dst (list_page_id d) t d = Inr (d', q) \<and> p0 \<le> q \<and> q \<le> p \<and>
    keeps sz d d' \<and> old_before t sz p0 fs d' p b q"
proof -
  have ids: "list_page_id d = [p0..p]" by (rule list_page_id_logged [OF assms(1)])
  have ne: "[p0..p] \<noteq> []" and h: "hd [p0..p] = p0"
    using logged_le [OF assms(1)] by (simp_all add: upto.simps)
  show ?thesis
  proof (cases "t = 0")
    case True
    have "old_before t sz p0 fs d p b p0"
      using splits_first [OF assms(1)] unfolding old_before_def by (intro exI conjI) auto
    then show ?thesis using ids ne h True logged_le [OF assms(1)] by (auto simp: find_page_id_def)
  next
    case False
    have "set (rev [p0..p]) \<subseteq> {p0..p}" by simp
    from find_page_loop_logged [OF assms(1) this assms(2-6)] show ?thesis
      using ids ne h False by (simp add: find_page_id_def)
  qed
qed

text \<open>\<open>seek_to_time\<close> terminates and leaves the cursor in front of the first event later than
  the time.\<close>

lemma seek_to_time_logged:
  assumes lg: "logged sz p0 fs d p b" and "quiet e"
    and j: "j_page j = None" "sz = find_page_size (j_category j) (j_dest_id j)"
    and "sorted (map e_gen_time fs)" "no_empty_page p0 p b" "0 \<le> t"
  shows "\<exists>d' j' p1 a1. seek_to_time e (list_page_id d) t (d, j) = Some (Inr (d', j')) \<and>
    cursor sz j' p1 a1 \<and> 24 \<le> a1 \<and> moved j j' \<and> keeps sz d d' \<and>
    jchain sz d' p0 24 (takeWhile (\<lambda>f. e_gen_time f \<le> t) fs) p1 a1 \<and>
    jchain sz d' p1 a1 (dropWhile (\<lambda>f. e_gen_time f \<le> t) fs) p b"
proof -
  have big: "1000 < unat sz" using find_page_size_ge [of "j_category j" "j_dest_id j"] j(2) by simp
  obtain d1 q where 1: "find_page_id e (j_category j) (j_dest_id j) (list_page_id d) t d = Inr (d1, q)"
    "p0 \<le> q" "q \<le> p" "keeps sz d d1" "old_before t sz p0 fs d1 p b q"
    using find_page_id_logged [OF lg assms(2) j(2) assms(5-7)] by blast
  have lg1: "logged sz p0 fs d1 p b" by (rule logged_keeps [OF lg 1(4) big])
  have np: "j_page j \<noteq> Some q" using j(1) by simp
  obtain d2 j2 where 2: "load_page e q (d1, j) = Inr (d2, j2)" "cursor sz j2 q 24" "moved j j2" "keeps sz d1 d2"
    using load_page_existing [OF logged_page_ok [OF lg1 1(2,3)] assms(2) j(2) np] by blast
  have lg2: "logged sz p0 fs d2 p b" by (rule logged_keeps [OF lg1 2(4) big])
  obtain d3 j3 q3 where 3: "seek_pages e t (d2, j2) = Some (Inr (d3, j3))" "cursor sz j3 q3 24"
    "p0 \<le> q3" "q3 \<le> p" "moved j2 j3" "keeps sz d2 d3" "old_before t sz p0 fs d3 p b q3"
    using seek_pages_logged [OF lg2 2(2) 1(2,3) assms(2,5) old_before_keeps [OF 1(5) 2(4) big]] by blast
  have lg3: "logged sz p0 fs d3 p b" by (rule logged_keeps [OF lg2 3(6) big])
  obtain xs ys where s: "splits_at sz p0 fs d3 p b q3 xs ys" "\<forall>f \<in> set xs. e_gen_time f \<le> t"
    using 3(7) by (auto simp: old_before_def)
  then have c: "jchain sz d3 p0 24 xs q3 24" "jchain sz d3 q3 24 ys p b" and fs: "fs = xs @ ys"
    by (simp_all add: splits_at_def)
  have le: "log_end d3 p b" "b + 36 < unat sz" using lg3 by (simp_all add: logged_def)
  obtain d4 j4 p4 a4 where 4: "seek_frames e t (d3, j3) = Some (Inr (d4, j4))" "cursor sz j4 p4 a4" "24 \<le> a4"
    "moved j3 j4" "keeps sz d3 d4" "jchain sz d4 q3 24 (takeWhile (\<lambda>f. e_gen_time f \<le> t) ys) p4 a4"
    "jchain sz d4 p4 a4 (dropWhile (\<lambda>f. e_gen_time f \<le> t) ys) p b"
    using seek_frames_chain [OF c(2) le 3(2) assms(2) order_refl] by blast
  have tw: "takeWhile (\<lambda>f. e_gen_time f \<le> t) fs = xs @ takeWhile (\<lambda>f. e_gen_time f \<le> t) ys"
    "dropWhile (\<lambda>f. e_gen_time f \<le> t) fs = dropWhile (\<lambda>f. e_gen_time f \<le> t) ys"
    using s(2) fs by (simp_all add: takeWhile_append2 dropWhile_append2)
  have "jchain sz d4 p0 24 xs q3 24" by (rule jchain_keeps [OF c(1) 4(5) _ big]) simp
  then have "jchain sz d4 p0 24 (takeWhile (\<lambda>f. e_gen_time f \<le> t) fs) p4 a4"
    using 4(6) unfolding tw jchain_append by blast
  moreover have "jchain sz d4 p4 a4 (dropWhile (\<lambda>f. e_gen_time f \<le> t) fs) p b"
    using 4(7) unfolding tw .
  moreover have "seek_to_time e (list_page_id d) t (d, j) = Some (Inr (d4, j4))"
    using 1(1) 2(1) 3(1) 4(1) by (simp add: seek_to_time_def)
  moreover have "moved j j4" using 2(3) 3(5) 4(4) by (blast intro: moved_trans)
  moreover have "keeps sz d d4" using 1(4) 2(4) 3(6) 4(5) by (blast intro: keeps_trans)
  ultimately show ?thesis using 4(2,3) by blast
qed

section \<open>The constructor of a writer\<close>

lemma new_writer_fresh:
  assumes none: "\<forall>q. files d q = None" and "quiet e" and sz: "sz = find_page_size (l_category l) dst"
  shows "\<exists>d' w. new_writer e (list_page_id d) now uuid l dst lz d = Some (Inr (d', w)) \<and>
    writing sz 1 [] (d', w) 1 24 \<and> w_frame_id_base w = frame_id_base (uid l) dst uuid \<and>
    j_location_uid (w_journal w) = uid l \<and> j_dest_id (w_journal w) = dst \<and> w_notified w = 0 \<and>
    j_page_frame_nb (w_journal w) = 0"
proof -
  let ?j = "new_journal l dst True lz"
  have big: "1000 < unat sz" using find_page_size_ge [of "l_category l" dst] sz by simp
  have f1: "files d 1 = None" and he: "healthy e" using none \<open>quiet e\<close> by (simp_all add: quiet_def)
  have ids: "list_page_id d = []" using none by (simp add: list_page_id_def dom_def)
  have jf: "j_category ?j = l_category l" "j_dest_id ?j = dst" "j_is_writing ?j" "j_lazy ?j = lz"
    "j_page ?j = None" by (simp_all add: new_journal_def)
  obtain d1 where d1: "page_load e (l_category l) dst 1 True lz d = Inr d1" "page_ok sz d1 1"
    "frame_length (pages d1 1) 24 = 0" "last_frame_position (pages d1 1) = 24"
    "\<forall>q. q \<noteq> 1 \<longrightarrow> files d1 q = files d q \<and> pages d1 q = pages d q"
    using page_load_fresh [OF f1 he sz] by blast
  let ?j1 = "?j\<lparr>j_page := Some 1, j_frame := 24, j_page_frame_nb := 0\<rparr>"
  have load: "load_page e 1 (d, ?j) = Inr (d1, ?j1)"
    using d1(1) jf \<open>quiet e\<close> page_ok_first [OF d1(2)]
    by (simp add: load_page_def clear_old_page_def quiet_def)
  have m: "cur_mem (d1, ?j1) = pages d1 1" by (simp add: cur_mem_def)
  have "\<not> is_full (pages d1 1)"
    using d1(3,4) page_ok_border [OF d1(2)] big by (simp add: is_full_def last_frame_address_def)
  then have sp: "seek_pages e now (d1, ?j1) = Some (Inr (d1, ?j1))"
    by (subst seek_pages.simps) (simp add: m)
  have "\<not> cur_has_data (d1, ?j1)" using d1(3) by (simp add: cur_has_data_def m has_data_def)
  then have sf: "seek_frames e now (d1, ?j1) = Some (Inr (d1, ?j1))"
    by (subst seek_frames.simps) simp
  let ?w = "\<lparr>w_journal = ?j1, w_locked = False, w_frame_id_base = frame_id_base (uid l) dst uuid,
     w_size_to_write = 0, w_notified = 0\<rparr>"
  have "new_writer e (list_page_id d) now uuid l dst lz d = Some (Inr (d1, ?w))"
    using load sp sf by (simp add: new_writer_def seek_to_time_def find_page_id_def ids)
  moreover have only: "\<forall>q. files d1 q \<noteq> None \<longrightarrow> 1 \<le> q \<and> q \<le> 1"
  proof (intro allI impI)
    fix q assume "files d1 q \<noteq> None"
    then show "1 \<le> q \<and> q \<le> 1" using d1(5) none by (cases "q = 1") auto
  qed
  have "logged sz 1 [] d1 1 24"
    using d1(2-4) big only by (simp add: logged_def log_end_def move_to_next_def last_frame_address_def)
  then have "writing sz 1 [] (d1, ?w) 1 24" using jf sz by (simp add: writing_def cursor_def)
  moreover have "j_location_uid ?j = uid l" by (simp add: new_journal_def)
  ultimately show ?thesis using jf by (intro exI [of _ d1] exI [of _ ?w]) simp
qed

lemma takeWhile_all: "\<forall>x \<in> set xs. P x \<Longrightarrow> takeWhile P xs = xs"
  by (induction xs) auto

text \<open>A writer constructed on an existing log stands on its end.\<close>

lemma new_writer_resume:
  assumes lg: "logged sz p0 fs d p b" and "quiet e" and sz: "sz = find_page_size (l_category l) dst"
    and "sorted (map e_gen_time fs)" "no_empty_page p0 p b" "0 \<le> now"
    and past: "\<forall>f \<in> set fs. e_gen_time f \<le> now"
  shows "\<exists>d' w. new_writer e (list_page_id d) now uuid l dst lz d = Some (Inr (d', w)) \<and>
    keeps sz d d' \<and> writing sz p0 fs (d', w) p b \<and> j_location_uid (w_journal w) = uid l \<and>
    j_dest_id (w_journal w) = dst"
proof -
  let ?j = "new_journal l dst True lz"
  have big: "1000 < unat sz" using find_page_size_ge [of "l_category l" dst] sz by simp
  have j: "j_page ?j = None" "sz = find_page_size (j_category ?j) (j_dest_id ?j)"
    using sz by (simp_all add: new_journal_def)
  obtain d' j' p1 a1 where 1: "seek_to_time e (list_page_id d) now (d, ?j) = Some (Inr (d', j'))"
    "cursor sz j' p1 a1" "moved ?j j'" "keeps sz d d'"
    "jchain sz d' p1 a1 (dropWhile (\<lambda>f. e_gen_time f \<le> now) fs) p b"
    using seek_to_time_logged [OF lg assms(2) j assms(4-6)] by blast
  have "dropWhile (\<lambda>f. e_gen_time f \<le> now) fs = []" using past by simp
  with 1(5) have "p1 = p" "a1 = b" by simp_all
  let ?w = "\<lparr>w_journal = j', w_locked = False, w_frame_id_base = frame_id_base (uid l) dst uuid,
     w_size_to_write = 0, w_notified = 0\<rparr>"
  have nw: "new_writer e (list_page_id d) now uuid l dst lz d = Some (Inr (d', ?w))"
    using 1(1) by (simp add: new_writer_def)
  have "j_is_writing j'" "j_location_uid j' = uid l" "j_dest_id j' = dst"
    using 1(3) by (simp_all add: moved_def new_journal_def)
  moreover have "writing sz p0 fs (d', ?w) p b"
    using logged_keeps [OF lg 1(4) big] 1(2) \<open>p1 = p\<close> \<open>a1 = b\<close> calculation(1) by (simp add: writing_def)
  ultimately show ?thesis using nw 1(4) by (intro exI [of _ d'] exI [of _ ?w]) simp
qed

section \<open>Sequences of writes\<close>

record message =
  msg_ticks :: ticks
  msg_trigger :: i64
  msg_kind :: i32
  msg_bytes :: "u8 list"

fun write_all :: "os_env \<Rightarrow> message list \<Rightarrow> wstate \<Rightarrow> jerror + wstate" where
  "write_all e [] s = Inr s"
| "write_all e (m # ms) s =
    bindE (write_frame e (msg_ticks m) (msg_trigger m) (msg_kind m) (msg_bytes m) s) (write_all e ms)"

definition message_ok :: "u32 \<Rightarrow> message \<Rightarrow> bool" where
  "message_ok sz m \<longleftrightarrow> ticks_ok (msg_ticks m) \<and> in_i64 (msg_trigger m) \<and> in_i32 (msg_kind m) \<and>
     0 < msg_kind m \<and> msg_kind m \<noteq> PageEnd \<and> length (msg_bytes m) + 96 < unat sz"

definition message_event :: "u32 \<Rightarrow> u32 \<Rightarrow> message \<Rightarrow> event" where
  "message_event src dst m =
    new_event (tk_close (msg_ticks m)) (msg_trigger m) (msg_kind m) src dst (msg_bytes m)"

definition not_page_end :: "event \<Rightarrow> bool" where
  "not_page_end f \<longleftrightarrow> e_msg_type f \<noteq> PageEnd"

text \<open>The events of the log after the writes: \<open>rolls\<close> says which of them closed a page.\<close>

fun appended_all :: "u32 \<Rightarrow> u32 \<Rightarrow> message list \<Rightarrow> bool list \<Rightarrow> event list" where
  "appended_all src dst (m # ms) (r # rs) =
    appended r (msg_ticks m) (msg_trigger m) (msg_kind m) src dst (msg_bytes m) @ appended_all src dst ms rs"
| "appended_all src dst _ _ = []"

lemma filter_appended:
  "mt \<noteq> PageEnd \<Longrightarrow> filter not_page_end (appended roll tk tr mt src dst bs) =
    [new_event (tk_close tk) tr mt src dst bs]"
  by (simp add: appended_def not_page_end_def new_event_def)

lemma filter_appended_all:
  "length rs = length ms \<Longrightarrow> \<forall>m \<in> set ms. msg_kind m \<noteq> PageEnd \<Longrightarrow>
    filter not_page_end (appended_all src dst ms rs) = map (message_event src dst) ms"
  by (induction ms rs rule: list_induct2')
    (simp_all add: filter_appended message_event_def)

text \<open>The clock readings of the writes are in order, starting at \<open>t\<close>.\<close>

fun clocked :: "i64 \<Rightarrow> message list \<Rightarrow> bool" where
  "clocked t [] \<longleftrightarrow> True"
| "clocked t (m # ms) \<longleftrightarrow>
    t \<le> tk_page (msg_ticks m) \<and> tk_page (msg_ticks m) \<le> tk_close (msg_ticks m) \<and>
    clocked (tk_close (msg_ticks m)) ms"

lemma clocked_times:
  "clocked t ms \<Longrightarrow> \<forall>f \<in> set (appended_all src dst ms rs). t \<le> e_gen_time f"
proof (induction ms rs arbitrary: t rule: list_induct2')
  case (4 m ms r rs)
  then have "\<forall>f \<in> set (appended_all src dst ms rs). tk_close (msg_ticks m) \<le> e_gen_time f" by simp
  with 4 show ?case by (force simp: appended_def new_event_def split: if_splits)
qed simp_all

lemma clocked_sorted:
  "clocked t ms \<Longrightarrow> sorted (map e_gen_time (appended_all src dst ms rs))"
proof (induction ms rs arbitrary: t rule: list_induct2')
  case (4 m ms r rs)
  then have c: "clocked (tk_close (msg_ticks m)) ms" by simp
  have "\<forall>f \<in> set (appended_all src dst ms rs). tk_close (msg_ticks m) \<le> e_gen_time f"
    by (rule clocked_times [OF c])
  moreover have "sorted (map e_gen_time (appended_all src dst ms rs))" using 4 c by blast
  ultimately show ?case using 4 by (auto simp: appended_def new_event_def sorted_append)
qed simp_all

lemma write_all_writing:
  assumes "writing sz p0 fs (d, w) p b" "quiet e" "\<forall>m \<in> set ms. message_ok sz m" "no_empty_page p0 p b"
  shows "\<exists>d' w' p' b' rs. write_all e ms (d, w) = Inr (d', w') \<and> same_writer w w' \<and>
    length rs = length ms \<and> no_empty_page p0 p' b' \<and>
    writing sz p0 (fs @ appended_all (j_location_uid (w_journal w)) (j_dest_id (w_journal w)) ms rs) (d', w') p' b' \<and>
    w_notified w' = w_notified w + length ms"
  using assms
proof (induction ms arbitrary: fs d w p b)
  case Nil
  then show ?case by (intro exI [of _ d] exI [of _ w] exI [of _ p] exI [of _ b] exI [of _ "[]"]) simp
next
  case (Cons m ms)
  let ?src = "j_location_uid (w_journal w)" and ?dst = "j_dest_id (w_journal w)"
  let ?r = "rolls sz b (length (msg_bytes m))"
  let ?app = "appended ?r (msg_ticks m) (msg_trigger m) (msg_kind m) ?src ?dst (msg_bytes m)"
  have ok: "ticks_ok (msg_ticks m)" "in_i64 (msg_trigger m)" "in_i32 (msg_kind m)" "0 < msg_kind m"
    "msg_kind m \<noteq> PageEnd" "length (msg_bytes m) + 96 < unat sz"
    using Cons.prems(3) by (simp_all add: message_ok_def)
  obtain d1 w1 p1 b1 where 1: "write_frame e (msg_ticks m) (msg_trigger m) (msg_kind m) (msg_bytes m) (d, w) = Inr (d1, w1)"
    "same_writer w w1" "w_notified w1 = w_notified w + 1" "writing sz p0 (fs @ ?app) (d1, w1) p1 b1"
    "if ?r then p1 = p + 1 \<and> b1 = 60 + length (msg_bytes m) else p1 = p \<and> b1 = b + 36 + length (msg_bytes m)"
    using write_frame_writing [OF Cons.prems(1,2) ok] by blast
  have ids: "j_location_uid (w_journal w1) = ?src" "j_dest_id (w_journal w1) = ?dst"
    using 1(2) by (simp_all add: same_writer_def moved_def)
  have "24 \<le> b" using Cons.prems(1) by (simp add: writing_def logged_def)
  then have ne: "no_empty_page p0 p1 b1" using 1(5) by (simp add: no_empty_page_def split: if_splits)
  have oks: "\<forall>m \<in> set ms. message_ok sz m" using Cons.prems(3) by simp
  obtain d2 w2 p2 b2 rs where 2: "write_all e ms (d1, w1) = Inr (d2, w2)" "same_writer w1 w2"
    "length rs = length ms" "no_empty_page p0 p2 b2"
    "writing sz p0 ((fs @ ?app) @ appended_all ?src ?dst ms rs) (d2, w2) p2 b2"
    "w_notified w2 = w_notified w1 + length ms"
    using Cons.IH [OF 1(4) Cons.prems(2) oks ne] unfolding ids by blast
  have "write_all e (m # ms) (d, w) = Inr (d2, w2)" using 1(1) 2(1) by simp
  then show ?case using 1(3) 2(3-6) same_writer_trans [OF 1(2) 2(2)]
    by (intro exI [of _ d2] exI [of _ w2] exI [of _ p2] exI [of _ b2] exI [of _ "?r # rs"]) simp
qed

end
