(* ===== verification/Reader.thy ===== *)
theory Reader
  imports Resume "HOL-Library.Multiset"
begin

text \<open>
  The reader of several journals (journal/reader.cpp).  It keeps a cursor per journal and a
  current one, which \<open>sort\<close> sets to the cursor whose frame is the oldest.  The locale
  \<open>event_source\<close> is what the reader relies on of a cursor; the merge of the journals is proved
  in it and interpreted on the cursors of the byte-level journal.
\<close>

section \<open>sort, over any kind of cursor\<close>

text \<open>The loop of \<open>sort\<close>: \<open>i\<close> is the index of the head, \<open>cur\<close> the current cursor so far.\<close>

fun sort_loop :: "('c \<Rightarrow> bool) \<Rightarrow> ('c \<Rightarrow> i64) \<Rightarrow> nat \<Rightarrow> i64 \<Rightarrow> nat option \<Rightarrow> 'c list \<Rightarrow> nat option" where
  "sort_loop has tm i min_time cur [] = cur"
| "sort_loop has tm i min_time cur (c # cs) =
    (if has c \<and> tm c \<le> min_time
     then sort_loop has tm (Suc i) (tm c) (Some i) cs
     else sort_loop has tm (Suc i) min_time cur cs)"

text \<open>The consumer's loop: look, take the current event, go to the next.  Each turn has its own
  reading of the clock; the events come with the index of their journal.\<close>

fun consume :: "('c \<Rightarrow> bool) \<Rightarrow> ('c \<Rightarrow> i64) \<Rightarrow> ('c \<Rightarrow> 'v) \<Rightarrow> ('c \<Rightarrow> 'x + 'c) \<Rightarrow> i64 list \<Rightarrow>
    nat option \<Rightarrow> 'c list \<Rightarrow> 'x + (nat \<times> 'v) list \<times> nat option \<times> 'c list" where
  "consume has tm ev nxt [] cur cs = Inr ([], cur, cs)"
| "consume has tm ev nxt (now # nows) cur cs =
    (case sort_loop has tm 0 now cur cs of
       None \<Rightarrow> Inr ([], None, cs)
     | Some k \<Rightarrow>
         if has (cs ! k)
         then bindE (nxt (cs ! k)) (\<lambda>c'.
                let cs' = cs[k := c'];
                    cur' = sort_loop has tm 0 now (Some k) cs'
                in bindE (consume has tm ev nxt nows cur' cs') (\<lambda>(es, fin).
                     Inr ((k, ev (cs ! k)) # es, fin)))
         else Inr ([], Some k, cs))"

text \<open>\<open>sort\<close> picks a cursor with data whose time is least, or leaves the current one.\<close>

lemma sort_loop_picks:
  assumes "sort_loop has tm i mt cur cs = r"
  shows "(r = cur \<and> (\<forall>c \<in> set cs. has c \<longrightarrow> mt < tm c)) \<or>
    (\<exists>k < length cs. r = Some (i + k) \<and> has (cs ! k) \<and> tm (cs ! k) \<le> mt \<and>
       (\<forall>c \<in> set cs. has c \<longrightarrow> tm (cs ! k) \<le> tm c) \<and>
       (\<forall>n < length cs. k < n \<longrightarrow> has (cs ! n) \<longrightarrow> tm (cs ! k) < tm (cs ! n)))"
  using assms
proof (induction cs arbitrary: i mt cur)
  case (Cons c cs)
  show ?case
  proof (cases "has c \<and> tm c \<le> mt")
    case True
    then have r: "sort_loop has tm (Suc i) (tm c) (Some i) cs = r" using Cons.prems by simp
    from Cons.IH [OF r] show ?thesis
    proof
      assume "r = Some i \<and> (\<forall>c' \<in> set cs. has c' \<longrightarrow> tm c < tm c')"
      then show ?thesis using True by (intro disjI2 exI [of _ 0]) (auto simp: nth_Cons' all_set_conv_all_nth)
    next
      assume "\<exists>k < length cs. r = Some (Suc i + k) \<and> has (cs ! k) \<and> tm (cs ! k) \<le> tm c \<and>
        (\<forall>c \<in> set cs. has c \<longrightarrow> tm (cs ! k) \<le> tm c) \<and>
        (\<forall>n < length cs. k < n \<longrightarrow> has (cs ! n) \<longrightarrow> tm (cs ! k) < tm (cs ! n))"
      then obtain k where k: "k < length cs" "r = Some (Suc i + k)" "has (cs ! k)" "tm (cs ! k) \<le> tm c"
        "\<forall>c \<in> set cs. has c \<longrightarrow> tm (cs ! k) \<le> tm c"
        "\<forall>n < length cs. k < n \<longrightarrow> has (cs ! n) \<longrightarrow> tm (cs ! k) < tm (cs ! n)" by blast
      have "\<forall>n < length (c # cs). Suc k < n \<longrightarrow> has ((c # cs) ! n) \<longrightarrow> tm (cs ! k) < tm ((c # cs) ! n)"
        using k(6) by (auto simp: nth_Cons' less_Suc_eq_0_disj)
      then show ?thesis using k(1-5) True by (intro disjI2 exI [of _ "Suc k"]) auto
    qed
  next
    case False
    then have r: "sort_loop has tm (Suc i) mt cur cs = r" using Cons.prems by auto
    from Cons.IH [OF r] show ?thesis
    proof
      assume "r = cur \<and> (\<forall>c' \<in> set cs. has c' \<longrightarrow> mt < tm c')"
      then show ?thesis using False by auto
    next
      assume "\<exists>k < length cs. r = Some (Suc i + k) \<and> has (cs ! k) \<and> tm (cs ! k) \<le> mt \<and>
        (\<forall>c \<in> set cs. has c \<longrightarrow> tm (cs ! k) \<le> tm c) \<and>
        (\<forall>n < length cs. k < n \<longrightarrow> has (cs ! n) \<longrightarrow> tm (cs ! k) < tm (cs ! n))"
      then obtain k where k: "k < length cs" "r = Some (Suc i + k)" "has (cs ! k)" "tm (cs ! k) \<le> mt"
        "\<forall>c \<in> set cs. has c \<longrightarrow> tm (cs ! k) \<le> tm c"
        "\<forall>n < length cs. k < n \<longrightarrow> has (cs ! n) \<longrightarrow> tm (cs ! k) < tm (cs ! n)" by blast
      have "\<forall>n < length (c # cs). Suc k < n \<longrightarrow> has ((c # cs) ! n) \<longrightarrow> tm (cs ! k) < tm ((c # cs) ! n)"
        using k(6) by (auto simp: nth_Cons' less_Suc_eq_0_disj)
      moreover have "has c \<longrightarrow> tm (cs ! k) \<le> tm c" using False k(4) by auto
      ultimately show ?thesis using k(1-5) by (intro disjI2 exI [of _ "Suc k"]) auto
    qed
  qed
qed simp

section \<open>The interface of a cursor\<close>

text \<open>\<open>rem c fs\<close>: the events in front of cursor \<open>c\<close>, up to the end of the log, are \<open>fs\<close>.\<close>

locale event_source =
  fixes has :: "'c \<Rightarrow> bool" and tm :: "'c \<Rightarrow> i64" and ev :: "'c \<Rightarrow> 'v" and nxt :: "'c \<Rightarrow> 'x + 'c"
    and rem :: "'c \<Rightarrow> 'v list \<Rightarrow> bool" and time_of :: "'v \<Rightarrow> i64"
  assumes at_end: "rem c [] \<Longrightarrow> \<not> has c"
    and at_event: "rem c (f # fs) \<Longrightarrow> has c \<and> ev c = f \<and> tm c = time_of f"
    and step: "rem c (f # fs) \<Longrightarrow> \<exists>c'. nxt c = Inr c' \<and> rem c' fs"
begin

definition all_rem :: "'c list \<Rightarrow> 'v list list \<Rightarrow> bool" where
  "all_rem cs fss \<longleftrightarrow> list_all2 rem cs fss"

lemma has_iff: "rem c fs \<Longrightarrow> has c \<longleftrightarrow> fs \<noteq> []"
  using at_end at_event by (cases fs) auto

lemma tm_hd: "rem c fs \<Longrightarrow> fs \<noteq> [] \<Longrightarrow> tm c = time_of (hd fs)"
  using at_event by (cases fs) auto

lemma pick_none:
  assumes "all_rem cs fss" "concat fss = []"
  shows "sort_loop has tm 0 now cur cs = cur"
proof -
  have "\<forall>c \<in> set cs. \<not> has c"
  proof
    fix c assume "c \<in> set cs"
    then obtain k where "k < length cs" "c = cs ! k" by (auto simp: in_set_conv_nth)
    then have "rem c (fss ! k)" "fss ! k \<in> set fss"
      using assms(1) by (auto simp: all_rem_def list_all2_conv_all_nth)
    then show "\<not> has c" using assms(2) has_iff by auto
  qed
  then show ?thesis using sort_loop_picks [of has tm 0 now cur cs] by (metis nth_mem)
qed

lemma pick_least:
  assumes r: "all_rem cs fss" and ne: "concat fss \<noteq> []"
    and now: "\<forall>f \<in> set (concat fss). time_of f \<le> now" and so: "\<forall>fs \<in> set fss. sorted (map time_of fs)"
  shows "\<exists>k f fs. k < length cs \<and> sort_loop has tm 0 now cur cs = Some k \<and> fss ! k = f # fs \<and>
    has (cs ! k) \<and> ev (cs ! k) = f \<and> (\<forall>g \<in> set (concat fss). time_of f \<le> time_of g)"
proof -
  have len: "length fss = length cs" using r by (simp add: all_rem_def list_all2_lengthD)
  have rk: "rem (cs ! k) (fss ! k)" if "k < length cs" for k
    using r that by (simp add: all_rem_def list_all2_conv_all_nth)
  obtain i where i: "i < length cs" "fss ! i \<noteq> []"
    using ne len by (auto simp: in_set_conv_nth)
  have "fss ! i \<in> set fss" "hd (fss ! i) \<in> set (fss ! i)" using i len by simp_all
  then have "hd (fss ! i) \<in> set (concat fss)" by auto
  then have "has (cs ! i)" "tm (cs ! i) \<le> now"
    using has_iff [OF rk [OF i(1)]] tm_hd [OF rk [OF i(1)] i(2)] i now by auto
  then have "\<not> (\<forall>c \<in> set cs. has c \<longrightarrow> now < tm c)" using i(1) by (auto simp: not_less)
  then obtain k where k: "k < length cs" "sort_loop has tm 0 now cur cs = Some (0 + k)" "has (cs ! k)"
    "\<forall>c \<in> set cs. has c \<longrightarrow> tm (cs ! k) \<le> tm c"
    using sort_loop_picks [of has tm 0 now cur cs] by blast
  obtain f fs where f: "fss ! k = f # fs" using has_iff [OF rk [OF k(1)]] k(3) by (cases "fss ! k") auto
  have tk: "tm (cs ! k) = time_of f" "ev (cs ! k) = f" using at_event rk [OF k(1)] f by auto
  have "time_of f \<le> time_of g" if g: "g \<in> set (concat fss)" for g
  proof -
    obtain gs where "gs \<in> set fss" "g \<in> set gs" using g by auto
    then obtain n where n: "n < length cs" "g \<in> set (fss ! n)" using len by (metis in_set_conv_nth)
    then have nn: "fss ! n \<noteq> []" by auto
    have "time_of f \<le> tm (cs ! n)" using k(4) n(1) has_iff [OF rk [OF n(1)]] nn tk by auto
    moreover have "tm (cs ! n) = time_of (hd (fss ! n))" by (rule tm_hd [OF rk [OF n(1)] nn])
    moreover have "time_of (hd (fss ! n)) \<le> time_of g"
    proof -
      have "sorted (map time_of (fss ! n))" using so n(1) len by simp
      then show ?thesis using n(2) by (cases "fss ! n") auto
    qed
    ultimately show ?thesis by simp
  qed
  then show ?thesis using k(1-3) f tk by auto
qed

text \<open>The consumer gets the merge of the journals: sorted by time, and from each journal exactly its
  events in order; it ends when all are consumed.\<close>

lemma consume_merges:
  assumes "all_rem cs fss" "\<forall>fs \<in> set fss. sorted (map time_of fs)" "length (concat fss) < length nows"
    "\<forall>now \<in> set nows. \<forall>f \<in> set (concat fss). time_of f \<le> now"
    "concat fss = [] \<longrightarrow> (case cur of None \<Rightarrow> True | Some k \<Rightarrow> k < length cs)"
  shows "\<exists>es cur' cs'. consume has tm ev nxt nows cur cs = Inr (es, cur', cs') \<and>
    sorted (map (time_of \<circ> snd) es) \<and> (\<forall>k < length cs. map snd (filter (\<lambda>e. fst e = k) es) = fss ! k) \<and>
    (\<forall>e \<in> set es. fst e < length cs \<and> snd e \<in> set (concat fss)) \<and>
    all_rem cs' (replicate (length cs) [])"
  using assms
proof (induction nows arbitrary: cur cs fss)
  case (Cons now nows)
  have len: "length fss = length cs" using Cons.prems(1) by (simp add: all_rem_def list_all2_lengthD)
  show ?case
  proof (cases "concat fss = []")
    case True
    then have all: "fss = replicate (length cs) []"
      using len by (metis concat_eq_Nil_conv replicate_eqI)
    have s: "sort_loop has tm 0 now cur cs = cur" by (rule pick_none [OF Cons.prems(1) True])
    have no: "\<not> has (cs ! k)" if "k < length cs" for k
      using Cons.prems(1) all that at_end by (auto simp: all_rem_def list_all2_conv_all_nth)
    have "\<exists>cur'. consume has tm ev nxt (now # nows) cur cs = Inr ([], cur', cs)"
      using s no Cons.prems(5) True by (auto split: option.split)
    then show ?thesis using Cons.prems(1) all len by (metis (no_types, lifting) filter.simps(1) list.simps(8) nth_replicate
          sorted_wrt.simps(1) empty_iff list.set(1))
  next
    case False
    have "\<forall>f \<in> set (concat fss). time_of f \<le> now" using Cons.prems(4) by simp
    from pick_least [OF Cons.prems(1) False this Cons.prems(2), of cur]
    obtain k f fs where k: "k < length cs" "sort_loop has tm 0 now cur cs = Some k" "fss ! k = f # fs"
      "has (cs ! k)" "ev (cs ! k) = f" "\<forall>g \<in> set (concat fss). time_of f \<le> time_of g" by blast
    have rk: "rem (cs ! k) (f # fs)"
      using Cons.prems(1) k(1,3) by (auto simp: all_rem_def list_all2_conv_all_nth)
    then obtain c' where c': "nxt (cs ! k) = Inr c'" "rem c' fs" using step by blast
    let ?cs = "cs[k := c']" and ?fss = "fss[k := fs]"
    have r': "all_rem ?cs ?fss"
      using Cons.prems(1) c'(2) by (simp add: all_rem_def list_all2_update_cong)
    have kl: "k < length fss" using k(1) len by simp
    have split: "concat fss = concat (take k fss) @ (f # fs) @ concat (drop (Suc k) fss)"
      using id_take_nth_drop [OF kl] k(3) by (metis append_Cons concat.simps(2) concat_append)
    have split': "concat ?fss = concat (take k fss) @ fs @ concat (drop (Suc k) fss)"
      using kl by (simp add: upd_conv_take_nth_drop)
    have sub: "set (concat ?fss) \<subseteq> set (concat fss)" unfolding split split' by auto
    have so': "\<forall>fs \<in> set ?fss. sorted (map time_of fs)"
    proof
      fix gs assume "gs \<in> set ?fss"
      then have "gs = fs \<or> gs \<in> set fss" using set_update_subset_insert [of fss k fs] by blast
      moreover have "sorted (map time_of (f # fs))" using Cons.prems(2) k(3) kl by (metis nth_mem)
      ultimately show "sorted (map time_of gs)" using Cons.prems(2) by auto
    qed
    have len': "length (concat ?fss) < length nows"
      using Cons.prems(3) arg_cong [OF split, of length] arg_cong [OF split', of length] by simp
    have now': "\<forall>now \<in> set nows. \<forall>f \<in> set (concat ?fss). time_of f \<le> now"
      using Cons.prems(4) sub by auto
    let ?cur = "sort_loop has tm 0 now (Some k) ?cs"
    have cur': "concat ?fss = [] \<longrightarrow> (case ?cur of None \<Rightarrow> True | Some k \<Rightarrow> k < length ?cs)"
      using pick_none [OF r'] k(1) by auto
    obtain es cur2 cs2 where 1: "consume has tm ev nxt nows ?cur ?cs = Inr (es, cur2, cs2)"
      "sorted (map (time_of \<circ> snd) es)" "\<forall>n < length ?cs. map snd (filter (\<lambda>e. fst e = n) es) = ?fss ! n"
      "\<forall>e \<in> set es. fst e < length ?cs \<and> snd e \<in> set (concat ?fss)"
      "all_rem cs2 (replicate (length ?cs) [])"
      using Cons.IH [OF r' so' len' now' cur'] by blast
    have "consume has tm ev nxt (now # nows) cur cs = Inr ((k, f) # es, cur2, cs2)"
      using k(2,4,5) c'(1) 1(1) by (simp add: Let_def)
    moreover have "\<forall>e \<in> set es. time_of f \<le> time_of (snd e)" using 1(4) sub k(6) by blast
    then have "sorted (map (time_of \<circ> snd) ((k, f) # es))" using 1(2) by auto
    moreover have "\<forall>n < length cs. map snd (filter (\<lambda>e. fst e = n) ((k, f) # es)) = fss ! n"
      using 1(3) k(3) kl by (auto simp: nth_list_update)
    moreover have "\<forall>e \<in> set ((k, f) # es). fst e < length cs \<and> snd e \<in> set (concat fss)"
      using 1(4) sub k(1) split by auto
    ultimately show ?thesis using 1(5) by (intro exI conjI) (assumption | simp)+
  qed
qed simp

end

section \<open>class reader\<close>

text \<open>Each cursor comes with the directory of its journal.\<close>

record reader =
  r_lazy :: bool
  r_current :: "nat option"
  r_journals :: "(jdir \<times> journal) list"

definition cur_time :: "jdir \<times> journal \<Rightarrow> i64" where
  "cur_time s = gen_time (cur_mem s) (j_frame (snd s))"

definition new_reader :: "bool \<Rightarrow> reader" where
  "new_reader lazy = \<lparr>r_lazy = lazy, r_current = None, r_journals = []\<rparr>"

definition reader_sort :: "i64 \<Rightarrow> reader \<Rightarrow> reader" where
  "reader_sort now r =
    r\<lparr>r_current := sort_loop cur_has_data cur_time 0 now (r_current r) (r_journals r)\<rparr>"

definition reader_current_frame :: "reader \<Rightarrow> jerror + event" where
  "reader_current_frame r =
    (case r_current r of None \<Rightarrow> Inl SegmentationFault | Some k \<Rightarrow> Inr (cur_event (r_journals r ! k)))"

definition data_available :: "i64 \<Rightarrow> reader \<Rightarrow> reader \<times> bool" where
  "data_available now r =
    (let r1 = reader_sort now r
     in (r1, case r_current r1 of None \<Rightarrow> False | Some k \<Rightarrow> cur_has_data (r_journals r1 ! k)))"

definition reader_next :: "os_env \<Rightarrow> i64 \<Rightarrow> reader \<Rightarrow> jerror + reader" where
  "reader_next e now r =
    bindE (case r_current r of
             None \<Rightarrow> Inr r
           | Some k \<Rightarrow> bindE (next_frame e (r_journals r ! k)) (\<lambda>s'.
               Inr (r\<lparr>r_journals := (r_journals r)[k := s']\<rparr>)))
      (\<lambda>r1. Inr (reader_sort now r1))"

text \<open>\<open>d\<close> and \<open>page_ids\<close> are the directory of the journal joined and the ids of its pages.\<close>

definition reader_join ::
    "os_env \<Rightarrow> i64 \<Rightarrow> location \<Rightarrow> u32 \<Rightarrow> i64 \<Rightarrow> jdir \<Rightarrow> int list \<Rightarrow> reader \<Rightarrow> (jerror + reader) option" where
  "reader_join e now l dest_id from_time d page_ids r =
    (if \<exists>s \<in> set (r_journals r). j_location_uid (snd s) = uid l \<and> j_dest_id (snd s) = dest_id
     then Some (Inr r)
     else
       case seek_to_time e page_ids from_time (d, new_journal l dest_id False (r_lazy r)) of
         None \<Rightarrow> None
       | Some (Inl err) \<Rightarrow> Some (Inl err)
       | Some (Inr s) \<Rightarrow>
           let r1 = r\<lparr>r_journals := r_journals r @ [s]\<rparr>
           in Some (Inr (if r_current r1 = None then reader_sort now r1 else r1)))"

definition reader_disjoin :: "i64 \<Rightarrow> u32 \<Rightarrow> reader \<Rightarrow> reader" where
  "reader_disjoin now location_uid r =
    reader_sort now (r\<lparr>r_journals := filter (\<lambda>s. j_location_uid (snd s) \<noteq> location_uid) (r_journals r),
                       r_current := None\<rparr>)"

fun seek_all :: "os_env \<Rightarrow> i64 \<Rightarrow> (jdir \<times> journal) list \<Rightarrow> (jerror + (jdir \<times> journal) list) option" where
  "seek_all e nanotime [] = Some (Inr [])"
| "seek_all e nanotime (s # ss) =
    (case seek_to_time e (list_page_id (fst s)) nanotime s of
       None \<Rightarrow> None
     | Some (Inl err) \<Rightarrow> Some (Inl err)
     | Some (Inr s') \<Rightarrow>
         (case seek_all e nanotime ss of
            None \<Rightarrow> None
          | Some (Inl err) \<Rightarrow> Some (Inl err)
          | Some (Inr ss') \<Rightarrow> Some (Inr (s' # ss'))))"

definition reader_seek_to_time :: "os_env \<Rightarrow> i64 \<Rightarrow> i64 \<Rightarrow> reader \<Rightarrow> (jerror + reader) option" where
  "reader_seek_to_time e now nanotime r =
    (case seek_all e nanotime (r_journals r) of
       None \<Rightarrow> None
     | Some (Inl err) \<Rightarrow> Some (Inl err)
     | Some (Inr ss) \<Rightarrow> Some (Inr (reader_sort now (r\<lparr>r_journals := ss\<rparr>))))"

text \<open>The loop of a consumer over the operations of the reader.\<close>

fun read_all :: "os_env \<Rightarrow> i64 list \<Rightarrow> reader \<Rightarrow> jerror + (nat \<times> event) list \<times> reader" where
  "read_all e [] r = Inr ([], r)"
| "read_all e (now # nows) r =
    (let (r1, avail) = data_available now r in
     if avail
     then (case r_current r1 of
             None \<Rightarrow> Inl SegmentationFault
           | Some k \<Rightarrow>
               bindE (reader_current_frame r1) (\<lambda>f.
                 bindE (reader_next e now r1) (\<lambda>r2.
                   bindE (read_all e nows r2) (\<lambda>(es, r3). Inr ((k, f) # es, r3)))))
     else Inr ([], r1))"

section \<open>The cursors of the journal are event sources\<close>

definition remaining :: "os_env \<Rightarrow> jdir \<times> journal \<Rightarrow> event list \<Rightarrow> bool" where
  "remaining e s fs \<longleftrightarrow> quiet e \<and>
    (\<exists>sz p a p' a'. cursor sz (snd s) p a \<and> 24 \<le> a \<and> jchain sz (fst s) p a fs p' a' \<and>
       log_end (fst s) p' a' \<and> a' + 36 < unat sz)"

lemma remaining_step:
  assumes "remaining e s (f # fs)"
  shows "\<exists>s'. next_frame e s = Inr s' \<and> remaining e s' fs"
proof -
  obtain d j where s: "s = (d, j)" by (cases s)
  obtain sz p a p' a' where 1: "quiet e" "cursor sz j p a" "24 \<le> a" "jchain sz d p a (f # fs) p' a'"
    "log_end d p' a'" "a' + 36 < unat sz" using assms unfolding s by (auto simp: remaining_def)
  obtain d' j' p1 a1 where 2: "next_frame e (d, j) = Inr (d', j')" "cursor sz j' p1 a1" "24 \<le> a1"
    "keeps sz d d'" "jchain sz d' p1 a1 fs p' a'"
    using next_step [OF 1(4,2,1,3)] by blast
  have "log_end d' p' a'"
    using log_end_keeps [OF 1(5) 2(4) _ 1(6)] jchain_page_ok [OF 1(4)] by blast
  then have "remaining e (d', j') fs"
    unfolding remaining_def fst_conv snd_conv using 1(1,6) 2(2,3,5) by blast
  then show ?thesis using 2(1) s by blast
qed

interpretation journal_source: event_source cur_has_data cur_time cur_event "next_frame e" "remaining e" e_gen_time
  for e
proof
  fix s assume "remaining e s []"
  then show "\<not> cur_has_data s"
    by (auto simp: remaining_def cur_has_data_def cur_mem_def cursor_def log_end_no_data)
next
  fix s f fs assume r: "remaining e s (f # fs)"
  obtain d j where s: "s = (d, j)" by (cases s)
  obtain sz p a p' a' where "cursor sz j p a" "jchain sz d p a (f # fs) p' a'"
    using r unfolding s remaining_def by auto
  from cursor_event [OF this(2,1)] show "cur_has_data s \<and> cur_event s = f \<and> cur_time s = e_gen_time f"
    unfolding s by (simp add: cur_time_def)
qed (rule remaining_step)

text \<open>The reader's loop is the generic one.\<close>

lemma read_all_consume:
  "read_all e nows r =
    bindE (consume cur_has_data cur_time cur_event (next_frame e) nows (r_current r) (r_journals r))
      (\<lambda>(es, cur, cs). Inr (es, r\<lparr>r_current := cur, r_journals := cs\<rparr>))"
proof (induction nows arbitrary: r)
  case (Cons now nows)
  show ?case
  proof (cases "sort_loop cur_has_data cur_time 0 now (r_current r) (r_journals r)")
    case None
    then show ?thesis by (simp add: data_available_def reader_sort_def)
  next
    case (Some k)
    show ?thesis
    proof (cases "cur_has_data (r_journals r ! k) \<and> (\<exists>c. next_frame e (r_journals r ! k) = Inr c)")
      case True
      then obtain c where c: "next_frame e (r_journals r ! k) = Inr c" by blast
      have *: "bindE (bindE x (\<lambda>(es, cur, cs). Inr (es, g cur cs))) (\<lambda>(es, r3). Inr ((k, f) # es, r3)) =
         bindE (bindE x (\<lambda>(es, fin). Inr ((k, f) # es, fin))) (\<lambda>(es, cur, cs). Inr (es, g cur cs))"
        for x :: "jerror + (nat \<times> event) list \<times> nat option \<times> (jdir \<times> journal) list" and f and g :: "_ \<Rightarrow> _ \<Rightarrow> reader"
        by (cases x) auto
      show ?thesis using Some True c
        by (simp add: data_available_def reader_sort_def reader_current_frame_def reader_next_def Cons.IH Let_def)
          (rule *)
    next
      case False
      then show ?thesis using Some
        by (cases "next_frame e (r_journals r ! k)")
          (auto simp: data_available_def reader_sort_def reader_current_frame_def reader_next_def)
    qed
  qed
qed simp

end
