(* ===== verification/Publication.thy ===== *)
theory Publication
  imports Resume
begin

text \<open>
  The order of the stores of a write, which are the lists of stores that the operations of
  theory Writer run.  A reader in another process sees the page between any two of them; the lemmas show that it sees either the old log or the log with the new event,
  because the length of the frame, which makes it visible, is stored after everything the
  frame holds.  (Each store of an integer is taken to be atomic and stores to become visible
  in program order, as on the x86 machines the program targets.)
\<close>

section \<open>The stores, one by one\<close>

text \<open>The stores of a write of \<open>bs\<close> into the frame at \<open>a\<close>, whose header is 36 bytes long.\<close>

definition write_stores ::
    "i64 \<Rightarrow> i64 \<Rightarrow> i32 \<Rightarrow> u32 \<Rightarrow> u32 \<Rightarrow> u8 list \<Rightarrow> nat \<Rightarrow> (mem \<Rightarrow> mem) list" where
  "write_stores now trigger mt src dst bs a =
    opening_stores trigger mt src dst a @ byte_stores (a + 36) bs @
    closing_stores now a (a + 36 + length bs) (length bs)"

lemma length_write_stores: "length (write_stores now tr mt src dst bs a) = length bs + 44"
  by (simp add: write_stores_def opening_stores_def closing_stores_def sizeof_frame_header_def)

text \<open>The stores before the length of the frame, and the two after.\<close>

definition quiet_part :: "i64 \<Rightarrow> i64 \<Rightarrow> i32 \<Rightarrow> u32 \<Rightarrow> u32 \<Rightarrow> u8 list \<Rightarrow> nat \<Rightarrow> (mem \<Rightarrow> mem) list" where
  "quiet_part now tr mt src dst bs a =
    opening_stores tr mt src dst a @ byte_stores (a + 36) bs @
    byte_stores (a + 36 + length bs) (replicate sizeof_frame_header 0) @ [set_gen_time a now]"

lemma write_stores_parts:
  "write_stores now tr mt src dst bs a =
    quiet_part now tr mt src dst bs a @ [set_data_length a (of_nat (length bs)), set_last_frame_position (of_nat a)]"
  by (simp add: write_stores_def quiet_part_def closing_stores_def)

lemma length_quiet_part: "length (quiet_part now tr mt src dst bs a) = length bs + 42"
  by (simp add: quiet_part_def opening_stores_def sizeof_frame_header_def)

lemma publish_stores: "publish now tr mt src dst bs a m = run_stores (write_stores now tr mt src dst bs a) m"
proof -
  have "header_length (set_frame_header tr mt src dst a m) a = 36"
    "header_length (copy_data a bs (set_frame_header tr mt src dst a m)) a = 36"
    by (simp_all add: header_length_header header_length_copy)
  then show ?thesis
    by (simp add: publish_def write_stores_def set_frame_header_def [symmetric] copy_data_def Let_def)
qed

text \<open>The first stores set the header: after them its length is 36, and until the length of the
  frame is stored every byte below the frame and the length itself are as before.\<close>

definition quiet_store :: "nat \<Rightarrow> (mem \<Rightarrow> mem) \<Rightarrow> bool" where
  "quiet_store a f \<longleftrightarrow> (\<forall>m. \<forall>i < a + 4. f m i = m i)"

lemma quiet_bytes: "a + 4 \<le> b \<Longrightarrow> \<forall>f \<in> set (byte_stores b bs). quiet_store a f"
  by (auto simp: byte_stores_def quiet_store_def store_bytes_def)

lemma quiet_stores: "\<forall>f \<in> set (quiet_part now tr mt src dst bs a). quiet_store a f"
proof -
  have "\<forall>f \<in> set (opening_stores tr mt src dst a @ [set_gen_time a now]). quiet_store a f"
    by (auto simp: opening_stores_def quiet_store_def header_stores put32_def put64_def store_bytes_def)
  then show ?thesis
    using quiet_bytes [of a "a + 36" bs] quiet_bytes [of a "a + 36 + length bs" "replicate sizeof_frame_header 0"]
    by (auto simp: quiet_part_def)
qed

lemma run_quiet_stores:
  "\<forall>f \<in> set fs. quiet_store a f \<Longrightarrow> i < a + 4 \<Longrightarrow> run_stores fs m i = m i"
  by (induction fs arbitrary: m) (simp_all add: quiet_store_def)

lemma before_length:
  assumes "k < length bs + 43" "i < a + 4"
  shows "run_stores (take k (write_stores now tr mt src dst bs a)) m i = m i"
proof -
  have "take k (write_stores now tr mt src dst bs a) = take k (quiet_part now tr mt src dst bs a)"
    using assms(1) by (simp add: write_stores_parts length_quiet_part)
  moreover have "\<forall>f \<in> set (take k (quiet_part now tr mt src dst bs a)). quiet_store a f"
    using quiet_stores [of now tr mt src dst bs a] by (meson in_set_takeD)
  ultimately show ?thesis using run_quiet_stores assms(2) by metis
qed

lemma after_length:
  assumes "24 \<le> a"
  shows "run_stores (take (length bs + 43) (write_stores now tr mt src dst bs a)) m =
    (\<lambda>i. if 16 \<le> i \<and> i < 24 then m i else publish now tr mt src dst bs a m i)"
proof
  fix i
  let ?q = "run_stores (quiet_part now tr mt src dst bs a) m"
  let ?m = "run_stores (take (length bs + 43) (write_stores now tr mt src dst bs a)) m"
  have m: "?m = set_data_length a (of_nat (length bs)) ?q"
    by (simp add: write_stores_parts length_quiet_part)
  have eq: "publish now tr mt src dst bs a m = put64 16 (of_nat a) ?m"
    unfolding m by (simp add: publish_stores write_stores_parts set_last_frame_position_def)
  show "?m i = (if 16 \<le> i \<and> i < 24 then m i else publish now tr mt src dst bs a m i)"
  proof (cases "16 \<le> i \<and> i < 24")
    case True
    then have "?q i = m i" using run_quiet_stores [OF quiet_stores] assms by simp
    then show ?thesis using True assms unfolding m by (simp add: set_data_length_def put32_def store_bytes_def off_length_def)
  next
    case False
    then show ?thesis unfolding eq put64_def by (auto simp: store_bytes_def)
  qed
qed

section \<open>What a reader can see between the stores\<close>

lemma unat_frame_length:
  fixes a n :: nat
  assumes "a + 36 + n < 2 ^ 32"
  shows "unat (36 + of_nat n :: u32) = 36 + n"
proof -
  have "(36 + of_nat n :: u32) = of_nat (36 + n)" by simp
  moreover have "36 + n < 2 ^ LENGTH(32)" using assms by simp
  ultimately show ?thesis by (simp only: unat_of_nat_small)
qed

lemma stores_before:
  fixes now tr :: i64 and mt :: i32 and src dst :: u32 and bs :: "u8 list"
  assumes lg: "logged sz p0 fs d p b" and big: "1000 < unat sz" and k: "k < length bs + 43"
  defines "d' \<equiv> on_page p (run_stores (take k (write_stores now tr mt src dst bs b))) d"
  shows "jchain sz d' p0 24 fs p b" "log_end d' p b"
proof -
  from lg have chain: "jchain sz d p0 24 fs p b" and b: "24 \<le> b" "b + 36 < unat sz" and le: "log_end d p b"
    by (simp_all add: logged_def)
  have ok: "page_ok sz d p" using jchain_page_ok [OF chain] by simp
  have same: "pages d' p i = pages d p i" if "i < b + 4" for i
    using before_length [OF k that] by (simp add: d'_def)
  have "check_page sz (pages d' p) = check_page sz (pages d p)"
    using same b(1) by (intro check_page_cong) simp
  moreover have "last_frame_position (pages d' p) = last_frame_position (pages d p)"
    unfolding last_frame_position_def using same b(1) by (intro get64_cong) simp
  ultimately have "extends sz p b d d'"
    unfolding d'_def using ok same
    by (intro on_page_extends) (auto simp: page_ok_def d'_def)
  then show "jchain sz d' p0 24 fs p b" using jchain_extends [OF chain _ _ big] by simp
  have "frame_length (pages d' p) b = frame_length (pages d p) b"
    unfolding frame_length_def off_length_def using same by (intro get32_cong) simp
  then show "log_end d' p b" using le by (simp add: log_end_def)
qed

lemma stores_after:
  fixes now tr :: i64 and mt :: i32 and src dst :: u32 and bs :: "u8 list"
  assumes lg: "logged sz p0 fs d p b" and big: "1000 < unat sz" "unat sz \<le> 0x8000000" and k: "length bs + 43 \<le> k"
    and t: "in_i64 now" "in_i64 tr" "in_i32 mt" "0 < mt" "mt \<noteq> PageEnd"
    and room: "b + 36 + length bs + 36 < unat sz"
  defines "d' \<equiv> on_page p (run_stores (take k (write_stores now tr mt src dst bs b))) d"
  shows "jchain sz d' p0 24 (fs @ [new_event now tr mt src dst bs]) p (b + 36 + length bs)"
    "log_end d' p (b + 36 + length bs)"
proof -
  from lg have chain: "jchain sz d p0 24 fs p b" and b: "24 \<le> b" "b + 36 < unat sz"
    by (simp_all add: logged_def)
  have ok: "page_ok sz d p" using jchain_page_ok [OF chain] by simp
  let ?pub = "publish now tr mt src dst bs b (pages d p)"
  have len: "b + 36 + length bs < 2 ^ 32" using room big by simp
  note fr = publish_frame [OF b(1) len t(1-4), of src dst "pages d p"]
  have n: "unat (frame_length ?pub b) = 36 + length bs" using fr(1) unat_frame_length [OF len] by simp
  have l10: "length (write_stores now tr mt src dst bs b) = length bs + 44" by (rule length_write_stores)
  have k2: "k = length bs + 43 \<or> length bs + 44 \<le> k" using k by auto
  have same: "pages d' p i = ?pub i" if "i < 16 \<or> 24 \<le> i" for i
    using that l10 k2 by (auto simp: d'_def after_length [OF b(1)] publish_stores)
  have lfp: "last_frame_position (pages d' p) \<noteq> 0"
  proof -
    have "unat (of_nat b :: u64) = b" using b big by (simp add: of_nat_unat_small)
    then have "(of_nat b :: u64) \<noteq> 0" using b(1) by auto
    moreover have "last_frame_position (\<lambda>i. if 16 \<le> i \<and> i < 24 then pages d p i else ?pub i) = last_frame_position (pages d p)"
      unfolding last_frame_position_def by (rule get64_cong) simp
    moreover have "last_frame_position (pages d p) \<noteq> 0" using ok by (simp add: page_ok_def)
    ultimately show ?thesis
      using k2 l10 publish_header(2) [OF b(1), of now tr mt src dst bs "pages d p"]
      by (auto simp: d'_def after_length [OF b(1)] publish_stores)
  qed
  have "check_page sz (pages d' p) = check_page sz ?pub"
    using same by (intro check_page_cong) simp
  then have hdr: "check_page sz (pages d' p) = None"
    using ok publish_header(1) [OF b(1)] by (simp add: page_ok_def)
  have below: "pages d' p i = pages d p i" if "24 \<le> i" "i < b" for i
    using same [of i] publish_below that by simp
  have ext: "extends sz p b d d'" "page_ok sz d' p"
    unfolding d'_def by (rule on_page_extends [OF ok]; use hdr lfp below in \<open>simp add: d'_def\<close>)+
  have "jchain sz d' p0 24 fs p b" using jchain_extends [OF chain ext(1) _ big(1)] by simp
  moreover have "jchain sz d' p b [new_event now tr mt src dst bs] p (b + 36 + length bs)"
  proof -
    have "\<And>i. b \<le> i \<Longrightarrow> i < b + unat (frame_length ?pub b) \<Longrightarrow> ?pub i = pages d' p i"
      using same b(1) by simp
    note cg = good_frame_cong [OF fr(2) this]
    show ?thesis using cg fr(3) n ext(2) t(5) room by (simp add: new_event_def)
  qed
  ultimately show "jchain sz d' p0 24 (fs @ [new_event now tr mt src dst bs]) p (b + 36 + length bs)"
    unfolding jchain_append by blast
  have "frame_length (pages d' p) (b + 36 + length bs) = frame_length ?pub (b + 36 + length bs)"
    using same b(1) by (intro frame_cong) simp
  then show "log_end d' p (b + 36 + length bs)" using fr(4) by (simp add: log_end_def)
qed

text \<open>A write into the rest of the page does exactly these stores.\<close>

lemma write_frame_stores:
  assumes inv: "writing sz p0 fs (d, w) p b" and e: "quiet e"
    and t: "ticks_ok tk" "in_i64 tr" "in_i32 mt" "0 < mt" "mt \<noteq> PageEnd"
    and room: "b + 36 + length bs + 36 < unat sz"
  defines "src \<equiv> j_location_uid (w_journal w)" and "dst \<equiv> j_dest_id (w_journal w)"
  shows "\<exists>w'. write_frame e tk tr mt bs (d, w) =
    Inr (on_page p (run_stores (write_stores (tk_close tk) tr mt src dst bs b)) d, w')"
proof -
  have lock: "lock_spin (tk_start tk) (tk_polls tk) = Acquired" and tt: "in_i64 (tk_page tk)" "in_i64 (tk_close tk)"
    using t(1) by (simp_all add: ticks_ok_def)
  have b: "24 \<le> b" using writing_facts(7) [OF inv] .
  have nr: "\<not> rolls sz b (length bs)" using room by (simp add: rolls_def)
  have big: "length bs + 96 < unat sz" using room b by simp
  obtain w0 where 1: "open_frame e tk tr mt (length bs) (d, w) =
      Inr (on_page p (set_frame_header tr mt src dst b) d, w0)" "same_writer w w0"
      "writing sz p0 fs (d, w0) p b"
    using open_frame_writing [OF inv e tt(1) t(2) lock big, of mt] nr unfolding src_def dst_def by auto
  have ids: "j_location_uid (w_journal w0) = src" "j_dest_id (w_journal w0) = dst"
    using 1(2) by (simp_all add: same_writer_def moved_def src_def dst_def)
  obtain w' where "bindE (copy_to_frame bs (on_page p (set_frame_header tr mt src dst b) d, w0))
      (close_frame e tk (length bs)) = Inr (on_page p (publish (tk_close tk) tr mt src dst bs b) d, w')"
    using finish_write [OF 1(3) e tt(2) t(2-5) room] unfolding ids by blast
  moreover have "publish (tk_close tk) tr mt src dst bs b = run_stores (write_stores (tk_close tk) tr mt src dst bs b)"
    by (rule ext) (rule publish_stores)
  ultimately show ?thesis using 1(1) by (simp add: write_frame_def)
qed

section \<open>A PageEnd written as an ordinary frame\<close>

text \<open>\<open>mark (PageEnd)\<close> closes an open frame of type PageEnd, so closing it moves on to yet another
  page.\<close>

lemma copy_nothing: "copy_data a [] m = m"
  by (rule ext) (auto simp: copy_data_def store_bytes_def)

lemma finish_page_end:
  assumes inv: "writing sz p0 fs (d, w) p b" and e: "quiet e"
    and t: "in_i64 (tk_close tk)" "in_i64 tr" and room: "b + 36 + 36 < unat sz"
  defines "src \<equiv> j_location_uid (w_journal w)" and "dst \<equiv> j_dest_id (w_journal w)"
  shows "\<exists>d' w'. close_frame e tk 0 (on_page p (set_frame_header tr PageEnd src dst b) d, w) = Inr (d', w') \<and>
      same_writer w w' \<and>
      writing sz p0 (fs @ [new_event (tk_close tk) tr PageEnd src dst []]) (d', w') (p + 1) 24"
proof -
  note wf = writing_facts [OF inv]
  let ?pub = "publish (tk_close tk) tr PageEnd src dst [] b"
  let ?d1 = "on_page p ?pub d"
  let ?w1 = "w\<lparr>w_journal := (w_journal w)\<lparr>j_page := Some (p + 1), j_frame := 24, j_page_frame_nb := 0\<rparr>\<rparr>"
  have mt: "in_i32 PageEnd" "0 < PageEnd" by (simp_all add: PageEnd_def in_i32_def)
  have len: "b + 36 + length ([] :: u8 list) < 2 ^ 32" using room wf(5) by simp
  note fr = publish_frame [OF wf(7) len t mt, of src dst "pages d p"]
  have ty: "msg_type (?pub (pages d p)) b = PageEnd"
    using fr(3) by (simp add: frame_at_def new_event_def)
  have fnone: "files ?d1 (p + 1) = None" using logged_fresh [OF wf(3)] by simp
  obtain d2 where d2: "via_journal (load_next_page e) (?d1, w) = Inr (d2, ?w1)" "page_ok sz d2 (p + 1)"
    "frame_length (pages d2 (p + 1)) 24 = 0" "last_frame_position (pages d2 (p + 1)) = 24"
    "\<forall>q. q \<noteq> p + 1 \<longrightarrow> files d2 q = files ?d1 q \<and> pages d2 q = pages ?d1 q"
    "cursor sz (w_journal ?w1) (p + 1) 24" "j_is_writing (w_journal ?w1)" "same_writer w ?w1"
    using load_fresh_page [OF fnone wf(1,2) e] by blast
  have nf: "via_journal (next_frame e) (?d1, w) = Inr (d2, ?w1)"
    using d2(1) wf(1) ty by (simp add: via_journal_def next_frame_def cursor_def)
  have border: "address_border (set_frame_header tr PageEnd src dst b (pages d p)) = unat sz - 36"
    using page_ok_header [OF wf(6)] wf(7)
    by (simp add: address_border_def get_page_size_header sizeof_frame_header_def)
  have cf: "close_frame e tk 0 (on_page p (set_frame_header tr PageEnd src dst b) d, w) =
      Inr (d2, ?w1\<lparr>w_locked := False, w_notified := w_notified w + 1\<rparr>)"
  proof -
    have "on_page p (\<lambda>_. ?pub (pages d p)) (on_page p (set_frame_header tr PageEnd src dst b) d) = ?d1"
      by (simp add: on_page_def)
    then show ?thesis using wf(1) room border nf
      by (simp add: close_frame_def cursor_def header_length_header sizeof_frame_header_def
          publish_def Let_def copy_nothing)
  qed
  have "logged sz p0 (fs @ [new_event (tk_close tk) tr PageEnd src dst []]) d2 (p + 1) 24"
  proof (rule turn_page [OF wf(3-5)])
    show "check_page sz (pages d2 p) = None"
      using wf(6) d2(5) publish_header(1) [OF wf(7)] by (simp add: page_ok_def)
    show "\<forall>q. q \<noteq> p + 1 \<longrightarrow> files d2 q = files d q \<and> (q \<noteq> p \<longrightarrow> pages d2 q = pages d q)"
      using d2(5) by simp
  qed (use d2(2-5) publish_header(2) [OF wf(7)] publish_below fr in \<open>simp_all add: new_event_def\<close>)
  then have "writing sz p0 (fs @ [new_event (tk_close tk) tr PageEnd src dst []])
      (d2, ?w1\<lparr>w_locked := False, w_notified := w_notified w + 1\<rparr>) (p + 1) 24"
    using d2(6,7) by (simp add: writing_def)
  then show ?thesis using cf d2(8)
    by (intro exI [of _ d2] exI [of _ "?w1\<lparr>w_locked := False, w_notified := w_notified w + 1\<rparr>"])
      (simp add: same_writer_def)
qed

text \<open>So a mark with its own time on a full page leaves the log at an empty page, and its frame on
  the page after it.\<close>

lemma mark_page_end:
  assumes inv: "writing sz p0 fs (d, w) p b" and e: "quiet e" and t: "ticks_ok tk" "in_i64 gen"
    and full: "unat sz - 36 \<le> b + 36"
  shows "\<exists>d' w' fs'. mark e tk gen PageEnd (d, w) = Inr (d', w') \<and> length fs' = 2 \<and>
    (\<forall>f \<in> set fs'. e_msg_type f = PageEnd) \<and> same_writer w w' \<and> writing sz p0 (fs @ fs') (d', w') (p + 2) 24"
proof -
  have lock: "lock_spin (tk_start tk) (tk_polls tk) = Acquired" and tt: "in_i64 (tk_page tk)" "in_i64 (tk_close tk)"
    using t(1) by (simp_all add: ticks_ok_def)
  have big: "(0::nat) + 96 < unat sz" using writing_facts(4) [OF inv] by simp
  have r: "rolls sz b 0" using full by (simp add: rolls_def)
  let ?f = "new_event (tk_page tk) gen PageEnd (j_location_uid (w_journal w)) (j_dest_id (w_journal w)) []"
  let ?g = "new_event (tk_close tk) gen PageEnd (j_location_uid (w_journal w)) (j_dest_id (w_journal w)) []"
  obtain d0 w0 where 1: "open_frame e tk gen PageEnd 0 (d, w) =
      Inr (on_page (p + 1) (set_frame_header gen PageEnd (j_location_uid (w_journal w)) (j_dest_id (w_journal w)) 24) d0, w0)"
      "same_writer w w0" "writing sz p0 (fs @ [?f]) (d0, w0) (p + 1) 24"
    using open_frame_writing [OF inv e tt(1) t(2) lock big, of PageEnd] r by auto
  have ids: "j_location_uid (w_journal w0) = j_location_uid (w_journal w)"
    "j_dest_id (w_journal w0) = j_dest_id (w_journal w)" using 1(2) by (simp_all add: same_writer_def moved_def)
  have room: "(24::nat) + 36 + 36 < unat sz" using big by simp
  obtain d' w' where 2: "close_frame e tk 0 (on_page (p + 1) (set_frame_header gen PageEnd
      (j_location_uid (w_journal w)) (j_dest_id (w_journal w)) 24) d0, w0) = Inr (d', w')"
    "same_writer w0 w'" "writing sz p0 ((fs @ [?f]) @ [?g]) (d', w') (p + 1 + 1) 24"
    using finish_page_end [OF 1(3) e tt(2) t(2) room] unfolding ids by blast
  have "mark e tk gen PageEnd (d, w) = Inr (d', w')" using 1(1) 2(1) by (simp add: mark_def)
  then show ?thesis using 2(3) same_writer_trans [OF 1(2) 2(2)]
    by (intro exI [of _ d'] exI [of _ w'] exI [of _ "[?f, ?g]"]) (simp add: add.assoc new_event_def)
qed

end
