(* ===== verification/JournalProps.thy ===== *)
theory JournalProps
  imports Publication
begin

text \<open>
  The correctness of the journal: what is written is read, in order and exactly once; a writer
  that restarts goes on where the log ends; a reader finds its place by time; no reader sees
  half an event; identifiers of frames are distinct.  The last section states what the code
  does where it does not do what it means to.
\<close>

section \<open>Writers and readers\<close>

text \<open>C1: whatever list of messages a new writer writes to an empty journal, across as many pages
  as it takes, every write returns, and a reader that joins from the start, lazy or not, reads
  all of them: its loop ends after at most two frames per message, at the end of the log, and
  the events other than page ends are exactly the messages, in order, with their times, types,
  source, destination and bytes.\<close>

theorem journal_roundtrip:
  assumes "quiet e" and sz: "sz = find_page_size (l_category l) dst"
    and ok: "\<forall>m \<in> set ms. message_ok sz m" and t: "0 < start" "clocked start ms"
  shows "\<exists>s0 d w. new_writer e (list_page_id empty_dir) now uuid l dst lz empty_dir = Some (Inr s0) \<and>
    write_all e ms s0 = Inr (d, w) \<and>
    (\<forall>lz'. \<exists>s1. seek_to_time e (list_page_id d) 0 (d, new_journal l dst False lz') = Some (Inr s1) \<and>
      (\<forall>n \<ge> 2 * length ms. \<exists>evs s2. read_log e n s1 = Inr (evs, s2) \<and> \<not> cur_has_data s2 \<and>
        filter not_page_end evs = map (message_event (uid l) dst) ms))"
proof -
  have none: "\<forall>q. files empty_dir q = None" by (simp add: empty_dir_def)
  obtain d0 w0 where 0: "new_writer e (list_page_id empty_dir) now uuid l dst lz empty_dir = Some (Inr (d0, w0))"
    "writing sz 1 [] (d0, w0) 1 24" "j_location_uid (w_journal w0) = uid l" "j_dest_id (w_journal w0) = dst"
    using new_writer_fresh [OF none assms(1) sz] by blast
  have np: "no_empty_page 1 1 24" by (simp add: no_empty_page_def)
  obtain d w p b rs where 1: "write_all e ms (d0, w0) = Inr (d, w)" "length rs = length ms"
    "no_empty_page 1 p b" "writing sz 1 (appended_all (uid l) dst ms rs) (d, w) p b"
    using write_all_writing [OF 0(2) assms(1) ok np] 0(3,4) by auto
  let ?fs = "appended_all (uid l) dst ms rs"
  note wf = writing_facts [OF 1(4)]
  have so: "sorted (map e_gen_time ?fs)" by (rule clocked_sorted [OF t(2)])
  have kinds: "\<forall>m \<in> set ms. msg_kind m \<noteq> PageEnd" using ok by (simp add: message_ok_def)
  have len: "length ?fs \<le> 2 * length ms"
    using 1(2) by (induction ms rs rule: list_induct2') (simp_all add: appended_def)
  have all: "dropWhile (\<lambda>f. e_gen_time f \<le> 0) ?fs = ?fs"
    using clocked_times [OF t(2), of "uid l" dst rs] t(1) by (cases ?fs) auto
  have "\<exists>s1. seek_to_time e (list_page_id d) 0 (d, new_journal l dst False lz') = Some (Inr s1) \<and>
      (\<forall>n \<ge> 2 * length ms. \<exists>evs s2. read_log e n s1 = Inr (evs, s2) \<and> \<not> cur_has_data s2 \<and>
        filter not_page_end evs = map (message_event (uid l) dst) ms)" for lz'
  proof -
    let ?j = "new_journal l dst False lz'"
    have j: "j_page ?j = None" "sz = find_page_size (j_category ?j) (j_dest_id ?j)"
      using sz by (simp_all add: new_journal_def)
    obtain d1 j1 p1 a1 where 2: "seek_to_time e (list_page_id d) 0 (d, ?j) = Some (Inr (d1, j1))"
      "cursor sz j1 p1 a1" "24 \<le> a1" "keeps sz d d1" "jchain sz d1 p1 a1 ?fs p b"
      using seek_to_time_logged [OF wf(3) assms(1) j so 1(3), of 0] all by auto
    have lg: "logged sz 1 ?fs d1 p b" by (rule logged_keeps [OF wf(3) 2(4) wf(4)])
    then have le: "log_end d1 p b" "b + 36 < unat sz" by (simp_all add: logged_def)
    have "\<exists>evs s2. read_log e n (d1, j1) = Inr (evs, s2) \<and> \<not> cur_has_data s2 \<and>
        filter not_page_end evs = map (message_event (uid l) dst) ms" if n: "2 * length ms \<le> n" for n
    proof -
      obtain d2 j2 p2 a2 where 3: "read_log e n (d1, j1) = Inr (take n ?fs, (d2, j2))" "cursor sz j2 p2 a2"
        "keeps sz d1 d2" "jchain sz d2 p2 a2 (drop n ?fs) p b"
        using read_log_chain [OF 2(5) le 2(2) assms(1) 2(3)] by blast
      have "take n ?fs = ?fs" "drop n ?fs = []" using len n by simp_all
      then have "p2 = p" "a2 = b" using 3(4) by simp_all
      have "log_end d2 p b"
        using log_end_keeps [OF le(1) 3(3) _ le(2)] jchain_page_ok [OF 2(5)] by blast
      then have "\<not> cur_has_data (d2, j2)"
        using 3(2) \<open>p2 = p\<close> \<open>a2 = b\<close> log_end_no_data by (simp add: cur_has_data_def cur_mem_def cursor_def)
      then show ?thesis
        using 3(1) \<open>take n ?fs = ?fs\<close> filter_appended_all [OF 1(2) kinds] by auto
    qed
    then show ?thesis using 2(1) by blast
  qed
  then show ?thesis using 0(1) 1(1) by blast
qed

definition sample_env :: os_env where
  "sample_env = \<lparr>open_ok = True, lseek_ok = True, write_ok = True, mmap_ok = True, madvise_ok = True,
     mlock_ok = True, clear_journal = False\<rparr>"

definition sample_ticks :: "i64 \<Rightarrow> ticks" where
  "sample_ticks t = \<lparr>tk_start = t, tk_polls = [(False, t + 1), (True, t + 2)], tk_page = t + 3, tk_close = t + 4\<rparr>"

definition sample_location :: location where
  "sample_location = make_location LIVE TD ''binance'' ''acc''"

definition sample_message :: "i64 \<Rightarrow> nat \<Rightarrow> message" where
  "sample_message t n = \<lparr>msg_ticks = sample_ticks t, msg_trigger = 5, msg_kind = 201, msg_bytes = replicate n 7\<rparr>"

lemma quiet_sample: "quiet sample_env"
  by (simp add: quiet_def healthy_def sample_env_def)

lemma sample_ticks_ok: "0 \<le> t \<Longrightarrow> t < 1000 \<Longrightarrow> ticks_ok (sample_ticks t)"
  by (simp add: ticks_ok_def sample_ticks_def in_i64_def NANOSECONDS_PER_MILLISECOND_def)

lemma sample_message_ok:
  "0 \<le> t \<Longrightarrow> t < 1000 \<Longrightarrow> n + 96 < 1048576 \<Longrightarrow> message_ok (find_page_size c dst) (sample_message t n)"
  using find_page_size_ge [of c dst] sample_ticks_ok [of t]
  by (simp add: message_ok_def sample_message_def in_i64_def in_i32_def PageEnd_def)

lemma sample_clocked: "clocked 1 [sample_message 10 3, sample_message 20 1000000, sample_message 30 1000000]"
  by (simp add: sample_message_def sample_ticks_def)

theorem journal_roundtrip_witness:
  "\<exists>s0 d w. new_writer sample_env (list_page_id empty_dir) 1 77 sample_location 9 True empty_dir = Some (Inr s0) \<and>
    write_all sample_env [sample_message 10 3, sample_message 20 1000000, sample_message 30 1000000] s0 = Inr (d, w) \<and>
    (\<forall>lz'. \<exists>s1. seek_to_time sample_env (list_page_id d) 0 (d, new_journal sample_location 9 False lz') = Some (Inr s1) \<and>
      (\<forall>n \<ge> 2 * length [sample_message 10 3, sample_message 20 1000000, sample_message 30 1000000].
        \<exists>evs s2. read_log sample_env n s1 = Inr (evs, s2) \<and> \<not> cur_has_data s2 \<and>
        filter not_page_end evs = map (message_event (uid sample_location) 9)
          [sample_message 10 3, sample_message 20 1000000, sample_message 30 1000000]))"
  by (rule journal_roundtrip [OF quiet_sample refl, where start = 1])
    (use sample_message_ok sample_clocked in \<open>simp_all\<close>)

text \<open>C4: a write of a frame that fits a page is an append to the abstract log.  From any state
  of a writer at the end of a log it returns, the log gains the event, after one PageEnd event
  when the frame did not fit the rest of the page, the old events stay, the lock is free again
  and the publisher was notified once.\<close>

theorem write_appends:
  assumes "writing sz p0 fs (d, w) p b" "quiet e" "message_ok sz m"
  shows "\<exists>s' p' b'.
    write_frame e (msg_ticks m) (msg_trigger m) (msg_kind m) (msg_bytes m) (d, w) = Inr s' \<and>
    writing sz p0 (fs @ (if b + 36 + length (msg_bytes m) \<ge> unat sz - 36
        then [new_event (tk_page (msg_ticks m)) (msg_trigger m) PageEnd
                (j_location_uid (w_journal w)) (j_dest_id (w_journal w)) []] else []) @
      [message_event (j_location_uid (w_journal w)) (j_dest_id (w_journal w)) m]) s' p' b' \<and>
    \<not> w_locked (snd s') \<and> w_notified (snd s') = w_notified w + 1"
proof -
  have ok: "ticks_ok (msg_ticks m)" "in_i64 (msg_trigger m)" "in_i32 (msg_kind m)" "0 < msg_kind m"
    "msg_kind m \<noteq> PageEnd" "length (msg_bytes m) + 96 < unat sz"
    using assms(3) by (simp_all add: message_ok_def)
  obtain d' w' p' b' where "write_frame e (msg_ticks m) (msg_trigger m) (msg_kind m) (msg_bytes m) (d, w) = Inr (d', w')"
    "\<not> w_locked w'" "w_notified w' = w_notified w + 1"
    "writing sz p0 (fs @ appended (rolls sz b (length (msg_bytes m))) (msg_ticks m) (msg_trigger m) (msg_kind m)
      (j_location_uid (w_journal w)) (j_dest_id (w_journal w)) (msg_bytes m)) (d', w') p' b'"
    using write_frame_writing [OF assms(1,2) ok] by blast
  then show ?thesis
    by (intro exI [of _ "(d', w')"] exI [of _ p'] exI [of _ b'])
      (simp add: appended_def rolls_def message_event_def)
qed

lemma sample_writing:
  "\<exists>d w. writing (find_page_size TD 9) 1 [] (d, w) 1 24 \<and> j_page_frame_nb (w_journal w) = 0"
  using new_writer_fresh [of empty_dir sample_env _ sample_location 9 1 77 True] quiet_sample
  by (auto simp: empty_dir_def sample_location_def make_location_def)

theorem write_appends_witness:
  "\<exists>d w s' p' b'. writing (find_page_size TD 9) 1 [] (d, w) 1 24 \<and>
    write_frame sample_env (sample_ticks 10) 5 201 (replicate 3 7) (d, w) = Inr s' \<and>
    writing (find_page_size TD 9) 1
      [message_event (j_location_uid (w_journal w)) (j_dest_id (w_journal w)) (sample_message 10 3)] s' p' b'"
proof -
  obtain d w where w: "writing (find_page_size TD 9) 1 [] (d, w) 1 24" using sample_writing by blast
  have m: "message_ok (find_page_size TD 9) (sample_message 10 3)" by (rule sample_message_ok) simp_all
  have big: "1048576 \<le> unat (find_page_size TD 9)" by (rule find_page_size_ge)
  have no_roll: "\<not> 24 + 36 + length (msg_bytes (sample_message 10 3)) \<ge> unat (find_page_size TD 9) - 36"
    using big by (simp add: sample_message_def)
  have fields: "msg_ticks (sample_message 10 3) = sample_ticks 10" "msg_trigger (sample_message 10 3) = 5"
    "msg_kind (sample_message 10 3) = 201" "msg_bytes (sample_message 10 3) = replicate 3 7"
    by (simp_all add: sample_message_def)
  obtain s' p' b' where a: "write_frame sample_env (sample_ticks 10) 5 201 (replicate 3 7) (d, w) = Inr s'"
    and l: "writing (find_page_size TD 9) 1 ([] @ (if 24 + 36 + length (msg_bytes (sample_message 10 3)) \<ge>
        unat (find_page_size TD 9) - 36 then [new_event (tk_page (msg_ticks (sample_message 10 3)))
        (msg_trigger (sample_message 10 3)) PageEnd (j_location_uid (w_journal w)) (j_dest_id (w_journal w)) []]
        else []) @ [message_event (j_location_uid (w_journal w)) (j_dest_id (w_journal w)) (sample_message 10 3)]) s' p' b'"
    using write_appends [OF w quiet_sample m] fields by auto
  from l have "writing (find_page_size TD 9) 1 [message_event (j_location_uid (w_journal w))
      (j_dest_id (w_journal w)) (sample_message 10 3)] s' p' b'"
    unfolding if_not_P [OF no_roll] by simp
  with w a show ?thesis by blast
qed

text \<open>C5: a writer constructed on a journal that another writer left stands exactly on the end of
  the log, so its writes go on from there; the search returns, and no event is lost or
  overwritten.\<close>

theorem writer_resumes:
  assumes "logged sz p0 fs d p b" "quiet e" "sz = find_page_size (l_category l) dst"
    and "sorted (map e_gen_time fs)" "p = p0 \<or> 24 < b" "0 \<le> now"
    and "\<forall>f \<in> set fs. e_gen_time f \<le> now"
  shows "\<exists>d' w. new_writer e (list_page_id d) now uuid l dst lz d = Some (Inr (d', w)) \<and>
    writing sz p0 fs (d', w) p b"
  using new_writer_resume [OF assms(1-4) _ assms(6,7)] assms(5) unfolding no_empty_page_def by blast

theorem writer_resumes_witness:
  "\<exists>d d' w. logged (find_page_size TD 9) 1 [] d 1 24 \<and>
    new_writer sample_env (list_page_id d) 50 78 sample_location 9 True d = Some (Inr (d', w)) \<and>
    writing (find_page_size TD 9) 1 [] (d', w) 1 24"
proof -
  obtain d w where "writing (find_page_size TD 9) 1 [] (d, w) 1 24" using sample_writing by blast
  then have lg: "logged (find_page_size TD 9) 1 [] d 1 24" by (simp add: writing_def)
  have cat: "find_page_size TD 9 = find_page_size (l_category sample_location) 9"
    by (simp add: sample_location_def make_location_def)
  show ?thesis using writer_resumes [OF lg quiet_sample cat, of 50 78 True] lg by auto
qed



section \<open>What other processes see\<close>

text \<open>C2: publication of an event is atomic.  The write of a frame that fits the page runs the stores
  of \<open>open_frame\<close>, of the copy of each byte and of \<open>close_frame\<close>, in this order; a reader that looks at the
  page before the length of the frame is stored, the last store but one, finds the old log, ending where it
  ended, and from then on the old log with the complete new event, never a part of it.\<close>

theorem publication_atomic:
  assumes inv: "writing sz p0 fs (d, w) p b" and "quiet e" and ok: "message_ok sz m"
    and room: "b + 36 + length (msg_bytes m) + 36 < unat sz"
  defines "src \<equiv> j_location_uid (w_journal w)" and "dst \<equiv> j_dest_id (w_journal w)"
    and "n \<equiv> length (msg_bytes m)"
  defines "stores \<equiv> opening_stores (msg_trigger m) (msg_kind m) src dst b @ byte_stores (b + 36) (msg_bytes m) @
    closing_stores (tk_close (msg_ticks m)) b (b + 36 + n) n"
  shows "(\<exists>w'. write_frame e (msg_ticks m) (msg_trigger m) (msg_kind m) (msg_bytes m) (d, w) =
       Inr (on_page p (run_stores stores) d, w')) \<and>
    (\<forall>k. let d' = on_page p (run_stores (take k stores)) d in
       if k < length stores - 1 then jchain sz d' p0 24 fs p b \<and> log_end d' p b
       else jchain sz d' p0 24 (fs @ [message_event src dst m]) p (b + 36 + n) \<and> log_end d' p (b + 36 + n))"
proof -
  note wf = writing_facts [OF inv]
  have st: "stores = write_stores (tk_close (msg_ticks m)) (msg_trigger m) (msg_kind m) src dst (msg_bytes m) b"
    by (simp add: stores_def write_stores_def n_def)
  have len: "length stores - 1 = length (msg_bytes m) + 43" by (simp add: st length_write_stores)
  have t: "ticks_ok (msg_ticks m)" "in_i64 (msg_trigger m)" "in_i32 (msg_kind m)" "0 < msg_kind m"
    "msg_kind m \<noteq> PageEnd" using ok by (simp_all add: message_ok_def)
  then have tc: "in_i64 (tk_close (msg_ticks m))" by (simp add: ticks_ok_def)
  have "let d' = on_page p (run_stores (take k stores)) d in
       if k < length stores - 1 then jchain sz d' p0 24 fs p b \<and> log_end d' p b
       else jchain sz d' p0 24 (fs @ [message_event src dst m]) p (b + 36 + n) \<and> log_end d' p (b + 36 + n)" for k
  proof (cases "k < length stores - 1")
    case True
    then have "k < length (msg_bytes m) + 43" unfolding len .
    from stores_before [OF wf(3,4) this] show ?thesis using True unfolding st Let_def by simp
  next
    case False
    then have "length (msg_bytes m) + 43 \<le> k" unfolding len by linarith
    from stores_after [OF wf(3-5) this tc t(2-5) room, of src dst] show ?thesis
      using False unfolding st Let_def by (simp add: message_event_def n_def)
  qed
  then show ?thesis
    using write_frame_stores [OF inv assms(2) t room] unfolding st src_def dst_def by blast
qed

theorem publication_atomic_witness:
  "\<exists>d w stores. writing (find_page_size TD 9) 1 [] (d, w) 1 24 \<and>
    stores = opening_stores 5 201 (j_location_uid (w_journal w)) (j_dest_id (w_journal w)) 24 @
      byte_stores 60 [7, 7, 7] @ closing_stores 14 24 63 3 \<and>
    (\<exists>w'. write_frame sample_env (sample_ticks 10) 5 201 [7, 7, 7] (d, w) = Inr (on_page 1 (run_stores stores) d, w')) \<and>
    log_end (on_page 1 (run_stores (take 45 stores)) d) 1 24 \<and> log_end (on_page 1 (run_stores (take 46 stores)) d) 1 63"
proof -
  obtain d w where w: "writing (find_page_size TD 9) 1 [] (d, w) 1 24" using sample_writing by blast
  have m: "message_ok (find_page_size TD 9) (sample_message 10 3)" by (rule sample_message_ok) simp_all
  have room: "24 + 36 + length (msg_bytes (sample_message 10 3)) + 36 < unat (find_page_size TD 9)"
    using find_page_size_ge [of TD 9] by (simp add: sample_message_def)
  have f: "msg_ticks (sample_message 10 3) = sample_ticks 10" "msg_trigger (sample_message 10 3) = 5"
    "msg_kind (sample_message 10 3) = 201" "msg_bytes (sample_message 10 3) = [7, 7, 7]" "tk_close (sample_ticks 10) = 14"
    by (simp_all add: sample_message_def sample_ticks_def numeral_3_eq_3)
  let ?st = "opening_stores 5 201 (j_location_uid (w_journal w)) (j_dest_id (w_journal w)) 24 @
      byte_stores 60 [7, 7, 7] @ closing_stores 14 24 63 3"
  have len: "length ?st = 47" by (simp add: opening_stores_def closing_stores_def sizeof_frame_header_def)
  have nums: "length [7 :: u8, 7, 7] = 3" "24 + 36 = (60 :: nat)" "60 + 3 = (63 :: nat)" by simp_all
  note pa = publication_atomic [OF w quiet_sample m room, unfolded f nums]
  have all: "\<exists>w'. write_frame sample_env (sample_ticks 10) 5 201 [7, 7, 7] (d, w) = Inr (on_page 1 (run_stores ?st) d, w')"
    "\<And>k. let d' = on_page 1 (run_stores (take k ?st)) d in
       if k < length ?st - 1 then jchain (find_page_size TD 9) d' 1 24 [] 1 24 \<and> log_end d' 1 24
       else jchain (find_page_size TD 9) d' 1 24 ([] @ [message_event (j_location_uid (w_journal w)) (j_dest_id (w_journal w)) (sample_message 10 3)])
         1 63 \<and> log_end d' 1 63"
    using pa by blast+
  have "log_end (on_page 1 (run_stores (take 45 ?st)) d) 1 24" using all(2) [of 45] unfolding len Let_def by simp
  moreover have "log_end (on_page 1 (run_stores (take 46 ?st)) d) 1 63" using all(2) [of 46] unfolding len Let_def by simp
  ultimately show ?thesis using w all(1) by (intro exI [of _ d] exI [of _ w] exI [of _ ?st]) blast
qed

lemma join_words:
  fixes x x' y y' :: u32
  shows "(push_bit 32 (ucast x) OR ucast y :: u64) = push_bit 32 (ucast x') OR ucast y' \<longleftrightarrow> x = x' \<and> y = y'"
proof
  assume eq: "(push_bit 32 (ucast x) OR ucast y :: u64) = push_bit 32 (ucast x') OR ucast y'"
  have b: "bit (push_bit 32 (ucast u) OR ucast v :: u64) k = (if k < 32 then bit v k else k < 64 \<and> bit u (k - 32))"
    for u v :: u32 and k
    by (auto simp: bit_simps dest: bit_imp_le_length)
  have "bit y k = bit y' k" for k
    using arg_cong [OF eq, of "\<lambda>z. bit z k"] unfolding b by (cases "k < 32") (auto dest: bit_imp_le_length)
  moreover have "bit x k = bit x' k" for k
    using arg_cong [OF eq, of "\<lambda>z. bit z (k + 32)"] unfolding b by (cases "k < 32") (auto dest: bit_imp_le_length)
  ultimately show "x = x' \<and> y = y'" by (simp add: bit_eq_iff)
qed simp

lemma frame_uid_low_bits:
  fixes p m :: int
  shows "k < 32 \<Longrightarrow> bit ((push_bit 16 (word_of_int p :: u32) AND PAGE_ID_TRANC) OR
      ((word_of_int m :: u32) AND FRAME_ID_TRANC)) k = (if k < 16 then bit m k else bit p (k - 16))"
proof -
  have f: "FRAME_ID_TRANC = mask 16" and g: "PAGE_ID_TRANC = push_bit 16 (mask 16)"
    by (simp_all add: FRAME_ID_TRANC_def PAGE_ID_TRANC_def mask_eq_exp_minus_1 push_bit_eq_mult)
  assume k: "k < 32"
  have "bit FRAME_ID_TRANC k \<longleftrightarrow> k < 16" "bit PAGE_ID_TRANC k \<longleftrightarrow> \<not> k < 16"
    unfolding f g using k by (auto simp: bit_simps)
  then show ?thesis using k by (auto simp: bit_or_iff bit_and_iff bit_push_bit_iff bit_word_of_int_iff)
qed

lemma bits_16_eq:
  fixes m n :: int
  assumes "0 \<le> m" "m < 2 ^ 16" "0 \<le> n" "n < 2 ^ 16" "\<And>k. k < 16 \<Longrightarrow> bit m k = bit n k"
  shows "m = n"
proof -
  have "take_bit 16 m = take_bit 16 n" using assms(5) by (auto simp: bit_eq_iff bit_simps)
  then show ?thesis using assms(1-4) by (simp add: take_bit_int_eq_self)
qed

lemma frame_uid_eq:
  assumes "0 \<le> p" "p < 2 ^ 15" "0 \<le> q" "q < 2 ^ 15" "0 \<le> m" "m < 2 ^ 16" "0 \<le> n" "n < 2 ^ 16"
  shows "frame_uid (push_bit 32 (ucast x)) p m = frame_uid (push_bit 32 (ucast y)) q n \<longleftrightarrow>
    x = (y :: u32) \<and> p = q \<and> m = n"
proof
  let ?w = "\<lambda>p m. (push_bit 16 (word_of_int p :: u32) AND PAGE_ID_TRANC) OR
      ((word_of_int m :: u32) AND FRAME_ID_TRANC)"
  assume "frame_uid (push_bit 32 (ucast x)) p m = frame_uid (push_bit 32 (ucast y)) q n"
  then have xy: "x = y" and eq: "?w p m = ?w q n" by (simp_all add: frame_uid_def join_words)
  have bits: "bit (?w p m) k = bit (?w q n) k" for k using eq by simp
  have "bit m k = bit n k" if "k < 16" for k
    using bits [of k] that frame_uid_low_bits [of k p m] frame_uid_low_bits [of k q n] by simp
  then have "m = n" using assms by (intro bits_16_eq) auto
  moreover have "bit p k = bit q k" if "k < 16" for k
    using bits [of "k + 16"] that frame_uid_low_bits [of "k + 16" p m] frame_uid_low_bits [of "k + 16" q n] by simp
  then have "p = q" using assms by (intro bits_16_eq) auto
  ultimately show "x = y \<and> p = q \<and> m = n" using xy by simp
qed simp

text \<open>the identifiers of frames are distinct.  Two identifiers made by \<open>current_frame_uid\<close> are
  equal only for writers of the same base and the same page and frame number, as long as the
  page id is below \<open>2^15\<close> (beyond, the shift of the signed page id is undefined) and a page
  holds at most \<open>2^16\<close> frames.\<close>

lemma frame_uid_injective:
  assumes "0 \<le> p" "p < 2 ^ 15" "0 \<le> q" "q < 2 ^ 15" "0 \<le> m" "m < 2 ^ 16" "0 \<le> n" "n < 2 ^ 16"
  shows "frame_uid (frame_id_base l1 d1 u1) p m = frame_uid (frame_id_base l2 d2 u2) q n \<longleftrightarrow>
    (l1 XOR d1) XOR u1 = (l2 XOR d2) XOR u2 \<and> p = q \<and> m = n"
  using frame_uid_eq [OF assms] unfolding frame_id_base_def .

theorem frame_uid_injective_witness:
  "frame_uid (frame_id_base 5 6 7) 3 65535 \<noteq> frame_uid (frame_id_base 5 6 7) 4 0"
  using frame_uid_injective [of 3 4 65535 0 5 6 7 5 6 7] by simp

text \<open>The limit is real: in a page of 4 MB frame \<open>65536\<close> gets the identifier of frame 0.\<close>

theorem frame_uid_wraps:
  "frame_uid base p 65536 = frame_uid base p 0 \<and> 24 + 65536 * 36 < unat (find_page_size TD 9)"
proof
  show "frame_uid base p 65536 = frame_uid base p 0"
    by (simp add: frame_uid_def FRAME_ID_TRANC_def)
  show "24 + 65536 * 36 < unat (find_page_size TD 9)"
    by (simp add: find_page_size_def MB_def KB_def)
qed

lemma load_mmap_other:
  assumes "load_mmap_buffer e pid n wr lz d = Inr d'"
  shows "(\<forall>q. q \<noteq> pid \<longrightarrow> files d' q = files d q \<and> pages d' q = pages d q) \<and> files d' pid \<noteq> None \<and>
    (files d pid \<noteq> None \<longrightarrow> (\<forall>i < n - 1. pages d' pid i = pages d pid i))"
  using assms by (auto simp: load_mmap_buffer_def Let_def store_bytes_def split: if_splits option.splits)

text \<open>loading a page either fails or yields a page of this version, header length and page
  size, and it touches no other page; a page that was already initialised keeps every byte but
  the last, which no frame reaches.\<close>

lemma page_load_safe:
  assumes "page_load e cat dst pid wr lz d = Inr d'"
  shows "page_ok (find_page_size cat dst) d' pid \<and>
    pg_version (pages d' pid) = 4 \<and> pg_header_length (pages d' pid) = 24 \<and>
    get_page_size (pages d' pid) = find_page_size cat dst \<and>
    (\<forall>q. q \<noteq> pid \<longrightarrow> files d' q = files d q \<and> pages d' q = pages d q) \<and>
    (page_ok (find_page_size cat dst) d pid \<longrightarrow>
      (\<forall>i < unat (find_page_size cat dst) - 1. pages d' pid i = pages d pid i))"
proof -
  let ?sz = "find_page_size cat dst"
  have sz: "1000 < unat ?sz" using find_page_size_ge [of cat dst] by simp
  then have sz0: "?sz \<noteq> 0" by auto
  let ?init = "\<lambda>d1. if last_frame_position (pages d1 pid) = 0
       then d1\<lparr>pages := (pages d1)(pid := init_page ?sz (pages d1 pid))\<rparr> else d1"
  obtain d1 where l: "load_mmap_buffer e pid (unat ?sz) wr lz d = Inr d1"
    and r: "(if files d1 pid = Some 0 then Inl BusError
       else if last_frame_position (pages d1 pid) = 0 \<and> \<not> (wr \<or> \<not> lz) then Inl SegmentationFault
       else case check_page ?sz (pages (?init d1) pid) of Some err \<Rightarrow> Inl err | None \<Rightarrow> Inr (?init d1)) = Inr d'"
    using assms by (auto simp only: page_load_def Let_def bindE_Inr_iff)
  have d1: "load_mmap_buffer e pid (unat ?sz) wr lz d = Inr d1" "files d1 pid \<noteq> Some 0"
    "d' = ?init d1" "check_page ?sz (pages d' pid) = None"
    using l r by (auto split: if_split_asm option.split_asm)
  note o = load_mmap_other [OF d1(1)]
  have ok: "page_ok ?sz d' pid"
    using d1 o init_page_ok(2) [OF sz0] by (auto simp: page_ok_def split: if_splits)
  have "pages d' pid i = pages d pid i" if "page_ok ?sz d pid" "i < unat ?sz - 1" for i
  proof -
    have same: "pages d1 pid i = pages d pid i" if "i < unat ?sz - 1" for i
      using o \<open>page_ok ?sz d pid\<close> that by (auto simp: page_ok_def)
    have "last_frame_position (pages d1 pid) = last_frame_position (pages d pid)"
      unfolding last_frame_position_def using same sz by (intro get64_cong) simp
    then have "d' = d1" using d1(3) that(1) by (simp add: page_ok_def)
    then show ?thesis using same that(2) by simp
  qed
  moreover have "pg_version (pages d' pid) = 4 \<and> pg_header_length (pages d' pid) = 24 \<and> get_page_size (pages d' pid) = ?sz"
    using d1(4) by (simp add: check_page_def JOURNAL_VERSION_def sizeof_page_header_def split: if_splits)
  ultimately show ?thesis using ok o d1(3) by auto
qed

theorem page_load_safe_witness:
  "\<exists>d'. page_load sample_env TD 9 1 True True empty_dir = Inr d' \<and> page_ok (find_page_size TD 9) d' 1 \<and>
    pg_version (pages d' 1) = 4"
proof -
  have "healthy sample_env" using quiet_sample by (simp add: quiet_def)
  then obtain d' where "page_load sample_env TD 9 1 True True empty_dir = Inr d'"
    using page_load_fresh [of empty_dir 1 sample_env "find_page_size TD 9" TD 9 True] by (auto simp: empty_dir_def)
  then show ?thesis using page_load_safe by blast
qed

section \<open>What the code does not do\<close>

text \<open>C8: \<open>mark_with_time\<close> on a full page loses its event.  Marking the end of the page has already
  closed the page and, because the mark is itself of type PageEnd, moved past another one; the
  explicit load of the next page then leaves page \<open>p + 2\<close> empty.  The call returns, and page \<open>p + 3\<close> holds the
  event, with its times, type, source and destination, as its first and only frame, after which the writer
  stands; but the log ends at the start of page \<open>p + 2\<close>, and a reader at its start never reads more of it than
  the old events and the page ends.\<close>

theorem mark_with_time_skips_page:
  assumes "writing sz p0 fs (d, w) p b" "quiet e" "ticks_ok tk" "in_i64 gen"
    and "unat sz - 36 < b + 36" "in_i32 mt" "0 < mt" "mt \<noteq> PageEnd"
  shows "\<exists>d' w' fs'. mark_with_time e tk gen mt (d, w) = Inr (d', w') \<and>
    jchain sz d' p0 24 (fs @ fs') (p + 2) 24 \<and> log_end d' (p + 2) 24 \<and>
    (\<forall>f \<in> set fs'. e_msg_type f = PageEnd) \<and>
    jchain sz d' (p + 3) 24 [new_event gen gen mt (j_location_uid (w_journal w)) (j_dest_id (w_journal w)) []] (p + 3) 60 \<and>
    log_end d' (p + 3) 60 \<and> j_page (w_journal w') = Some (p + 3) \<and> j_frame (w_journal w') = 60 \<and>
    (\<forall>j n. cursor sz j p0 24 \<longrightarrow> (\<exists>s. read_log e n (d', j) = Inr (take n (fs @ fs'), s)))"
proof -
  note wf = writing_facts [OF assms(1)]
  obtain d1 w1 fs' where 1: "mark e tk gen PageEnd (d, w) = Inr (d1, w1)" "\<forall>f \<in> set fs'. e_msg_type f = PageEnd"
    "same_writer w w1" "writing sz p0 (fs @ fs') (d1, w1) (p + 2) 24"
    using mark_page_end [OF assms(1-4)] assms(5) by auto
  note wf1 = writing_facts [OF 1(4)]
  obtain q where q: "p + 2 + 1 = q" "p + 3 = q" "p + 2 < q" by simp
  let ?w2 = "w1\<lparr>w_journal := (w_journal w1)\<lparr>j_page := Some q, j_frame := 24, j_page_frame_nb := 0\<rparr>\<rparr>"
  have fnone: "files d1 (p + 2 + 1) = None" using logged_fresh [OF wf1(3)] by simp
  obtain d2 where 2: "via_journal (load_next_page e) (d1, w1) = Inr (d2, ?w2)" "page_ok sz d2 q"
    "\<forall>r. r \<noteq> q \<longrightarrow> files d2 r = files d1 r \<and> pages d2 r = pages d1 r"
    using load_fresh_page [OF fnone wf1(1,2) assms(2)] unfolding q(1) by blast
  let ?src = "j_location_uid (w_journal w)" and ?dst = "j_dest_id (w_journal w)"
  have ids: "j_location_uid (w_journal w1) = ?src" "j_dest_id (w_journal w1) = ?dst"
    using 1(3) by (simp_all add: same_writer_def moved_def)
  let ?pub = "publish gen gen mt ?src ?dst [] 24"
  let ?d' = "on_page q ?pub d2"
  let ?w' = "?w2\<lparr>w_journal := (w_journal ?w2)\<lparr>j_frame := 60, j_page_frame_nb := 1\<rparr>\<rparr>"
  have len: "24 + 36 + length ([] :: u8 list) < 2 ^ 32" by simp
  note fr = publish_frame [OF order.refl len assms(4,4,6,7), of ?src ?dst "pages d2 q"]
  have ty: "msg_type (?pub (pages d2 q)) 24 = mt" using fr(3) by (simp add: frame_at_def new_event_def)
  have m: "cur_mem (d, w_journal w) = pages d p" "j_frame (w_journal w) = b"
    using wf(1) by (simp_all add: cur_mem_def cursor_def)
  have hdr: "get_page_size (pages d p) = sz" "address_border (pages d p) = unat sz - 36"
    using page_ok_header [OF wf(6)] page_ok_border [OF wf(6)] by simp_all
  have nf: "via_journal (next_frame e) (?d', ?w2) = Inr (?d', ?w')"
    using ty assms(8) fr(1) by (simp add: via_journal_def next_frame_def move_to_next_def)
  have pub: "set_last_frame_position (of_nat 24) (set_data_length 24 0 (set_gen_time 24 gen
      (store_bytes (24 + unat (header_length (set_frame_header gen mt ?src ?dst 24 (pages d2 q)) 24))
        (replicate sizeof_frame_header 0) (set_frame_header gen mt ?src ?dst 24 (pages d2 q))))) = ?pub (pages d2 q)"
    by (simp add: publish_def Let_def copy_nothing)
  have "mark_with_time e tk gen mt (d, w) = Inr (?d', ?w')"
    using m hdr wf(4) assms(5) 1(1) 2(1) nf ids pub
    by (simp add: mark_with_time_def sizeof_frame_header_def Let_def on_page_const)
  moreover have "logged sz p0 (fs @ fs') d1 (p + 2) 24" by (rule wf1(3))
  then have lg: "jchain sz d1 p0 24 (fs @ fs') (p + 2) 24" "log_end d1 (p + 2) 24" by (simp_all add: logged_def)
  have same: "pages ?d' r = pages d1 r" "files ?d' r = files d1 r" if "r \<le> p + 2" for r
    using that 2(3) q(3) by simp_all
  have "extends sz (p + 2) 24 d1 ?d'"
    using same by (simp add: extends_def page_ok_def)
  then have chain: "jchain sz ?d' p0 24 (fs @ fs') (p + 2) 24"
    using jchain_extends [OF lg(1) _ _ wf(4)] by simp
  moreover have le: "log_end ?d' (p + 2) 24" using lg(2) same by (simp add: log_end_def)
  moreover have "page_ok sz ?d' q"
    using 2(2) publish_header(1) [OF order.refl, of sz gen gen mt ?src ?dst "[]" "pages d2 q"]
      publish_header(2) [OF order.refl, of gen gen mt ?src ?dst "[]" "pages d2 q"] by (simp add: page_ok_def)
  then have "jchain sz ?d' q 24 [new_event gen gen mt ?src ?dst []] q 60"
    using fr(1,2,3) assms(8) wf(4) by (simp add: new_event_def)
  moreover have "log_end ?d' q 60" using fr(4) by (simp add: log_end_def)
  moreover have "\<exists>s. read_log e n (?d', j) = Inr (take n (fs @ fs'), s)" if "cursor sz j p0 24" for j n
    using read_log_chain [OF chain le _ that assms(2) order.refl] wf(4) by fastforce
  moreover have "j_page (w_journal ?w') = Some q" "j_frame (w_journal ?w') = 60" by simp_all
  ultimately show ?thesis using 1(2) unfolding q(2) by blast
qed

lemma nearly_full_writing:
  "\<exists>d w. writing (find_page_size TD 9) 1 [message_event (j_location_uid (w_journal w)) (j_dest_id (w_journal w))
     (sample_message 10 4194204)] (d, w) 1 4194264"
proof -
  obtain d w where w: "writing (find_page_size TD 9) 1 [] (d, w) 1 24" using sample_writing by blast
  have sz: "unat (find_page_size TD 9) = 4194304" by (simp add: find_page_size_def MB_def KB_def)
  let ?bs = "replicate 4194204 (7 :: u8)"
  have t: "ticks_ok (sample_ticks 10)" "in_i64 5" "in_i32 201" "(0::int) < 201" "(201::int) \<noteq> PageEnd"
    using sample_ticks_ok [of 10] by (simp_all add: in_i64_def in_i32_def PageEnd_def)
  have room: "length ?bs + 96 < unat (find_page_size TD 9)" using sz by simp
  have nr: "\<not> rolls (find_page_size TD 9) 24 (length ?bs)" using sz by (simp add: rolls_def)
  obtain d' w' where "same_writer w w'" "writing (find_page_size TD 9) 1 ([] @ appended False (sample_ticks 10) 5 201
      (j_location_uid (w_journal w)) (j_dest_id (w_journal w)) ?bs) (d', w') 1 (24 + 36 + length ?bs)"
    using write_frame_writing [OF w quiet_sample t room] nr by auto
  then show ?thesis
    by (intro exI [of _ d'] exI [of _ w'])
      (simp add: appended_def message_event_def sample_message_def same_writer_def moved_def)
qed

theorem mark_with_time_skips_page_witness:
  "\<exists>d w d' w' fs'. mark_with_time sample_env (sample_ticks 20) 20 201 (d, w) = Inr (d', w') \<and>
    jchain (find_page_size TD 9) d' 1 24 (message_event (j_location_uid (w_journal w)) (j_dest_id (w_journal w))
     (sample_message 10 4194204) # fs') 3 24 \<and>
    log_end d' 3 24 \<and> j_page (w_journal w') = Some 4 \<and>
    jchain (find_page_size TD 9) d' 4 24 [new_event 20 20 201 (j_location_uid (w_journal w)) (j_dest_id (w_journal w)) []] 4 60"
proof -
  obtain d w where w: "writing (find_page_size TD 9) 1 [message_event (j_location_uid (w_journal w))
     (j_dest_id (w_journal w)) (sample_message 10 4194204)] (d, w) 1 4194264"
    using nearly_full_writing by blast
  have t: "ticks_ok (sample_ticks 20)" "in_i64 20" "unat (find_page_size TD 9) - 36 < 4194264 + 36"
    "in_i32 201" "(0::int) < 201" "(201::int) \<noteq> PageEnd"
    using sample_ticks_ok [of 20]
    by (simp_all add: in_i64_def in_i32_def PageEnd_def find_page_size_def MB_def KB_def)
  have n: "(1::int) + 2 = 3" "(1::int) + 3 = 4" by simp_all
  from mark_with_time_skips_page [OF w quiet_sample t] show ?thesis unfolding n append_Cons append_Nil by blast
qed

text \<open>the assertion that guards \<open>open_frame\<close> forgets the page header.  A frame of a length in
  the last 24 bytes it admits passes it, but does not fit even an empty page, and the write
  fails in \<open>close_frame\<close>, after the page was closed.\<close>

lemma oversized_write_fails:
  assumes inv: "writing sz p0 fs (d, w) p b" and e: "quiet e" and t: "ticks_ok tk" "in_i64 tr"
    and n: "unat sz \<le> length bs + 96" "length bs + 72 \<le> unat sz"
  shows "write_frame e tk tr mt bs (d, w) = Inl AssertFailed"
proof -
  let ?src = "j_location_uid (w_journal w)" and ?dst = "j_dest_id (w_journal w)"
  note wf = writing_facts [OF inv]
  have lock: "lock_spin (tk_start tk) (tk_polls tk) = Acquired" and tp: "in_i64 (tk_page tk)"
    using t(1) by (simp_all add: ticks_ok_def)
  let ?w = "w\<lparr>w_locked := True\<rparr>"
  have inv': "writing sz p0 fs (d, ?w) p b" using inv by (simp add: writing_def)
  obtain d0 w0 where cp: "close_page e (tk_page tk) tr (d, ?w) = Inr (d0, w0)" "same_writer ?w w0"
    "writing sz p0 (fs @ [new_event (tk_page tk) tr PageEnd ?src ?dst []]) (d0, w0) (p + 1) 24"
    using close_page_writing [OF inv' e tp t(2)] by auto
  note wf0 = writing_facts [OF cp(3)]
  have m: "cur_mem (d, w_journal w) = pages d p" "j_frame (w_journal w) = b"
    using wf(1) by (simp_all add: cur_mem_def cursor_def)
  have hdr: "get_page_size (pages d p) = sz" "address_border (pages d p) = unat sz - 36"
    using page_ok_header [OF wf(6)] page_ok_border [OF wf(6)] by simp_all
  have ids: "j_location_uid (w_journal w0) = ?src" "j_dest_id (w_journal w0) = ?dst"
    using cp(2) by (simp_all add: same_writer_def moved_def)
  have j0: "j_page (w_journal w0) = Some (p + 1)" "j_frame (w_journal w0) = 24"
    using wf0(1) by (simp_all add: cursor_def)
  have roll: "unat sz - 36 \<le> b + 36 + length bs" using n wf(7) by linarith
  have "open_frame e tk tr mt (length bs) (d, w) =
      Inr (on_page (p + 1) (set_frame_header tr mt ?src ?dst 24) d0, w0)"
    using n lock m hdr cp(1) ids j0 roll by (simp add: open_frame_def sizeof_frame_header_def Let_def)
  moreover have "copy_to_frame bs (on_page (p + 1) (set_frame_header tr mt ?src ?dst 24) d0, w0) =
      Inr (on_page (p + 1) (\<lambda>m. copy_data 24 bs (set_frame_header tr mt ?src ?dst 24 m)) d0, w0)"
    using j0 by (simp add: copy_to_frame_def on_page_on_page)
  moreover have "address_border (copy_data 24 bs (set_frame_header tr mt ?src ?dst 24 (pages d0 (p + 1)))) = unat sz - 36"
    using page_ok_header [OF wf0(6)]
    by (simp add: address_border_def get_page_size_copy get_page_size_header sizeof_frame_header_def)
  moreover have "\<not> 60 + length bs < unat sz - 36" using n by linarith
  ultimately show ?thesis
    using j0 by (simp add: write_frame_def close_frame_def header_length_copy sizeof_frame_header_def Let_def)
qed

theorem oversized_write_fails_witness:
  "\<exists>d w. writing (find_page_size TD 9) 1 [] (d, w) 1 24 \<and>
    write_frame sample_env (sample_ticks 10) 5 201 (replicate 4194220 7) (d, w) = Inl AssertFailed"
proof -
  obtain d w where w: "writing (find_page_size TD 9) 1 [] (d, w) 1 24" using sample_writing by blast
  have t: "ticks_ok (sample_ticks 10)" "in_i64 5"
    "unat (find_page_size TD 9) \<le> length (replicate 4194220 (7 :: u8)) + 96"
    "length (replicate 4194220 (7 :: u8)) + 72 \<le> unat (find_page_size TD 9)"
    using sample_ticks_ok [of 10]
    by (simp_all add: in_i64_def find_page_size_def MB_def KB_def)
  show ?thesis using oversized_write_fails [OF w quiet_sample t] w by blast
qed

text \<open>With \<open>CLEAR_JOURNAL\<close> set, a public market data journal is meant to keep eight pages.
  The page unlinked is the one 50 back instead, so none of the pages is ever unlinked before
  page 51 is loaded.\<close>

theorem clear_old_page_keeps_fifty:
  assumes "1 \<le> pid" "pid \<le> 50" "1 \<le> q"
  shows "files (clear_old_page e pid j d) q = files d q"
  using assms by (simp add: clear_old_page_def MAX_PAGE_NUMBER_def MAX_MD_PAGE_NUMBER_def Let_def)

theorem clear_old_page_keeps_fifty_witness:
  "files (clear_old_page (sample_env\<lparr>clear_journal := True\<rparr>) 20
     ((new_journal (make_location LIVE MD ''g'' ''n'') 0 True True)) (empty_dir\<lparr>files := (\<lambda>_. Some 5)\<rparr>)) 2 = Some 5"
  by (subst clear_old_page_keeps_fifty) simp_all

end
