(* ===== verification/ReaderProps.thy ===== *)
theory ReaderProps
  imports Reader JournalProps
begin

text \<open>
  The correctness of the reader of several journals: the merge of what is in front of its
  cursors, the place a join starts from, and what leaving a journal removes.
\<close>

text \<open>C3: a reader of several journals delivers the merge of what lies in front of its cursors.
  With enough turns its loop ends, the events come sorted by generation time, those of each
  journal are exactly that journal's events in the order they were written, and at the end
  nothing is left in front of any cursor.\<close>

theorem reader_merges_journals:
  assumes "list_all2 (remaining e) (r_journals r) fss"
    and "\<forall>fs \<in> set fss. sorted (map e_gen_time fs)"
    and "length (concat fss) < length nows"
    and "\<forall>now \<in> set nows. \<forall>f \<in> set (concat fss). e_gen_time f \<le> now"
    and "case r_current r of None \<Rightarrow> True | Some k \<Rightarrow> k < length (r_journals r)"
  shows "\<exists>es r'. read_all e nows r = Inr (es, r') \<and>
    sorted (map (e_gen_time \<circ> snd) es) \<and>
    (\<forall>k < length (r_journals r). map snd (filter (\<lambda>x. fst x = k) es) = fss ! k) \<and>
    (\<forall>x \<in> set es. fst x < length (r_journals r)) \<and>
    list_all2 (remaining e) (r_journals r') (replicate (length (r_journals r)) [])"
proof -
  have a: "journal_source.all_rem e (r_journals r) fss"
    using assms(1) by (simp add: journal_source.all_rem_def)
  from journal_source.consume_merges [OF a assms(2-4), of "r_current r"] assms(5)
  obtain es cur cs where "consume cur_has_data cur_time cur_event (next_frame e) nows (r_current r) (r_journals r)
      = Inr (es, cur, cs)" "sorted (map (e_gen_time \<circ> snd) es)"
    "\<forall>k < length (r_journals r). map snd (filter (\<lambda>x. fst x = k) es) = fss ! k"
    "\<forall>x \<in> set es. fst x < length (r_journals r) \<and> snd x \<in> set (concat fss)"
    "journal_source.all_rem e cs (replicate (length (r_journals r)) [])" by blast
  then show ?thesis
    by (intro exI [of _ es] exI [of _ "r\<lparr>r_current := cur, r_journals := cs\<rparr>"])
      (simp add: read_all_consume journal_source.all_rem_def)
qed

lemma join_logged:
  assumes "logged sz p0 fs d p b" "quiet e" "sz = find_page_size (l_category l) dst"
    and "sorted (map e_gen_time fs)" "p = p0 \<or> 24 < b" "0 \<le> t"
    and new: "\<forall>s \<in> set (r_journals r). \<not> (j_location_uid (snd s) = uid l \<and> j_dest_id (snd s) = dst)"
  shows "\<exists>s cur. reader_join e now l dst t d (list_page_id d) r =
      Some (Inr (r\<lparr>r_journals := r_journals r @ [s], r_current := cur\<rparr>)) \<and>
    remaining e s (dropWhile (\<lambda>f. e_gen_time f \<le> t) fs) \<and> j_location_uid (snd s) = uid l \<and> j_dest_id (snd s) = dst \<and>
    (r_current r \<noteq> None \<longrightarrow> cur = r_current r)"
proof -
  let ?j = "new_journal l dst False (r_lazy r)"
  have big: "1000 < unat sz" using find_page_size_ge [of "l_category l" dst] assms(3) by simp
  have j: "j_page ?j = None" "sz = find_page_size (j_category ?j) (j_dest_id ?j)"
    using assms(3) by (simp_all add: new_journal_def)
  obtain d' j' p1 a1 where 1: "seek_to_time e (list_page_id d) t (d, ?j) = Some (Inr (d', j'))"
    "cursor sz j' p1 a1" "24 \<le> a1" "moved ?j j'" "keeps sz d d'"
    "jchain sz d' p1 a1 (dropWhile (\<lambda>f. e_gen_time f \<le> t) fs) p b"
    using seek_to_time_logged [OF assms(1,2) j assms(4) _ assms(6)] assms(5) unfolding no_empty_page_def by blast
  have lg: "logged sz p0 fs d' p b" by (rule logged_keeps [OF assms(1) 1(5) big])
  then have "log_end d' p b" "b + 36 < unat sz" by (simp_all add: logged_def)
  then have "remaining e (d', j') (dropWhile (\<lambda>f. e_gen_time f \<le> t) fs)"
    unfolding remaining_def fst_conv snd_conv using assms(2) 1(2,3,6) by blast
  moreover have "j_location_uid j' = uid l" "j_dest_id j' = dst"
    using 1(4) by (simp_all add: moved_def new_journal_def)
  moreover have "\<exists>cur. reader_join e now l dst t d (list_page_id d) r =
      Some (Inr (r\<lparr>r_journals := r_journals r @ [(d', j')], r_current := cur\<rparr>)) \<and>
      (r_current r \<noteq> None \<longrightarrow> cur = r_current r)"
  proof (cases "r_current r = None")
    case True
    then show ?thesis using new 1(1) by (auto simp: reader_join_def reader_sort_def Let_def)
  next
    case False
    have "r\<lparr>r_journals := r_journals r @ [(d', j')]\<rparr> =
        r\<lparr>r_journals := r_journals r @ [(d', j')], r_current := r_current r\<rparr>" by simp
    with False show ?thesis using new 1(1)
      by (intro exI [of _ "r_current r"]) (auto simp: reader_join_def Let_def)
  qed
  ultimately show ?thesis by fastforce
qed

lemma sample_logged:
  "\<exists>d b. logged (find_page_size TD 9) 1 [message_event (uid sample_location) 9 (sample_message 10 3)] d 1 b"
proof -
  obtain d w where w: "writing (find_page_size TD 9) 1 [] (d, w) 1 24"
    "j_location_uid (w_journal w) = uid sample_location" "j_dest_id (w_journal w) = 9"
    using new_writer_fresh [of empty_dir sample_env _ sample_location 9 1 77 True] quiet_sample
    by (auto simp: empty_dir_def sample_location_def make_location_def)
  have t: "ticks_ok (sample_ticks 10)" "in_i64 5" "in_i32 201" "(0::int) < 201" "(201::int) \<noteq> PageEnd"
    using sample_ticks_ok [of 10] by (simp_all add: in_i64_def in_i32_def PageEnd_def)
  have sz: "unat (find_page_size TD 9) = 4194304" by (simp add: find_page_size_def MB_def KB_def)
  let ?bs = "replicate 3 (7 :: u8)"
  have room: "length ?bs + 96 < unat (find_page_size TD 9)" and nr: "\<not> rolls (find_page_size TD 9) 24 (length ?bs)"
    using sz by (simp_all add: rolls_def)
  obtain d' w' b where "writing (find_page_size TD 9) 1 ([] @ appended False (sample_ticks 10) 5 201
      (uid sample_location) 9 ?bs) (d', w') 1 b"
    using write_frame_writing [OF w(1) quiet_sample t room] nr w(2,3) by auto
  then have "logged (find_page_size TD 9) 1 [message_event (uid sample_location) 9 (sample_message 10 3)] d' 1 b"
    by (simp add: writing_def appended_def message_event_def sample_message_def)
  then show ?thesis by blast
qed


lemma sample_cat: "find_page_size TD 9 = find_page_size (l_category sample_location) 9"
  by (simp add: sample_location_def make_location_def)


theorem reader_merges_journals_witness:
  "\<exists>r es r'. read_all sample_env [99, 99, 99] r = Inr (es, r') \<and>
    es = [(0, message_event (uid sample_location) 9 (sample_message 10 3))]"
proof -
  let ?f = "message_event (uid sample_location) 9 (sample_message 10 3)"
  obtain d b where lg: "logged (find_page_size TD 9) 1 [?f] d 1 b" using sample_logged by blast
  have dw: "dropWhile (\<lambda>f. e_gen_time f \<le> 0) [?f] = [?f]" and tf: "e_gen_time ?f = 14"
    by (simp_all add: message_event_def new_event_def sample_message_def sample_ticks_def)
  obtain s where s: "remaining sample_env s [?f]"
    using join_logged [OF lg quiet_sample sample_cat, of 0 "new_reader True" 99] dw
    by (auto simp: new_reader_def)
  let ?r = "\<lparr>r_lazy = True, r_current = None, r_journals = [s]\<rparr>"
  obtain es r' where es: "read_all sample_env [99, 99, 99] ?r = Inr (es, r')"
    "map snd (filter (\<lambda>x. fst x = 0) es) = [?f]" "\<forall>x \<in> set es. fst x < 1"
    using reader_merges_journals [of sample_env ?r "[[?f]]" "[99, 99, 99]"] s tf by auto
  then have all: "filter (\<lambda>x. fst x = 0) es = es" by (intro filter_True) auto
  then obtain x where "es = [x]" "snd x = ?f" using es(2) by (auto simp: map_eq_Cons_conv)
  moreover have "fst x = 0" using es(3) \<open>es = [x]\<close> by simp
  ultimately have "es = [(0, ?f)]" by (metis surjective_pairing)
  then show ?thesis using es(1) by blast
qed

lemma sort_loop_valid:
  "case sort_loop has tm 0 now None ss of
     None \<Rightarrow> \<not> (\<exists>s \<in> set ss. has s \<and> tm s \<le> now)
   | Some k \<Rightarrow> k < length ss \<and> has (ss ! k) \<and> \<not> (\<exists>s \<in> set ss. has s \<and> tm s < tm (ss ! k))"
  using sort_loop_picks [of has tm 0 now None ss] by (fastforce simp: not_less not_le)

text \<open>Leaving a location removes all its journals and no other, and the current cursor is never
  left on a removed journal: it is unset, or the cursor of a remaining journal whose frame is
  the oldest.\<close>

theorem disjoin_removes:
  "r_journals (reader_disjoin now u r) = filter (\<lambda>s. j_location_uid (snd s) \<noteq> u) (r_journals r) \<and>
   (case r_current (reader_disjoin now u r) of
      None \<Rightarrow> \<not> (\<exists>s \<in> set (r_journals (reader_disjoin now u r)). cur_has_data s \<and> cur_time s \<le> now)
    | Some k \<Rightarrow> k < length (r_journals (reader_disjoin now u r)) \<and>
        cur_has_data (r_journals (reader_disjoin now u r) ! k) \<and>
        \<not> (\<exists>s \<in> set (r_journals (reader_disjoin now u r)). cur_has_data s \<and>
             cur_time s < cur_time (r_journals (reader_disjoin now u r) ! k)))"
proof -
  have j: "r_journals (reader_disjoin now u r) = filter (\<lambda>s. j_location_uid (snd s) \<noteq> u) (r_journals r)"
    and c: "r_current (reader_disjoin now u r) =
      sort_loop cur_has_data cur_time 0 now None (r_journals (reader_disjoin now u r))"
    by (simp_all add: reader_disjoin_def reader_sort_def)
  show ?thesis unfolding c by (intro conjI j sort_loop_valid)
qed

end
