(* ===== verification/Double.thy ===== *)
theory Double
  imports Prelude Complex_Main
begin

text \<open>
  The C++ type \<open>double\<close>: IEEE 754 binary64 with rounding to nearest, ties to even.  \<open>Num m e\<close>
  is the number \<open>m * 2 ^ e\<close>, rounded numbers have at most 53 bits of mantissa and exponent
  at least -1074; every operation is computed exactly on integers and rounded once.
\<close>

datatype f64 = NaN | Infty bool | Zero bool | Num int int

text \<open>The number of bits of a positive integer.\<close>

function bitlen :: "int \<Rightarrow> int" where
  "bitlen n = (if n \<le> 0 then 0 else bitlen (n div 2) + 1)"
  by auto
termination by (relation "measure nat") auto

declare bitlen.simps [simp del]

text \<open>Dividing by \<open>2 ^ s\<close>, rounding to nearest, ties to even.\<close>

definition shift_rne :: "int \<Rightarrow> nat \<Rightarrow> int" where
  "shift_rne n s =
    (let q = n div 2 ^ s; r = n mod 2 ^ s; half = 2 ^ s div 2
     in if s = 0 then n
        else if r < half then q
        else if half < r then q + 1
        else if even q then q else q + 1)"

definition round_mag :: "bool \<Rightarrow> int \<Rightarrow> int \<Rightarrow> f64" where
  "round_mag neg n e =
    (if n = 0 then Zero neg
     else
       let e' = max (e + bitlen n - 53) (- 1074);
           n' = (if e' \<le> e then n * 2 ^ nat (e - e') else shift_rne n (nat (e' - e)));
           (n2, e2) = (if n' = 2 ^ 53 then (2 ^ 52, e' + 1) else (n', e'))
       in if n2 = 0 then Zero neg
          else if e2 > 971 then Infty neg
          else Num (if neg then - n2 else n2) e2)"

definition round_f64 :: "int \<Rightarrow> int \<Rightarrow> f64" where
  "round_f64 m e = round_mag (m < 0) \<bar>m\<bar> e"

definition of_int_f64 :: "int \<Rightarrow> f64" where
  "of_int_f64 i = round_f64 i 0"

text \<open>The double nearest to the rational \<open>p / q\<close>, for decimal literals and division: a quotient
  with enough bits, and one more bit that says whether it was exact.\<close>

definition round_ratio :: "bool \<Rightarrow> int \<Rightarrow> int \<Rightarrow> int \<Rightarrow> f64" where
  "round_ratio neg p q e =
    (let k = 60 + bitlen q; n = p * 2 ^ nat k div q; sticky = (if p * 2 ^ nat k mod q = 0 then 0 else 1)
     in round_mag neg (2 * n + sticky) (e - k - 1))"

definition is_nan :: "f64 \<Rightarrow> bool" where
  "is_nan x \<longleftrightarrow> x = NaN"

fun f_neg :: "f64 \<Rightarrow> f64" where
  "f_neg NaN = NaN"
| "f_neg (Infty s) = Infty (\<not> s)"
| "f_neg (Zero s) = Zero (\<not> s)"
| "f_neg (Num m e) = Num (- m) e"

fun f_abs :: "f64 \<Rightarrow> f64" where
  "f_abs NaN = NaN"
| "f_abs (Infty s) = Infty False"
| "f_abs (Zero s) = Zero False"
| "f_abs (Num m e) = Num \<bar>m\<bar> e"

fun f_add :: "f64 \<Rightarrow> f64 \<Rightarrow> f64" where
  "f_add NaN y = NaN"
| "f_add x NaN = NaN"
| "f_add (Infty s) (Infty t) = (if s = t then Infty s else NaN)"
| "f_add (Infty s) y = Infty s"
| "f_add x (Infty t) = Infty t"
| "f_add (Zero s) (Zero t) = Zero (s \<and> t)"
| "f_add (Zero s) (Num m e) = Num m e"
| "f_add (Num m e) (Zero s) = Num m e"
| "f_add (Num m e) (Num m' e') =
    (let e0 = min e e' in round_f64 (m * 2 ^ nat (e - e0) + m' * 2 ^ nat (e' - e0)) e0)"

definition f_sub :: "f64 \<Rightarrow> f64 \<Rightarrow> f64" where
  "f_sub x y = f_add x (f_neg y)"

fun f_sign :: "f64 \<Rightarrow> bool" where
  "f_sign NaN = False"
| "f_sign (Infty s) = s"
| "f_sign (Zero s) = s"
| "f_sign (Num m e) = (m < 0)"

fun f_mul :: "f64 \<Rightarrow> f64 \<Rightarrow> f64" where
  "f_mul NaN y = NaN"
| "f_mul x NaN = NaN"
| "f_mul (Infty s) (Zero t) = NaN"
| "f_mul (Zero s) (Infty t) = NaN"
| "f_mul (Infty s) y = Infty (s \<noteq> f_sign y)"
| "f_mul x (Infty t) = Infty (f_sign x \<noteq> t)"
| "f_mul (Zero s) y = Zero (s \<noteq> f_sign y)"
| "f_mul x (Zero t) = Zero (f_sign x \<noteq> t)"
| "f_mul (Num m e) (Num m' e') = round_f64 (m * m') (e + e')"

fun f_div :: "f64 \<Rightarrow> f64 \<Rightarrow> f64" where
  "f_div NaN y = NaN"
| "f_div x NaN = NaN"
| "f_div (Infty s) (Infty t) = NaN"
| "f_div (Zero s) (Zero t) = NaN"
| "f_div (Infty s) y = Infty (s \<noteq> f_sign y)"
| "f_div x (Infty t) = Zero (f_sign x \<noteq> t)"
| "f_div (Zero s) y = Zero (s \<noteq> f_sign y)"
| "f_div x (Zero t) = Infty (f_sign x \<noteq> t)"
| "f_div (Num m e) (Num m' e') =
    round_ratio ((m < 0) \<noteq> (m' < 0)) \<bar>m\<bar> \<bar>m'\<bar> (e - e')"

text \<open>Comparison: every comparison with a NaN is false, the zeros are equal.\<close>

definition num_lt :: "int \<Rightarrow> int \<Rightarrow> int \<Rightarrow> int \<Rightarrow> bool" where
  "num_lt m e m' e' \<longleftrightarrow> (let e0 = min e e' in m * 2 ^ nat (e - e0) < m' * 2 ^ nat (e' - e0))"

fun f_lt :: "f64 \<Rightarrow> f64 \<Rightarrow> bool" where
  "f_lt NaN y = False"
| "f_lt x NaN = False"
| "f_lt (Infty s) (Infty t) = (s \<and> \<not> t)"
| "f_lt (Infty s) y = s"
| "f_lt x (Infty t) = (\<not> t)"
| "f_lt (Zero s) (Zero t) = False"
| "f_lt (Zero s) (Num m e) = (0 < m)"
| "f_lt (Num m e) (Zero s) = (m < 0)"
| "f_lt (Num m e) (Num m' e') = num_lt m e m' e'"

definition f_le :: "f64 \<Rightarrow> f64 \<Rightarrow> bool" where
  "f_le x y \<longleftrightarrow> \<not> is_nan x \<and> \<not> is_nan y \<and> \<not> f_lt y x"

definition f_eq :: "f64 \<Rightarrow> f64 \<Rightarrow> bool" where
  "f_eq x y \<longleftrightarrow> f_le x y \<and> f_le y x"

text \<open>\<open>std::max\<close> and \<open>std::min\<close>.\<close>

definition f_max :: "f64 \<Rightarrow> f64 \<Rightarrow> f64" where
  "f_max a b = (if f_lt a b then b else a)"

definition f_min :: "f64 \<Rightarrow> f64 \<Rightarrow> f64" where
  "f_min a b = (if f_lt b a then b else a)"

section \<open>The order of doubles\<close>

text \<open>A number's value, as a rational scaled into a total order with the infinities.\<close>

definition num_val :: "int \<Rightarrow> int \<Rightarrow> rat" where
  "num_val m e = (if 0 \<le> e then of_int m * 2 ^ nat e else of_int m / 2 ^ nat (- e))"

fun f_key :: "f64 \<Rightarrow> int \<times> rat" where
  "f_key NaN = (0, 0)"
| "f_key (Infty s) = (if s then -1 else 1, 0)"
| "f_key (Zero s) = (0, 0)"
| "f_key (Num m e) = (0, num_val m e)"

definition key_lt :: "int \<times> rat \<Rightarrow> int \<times> rat \<Rightarrow> bool" where
  "key_lt a b \<longleftrightarrow> fst a < fst b \<or> fst a = fst b \<and> snd a < snd b"

lemma num_val_scale: "e0 \<le> e \<Longrightarrow> num_val m e = num_val (m * 2 ^ nat (e - e0)) e0"
proof -
  assume le: "e0 \<le> e"
  consider (1) "0 \<le> e0" | (2) "e0 < 0" "0 \<le> e" | (3) "e < 0" using le by linarith
  then show ?thesis
  proof cases
    case 1
    then have "nat e = nat (e - e0) + nat e0" using le by simp
    then show ?thesis using 1 le by (simp add: num_val_def power_add)
  next
    case 2
    then have "nat (e - e0) = nat e + nat (- e0)" by simp
    then show ?thesis using 2 by (simp add: num_val_def power_add)
  next
    case 3
    then have "nat (- e0) = nat (e - e0) + nat (- e)" using le by simp
    then show ?thesis using 3 le by (simp add: num_val_def power_add)
  qed
qed

lemma num_val_less: "num_val m e < num_val m' e \<longleftrightarrow> m < m'"
  by (simp add: num_val_def divide_less_cancel)

lemma num_lt_val: "num_lt m e m' e' \<longleftrightarrow> num_val m e < num_val m' e'"
  using num_val_scale [of "min e e'" e m] num_val_scale [of "min e e'" e' m']
  by (simp add: num_lt_def Let_def num_val_less)

lemma num_val_sign: "num_val m e > 0 \<longleftrightarrow> 0 < m" "num_val m e < 0 \<longleftrightarrow> m < 0"
  by (simp_all add: num_val_def zero_less_divide_iff divide_less_0_iff zero_less_mult_iff mult_less_0_iff)

lemma f_lt_key: "f_lt x y \<longleftrightarrow> \<not> is_nan x \<and> \<not> is_nan y \<and> key_lt (f_key x) (f_key y)"
  by (cases x; cases y) (auto simp: is_nan_def key_lt_def num_lt_val num_val_sign)

lemma f_lt_irrefl [simp]: "\<not> f_lt x x"
  by (simp add: f_lt_key key_lt_def)

lemma f_lt_trans: "f_lt x y \<Longrightarrow> f_lt y z \<Longrightarrow> f_lt x z"
  by (auto simp: f_lt_key key_lt_def)

lemma f_le_key: "f_le x y \<longleftrightarrow> \<not> is_nan x \<and> \<not> is_nan y \<and> \<not> key_lt (f_key y) (f_key x)"
  by (auto simp: f_le_def f_lt_key)

lemma f_le_refl [simp]: "f_le x x \<longleftrightarrow> \<not> is_nan x"
  by (simp add: f_le_def)

lemma f_le_trans: "f_le x y \<Longrightarrow> f_le y z \<Longrightarrow> f_le x z"
  by (auto simp: f_le_key key_lt_def)

lemma f_le_linear: "\<not> is_nan x \<Longrightarrow> \<not> is_nan y \<Longrightarrow> f_le x y \<or> f_le y x"
  by (auto simp: f_le_key key_lt_def)

lemma f_lt_le: "f_lt x y \<Longrightarrow> f_le x y"
  by (auto simp: f_le_key f_lt_key key_lt_def)

lemma f_max_bounds:
  assumes "\<not> is_nan a" "\<not> is_nan b"
  shows "f_le a (f_max a b)" "f_le b (f_max a b)" "\<not> is_nan (f_max a b)"
  using assms f_lt_le by (auto simp: f_max_def f_le_def)

lemma f_min_bounds:
  assumes "\<not> is_nan a" "\<not> is_nan b"
  shows "f_le (f_min a b) a" "f_le (f_min a b) b" "\<not> is_nan (f_min a b)"
  using assms f_lt_le by (auto simp: f_min_def f_le_def)

lemma f_max_cases: "f_max a b = a \<or> f_max a b = b"
  by (simp add: f_max_def)

lemma f_min_cases: "f_min a b = a \<or> f_min a b = b"
  by (simp add: f_min_def)

section \<open>The literals of the program\<close>

definition EPSILON :: f64 where "EPSILON = round_ratio False 1 1000000 0"
definition DOUBLEMAX :: f64 where "DOUBLEMAX = round_f64 (10 ^ 16) 0"

lemma EPSILON_val: "EPSILON = Num 4722366482869645 (-72)"
  by code_simp

lemma DOUBLEMAX_val: "DOUBLEMAX = Num 5000000000000000 1"
  by code_simp

end
