(* ===== verification/Common.thy ===== *)
theory Common
  imports Hash Double
begin

text \<open>
  The vocabulary of the trading layer (wingchun/common.h): the enumerations with their int8
  codes, comparison of prices up to EPSILON, C strings and char arrays, order statuses, and
  the identifiers of instruments.
\<close>

section \<open>Constants\<close>

definition ORDER_ID_LEN :: nat where "ORDER_ID_LEN = 32"
definition SYMBOL_LEN :: nat where "SYMBOL_LEN = 32"
definition PRODUCT_ID_LEN :: nat where "PRODUCT_ID_LEN = 32"
definition DATE_LEN :: nat where "DATE_LEN = 9"
definition EXCHANGE_ID_LEN :: nat where "EXCHANGE_ID_LEN = 16"
definition ACCOUNT_ID_LEN :: nat where "ACCOUNT_ID_LEN = 32"
definition CLIENT_ID_LEN :: nat where "CLIENT_ID_LEN = 32"
definition SOURCE_ID_LEN :: nat where "SOURCE_ID_LEN = 16"
definition ERROR_MSG_LEN :: nat where "ERROR_MSG_LEN = 128"
definition ERROR_CODE_LEN :: nat where "ERROR_CODE_LEN = 16"

lemmas array_lens = ORDER_ID_LEN_def SYMBOL_LEN_def PRODUCT_ID_LEN_def DATE_LEN_def EXCHANGE_ID_LEN_def
  ACCOUNT_ID_LEN_def CLIENT_ID_LEN_def SOURCE_ID_LEN_def ERROR_MSG_LEN_def ERROR_CODE_LEN_def

section \<open>Enumerations\<close>

datatype InstrumentType = IT_Unknown | FFuture | DFuture | IT_Future | Etf | Spot | Index | Swap
datatype ExecType = ET_Unknown | ET_Cancel | ET_Trade
datatype BsFlag = BS_Unknown | BS_Buy | BS_Sell
datatype Side = Buy | Sell | Lock | Unlock | Exec | Drop
datatype Offset = Open | Close | CloseToday | CloseYesterday
datatype OrderActionFlag = OA_Cancel | OA_Query
datatype OrderType = Limit | Market | Mock | OT_UnKnown
datatype VolumeCondition = VC_Any | VC_Min | VC_All
datatype TimeCondition = IOC | FOK | GTC | GTX | POC
datatype OrderStatus = OS_Unknown | Submitted | Pending | Cancelled | OS_Error | Filled
  | PartialFilledNotActive | PartialFilledActive | PreSend
datatype Direction = Long | Short
datatype AccountType = Stock | Credit | AT_Future
datatype CommissionRateMode = ByAmount | ByVolume
datatype LedgerCategory = LC_Account | LC_Strategy

text \<open>The underlying integers, as \<open>static_cast\<close> and the json library see them.  A cast back of an
  integer that names no enumerator has no value here.\<close>

definition InstrumentTypes :: "InstrumentType list" where
  "InstrumentTypes = [IT_Unknown, FFuture, DFuture, IT_Future, Etf, Spot, Index, Swap]"
definition Sides :: "Side list" where
  "Sides = [Buy, Sell, Lock, Unlock, Exec, Drop]"
definition Offsets :: "Offset list" where
  "Offsets = [Open, Close, CloseToday, CloseYesterday]"
definition OrderActionFlags :: "OrderActionFlag list" where
  "OrderActionFlags = [OA_Cancel, OA_Query]"
definition OrderTypes :: "OrderType list" where
  "OrderTypes = [Limit, Market, Mock, OT_UnKnown]"
definition TimeConditions :: "TimeCondition list" where
  "TimeConditions = [IOC, FOK, GTC, GTX, POC]"
definition OrderStatuses :: "OrderStatus list" where
  "OrderStatuses = [OS_Unknown, Submitted, Pending, Cancelled, OS_Error, Filled,
     PartialFilledNotActive, PartialFilledActive, PreSend]"
definition Directions :: "Direction list" where
  "Directions = [Long, Short]"
definition LedgerCategories :: "LedgerCategory list" where
  "LedgerCategories = [LC_Account, LC_Strategy]"

lemmas enum_lists = InstrumentTypes_def Sides_def Offsets_def OrderActionFlags_def OrderTypes_def
  TimeConditions_def OrderStatuses_def Directions_def LedgerCategories_def

fun position_in :: "'a list \<Rightarrow> 'a \<Rightarrow> int" where
  "position_in [] x = -1"
| "position_in (y # ys) x = (if x = y then 0 else 1 + position_in ys x)"

definition enum_at :: "'a list \<Rightarrow> int \<Rightarrow> 'a option" where
  "enum_at xs i = (if 0 \<le> i \<and> nat i < length xs then Some (xs ! nat i) else None)"

lemma position_in_bounds: "x \<in> set xs \<Longrightarrow> 0 \<le> position_in xs x \<and> nat (position_in xs x) < length xs"
proof (induction xs)
  case (Cons y ys)
  then show ?case by (cases "x = y") (auto simp: nat_add_distrib)
qed simp

lemma enum_at_position [simp]: "x \<in> set xs \<Longrightarrow> enum_at xs (position_in xs x) = Some x"
proof (induction xs)
  case (Cons y ys)
  show ?case
  proof (cases "x = y")
    case False
    then have "x \<in> set ys" using Cons.prems by simp
    with False Cons.IH position_in_bounds [of x ys] show ?thesis
      by (auto simp: enum_at_def nat_add_distrib split: if_splits)
  qed (simp add: enum_at_def)
qed simp

lemma enum_complete [simp]:
  "(x1 :: InstrumentType) \<in> set InstrumentTypes" "(x2 :: Side) \<in> set Sides" "(x3 :: Offset) \<in> set Offsets"
  "(x4 :: OrderActionFlag) \<in> set OrderActionFlags" "(x5 :: OrderType) \<in> set OrderTypes"
  "(x6 :: TimeCondition) \<in> set TimeConditions" "(x7 :: OrderStatus) \<in> set OrderStatuses"
  "(x8 :: Direction) \<in> set Directions" "(x9 :: LedgerCategory) \<in> set LedgerCategories"
  by (cases x1, simp_all add: enum_lists) (cases x2, simp_all, cases x3, simp_all, cases x4, simp_all,
    cases x5, simp_all, cases x6, simp_all, cases x7, simp_all, cases x8, simp_all, cases x9, simp_all)

section \<open>Comparison of prices\<close>

definition is_greater :: "f64 \<Rightarrow> f64 \<Rightarrow> bool" where
  "is_greater x y \<longleftrightarrow> f_lt EPSILON (f_sub x y)"

definition is_less :: "f64 \<Rightarrow> f64 \<Rightarrow> bool" where
  "is_less x y \<longleftrightarrow> f_lt (f_sub x y) (f_mul EPSILON (of_int_f64 (-1)))"

definition is_equal :: "f64 \<Rightarrow> f64 \<Rightarrow> bool" where
  "is_equal x y \<longleftrightarrow> f_le (f_abs (f_sub x y)) (f_mul EPSILON (f_abs x))"

definition is_greater_equal :: "f64 \<Rightarrow> f64 \<Rightarrow> bool" where
  "is_greater_equal x y \<longleftrightarrow> is_greater x y \<or> is_equal x y"

definition is_less_equal :: "f64 \<Rightarrow> f64 \<Rightarrow> bool" where
  "is_less_equal x y \<longleftrightarrow> is_less x y \<or> is_equal x y"

definition is_zero :: "f64 \<Rightarrow> bool" where
  "is_zero x \<longleftrightarrow> is_equal x (Zero False)"

definition is_too_large :: "f64 \<Rightarrow> bool" where
  "is_too_large x \<longleftrightarrow> is_greater x DOUBLEMAX"

definition is_valid_price :: "f64 \<Rightarrow> bool" where
  "is_valid_price price \<longleftrightarrow> \<not> is_less_equal price (Zero False) \<and> \<not> is_too_large price"

section \<open>Strings\<close>

definition NUL :: char where "NUL = CHR 0x00"

text \<open>The C string a pointer names, and \<open>std::string\<close> of a char array: up to the first NUL.  An array with
  no NUL is read on into the bytes that follow it, in the code; there the definition gives the whole array,
  which is only what the C string starts with.  \<open>terminated\<close> says where it is the C string.\<close>

definition c_str :: "string \<Rightarrow> string" where
  "c_str s = takeWhile (\<lambda>c. c \<noteq> NUL) s"

text \<open>\<open>strncpy\<close> into an array of \<open>n\<close> bytes: at most \<open>n\<close> characters, the rest filled with NUL; no
  NUL when the string is as long as the array.\<close>

definition strncpy :: "nat \<Rightarrow> string \<Rightarrow> string" where
  "strncpy n s = take n (c_str s) @ replicate (n - length (c_str s)) NUL"

text \<open>\<open>strcpy\<close> into an array: the string and its NUL over the first bytes (a longer string than the
  array overruns it; the model keeps the array's size).\<close>

definition strcpy :: "string \<Rightarrow> string \<Rightarrow> string" where
  "strcpy dst s = take (length dst) (c_str s @ [NUL] @ drop (Suc (length (c_str s))) dst)"

definition terminated :: "string \<Rightarrow> bool" where
  "terminated a \<longleftrightarrow> NUL \<in> set a"

definition string_equals :: "string \<Rightarrow> string \<Rightarrow> bool" where
  "string_equals s1 s2 \<longleftrightarrow> c_str s1 = c_str s2"

definition string_equals_n :: "string \<Rightarrow> string \<Rightarrow> nat \<Rightarrow> bool" where
  "string_equals_n s1 s2 l \<longleftrightarrow> take l (c_str s1) = take l (c_str s2)"

definition endswith :: "string \<Rightarrow> string \<Rightarrow> bool" where
  "endswith str suffix \<longleftrightarrow>
    length str \<ge> length suffix \<and> take (length suffix) (drop (length str - length suffix) str) = suffix"

definition startswith :: "string \<Rightarrow> string \<Rightarrow> bool" where
  "startswith str prefix \<longleftrightarrow> length str \<ge> length prefix \<and> take (length prefix) str = prefix"

definition toupper :: "char \<Rightarrow> char" where
  "toupper c = (let n = (of_char c :: nat) in if 97 \<le> n \<and> n \<le> 122 then char_of (n - 32) else c)"

definition tolower :: "char \<Rightarrow> char" where
  "tolower c = (let n = (of_char c :: nat) in if 65 \<le> n \<and> n \<le> 90 then char_of (n + 32) else c)"

definition to_upper_copy :: "string \<Rightarrow> string" where
  "to_upper_copy s = map toupper s"

definition to_lower_copy :: "string \<Rightarrow> string" where
  "to_lower_copy s = map tolower s"

lemma c_str_no_nul [simp]: "NUL \<notin> set s \<Longrightarrow> c_str s = s"
  by (simp add: c_str_def takeWhile_eq_all_conv) blast

lemma c_str_idem [simp]: "c_str (c_str s) = c_str s"
  by (simp add: c_str_def takeWhile_idem)

lemma NUL_c_str [simp]: "NUL \<notin> set (c_str s)"
  by (auto simp: c_str_def dest: set_takeWhileD)

lemma length_strncpy [simp]: "length (strncpy n s) = n"
  by (simp add: strncpy_def min_def)

lemma c_str_append_nul: "NUL \<notin> set s \<Longrightarrow> c_str (s @ replicate k NUL) = s"
  by (cases k) (auto simp: c_str_def takeWhile_append)

lemma take_no_nul: "NUL \<notin> set (take n (c_str s))"
  using NUL_c_str [of s] by (meson in_set_takeD)

text \<open>Reading back what was copied: the string, if it fits the array.\<close>

lemma c_str_strncpy: "c_str (strncpy n s) = take n (c_str s)"
  unfolding strncpy_def by (rule c_str_append_nul [OF take_no_nul])

lemma c_str_snoc: "NUL \<notin> set s \<Longrightarrow> c_str (s @ NUL # x) = s"
  by (auto simp: c_str_def takeWhile_tail)

lemma strcpy_fits:
  assumes "NUL \<notin> set s" "length s < length dst"
  shows "c_str (strcpy dst s) = s"
proof -
  obtain k where "length dst = length s + Suc k" using assms(2) less_imp_Suc_add by fastforce
  then have "take (length dst) (s @ [NUL] @ x) = s @ NUL # take k x" for x by simp
  then show ?thesis using c_str_snoc assms(1) by (simp add: strcpy_def)
qed

lemma strcpy_c_str: "strcpy dst s = strcpy dst (c_str s)"
  by (simp add: strcpy_def)

lemma terminated_strncpy: "terminated (strncpy n s) \<longleftrightarrow> length (c_str s) < n"
  using take_no_nul [of n s] by (auto simp: terminated_def strncpy_def)

lemma tolower_toupper: "tolower (toupper c) = tolower c"
  by (auto simp: tolower_def toupper_def Let_def)

section \<open>Statuses and identifiers\<close>

fun is_final_status :: "OrderStatus \<Rightarrow> bool" where
  "is_final_status Submitted = False"
| "is_final_status Pending = False"
| "is_final_status PartialFilledActive = False"
| "is_final_status OS_Unknown = False"
| "is_final_status PreSend = False"
| "is_final_status status = True"

fun str_from_instrument_type :: "InstrumentType \<Rightarrow> string" where
  "str_from_instrument_type IT_Unknown = ''Unknown''"
| "str_from_instrument_type FFuture = ''FFuture''"
| "str_from_instrument_type IT_Future = ''Future''"
| "str_from_instrument_type DFuture = ''DFuture''"
| "str_from_instrument_type Swap = ''SWAP''"
| "str_from_instrument_type Spot = ''SPOT''"
| "str_from_instrument_type Index = ''Index''"
| "str_from_instrument_type Etf = ''ETF''"

definition get_future_direction :: "Side \<Rightarrow> Offset \<Rightarrow> Direction" where
  "get_future_direction side offset =
    (if side = Buy \<and> offset = Open \<or> side = Sell \<and> offset \<noteq> Open then Long else Short)"

definition get_symbol_id :: "string \<Rightarrow> string \<Rightarrow> u32" where
  "get_symbol_id symbol exchange = hash_str_32 symbol XOR hash_str_32 exchange"

definition get_sub_symbol_id :: "string \<Rightarrow> string \<Rightarrow> InstrumentType \<Rightarrow> string \<Rightarrow> u32 \<Rightarrow> u32" where
  "get_sub_symbol_id symbol sub_type type exchange index =
    (if sub_type = ''order'' then hash_str_32 (show_nat (unat index))
     else (((hash_str_32 symbol XOR hash_str_32 sub_type)
            XOR hash_str_32 (show_int (position_in InstrumentTypes type)))
            XOR hash_str_32 exchange)
            XOR hash_str_32 (show_nat (unat index)))"

lemma get_symbol_id_inj: "get_symbol_id s e = get_symbol_id t e \<longleftrightarrow> hash_str_32 s = hash_str_32 t"
  by (simp add: get_symbol_id_def xor_eq_iff_left)

lemma get_symbol_id_swap: "get_symbol_id s e = get_symbol_id e s"
  by (simp add: get_symbol_id_def xor.commute)

lemma str_from_instrument_type_inject:
  "str_from_instrument_type a = str_from_instrument_type b \<longleftrightarrow> a = b"
  by (cases a; cases b) simp_all

definition calc_amount_by_symbol :: "string \<Rightarrow> f64 \<Rightarrow> f64 \<Rightarrow> f64" where
  "calc_amount_by_symbol symbol price volume =
    (let amount = f_mul price volume in
     if ends_with symbol ''_btc'' then f_mul amount (of_int_f64 30000)
     else if ends_with symbol ''_xt'' then f_mul amount (of_int_f64 3)
     else if ends_with symbol ''_eth'' then f_mul amount (of_int_f64 2000)
     else if ends_with symbol ''_bnb'' then f_mul amount (of_int_f64 400)
     else amount)"

end
