(* ===== verification/Json.thy ===== *)
theory Json
  imports Common "HOL-Library.AList"
begin

text \<open>
  The json values the program builds and reads (the nlohmann::json library, version 3.5.0,
  under core/deps): objects keep one value per key; a number is an integer, an unsigned integer or a double, and reading one as another
  kind of number converts it.  Numbers are converted as \<open>static_cast\<close> does.
\<close>

datatype json = JNull | JBool bool | JInt int | JUint nat | JFloat f64 | JString string
  | JArray "json list" | JObject "(string \<times> json) list"

text \<open>A value of the wrong type is an exception of the library.  A missing key of a constant object is not:
  \<open>operator[]\<close> asserts that the key is there, and without assertions what it reads is undefined.  So
  \<open>MissingKey\<close> says that the code has no defined way to go on, and what a model does with it afterwards
  is not what the program does: a property may say that the code gets there, never what it does next.\<close>

datatype json_error = MissingKey string | TypeError string

section \<open>Objects\<close>

text \<open>\<open>j[k] = v\<close> on a null or an object.\<close>

fun jset :: "string \<Rightarrow> json \<Rightarrow> json \<Rightarrow> json_error + json" where
  "jset k v JNull = Inr (JObject [(k, v)])"
| "jset k v (JObject kvs) = Inr (JObject (AList.update k v kvs))"
| "jset k v j = Inl (TypeError k)"

fun jset_all :: "(string \<times> json) list \<Rightarrow> json \<Rightarrow> json_error + json" where
  "jset_all [] j = Inr j"
| "jset_all ((k, v) # kvs) j = bindE (jset k v j) (jset_all kvs)"

text \<open>\<open>j[k]\<close> on a const value, and \<open>find\<close>.\<close>

fun jget :: "json \<Rightarrow> string \<Rightarrow> json_error + json" where
  "jget (JObject kvs) k = (case map_of kvs k of None \<Rightarrow> Inl (MissingKey k) | Some v \<Rightarrow> Inr v)"
| "jget j k = Inl (TypeError k)"

fun jfind :: "json \<Rightarrow> string \<Rightarrow> json option" where
  "jfind (JObject kvs) k = map_of kvs k"
| "jfind j k = None"

section \<open>Values\<close>

text \<open>\<open>static_cast\<close> of a double to an integer truncates towards zero.\<close>

fun f_trunc :: "f64 \<Rightarrow> int" where
  "f_trunc (Num m e) = (if 0 \<le> e then m * 2 ^ nat e else sgn m * (\<bar>m\<bar> div 2 ^ nat (- e)))"
| "f_trunc x = 0"

fun as_number :: "json \<Rightarrow> json_error + int" where
  "as_number (JInt i) = Inr i"
| "as_number (JUint n) = Inr (int n)"
| "as_number (JFloat x) = Inr (f_trunc x)"
| "as_number j = Inl (TypeError ''number'')"

text \<open>Integer types other than the library's own 64-bit ones also accept a boolean.\<close>

fun as_small_number :: "json \<Rightarrow> json_error + int" where
  "as_small_number (JBool b) = Inr (if b then 1 else 0)"
| "as_small_number j = as_number j"

definition jget_i64 :: "json \<Rightarrow> string \<Rightarrow> json_error + i64" where
  "jget_i64 j k = bindE (jget j k) as_number"

definition jget_u64 :: "json \<Rightarrow> string \<Rightarrow> json_error + u64" where
  "jget_u64 j k = bindE (jget j k) (\<lambda>v. bindE (as_number v) (\<lambda>i. Inr (word_of_int i)))"

definition jget_u32 :: "json \<Rightarrow> string \<Rightarrow> json_error + u32" where
  "jget_u32 j k = bindE (jget j k) (\<lambda>v. bindE (as_small_number v) (\<lambda>i. Inr (word_of_int i)))"

definition jget_i32 :: "json \<Rightarrow> string \<Rightarrow> json_error + i32" where
  "jget_i32 j k = bindE (jget j k) as_small_number"

definition jget_enum :: "'a list \<Rightarrow> json \<Rightarrow> string \<Rightarrow> json_error + 'a" where
  "jget_enum xs j k = bindE (jget j k) (\<lambda>v. bindE (as_number v) (\<lambda>i.
     case enum_at xs i of None \<Rightarrow> Inl (TypeError k) | Some x \<Rightarrow> Inr x))"

fun as_double :: "json \<Rightarrow> json_error + f64" where
  "as_double (JInt i) = Inr (of_int_f64 i)"
| "as_double (JUint n) = Inr (of_int_f64 (int n))"
| "as_double (JFloat x) = Inr x"
| "as_double j = Inl (TypeError ''number'')"

definition jget_double :: "json \<Rightarrow> string \<Rightarrow> json_error + f64" where
  "jget_double j k = bindE (jget j k) as_double"

fun as_string :: "json \<Rightarrow> json_error + string" where
  "as_string (JString s) = Inr s"
| "as_string j = Inl (TypeError ''string'')"

definition jget_string :: "json \<Rightarrow> string \<Rightarrow> json_error + string" where
  "jget_string j k = bindE (jget j k) as_string"

fun as_bool :: "json \<Rightarrow> json_error + bool" where
  "as_bool (JBool b) = Inr b"
| "as_bool j = Inl (TypeError ''boolean'')"

definition jget_bool :: "json \<Rightarrow> string \<Rightarrow> json_error + bool" where
  "jget_bool j k = bindE (jget j k) as_bool"

fun as_doubles :: "json list \<Rightarrow> json_error + f64 list" where
  "as_doubles [] = Inr []"
| "as_doubles (j # js) = bindE (as_double j) (\<lambda>x. bindE (as_doubles js) (\<lambda>xs. Inr (x # xs)))"

definition jget_doubles :: "json \<Rightarrow> string \<Rightarrow> json_error + f64 list" where
  "jget_doubles j k = bindE (jget j k) (\<lambda>v. case v of JArray js \<Rightarrow> as_doubles js | _ \<Rightarrow> Inl (TypeError k))"

definition JEnum :: "'a list \<Rightarrow> 'a \<Rightarrow> json" where
  "JEnum xs x = JInt (position_in xs x)"

definition JU64 :: "'a::len word \<Rightarrow> json" where
  "JU64 w = JUint (unat w)"

definition JDoubles :: "f64 list \<Rightarrow> json" where
  "JDoubles xs = JArray (map JFloat xs)"

section \<open>Reading what was written\<close>

lemma jset_all_object: "\<exists>kv1. jset_all kvs (JObject kv0) = Inr (JObject kv1) \<and>
    (\<forall>k. map_of kv1 k = (case map_of (rev kvs) k of None \<Rightarrow> map_of kv0 k | Some v \<Rightarrow> Some v))"
proof (induction kvs arbitrary: kv0)
  case (Cons kv kvs)
  obtain k v where kv: "kv = (k, v)" by (cases kv)
  obtain kv1 where "jset_all kvs (JObject (AList.update k v kv0)) = Inr (JObject kv1)"
    "\<forall>k'. map_of kv1 k' = (case map_of (rev kvs) k' of None \<Rightarrow> map_of (AList.update k v kv0) k' | Some v \<Rightarrow> Some v)"
    using Cons.IH by blast
  then show ?case unfolding kv by (intro exI [of _ kv1]) (auto simp: update_conv' split: option.splits)
qed simp

lemma jset_all_null:
  assumes "kvs \<noteq> []" "distinct (map fst kvs)"
  shows "\<exists>o'. jset_all kvs JNull = Inr (JObject o') \<and> map_of o' = map_of kvs"
proof -
  obtain k v rest where kvs: "kvs = (k, v) # rest" using assms(1) by (cases kvs) auto
  obtain o' where o': "jset_all rest (JObject [(k, v)]) = Inr (JObject o')"
    "\<forall>x. map_of o' x = (case map_of (rev rest) x of None \<Rightarrow> map_of [(k, v)] x | Some v \<Rightarrow> Some v)"
    using jset_all_object by blast
  have "map_of (rev rest) = map_of rest"
  proof
    fix x
    have d: "distinct (map fst rest)" "distinct (map fst (rev rest))"
      using assms(2) kvs by (simp_all add: rev_map [symmetric])
    show "map_of (rev rest) x = map_of rest x"
    proof (cases "map_of rest x")
      case None
      then have "map_of (rev rest) x = None" by (simp add: map_of_eq_None_iff)
      with None show ?thesis by simp
    next
      case (Some y)
      then have "(x, y) \<in> set (rev rest)" by (auto dest: map_of_SomeD)
      with d Some show ?thesis by simp
    qed
  qed
  moreover have "map_of rest k = None" using assms(2) kvs by (simp add: map_of_eq_None_iff)
  ultimately have "map_of o' = map_of kvs"
    using o'(2) kvs by (auto simp: fun_eq_iff split: option.splits)
  then show ?thesis using o'(1) kvs by auto
qed

text \<open>The json value a \<open>to_json\<close> builds from null.\<close>

definition json_of :: "(string \<times> json) list \<Rightarrow> json" where
  "json_of kvs = (case jset_all kvs JNull of Inr j \<Rightarrow> j | Inl e \<Rightarrow> JNull)"

lemma jget_json_of [json_simps]:
  assumes "kvs \<noteq> []" "distinct (map fst kvs)"
  shows "jget (json_of kvs) k = (case map_of kvs k of None \<Rightarrow> Inl (MissingKey k) | Some v \<Rightarrow> Inr v)"
  using jset_all_null [OF assms] by (auto simp: json_of_def)

lemma as_number_values [simp]:
  "as_number (JU64 w) = Inr (int (unat w))" "as_small_number (JU64 w) = Inr (int (unat w))"
  "as_number (JEnum xs x) = Inr (position_in xs x)"
  by (simp_all add: JU64_def JEnum_def)

lemma as_doubles_floats [simp]: "as_doubles (map JFloat xs) = Inr xs"
  by (induction xs) simp_all

lemma case_array_doubles [simp]: "(case JDoubles xs of JArray js \<Rightarrow> f js | _ \<Rightarrow> e) = f (map JFloat xs)"
  by (simp add: JDoubles_def)

lemma word_of_unat [simp]: "(word_of_int (int (unat w)) :: 'a::len word) = w"
  by simp

lemmas jgetters = jget_i64_def jget_u64_def jget_u32_def jget_i32_def jget_enum_def jget_double_def
  jget_string_def jget_bool_def jget_doubles_def

end
