(* ===== verification/Msg.thy ===== *)
theory Msg
  imports Json
begin

text \<open>
  The messages of the trading layer (wingchun/msg.h): the type codes, the packed structs with
  their fixed char arrays, the setters, and the conversion of each to and from json.  A char
  array is the list of its bytes.  \<open>from_json\<close> assigns to the fields of a struct that exists
  already, so fields it does not read keep their value; an exception leaves the function.
\<close>

section \<open>Type codes\<close>

definition T_Depth :: i32 where "T_Depth = 101"
definition T_Ticker :: i32 where "T_Ticker = 102"
definition T_Trade :: i32 where "T_Trade = 103"
definition T_IndexPrice :: i32 where "T_IndexPrice = 104"
definition T_Bar :: i32 where "T_Bar = 110"
definition T_OrderInput :: i32 where "T_OrderInput = 201"
definition T_OrderAction :: i32 where "T_OrderAction = 202"
definition T_Order :: i32 where "T_Order = 203"
definition T_MyTrade :: i32 where "T_MyTrade = 204"
definition T_Position :: i32 where "T_Position = 205"
definition T_Asset :: i32 where "T_Asset = 206"
definition T_AssetSnapshot :: i32 where "T_AssetSnapshot = 207"
definition T_Instrument :: i32 where "T_Instrument = 209"
definition T_AlgoOrderInput :: i32 where "T_AlgoOrderInput = 210"
definition T_AlgoOrderReport :: i32 where "T_AlgoOrderReport = 211"
definition T_AlgoOrderModify :: i32 where "T_AlgoOrderModify = 212"
definition T_OrderActionError :: i32 where "T_OrderActionError = 213"
definition T_Subscribe :: i32 where "T_Subscribe = 302"
definition T_SubscribeAll :: i32 where "T_SubscribeAll = 303"
definition T_Unsubscribe :: i32 where "T_Unsubscribe = 304"
definition T_AdjustLeverage :: i32 where "T_AdjustLeverage = 352"
definition T_NewOrderSingle :: i32 where "T_NewOrderSingle = 353"
definition T_CancelOrder :: i32 where "T_CancelOrder = 354"
definition T_CancelAllOrder :: i32 where "T_CancelAllOrder = 355"
definition T_InstrumentRequest :: i32 where "T_InstrumentRequest = 356"
definition T_UnionResponse :: i32 where "T_UnionResponse = 357"
definition T_MergePosition :: i32 where "T_MergePosition = 358"
definition T_QueryPosition :: i32 where "T_QueryPosition = 359"
definition T_BrokerStateRefresh :: i32 where "T_BrokerStateRefresh = 400"
definition T_BrokerState :: i32 where "T_BrokerState = 401"
definition T_QryAsset :: i32 where "T_QryAsset = 402"
definition T_PublishAllAssetInfo :: i32 where "T_PublishAllAssetInfo = 403"
definition T_RemoveStrategy :: i32 where "T_RemoveStrategy = 404"
definition T_InstrumentEnd :: i32 where "T_InstrumentEnd = 802"

lemmas type_codes = T_Depth_def T_Ticker_def T_Trade_def T_IndexPrice_def T_Bar_def T_OrderInput_def T_OrderAction_def T_Order_def T_MyTrade_def T_Position_def T_Asset_def T_AssetSnapshot_def T_Instrument_def T_AlgoOrderInput_def T_AlgoOrderReport_def T_AlgoOrderModify_def T_OrderActionError_def T_Subscribe_def T_SubscribeAll_def T_Unsubscribe_def T_AdjustLeverage_def T_NewOrderSingle_def T_CancelOrder_def T_CancelAllOrder_def T_InstrumentRequest_def T_UnionResponse_def T_MergePosition_def T_QueryPosition_def T_BrokerStateRefresh_def T_BrokerState_def T_QryAsset_def T_PublishAllAssetInfo_def T_RemoveStrategy_def T_InstrumentEnd_def

datatype BrokerState = B_Unknown | B_Idle | B_DisConnected | B_Connected | B_LoggedIn | B_LoggedInFailed | B_Ready

fun broker_state_code :: "BrokerState \<Rightarrow> int" where
  "broker_state_code B_Unknown = 0"
| "broker_state_code B_Idle = 1"
| "broker_state_code B_DisConnected = 2"
| "broker_state_code B_Connected = 3"
| "broker_state_code B_LoggedIn = 4"
| "broker_state_code B_LoggedInFailed = 5"
| "broker_state_code B_Ready = 100"

section \<open>Char arrays and vectors in structs\<close>

text \<open>An array as the setters leave it: after the string, NULs only.\<close>

definition clean :: "nat \<Rightarrow> string \<Rightarrow> bool" where
  "clean n a \<longleftrightarrow> strncpy n (c_str a) = a"

text \<open>The setters of the ten levels of a book copy at most ten values over the array.\<close>

definition set_ten :: "f64 list \<Rightarrow> f64 list \<Rightarrow> f64 list" where
  "set_ten xs arr = take 10 xs @ drop (min 10 (length xs)) arr"

text \<open>\<open>static_cast<Side>(j.get<int>())\<close>.\<close>

definition jget_enum_int :: "'a list \<Rightarrow> json \<Rightarrow> string \<Rightarrow> json_error + 'a" where
  "jget_enum_int xs j k = bindE (jget j k) (\<lambda>v. bindE (as_small_number v) (\<lambda>i.
     case enum_at xs i of None \<Rightarrow> Inl (TypeError k) | Some x \<Rightarrow> Inr x))"

lemma as_small_number_enum [simp]: "as_small_number (JEnum xs x) = Inr (position_in xs x)"
  by (simp add: JEnum_def)

lemma strncpy_take: "strncpy n (take n (c_str s)) = strncpy n s"
proof -
  have *: "c_str (take n (c_str s)) = take n (c_str s)"
    by (rule c_str_no_nul [OF take_no_nul])
  show ?thesis unfolding strncpy_def * by (simp add: min_def)
qed

lemma clean_strncpy [simp]: "clean n (strncpy n s)"
  by (simp add: clean_def c_str_strncpy strncpy_take)

section \<open>Instrument\<close>

record instrument =
  ins_symbol :: string
  ins_exchange_id :: string
  ins_instrument_type :: InstrumentType
  ins_product_id :: string
  ins_contract_multiplier :: i32
  ins_price_tick :: f64
  ins_open_date :: string
  ins_create_date :: string
  ins_expire_date :: string
  ins_delivery_year :: i32
  ins_delivery_month :: i32
  ins_is_trading :: bool
  ins_long_margin_ratio :: f64
  ins_short_margin_ratio :: f64

definition zero_instrument :: instrument where
  "zero_instrument = \<lparr>ins_symbol = replicate SYMBOL_LEN NUL,
    ins_exchange_id = replicate EXCHANGE_ID_LEN NUL,
    ins_instrument_type = IT_Unknown,
    ins_product_id = replicate PRODUCT_ID_LEN NUL,
    ins_contract_multiplier = 0,
    ins_price_tick = Zero False,
    ins_open_date = replicate DATE_LEN NUL,
    ins_create_date = replicate DATE_LEN NUL,
    ins_expire_date = replicate DATE_LEN NUL,
    ins_delivery_year = 0,
    ins_delivery_month = 0,
    ins_is_trading = False,
    ins_long_margin_ratio = Zero False,
    ins_short_margin_ratio = Zero False\<rparr>"

definition instrument_json :: "instrument \<Rightarrow> (string \<times> json) list" where
  "instrument_json x = [(''exchange_id'', JString (c_str (ins_exchange_id x))),
    (''symbol'', JString (c_str (ins_symbol x))),
    (''instrument_type'', JEnum InstrumentTypes (ins_instrument_type x)),
    (''product_id'', JString (c_str (ins_product_id x))),
    (''contract_multiplier'', JInt (ins_contract_multiplier x)),
    (''price_tick'', JFloat (ins_price_tick x)),
    (''open_date'', JString (c_str (ins_open_date x))),
    (''create_date'', JString (c_str (ins_create_date x))),
    (''expire_date'', JString (c_str (ins_expire_date x))),
    (''delivery_year'', JInt (ins_delivery_year x)),
    (''delivery_month'', JInt (ins_delivery_month x)),
    (''long_margin_ratio'', JFloat (ins_long_margin_ratio x)),
    (''short_margin_ratio'', JFloat (ins_short_margin_ratio x))]"

definition instrument_to_json :: "json \<Rightarrow> instrument \<Rightarrow> json_error + json" where
  "instrument_to_json j x = jset_all (instrument_json x) j"

section \<open>Ticker\<close>

record ticker =
  tkr_source_id :: string
  tkr_symbol :: string
  tkr_exchange_id :: string
  tkr_data_time :: i64
  tkr_instrument_type :: InstrumentType
  tkr_bid_price :: f64
  tkr_bid_volume :: f64
  tkr_ask_price :: f64
  tkr_ask_volume :: f64

definition zero_ticker :: ticker where
  "zero_ticker = \<lparr>tkr_source_id = replicate SOURCE_ID_LEN NUL,
    tkr_symbol = replicate SYMBOL_LEN NUL,
    tkr_exchange_id = replicate EXCHANGE_ID_LEN NUL,
    tkr_data_time = 0,
    tkr_instrument_type = IT_Unknown,
    tkr_bid_price = Zero False,
    tkr_bid_volume = Zero False,
    tkr_ask_price = Zero False,
    tkr_ask_volume = Zero False\<rparr>"

definition ticker_json :: "ticker \<Rightarrow> (string \<times> json) list" where
  "ticker_json x = [(''data_time'', JInt (tkr_data_time x)),
    (''instrument_type'', JEnum InstrumentTypes (tkr_instrument_type x)),
    (''source_id'', JString (c_str (tkr_source_id x))),
    (''symbol'', JString (c_str (tkr_symbol x))),
    (''exchange_id'', JString (c_str (tkr_exchange_id x))),
    (''bid_price'', JFloat (tkr_bid_price x)),
    (''ask_price'', JFloat (tkr_ask_price x)),
    (''bid_volume'', JFloat (tkr_bid_volume x)),
    (''ask_volume'', JFloat (tkr_ask_volume x))]"

definition ticker_to_json :: "json \<Rightarrow> ticker \<Rightarrow> json_error + json" where
  "ticker_to_json j x = jset_all (ticker_json x) j"

definition ticker_from_json :: "json \<Rightarrow> ticker \<Rightarrow> json_error + ticker" where
  "ticker_from_json j x =
    bindE (jget_i64 j ''data_time'') (\<lambda>v_data_time.
    bindE (jget_enum InstrumentTypes j ''instrument_type'') (\<lambda>v_instrument_type.
    bindE (jget_string j ''source_id'') (\<lambda>v_source_id.
    bindE (jget_string j ''symbol'') (\<lambda>v_symbol.
    bindE (jget_string j ''exchange_id'') (\<lambda>v_exchange_id.
    bindE (jget_double j ''bid_price'') (\<lambda>v_bid_price.
    bindE (jget_double j ''ask_price'') (\<lambda>v_ask_price.
    bindE (jget_double j ''bid_volume'') (\<lambda>v_bid_volume.
    bindE (jget_double j ''ask_volume'') (\<lambda>v_ask_volume.
    Inr (x\<lparr>tkr_data_time := v_data_time,
      tkr_instrument_type := v_instrument_type,
      tkr_source_id := strncpy SOURCE_ID_LEN v_source_id,
      tkr_symbol := strncpy SYMBOL_LEN v_symbol,
      tkr_exchange_id := strncpy EXCHANGE_ID_LEN v_exchange_id,
      tkr_bid_price := v_bid_price,
      tkr_ask_price := v_ask_price,
      tkr_bid_volume := v_bid_volume,
      tkr_ask_volume := v_ask_volume\<rparr>))))))))))"

definition ticker_clean :: "ticker \<Rightarrow> bool" where
  "ticker_clean x \<longleftrightarrow> clean SOURCE_ID_LEN (tkr_source_id x) \<and>
    clean SYMBOL_LEN (tkr_symbol x) \<and>
    clean EXCHANGE_ID_LEN (tkr_exchange_id x)"

section \<open>Depth\<close>

record depth =
  dep_source_id :: string
  dep_symbol :: string
  dep_exchange_id :: string
  dep_data_time :: i64
  dep_instrument_type :: InstrumentType
  dep_bid_price :: "f64 list"
  dep_ask_price :: "f64 list"
  dep_bid_volume :: "f64 list"
  dep_ask_volume :: "f64 list"

definition zero_depth :: depth where
  "zero_depth = \<lparr>dep_source_id = replicate SOURCE_ID_LEN NUL,
    dep_symbol = replicate SYMBOL_LEN NUL,
    dep_exchange_id = replicate EXCHANGE_ID_LEN NUL,
    dep_data_time = 0,
    dep_instrument_type = IT_Unknown,
    dep_bid_price = replicate 10 (Zero False),
    dep_ask_price = replicate 10 (Zero False),
    dep_bid_volume = replicate 10 (Zero False),
    dep_ask_volume = replicate 10 (Zero False)\<rparr>"

definition depth_json :: "depth \<Rightarrow> (string \<times> json) list" where
  "depth_json x = [(''data_time'', JInt (dep_data_time x)),
    (''instrument_type'', JEnum InstrumentTypes (dep_instrument_type x)),
    (''source_id'', JString (c_str (dep_source_id x))),
    (''symbol'', JString (c_str (dep_symbol x))),
    (''exchange_id'', JString (c_str (dep_exchange_id x))),
    (''bid_price'', JDoubles (dep_bid_price x)),
    (''ask_price'', JDoubles (dep_ask_price x)),
    (''bid_volume'', JDoubles (dep_bid_volume x)),
    (''ask_volume'', JDoubles (dep_ask_volume x))]"

definition depth_to_json :: "json \<Rightarrow> depth \<Rightarrow> json_error + json" where
  "depth_to_json j x = jset_all (depth_json x) j"

definition depth_from_json :: "json \<Rightarrow> depth \<Rightarrow> json_error + depth" where
  "depth_from_json j x =
    bindE (jget_i64 j ''data_time'') (\<lambda>v_data_time.
    bindE (jget_string j ''symbol'') (\<lambda>v_symbol.
    bindE (jget_string j ''exchange_id'') (\<lambda>v_exchange_id.
    bindE (jget_enum InstrumentTypes j ''instrument_type'') (\<lambda>v_instrument_type.
    bindE (jget_doubles j ''bid_price'') (\<lambda>v_bid_price.
    bindE (jget_doubles j ''ask_price'') (\<lambda>v_ask_price.
    bindE (jget_doubles j ''bid_volume'') (\<lambda>v_bid_volume.
    bindE (jget_doubles j ''ask_volume'') (\<lambda>v_ask_volume.
    Inr (x\<lparr>dep_data_time := v_data_time,
      dep_symbol := strncpy SYMBOL_LEN v_symbol,
      dep_exchange_id := strncpy EXCHANGE_ID_LEN v_exchange_id,
      dep_instrument_type := v_instrument_type,
      dep_bid_price := set_ten v_bid_price (dep_bid_price x),
      dep_ask_price := set_ten v_ask_price (dep_ask_price x),
      dep_bid_volume := set_ten v_bid_volume (dep_bid_volume x),
      dep_ask_volume := set_ten v_ask_volume (dep_ask_volume x)\<rparr>)))))))))"

definition depth_clean :: "depth \<Rightarrow> bool" where
  "depth_clean x \<longleftrightarrow> clean SOURCE_ID_LEN (dep_source_id x) \<and>
    clean SYMBOL_LEN (dep_symbol x) \<and>
    clean EXCHANGE_ID_LEN (dep_exchange_id x)"

section \<open>Trade\<close>

record trade =
  trd_client_id :: string
  trd_symbol :: string
  trd_exchange_id :: string
  trd_instrument_type :: InstrumentType
  trd_trade_id :: i64
  trd_ask_id :: i64
  trd_bid_id :: i64
  trd_price :: f64
  trd_volume :: f64
  trd_side :: Side
  trd_position_side :: Direction
  trd_trade_time :: i64

definition zero_trade :: trade where
  "zero_trade = \<lparr>trd_client_id = replicate CLIENT_ID_LEN NUL,
    trd_symbol = replicate SYMBOL_LEN NUL,
    trd_exchange_id = replicate EXCHANGE_ID_LEN NUL,
    trd_instrument_type = IT_Unknown,
    trd_trade_id = 0,
    trd_ask_id = 0,
    trd_bid_id = 0,
    trd_price = Zero False,
    trd_volume = Zero False,
    trd_side = Buy,
    trd_position_side = Long,
    trd_trade_time = 0\<rparr>"

definition trade_json :: "trade \<Rightarrow> (string \<times> json) list" where
  "trade_json x = [(''trade_time'', JInt (trd_trade_time x)),
    (''symbol'', JString (c_str (trd_symbol x))),
    (''exchange_id'', JString (c_str (trd_exchange_id x))),
    (''client_id'', JString (c_str (trd_client_id x))),
    (''instrument_type'', JEnum InstrumentTypes (trd_instrument_type x)),
    (''trade_id'', JInt (trd_trade_id x)),
    (''price'', JFloat (trd_price x)),
    (''volume'', JFloat (trd_volume x)),
    (''side'', JEnum Sides (trd_side x)),
    (''position_side'', JEnum Directions (trd_position_side x)),
    (''ask_id'', JInt (trd_ask_id x)),
    (''bid_id'', JInt (trd_bid_id x))]"

definition trade_to_json :: "json \<Rightarrow> trade \<Rightarrow> json_error + json" where
  "trade_to_json j x = jset_all (trade_json x) j"

definition trade_from_json :: "json \<Rightarrow> trade \<Rightarrow> json_error + trade" where
  "trade_from_json j x =
    bindE (jget_i64 j ''trade_time'') (\<lambda>v_trade_time.
    bindE (jget_string j ''symbol'') (\<lambda>v_symbol.
    bindE (jget_string j ''exchange_id'') (\<lambda>v_exchange_id.
    bindE (jget_string j ''client_id'') (\<lambda>v_client_id.
    bindE (jget_enum InstrumentTypes j ''instrument_type'') (\<lambda>v_instrument_type.
    bindE (jget_i64 j ''trade_id'') (\<lambda>v_trade_id.
    bindE (jget_double j ''price'') (\<lambda>v_price.
    bindE (jget_double j ''volume'') (\<lambda>v_volume.
    bindE (jget_enum Sides j ''side'') (\<lambda>v_side.
    bindE (jget_enum Directions j ''position_side'') (\<lambda>v_position_side.
    bindE (jget_i64 j ''ask_id'') (\<lambda>v_ask_id.
    bindE (jget_i64 j ''bid_id'') (\<lambda>v_bid_id.
    Inr (x\<lparr>trd_trade_time := v_trade_time,
      trd_symbol := strncpy SYMBOL_LEN v_symbol,
      trd_exchange_id := strncpy EXCHANGE_ID_LEN v_exchange_id,
      trd_client_id := strncpy CLIENT_ID_LEN v_client_id,
      trd_instrument_type := v_instrument_type,
      trd_trade_id := v_trade_id,
      trd_price := v_price,
      trd_volume := v_volume,
      trd_side := v_side,
      trd_position_side := v_position_side,
      trd_ask_id := v_ask_id,
      trd_bid_id := v_bid_id\<rparr>)))))))))))))"

definition trade_clean :: "trade \<Rightarrow> bool" where
  "trade_clean x \<longleftrightarrow> clean CLIENT_ID_LEN (trd_client_id x) \<and>
    clean SYMBOL_LEN (trd_symbol x) \<and>
    clean EXCHANGE_ID_LEN (trd_exchange_id x)"

section \<open>IndexPrice\<close>

record index_price =
  ipx_symbol :: string
  ipx_exchange_id :: string
  ipx_instrument_type :: InstrumentType
  ipx_price :: f64

definition zero_index_price :: index_price where
  "zero_index_price = \<lparr>ipx_symbol = replicate SYMBOL_LEN NUL,
    ipx_exchange_id = replicate EXCHANGE_ID_LEN NUL,
    ipx_instrument_type = IT_Unknown,
    ipx_price = Zero False\<rparr>"

definition index_price_json :: "index_price \<Rightarrow> (string \<times> json) list" where
  "index_price_json x = [(''symbol'', JString (c_str (ipx_symbol x))),
    (''exchange_id'', JString (c_str (ipx_exchange_id x))),
    (''instrument_type'', JEnum InstrumentTypes (ipx_instrument_type x)),
    (''price'', JFloat (ipx_price x))]"

definition index_price_to_json :: "json \<Rightarrow> index_price \<Rightarrow> json_error + json" where
  "index_price_to_json j x = jset_all (index_price_json x) j"

definition index_price_from_json :: "json \<Rightarrow> index_price \<Rightarrow> json_error + index_price" where
  "index_price_from_json j x =
    bindE (jget_string j ''symbol'') (\<lambda>v_symbol.
    bindE (jget_string j ''exchange_id'') (\<lambda>v_exchange_id.
    bindE (jget_enum InstrumentTypes j ''instrument_type'') (\<lambda>v_instrument_type.
    bindE (jget_double j ''price'') (\<lambda>v_price.
    Inr (x\<lparr>ipx_symbol := strncpy SYMBOL_LEN v_symbol,
      ipx_exchange_id := strncpy EXCHANGE_ID_LEN v_exchange_id,
      ipx_instrument_type := v_instrument_type,
      ipx_price := v_price\<rparr>)))))"

definition index_price_clean :: "index_price \<Rightarrow> bool" where
  "index_price_clean x \<longleftrightarrow> clean SYMBOL_LEN (ipx_symbol x) \<and>
    clean EXCHANGE_ID_LEN (ipx_exchange_id x)"

section \<open>Bar\<close>

record bar =
  bar_symbol :: string
  bar_exchange_id :: string
  bar_start_time :: i64
  bar_end_time :: i64
  bar_open :: f64
  bar_close :: f64
  bar_low :: f64
  bar_high :: f64
  bar_volume :: f64
  bar_start_volume :: f64
  bar_trade_count :: i32
  bar_interval :: i32

definition zero_bar :: bar where
  "zero_bar = \<lparr>bar_symbol = replicate SYMBOL_LEN NUL,
    bar_exchange_id = replicate EXCHANGE_ID_LEN NUL,
    bar_start_time = 0,
    bar_end_time = 0,
    bar_open = Zero False,
    bar_close = Zero False,
    bar_low = Zero False,
    bar_high = Zero False,
    bar_volume = Zero False,
    bar_start_volume = Zero False,
    bar_trade_count = 0,
    bar_interval = 0\<rparr>"

definition bar_json :: "bar \<Rightarrow> (string \<times> json) list" where
  "bar_json x = [(''symbol'', JString (c_str (bar_symbol x))),
    (''exchange_id'', JString (c_str (bar_exchange_id x))),
    (''start_time'', JInt (bar_start_time x)),
    (''end_time'', JInt (bar_end_time x)),
    (''open'', JFloat (bar_open x)),
    (''close'', JFloat (bar_close x)),
    (''low'', JFloat (bar_low x)),
    (''high'', JFloat (bar_high x)),
    (''volume'', JFloat (bar_volume x)),
    (''start_volume'', JFloat (bar_start_volume x)),
    (''trade_count'', JInt (bar_trade_count x))]"

definition bar_to_json :: "json \<Rightarrow> bar \<Rightarrow> json_error + json" where
  "bar_to_json j x = jset_all (bar_json x) j"

section \<open>OrderInput\<close>

record order_input =
  oi_strategy_id :: u32
  oi_order_id :: u64
  oi_symbol :: string
  oi_exchange_id :: string
  oi_source_id :: string
  oi_account_id :: string
  oi_instrument_type :: InstrumentType
  oi_price :: f64
  oi_stop_price :: f64
  oi_volume :: f64
  oi_side :: Side
  oi_position_side :: Direction
  oi_order_type :: OrderType
  oi_time_condition :: TimeCondition
  oi_reduce_only :: bool

definition zero_order_input :: order_input where
  "zero_order_input = \<lparr>oi_strategy_id = 0,
    oi_order_id = 0,
    oi_symbol = replicate SYMBOL_LEN NUL,
    oi_exchange_id = replicate EXCHANGE_ID_LEN NUL,
    oi_source_id = replicate SOURCE_ID_LEN NUL,
    oi_account_id = replicate ACCOUNT_ID_LEN NUL,
    oi_instrument_type = IT_Unknown,
    oi_price = Zero False,
    oi_stop_price = Zero False,
    oi_volume = Zero False,
    oi_side = Buy,
    oi_position_side = Long,
    oi_order_type = Limit,
    oi_time_condition = IOC,
    oi_reduce_only = False\<rparr>"

definition order_input_json :: "order_input \<Rightarrow> (string \<times> json) list" where
  "order_input_json x = [(''strategy_id'', JU64 (oi_strategy_id x)),
    (''order_id'', JU64 (oi_order_id x)),
    (''symbol'', JString (c_str (oi_symbol x))),
    (''exchange_id'', JString (c_str (oi_exchange_id x))),
    (''account_id'', JString (c_str (oi_account_id x))),
    (''source_id'', JString (c_str (oi_source_id x))),
    (''instrument_type'', JEnum InstrumentTypes (oi_instrument_type x)),
    (''volume'', JFloat (oi_volume x)),
    (''price'', JFloat (oi_price x)),
    (''stop_price'', JFloat (oi_stop_price x)),
    (''side'', JEnum Sides (oi_side x)),
    (''position_side'', JEnum Directions (oi_position_side x)),
    (''order_type'', JEnum OrderTypes (oi_order_type x)),
    (''time_condition'', JEnum TimeConditions (oi_time_condition x)),
    (''reduce_only'', JBool (oi_reduce_only x))]"

definition order_input_to_json :: "json \<Rightarrow> order_input \<Rightarrow> json_error + json" where
  "order_input_to_json j x = jset_all (order_input_json x) j"

definition order_input_from_json :: "json \<Rightarrow> order_input \<Rightarrow> json_error + order_input" where
  "order_input_from_json j x =
    bindE (jget_u32 j ''strategy_id'') (\<lambda>v_strategy_id.
    bindE (jget_u64 j ''client_order_id'') (\<lambda>v_order_id.
    bindE (jget_string j ''symbol'') (\<lambda>v_symbol.
    bindE (jget_string j ''exchange_id'') (\<lambda>v_exchange_id.
    bindE (jget_string j ''account_id'') (\<lambda>v_account_id.
    bindE (jget_string j ''source_id'') (\<lambda>v_source_id.
    bindE (jget_enum InstrumentTypes j ''instrument_type'') (\<lambda>v_instrument_type.
    bindE (jget_double j ''price'') (\<lambda>v_price.
    bindE (jget_double j ''stop_price'') (\<lambda>v_stop_price.
    bindE (jget_double j ''volume'') (\<lambda>v_volume.
    bindE (jget_enum Sides j ''side'') (\<lambda>v_side.
    bindE (jget_enum Directions j ''position_side'') (\<lambda>v_position_side.
    bindE (jget_enum OrderTypes j ''order_type'') (\<lambda>v_order_type.
    bindE (jget_enum TimeConditions j ''time_condition'') (\<lambda>v_time_condition.
    bindE (jget_bool j ''reduce_only'') (\<lambda>v_reduce_only.
    Inr (x\<lparr>oi_strategy_id := v_strategy_id,
      oi_order_id := v_order_id,
      oi_symbol := strncpy SYMBOL_LEN v_symbol,
      oi_exchange_id := strncpy EXCHANGE_ID_LEN v_exchange_id,
      oi_account_id := strncpy ACCOUNT_ID_LEN v_account_id,
      oi_source_id := strncpy SOURCE_ID_LEN v_source_id,
      oi_instrument_type := v_instrument_type,
      oi_price := v_price,
      oi_stop_price := v_stop_price,
      oi_volume := v_volume,
      oi_side := v_side,
      oi_position_side := v_position_side,
      oi_order_type := v_order_type,
      oi_time_condition := v_time_condition,
      oi_reduce_only := v_reduce_only\<rparr>))))))))))))))))"

definition order_input_clean :: "order_input \<Rightarrow> bool" where
  "order_input_clean x \<longleftrightarrow> clean SYMBOL_LEN (oi_symbol x) \<and>
    clean EXCHANGE_ID_LEN (oi_exchange_id x) \<and>
    clean SOURCE_ID_LEN (oi_source_id x) \<and>
    clean ACCOUNT_ID_LEN (oi_account_id x)"

section \<open>OrderAction\<close>

record order_action =
  oa_strategy_id :: u32
  oa_order_id :: u64
  oa_order_action_id :: u64
  oa_symbol :: string
  oa_ex_order_id :: string
  oa_action_flag :: OrderActionFlag
  oa_instrument_type :: InstrumentType

definition zero_order_action :: order_action where
  "zero_order_action = \<lparr>oa_strategy_id = 0,
    oa_order_id = 0,
    oa_order_action_id = 0,
    oa_symbol = replicate SYMBOL_LEN NUL,
    oa_ex_order_id = replicate ORDER_ID_LEN NUL,
    oa_action_flag = OA_Cancel,
    oa_instrument_type = IT_Unknown\<rparr>"

definition order_action_json :: "order_action \<Rightarrow> (string \<times> json) list" where
  "order_action_json x = [(''strategy_id'', JU64 (oa_strategy_id x)),
    (''order_id'', JU64 (oa_order_id x)),
    (''order_action_id'', JU64 (oa_order_action_id x)),
    (''symbol'', JString (c_str (oa_symbol x))),
    (''ex_order_id'', JString (c_str (oa_ex_order_id x))),
    (''instrument_type'', JEnum InstrumentTypes (oa_instrument_type x)),
    (''action_flag'', JEnum OrderActionFlags (oa_action_flag x))]"

definition order_action_to_json :: "json \<Rightarrow> order_action \<Rightarrow> json_error + json" where
  "order_action_to_json j x = jset_all (order_action_json x) j"

definition order_action_from_json :: "json \<Rightarrow> order_action \<Rightarrow> json_error + order_action" where
  "order_action_from_json j x =
    bindE (jget_u32 j ''strategy_id'') (\<lambda>v_strategy_id.
    bindE (jget_u64 j ''order_id'') (\<lambda>v_order_id.
    bindE (jget_u64 j ''order_action_id'') (\<lambda>v_order_action_id.
    bindE (jget_string j ''symbol'') (\<lambda>v_symbol.
    bindE (jget_string j ''ex_order_id'') (\<lambda>v_ex_order_id.
    bindE (jget_enum InstrumentTypes j ''instrument_type'') (\<lambda>v_instrument_type.
    bindE (jget_enum OrderActionFlags j ''action_flag'') (\<lambda>v_action_flag.
    Inr (x\<lparr>oa_strategy_id := v_strategy_id,
      oa_order_id := v_order_id,
      oa_order_action_id := v_order_action_id,
      oa_symbol := strncpy SYMBOL_LEN v_symbol,
      oa_ex_order_id := strncpy ORDER_ID_LEN v_ex_order_id,
      oa_instrument_type := v_instrument_type,
      oa_action_flag := v_action_flag\<rparr>))))))))"

definition order_action_clean :: "order_action \<Rightarrow> bool" where
  "order_action_clean x \<longleftrightarrow> clean SYMBOL_LEN (oa_symbol x) \<and>
    clean ORDER_ID_LEN (oa_ex_order_id x)"

section \<open>OrderActionError\<close>

record order_action_error =
  oae_order_id :: u64
  oae_order_action_id :: u64
  oae_error_id :: i32
  oae_error_msg :: string

definition zero_order_action_error :: order_action_error where
  "zero_order_action_error = \<lparr>oae_order_id = 0,
    oae_order_action_id = 0,
    oae_error_id = 0,
    oae_error_msg = replicate ERROR_MSG_LEN NUL\<rparr>"

definition order_action_error_json :: "order_action_error \<Rightarrow> (string \<times> json) list" where
  "order_action_error_json x = [(''order_id'', JU64 (oae_order_id x)),
    (''order_action_id'', JU64 (oae_order_action_id x)),
    (''error_id'', JInt (oae_error_id x)),
    (''error_msg'', JString (c_str (oae_error_msg x)))]"

definition order_action_error_to_json :: "json \<Rightarrow> order_action_error \<Rightarrow> json_error + json" where
  "order_action_error_to_json j x = jset_all (order_action_error_json x) j"

definition order_action_error_from_json :: "json \<Rightarrow> order_action_error \<Rightarrow> json_error + order_action_error" where
  "order_action_error_from_json j x =
    bindE (jget_u64 j ''order_id'') (\<lambda>v_order_id.
    bindE (jget_u64 j ''order_action_id'') (\<lambda>v_order_action_id.
    bindE (jget_i32 j ''error_id'') (\<lambda>v_error_id.
    bindE (jget_string j ''error_msg'') (\<lambda>v_error_msg.
    Inr (x\<lparr>oae_order_id := v_order_id,
      oae_order_action_id := v_order_action_id,
      oae_error_id := v_error_id,
      oae_error_msg := strncpy ERROR_MSG_LEN v_error_msg\<rparr>)))))"

definition order_action_error_clean :: "order_action_error \<Rightarrow> bool" where
  "order_action_error_clean x \<longleftrightarrow> clean ERROR_MSG_LEN (oae_error_msg x)"

section \<open>Order\<close>

record order =
  ord_strategy_id :: u32
  ord_order_id :: u64
  ord_ex_order_id :: string
  ord_symbol :: string
  ord_instrument_type :: InstrumentType
  ord_exchange_id :: string
  ord_account_id :: string
  ord_source_id :: string
  ord_price :: f64
  ord_volume :: f64
  ord_volume_traded :: f64
  ord_volume_left :: f64
  ord_stop_price :: f64
  ord_close_pnl :: f64
  ord_avg_price :: f64
  ord_fee :: f64
  ord_fee_currency :: string
  ord_status :: OrderStatus
  ord_time_condition :: TimeCondition
  ord_side :: Side
  ord_position_side :: Direction
  ord_order_type :: OrderType
  ord_error_code :: string
  ord_insert_time :: i64
  ord_update_time :: i64

definition zero_order :: order where
  "zero_order = \<lparr>ord_strategy_id = 0,
    ord_order_id = 0,
    ord_ex_order_id = replicate ORDER_ID_LEN NUL,
    ord_symbol = replicate SYMBOL_LEN NUL,
    ord_instrument_type = IT_Unknown,
    ord_exchange_id = replicate EXCHANGE_ID_LEN NUL,
    ord_account_id = replicate ACCOUNT_ID_LEN NUL,
    ord_source_id = replicate SOURCE_ID_LEN NUL,
    ord_price = Zero False,
    ord_volume = Zero False,
    ord_volume_traded = Zero False,
    ord_volume_left = Zero False,
    ord_stop_price = Zero False,
    ord_close_pnl = Zero False,
    ord_avg_price = Zero False,
    ord_fee = Zero False,
    ord_fee_currency = replicate SYMBOL_LEN NUL,
    ord_status = OS_Unknown,
    ord_time_condition = IOC,
    ord_side = Buy,
    ord_position_side = Long,
    ord_order_type = Limit,
    ord_error_code = replicate ERROR_CODE_LEN NUL,
    ord_insert_time = 0,
    ord_update_time = 0\<rparr>"

definition order_json :: "order \<Rightarrow> (string \<times> json) list" where
  "order_json x = [(''strategy_id'', JU64 (ord_strategy_id x)),
    (''order_id'', JU64 (ord_order_id x)),
    (''ex_order_id'', JString (c_str (ord_ex_order_id x))),
    (''insert_time'', JInt (ord_insert_time x)),
    (''update_time'', JInt (ord_update_time x)),
    (''symbol'', JString (c_str (ord_symbol x))),
    (''instrument_type'', JEnum InstrumentTypes (ord_instrument_type x)),
    (''exchange_id'', JString (c_str (ord_exchange_id x))),
    (''account_id'', JString (c_str (ord_account_id x))),
    (''source_id'', JString (c_str (ord_source_id x))),
    (''price'', JFloat (ord_price x)),
    (''stop_price'', JFloat (ord_stop_price x)),
    (''volume'', JFloat (ord_volume x)),
    (''volume_traded'', JFloat (ord_volume_traded x)),
    (''volume_left'', JFloat (ord_volume_left x)),
    (''close_pnl'', JFloat (ord_close_pnl x)),
    (''fee_currency'', JString (c_str (ord_fee_currency x))),
    (''fee'', JFloat (ord_fee x)),
    (''status'', JEnum OrderStatuses (ord_status x)),
    (''time_condition'', JEnum TimeConditions (ord_time_condition x)),
    (''side'', JEnum Sides (ord_side x)),
    (''position_side'', JEnum Directions (ord_position_side x)),
    (''order_type'', JEnum OrderTypes (ord_order_type x)),
    (''error_code'', JString (c_str (ord_error_code x)))]"

definition order_to_json :: "json \<Rightarrow> order \<Rightarrow> json_error + json" where
  "order_to_json j x = jset_all (order_json x) j"

definition order_from_json :: "json \<Rightarrow> order \<Rightarrow> json_error + order" where
  "order_from_json j x =
    bindE (jget_u32 j ''strategy_id'') (\<lambda>v_strategy_id.
    bindE (jget_u64 j ''order_id'') (\<lambda>v_order_id.
    bindE (jget_string j ''ex_order_id'') (\<lambda>v_ex_order_id.
    bindE (jget_i64 j ''insert_time'') (\<lambda>v_insert_time.
    bindE (jget_i64 j ''update_time'') (\<lambda>v_update_time.
    bindE (jget_string j ''symbol'') (\<lambda>v_symbol.
    bindE (jget_string j ''exchange_id'') (\<lambda>v_exchange_id.
    bindE (jget_string j ''account_id'') (\<lambda>v_account_id.
    bindE (jget_string j ''source_id'') (\<lambda>v_source_id.
    bindE (jget_enum InstrumentTypes j ''instrument_type'') (\<lambda>v_instrument_type.
    bindE (jget_double j ''price'') (\<lambda>v_price.
    bindE (jget_double j ''stop_price'') (\<lambda>v_stop_price.
    bindE (jget_double j ''volume'') (\<lambda>v_volume.
    bindE (jget_double j ''volume_traded'') (\<lambda>v_volume_traded.
    bindE (jget_double j ''volume_left'') (\<lambda>v_volume_left.
    bindE (jget_double j ''close_pnl'') (\<lambda>v_close_pnl.
    bindE (jget_double j ''fee'') (\<lambda>v_fee.
    bindE (jget_string j ''fee_currency'') (\<lambda>v_fee_currency.
    bindE (jget_enum OrderStatuses j ''status'') (\<lambda>v_status.
    bindE (jget_enum TimeConditions j ''time_condition'') (\<lambda>v_time_condition.
    bindE (jget_enum Sides j ''side'') (\<lambda>v_side.
    bindE (jget_enum Directions j ''position_side'') (\<lambda>v_position_side.
    bindE (jget_enum OrderTypes j ''order_type'') (\<lambda>v_order_type.
    bindE (jget_string j ''error_code'') (\<lambda>v_error_code.
    Inr (x\<lparr>ord_strategy_id := v_strategy_id,
      ord_order_id := v_order_id,
      ord_ex_order_id := strncpy ORDER_ID_LEN v_ex_order_id,
      ord_insert_time := v_insert_time,
      ord_update_time := v_update_time,
      ord_symbol := strncpy SYMBOL_LEN v_symbol,
      ord_exchange_id := strncpy EXCHANGE_ID_LEN v_exchange_id,
      ord_account_id := strncpy ACCOUNT_ID_LEN v_account_id,
      ord_source_id := strncpy SOURCE_ID_LEN v_source_id,
      ord_instrument_type := v_instrument_type,
      ord_price := v_price,
      ord_stop_price := v_stop_price,
      ord_volume := v_volume,
      ord_volume_traded := v_volume_traded,
      ord_volume_left := v_volume_left,
      ord_close_pnl := v_close_pnl,
      ord_fee := v_fee,
      ord_fee_currency := strncpy SYMBOL_LEN v_fee_currency,
      ord_status := v_status,
      ord_time_condition := v_time_condition,
      ord_side := v_side,
      ord_position_side := v_position_side,
      ord_order_type := v_order_type,
      ord_error_code := strncpy ERROR_CODE_LEN v_error_code\<rparr>)))))))))))))))))))))))))"

definition order_clean :: "order \<Rightarrow> bool" where
  "order_clean x \<longleftrightarrow> clean ORDER_ID_LEN (ord_ex_order_id x) \<and>
    clean SYMBOL_LEN (ord_symbol x) \<and>
    clean EXCHANGE_ID_LEN (ord_exchange_id x) \<and>
    clean ACCOUNT_ID_LEN (ord_account_id x) \<and>
    clean SOURCE_ID_LEN (ord_source_id x) \<and>
    clean SYMBOL_LEN (ord_fee_currency x) \<and>
    clean ERROR_CODE_LEN (ord_error_code x)"

section \<open>MyTrade\<close>

record my_trade =
  mtr_strategy_id :: u32
  mtr_trade_time :: i64
  mtr_trade_id :: u64
  mtr_order_id :: u64
  mtr_ex_order_id :: string
  mtr_symbol :: string
  mtr_exchange_id :: string
  mtr_account_id :: string
  mtr_source_id :: string
  mtr_instrument_type :: InstrumentType
  mtr_side :: Side
  mtr_offset :: Offset
  mtr_price :: f64
  mtr_volume :: f64
  mtr_fee :: f64
  mtr_fee_currency :: string
  mtr_base_currency :: string
  mtr_quote_currency :: string

definition zero_my_trade :: my_trade where
  "zero_my_trade = \<lparr>mtr_strategy_id = 0,
    mtr_trade_time = 0,
    mtr_trade_id = 0,
    mtr_order_id = 0,
    mtr_ex_order_id = replicate ORDER_ID_LEN NUL,
    mtr_symbol = replicate SYMBOL_LEN NUL,
    mtr_exchange_id = replicate EXCHANGE_ID_LEN NUL,
    mtr_account_id = replicate ACCOUNT_ID_LEN NUL,
    mtr_source_id = replicate SOURCE_ID_LEN NUL,
    mtr_instrument_type = IT_Unknown,
    mtr_side = Buy,
    mtr_offset = Open,
    mtr_price = Zero False,
    mtr_volume = Zero False,
    mtr_fee = Zero False,
    mtr_fee_currency = replicate SYMBOL_LEN NUL,
    mtr_base_currency = replicate SYMBOL_LEN NUL,
    mtr_quote_currency = replicate SYMBOL_LEN NUL\<rparr>"

definition my_trade_json :: "my_trade \<Rightarrow> (string \<times> json) list" where
  "my_trade_json x = [(''strategy_id'', JU64 (mtr_strategy_id x)),
    (''trade_time'', JInt (mtr_trade_time x)),
    (''trade_id'', JU64 (mtr_trade_id x)),
    (''order_id'', JU64 (mtr_order_id x)),
    (''ex_order_id'', JString (c_str (mtr_ex_order_id x))),
    (''symbol'', JString (c_str (mtr_symbol x))),
    (''exchange_id'', JString (c_str (mtr_exchange_id x))),
    (''account_id'', JString (c_str (mtr_account_id x))),
    (''source_id'', JString (c_str (mtr_source_id x))),
    (''instrument_type'', JEnum InstrumentTypes (mtr_instrument_type x)),
    (''side'', JEnum Sides (mtr_side x)),
    (''offset'', JEnum Offsets (mtr_offset x)),
    (''price'', JFloat (mtr_price x)),
    (''volume'', JFloat (mtr_volume x)),
    (''fee'', JFloat (mtr_fee x)),
    (''fee_currency'', JString (c_str (mtr_fee_currency x))),
    (''base_currency'', JString (c_str (mtr_base_currency x))),
    (''quote_currency'', JString (c_str (mtr_quote_currency x)))]"

definition my_trade_to_json :: "json \<Rightarrow> my_trade \<Rightarrow> json_error + json" where
  "my_trade_to_json j x = jset_all (my_trade_json x) j"

definition my_trade_from_json :: "json \<Rightarrow> my_trade \<Rightarrow> json_error + my_trade" where
  "my_trade_from_json j x =
    bindE (jget_u32 j ''strategy_id'') (\<lambda>v_strategy_id.
    bindE (jget_i64 j ''trade_time'') (\<lambda>v_trade_time.
    bindE (jget_u64 j ''trade_id'') (\<lambda>v_trade_id.
    bindE (jget_u64 j ''order_id'') (\<lambda>v_order_id.
    bindE (jget_string j ''ex_order_id'') (\<lambda>v_ex_order_id.
    bindE (jget_string j ''symbol'') (\<lambda>v_symbol.
    bindE (jget_string j ''exchange_id'') (\<lambda>v_exchange_id.
    bindE (jget_string j ''account_id'') (\<lambda>v_account_id.
    bindE (jget_string j ''source_id'') (\<lambda>v_source_id.
    bindE (jget_enum InstrumentTypes j ''instrument_type'') (\<lambda>v_instrument_type.
    bindE (jget_enum_int Sides j ''side'') (\<lambda>v_side.
    bindE (jget_enum Offsets j ''offset'') (\<lambda>v_offset.
    bindE (jget_double j ''price'') (\<lambda>v_price.
    bindE (jget_double j ''volume'') (\<lambda>v_volume.
    bindE (jget_double j ''fee'') (\<lambda>v_fee.
    bindE (jget_string j ''fee_currency'') (\<lambda>v_fee_currency.
    bindE (jget_string j ''base_currency'') (\<lambda>v_base_currency.
    bindE (jget_string j ''quote_currency'') (\<lambda>v_quote_currency.
    Inr (x\<lparr>mtr_strategy_id := v_strategy_id,
      mtr_trade_time := v_trade_time,
      mtr_trade_id := v_trade_id,
      mtr_order_id := v_order_id,
      mtr_ex_order_id := strncpy ORDER_ID_LEN v_ex_order_id,
      mtr_symbol := strncpy SYMBOL_LEN v_symbol,
      mtr_exchange_id := strncpy EXCHANGE_ID_LEN v_exchange_id,
      mtr_account_id := strncpy ACCOUNT_ID_LEN v_account_id,
      mtr_source_id := strncpy SOURCE_ID_LEN v_source_id,
      mtr_instrument_type := v_instrument_type,
      mtr_side := v_side,
      mtr_offset := v_offset,
      mtr_price := v_price,
      mtr_volume := v_volume,
      mtr_fee := v_fee,
      mtr_fee_currency := strncpy SYMBOL_LEN v_fee_currency,
      mtr_base_currency := strncpy SYMBOL_LEN v_base_currency,
      mtr_quote_currency := strncpy SYMBOL_LEN v_quote_currency\<rparr>)))))))))))))))))))"

definition my_trade_clean :: "my_trade \<Rightarrow> bool" where
  "my_trade_clean x \<longleftrightarrow> clean ORDER_ID_LEN (mtr_ex_order_id x) \<and>
    clean SYMBOL_LEN (mtr_symbol x) \<and>
    clean EXCHANGE_ID_LEN (mtr_exchange_id x) \<and>
    clean ACCOUNT_ID_LEN (mtr_account_id x) \<and>
    clean SOURCE_ID_LEN (mtr_source_id x) \<and>
    clean SYMBOL_LEN (mtr_fee_currency x) \<and>
    clean SYMBOL_LEN (mtr_base_currency x) \<and>
    clean SYMBOL_LEN (mtr_quote_currency x)"

section \<open>Asset\<close>

record asset =
  ast_update_time :: i64
  ast_holder_uid :: u32
  ast_ledger_category :: LedgerCategory
  ast_coin :: string
  ast_account_id :: string
  ast_exchange_id :: string
  ast_avail :: f64
  ast_margin :: f64
  ast_frozen :: f64

definition zero_asset :: asset where
  "zero_asset = \<lparr>ast_update_time = 0,
    ast_holder_uid = 0,
    ast_ledger_category = LC_Account,
    ast_coin = replicate SYMBOL_LEN NUL,
    ast_account_id = replicate ACCOUNT_ID_LEN NUL,
    ast_exchange_id = replicate EXCHANGE_ID_LEN NUL,
    ast_avail = Zero False,
    ast_margin = Zero False,
    ast_frozen = Zero False\<rparr>"

definition asset_json :: "asset \<Rightarrow> (string \<times> json) list" where
  "asset_json x = [(''update_time'', JInt (ast_update_time x)),
    (''holder_uid'', JU64 (ast_holder_uid x)),
    (''ledger_category'', JEnum LedgerCategories (ast_ledger_category x)),
    (''coin'', JString (c_str (ast_coin x))),
    (''account_id'', JString (c_str (ast_account_id x))),
    (''exchange_id'', JString (c_str (ast_exchange_id x))),
    (''avail'', JFloat (ast_avail x)),
    (''margin'', JFloat (ast_margin x)),
    (''frozen'', JFloat (ast_frozen x))]"

definition asset_to_json :: "json \<Rightarrow> asset \<Rightarrow> json_error + json" where
  "asset_to_json j x = jset_all (asset_json x) j"

section \<open>Position\<close>

record position =
  pos_strategy_id :: u32
  pos_update_time :: i64
  pos_symbol :: string
  pos_instrument_type :: InstrumentType
  pos_exchange_id :: string
  pos_holder_uid :: u32
  pos_ledger_category :: LedgerCategory
  pos_source_id :: string
  pos_account_id :: string
  pos_direction :: Direction
  pos_volume :: f64
  pos_frozen_total :: i64
  pos_last_price :: f64
  pos_avg_open_price :: f64
  pos_settlement_price :: f64
  pos_margin :: f64
  pos_realized_pnl :: f64
  pos_unrealized_pnl :: f64

definition zero_position :: position where
  "zero_position = \<lparr>pos_strategy_id = 0,
    pos_update_time = 0,
    pos_symbol = replicate SYMBOL_LEN NUL,
    pos_instrument_type = IT_Unknown,
    pos_exchange_id = replicate EXCHANGE_ID_LEN NUL,
    pos_holder_uid = 0,
    pos_ledger_category = LC_Account,
    pos_source_id = replicate SOURCE_ID_LEN NUL,
    pos_account_id = replicate ACCOUNT_ID_LEN NUL,
    pos_direction = Long,
    pos_volume = Zero False,
    pos_frozen_total = 0,
    pos_last_price = Zero False,
    pos_avg_open_price = Zero False,
    pos_settlement_price = Zero False,
    pos_margin = Zero False,
    pos_realized_pnl = Zero False,
    pos_unrealized_pnl = Zero False\<rparr>"

definition position_json :: "position \<Rightarrow> (string \<times> json) list" where
  "position_json x = [(''strategy_id'', JU64 (pos_strategy_id x)),
    (''update_time'', JInt (pos_update_time x)),
    (''symbol'', JString (c_str (pos_symbol x))),
    (''instrument_type'', JEnum InstrumentTypes (pos_instrument_type x)),
    (''exchange_id'', JString (c_str (pos_exchange_id x))),
    (''account_id'', JString (c_str (pos_account_id x))),
    (''direction'', JEnum Directions (pos_direction x)),
    (''volume'', JFloat (pos_volume x)),
    (''frozen_total'', JInt (pos_frozen_total x)),
    (''last_price'', JFloat (pos_last_price x)),
    (''avg_open_price'', JFloat (pos_avg_open_price x)),
    (''settlement_price'', JFloat (pos_settlement_price x)),
    (''margin'', JFloat (pos_margin x)),
    (''realized_pnl'', JFloat (pos_realized_pnl x)),
    (''unrealized_pnl'', JFloat (pos_unrealized_pnl x))]"

definition position_to_json :: "json \<Rightarrow> position \<Rightarrow> json_error + json" where
  "position_to_json j x = jset_all (position_json x) j"

section \<open>Derived operations\<close>

definition instrument_eq :: "instrument \<Rightarrow> instrument \<Rightarrow> bool" where
  "instrument_eq a b \<longleftrightarrow>
    c_str (ins_symbol a) = c_str (ins_symbol b) \<and> c_str (ins_exchange_id a) = c_str (ins_exchange_id b)"

definition instrument_less :: "instrument \<Rightarrow> instrument \<Rightarrow> bool" where
  "instrument_less a b \<longleftrightarrow>
    get_symbol_id (c_str (ins_symbol a)) (c_str (ins_exchange_id a)) <
    get_symbol_id (c_str (ins_symbol b)) (c_str (ins_exchange_id b))"

definition order_from_input :: "order_input \<Rightarrow> order \<Rightarrow> order" where
  "order_from_input i x = x\<lparr>
    ord_strategy_id := oi_strategy_id i,
    ord_order_id := oi_order_id i,
    ord_symbol := strcpy (ord_symbol x) (oi_symbol i),
    ord_exchange_id := strcpy (ord_exchange_id x) (oi_exchange_id i),
    ord_account_id := strcpy (ord_account_id x) (oi_account_id i),
    ord_source_id := strcpy (ord_source_id x) (oi_source_id i),
    ord_instrument_type := oi_instrument_type i,
    ord_price := oi_price i,
    ord_stop_price := oi_stop_price i,
    ord_volume := oi_volume i,
    ord_volume_traded := Zero False,
    ord_volume_left := oi_volume i,
    ord_close_pnl := Zero False,
    ord_status := PreSend,
    ord_time_condition := oi_time_condition i,
    ord_side := oi_side i,
    ord_position_side := oi_position_side i,
    ord_order_type := oi_order_type i\<rparr>"

end
