(* ===== verification/MsgProps.thy ===== *)
theory MsgProps
  imports Msg
begin

text \<open>
  Properties of the messages: reading back the json that \<open>to_json\<close> writes, for every struct that
  has both conversions, and the structs for which something is lost.
\<close>

lemma to_json_null:
  assumes "kvs \<noteq> []" "distinct (map fst kvs)"
  shows "jset_all kvs JNull = Inr (json_of kvs)"
  using jset_all_null [OF assms] by (auto simp: json_of_def)

lemma ticker_written: "ticker_to_json JNull x = Inr (json_of (ticker_json x))"
  unfolding ticker_to_json_def by (rule to_json_null) (simp_all add: ticker_json_def)

lemma depth_written: "depth_to_json JNull x = Inr (json_of (depth_json x))"
  unfolding depth_to_json_def by (rule to_json_null) (simp_all add: depth_json_def)

lemma trade_written: "trade_to_json JNull x = Inr (json_of (trade_json x))"
  unfolding trade_to_json_def by (rule to_json_null) (simp_all add: trade_json_def)

lemma index_price_written: "index_price_to_json JNull x = Inr (json_of (index_price_json x))"
  unfolding index_price_to_json_def by (rule to_json_null) (simp_all add: index_price_json_def)

lemma order_input_written: "order_input_to_json JNull x = Inr (json_of (order_input_json x))"
  unfolding order_input_to_json_def by (rule to_json_null) (simp_all add: order_input_json_def)

lemma order_action_written: "order_action_to_json JNull x = Inr (json_of (order_action_json x))"
  unfolding order_action_to_json_def by (rule to_json_null) (simp_all add: order_action_json_def)

lemma order_action_error_written: "order_action_error_to_json JNull x = Inr (json_of (order_action_error_json x))"
  unfolding order_action_error_to_json_def by (rule to_json_null) (simp_all add: order_action_error_json_def)

lemma order_written: "order_to_json JNull x = Inr (json_of (order_json x))"
  unfolding order_to_json_def by (rule to_json_null) (simp_all add: order_json_def)

lemma my_trade_written: "my_trade_to_json JNull x = Inr (json_of (my_trade_json x))"
  unfolding my_trade_to_json_def by (rule to_json_null) (simp_all add: my_trade_json_def)

lemma ticker_read: "ticker_clean x \<Longrightarrow> ticker_from_json (json_of (ticker_json x)) y = Inr x"
  by (simp add: ticker_from_json_def ticker_json_def jgetters jget_enum_int_def json_simps ticker_clean_def clean_def)

lemma trade_read: "trade_clean x \<Longrightarrow> trade_from_json (json_of (trade_json x)) y = Inr x"
  by (simp add: trade_from_json_def trade_json_def jgetters jget_enum_int_def json_simps trade_clean_def clean_def)

lemma index_price_read: "index_price_clean x \<Longrightarrow> index_price_from_json (json_of (index_price_json x)) y = Inr x"
  by (simp add: index_price_from_json_def index_price_json_def jgetters jget_enum_int_def json_simps index_price_clean_def clean_def)

lemma order_action_read: "order_action_clean x \<Longrightarrow> order_action_from_json (json_of (order_action_json x)) y = Inr x"
  by (simp add: order_action_from_json_def order_action_json_def jgetters jget_enum_int_def json_simps order_action_clean_def clean_def)

lemma order_action_error_read: "order_action_error_clean x \<Longrightarrow> order_action_error_from_json (json_of (order_action_error_json x)) y = Inr x"
  by (simp add: order_action_error_from_json_def order_action_error_json_def jgetters jget_enum_int_def json_simps order_action_error_clean_def clean_def)

lemma my_trade_read: "my_trade_clean x \<Longrightarrow> my_trade_from_json (json_of (my_trade_json x)) y = Inr x"
  by (simp add: my_trade_from_json_def my_trade_json_def jgetters jget_enum_int_def json_simps my_trade_clean_def clean_def)

lemma order_read: "order_clean x \<Longrightarrow> order_from_json (json_of (order_json x)) y = Inr (x\<lparr>ord_avg_price := ord_avg_price y\<rparr>)"
  by (simp add: order_from_json_def order_json_def jgetters json_simps order_clean_def clean_def)

lemma order_input_read: "order_input_from_json (json_of (order_input_json x)) y = Inl (MissingKey ''client_order_id'')"
  by (simp add: order_input_from_json_def order_input_json_def jgetters json_simps)

lemma set_ten_full [simp]: "length xs = 10 \<Longrightarrow> set_ten xs arr = xs @ drop 10 arr"
  by (simp add: set_ten_def)

lemma depth_read:
  "\<lbrakk>depth_clean x; dep_source_id y = strncpy SOURCE_ID_LEN s;
    length (dep_bid_price x) = 10; length (dep_ask_price x) = 10; length (dep_bid_volume x) = 10; length (dep_ask_volume x) = 10;
    length (dep_bid_price y) = 10; length (dep_ask_price y) = 10; length (dep_bid_volume y) = 10; length (dep_ask_volume y) = 10\<rbrakk> \<Longrightarrow>
   depth_from_json (json_of (depth_json x)) y = Inr (x\<lparr>dep_source_id := dep_source_id y\<rparr>)"
  by (simp add: depth_from_json_def depth_json_def jgetters json_simps depth_clean_def clean_def)

text \<open>What any reading leaves in the char arrays is clean.\<close>

lemma bindE_InrE: "bindE a f = Inr y \<Longrightarrow> (\<And>v. a = Inr v \<Longrightarrow> f v = Inr y \<Longrightarrow> P) \<Longrightarrow> P"
  by (cases a) auto

lemma clean_replicate [simp]: "clean n (replicate n NUL)"
  using clean_strncpy [of n "[]"] by (simp add: strncpy_def c_str_def)

lemma ticker_read_clean: "ticker_from_json j x = Inr y \<Longrightarrow> ticker_clean y"
  unfolding ticker_from_json_def by (elim bindE_InrE) (auto simp: ticker_clean_def)

lemma trade_read_clean: "trade_from_json j x = Inr y \<Longrightarrow> trade_clean y"
  unfolding trade_from_json_def by (elim bindE_InrE) (auto simp: trade_clean_def)

lemma order_read_clean: "order_from_json j x = Inr y \<Longrightarrow> order_clean y"
  unfolding order_from_json_def by (elim bindE_InrE) (auto simp: order_clean_def)

lemma my_trade_read_clean: "my_trade_from_json j x = Inr y \<Longrightarrow> my_trade_clean y"
  unfolding my_trade_from_json_def by (elim bindE_InrE) (auto simp: my_trade_clean_def)

lemma order_action_read_clean: "order_action_from_json j x = Inr y \<Longrightarrow> order_action_clean y"
  unfolding order_action_from_json_def by (elim bindE_InrE) (auto simp: order_action_clean_def)

section \<open>Properties\<close>

text \<open>C9: the json of a ticker, a trade, an index price, an order action, an action error or a
  fill, written by \<open>to_json\<close> into an empty value, is read back by \<open>from_json\<close> as the same struct,
  whatever the struct it is read into held before.\<close>

theorem message_json_roundtrip:
  assumes "ticker_clean a" "trade_clean b" "index_price_clean c" "order_action_clean d"
    "order_action_error_clean e" "my_trade_clean f"
  shows "bindE (ticker_to_json JNull a) (\<lambda>j. ticker_from_json j a0) = Inr a \<and>
    bindE (trade_to_json JNull b) (\<lambda>j. trade_from_json j b0) = Inr b \<and>
    bindE (index_price_to_json JNull c) (\<lambda>j. index_price_from_json j c0) = Inr c \<and>
    bindE (order_action_to_json JNull d) (\<lambda>j. order_action_from_json j d0) = Inr d \<and>
    bindE (order_action_error_to_json JNull e) (\<lambda>j. order_action_error_from_json j e0) = Inr e \<and>
    bindE (my_trade_to_json JNull f) (\<lambda>j. my_trade_from_json j f0) = Inr f"
  using assms by (simp add: ticker_written ticker_read trade_written trade_read index_price_written
    index_price_read order_action_written order_action_read order_action_error_written
    order_action_error_read my_trade_written my_trade_read)

theorem message_json_roundtrip_witness:
  "bindE (ticker_to_json JNull (zero_ticker\<lparr>tkr_symbol := strncpy SYMBOL_LEN ''btc_usdt'', tkr_data_time := 7\<rparr>))
     (\<lambda>j. ticker_from_json j zero_ticker) =
   Inr (zero_ticker\<lparr>tkr_symbol := strncpy SYMBOL_LEN ''btc_usdt'', tkr_data_time := 7\<rparr>)"
  using message_json_roundtrip [of "zero_ticker\<lparr>tkr_symbol := strncpy SYMBOL_LEN ''btc_usdt'', tkr_data_time := 7\<rparr>"
    zero_trade zero_index_price zero_order_action zero_order_action_error zero_my_trade zero_ticker]
  by (simp add: ticker_clean_def zero_ticker_def trade_clean_def zero_trade_def index_price_clean_def
    zero_index_price_def order_action_clean_def zero_order_action_def order_action_error_clean_def
    zero_order_action_error_def my_trade_clean_def zero_my_trade_def)

text \<open>An order goes through json with every field but the average price: \<open>to_json\<close> does not
  write it, so the order read back keeps the average price of the struct it is read into.\<close>

theorem order_json_loses_avg_price:
  assumes "order_clean x"
  shows "bindE (order_to_json JNull x) (\<lambda>j. order_from_json j y) = Inr (x\<lparr>ord_avg_price := ord_avg_price y\<rparr>)"
  using assms by (simp add: order_written order_read)

theorem order_json_loses_avg_price_witness:
  "bindE (order_to_json JNull (zero_order\<lparr>ord_avg_price := Num 1 0\<rparr>)) (\<lambda>j. order_from_json j zero_order) =
   Inr zero_order"
  using order_json_loses_avg_price [of "zero_order\<lparr>ord_avg_price := Num 1 0\<rparr>" zero_order]
  by (simp add: order_clean_def zero_order_def)

text \<open>The json of an order input cannot be read back: \<open>to_json\<close> writes the order's number as
  \<open>order_id\<close> and \<open>from_json\<close> asks for \<open>client_order_id\<close>, so it throws, for every order input.\<close>

theorem order_input_json_unreadable:
  "bindE (order_input_to_json JNull x) (\<lambda>j. order_input_from_json j y) = Inl (MissingKey ''client_order_id'')"
  by (simp add: order_input_written order_input_read)

text \<open>C10: what \<open>from_json\<close> leaves in the char arrays of an order, for any json it accepts: each
  array keeps its length, a string shorter than the array is followed by NUL, so that it is what the getter
  returns, and of a string as long as the array or longer the first characters fill the whole array and no
  NUL is left: there a getter reads on into the bytes that follow the array.\<close>

theorem order_arrays_read:
  assumes "order_from_json j x = Inr y"
  shows "\<forall>(key, field, n) \<in> set [(''ex_order_id'', ord_ex_order_id y, 32), (''symbol'', ord_symbol y, 32),
      (''exchange_id'', ord_exchange_id y, 16), (''account_id'', ord_account_id y, 32),
      (''source_id'', ord_source_id y, 16), (''fee_currency'', ord_fee_currency y, 32),
      (''error_code'', ord_error_code y, 16)].
    \<exists>s. jget_string j key = Inr s \<and> length field = n \<and>
      (if length (c_str s) < n then terminated field \<and> c_str field = c_str s
       else \<not> terminated field \<and> field = take n (c_str s))"
proof -
  have full: "strncpy n s = take n (c_str s)" if "\<not> length (c_str s) < n" for n s
    using that by (simp add: strncpy_def)
  have copied: "\<exists>s. jget_string j key = Inr s \<and> length field = n \<and>
      (if length (c_str s) < n then terminated field \<and> c_str field = c_str s
       else \<not> terminated field \<and> field = take n (c_str s))"
    if "\<exists>s. jget_string j key = Inr s \<and> field = strncpy n s" for key field n
  proof -
    from that obtain s where s: "jget_string j key = Inr s" "field = strncpy n s" by blast
    show ?thesis by (rule exI [of _ s]) (simp add: s terminated_strncpy c_str_strncpy full, simp add: terminated_def take_no_nul)
  qed
  have f: "\<exists>s. jget_string j ''ex_order_id'' = Inr s \<and> ord_ex_order_id y = strncpy 32 s"
    "\<exists>s. jget_string j ''symbol'' = Inr s \<and> ord_symbol y = strncpy 32 s"
    "\<exists>s. jget_string j ''exchange_id'' = Inr s \<and> ord_exchange_id y = strncpy 16 s"
    "\<exists>s. jget_string j ''account_id'' = Inr s \<and> ord_account_id y = strncpy 32 s"
    "\<exists>s. jget_string j ''source_id'' = Inr s \<and> ord_source_id y = strncpy 16 s"
    "\<exists>s. jget_string j ''fee_currency'' = Inr s \<and> ord_fee_currency y = strncpy 32 s"
    "\<exists>s. jget_string j ''error_code'' = Inr s \<and> ord_error_code y = strncpy 16 s"
    using assms by (simp_all add: order_from_json_def bindE_Inr_iff array_lens) (elim exE conjE, hypsubst, simp)+
  show ?thesis
    unfolding list.set ball_simps prod.case simp_thms by (intro conjI copied f)
qed

theorem order_arrays_read_witness:
  "\<exists>y. order_from_json (json_of (order_json (zero_order\<lparr>ord_source_id := ''binance_futures!''\<rparr>))) zero_order = Inr y \<and>
    \<not> terminated (ord_source_id y) \<and> terminated (ord_symbol y)"
proof -
  let ?x = "zero_order\<lparr>ord_source_id := ''binance_futures!''\<rparr>"
  have src: "c_str ''binance_futures!'' = ''binance_futures!''" by (simp add: c_str_def NUL_def)
  have nul: "c_str (replicate n NUL) = []" for n by (cases n) (simp_all add: c_str_def)
  have "order_clean ?x" by (simp add: order_clean_def zero_order_def clean_def src nul strncpy_def)
    (simp add: SOURCE_ID_LEN_def)
  then have r: "order_from_json (json_of (order_json ?x)) zero_order = Inr (?x\<lparr>ord_avg_price := ord_avg_price zero_order\<rparr>)"
    by (rule order_read)
  have keys: "jget_string (json_of (order_json ?x)) ''source_id'' = Inr ''binance_futures!''"
    "jget_string (json_of (order_json ?x)) ''symbol'' = Inr (c_str (ord_symbol zero_order))"
    by (simp_all add: order_json_def jgetters json_simps src)
  have "length (c_str (ord_symbol zero_order)) < 32" by (simp add: zero_order_def nul)
  then show ?thesis
    using order_arrays_read [OF r] keys src r by (intro exI [of _ "?x\<lparr>ord_avg_price := ord_avg_price zero_order\<rparr>"]) simp
qed

end
