(* ===== verification/Hero.thy ===== *)
theory Hero
  imports Msg Locations
begin

text \<open>
  A process of the system (practice/hero.cpp): its registered locations, channels and writers,
  the journals its reader has joined, and the loop that feeds it events.  A process sees its
  journals as the journal theories prove them: what a writer writes is appended to the journal of
  its location and destination, so \<open>h_out\<close> is the sequence of the messages written, each with the
  journal it went to; the reader delivers the events of the joined journals in order.  The maps
  are hash tables in the code; they are association lists here, in an order on which no property
  depends.  A handler that throws keeps what it had done: a step returns its outcome and the state.  The
  arguments of log lines are evaluated at level info and above, the default level.
\<close>

section \<open>Steps that can throw\<close>

fun bindX :: "('e + 'a) \<times> 's \<Rightarrow> ('a \<Rightarrow> 's \<Rightarrow> ('e + 'b) \<times> 's) \<Rightarrow> ('e + 'b) \<times> 's" where
  "bindX (Inl e, s) f = (Inl e, s)"
| "bindX (Inr x, s) f = f x s"

lemma bindX_Inr_iff: "bindX r f = (Inr y, s') \<longleftrightarrow> (\<exists>x s. r = (Inr x, s) \<and> f x s = (Inr y, s'))"
  by (cases "(r, f)" rule: bindX.cases) auto

lemma snd_bindX: "(\<And>x s. r = (Inr x, s) \<Longrightarrow> P (snd (f x s))) \<Longrightarrow> P (snd r) \<Longrightarrow> P (snd (bindX r f))"
  by (cases "(r, f)" rule: bindX.cases) auto

section \<open>Messages\<close>

definition T_PageEnd :: i32 where "T_PageEnd = 10000"
definition T_SessionStart :: i32 where "T_SessionStart = 10001"
definition T_SessionEnd :: i32 where "T_SessionEnd = 10002"
definition T_Time :: i32 where "T_Time = 10003"
definition T_TimeRequest :: i32 where "T_TimeRequest = 10004"
definition T_Register :: i32 where "T_Register = 10011"
definition T_Deregister :: i32 where "T_Deregister = 10012"
definition T_RequestReadFrom :: i32 where "T_RequestReadFrom = 10021"
definition T_RequestReadFromPublic :: i32 where "T_RequestReadFromPublic = 10022"
definition T_RequestWriteTo :: i32 where "T_RequestWriteTo = 10023"
definition T_RequestStart :: i32 where "T_RequestStart = 10025"
definition T_Location :: i32 where "T_Location = 10026"
definition T_Channel :: i32 where "T_Channel = 10028"

lemmas system_codes = T_PageEnd_def T_SessionStart_def T_SessionEnd_def T_Time_def T_TimeRequest_def
  T_Register_def T_Deregister_def T_RequestReadFrom_def T_RequestReadFromPublic_def T_RequestWriteTo_def
  T_RequestStart_def T_Location_def T_Channel_def

record channel =
  ch_source_id :: u32
  ch_dest_id :: u32

text \<open>What a frame carries: nothing (a mark), one of the packed structs, or json.\<close>

datatype payload = NoData | ChannelData channel | WriteToData u32 | ReadFromData u32 i64
  | TimeRequestData i32 i64 i64 | NanoTime i64 | JsonData json
  | BarData bar | TickerData ticker | DepthData depth | TradeData trade | IndexPriceData index_price
  | OrderInputData order_input | OrderActionData order_action | OrderActionErrorData order_action_error
  | OrderData order | MyTradeData my_trade | PositionData position | AssetData asset
  | InstrumentData instrument | BrokerStateData BrokerState

record message =
  m_gen_time :: i64
  m_trigger_time :: i64
  m_msg_type :: i32
  m_source :: u32
  m_dest :: u32
  m_data :: payload

text \<open>A message of a socket: json, whose missing fields read as 0.\<close>

definition get_meta :: "(json \<Rightarrow> json_error + 'a) \<Rightarrow> 'a \<Rightarrow> json \<Rightarrow> string \<Rightarrow> json_error + 'a" where
  "get_meta get dflt j key = (case jfind j key of None \<Rightarrow> Inr dflt | Some v \<Rightarrow> get v)"

definition nanomsg_json :: "json \<Rightarrow> json_error + message" where
  "nanomsg_json j =
    bindE (get_meta as_number 0 j ''gen_time'') (\<lambda>g.
    bindE (get_meta as_number 0 j ''trigger_time'') (\<lambda>t.
    bindE (get_meta as_small_number 0 j ''msg_type'') (\<lambda>k.
    bindE (get_meta as_small_number 0 j ''source'') (\<lambda>s.
    bindE (get_meta as_small_number 0 j ''dest'') (\<lambda>d.
      Inr \<lparr>m_gen_time = g, m_trigger_time = t, m_msg_type = k, m_source = word_of_int s, m_dest = word_of_int d,
           m_data = (case jfind j ''data'' of None \<Rightarrow> NoData | Some x \<Rightarrow> JsonData x)\<rparr>)))))"

section \<open>The state of a process\<close>

text \<open>A journal is named by the location that writes it and the destination.\<close>

type_synonym journal_key = "location \<times> u32"

datatype herror = NoLocation u32 | NoChannel u64 | NoWriter u32 | NullWriter u32 | BadPayload
  | JsonError json_error | InvalidInterval string | HandlerError string
  | SocketError int | BadText string | OverRead int | NoCurrentFrame

record hero =
  h_home :: location
  h_locations :: "(u32 \<times> location) list"
  h_channels :: "(u64 \<times> channel) list"
  h_writers :: "(u32 \<times> journal_key) list"
  h_joined :: "(journal_key \<times> i64) list"
  h_out :: "(journal_key \<times> i64 \<times> i32 \<times> payload) list"
  h_begin_time :: i64
  h_end_time :: i64
  h_now :: i64
  h_live :: bool

definition new_hero :: "location \<Rightarrow> i64 \<Rightarrow> hero" where
  "new_hero home now = \<lparr>h_home = home, h_locations = [], h_channels = [], h_writers = [], h_joined = [],
     h_out = [], h_begin_time = now, h_end_time = 2 ^ 63 - 1, h_now = 0, h_live = True\<rparr>"

definition has_location :: "'a hero_scheme \<Rightarrow> u32 \<Rightarrow> bool" where
  "has_location h u \<longleftrightarrow> map_of (h_locations h) u \<noteq> None"

definition get_location :: "u32 \<Rightarrow> 'a hero_scheme \<Rightarrow> (herror + location) \<times> 'a hero_scheme" where
  "get_location u h = (case map_of (h_locations h) u of None \<Rightarrow> (Inl (NoLocation u), h) | Some l \<Rightarrow> (Inr l, h))"

definition has_channel :: "'a hero_scheme \<Rightarrow> u64 \<Rightarrow> bool" where
  "has_channel h c \<longleftrightarrow> map_of (h_channels h) c \<noteq> None"

definition get_channel :: "u64 \<Rightarrow> 'a hero_scheme \<Rightarrow> (herror + channel) \<times> 'a hero_scheme" where
  "get_channel c h = (case map_of (h_channels h) c of None \<Rightarrow> (Inl (NoChannel c), h) | Some x \<Rightarrow> (Inr x, h))"

definition has_writer :: "'a hero_scheme \<Rightarrow> u32 \<Rightarrow> bool" where
  "has_writer h u \<longleftrightarrow> map_of (h_writers h) u \<noteq> None"

definition get_writer :: "u32 \<Rightarrow> 'a hero_scheme \<Rightarrow> (herror + journal_key) \<times> 'a hero_scheme" where
  "get_writer u h = (case map_of (h_writers h) u of None \<Rightarrow> (Inl (NoWriter u), h) | Some w \<Rightarrow> (Inr w, h))"

text \<open>\<open>writers_[u]\<close>: a missing writer is a null pointer, and calling it kills the process.\<close>

definition writer_at :: "u32 \<Rightarrow> 'a hero_scheme \<Rightarrow> (herror + journal_key) \<times> 'a hero_scheme" where
  "writer_at u h = (case map_of (h_writers h) u of None \<Rightarrow> (Inl (NullWriter u), h) | Some w \<Rightarrow> (Inr w, h))"

text \<open>\<open>writer->write\<close>, \<open>mark\<close>, \<open>open_data\<close> with \<open>close_data\<close>: one message more in the journal.\<close>

definition write_msg :: "journal_key \<Rightarrow> i64 \<Rightarrow> i32 \<Rightarrow> payload \<Rightarrow> 'a hero_scheme \<Rightarrow> 'a hero_scheme" where
  "write_msg w t k p h = h\<lparr>h_out := h_out h @ [(w, t, k, p)]\<rparr>"

definition open_writer :: "'a hero_scheme \<Rightarrow> u32 \<Rightarrow> journal_key" where
  "open_writer h d = (h_home h, d)"

definition open_writer_at :: "location \<Rightarrow> u32 \<Rightarrow> journal_key" where
  "open_writer_at l d = (l, d)"

definition get_home_uid :: "'a hero_scheme \<Rightarrow> u32" where
  "get_home_uid h = uid (h_home h)"

definition get_live_home_uid :: "'a hero_scheme \<Rightarrow> u32" where
  "get_live_home_uid h = uid (live_home (h_home h))"

text \<open>The reader's \<open>join\<close> and \<open>disjoin\<close>, which theory Reader models on the bytes: a journal that is
  joined already stays as it is.\<close>

definition hero_join :: "location \<Rightarrow> u32 \<Rightarrow> i64 \<Rightarrow> 'a hero_scheme \<Rightarrow> 'a hero_scheme" where
  "hero_join l d t h =
    (if \<exists>j \<in> set (h_joined h). uid (fst (fst j)) = uid l \<and> snd (fst j) = d then h
     else h\<lparr>h_joined := h_joined h @ [((l, d), t)]\<rparr>)"

definition hero_disjoin :: "u32 \<Rightarrow> 'a hero_scheme \<Rightarrow> 'a hero_scheme" where
  "hero_disjoin u h = h\<lparr>h_joined := filter (\<lambda>j. uid (fst (fst j)) \<noteq> u) (h_joined h)\<rparr>"

section \<open>Locations and channels\<close>

definition register_location :: "location \<Rightarrow> 'a hero_scheme \<Rightarrow> 'a hero_scheme" where
  "register_location l h = h\<lparr>h_locations := AList.update (uid l) l (h_locations h)\<rparr>"

definition deregister_location :: "u32 \<Rightarrow> 'a hero_scheme \<Rightarrow> 'a hero_scheme" where
  "deregister_location u h =
    (if has_location h u then h\<lparr>h_locations := AList.delete u (h_locations h)\<rparr> else h)"

definition channel_uid :: "channel \<Rightarrow> u64" where
  "channel_uid c = push_bit 32 (ucast (ch_source_id c)) OR ucast (ch_dest_id c)"

definition hero_register_channel :: "channel \<Rightarrow> 'a hero_scheme \<Rightarrow> 'a hero_scheme" where
  "hero_register_channel c h = h\<lparr>h_channels := AList.update (channel_uid c) c (h_channels h)\<rparr>"

definition deregister_channel :: "u64 \<Rightarrow> 'a hero_scheme \<Rightarrow> 'a hero_scheme" where
  "deregister_channel c h =
    (if has_channel h c then h\<lparr>h_channels := AList.delete c (h_channels h)\<rparr> else h)"

fun erase_by_source :: "u32 \<Rightarrow> (u64 \<times> channel) list \<Rightarrow> (u64 \<times> channel) list" where
  "erase_by_source s [] = []"
| "erase_by_source s (c # cs) =
    (if ch_source_id (snd c) = s then erase_by_source s cs else c # erase_by_source s cs)"

definition deregister_channel_by_source :: "u32 \<Rightarrow> 'a hero_scheme \<Rightarrow> 'a hero_scheme" where
  "deregister_channel_by_source s h = h\<lparr>h_channels := erase_by_source s (h_channels h)\<rparr>"

section \<open>Asking others to write and to read\<close>

text \<open>The request is written before the log line looks up the other side's name, which throws for
  an unknown one.\<close>

definition require_write_to :: "u32 \<Rightarrow> i64 \<Rightarrow> u32 \<Rightarrow> 'a hero_scheme \<Rightarrow> (herror + unit) \<times> 'a hero_scheme" where
  "require_write_to source_id t dest_id h =
    (if has_location h source_id
     then bindX (get_writer source_id h) (\<lambda>w h1.
       let h2 = write_msg w t T_RequestWriteTo (WriteToData dest_id) h1 in
       bindX (get_location source_id h2) (\<lambda>l h3.
         if dest_id = 0 then (Inr (), h3)
         else bindX (get_location dest_id h3) (\<lambda>l' h4. (Inr (), h4))))
     else (Inr (), h))"

definition require_read_from ::
    "u32 \<Rightarrow> i64 \<Rightarrow> u32 \<Rightarrow> bool \<Rightarrow> 'a hero_scheme \<Rightarrow> (herror + unit) \<times> 'a hero_scheme" where
  "require_read_from dest_id t source_id pub h =
    (if has_location h dest_id
     then bindX (get_writer dest_id h) (\<lambda>w h1.
       let h2 = write_msg w t (if pub then T_RequestReadFromPublic else T_RequestReadFrom)
                  (ReadFromData source_id t) h1 in
       bindX (get_location dest_id h2) (\<lambda>l h3.
       bindX (get_location source_id h3) (\<lambda>l' h4. (Inr (), h4))))
     else (Inr (), h))"

section \<open>Subscriptions\<close>

text \<open>A subscription is what its filters and its callback do with an event; an event that the filters
  reject leaves the state alone.  The subscriptions are called in the order they were made.  One that
  throws is told of its error and gets no more events, while the others still get this one; what it
  is told by, \<open>interrupt_on_error\<close>, raises SIGINT, whose handler stops the process (signal.cpp).\<close>

type_synonym 'a handler = "message \<Rightarrow> 'a hero_scheme \<Rightarrow> (herror + unit) \<times> 'a hero_scheme"

definition signal_stop :: "'a hero_scheme \<Rightarrow> 'a hero_scheme" where
  "signal_stop h = h\<lparr>h_live := False\<rparr>"

definition interrupt_on_error :: "herror \<Rightarrow> 'a hero_scheme \<Rightarrow> 'a hero_scheme" where
  "interrupt_on_error x h = (if h_live h then signal_stop h else h)"

fun publish_event :: "message \<Rightarrow> 'a handler list \<Rightarrow> 'a hero_scheme \<Rightarrow> 'a handler list \<times> 'a hero_scheme" where
  "publish_event e [] h = ([], h)"
| "publish_event e (s # ss) h =
    (case s e h of
       (Inr _, h1) \<Rightarrow> (case publish_event e ss h1 of (ss', h2) \<Rightarrow> (s # ss', h2))
     | (Inl x, h1) \<Rightarrow> publish_event e ss (interrupt_on_error x h1))"

section \<open>The loop\<close>

text \<open>A turn of the loop takes a notice of the observer, a request of the reply socket, and every
  frame the reader has.  A notice of at most two characters is the ping of a writer.  What the two
  sockets give, an exception included, is the turn's; theory Sockets says how.  A notice whose
  fields are of the wrong type is an error at once here, and in the code when the first subscription
  reads them.\<close>

text \<open>A text that is not json is kept as it is: reading it throws.\<close>

type_synonym text_read = "string + json"

datatype notice = Ping | Notice text_read

text \<open>What the reader stands on after the frames of a turn: nothing, when no journal it has joined has had
  data since it was made or last left a journal (\<open>current_\<close> is null); the end of a journal; or a frame that
  was written since.\<close>

datatype reader_left = NoCurrent | AtEnd | MoreCame

record turn =
  t_clock :: i64
  t_notice :: "herror + notice option"
  t_request_clock :: i64
  t_request :: "herror + text_read option"
  t_frames :: "message list"
  t_left :: reader_left

fun drain :: "message list \<Rightarrow> 'a handler list \<Rightarrow> 'a hero_scheme \<Rightarrow> bool \<times> 'a handler list \<times> 'a hero_scheme" where
  "drain [] hs h = (True, hs, h)"
| "drain (f # fs) hs h =
    (if m_gen_time f \<le> h_end_time h
     then case publish_event f hs (h\<lparr>h_now := m_gen_time f\<rparr>) of (hs1, h1) \<Rightarrow> drain fs hs1 h1
     else (False, hs, h))"

definition on_json :: "text_read \<Rightarrow> 'a handler list \<Rightarrow> 'a hero_scheme \<Rightarrow> (herror + 'a handler list) \<times> 'a hero_scheme" where
  "on_json x hs h =
    (case x of
       Inl garbled \<Rightarrow> (Inl (BadText garbled), h)
     | Inr j \<Rightarrow>
        (case nanomsg_json j of
           Inl e \<Rightarrow> (Inl (JsonError e), h)
         | Inr m \<Rightarrow> (case publish_event m hs h of (hs1, h1) \<Rightarrow> (Inr hs1, h1))))"

definition take_notice :: "('a hero_scheme \<Rightarrow> (herror + unit) \<times> 'a hero_scheme) \<Rightarrow> turn \<Rightarrow> 'a handler list \<Rightarrow> 'a hero_scheme \<Rightarrow>
    (herror + 'a handler list) \<times> 'a hero_scheme" where
  "take_notice on_notify t hs h =
    (case t_notice t of
       Inl x \<Rightarrow> (Inl x, h)
     | Inr None \<Rightarrow> (Inr hs, h)
     | Inr (Some Ping) \<Rightarrow> bindX (on_notify (h\<lparr>h_now := t_clock t\<rparr>)) (\<lambda>_ h1. (Inr hs, h1))
     | Inr (Some (Notice j)) \<Rightarrow> on_json j hs (h\<lparr>h_now := t_clock t\<rparr>))"

definition take_request :: "turn \<Rightarrow> 'a handler list \<Rightarrow> 'a hero_scheme \<Rightarrow> (herror + 'a handler list) \<times> 'a hero_scheme" where
  "take_request t hs h =
    (case t_request t of
       Inl x \<Rightarrow> (Inl x, h)
     | Inr None \<Rightarrow> (Inr hs, h)
     | Inr (Some j) \<Rightarrow> on_json j hs (h\<lparr>h_now := t_request_clock t\<rparr>))"

text \<open>Outside live mode the turn ends the loop when no more data is there.  The line it logs reads the time
  of the current frame, through a null pointer when there is no current journal: the process dies there, by
  a signal whose handler still runs \<open>on_exit\<close>.\<close>

definition journal_end :: "bool \<Rightarrow> reader_left \<Rightarrow> herror + bool" where
  "journal_end live left =
    (if live then Inr True
     else case left of NoCurrent \<Rightarrow> Inl NoCurrentFrame | AtEnd \<Rightarrow> Inr False | MoreCame \<Rightarrow> Inr True)"

definition take_frames :: "bool \<Rightarrow> turn \<Rightarrow> 'a handler list \<Rightarrow> 'a hero_scheme \<Rightarrow>
    (herror + bool \<times> 'a handler list) \<times> 'a hero_scheme" where
  "take_frames live t hs h =
    (case drain (t_frames t) hs h of (go, hs1, h1) \<Rightarrow>
       if go then (case journal_end live (t_left t) of Inl x \<Rightarrow> (Inl x, h1) | Inr goes \<Rightarrow> (Inr (goes, hs1), h1))
       else (Inr (False, hs1), h1))"

definition produce_one ::
    "('a hero_scheme \<Rightarrow> (herror + unit) \<times> 'a hero_scheme) \<Rightarrow> turn \<Rightarrow> 'a handler list \<Rightarrow> 'a hero_scheme \<Rightarrow>
      (herror + bool \<times> 'a handler list) \<times> 'a hero_scheme" where
  "produce_one on_notify t hs h =
    (if l_mode (h_home h) = LIVE
     then bindX (take_notice on_notify t hs h) (\<lambda>hs1 h1.
          bindX (take_request t hs1 h1) (take_frames True t))
     else take_frames False t hs h)"

text \<open>\<open>produce\<close> runs turns while the process lives.  What \<open>one\<close> throws ends it.\<close>

datatype ending = Running | Completed | Failed herror

fun produce :: "(turn \<Rightarrow> 'a handler list \<Rightarrow> 'a hero_scheme \<Rightarrow> (herror + bool \<times> 'a handler list) \<times> 'a hero_scheme) \<Rightarrow>
    turn list \<Rightarrow> 'a handler list \<Rightarrow> 'a hero_scheme \<Rightarrow> ending \<times> 'a handler list \<times> 'a hero_scheme" where
  "produce one [] hs h = ((if h_live h then Running else Completed), hs, h)"
| "produce one (t # ts) hs h =
    (if \<not> h_live h then (Completed, hs, h)
     else case one t hs h of
            (Inl e, h1) \<Rightarrow> (Failed e, hs, h1)
          | (Inr (go, hs1), h1) \<Rightarrow> produce one ts hs1 (h1\<lparr>h_live := go \<and> h_live h1\<rparr>))"

text \<open>\<open>run\<close>: the errors of the sockets that only say that nothing came end the events; any other
  error is handed to every subscription that is left.  The last thing is \<open>on_exit\<close>.\<close>

definition EINTR :: int where "EINTR = 4"
definition EAGAIN :: int where "EAGAIN = 11"
definition ETIMEDOUT :: int where "ETIMEDOUT = 110"

definition quits_quietly :: "herror \<Rightarrow> bool" where
  "quits_quietly x = (case x of SocketError n \<Rightarrow> n = EINTR \<or> n = EAGAIN \<or> n = ETIMEDOUT | _ \<Rightarrow> False)"

definition resume_on_error :: "ending \<Rightarrow> 'a handler list \<Rightarrow> 'a hero_scheme \<Rightarrow> ending \<times> 'a hero_scheme" where
  "resume_on_error r hs h =
    (case r of
       Failed x \<Rightarrow> if quits_quietly x then (Completed, h) else (Failed x, fold (\<lambda>_. interrupt_on_error x) hs h)
     | _ \<Rightarrow> (r, h))"

definition hero_run ::
    "(turn \<Rightarrow> 'a handler list \<Rightarrow> 'a hero_scheme \<Rightarrow> (herror + bool \<times> 'a handler list) \<times> 'a hero_scheme) \<Rightarrow>
     ('a hero_scheme \<Rightarrow> 'a handler list \<times> 'a hero_scheme) \<Rightarrow> ('a hero_scheme \<Rightarrow> 'a hero_scheme) \<Rightarrow>
     turn list \<Rightarrow> 'a hero_scheme \<Rightarrow> ending \<times> 'a hero_scheme" where
  "hero_run one react on_exit ts h =
    (case react h of (hs, h1) \<Rightarrow>
     case produce one ts hs h1 of (r, hs1, h2) \<Rightarrow>
     case resume_on_error r hs1 h2 of (r', h3) \<Rightarrow>
       if r' = Running then (r', h3) else (r', on_exit h3))"

lemma signal_stop_frame [simp]:
  "h_home (signal_stop h) = h_home h" "h_locations (signal_stop h) = h_locations h"
  "h_channels (signal_stop h) = h_channels h" "h_writers (signal_stop h) = h_writers h"
  "h_joined (signal_stop h) = h_joined h" "h_out (signal_stop h) = h_out h"
  "h_end_time (signal_stop h) = h_end_time h" "h_now (signal_stop h) = h_now h"
  "h_live (signal_stop h) = False" "hero.more (signal_stop h) = hero.more h"
  by (simp_all add: signal_stop_def)

lemma interrupt_on_error_eq: "interrupt_on_error x h = signal_stop h"
  by (simp add: interrupt_on_error_def signal_stop_def)

lemma publish_event_returns:
  "s e h = (Inr u, h1) \<Longrightarrow> publish_event e (s # ss) h = (s # fst (publish_event e ss h1), snd (publish_event e ss h1))"
  by (simp add: case_prod_beta)

lemma publish_event_throws:
  "s e h = (Inl x, h1) \<Longrightarrow> publish_event e (s # ss) h = publish_event e ss (signal_stop h1)"
  by (simp add: interrupt_on_error_eq)

declare publish_event.simps(2) [simp del]

text \<open>While no subscription throws, an event goes through all of them.\<close>

lemma publish_event_ok:
  assumes "\<And>s h. s \<in> set ss \<Longrightarrow> fst (s e h) = Inr ()"
  shows "publish_event e ss h = (ss, fold (\<lambda>s. snd \<circ> s e) ss h)"
  using assms
proof (induction ss arbitrary: h)
  case (Cons s ss)
  have "s e h = (Inr (), snd (s e h))" using Cons.prems [of s h] by (metis list.set_intros(1) prod.collapse)
  then show ?case using publish_event_returns [of s e h "()" "snd (s e h)" ss] Cons.IH Cons.prems by simp
qed simp

text \<open>What every subscription keeps, however it ends, an event keeps.\<close>

lemma publish_event_keeps:
  assumes "P h" and keeps: "\<And>s h. s \<in> set ss \<Longrightarrow> P h \<Longrightarrow> P (snd (s e h))" and stop: "\<And>h. P h \<Longrightarrow> P (signal_stop h)"
  shows "P (snd (publish_event e ss h))"
  using assms(1) keeps
proof (induction ss arbitrary: h)
  case (Cons s ss)
  obtain r h1 where s: "s e h = (r, h1)" by force
  have h1: "P h1" using Cons.prems(1) Cons.prems(2) [of s h] s by simp
  show ?case
  proof (cases r)
    case (Inl x)
    then show ?thesis using publish_event_throws [of s e h x h1 ss] s Cons.IH [OF stop [OF h1]] Cons.prems(2) by simp
  next
    case (Inr u)
    then show ?thesis using publish_event_returns [of s e h u h1 ss] s Cons.IH [OF h1] Cons.prems(2) by simp
  qed
qed simp

lemma publish_event_append:
  "publish_event e (xs @ ys) h =
    (fst (publish_event e xs h) @ fst (publish_event e ys (snd (publish_event e xs h))),
     snd (publish_event e ys (snd (publish_event e xs h))))"
proof (induction xs arbitrary: h)
  case (Cons s xs)
  obtain r h1 where s: "s e h = (r, h1)" by force
  show ?case
  proof (cases r)
    case (Inl x)
    then show ?thesis using publish_event_throws [of s e h x h1] s Cons.IH [of "signal_stop h1"] by simp
  next
    case (Inr u)
    then show ?thesis using publish_event_returns [of s e h u h1] s Cons.IH [of h1] by simp
  qed
qed simp

lemma publish_event_subset: "set (fst (publish_event e ss h)) \<subseteq> set ss"
proof (induction ss arbitrary: h)
  case (Cons s ss)
  obtain r h1 where s: "s e h = (r, h1)" by force
  show ?case
  proof (cases r)
    case (Inl x)
    then show ?thesis using publish_event_throws [of s e h x h1 ss] s Cons.IH [of "signal_stop h1"] by auto
  next
    case (Inr u)
    then show ?thesis using publish_event_returns [of s e h u h1 ss] s Cons.IH [of h1] by auto
  qed
qed simp

section \<open>What the operations leave alone\<close>

lemma write_msg_frame [simp]:
  "h_home (write_msg w t k p h) = h_home h"
  "h_locations (write_msg w t k p h) = h_locations h"
  "h_channels (write_msg w t k p h) = h_channels h"
  "h_writers (write_msg w t k p h) = h_writers h"
  "h_joined (write_msg w t k p h) = h_joined h"
  "h_begin_time (write_msg w t k p h) = h_begin_time h"
  "h_end_time (write_msg w t k p h) = h_end_time h"
  "h_now (write_msg w t k p h) = h_now h"
  "h_live (write_msg w t k p h) = h_live h"
  "hero.more (write_msg w t k p h) = hero.more h"
  by (simp_all add: write_msg_def)

lemma hero_join_frame [simp]:
  "h_home (hero_join l d t h) = h_home h"
  "h_locations (hero_join l d t h) = h_locations h"
  "h_channels (hero_join l d t h) = h_channels h"
  "h_writers (hero_join l d t h) = h_writers h"
  "h_out (hero_join l d t h) = h_out h"
  "h_begin_time (hero_join l d t h) = h_begin_time h"
  "h_end_time (hero_join l d t h) = h_end_time h"
  "h_now (hero_join l d t h) = h_now h"
  "h_live (hero_join l d t h) = h_live h"
  "hero.more (hero_join l d t h) = hero.more h"
  by (simp_all add: hero_join_def)

lemma hero_disjoin_frame [simp]:
  "h_home (hero_disjoin u h) = h_home h"
  "h_locations (hero_disjoin u h) = h_locations h"
  "h_channels (hero_disjoin u h) = h_channels h"
  "h_writers (hero_disjoin u h) = h_writers h"
  "h_out (hero_disjoin u h) = h_out h"
  "h_begin_time (hero_disjoin u h) = h_begin_time h"
  "h_end_time (hero_disjoin u h) = h_end_time h"
  "h_now (hero_disjoin u h) = h_now h"
  "h_live (hero_disjoin u h) = h_live h"
  "hero.more (hero_disjoin u h) = hero.more h"
  by (simp_all add: hero_disjoin_def)

lemma register_location_frame [simp]:
  "h_home (register_location l h) = h_home h"
  "h_channels (register_location l h) = h_channels h"
  "h_writers (register_location l h) = h_writers h"
  "h_joined (register_location l h) = h_joined h"
  "h_out (register_location l h) = h_out h"
  "h_begin_time (register_location l h) = h_begin_time h"
  "h_end_time (register_location l h) = h_end_time h"
  "h_now (register_location l h) = h_now h"
  "h_live (register_location l h) = h_live h"
  "hero.more (register_location l h) = hero.more h"
  by (simp_all add: register_location_def)

lemma deregister_location_frame [simp]:
  "h_home (deregister_location u h) = h_home h"
  "h_channels (deregister_location u h) = h_channels h"
  "h_writers (deregister_location u h) = h_writers h"
  "h_joined (deregister_location u h) = h_joined h"
  "h_out (deregister_location u h) = h_out h"
  "h_begin_time (deregister_location u h) = h_begin_time h"
  "h_end_time (deregister_location u h) = h_end_time h"
  "h_now (deregister_location u h) = h_now h"
  "h_live (deregister_location u h) = h_live h"
  "hero.more (deregister_location u h) = hero.more h"
  by (simp_all add: deregister_location_def)

lemma hero_register_channel_frame [simp]:
  "h_home (hero_register_channel c h) = h_home h"
  "h_locations (hero_register_channel c h) = h_locations h"
  "h_writers (hero_register_channel c h) = h_writers h"
  "h_joined (hero_register_channel c h) = h_joined h"
  "h_out (hero_register_channel c h) = h_out h"
  "h_begin_time (hero_register_channel c h) = h_begin_time h"
  "h_end_time (hero_register_channel c h) = h_end_time h"
  "h_now (hero_register_channel c h) = h_now h"
  "h_live (hero_register_channel c h) = h_live h"
  "hero.more (hero_register_channel c h) = hero.more h"
  by (simp_all add: hero_register_channel_def)

lemma deregister_channel_by_source_frame [simp]:
  "h_home (deregister_channel_by_source s h) = h_home h"
  "h_locations (deregister_channel_by_source s h) = h_locations h"
  "h_writers (deregister_channel_by_source s h) = h_writers h"
  "h_joined (deregister_channel_by_source s h) = h_joined h"
  "h_out (deregister_channel_by_source s h) = h_out h"
  "h_begin_time (deregister_channel_by_source s h) = h_begin_time h"
  "h_end_time (deregister_channel_by_source s h) = h_end_time h"
  "h_now (deregister_channel_by_source s h) = h_now h"
  "h_live (deregister_channel_by_source s h) = h_live h"
  "hero.more (deregister_channel_by_source s h) = hero.more h"
  by (simp_all add: deregister_channel_by_source_def)

lemma out_write_msg [simp]: "h_out (write_msg w t k p h) = h_out h @ [(w, t, k, p)]"
  by (simp add: write_msg_def)

lemma has_frame [simp]:
  "has_location (write_msg w t k p h) u = has_location h u" "has_writer (write_msg w t k p h) u = has_writer h u"
  "has_location (hero_join l d t h) u = has_location h u" "has_writer (hero_join l d t h) u = has_writer h u"
  "has_writer (register_location l h) u = has_writer h u"
  "has_location (hero_register_channel c h) u = has_location h u" "has_writer (hero_register_channel c h) u = has_writer h u"
  by (simp_all add: has_location_def has_writer_def)

lemma get_location_eq: "map_of (h_locations h) u = Some l \<Longrightarrow> get_location u h = (Inr l, h)"
  by (simp add: get_location_def)

lemma get_writer_eq: "map_of (h_writers h) u = Some w \<Longrightarrow> get_writer u h = (Inr w, h)"
  by (simp add: get_writer_def)

lemma writer_at_eq: "map_of (h_writers h) u = Some w \<Longrightarrow> writer_at u h = (Inr w, h)"
  by (simp add: writer_at_def)

lemma has_location_register [simp]: "has_location (register_location l h) u \<longleftrightarrow> u = uid l \<or> has_location h u"
  by (simp add: has_location_def register_location_def update_conv')

lemma require_write_to_known:
  assumes "map_of (h_locations h) s = Some ls" "map_of (h_writers h) s = Some w" "d = 0 \<or> has_location h d"
  shows "require_write_to s t d h = (Inr (), write_msg w t T_RequestWriteTo (WriteToData d) h)"
  using assms by (auto simp: require_write_to_def has_location_def get_location_def get_writer_def Let_def)

lemma require_read_from_known:
  assumes "map_of (h_locations h) d = Some ld" "map_of (h_writers h) d = Some w" "has_location h s"
  shows "require_read_from d t s pub h =
    (Inr (), write_msg w t (if pub then T_RequestReadFromPublic else T_RequestReadFrom) (ReadFromData s t) h)"
  using assms by (auto simp: require_read_from_def has_location_def get_location_def get_writer_def Let_def)

lemma require_write_to_keeps [simp]:
  "h_locations (snd (require_write_to s t d h)) = h_locations h" "h_writers (snd (require_write_to s t d h)) = h_writers h"
  "h_channels (snd (require_write_to s t d h)) = h_channels h" "h_joined (snd (require_write_to s t d h)) = h_joined h"
  "h_home (snd (require_write_to s t d h)) = h_home h" "hero.more (snd (require_write_to s t d h)) = hero.more h"
  by (simp_all add: require_write_to_def get_location_def get_writer_def Let_def split: option.splits)

lemma require_read_from_keeps [simp]:
  "h_locations (snd (require_read_from d t s pub h)) = h_locations h" "h_writers (snd (require_read_from d t s pub h)) = h_writers h"
  "h_channels (snd (require_read_from d t s pub h)) = h_channels h" "h_joined (snd (require_read_from d t s pub h)) = h_joined h"
  "h_home (snd (require_read_from d t s pub h)) = h_home h" "hero.more (snd (require_read_from d t s pub h)) = hero.more h"
  by (simp_all add: require_read_from_def get_location_def get_writer_def Let_def split: option.splits)

lemma erase_by_source_eq: "erase_by_source s cs = filter (\<lambda>c. ch_source_id (snd c) \<noteq> s) cs"
  by (induction cs) auto

text \<open>Two channels have the same key only if they are the same.\<close>

lemma channel_uid_inject: "channel_uid c = channel_uid d \<longleftrightarrow> c = d"
proof
  assume eq: "channel_uid c = channel_uid d"
  have hi: "ucast (drop_bit 32 (channel_uid x)) = ch_source_id x" for x
    by (rule bit_word_eqI) (auto simp: channel_uid_def bit_simps dest: bit_imp_le_length)
  have lo: "ucast (channel_uid x) = ch_dest_id x" for x
    by (rule bit_word_eqI) (auto simp: channel_uid_def bit_simps dest: bit_imp_le_length)
  show "c = d" using hi lo eq by (metis (full_types) channel.equality old.unit.exhaust)
qed simp

end
