(* ===== verification/Sockets.thy ===== *)
theory Sockets
  imports Hero
begin

text \<open>
  The sockets of a process (nanomsg/socket.cpp and socket.h) and its devices (io/io.cpp): a socket to
  answer requests, a publisher and an observer of notices.  The nanomsg library is a parameter: its
  functions act on its own state \<open>'n\<close> and give an error number or a result.  The last part is the
  turn of the process loop (practice/hero.cpp) as it uses the sockets, and that it is the turn of
  theory Hero.  Reading the text of a message as json is a parameter too.
\<close>

section \<open>The library\<close>

datatype sockopt = RcvTimeo int | SubSubscribe string

text \<open>\<open>nn_recv\<close> is given the size of a buffer; it returns the length of the message, and what it
  stored in the buffer.\<close>

record 'n nanomsg =
  nn_socket :: "protocol \<Rightarrow> 'n \<Rightarrow> (int + int) \<times> 'n"
  nn_setsockopt :: "int \<Rightarrow> sockopt \<Rightarrow> 'n \<Rightarrow> (int + unit) \<times> 'n"
  nn_bind :: "int \<Rightarrow> string \<Rightarrow> 'n \<Rightarrow> (int + int) \<times> 'n"
  nn_connect :: "int \<Rightarrow> string \<Rightarrow> 'n \<Rightarrow> (int + int) \<times> 'n"
  nn_send :: "int \<Rightarrow> string \<Rightarrow> bool \<Rightarrow> 'n \<Rightarrow> (int + int) \<times> 'n"
  nn_recv :: "int \<Rightarrow> nat \<Rightarrow> bool \<Rightarrow> 'n \<Rightarrow> (int + int \<times> string) \<times> 'n"
  nn_shutdown :: "int \<Rightarrow> int \<Rightarrow> 'n \<Rightarrow> (int + unit) \<times> 'n"
  nn_close :: "int \<Rightarrow> 'n \<Rightarrow> (int + unit) \<times> 'n"

section \<open>A socket\<close>

definition MAX_MSG_LENGTH :: nat where "MAX_MSG_LENGTH = 16 * 1024"
definition DEFAULT_NOTICE_TIMEOUT :: int where "DEFAULT_NOTICE_TIMEOUT = 1000"

record socket =
  so_sock :: int
  so_protocol :: protocol
  so_url :: string
  so_buf :: string
  so_message :: string

text \<open>An \<open>nn_exception\<close> carries the error number.\<close>

fun nn_throws :: "(int + 'a) \<times> 'n \<Rightarrow> (herror + 'a) \<times> 'n" where
  "nn_throws (Inl e, n) = (Inl (SocketError e), n)"
| "nn_throws (Inr x, n) = (Inr x, n)"

definition new_socket :: "'n nanomsg \<Rightarrow> protocol \<Rightarrow> 'n \<Rightarrow> (herror + socket) \<times> 'n" where
  "new_socket nn p n =
    bindX (nn_throws (nn_socket nn p n)) (\<lambda>k n1.
      (Inr \<lparr>so_sock = k, so_protocol = p, so_url = [], so_buf = replicate MAX_MSG_LENGTH NUL, so_message = []\<rparr>, n1))"

definition setsockopt_str :: "'n nanomsg \<Rightarrow> string \<Rightarrow> socket \<Rightarrow> 'n \<Rightarrow> (herror + unit) \<times> 'n" where
  "setsockopt_str nn v s n = nn_throws (nn_setsockopt nn (so_sock s) (SubSubscribe v) n)"

definition setsockopt_int :: "'n nanomsg \<Rightarrow> int \<Rightarrow> socket \<Rightarrow> 'n \<Rightarrow> (herror + unit) \<times> 'n" where
  "setsockopt_int nn v s n = nn_throws (nn_setsockopt nn (so_sock s) (RcvTimeo v) n)"

definition socket_bind :: "'n nanomsg \<Rightarrow> string \<Rightarrow> socket \<Rightarrow> 'n \<Rightarrow> (herror + socket) \<times> 'n" where
  "socket_bind nn path s n =
    (let s1 = s\<lparr>so_url := ''ipc://'' @ path\<rparr>
     in bindX (nn_throws (nn_bind nn (so_sock s1) (so_url s1) n)) (\<lambda>_ n1. (Inr s1, n1)))"

definition socket_connect :: "'n nanomsg \<Rightarrow> string \<Rightarrow> socket \<Rightarrow> 'n \<Rightarrow> (herror + socket) \<times> 'n" where
  "socket_connect nn path s n =
    (let s1 = s\<lparr>so_url := ''ipc://'' @ path\<rparr>
     in bindX (nn_throws (nn_connect nn (so_sock s1) (so_url s1) n)) (\<lambda>_ n1. (Inr s1, n1)))"

definition socket_shutdown :: "'n nanomsg \<Rightarrow> int \<Rightarrow> socket \<Rightarrow> 'n \<Rightarrow> (herror + unit) \<times> 'n" where
  "socket_shutdown nn how s n = nn_throws (nn_shutdown nn (so_sock s) how n)"

definition socket_close :: "'n nanomsg \<Rightarrow> socket \<Rightarrow> 'n \<Rightarrow> (herror + unit) \<times> 'n" where
  "socket_close nn s n = nn_throws (nn_close nn (so_sock s) n)"

text \<open>Sending does not wait: a peer that is not ready is the result -1.\<close>

definition socket_send :: "'n nanomsg \<Rightarrow> string \<Rightarrow> bool \<Rightarrow> socket \<Rightarrow> 'n \<Rightarrow> (herror + int) \<times> 'n" where
  "socket_send nn msg dontwait s n =
    (case nn_send nn (so_sock s) msg dontwait n of
       (Inl e, n1) \<Rightarrow> if e \<noteq> EAGAIN then (Inl (SocketError e), n1) else (Inr (- 1), n1)
     | (Inr rc, n1) \<Rightarrow> (Inr rc, n1))"

text \<open>Receiving.  The message is assigned from the buffer with the length of the message, which may
  be more than the buffer has; then the code reads past its end.\<close>

definition socket_recv :: "'n nanomsg \<Rightarrow> bool \<Rightarrow> socket \<Rightarrow> 'n \<Rightarrow> (herror + int) \<times> socket \<times> 'n" where
  "socket_recv nn dontwait s n =
    (case nn_recv nn (so_sock s) (length (so_buf s)) dontwait n of
       (Inl e, n1) \<Rightarrow>
         if e = ETIMEDOUT \<or> e = EAGAIN \<or> e = EINTR then (Inr 0, s\<lparr>so_message := []\<rparr>, n1)
         else (Inl (SocketError e), s, n1)
     | (Inr (rc, stored), n1) \<Rightarrow>
         let s1 = s\<lparr>so_buf := stored @ drop (length stored) (so_buf s)\<rparr>
         in if nat rc \<le> length (so_buf s1) then (Inr rc, s1\<lparr>so_message := take (nat rc) (so_buf s1)\<rparr>, n1)
            else (Inl (OverRead rc), s1, n1))"

definition recv_msg :: "'n nanomsg \<Rightarrow> bool \<Rightarrow> socket \<Rightarrow> 'n \<Rightarrow> (herror + string) \<times> socket \<times> 'n" where
  "recv_msg nn dontwait s n = bindX (socket_recv nn dontwait s n) (\<lambda>_ (s1, n1). (Inr (so_message s1), s1, n1))"

text \<open>A request sends, and takes the answer that is there already; it does not wait for one.\<close>

definition socket_request :: "'n nanomsg \<Rightarrow> string \<Rightarrow> socket \<Rightarrow> 'n \<Rightarrow> (herror + string) \<times> socket \<times> 'n" where
  "socket_request nn msg s n =
    (case socket_send nn msg True s n of
       (Inl e, n1) \<Rightarrow> (Inl e, s, n1)
     | (Inr _, n1) \<Rightarrow> recv_msg nn True s n1)"

definition send_json :: "'n nanomsg \<Rightarrow> (json \<Rightarrow> string) \<Rightarrow> json \<Rightarrow> bool \<Rightarrow> socket \<Rightarrow> 'n \<Rightarrow> (herror + int) \<times> 'n" where
  "send_json nn dump j dontwait s n = socket_send nn (dump j) dontwait s n"

definition recv_json :: "'n nanomsg \<Rightarrow> (string \<Rightarrow> json option) \<Rightarrow> bool \<Rightarrow> socket \<Rightarrow> 'n \<Rightarrow> (herror + json) \<times> socket \<times> 'n" where
  "recv_json nn parse dontwait s n =
    bindX (socket_recv nn dontwait s n) (\<lambda>rc (s1, n1).
      if 0 < rc then (case parse (so_message s1) of None \<Rightarrow> (Inl (BadText (so_message s1)), s1, n1) | Some j \<Rightarrow> (Inr j, s1, n1))
      else (Inr JNull, s1, n1))"

section \<open>Devices\<close>

record device =
  dev_home :: location
  dev_live_home :: location
  dev_low_latency :: bool
  dev_lazy :: bool
  dev_rep_sock :: socket
  dev_publisher :: socket
  dev_observer :: socket

text \<open>The master binds its ends of the notices, a client connects to them; the observer of a client
  subscribes to everything.\<close>

definition meet_master ::
    "'n nanomsg \<Rightarrow> (location \<Rightarrow> layout \<Rightarrow> string \<Rightarrow> string) \<Rightarrow> device_role \<Rightarrow> socket \<Rightarrow> 'n \<Rightarrow> (herror + socket) \<times> 'n" where
  "meet_master nn layout_file role s n =
    (case role of
       MasterDevice \<Rightarrow> socket_bind nn (init_socket layout_file role (so_protocol s)) s n
     | ClientDevice \<Rightarrow> socket_connect nn (init_socket layout_file role (so_protocol s)) s n)"

definition open_publisher ::
    "'n nanomsg \<Rightarrow> (location \<Rightarrow> layout \<Rightarrow> string \<Rightarrow> string) \<Rightarrow> device_role \<Rightarrow> 'n \<Rightarrow> (herror + socket) \<times> 'n" where
  "open_publisher nn layout_file role n =
    bindX (new_socket nn (publisher_protocol role) n) (meet_master nn layout_file role)"

definition open_observer ::
    "'n nanomsg \<Rightarrow> (location \<Rightarrow> layout \<Rightarrow> string \<Rightarrow> string) \<Rightarrow> device_role \<Rightarrow> bool \<Rightarrow> 'n \<Rightarrow> (herror + socket) \<times> 'n" where
  "open_observer nn layout_file role low_latency n =
    bindX (new_socket nn (observer_protocol role) n) (\<lambda>s0 n0.
    bindX (meet_master nn layout_file role s0 n0) (\<lambda>s n1.
    bindX (if role = ClientDevice then setsockopt_str nn [] s n1 else (Inr (), n1)) (\<lambda>_ n2.
    bindX (if \<not> low_latency then setsockopt_int nn DEFAULT_NOTICE_TIMEOUT s n2 else (Inr (), n2)) (\<lambda>_ n3.
      (Inr s, n3)))))"

definition open_device ::
    "'n nanomsg \<Rightarrow> (location \<Rightarrow> layout \<Rightarrow> string \<Rightarrow> string) \<Rightarrow> device_role \<Rightarrow> location \<Rightarrow> bool \<Rightarrow> 'n \<Rightarrow>
     (herror + device) \<times> 'n" where
  "open_device nn layout_file role home low_latency n =
    bindX (new_socket nn REPLY n) (\<lambda>r0 n0.
    bindX (socket_bind nn (make_path_bind layout_file home REPLY) r0 n0) (\<lambda>r n1.
    bindX (open_publisher nn layout_file role n1) (\<lambda>p n2.
    bindX (open_observer nn layout_file role low_latency n2) (\<lambda>ob n3.
      (Inr \<lparr>dev_home = home, dev_live_home = live_home home, dev_low_latency = low_latency, dev_lazy = device_lazy role,
            dev_rep_sock = r, dev_publisher = p, dev_observer = ob\<rparr>, n3)))))"

definition connect_socket ::
    "'n nanomsg \<Rightarrow> (location \<Rightarrow> layout \<Rightarrow> string \<Rightarrow> string) \<Rightarrow> location \<Rightarrow> protocol \<Rightarrow> int \<Rightarrow> 'n \<Rightarrow> (herror + socket) \<times> 'n" where
  "connect_socket nn layout_file l p timeout n =
    bindX (new_socket nn p n) (\<lambda>s0 n0.
    bindX (socket_connect nn (make_path_connect layout_file l p) s0 n0) (\<lambda>s n1.
    bindX (setsockopt_int nn timeout s n1) (\<lambda>_ n2. (Inr s, n2))))"

definition bind_socket ::
    "'n nanomsg \<Rightarrow> (location \<Rightarrow> layout \<Rightarrow> string \<Rightarrow> string) \<Rightarrow> device \<Rightarrow> protocol \<Rightarrow> int \<Rightarrow> 'n \<Rightarrow> (herror + socket) \<times> 'n" where
  "bind_socket nn layout_file d p timeout n =
    bindX (new_socket nn p n) (\<lambda>s0 n0.
    bindX (socket_bind nn (make_path_bind layout_file (dev_home d) p) s0 n0) (\<lambda>s n1.
    bindX (setsockopt_int nn timeout s n1) (\<lambda>_ n2. (Inr s, n2))))"

text \<open>The publisher and the observer.  With low latency nobody is notified and nobody waits.\<close>

definition device_publish :: "'n nanomsg \<Rightarrow> string \<Rightarrow> device \<Rightarrow> 'n \<Rightarrow> (herror + int) \<times> 'n" where
  "device_publish nn json_message d n = socket_send nn json_message True (dev_publisher d) n"

definition device_notify :: "'n nanomsg \<Rightarrow> device \<Rightarrow> 'n \<Rightarrow> (herror + int) \<times> 'n" where
  "device_notify nn d n = (if dev_low_latency d then (Inr 0, n) else device_publish nn ''{}'' d n)"

definition observer_wait :: "'n nanomsg \<Rightarrow> device \<Rightarrow> 'n \<Rightarrow> (herror + bool) \<times> device \<times> 'n" where
  "observer_wait nn d n =
    (case socket_recv nn (dev_low_latency d) (dev_observer d) n of
       (Inl e, s1, n1) \<Rightarrow> (Inl e, d\<lparr>dev_observer := s1\<rparr>, n1)
     | (Inr rc, s1, n1) \<Rightarrow> (Inr (0 < rc), d\<lparr>dev_observer := s1\<rparr>, n1))"

definition get_notice :: "device \<Rightarrow> string" where
  "get_notice d = so_message (dev_observer d)"

definition rep_recv :: "'n nanomsg \<Rightarrow> device \<Rightarrow> 'n \<Rightarrow> (herror + int) \<times> device \<times> 'n" where
  "rep_recv nn d n =
    (case socket_recv nn True (dev_rep_sock d) n of (r, s1, n1) \<Rightarrow> (r, d\<lparr>dev_rep_sock := s1\<rparr>, n1))"

end
