(* ===== verification/Process.thy ===== *)
theory Process
  imports Sockets
begin

text \<open>
  A process around its sockets and signals: the turn of the loop (practice/hero.cpp) as it reads the
  observer and the reply socket, the hooks that notify (hero.h, master.cpp), the handler of the
  signals of POSIX (util/signal.cpp), and the life of a process as a step relation, in which signals
  come between any two steps.
\<close>

section \<open>A turn with sockets\<close>

definition read_text :: "(string \<Rightarrow> json option) \<Rightarrow> string \<Rightarrow> text_read" where
  "read_text parse s = (case parse s of None \<Rightarrow> Inl s | Some j \<Rightarrow> Inr j)"

text \<open>\<open>on_notify\<close> of a process does nothing; that of the master passes the notice on.\<close>

type_synonym 'n notified = "device \<Rightarrow> 'n \<Rightarrow> (herror + unit) \<times> 'n"

definition hero_on_notify :: "'n notified" where
  "hero_on_notify d n = (Inr (), n)"

definition master_on_notify :: "'n nanomsg \<Rightarrow> 'n notified" where
  "master_on_notify nn d n = bindX (device_notify nn d n) (\<lambda>_ n1. (Inr (), n1))"

text \<open>What the sockets gave goes to the subscriptions; the devices and the library change meanwhile.\<close>

definition io_notice ::
    "'n nanomsg \<Rightarrow> (string \<Rightarrow> json option) \<Rightarrow> 'n notified \<Rightarrow> i64 \<Rightarrow> 'a handler list \<Rightarrow>
     device \<times> 'n \<times> 'a hero_scheme \<Rightarrow> (herror + 'a handler list) \<times> device \<times> 'n \<times> 'a hero_scheme" where
  "io_notice nn parse notified clock hs = (\<lambda>(d, n, h).
    case observer_wait nn d n of
      (Inl x, d1, n1) \<Rightarrow> (Inl x, d1, n1, h)
    | (Inr came, d1, n1) \<Rightarrow>
        if \<not> came then (Inr hs, d1, n1, h)
        else let notice = get_notice d1; h1 = h\<lparr>h_now := clock\<rparr> in
          if 2 < length notice
          then (case on_json (read_text parse notice) hs h1 of (r, h2) \<Rightarrow> (r, d1, n1, h2))
          else (case notified d1 n1 of (Inl x, n2) \<Rightarrow> (Inl x, d1, n2, h1) | (Inr _, n2) \<Rightarrow> (Inr hs, d1, n2, h1)))"

definition io_request ::
    "'n nanomsg \<Rightarrow> (string \<Rightarrow> json option) \<Rightarrow> i64 \<Rightarrow> 'a handler list \<Rightarrow>
     device \<times> 'n \<times> 'a hero_scheme \<Rightarrow> (herror + 'a handler list) \<times> device \<times> 'n \<times> 'a hero_scheme" where
  "io_request nn parse clock hs = (\<lambda>(d, n, h).
    case rep_recv nn d n of
      (Inl x, d1, n1) \<Rightarrow> (Inl x, d1, n1, h)
    | (Inr rc, d1, n1) \<Rightarrow>
        if 0 < rc
        then (case on_json (read_text parse (so_message (dev_rep_sock d1))) hs (h\<lparr>h_now := clock\<rparr>) of
                (r, h1) \<Rightarrow> (r, d1, n1, h1))
        else (Inr hs, d1, n1, h))"

fun io_frames :: "message list \<Rightarrow> reader_left \<Rightarrow> 'a handler list \<Rightarrow>
    device \<times> 'n \<times> 'a hero_scheme \<Rightarrow> (herror + bool \<times> 'a handler list) \<times> device \<times> 'n \<times> 'a hero_scheme" where
  "io_frames fs left hs (d, n, h) =
    (case drain fs hs h of (go, hs1, h1) \<Rightarrow>
       if go
       then (case journal_end (l_mode (dev_home d) = LIVE) left of
               Inl x \<Rightarrow> (Inl x, d, n, h1) | Inr goes \<Rightarrow> (Inr (goes, hs1), d, n, h1))
       else (Inr (False, hs1), d, n, h1))"

definition io_produce_one ::
    "'n nanomsg \<Rightarrow> (string \<Rightarrow> json option) \<Rightarrow> 'n notified \<Rightarrow> i64 \<Rightarrow> i64 \<Rightarrow> message list \<Rightarrow> reader_left \<Rightarrow> 'a handler list \<Rightarrow>
     device \<times> 'n \<times> 'a hero_scheme \<Rightarrow>
     (herror + bool \<times> 'a handler list) \<times> device \<times> 'n \<times> 'a hero_scheme" where
  "io_produce_one nn parse notified clock1 clock2 fs left hs s =
    (if l_mode (dev_home (fst s)) = LIVE
     then bindX (io_notice nn parse notified clock1 hs s) (\<lambda>hs1 s1.
          bindX (io_request nn parse clock2 hs1 s1) (io_frames fs left))
     else io_frames fs left hs s)"

section \<open>Signals\<close>

datatype signal = SIGURG | SIGCONT | SIGCHLD | SIGIO | SIGWINCH | SIGSTOP | SIGTSTP | SIGTTIN | SIGTTOU
  | SIGINT | SIGTERM | SIGKILL | SIGHUP | SIGPIPE | SIGALRM | SIGXCPU | SIGXFSZ | SIGVTALRM | SIGPROF
  | SIGUSR1 | SIGUSR2 | SIGQUIT | SIGILL | SIGTRAP | SIGABRT | SIGFPE | SIGBUS | SIGSEGV | SIGSYS
  | OtherSignal int

text \<open>What the handler does: nothing but a line in the log, \<open>stop_hero\<close>, or \<open>exit_hero\<close>, from which it
  does not return.\<close>

datatype signal_action = Discard | StopHero | ExitHero

fun kf_os_signal_handler :: "signal \<Rightarrow> signal_action" where
  "kf_os_signal_handler SIGURG = Discard"
| "kf_os_signal_handler SIGCONT = Discard"
| "kf_os_signal_handler SIGCHLD = Discard"
| "kf_os_signal_handler SIGIO = Discard"
| "kf_os_signal_handler SIGWINCH = Discard"
| "kf_os_signal_handler SIGINT = StopHero"
| "kf_os_signal_handler SIGTERM = StopHero"
| "kf_os_signal_handler (OtherSignal k) = Discard"
| "kf_os_signal_handler s = ExitHero"

text \<open>\<open>hero_instance\<close>: the process the signals are for.  It is set once and never cleared.\<close>

definition handle_os_signals :: "'h \<Rightarrow> 'h option \<Rightarrow> (herror + unit) \<times> 'h option" where
  "handle_os_signals hero hero_instance =
    (case hero_instance of
       Some other \<Rightarrow> (Inl (HandlerError ''kungfu can only have one hero instance per process''), hero_instance)
     | None \<Rightarrow> (Inr (), Some hero))"

definition stop_hero :: "'a hero_scheme option \<Rightarrow> 'a hero_scheme option" where
  "stop_hero hero_instance =
    (case hero_instance of None \<Rightarrow> None | Some h \<Rightarrow> Some (if h_live h then signal_stop h else h))"

definition exit_hero :: "('a hero_scheme \<Rightarrow> 'a hero_scheme) \<Rightarrow> 'a hero_scheme option \<Rightarrow> 'a hero_scheme option" where
  "exit_hero on_exit hero_instance =
    (case hero_instance of None \<Rightarrow> None | Some h \<Rightarrow> Some (if h_live h then on_exit (signal_stop h) else h))"

section \<open>The life of a process\<close>

text \<open>A process loops, leaves the loop, and finishes \<open>run\<close>; a signal may end it anywhere.  How often
  \<open>on_exit\<close> has been called is counted.  Receiving never throws the errors that end the loop quietly,
  because \<open>recv\<close> takes them for no message.\<close>

definition socket_turn :: "turn \<Rightarrow> bool" where
  "socket_turn t \<longleftrightarrow>
    (case t_notice t of Inl x \<Rightarrow> \<not> quits_quietly x | Inr _ \<Rightarrow> True) \<and>
    (case t_request t of Inl x \<Rightarrow> \<not> quits_quietly x | Inr _ \<Rightarrow> True)"

datatype phase = Looping | Leaving | Finished | Exited

text \<open>The phases in the order in which a process passes through them.\<close>

fun phase_rank :: "phase \<Rightarrow> nat" where
  "phase_rank Looping = 0"
| "phase_rank Leaving = 1"
| "phase_rank Finished = 2"
| "phase_rank Exited = 3"

lemma phase_rank_le_exited: "phase_rank p \<le> 3"
  by (cases p) simp_all

lemma phase_rank_inj: "phase_rank p = phase_rank q \<Longrightarrow> p = q"
  by (cases p; cases q; simp)

instantiation phase :: linorder
begin

definition less_eq_phase :: "phase \<Rightarrow> phase \<Rightarrow> bool" where
  "p \<le> q \<longleftrightarrow> phase_rank p \<le> phase_rank q"

definition less_phase :: "phase \<Rightarrow> phase \<Rightarrow> bool" where
  "p < q \<longleftrightarrow> phase_rank p < phase_rank q"

instance
  by standard (auto simp: less_eq_phase_def less_phase_def intro: phase_rank_inj)

end

record 'h run_state =
  rs_phase :: phase
  rs_hero :: "'h"
  rs_exits :: nat

inductive run_step ::
    "('a hero_scheme \<Rightarrow> (herror + unit) \<times> 'a hero_scheme) \<Rightarrow> ('a hero_scheme \<Rightarrow> 'a hero_scheme) \<Rightarrow>
     'a handler list \<times> 'a hero_scheme run_state \<Rightarrow> 'a handler list \<times> 'a hero_scheme run_state \<Rightarrow> bool"
  for on_notify on_exit where
  turn: "rs_phase r = Looping \<Longrightarrow> h_live (rs_hero r) \<Longrightarrow> socket_turn t \<Longrightarrow>
    produce_one on_notify t hs (rs_hero r) = (Inr (go, hs1), h1) \<Longrightarrow>
    run_step on_notify on_exit (hs, r) (hs1, r\<lparr>rs_hero := h1\<lparr>h_live := go \<and> h_live h1\<rparr>\<rparr>)"
| over: "rs_phase r = Looping \<Longrightarrow> \<not> h_live (rs_hero r) \<Longrightarrow>
    run_step on_notify on_exit (hs, r) (hs, r\<lparr>rs_phase := Leaving\<rparr>)"
| failed: "rs_phase r = Looping \<Longrightarrow> h_live (rs_hero r) \<Longrightarrow> socket_turn t \<Longrightarrow>
    produce_one on_notify t hs (rs_hero r) = (Inl x, h1) \<Longrightarrow>
    run_step on_notify on_exit (hs, r)
      (hs, r\<lparr>rs_phase := Leaving, rs_hero := snd (resume_on_error (Failed x) hs h1)\<rparr>)"
| leave: "rs_phase r = Leaving \<Longrightarrow>
    run_step on_notify on_exit (hs, r)
      (hs, r\<lparr>rs_phase := Finished, rs_hero := on_exit (rs_hero r), rs_exits := Suc (rs_exits r)\<rparr>)"
| stop: "rs_phase r \<noteq> Exited \<Longrightarrow> kf_os_signal_handler s = StopHero \<Longrightarrow>
    stop_hero (Some (rs_hero r)) = Some h1 \<Longrightarrow>
    run_step on_notify on_exit (hs, r) (hs, r\<lparr>rs_hero := h1\<rparr>)"
| kill: "rs_phase r \<noteq> Exited \<Longrightarrow> kf_os_signal_handler s = ExitHero \<Longrightarrow>
    exit_hero on_exit (Some (rs_hero r)) = Some h1 \<Longrightarrow>
    run_step on_notify on_exit (hs, r)
      (hs, r\<lparr>rs_phase := Exited, rs_hero := h1, rs_exits := rs_exits r + (if h_live (rs_hero r) then 1 else 0)\<rparr>)"

inductive run_steps ::
    "('a hero_scheme \<Rightarrow> (herror + unit) \<times> 'a hero_scheme) \<Rightarrow> ('a hero_scheme \<Rightarrow> 'a hero_scheme) \<Rightarrow>
     'a handler list \<times> 'a hero_scheme run_state \<Rightarrow> 'a handler list \<times> 'a hero_scheme run_state \<Rightarrow> bool"
  for on_notify on_exit where
  begins: "run_steps on_notify on_exit s s"
| goes_on: "run_steps on_notify on_exit s s1 \<Longrightarrow> run_step on_notify on_exit s1 s2 \<Longrightarrow>
    run_steps on_notify on_exit s s2"

inductive_cases run_stepE: "run_step on_notify on_exit (hs, r) (hs1, r1)"

definition started_run :: "'h \<Rightarrow> 'h run_state" where
  "started_run h = \<lparr>rs_phase = Looping, rs_hero = h, rs_exits = 0\<rparr>"

text \<open>A process never goes back to an earlier phase.\<close>

lemma phase_never_back:
  assumes "run_steps on_notify on_exit s s'"
  shows "rs_phase (snd s) \<le> rs_phase (snd s')"
  using assms
proof (induction rule: run_steps.induct)
  case (goes_on s s1 s2)
  from goes_on.hyps(2) have "rs_phase (snd s1) \<le> rs_phase (snd s2)"
    by cases (auto simp: less_eq_phase_def intro: phase_rank_le_exited)
  with goes_on.IH show ?case by (rule order_trans)
qed simp

end
