(* ===== verification/Master.thy ===== *)
theory Master
  imports Hero
begin

text \<open>
  The master (practice/master.cpp): it registers the applications, introduces them to one another,
  keeps the timers they asked for, and answers their requests to write to and read from one
  another by asking the other side and by joining the journal itself.
\<close>

section \<open>State\<close>

record timer_task =
  tt_checkpoint :: i64
  tt_duration :: i64
  tt_repeat_limit :: i64
  tt_repeat_count :: i64

record master = hero +
  last_check :: i64
  app_locations :: "(u32 \<times> u32) list"
  timer_tasks :: "(u32 \<times> (i32 \<times> timer_task) list) list"

definition new_master :: "location \<Rightarrow> i64 \<Rightarrow> i64 \<Rightarrow> master" where
  "new_master home begin_clock mark_clock =
    write_msg (home, 0) mark_clock T_SessionStart NoData
      (hero.extend (new_hero home begin_clock\<lparr>h_writers := [(0, (home, 0))]\<rparr>)
         \<lparr>last_check = 0, app_locations = [], timer_tasks = []\<rparr>)"

definition master_on_exit :: "i64 \<Rightarrow> master \<Rightarrow> (herror + unit) \<times> master" where
  "master_on_exit now m = bindX (writer_at 0 m) (\<lambda>w m1. (Inr (), write_msg w now T_SessionEnd NoData m1))"

section \<open>Registration\<close>

definition location_json :: "location \<Rightarrow> (string \<times> json) list" where
  "location_json l = [(''mode'', JInt (position_in [LIVE, DATA, REPLAY, BACKTEST] (l_mode l))),
     (''category'', JInt (position_in [MD, TD, STRATEGY, SYSTEM] (l_category l))),
     (''group'', JString (l_group l)), (''name'', JString (l_name l))]"

definition location_of_json :: "json \<Rightarrow> json_error + location" where
  "location_of_json j =
    bindE (jget_enum [LIVE, DATA, REPLAY, BACKTEST] j ''mode'') (\<lambda>m.
    bindE (jget_enum [MD, TD, STRATEGY, SYSTEM] j ''category'') (\<lambda>c.
    bindE (jget_string j ''group'') (\<lambda>g.
    bindE (jget_string j ''name'') (\<lambda>n. Inr (make_location m c g n)))))"

text \<open>\<open>fmt::format("{:08x}", uid)\<close>.\<close>

definition hex_digit :: "nat \<Rightarrow> char" where
  "hex_digit d = ''0123456789abcdef'' ! d"

definition hex8 :: "u32 \<Rightarrow> string" where
  "hex8 u = map (\<lambda>i. hex_digit (unat u div 16 ^ (7 - i) mod 16)) [0..<8]"

definition app_master_location :: "u32 \<Rightarrow> location" where
  "app_master_location u = make_location LIVE SYSTEM ''master'' (hex8 u)"

definition master_register_channel :: "i64 \<Rightarrow> channel \<Rightarrow> master \<Rightarrow> (herror + unit) \<times> master" where
  "master_register_channel t c m =
    bindX (writer_at 0 (hero_register_channel c m)) (\<lambda>w m1.
      (Inr (), write_msg w t T_Channel (ChannelData c) m1))"

definition write_locations :: "journal_key \<Rightarrow> i64 \<Rightarrow> (u32 \<times> location) list \<Rightarrow> master \<Rightarrow> master" where
  "write_locations w t ls m = fold (\<lambda>l. write_msg w t T_Location (JsonData (json_of (location_json (snd l))))) ls m"

definition write_channels :: "journal_key \<Rightarrow> i64 \<Rightarrow> (u64 \<times> channel) list \<Rightarrow> master \<Rightarrow> master" where
  "write_channels w t cs m = fold (\<lambda>c. write_msg w t T_Channel (ChannelData (snd c))) cs m"

text \<open>\<open>on_register\<close> is the hook of a subclass; \<open>now\<close> is the clock.\<close>

definition register_app ::
    "(message \<Rightarrow> location \<Rightarrow> master \<Rightarrow> master) \<Rightarrow> i64 \<Rightarrow> message \<Rightarrow> master \<Rightarrow> (herror + unit) \<times> master" where
  "register_app on_register now e m =
    (case m_data e of
       JsonData request_loc \<Rightarrow>
        (case location_of_json request_loc of
           Inl err \<Rightarrow> (Inl (JsonError err), m)
         | Inr app_location \<Rightarrow>
            let app = uid app_location in
            if has_location m app then (Inr (), m)
            else
              let m1 = (case map_of (app_locations m) app of
                          Some _ \<Rightarrow> m
                        | None \<Rightarrow>
                            let ml = app_master_location app in
                            (register_location ml m)
                              \<lparr>app_locations := AList.update app (uid ml) (app_locations m)\<rparr>);
                  m2 = register_location app_location m1
              in bindX (get_location (the (map_of (app_locations m2) app)) m2) (\<lambda>ml m3.
                let m4 = m3\<lparr>h_writers := AList.update app (open_writer_at ml app) (h_writers m3)\<rparr>;
                    m5 = hero_join app_location (uid ml) now (hero_join app_location 0 now m4)
                in bindX (writer_at 0 m5) (\<lambda>w0 m6.
                   let m7 = write_msg w0 (m_gen_time e) T_Register (JsonData request_loc) m6 in
                   bindX (writer_at app m7) (\<lambda>w m8.
                   let m9 = write_msg w (m_gen_time e) T_SessionStart NoData m8 in
                   bindX (require_write_to app (m_gen_time e) 0 m9) (\<lambda>_ m10.
                   bindX (require_write_to app (m_gen_time e) (uid ml) m10) (\<lambda>_ m11.
                   let m12 = write_locations w (m_gen_time e) (h_locations m11) m11;
                       m13 = write_channels w (m_gen_time e) (h_channels m12) m12;
                       m14 = on_register e app_location m13
                   in (Inr (), write_msg w (m_gen_time e) T_RequestStart NoData m14)))))))
     | _ \<Rightarrow> (Inl BadPayload, m))"

definition deregister_app :: "i64 \<Rightarrow> u32 \<Rightarrow> master \<Rightarrow> (herror + unit) \<times> master" where
  "deregister_app t app m =
    bindX (get_location app m) (\<lambda>l m1.
    bindX (writer_at app m1) (\<lambda>w m2.
    let m3 = write_msg w t T_SessionEnd NoData m2;
        m4 = deregister_channel_by_source app m3;
        m5 = hero_disjoin app (deregister_location app m4);
        m6 = m5\<lparr>h_writers := AList.delete app (h_writers m5),
                timer_tasks := AList.delete app (timer_tasks m5)\<rparr>
    in bindX (writer_at 0 m6) (\<lambda>w0 m7.
       (Inr (), write_msg w0 t T_Deregister
          (JsonData (json_of (location_json l @ [(''uname'', JString (uname l)), (''uid'', JU64 app)]))) m7))))"

section \<open>Time\<close>

definition publish_time :: "i32 \<Rightarrow> i64 \<Rightarrow> master \<Rightarrow> (herror + unit) \<times> master" where
  "publish_time k t m = bindX (writer_at 0 m) (\<lambda>w m1. (Inr (), write_msg w 0 k (NanoTime t) m1))"

definition send_time :: "u32 \<Rightarrow> i32 \<Rightarrow> i64 \<Rightarrow> master \<Rightarrow> (herror + unit) \<times> master" where
  "send_time d k t m =
    (if has_location m d
     then bindX (writer_at d m) (\<lambda>w m1. (Inr (), write_msg w 0 k (NanoTime t) m1))
     else (Inr (), m))"

text \<open>One task at one reading of the clock: whether it sends a Time, and what is left of it.\<close>

definition run_task :: "i64 \<Rightarrow> timer_task \<Rightarrow> bool \<times> timer_task option" where
  "run_task now t =
    (if tt_checkpoint t \<le> now
     then let t' = t\<lparr>tt_checkpoint := tt_checkpoint t + tt_duration t,
                     tt_repeat_count := tt_repeat_count t + 1\<rparr>
          in (True, if tt_repeat_count t' \<ge> tt_repeat_limit t' then None else Some t')
     else (False, Some t))"

fun run_app_tasks :: "i64 \<Rightarrow> u32 \<Rightarrow> (i32 \<times> timer_task) list \<Rightarrow> master \<Rightarrow>
    (herror + (i32 \<times> timer_task) list) \<times> master" where
  "run_app_tasks now app [] m = (Inr [], m)"
| "run_app_tasks now app ((k, t) # ts) m =
    (case run_task now t of (fires, left) \<Rightarrow>
       bindX (if fires then bindX (writer_at app m) (\<lambda>w m1. (Inr (), write_msg w 0 T_Time NoData m1))
              else (Inr (), m)) (\<lambda>_ m1.
       bindX (run_app_tasks now app ts m1) (\<lambda>ts' m2.
         (Inr (case left of None \<Rightarrow> ts' | Some t' \<Rightarrow> (k, t') # ts'), m2))))"

fun run_timers :: "i64 \<Rightarrow> (u32 \<times> (i32 \<times> timer_task) list) list \<Rightarrow> master \<Rightarrow>
    (herror + (u32 \<times> (i32 \<times> timer_task) list) list) \<times> master" where
  "run_timers now [] m = (Inr [], m)"
| "run_timers now ((app, ts) # apps) m =
    bindX (run_app_tasks now app ts m) (\<lambda>ts' m1.
    bindX (run_timers now apps m1) (\<lambda>apps' m2. (Inr ((app, ts') # apps'), m2)))"

definition master_produce_one ::
    "(i64 \<Rightarrow> master \<Rightarrow> master) \<Rightarrow> (master \<Rightarrow> (herror + unit) \<times> master) \<Rightarrow> i64 \<Rightarrow> turn \<Rightarrow>
     (message \<Rightarrow> master \<Rightarrow> (herror + unit) \<times> master) list \<Rightarrow> master \<Rightarrow>
     (herror + bool \<times> (message \<Rightarrow> master \<Rightarrow> (herror + unit) \<times> master) list) \<times> master" where
  "master_produce_one on_interval_check on_notify now t hs m =
    bindX (run_timers now (timer_tasks m) m) (\<lambda>tasks m1.
      let m2 = m1\<lparr>timer_tasks := tasks\<rparr>;
          m3 = (if last_check m2 + NANOSECONDS_PER_SECOND < now
                then (on_interval_check now m2)\<lparr>last_check := now\<rparr> else m2)
      in produce_one on_notify t hs m3)"

section \<open>Requests\<close>

definition on_request_write_to :: "message \<Rightarrow> master \<Rightarrow> (herror + unit) \<times> master" where
  "on_request_write_to e m =
    (case m_data e of
       WriteToData d \<Rightarrow>
         if has_location m d
         then bindX (get_location (m_source e) m) (\<lambda>l m1.
              bindX (require_write_to (m_source e) (m_gen_time e) d (hero_join l d (m_gen_time e) m1)) (\<lambda>_ m2.
              bindX (require_read_from d (m_gen_time e) (m_source e) False m2) (\<lambda>_ m3.
                master_register_channel (m_gen_time e) \<lparr>ch_source_id = m_source e, ch_dest_id = d\<rparr> m3)))
         else (Inr (), m)
     | _ \<Rightarrow> (Inl BadPayload, m))"

definition on_request_read_from :: "message \<Rightarrow> master \<Rightarrow> (herror + unit) \<times> master" where
  "on_request_read_from e m =
    (case m_data e of
       ReadFromData s _ \<Rightarrow>
         if has_location m s
         then bindX (get_location s m) (\<lambda>l m1.
              bindX (require_write_to s (m_gen_time e) (m_source e) (hero_join l (m_source e) (m_gen_time e) m1)) (\<lambda>_ m2.
              bindX (require_read_from (m_source e) (m_gen_time e) s False m2) (\<lambda>_ m3.
                master_register_channel (m_gen_time e) \<lparr>ch_source_id = s, ch_dest_id = m_source e\<rparr> m3)))
         else (Inr (), m)
     | _ \<Rightarrow> (Inl BadPayload, m))"

definition on_request_read_from_public :: "message \<Rightarrow> master \<Rightarrow> (herror + unit) \<times> master" where
  "on_request_read_from_public e m =
    (case m_data e of
       ReadFromData s _ \<Rightarrow>
         if has_location m s then require_read_from (m_source e) (m_gen_time e) s True m else (Inr (), m)
     | _ \<Rightarrow> (Inl BadPayload, m))"

text \<open>A new request under an id replaces the task of that id.\<close>

definition on_time_request :: "i64 \<Rightarrow> message \<Rightarrow> master \<Rightarrow> (herror + unit) \<times> master" where
  "on_time_request now e m =
    (case m_data e of
       TimeRequestData i d r \<Rightarrow>
         let tasks = (case map_of (timer_tasks m) (m_source e) of None \<Rightarrow> [] | Some ts \<Rightarrow> ts);
             task = \<lparr>tt_checkpoint = now + d, tt_duration = d, tt_repeat_limit = r, tt_repeat_count = 0\<rparr>;
             m1 = m\<lparr>timer_tasks := AList.update (m_source e) (AList.update i task tasks) (timer_tasks m)\<rparr>
         in (Inr (), m1)
     | _ \<Rightarrow> (Inl BadPayload, m))"

text \<open>The subscriptions of \<open>react\<close>, and what an event does when none of them throws.\<close>

definition on_type :: "i32 \<Rightarrow> (message \<Rightarrow> 'a hero_scheme \<Rightarrow> (herror + unit) \<times> 'a hero_scheme) \<Rightarrow>
    message \<Rightarrow> 'a hero_scheme \<Rightarrow> (herror + unit) \<times> 'a hero_scheme" where
  "on_type k f e h = (if m_msg_type e = k then f e h else (Inr (), h))"

definition master_subscriptions ::
    "(message \<Rightarrow> location \<Rightarrow> master \<Rightarrow> master) \<Rightarrow> i64 \<Rightarrow> (message \<Rightarrow> master \<Rightarrow> (herror + unit) \<times> master) list" where
  "master_subscriptions on_register now =
    [on_type T_Register (register_app on_register now), on_type T_RequestWriteTo on_request_write_to,
     on_type T_RequestReadFrom on_request_read_from, on_type T_RequestReadFromPublic on_request_read_from_public,
     on_type T_TimeRequest (on_time_request now)]"

definition master_react ::
    "(message \<Rightarrow> location \<Rightarrow> master \<Rightarrow> master) \<Rightarrow> i64 \<Rightarrow> message \<Rightarrow> master \<Rightarrow> (herror + unit) \<times> master" where
  "master_react on_register now e m =
    (if m_msg_type e = T_Register then register_app on_register now e m
     else if m_msg_type e = T_RequestWriteTo then on_request_write_to e m
     else if m_msg_type e = T_RequestReadFrom then on_request_read_from e m
     else if m_msg_type e = T_RequestReadFromPublic then on_request_read_from_public e m
     else if m_msg_type e = T_TimeRequest then on_time_request now e m
     else (Inr (), m))"

lemma publish_passes: "m_msg_type e \<noteq> k \<Longrightarrow> publish_event e (on_type k f # ss) h =
    (on_type k f # fst (publish_event e ss h), snd (publish_event e ss h))"
  by (rule publish_event_returns) (simp add: on_type_def)

lemma publish_hits:
  "m_msg_type e = k \<Longrightarrow> f e h = (Inr (), h1) \<Longrightarrow> publish_event e (on_type k f # ss) h =
    (on_type k f # fst (publish_event e ss h1), snd (publish_event e ss h1))"
  by (rule publish_event_returns) (simp add: on_type_def)

lemma publish_fails:
  "m_msg_type e = k \<Longrightarrow> f e h = (Inl x, h1) \<Longrightarrow>
    publish_event e (on_type k f # ss) h = publish_event e ss (signal_stop h1)"
  by (rule publish_event_throws) (simp add: on_type_def)

lemma publish_master:
  "publish_event e (master_subscriptions f now) m =
    (case master_react f now e m of
       (Inr _, m') \<Rightarrow> (master_subscriptions f now, m')
     | (Inl _, m') \<Rightarrow> (map snd (filter (\<lambda>(k, s). k \<noteq> m_msg_type e)
         (zip [T_Register, T_RequestWriteTo, T_RequestReadFrom, T_RequestReadFromPublic, T_TimeRequest]
              (master_subscriptions f now))), signal_stop m'))"
proof -
  obtain r m' where r: "master_react f now e m = (r, m')" by force
  consider "m_msg_type e = T_Register" | "m_msg_type e = T_RequestWriteTo" | "m_msg_type e = T_RequestReadFrom"
    | "m_msg_type e = T_RequestReadFromPublic" | "m_msg_type e = T_TimeRequest"
    | "m_msg_type e \<notin> {T_Register, T_RequestWriteTo, T_RequestReadFrom, T_RequestReadFromPublic, T_TimeRequest}"
    by auto
  then show ?thesis
    by cases (use r in \<open>cases r; auto simp: master_subscriptions_def master_react_def publish_passes publish_hits publish_fails system_codes\<close>)+
qed

end
