(* ===== verification/Apprentice.thy ===== *)
theory Apprentice
  imports Master
begin

text \<open>
  An application of the master (practice/apprentice.cpp and apprentice.h): how it checks in, what it
  does with the messages of the master, and its timers.  The timers of an application are requests
  to the master, answered by a Time message, and a subscription that looks at the time of every
  event; a subscription is its duration and its number.
\<close>

section \<open>State\<close>

datatype subscription = Timer i64 i32 | Interval i64 i32

record apprentice = hero +
  timer_checkpoints :: "(i32 \<times> i64) list"
  timer_usage_count :: i32
  a_timers :: "subscription list"
  a_registered :: bool
  a_started :: bool
  a_published :: "json list"

definition master_home_location :: location where
  "master_home_location = make_location LIVE SYSTEM ''master'' ''master''"

definition master_commands_location :: "location \<Rightarrow> location" where
  "master_commands_location home = make_location LIVE SYSTEM ''master'' (hex8 (uid (live_home home)))"

definition config_location :: location where
  "config_location = make_location LIVE SYSTEM ''etc'' ''kungfu''"

definition new_apprentice :: "location \<Rightarrow> i64 \<Rightarrow> apprentice" where
  "new_apprentice home now =
    hero.extend (new_hero home now
        \<lparr>h_locations := [(uid (master_commands_location home), master_commands_location home)]\<rparr>)
      \<lparr>timer_checkpoints = [], timer_usage_count = 0, a_timers = [], a_registered = False, a_started = False,
       a_published = []\<rparr>"

definition get_master_commands_uid :: "'a hero_scheme \<Rightarrow> u32" where
  "get_master_commands_uid h = uid (master_commands_location (h_home h))"

section \<open>Requests to the master\<close>

definition request_write_to :: "i64 \<Rightarrow> u32 \<Rightarrow> 'a hero_scheme \<Rightarrow> (herror + unit) \<times> 'a hero_scheme" where
  "request_write_to t d h =
    (if l_mode (h_home h) = LIVE then require_write_to (get_master_commands_uid h) t d h else (Inr (), h))"

definition request_read_from :: "i64 \<Rightarrow> u32 \<Rightarrow> bool \<Rightarrow> 'a hero_scheme \<Rightarrow> (herror + unit) \<times> 'a hero_scheme" where
  "request_read_from t s pub h =
    (if l_mode (h_home h) = LIVE then require_read_from (get_master_commands_uid h) t s pub h else (Inr (), h))"

definition write_to :: "i64 \<Rightarrow> i32 \<Rightarrow> payload \<Rightarrow> u32 \<Rightarrow> 'a hero_scheme \<Rightarrow> (herror + unit) \<times> 'a hero_scheme" where
  "write_to t k p d h = bindX (writer_at d h) (\<lambda>w h1. (Inr (), write_msg w t k p h1))"

section \<open>Timers\<close>

text \<open>Asking the master for a Time after \<open>duration\<close>, and noting the application's own time.\<close>

definition ask_time :: "i32 \<Rightarrow> i64 \<Rightarrow> 'a apprentice_scheme \<Rightarrow> (herror + unit) \<times> 'a apprentice_scheme" where
  "ask_time i duration a =
    bindX (writer_at (get_master_commands_uid a) a) (\<lambda>w a1.
      (Inr (), (write_msg w 0 T_TimeRequest (TimeRequestData i duration 1) a1)
         \<lparr>timer_checkpoints := AList.update i (h_now a1) (timer_checkpoints a1)\<rparr>))"

definition add_timer :: "i64 \<Rightarrow> 'a apprentice_scheme \<Rightarrow> (herror + unit) \<times> 'a apprentice_scheme" where
  "add_timer nanotime a =
    bindX (ask_time (timer_usage_count a) (nanotime - h_now a) a) (\<lambda>_ a1.
      (Inr (), a1\<lparr>timer_usage_count := timer_usage_count a + 1,
                  a_timers := a_timers a1 @ [Timer (nanotime - h_now a) (timer_usage_count a)]\<rparr>))"

definition add_time_interval :: "i64 \<Rightarrow> 'a apprentice_scheme \<Rightarrow> (herror + unit) \<times> 'a apprentice_scheme" where
  "add_time_interval duration a =
    bindX (ask_time (timer_usage_count a) duration a) (\<lambda>_ a1.
      (Inr (), a1\<lparr>timer_usage_count := timer_usage_count a + 1,
                  a_timers := a_timers a1 @ [Interval duration (timer_usage_count a)]\<rparr>))"

text \<open>The condition both subscriptions put on an event: a Time later than the checkpoint by more
  than the duration.  An id without a checkpoint reads as 0.\<close>

definition timer_due :: "message \<Rightarrow> i64 \<Rightarrow> i32 \<Rightarrow> 'a apprentice_scheme \<Rightarrow> bool" where
  "timer_due e duration i a \<longleftrightarrow> m_msg_type e = T_Time \<and>
    m_gen_time e > (case map_of (timer_checkpoints a) i of None \<Rightarrow> 0 | Some t \<Rightarrow> t) + duration"

text \<open>A timer is \<open>first\<close>: it leaves when it has fired.  An interval asks for its next Time.\<close>

definition run_subscription ::
    "message \<Rightarrow> subscription \<Rightarrow> 'a apprentice_scheme \<Rightarrow> (herror + bool \<times> subscription option) \<times> 'a apprentice_scheme" where
  "run_subscription e s a =
    (case s of
       Timer d i \<Rightarrow> if timer_due e d i a then (Inr (True, None), a) else (Inr (False, Some s), a)
     | Interval d i \<Rightarrow>
         if timer_due e d i a then bindX (ask_time i d a) (\<lambda>_ a1. (Inr (True, Some s), a1))
         else (Inr (False, Some s), a))"

fun run_subscriptions :: "message \<Rightarrow> subscription list \<Rightarrow> 'a apprentice_scheme \<Rightarrow>
    (herror + subscription list \<times> subscription list) \<times> 'a apprentice_scheme" where
  "run_subscriptions e [] a = (Inr ([], []), a)"
| "run_subscriptions e (s # ss) a =
    bindX (run_subscription e s a) (\<lambda>(fires, left) a1.
    bindX (run_subscriptions e ss a1) (\<lambda>(fired, rest) a2.
      (Inr ((if fires then [s] else []) @ fired, (case left of None \<Rightarrow> [] | Some s' \<Rightarrow> [s']) @ rest), a2)))"

text \<open>The subscribers run the callbacks of the timers that fired.\<close>

definition run_timers_on :: "message \<Rightarrow> 'a apprentice_scheme \<Rightarrow> (herror + subscription list) \<times> 'a apprentice_scheme" where
  "run_timers_on e a =
    bindX (run_subscriptions e (a_timers a) a) (\<lambda>(fired, left) a1. (Inr fired, a1\<lparr>a_timers := left\<rparr>))"

section \<open>Messages\<close>

definition on_write_to :: "message \<Rightarrow> 'a apprentice_scheme \<Rightarrow> (herror + unit) \<times> 'a apprentice_scheme" where
  "on_write_to e a =
    (case m_data e of
       WriteToData d \<Rightarrow>
         if \<not> has_writer a d
         then (Inr (), a\<lparr>h_writers := AList.update d (open_writer a d) (h_writers a)\<rparr>)
         else bindX (get_location (m_source e) a) (\<lambda>_ a1. bindX (get_location d a1) (\<lambda>_ a2. (Inr (), a2)))
     | _ \<Rightarrow> (Inl BadPayload, a))"

definition on_read_from :: "message \<Rightarrow> 'a apprentice_scheme \<Rightarrow> (herror + unit) \<times> 'a apprentice_scheme" where
  "on_read_from e a =
    (case m_data e of
       ReadFromData s from_time \<Rightarrow>
         bindX (get_location s a) (\<lambda>l a1.
           (Inr (), hero_join l (if m_msg_type e = T_RequestReadFromPublic then 0 else get_live_home_uid a1)
                      from_time a1))
     | _ \<Rightarrow> (Inl BadPayload, a))"

text \<open>The virtual functions of the class: a subclass replaces some of them.\<close>

record 's app_methods =
  m_on_start :: "'s \<Rightarrow> (herror + unit) \<times> 's"
  m_register_location :: "i64 \<Rightarrow> location \<Rightarrow> 's \<Rightarrow> (herror + unit) \<times> 's"
  m_deregister_location :: "i64 \<Rightarrow> u32 \<Rightarrow> 's \<Rightarrow> (herror + unit) \<times> 's"
  m_on_write_to :: "message \<Rightarrow> 's \<Rightarrow> (herror + unit) \<times> 's"
  m_on_read_from :: "message \<Rightarrow> 's \<Rightarrow> (herror + unit) \<times> 's"

definition app_register_location :: "i64 \<Rightarrow> location \<Rightarrow> 'a hero_scheme \<Rightarrow> (herror + unit) \<times> 'a hero_scheme" where
  "app_register_location t l a = (Inr (), register_location l a)"

definition app_deregister_location :: "i64 \<Rightarrow> u32 \<Rightarrow> 'a hero_scheme \<Rightarrow> (herror + unit) \<times> 'a hero_scheme" where
  "app_deregister_location t u a = (Inr (), deregister_location u a)"

definition app_methods_of :: "('a apprentice_scheme \<Rightarrow> (herror + unit) \<times> 'a apprentice_scheme) \<Rightarrow> 'a apprentice_scheme app_methods" where
  "app_methods_of f = \<lparr>m_on_start = f, m_register_location = app_register_location,
     m_deregister_location = app_deregister_location, m_on_write_to = on_write_to, m_on_read_from = on_read_from\<rparr>"

definition register_location_from_event ::
    "'a apprentice_scheme app_methods \<Rightarrow> message \<Rightarrow> 'a apprentice_scheme \<Rightarrow> (herror + unit) \<times> 'a apprentice_scheme" where
  "register_location_from_event ms e a =
    (case m_data e of
       JsonData j \<Rightarrow> (case location_of_json j of
                        Inl err \<Rightarrow> (Inl (JsonError err), a)
                      | Inr l \<Rightarrow> m_register_location ms (m_trigger_time e) l a)
     | _ \<Rightarrow> (Inl BadPayload, a))"

definition deregister_location_from_event ::
    "'a apprentice_scheme app_methods \<Rightarrow> message \<Rightarrow> 'a apprentice_scheme \<Rightarrow> (herror + unit) \<times> 'a apprentice_scheme" where
  "deregister_location_from_event ms e a =
    (case m_data e of
       JsonData j \<Rightarrow> (case jget_u32 j ''uid'' of
                        Inl err \<Rightarrow> (Inl (JsonError err), a)
                      | Inr u \<Rightarrow> m_deregister_location ms (m_trigger_time e) u
                                   (deregister_channel_by_source u (hero_disjoin u a)))
     | _ \<Rightarrow> (Inl BadPayload, a))"

definition checkin_request :: "i64 \<Rightarrow> int \<Rightarrow> location \<Rightarrow> json" where
  "checkin_request now pid home =
    json_of [(''msg_type'', JInt T_Register), (''gen_time'', JInt now), (''trigger_time'', JInt now),
      (''source'', JU64 (uid home)), (''dest'', JU64 (uid master_home_location)),
      (''data'', json_of (location_json home @ [(''uid'', JU64 (uid home)), (''pid'', JInt pid)]))]"

definition checkin :: "i64 \<Rightarrow> int \<Rightarrow> 'a apprentice_scheme \<Rightarrow> 'a apprentice_scheme" where
  "checkin now pid a = a\<lparr>a_published := a_published a @ [checkin_request now pid (h_home a)]\<rparr>"

section \<open>react\<close>

text \<open>What is joined when the subscriptions are made.  A process that does not replay or backtest
  checks in with the master.\<close>

definition react_start :: "'a apprentice_scheme app_methods \<Rightarrow> i64 \<Rightarrow> int \<Rightarrow> 'a apprentice_scheme \<Rightarrow> (herror + unit) \<times> 'a apprentice_scheme" where
  "react_start ms now pid a =
    (let home = h_home a;
         a1 = (case l_mode home of
                 REPLAY \<Rightarrow> hero_join (master_commands_location home) (get_live_home_uid a) (h_begin_time a) a
               | BACKTEST \<Rightarrow> hero_join (make_location BACKTEST MD (l_group home) (l_name home)) 0 (h_begin_time a) a
               | _ \<Rightarrow> a)
     in if l_mode home \<noteq> BACKTEST
        then let a2 = hero_join master_home_location 0 (h_begin_time a1) a1
             in (Inr (), if l_mode home = LIVE then checkin now pid a2 else a2)
        else m_on_start ms a1)"

text \<open>The subscription that starts the application has an error handler of its own, which only warns:
  what \<open>on_start\<close> did before it threw stays done.\<close>

definition start_app ::
    "'a apprentice_scheme app_methods \<Rightarrow> 'a apprentice_scheme \<Rightarrow> (herror + unit) \<times> 'a apprentice_scheme" where
  "start_app ms a = (case m_on_start ms (a\<lparr>a_started := True\<rparr>) of (_, a1) \<Rightarrow> (Inr (), a1))"

definition join_commands :: "message \<Rightarrow> 'a apprentice_scheme \<Rightarrow> 'a apprentice_scheme" where
  "join_commands e a =
    (if l_mode (h_home a) = LIVE \<and> \<not> a_registered a \<and> m_msg_type e = T_Register \<and> m_source e = uid master_home_location
     then (hero_join (master_commands_location (h_home a)) (get_live_home_uid a) (m_gen_time e) a)\<lparr>a_registered := True\<rparr>
     else a)"

definition on_channel :: "message \<Rightarrow> 'a hero_scheme \<Rightarrow> (herror + unit) \<times> 'a hero_scheme" where
  "on_channel e a = (case m_data e of ChannelData c \<Rightarrow> (Inr (), hero_register_channel c a) | _ \<Rightarrow> (Inl BadPayload, a))"

definition apprentice_subscriptions ::
    "'a apprentice_scheme app_methods \<Rightarrow> (message \<Rightarrow> 'a apprentice_scheme \<Rightarrow> (herror + unit) \<times> 'a apprentice_scheme) list" where
  "apprentice_subscriptions ms =
    [\<lambda>e a. (Inr (), join_commands e a), \<lambda>e a. (Inr (), a\<lparr>h_now := m_gen_time e\<rparr>),
     on_type T_Location (register_location_from_event ms), on_type T_Channel on_channel,
     on_type T_Register (register_location_from_event ms), on_type T_Deregister (deregister_location_from_event ms),
     on_type T_RequestWriteTo (m_on_write_to ms), on_type T_RequestReadFromPublic (m_on_read_from ms),
     on_type T_RequestReadFrom (m_on_read_from ms),
     on_type T_RequestStart (\<lambda>e a. if l_mode (h_home a) \<noteq> BACKTEST \<and> \<not> a_started a then start_app ms a else (Inr (), a))]"

text \<open>What an event does: it goes through the subscriptions in the order they were made, and no
  type of event has two that can throw.\<close>

definition apprentice_react ::
    "'a apprentice_scheme app_methods \<Rightarrow> message \<Rightarrow> 'a apprentice_scheme \<Rightarrow> (herror + unit) \<times> 'a apprentice_scheme" where
  "apprentice_react ms e a =
    (let k = m_msg_type e;
         a2 = (join_commands e a)\<lparr>h_now := m_gen_time e\<rparr>
     in if k = T_Location then register_location_from_event ms e a2
        else if k = T_Channel then on_channel e a2
        else if k = T_Register then register_location_from_event ms e a2
        else if k = T_Deregister then deregister_location_from_event ms e a2
        else if k = T_RequestWriteTo then m_on_write_to ms e a2
        else if k = T_RequestReadFromPublic \<or> k = T_RequestReadFrom then m_on_read_from ms e a2
        else if k = T_RequestStart \<and> l_mode (h_home a2) \<noteq> BACKTEST \<and> \<not> a_started a2 then start_app ms a2
        else (Inr (), a2))"

lemma join_commands_fields [simp]:
  "h_home (join_commands e a) = h_home a" "a_started (join_commands e a) = a_started a"
  "h_writers (join_commands e a) = h_writers a" "h_locations (join_commands e a) = h_locations a"
  "h_channels (join_commands e a) = h_channels a" "h_out (join_commands e a) = h_out a"
  "h_now (join_commands e a) = h_now a" "h_live (join_commands e a) = h_live a"
  "apprentice.more (join_commands e a) = apprentice.more a"
  by (simp_all add: join_commands_def hero_join_def)

lemma publish_always:
  "publish_event e ((\<lambda>e h. (Inr (), f e h)) # ss) h =
    ((\<lambda>e h. (Inr (), f e h)) # fst (publish_event e ss (f e h)), snd (publish_event e ss (f e h)))"
  by (rule publish_event_returns) simp

text \<open>The type an event must have to be given to the subscriptions.\<close>

definition apprentice_types :: "i32 option list" where
  "apprentice_types = [None, None, Some T_Location, Some T_Channel, Some T_Register, Some T_Deregister,
     Some T_RequestWriteTo, Some T_RequestReadFromPublic, Some T_RequestReadFrom, Some T_RequestStart]"

lemma publish_apprentice:
  "publish_event e (apprentice_subscriptions ms) a =
    (case apprentice_react ms e a of
       (Inr _, a') \<Rightarrow> (apprentice_subscriptions ms, a')
     | (Inl _, a') \<Rightarrow> (map snd (filter (\<lambda>(k, s). k \<noteq> Some (m_msg_type e)) (zip apprentice_types (apprentice_subscriptions ms))),
                   signal_stop a'))"
proof -
  obtain r a' where r: "apprentice_react ms e a = (r, a')" by force
  consider "m_msg_type e = T_Location" | "m_msg_type e = T_Channel" | "m_msg_type e = T_Register"
    | "m_msg_type e = T_Deregister" | "m_msg_type e = T_RequestWriteTo" | "m_msg_type e = T_RequestReadFromPublic"
    | "m_msg_type e = T_RequestReadFrom" | "m_msg_type e = T_RequestStart"
    | "m_msg_type e \<notin> {T_Location, T_Channel, T_Register, T_Deregister, T_RequestWriteTo, T_RequestReadFromPublic,
        T_RequestReadFrom, T_RequestStart}"
    by auto
  then show ?thesis
    by cases (use r in \<open>cases r; auto simp: apprentice_subscriptions_def apprentice_types_def apprentice_react_def Let_def
      publish_always publish_passes publish_hits publish_fails start_app_def system_codes split: if_splits prod.splits\<close>)+
qed

end
