(* ===== verification/MasterProps.thy ===== *)
theory MasterProps
  imports Master
begin

text \<open>
  Properties of the master: its well-formedness (every application has a writer, every recorded
  command location is registered, every timer has a writer to fire into), what registration and
  the requests write to whom, and how often a timer fires.
\<close>

section \<open>Well-formedness\<close>

definition master_wf :: "master \<Rightarrow> bool" where
  "master_wf m \<longleftrightarrow>
    (let ls = dom (map_of (h_locations m)); ws = dom (map_of (h_writers m)); cs = ran (map_of (app_locations m)) in
     0 \<in> ws \<and> (\<forall>u l. map_of (h_locations m) u = Some l \<longrightarrow> uid l = u) \<and>
     ls \<subseteq> ws \<union> cs \<and> cs \<subseteq> ls \<and> cs \<inter> ws = {} \<and> ws \<subseteq> insert 0 ls \<and>
     dom (map_of (timer_tasks m)) \<subseteq> ws)"

lemma has_dom: "has_location m u \<longleftrightarrow> u \<in> dom (map_of (h_locations m))" "has_writer m u \<longleftrightarrow> u \<in> dom (map_of (h_writers m))"
  by (auto simp: has_location_def has_writer_def)

lemma master_wfD:
  assumes "master_wf m"
  shows "has_writer m 0" "map_of (h_locations m) u = Some l \<Longrightarrow> uid l = u"
    "has_location m u \<Longrightarrow> u \<notin> ran (map_of (app_locations m)) \<Longrightarrow> has_writer m u"
    "u \<in> ran (map_of (app_locations m)) \<Longrightarrow> has_location m u"
    "u \<in> ran (map_of (app_locations m)) \<Longrightarrow> \<not> has_writer m u"
    "has_writer m u \<Longrightarrow> u \<noteq> 0 \<Longrightarrow> has_location m u"
    "u \<in> dom (map_of (timer_tasks m)) \<Longrightarrow> has_writer m u"
  using assms unfolding master_wf_def Let_def has_dom by blast+

text \<open>The hook of a subclass may write messages and keep its own state.\<close>

definition hook_ok :: "(message \<Rightarrow> location \<Rightarrow> master \<Rightarrow> master) \<Rightarrow> bool" where
  "hook_ok f \<longleftrightarrow> (\<forall>e l m. h_locations (f e l m) = h_locations m \<and> h_writers (f e l m) = h_writers m \<and>
     app_locations (f e l m) = app_locations m \<and> timer_tasks (f e l m) = timer_tasks m)"

text \<open>The identifiers a registration adds clash with none in use.\<close>

definition no_clash :: "message \<Rightarrow> master \<Rightarrow> bool" where
  "no_clash e m \<longleftrightarrow> (\<forall>j l. m_data e = JsonData j \<longrightarrow> location_of_json j = Inr l \<longrightarrow>
     uid l \<noteq> 0 \<and> uid (app_master_location (uid l)) \<noteq> uid l \<and>
     \<not> has_writer m (uid (app_master_location (uid l))))"

lemma master_fields [simp]:
  "app_locations (write_msg w t k p m) = app_locations m" "timer_tasks (write_msg w t k p m) = timer_tasks m"
  "app_locations (hero_join l d t m) = app_locations m" "timer_tasks (hero_join l d t m) = timer_tasks m"
  "app_locations (hero_disjoin u m) = app_locations m" "timer_tasks (hero_disjoin u m) = timer_tasks m"
  "app_locations (register_location l m) = app_locations m" "timer_tasks (register_location l m) = timer_tasks m"
  "app_locations (deregister_location u m) = app_locations m" "timer_tasks (deregister_location u m) = timer_tasks m"
  "app_locations (hero_register_channel c m) = app_locations m" "timer_tasks (hero_register_channel c m) = timer_tasks m"
  "app_locations (deregister_channel_by_source u m) = app_locations m" "timer_tasks (deregister_channel_by_source u m) = timer_tasks m"
  for m :: master
  by (simp_all add: write_msg_def hero_join_def hero_disjoin_def register_location_def deregister_location_def
      hero_register_channel_def deregister_channel_by_source_def)

lemma master_fields_require [simp]:
  "app_locations (snd (require_write_to s t d m)) = app_locations m"
  "timer_tasks (snd (require_write_to s t d m)) = timer_tasks m"
  "app_locations (snd (require_read_from d t s pub m)) = app_locations m"
  "timer_tasks (snd (require_read_from d t s pub m)) = timer_tasks m"
  for m :: master
  by (simp_all add: require_write_to_def require_read_from_def get_location_def get_writer_def Let_def split: option.splits)

lemma master_wf_cong:
  assumes "h_locations m' = h_locations m" "h_writers m' = h_writers m"
    "app_locations m' = app_locations m" "timer_tasks m' = timer_tasks m"
  shows "master_wf m' = master_wf m"
  using assms by (simp add: master_wf_def has_location_def has_writer_def)

lemma write_locations_frame [simp]:
  "h_out (write_locations w t ls m) = h_out m @ map (\<lambda>l. (w, t, T_Location, JsonData (json_of (location_json (snd l))))) ls"
  "h_locations (write_locations w t ls m) = h_locations m" "h_writers (write_locations w t ls m) = h_writers m"
  "h_channels (write_locations w t ls m) = h_channels m" "h_joined (write_locations w t ls m) = h_joined m"
  "app_locations (write_locations w t ls m) = app_locations m" "timer_tasks (write_locations w t ls m) = timer_tasks m"
  unfolding write_locations_def by (induction ls arbitrary: m) simp_all

lemma write_channels_frame [simp]:
  "h_out (write_channels w t cs m) = h_out m @ map (\<lambda>c. (w, t, T_Channel, ChannelData (snd c))) cs"
  "h_locations (write_channels w t cs m) = h_locations m" "h_writers (write_channels w t cs m) = h_writers m"
  "h_channels (write_channels w t cs m) = h_channels m" "h_joined (write_channels w t cs m) = h_joined m"
  "app_locations (write_channels w t cs m) = app_locations m" "timer_tasks (write_channels w t cs m) = timer_tasks m"
  unfolding write_channels_def by (induction cs arbitrary: m) simp_all

section \<open>Registration\<close>

lemma joined_hero_join: "h_joined h = h_joined h' \<Longrightarrow> h_joined (hero_join l d t h) = h_joined (hero_join l d t h')"
  by (simp add: hero_join_def)

text \<open>The tables after the registration of a new application: its command location is the one of
  its first registration.\<close>

definition add_app :: "location \<Rightarrow> master \<Rightarrow> master" where
  "add_app l m =
    (case map_of (app_locations m) (uid l) of
       Some _ \<Rightarrow> register_location l m
     | None \<Rightarrow> register_location l ((register_location (app_master_location (uid l)) m)
         \<lparr>app_locations := AList.update (uid l) (uid (app_master_location (uid l))) (app_locations m)\<rparr>))"

definition command_location :: "location \<Rightarrow> master \<Rightarrow> location" where
  "command_location l m = the (map_of (h_locations (add_app l m)) (the (map_of (app_locations (add_app l m)) (uid l))))"

lemma add_app_frame [simp]: "h_writers (add_app l m) = h_writers m" "h_out (add_app l m) = h_out m"
  "h_channels (add_app l m) = h_channels m" "h_joined (add_app l m) = h_joined m" "timer_tasks (add_app l m) = timer_tasks m"
  by (simp_all add: add_app_def register_location_def split: option.splits)

lemma command_location_known:
  assumes "master_wf m" "\<not> has_location m (uid l)" "uid (app_master_location (uid l)) \<noteq> uid l"
  shows "\<exists>u. map_of (app_locations (add_app l m)) (uid l) = Some u \<and> u \<noteq> uid l \<and>
    map_of (h_locations (add_app l m)) u = Some (command_location l m) \<and> uid (command_location l m) = u"
proof (cases "map_of (app_locations m) (uid l)")
  case None
  then show ?thesis using assms(3)
    by (simp add: command_location_def add_app_def register_location_def update_conv')
next
  case (Some u)
  then have u: "u \<in> ran (map_of (app_locations m))" by (rule ranI)
  with assms(1) have "has_location m u" by (rule master_wfD)
  then have ne: "u \<noteq> uid l" using assms(2) by auto
  from \<open>has_location m u\<close> obtain ml where ml: "map_of (h_locations m) u = Some ml"
    by (auto simp: has_location_def)
  then have "uid ml = u" using assms(1) by (rule master_wfD(2) [rotated])
  with ml ne Some show ?thesis
    by (simp add: command_location_def add_app_def register_location_def update_conv')
qed

lemma add_app_wf:
  assumes wf: "master_wf m" and new: "\<not> has_location m (uid l)"
    and "uid (app_master_location (uid l)) \<noteq> uid l" "\<not> has_writer m (uid (app_master_location (uid l)))"
    and m': "h_locations m' = h_locations (add_app l m)" "h_writers m' = AList.update (uid l) w (h_writers m)"
      "app_locations m' = app_locations (add_app l m)" "timer_tasks m' = timer_tasks m"
  shows "master_wf m'"
proof -
  have nr: "uid l \<notin> ran (map_of (app_locations m))" using new master_wfD(4) [OF wf] by blast
  show ?thesis
  proof (cases "map_of (app_locations m) (uid l)")
    case None
    then have ran: "ran (map_of (app_locations m')) = insert (uid (app_master_location (uid l))) (ran (map_of (app_locations m)))"
      using m' by (simp add: add_app_def register_location_def update_conv')
    have loc: "map_of (h_locations m') = (map_of (h_locations m))
        (uid (app_master_location (uid l)) \<mapsto> app_master_location (uid l), uid l \<mapsto> l)"
      using None m' by (simp add: add_app_def register_location_def update_conv')
    have wr: "map_of (h_writers m') = (map_of (h_writers m))(uid l \<mapsto> w)" using m' by (simp add: update_conv')
    have keys: "\<forall>u x. map_of (h_locations m') u = Some x \<longrightarrow> uid x = u"
      using wf unfolding loc master_wf_def Let_def by auto
    show ?thesis using wf nr new assms(3,4) unfolding master_wf_def Let_def
      by (intro conjI keys, unfold has_dom ran loc wr m'(4) dom_fun_upd) (simp_all, blast+)
  next
    case (Some u)
    then have ap: "app_locations m' = app_locations m" using m' by (simp add: add_app_def)
    have loc: "map_of (h_locations m') = (map_of (h_locations m))(uid l \<mapsto> l)"
      using Some m' by (simp add: add_app_def register_location_def update_conv')
    have wr: "map_of (h_writers m') = (map_of (h_writers m))(uid l \<mapsto> w)" using m' by (simp add: update_conv')
    have keys: "\<forall>u x. map_of (h_locations m') u = Some x \<longrightarrow> uid x = u"
      using wf unfolding loc master_wf_def Let_def by auto
    show ?thesis using wf nr new unfolding master_wf_def Let_def
      by (intro conjI keys, unfold has_dom ap loc wr m'(4) dom_fun_upd) (simp_all, blast+)
  qed
qed

text \<open>A registration of a new application that decodes never fails, and ends with these tables.\<close>

definition introduction :: "location \<Rightarrow> json \<Rightarrow> i64 \<Rightarrow> master \<Rightarrow> (journal_key \<times> i64 \<times> i32 \<times> payload) list" where
  "introduction l j t m =
    (let w = (command_location l m, uid l) in
     [(the (map_of (h_writers m) 0), t, T_Register, JsonData j), (w, t, T_SessionStart, NoData),
      (w, t, T_RequestWriteTo, WriteToData 0), (w, t, T_RequestWriteTo, WriteToData (uid (command_location l m)))]
     @ map (\<lambda>x. (w, t, T_Location, JsonData (json_of (location_json (snd x))))) (h_locations (add_app l m))
     @ map (\<lambda>c. (w, t, T_Channel, ChannelData (snd c))) (h_channels m))"

lemma register_app_new:
  assumes wf: "master_wf m" and e: "m_data e = JsonData j" "location_of_json j = Inr l"
    and new: "\<not> has_location m (uid l)" and nc: "no_clash e m"
  shows "\<exists>m13. h_locations m13 = h_locations (add_app l m) \<and> app_locations m13 = app_locations (add_app l m) \<and>
    h_writers m13 = AList.update (uid l) (command_location l m, uid l) (h_writers m) \<and>
    timer_tasks m13 = timer_tasks m \<and> h_channels m13 = h_channels m \<and>
    h_joined m13 = h_joined (hero_join l (uid (command_location l m)) now (hero_join l 0 now m)) \<and>
    h_out m13 = h_out m @ introduction l j (m_gen_time e) m \<and>
    register_app f now e m =
      (Inr (), write_msg (command_location l m, uid l) (m_gen_time e) T_RequestStart NoData (f e l m13))"
proof -
  have c: "uid l \<noteq> 0" "uid (app_master_location (uid l)) \<noteq> uid l"
    using nc e by (auto simp: no_clash_def)
  obtain u where u: "map_of (app_locations (add_app l m)) (uid l) = Some u" "u \<noteq> uid l"
    "map_of (h_locations (add_app l m)) u = Some (command_location l m)" "uid (command_location l m) = u"
    using command_location_known [OF wf new c(2)] by blast
  obtain w0 where w0: "map_of (h_writers m) 0 = Some w0" using master_wfD(1) [OF wf] by (auto simp: has_writer_def)
  have eq: "register_location l (case map_of (app_locations m) (uid l) of
      Some x \<Rightarrow> m
    | None \<Rightarrow> let ml = app_master_location (uid l) in
        (register_location ml m)\<lparr>app_locations := AList.update (uid l) (uid ml) (app_locations m)\<rparr>) = add_app l m"
    by (simp add: add_app_def Let_def split: option.splits)
  have eq2: "app_locations (case map_of (app_locations m) (uid l) of
      Some x \<Rightarrow> m
    | None \<Rightarrow> let ml = app_master_location (uid l) in
        (register_location ml m)\<lparr>app_locations := AList.update (uid l) (uid ml) (app_locations m)\<rparr>) = app_locations (add_app l m)"
    by (simp add: add_app_def Let_def split: option.splits)
  define w where "w = (command_location l m, uid l)"
  define m5 where "m5 = hero_join l u now (hero_join l 0 now
    ((add_app l m)\<lparr>h_writers := AList.update (uid l) w (h_writers m)\<rparr>))"
  have wr5: "map_of (h_writers m5) = (map_of (h_writers m))(uid l \<mapsto> w)" by (simp add: m5_def update_conv')
  have ll: "map_of (h_locations m5) (uid l) = Some l"
    by (simp add: m5_def add_app_def register_location_def update_conv' split: option.splits)
  have lu: "map_of (h_locations m5) u = Some (command_location l m)" using u by (simp add: m5_def)
  define m9 where "m9 = write_msg w (m_gen_time e) T_SessionStart NoData
    (write_msg w0 (m_gen_time e) T_Register (JsonData j) m5)"
  define m11 where "m11 = write_msg w (m_gen_time e) T_RequestWriteTo (WriteToData u)
    (write_msg w (m_gen_time e) T_RequestWriteTo (WriteToData 0) m9)"
  have r1: "require_write_to (uid l) (m_gen_time e) 0 m9 =
      (Inr (), write_msg w (m_gen_time e) T_RequestWriteTo (WriteToData 0) m9)"
    by (rule require_write_to_known) (use ll wr5 in \<open>simp_all add: m9_def\<close>)
  have r2: "require_write_to (uid l) (m_gen_time e) u (write_msg w (m_gen_time e) T_RequestWriteTo (WriteToData 0) m9) = (Inr (), m11)"
    unfolding m11_def by (rule require_write_to_known) (use ll lu wr5 in \<open>simp_all add: m9_def has_location_def\<close>)
  define m13 where "m13 = write_channels w (m_gen_time e) (h_channels m11) (write_locations w (m_gen_time e) (h_locations m11) m11)"
  have "register_app f now e m = (Inr (), write_msg w (m_gen_time e) T_RequestStart NoData (f e l m13))"
    using e new u w0 c(1) wr5 r1 r2 eq eq2
    by (simp add: register_app_def get_location_eq writer_at_eq open_writer_at_def Let_def m13_def
        flip: w_def m5_def m9_def)
  moreover have "h_locations m13 = h_locations (add_app l m)" "app_locations m13 = app_locations (add_app l m)"
    "h_writers m13 = AList.update (uid l) (command_location l m, uid l) (h_writers m)"
    "timer_tasks m13 = timer_tasks m" "h_channels m13 = h_channels m"
    by (simp_all add: m13_def m11_def m9_def m5_def w_def)
  moreover have "h_joined m13 = h_joined (hero_join l (uid (command_location l m)) now (hero_join l 0 now m))"
    by (simp add: m13_def m11_def m9_def m5_def u(4)) (rule joined_hero_join, rule joined_hero_join, simp)
  moreover have "h_out m13 = h_out m @ introduction l j (m_gen_time e) m"
    by (simp add: m13_def m11_def m9_def m5_def introduction_def Let_def u(4) w0 flip: w_def)
  ultimately show ?thesis unfolding w_def by blast
qed

section \<open>Requests keep the tables\<close>

definition same_tables :: "master \<Rightarrow> master \<Rightarrow> bool" where
  "same_tables m m' \<longleftrightarrow> h_locations m' = h_locations m \<and> h_writers m' = h_writers m \<and>
    app_locations m' = app_locations m \<and> timer_tasks m' = timer_tasks m"

lemma same_tables_refl [simp]: "same_tables m m"
  by (simp add: same_tables_def)

lemma same_tables_step:
  assumes "same_tables m h"
  shows "same_tables m (snd (require_write_to s t d h))" "same_tables m (snd (require_read_from d t s pub h))"
    "same_tables m (hero_join l d t h)" "same_tables m (write_msg w t k p h)"
    "same_tables m (snd (get_location u h))" "same_tables m (snd (writer_at u h))"
    "same_tables m (hero_register_channel c h)"
  using assms by (simp_all add: same_tables_def get_location_def writer_at_def split: option.split)

lemma same_tables_bindX:
  assumes "same_tables m (snd r)" "\<And>x m1. same_tables m m1 \<Longrightarrow> same_tables m (snd (f x m1))"
  shows "same_tables m (snd (bindX r f))"
  using assms by (cases "(r, f)" rule: bindX.cases) auto

lemma same_tables_pair: "same_tables m h \<Longrightarrow> same_tables m (snd (x, h))"
  by simp

lemmas same_tables_intros = same_tables_bindX same_tables_pair same_tables_step

lemma master_register_channel_tables:
  "same_tables m h \<Longrightarrow> same_tables m (snd (master_register_channel t c h))"
  unfolding master_register_channel_def by (intro same_tables_intros)

lemma on_request_write_to_tables: "same_tables m (snd (on_request_write_to e m))"
proof (cases "\<exists>d. m_data e = WriteToData d \<and> has_location m d")
  case True
  then obtain d where d: "m_data e = WriteToData d" "has_location m d" by blast
  show ?thesis unfolding on_request_write_to_def d payload.case if_P [OF d(2)]
    by (intro same_tables_intros master_register_channel_tables same_tables_refl)
qed (auto simp: on_request_write_to_def split: payload.split)

lemma on_request_read_from_tables: "same_tables m (snd (on_request_read_from e m))"
proof (cases "\<exists>s t. m_data e = ReadFromData s t \<and> has_location m s")
  case True
  then obtain s t where s: "m_data e = ReadFromData s t" "has_location m s" by blast
  show ?thesis unfolding on_request_read_from_def s payload.case if_P [OF s(2)]
    by (intro same_tables_intros master_register_channel_tables same_tables_refl)
qed (auto simp: on_request_read_from_def split: payload.split)

lemma on_request_read_from_public_tables: "same_tables m (snd (on_request_read_from_public e m))"
  by (simp add: on_request_read_from_public_def same_tables_step split: payload.split)

lemma same_tables_wf: "same_tables m m' \<Longrightarrow> master_wf m \<Longrightarrow> master_wf m'"
  using master_wf_cong [of m' m] by (simp add: same_tables_def)

lemma register_app_cases:
  assumes wf: "master_wf m" and nc: "no_clash e m" and hook: "hook_ok f"
  shows "master_wf (snd (register_app f now e m))"
proof (cases "\<exists>j l. m_data e = JsonData j \<and> location_of_json j = Inr l \<and> \<not> has_location m (uid l)")
  case True
  then obtain j l where e: "m_data e = JsonData j" "location_of_json j = Inr l" "\<not> has_location m (uid l)" by blast
  obtain m13 where m13: "h_locations m13 = h_locations (add_app l m)" "app_locations m13 = app_locations (add_app l m)"
    "h_writers m13 = AList.update (uid l) (command_location l m, uid l) (h_writers m)" "timer_tasks m13 = timer_tasks m"
    and r: "register_app f now e m =
      (Inr (), write_msg (command_location l m, uid l) (m_gen_time e) T_RequestStart NoData (f e l m13))"
    using register_app_new [OF wf e nc] by blast
  show ?thesis unfolding r snd_conv
    by (rule add_app_wf [OF wf e(3)])
       (use nc e hook m13 in \<open>auto simp: no_clash_def hook_ok_def\<close>)
next
  case False
  then have "snd (register_app f now e m) = m"
    by (auto simp: register_app_def Let_def split: payload.split sum.split)
  then show ?thesis using wf by simp
qed

lemma on_time_request_wf:
  assumes "master_wf m" "has_writer m (m_source e)"
  shows "master_wf (snd (on_time_request now e m))"
  using assms by (auto simp: on_time_request_def Let_def master_wf_def has_dom update_conv' split: payload.split)

section \<open>Timers\<close>

definition due_messages :: "i64 \<Rightarrow> master \<Rightarrow> u32 \<Rightarrow> (i32 \<times> timer_task) list \<Rightarrow> (journal_key \<times> i64 \<times> i32 \<times> payload) list" where
  "due_messages now m app ts =
    map (\<lambda>_. (the (map_of (h_writers m) app), 0, T_Time, NoData)) (filter (\<lambda>kt. tt_checkpoint (snd kt) \<le> now) ts)"

definition tasks_left :: "i64 \<Rightarrow> (i32 \<times> timer_task) list \<Rightarrow> (i32 \<times> timer_task) list" where
  "tasks_left now ts = concat (map (\<lambda>kt. case snd (run_task now (snd kt)) of None \<Rightarrow> [] | Some t \<Rightarrow> [(fst kt, t)]) ts)"

lemma run_app_tasks_known:
  assumes "map_of (h_writers m) app = Some w"
  shows "run_app_tasks now app ts m = (Inr (tasks_left now ts), m\<lparr>h_out := h_out m @ due_messages now m app ts\<rparr>)"
  using assms
proof (induction ts arbitrary: m)
  case (Cons kt ts)
  obtain k t where kt: "kt = (k, t)" by (cases kt)
  show ?case
  proof (cases "tt_checkpoint t \<le> now")
    case True
    have w: "map_of (h_writers (write_msg w 0 T_Time NoData m)) app = Some w" using Cons.prems by simp
    show ?thesis using True Cons.prems Cons.IH [OF w]
      by (auto simp: kt run_task_def writer_at_eq tasks_left_def due_messages_def write_msg_def Let_def split: option.split)
  next
    case False
    then show ?thesis using Cons.prems Cons.IH [OF Cons.prems]
      by (simp add: kt run_task_def tasks_left_def due_messages_def)
  qed
qed (simp add: tasks_left_def due_messages_def)

lemma run_timers_known:
  assumes "fst ` set tasks \<subseteq> dom (map_of (h_writers m))"
  shows "run_timers now tasks m =
    (Inr (map (\<lambda>(app, ts). (app, tasks_left now ts)) tasks),
     m\<lparr>h_out := h_out m @ concat (map (\<lambda>(app, ts). due_messages now m app ts) tasks)\<rparr>)"
  using assms
proof (induction tasks arbitrary: m)
  case (Cons a tasks)
  obtain app ts where a: "a = (app, ts)" by (cases a)
  obtain w where w: "map_of (h_writers m) app = Some w" using Cons.prems a by auto
  have "fst ` set tasks \<subseteq> dom (map_of (h_writers (m\<lparr>h_out := h_out m @ due_messages now m app ts\<rparr>)))"
    using Cons.prems by simp
  from Cons.IH [OF this] show ?case
    by (simp add: a run_app_tasks_known [OF w] due_messages_def)
qed simp

text \<open>One task over a sequence of readings of the clock: the readings at which it fires.\<close>

fun task_run :: "i64 list \<Rightarrow> timer_task option \<Rightarrow> i64 list \<times> timer_task option" where
  "task_run [] t = ([], t)"
| "task_run (n # ns) None = ([], None)"
| "task_run (n # ns) (Some t) =
    (case run_task n t of (fires, t') \<Rightarrow> (case task_run ns t' of (fs, fin) \<Rightarrow> (if fires then n # fs else fs, fin)))"

lemma task_run_None [simp]: "task_run ns None = ([], None)"
  by (cases ns) simp_all

lemma task_run_bounds:
  assumes "tt_repeat_count t < tt_repeat_limit t" "task_run ns (Some t) = (fs, fin)"
  shows "int (length fs) + tt_repeat_count t \<le> tt_repeat_limit t \<and>
    (\<forall>k < length fs. tt_checkpoint t + int k * tt_duration t \<le> fs ! k) \<and>
    (fin = None \<longleftrightarrow> int (length fs) + tt_repeat_count t = tt_repeat_limit t)"
  using assms
proof (induction ns arbitrary: t fs)
  case (Cons n ns)
  show ?case
  proof (cases "tt_checkpoint t \<le> n")
    case False
    then have "task_run ns (Some t) = (fs, fin)" using Cons.prems(2) by (auto simp: run_task_def split: prod.splits)
    then show ?thesis using Cons.IH [OF Cons.prems(1)] by simp
  next
    case fire: True
    define t' where "t' = t\<lparr>tt_checkpoint := tt_checkpoint t + tt_duration t, tt_repeat_count := tt_repeat_count t + 1\<rparr>"
    show ?thesis
    proof (cases "tt_repeat_limit t \<le> tt_repeat_count t + 1")
      case True
      then have "fs = [n]" "fin = None" using fire Cons.prems(2) by (auto simp: run_task_def Let_def)
      then show ?thesis using fire True Cons.prems(1) by simp
    next
      case False
      then obtain fs' where fs': "task_run ns (Some t') = (fs', fin)" "fs = n # fs'"
        using fire Cons.prems(2) by (auto simp: run_task_def Let_def t'_def split: prod.splits)
      have lt: "tt_repeat_count t' < tt_repeat_limit t'" using False by (simp add: t'_def)
      have IH: "int (length fs') + tt_repeat_count t' \<le> tt_repeat_limit t'"
        "\<forall>k < length fs'. tt_checkpoint t' + int k * tt_duration t' \<le> fs' ! k"
        "fin = None \<longleftrightarrow> int (length fs') + tt_repeat_count t' = tt_repeat_limit t'"
        using Cons.IH [OF lt fs'(1)] by simp_all
      have "\<forall>k < length fs. tt_checkpoint t + int k * tt_duration t \<le> fs ! k"
      proof (intro allI impI)
        fix k assume k: "k < length fs"
        show "tt_checkpoint t + int k * tt_duration t \<le> fs ! k"
        proof (cases k)
          case (Suc i)
          then show ?thesis using IH(2) k fs'(2) by (auto simp: t'_def algebra_simps)
        qed (use fire fs'(2) in simp)
      qed
      moreover have "tt_repeat_limit t' = tt_repeat_limit t" "int (length fs') + tt_repeat_count t' = int (length fs) + tt_repeat_count t"
        using fs'(2) by (simp_all add: t'_def)
      ultimately show ?thesis using IH(1,3) by simp
    qed
  qed
qed auto

lemma task_run_all:
  assumes "tt_repeat_count t < tt_repeat_limit t" "0 \<le> tt_duration t"
    "tt_repeat_limit t - tt_repeat_count t \<le>
      int (length (filter (\<lambda>n. tt_checkpoint t + (tt_repeat_limit t - tt_repeat_count t - 1) * tt_duration t \<le> n) ns))"
  shows "snd (task_run ns (Some t)) = None"
  using assms
proof (induction ns arbitrary: t)
  case (Cons n ns)
  let ?K = "tt_checkpoint t + (tt_repeat_limit t - tt_repeat_count t - 1) * tt_duration t"
  have ck: "tt_checkpoint t \<le> ?K" using Cons.prems(1,2) by simp
  show ?case
  proof (cases "tt_checkpoint t \<le> n")
    case False
    then have "\<not> ?K \<le> n" using ck by linarith
    then have "snd (task_run ns (Some t)) = None" using Cons.IH [OF Cons.prems(1,2)] Cons.prems(3) by simp
    then show ?thesis using False by (auto simp: run_task_def split: prod.split)
  next
    case fire: True
    define t' where "t' = t\<lparr>tt_checkpoint := tt_checkpoint t + tt_duration t, tt_repeat_count := tt_repeat_count t + 1\<rparr>"
    show ?thesis
    proof (cases "tt_repeat_limit t \<le> tt_repeat_count t + 1")
      case True
      then show ?thesis using fire by (simp add: run_task_def Let_def)
    next
      case False
      have K: "tt_checkpoint t' + (tt_repeat_limit t' - tt_repeat_count t' - 1) * tt_duration t' = ?K"
        by (simp add: t'_def algebra_simps)
      have "snd (task_run ns (Some t')) = None"
        by (rule Cons.IH, unfold K) (use False Cons.prems(2,3) in \<open>auto simp: t'_def split: if_splits\<close>)
      then show ?thesis using fire False by (auto simp: run_task_def Let_def t'_def split: prod.split)
    qed
  qed
qed simp

section \<open>A concrete application\<close>

definition demo_app :: location where
  "demo_app = make_location LIVE STRATEGY ''a'' ''b''"

lemma uid_demo_app: "uid demo_app = 2458552209"
  by (simp add: demo_app_def uid_def uname_def make_location_def hash_eval)

lemma uid_demo_command: "uid (app_master_location 2458552209) = 4202583218"
proof -
  have "hex8 2458552209 = ''928a8791''" by (simp add: hex8_def hex_digit_def upt_rec)
  then show ?thesis by (simp add: uid_def uname_def make_location_def app_master_location_def hash_eval)
qed

definition demo_register :: message where
  "demo_register = \<lparr>m_gen_time = 3, m_trigger_time = 0, m_msg_type = T_Register, m_source = 2458552209, m_dest = 0,
     m_data = JsonData (json_of (location_json demo_app))\<rparr>"

lemma location_json_roundtrip: "location_of_json (json_of (location_json l)) = Inr l"
  by (cases "l_mode l"; cases "l_category l")
     (simp_all add: location_of_json_def location_json_def jgetters json_simps JEnum_def enum_at_def make_location_def)

section \<open>Properties\<close>

text \<open>A master that has just started, and an application's registration.\<close>

definition fresh_master :: master where
  "fresh_master = new_master master_location 0 0"

lemma fresh_master_wf: "master_wf fresh_master"
  by (simp add: fresh_master_def new_master_def new_hero_def master_wf_def hero.extend_def write_msg_def)

text \<open>C11: registering an application the master does not know never fails.  It is announced on the
  public journal; then the application gets, on its own journal and in this order, the start of
  its session, the requests to open its public journal and its journal to the master, every known
  location, every channel, and the signal to start.  The master joins both journals, and a second
  registration changes nothing.\<close>

theorem registration_introduces:
  assumes "master_wf m" "m_data e = JsonData j" "location_of_json j = Inr l" "\<not> has_location m (uid l)" "no_clash e m"
  shows "\<exists>m'. register_app (\<lambda>_ _ m. m) now e m = (Inr (), m') \<and>
    h_out m' = h_out m @ introduction l j (m_gen_time e) m @
      [((command_location l m, uid l), m_gen_time e, T_RequestStart, NoData)] \<and>
    has_location m' (uid l) \<and> map_of (h_writers m') (uid l) = Some (command_location l m, uid l) \<and>
    (\<forall>d \<in> {0, uid (command_location l m)}. \<exists>x \<in> set (h_joined m'). uid (fst (fst x)) = uid l \<and> snd (fst x) = d) \<and>
    register_app (\<lambda>_ _ m. m) now' e m' = (Inr (), m')"
proof -
  obtain m13 where m13: "h_locations m13 = h_locations (add_app l m)"
    "h_writers m13 = AList.update (uid l) (command_location l m, uid l) (h_writers m)"
    "h_joined m13 = h_joined (hero_join l (uid (command_location l m)) now (hero_join l 0 now m))"
    "h_out m13 = h_out m @ introduction l j (m_gen_time e) m"
    "register_app (\<lambda>_ _ m. m) now e m =
      (Inr (), write_msg (command_location l m, uid l) (m_gen_time e) T_RequestStart NoData m13)"
    using register_app_new [OF assms, where f = "\<lambda>_ _ m. m"] by blast
  let ?m = "write_msg (command_location l m, uid l) (m_gen_time e) T_RequestStart NoData m13"
  have loc: "has_location ?m (uid l)" using m13(1)
    by (simp add: has_location_def add_app_def register_location_def update_conv' split: option.splits)
  then have "register_app (\<lambda>_ _ m. m) now' e ?m = (Inr (), ?m)" using assms(2,3) by (simp add: register_app_def Let_def)
  moreover have "map_of (h_writers ?m) (uid l) = Some (command_location l m, uid l)" using m13(2) by (simp add: update_conv')
  moreover have "\<forall>d \<in> {0, uid (command_location l m)}. \<exists>x \<in> set (h_joined ?m). uid (fst (fst x)) = uid l \<and> snd (fst x) = d"
    using m13(3) by (force simp: hero_join_def)
  ultimately show ?thesis using loc m13(4,5) by simp
qed

theorem registration_introduces_witness:
  "\<exists>m'. register_app (\<lambda>_ _ m. m) 7 demo_register fresh_master = (Inr (), m') \<and> has_location m' (uid demo_app) \<and>
    register_app (\<lambda>_ _ m. m) 8 demo_register m' = (Inr (), m')"
proof -
  have "no_clash demo_register fresh_master"
    by (simp add: no_clash_def demo_register_def location_json_roundtrip uid_demo_app uid_demo_command
        fresh_master_def new_master_def new_hero_def hero.extend_def has_writer_def write_msg_def)
  moreover have "\<not> has_location fresh_master (uid demo_app)"
    by (simp add: fresh_master_def new_master_def new_hero_def hero.extend_def has_location_def write_msg_def)
  moreover have "m_data demo_register = JsonData (json_of (location_json demo_app))" by (simp add: demo_register_def)
  ultimately show ?thesis
    using registration_introduces [OF fresh_master_wf _ location_json_roundtrip, of demo_register demo_app 7 8] by blast
qed

lemma update_new: "k \<notin> fst ` set xs \<Longrightarrow> AList.update k v xs = xs @ [(k, v)]"
  by (induction xs) auto

text \<open>A task that is due, of an application without a writer, brings the master down.\<close>

lemma run_timers_no_writer:
  assumes "fst ` set xs \<subseteq> dom (map_of (h_writers m))" "map_of (h_writers m) app = None" "tt_checkpoint task \<le> now"
  shows "fst (run_timers now (xs @ [(app, [(i, task)])]) m) = Inl (NullWriter app)"
  using assms
proof (induction xs arbitrary: m)
  case Nil
  then show ?case by (simp add: run_task_def Let_def writer_at_def)
next
  case (Cons x xs)
  obtain a ts where x: "x = (a, ts)" by (cases x)
  have "fst ` set [x] \<subseteq> dom (map_of (h_writers m))" using Cons.prems(1) by simp
  note k = run_timers_known [OF this, of now, unfolded x]
  then obtain m1 where m1: "run_app_tasks now a ts m = (Inr (tasks_left now ts), m1)" "h_writers m1 = h_writers m"
    by (auto simp: bindX_Inr_iff)
  then have "fst (run_timers now (xs @ [(app, [(i, task)])]) m1) = Inl (NullWriter app)"
    using Cons by simp
  then show ?case using m1(1) x by (cases "run_timers now (xs @ [(app, [(i, task)])]) m1") simp
qed

lemma on_time_request_no_writer:
  assumes wf: "master_wf m" and e: "m_data e = TimeRequestData i d r" "\<not> has_writer m (m_source e)"
  shows "\<not> master_wf (snd (on_time_request now e m)) \<and>
    (\<forall>later \<ge> now + d. fst (run_timers later (timer_tasks (snd (on_time_request now e m))) (snd (on_time_request now e m))) =
      Inl (NullWriter (m_source e)))"
proof -
  let ?s = "m_source e" and ?task = "\<lparr>tt_checkpoint = now + d, tt_duration = d, tt_repeat_limit = r, tt_repeat_count = 0\<rparr>"
  have keys: "fst ` set (timer_tasks m) \<subseteq> dom (map_of (h_writers m))"
    using wf by (simp add: master_wf_def Let_def dom_map_of_conv_image_fst)
  have none: "map_of (h_writers m) ?s = None" using e(2) unfolding has_writer_def by blast
  then have fresh: "?s \<notin> fst ` set (timer_tasks m)" using keys by auto
  have m1: "snd (on_time_request now e m) = m\<lparr>timer_tasks := timer_tasks m @ [(?s, [(i, ?task)])]\<rparr>"
    using fresh by (simp add: on_time_request_def e(1) update_new map_of_eq_None_iff [THEN iffD2] split: option.split)
  have "fst (run_timers later (timer_tasks m @ [(?s, [(i, ?task)])]) (m\<lparr>timer_tasks := timer_tasks m @ [(?s, [(i, ?task)])]\<rparr>)) =
      Inl (NullWriter ?s)" if "now + d \<le> later" for later
    by (rule run_timers_no_writer) (use keys none that in simp_all)
  moreover have "\<not> master_wf (m\<lparr>timer_tasks := timer_tasks m @ [(?s, [(i, ?task)])]\<rparr>)"
    using none by (auto simp: master_wf_def Let_def)
  ultimately show ?thesis unfolding m1 by simp
qed

text \<open>C12: what an event asks for, and however its handling ends, leaves the master well formed (every
  registered application has a writer, every recorded command location is registered, and every
  application with a timer has a journal for its Time events), with one exception: a request for a timer
  from a source that has no writer is taken, and the first reading of the clock at which it is due ends in
  a null writer.  The hook of a subclass keeps the tables, and the identifiers of a new registration
  clash with none in use (hypotheses \<open>hook_ok\<close> and \<open>no_clash\<close>).\<close>

theorem react_preserves_wf:
  fixes now :: i64
  assumes "master_wf m" "hook_ok f" "no_clash e m"
  defines "stray \<equiv> m_msg_type e = T_TimeRequest \<and> (\<exists>i d r. m_data e = TimeRequestData i d r) \<and> \<not> has_writer m (m_source e)"
    and "m' \<equiv> snd (master_react f now e m)"
  shows "(master_wf m' \<longleftrightarrow> \<not> stray) \<and>
    (stray \<longrightarrow> (\<forall>i d r later. m_data e = TimeRequestData i d r \<longrightarrow> now + d \<le> later \<longrightarrow>
      fst (run_timers later (timer_tasks m') m') = Inl (NullWriter (m_source e))))"
proof (cases stray)
  case True
  then have m': "m' = snd (on_time_request now e m)"
    unfolding m'_def stray_def by (simp add: master_react_def system_codes)
  from True obtain i d r where e: "m_data e = TimeRequestData i d r" "\<not> has_writer m (m_source e)"
    unfolding stray_def by blast
  from on_time_request_no_writer [OF assms(1) this, of now] show ?thesis using True e(1) unfolding m' by auto
next
  case False
  have "master_wf (snd (on_time_request now e m))" if "m_msg_type e = T_TimeRequest"
  proof (cases "\<exists>i d r. m_data e = TimeRequestData i d r")
    case True
    then have "has_writer m (m_source e)" using False that unfolding stray_def by blast
    then show ?thesis using on_time_request_wf [OF assms(1)] by blast
  next
    case no: False
    then have "on_time_request now e m = (Inl BadPayload, m)"
      by (cases "m_data e") (simp_all add: on_time_request_def)
    then show ?thesis using assms(1) by simp
  qed
  then have "master_wf m'"
    unfolding m'_def using assms(1-3) same_tables_wf [OF on_request_write_to_tables] same_tables_wf [OF on_request_read_from_tables]
      same_tables_wf [OF on_request_read_from_public_tables] register_app_cases
    unfolding master_react_def by (auto split: if_splits)
  then show ?thesis using False by simp
qed

theorem react_preserves_wf_witness:
  "master_wf (snd (master_react (\<lambda>_ _ m. m) 5
     \<lparr>m_gen_time = 4, m_trigger_time = 0, m_msg_type = T_TimeRequest, m_source = 0, m_dest = 0,
      m_data = TimeRequestData 1 10 1\<rparr> fresh_master)) \<and>
   \<not> master_wf (snd (master_react (\<lambda>_ _ m. m) 5
     \<lparr>m_gen_time = 4, m_trigger_time = 0, m_msg_type = T_TimeRequest, m_source = 7, m_dest = 0,
      m_data = TimeRequestData 1 10 1\<rparr> fresh_master))"
proof -
  have "hook_ok (\<lambda>_ _ m. m)" by (simp add: hook_ok_def)
  moreover have "no_clash (e\<lparr>m_data := TimeRequestData 1 10 1\<rparr>) fresh_master" for e by (simp add: no_clash_def)
  moreover have "has_writer fresh_master 0" "\<not> has_writer fresh_master 7"
    by (simp_all add: fresh_master_def new_master_def new_hero_def hero.extend_def has_writer_def write_msg_def)
  ultimately show ?thesis
    using react_preserves_wf [OF fresh_master_wf, of "\<lambda>_ _ m. m" "\<lparr>m_gen_time = 4, m_trigger_time = 0, m_msg_type = T_TimeRequest,
        m_source = 0, m_dest = 0, m_data = TimeRequestData 1 10 1\<rparr>" 5]
      react_preserves_wf [OF fresh_master_wf, of "\<lambda>_ _ m. m" "\<lparr>m_gen_time = 4, m_trigger_time = 0, m_msg_type = T_TimeRequest,
        m_source = 7, m_dest = 0, m_data = TimeRequestData 1 10 1\<rparr>" 5]
    by (simp add: no_clash_def)
qed



text \<open>C14: a timer request for \<open>r\<close> repetitions every \<open>d\<close> nanoseconds, made at \<open>t\<close>, fires at most \<open>r\<close>
  times, the \<open>k\<close>-th time not before \<open>t + k * d\<close>; once the clock has been read \<open>r\<close> times from
  \<open>t + r * d\<close> on, it has fired \<open>r\<close> times and is gone.\<close>

theorem timer_fires_r_times:
  assumes "1 \<le> r" "0 \<le> d"
    and "task_run ns (Some \<lparr>tt_checkpoint = t + d, tt_duration = d, tt_repeat_limit = r, tt_repeat_count = 0\<rparr>) = (fs, fin)"
  shows "int (length fs) \<le> r \<and> (\<forall>k < length fs. t + int (Suc k) * d \<le> fs ! k) \<and>
    (r \<le> int (length (filter (\<lambda>n. t + r * d \<le> n) ns)) \<longrightarrow> int (length fs) = r \<and> fin = None)"
proof -
  define task where "task = \<lparr>tt_checkpoint = t + d, tt_duration = d, tt_repeat_limit = r, tt_repeat_count = 0\<rparr>"
  have b: "int (length fs) \<le> r" "\<forall>k < length fs. t + d + int k * d \<le> fs ! k" "fin = None \<longleftrightarrow> int (length fs) = r"
    using task_run_bounds [OF _ assms(3)] assms(1) by simp_all
  have "fin = None" if "r \<le> int (length (filter (\<lambda>n. t + r * d \<le> n) ns))"
  proof -
    have "snd (task_run ns (Some task)) = None"
      by (rule task_run_all) (use assms(1,2) that in \<open>simp_all add: task_def algebra_simps\<close>)
    then show ?thesis using assms(3) by (simp add: task_def)
  qed
  moreover have "t + int (Suc k) * d = t + d + int k * d" for k by (simp add: algebra_simps)
  ultimately show ?thesis using b by metis
qed

theorem timer_fires_r_times_witness:
  "task_run [5, 12, 13, 31] (Some \<lparr>tt_checkpoint = 10, tt_duration = 10, tt_repeat_limit = 2, tt_repeat_count = 0\<rparr>) =
     ([12, 31], None) \<and> int (length [12::int, 31]) \<le> 2"
  using timer_fires_r_times [of 2 10 "[5, 12, 13, 31]" 0 "[12, 31]" None]
  by (simp add: run_task_def)

text \<open>C15: a request of one registered application to write to another introduces them: the master
  joins the journal between them, tells the first to open it and the second to read it, and records
  and announces the channel.\<close>

theorem write_request_opens_channel:
  assumes "m_data e = WriteToData d" "s = m_source e" "map_of (h_locations m) s = Some ls" "map_of (h_writers m) s = Some ws"
    "map_of (h_locations m) d = Some ld" "map_of (h_writers m) d = Some wd" "map_of (h_writers m) 0 = Some w0"
  shows "\<exists>m'. on_request_write_to e m = (Inr (), m') \<and>
    h_out m' = h_out m @ [(ws, m_gen_time e, T_RequestWriteTo, WriteToData d),
      (wd, m_gen_time e, T_RequestReadFrom, ReadFromData s (m_gen_time e)),
      (w0, m_gen_time e, T_Channel, ChannelData \<lparr>ch_source_id = s, ch_dest_id = d\<rparr>)] \<and>
    map_of (h_channels m') (channel_uid \<lparr>ch_source_id = s, ch_dest_id = d\<rparr>) = Some \<lparr>ch_source_id = s, ch_dest_id = d\<rparr> \<and>
    h_joined m' = h_joined (hero_join ls d (m_gen_time e) m)"
proof -
  let ?c = "\<lparr>ch_source_id = s, ch_dest_id = d\<rparr>"
  define m1 where "m1 = hero_join ls d (m_gen_time e) m"
  define m2 where "m2 = write_msg ws (m_gen_time e) T_RequestWriteTo (WriteToData d) m1"
  define m3 where "m3 = write_msg wd (m_gen_time e) T_RequestReadFrom (ReadFromData s (m_gen_time e)) m2"
  have r1: "require_write_to s (m_gen_time e) d m1 = (Inr (), m2)"
    unfolding m2_def by (rule require_write_to_known) (use assms in \<open>simp_all add: m1_def has_location_def\<close>)
  have r2: "require_read_from d (m_gen_time e) s False m2 = (Inr (), m3)"
    unfolding m3_def by (subst require_read_from_known) (use assms in \<open>simp_all add: m2_def m1_def has_location_def\<close>)
  have "on_request_write_to e m = (Inr (), write_msg w0 (m_gen_time e) T_Channel (ChannelData ?c) (hero_register_channel ?c m3))"
    using assms r1 r2
    by (simp add: on_request_write_to_def has_location_def get_location_def master_register_channel_def writer_at_def
        flip: m1_def) (simp add: m3_def m2_def m1_def)
  then show ?thesis
    by (simp add: m3_def m2_def m1_def hero_register_channel_def write_msg_def update_conv')
qed

definition demo_master :: master where
  "demo_master = fresh_master\<lparr>h_locations := [(uid demo_app, demo_app), (5, demo_app)],
     h_writers := [(0, (master_location, 0)), (uid demo_app, (master_location, 9)), (5, (master_location, 5))],
     h_channels := [(1, \<lparr>ch_source_id = 5, ch_dest_id = uid demo_app\<rparr>)]\<rparr>"

theorem write_request_opens_channel_witness:
  "\<exists>m'. on_request_write_to (demo_register\<lparr>m_data := WriteToData 5\<rparr>) demo_master = (Inr (), m') \<and>
    map_of (h_channels m') (channel_uid \<lparr>ch_source_id = 2458552209, ch_dest_id = 5\<rparr>) = Some \<lparr>ch_source_id = 2458552209, ch_dest_id = 5\<rparr>"
proof -
  have "m_data (demo_register\<lparr>m_data := WriteToData 5\<rparr>) = WriteToData 5"
    "2458552209 = m_source (demo_register\<lparr>m_data := WriteToData 5\<rparr>)"
    "map_of (h_locations demo_master) 2458552209 = Some demo_app"
    "map_of (h_writers demo_master) 2458552209 = Some (master_location, 9)"
    "map_of (h_locations demo_master) 5 = Some demo_app" "map_of (h_writers demo_master) 5 = Some (master_location, 5)"
    "map_of (h_writers demo_master) 0 = Some (master_location, 0)"
    by (simp_all add: demo_register_def demo_master_def uid_demo_app)
  from write_request_opens_channel [OF this] show ?thesis by blast
qed

text \<open>C16: deregistering an application marks the end of its session on its own journal, and removes its
  location, its writer, its timers, its journals from the reader and the channels it writes to, and nothing
  else, before the public journal announces it.  So the channels others opened to it stay, and so does the
  record of its command location, which is still registered.\<close>

theorem deregistration_forgets_source:
  assumes "map_of (h_locations m) app = Some l" "map_of (h_writers m) app = Some w" "map_of (h_writers m) 0 = Some w0" "app \<noteq> 0"
  shows "\<exists>m'. deregister_app t app m = (Inr (), m') \<and>
    h_out m' = h_out m @ [(w, t, T_SessionEnd, NoData),
      (w0, t, T_Deregister, JsonData (json_of (location_json l @ [(''uname'', JString (uname l)), (''uid'', JU64 app)])))] \<and>
    (\<forall>u. map_of (h_locations m') u = (if u = app then None else map_of (h_locations m) u)) \<and>
    (\<forall>u. map_of (h_writers m') u = (if u = app then None else map_of (h_writers m) u)) \<and>
    (\<forall>u. map_of (timer_tasks m') u = (if u = app then None else map_of (timer_tasks m) u)) \<and>
    h_joined m' = filter (\<lambda>x. uid (fst (fst x)) \<noteq> app) (h_joined m) \<and>
    h_channels m' = filter (\<lambda>c. ch_source_id (snd c) \<noteq> app) (h_channels m) \<and>
    app_locations m' = app_locations m \<and>
    (\<forall>c. map_of (app_locations m) app = Some c \<and> c \<noteq> app \<and> has_location m c \<longrightarrow>
      map_of (app_locations m') app = Some c \<and> has_location m' c)"
proof -
  define m4 where "m4 = deregister_channel_by_source app (write_msg w t T_SessionEnd NoData m)"
  have loc: "has_location m4 app" using assms(1) by (simp add: m4_def has_location_def)
  define m5 where "m5 = hero_disjoin app (deregister_location app m4)"
  have l5: "h_locations m5 = AList.delete app (h_locations m)"
    using loc by (simp add: m5_def m4_def deregister_location_def)
  have f5: "h_writers m5 = h_writers m" "timer_tasks m5 = timer_tasks m" "app_locations m5 = app_locations m"
    "h_channels m5 = filter (\<lambda>c. ch_source_id (snd c) \<noteq> app) (h_channels m)"
    "h_joined m5 = filter (\<lambda>j. uid (fst (fst j)) \<noteq> app) (h_joined m)"
    "h_out m5 = h_out m @ [(w, t, T_SessionEnd, NoData)]"
    by (simp_all add: m5_def m4_def)
      (simp_all add: hero_disjoin_def deregister_channel_by_source_def erase_by_source_eq deregister_location_def write_msg_def)
  have "deregister_app t app m = (Inr (), write_msg w0 t T_Deregister
      (JsonData (json_of (location_json l @ [(''uname'', JString (uname l)), (''uid'', JU64 app)])))
      (m5\<lparr>h_writers := AList.delete app (h_writers m5), timer_tasks := AList.delete app (timer_tasks m5)\<rparr>))"
    using assms f5(1,2)
    by (simp add: deregister_app_def get_location_eq writer_at_eq Let_def delete_conv' flip: m4_def m5_def)
  then show ?thesis using l5 f5
    by (simp add: has_location_def delete_conv' write_msg_def)
qed

theorem deregistration_forgets_source_witness:
  "\<exists>m'. deregister_app 4 2458552209 demo_master = (Inr (), m') \<and>
    h_channels m' = [(1, \<lparr>ch_source_id = 5, ch_dest_id = 2458552209\<rparr>)]"
proof -
  have *: "map_of (h_locations demo_master) 2458552209 = Some demo_app"
    "map_of (h_writers demo_master) 2458552209 = Some (master_location, 9)"
    "map_of (h_writers demo_master) 0 = Some (master_location, 0)" "(2458552209 :: u32) \<noteq> 0"
    and c: "h_channels demo_master = [(1, \<lparr>ch_source_id = 5, ch_dest_id = 2458552209\<rparr>)]"
    by (simp_all add: demo_master_def uid_demo_app)
  from deregistration_forgets_source [OF *, of 4] show ?thesis unfolding c by (simp, blast)
qed

end
