(* ===== verification/ApprenticeProps.thy ===== *)
theory ApprenticeProps
  imports Apprentice MasterProps
begin

text \<open>
  Properties of an application and of its conversation with the master: the check-in, the
  introduction after it, the timers, and the loop that delivers events.
\<close>

section \<open>The loop\<close>

record recorder = hero +
  seen :: "message list"

definition record_event :: "message \<Rightarrow> recorder \<Rightarrow> (herror + unit) \<times> recorder" where
  "record_event e r = (Inr (), r\<lparr>seen := seen r @ [e]\<rparr>)"

text \<open>Another subscription of the process, which may throw or stop it.\<close>

definition bystander :: "(message \<Rightarrow> recorder \<Rightarrow> (herror + unit) \<times> recorder) \<Rightarrow> bool" where
  "bystander s \<longleftrightarrow> (\<forall>e h. seen (snd (s e h)) = seen h \<and> h_end_time (snd (s e h)) = h_end_time h \<and>
     h_home (snd (s e h)) = h_home h \<and> h_now (snd (s e h)) = h_now h \<and> (h_live (snd (s e h)) \<longrightarrow> h_live h))"

lemma bystanderD:
  assumes "bystander s" "s e h = (r, h1)"
  shows "seen h1 = seen h" "h_end_time h1 = h_end_time h" "h_home h1 = h_home h" "h_now h1 = h_now h" "h_live h1 \<Longrightarrow> h_live h"
  using assms unfolding bystander_def by (metis snd_conv)+

lemma seen_signal_stop [simp]: "seen (signal_stop h) = seen h"
  by (simp add: signal_stop_def)

lemma publish_bystanders:
  assumes "\<forall>s \<in> set ss. bystander s" "publish_event e ss h = (ss', h')"
  shows "seen h' = seen h \<and> h_end_time h' = h_end_time h \<and> h_home h' = h_home h \<and> h_now h' = h_now h \<and>
    (h_live h' \<longrightarrow> h_live h \<and> ss' = ss) \<and> (\<forall>s \<in> set ss'. bystander s)"
  using assms
proof (induction ss arbitrary: h ss' h')
  case (Cons s ss)
  obtain r h1 where s: "s e h = (r, h1)" by force
  have by_s: "bystander s" and by_ss: "\<forall>s \<in> set ss. bystander s" using Cons.prems(1) by simp_all
  note h1 = bystanderD [OF by_s s]
  show ?case
  proof (cases r)
    case (Inl x)
    then have "publish_event e ss (signal_stop h1) = (ss', h')"
      using Cons.prems(2) publish_event_throws [of s e h x h1 ss] s by simp
    from Cons.IH [OF by_ss this] show ?thesis using h1 by simp
  next
    case (Inr u)
    obtain ss1 where ss1: "publish_event e ss h1 = (ss1, h')" "ss' = s # ss1"
      using Cons.prems(2) publish_event_returns [of s e h u h1 ss] s Inr by (cases "publish_event e ss h1") simp
    from Cons.IH [OF by_ss ss1(1)] show ?thesis using by_s h1 ss1(2) by simp
  qed
qed simp

lemma publish_recorded:
  assumes "\<forall>s \<in> set (xs @ ys). bystander s" "publish_event e (xs @ record_event # ys) h = (hs, h')"
  shows "\<exists>xs' ys'. hs = xs' @ record_event # ys' \<and> (\<forall>s \<in> set (xs' @ ys'). bystander s) \<and> seen h' = seen h @ [e] \<and>
    h_end_time h' = h_end_time h \<and> h_home h' = h_home h \<and> h_now h' = h_now h \<and>
    (h_live h' \<longrightarrow> h_live h \<and> xs' = xs \<and> ys' = ys)"
proof -
  obtain xs' h1 where x: "publish_event e xs h = (xs', h1)" by force
  define h2 where "h2 = h1\<lparr>seen := seen h1 @ [e]\<rparr>"
  obtain ys' h3 where y: "publish_event e ys h2 = (ys', h3)" by force
  have "publish_event e (record_event # ys) h1 = (record_event # ys', h3)"
    using publish_event_returns [of record_event e h1 "()" h2 ys] y by (simp add: record_event_def h2_def)
  then have "hs = xs' @ record_event # ys'" "h' = h3" using assms(2) x by (simp_all add: publish_event_append)
  moreover have by_x: "\<forall>s \<in> set xs. bystander s" and by_y: "\<forall>s \<in> set ys. bystander s" using assms(1) by auto
  ultimately show ?thesis
    using publish_bystanders [OF by_x x] publish_bystanders [OF by_y y]
    by (intro exI [of _ xs'] exI [of _ ys'] conjI) (auto simp: h2_def)
qed

lemma drain_record:
  assumes "\<forall>s \<in> set (xs @ ys). bystander s" "drain fs (xs @ record_event # ys) h = (go, hs, h')"
  shows "\<exists>ok rest. fs = ok @ rest \<and> seen h' = seen h @ ok \<and> (\<forall>e \<in> set ok. m_gen_time e \<le> h_end_time h) \<and>
     h_home h' = h_home h \<and> go = (rest = []) \<and> (rest = [] \<or> h_end_time h < m_gen_time (hd rest)) \<and>
     h_now h' = (if ok = [] then h_now h else m_gen_time (last ok)) \<and>
     (h_live h' \<longrightarrow> h_live h \<and> hs = xs @ record_event # ys)"
  using assms
proof (induction fs arbitrary: xs ys h)
  case (Cons f fs)
  show ?case
  proof (cases "m_gen_time f \<le> h_end_time h")
    case True
    obtain hs1 h1 where p: "publish_event f (xs @ record_event # ys) (h\<lparr>h_now := m_gen_time f\<rparr>) = (hs1, h1)" by force
    from publish_recorded [OF Cons.prems(1) this] obtain xs1 ys1 where x: "hs1 = xs1 @ record_event # ys1"
      "\<forall>s \<in> set (xs1 @ ys1). bystander s" "seen h1 = seen h @ [f]" "h_end_time h1 = h_end_time h" "h_home h1 = h_home h"
      "h_now h1 = m_gen_time f" "h_live h1 \<longrightarrow> h_live h \<and> xs1 = xs \<and> ys1 = ys"
      by auto
    have "drain fs (xs1 @ record_event # ys1) h1 = (go, hs, h')" using Cons.prems(2) True p x(1) by simp
    from Cons.IH [OF x(2) this] obtain ok rest where IH: "fs = ok @ rest" "seen h' = seen h1 @ ok"
      "\<forall>e \<in> set ok. m_gen_time e \<le> h_end_time h1" "h_home h' = h_home h1" "go = (rest = [])"
      "rest = [] \<or> h_end_time h1 < m_gen_time (hd rest)" "h_now h' = (if ok = [] then h_now h1 else m_gen_time (last ok))"
      "h_live h' \<longrightarrow> h_live h1 \<and> hs = xs1 @ record_event # ys1"
      by blast
    show ?thesis by (rule exI [of _ "f # ok"], rule exI [of _ rest]) (use IH x True in auto)
  next
    case False
    then show ?thesis using Cons.prems by (intro exI [of _ "[]"] exI [of _ "f # fs"]) auto
  qed
qed simp

section \<open>Checking in\<close>

lemma jfind_json_of [json_simps]:
  assumes "kvs \<noteq> []" "distinct (map fst kvs)"
  shows "jfind (json_of kvs) k = map_of kvs k"
  using jset_all_null [OF assms] by (auto simp: json_of_def)

lemma location_of_extended:
  "location_of_json (json_of (location_json l @ [(''uid'', a), (''pid'', b)])) = Inr l"
  by (cases "l_mode l"; cases "l_category l")
     (simp_all add: location_of_json_def location_json_def jgetters json_simps JEnum_def enum_at_def make_location_def)

section \<open>The introduction, received\<close>

definition as_message :: "journal_key \<times> i64 \<times> i32 \<times> payload \<Rightarrow> message" where
  "as_message x = (case x of (w, t, k, p) \<Rightarrow>
     \<lparr>m_gen_time = t, m_trigger_time = t, m_msg_type = k, m_source = uid (fst w), m_dest = snd w, m_data = p\<rparr>)"

fun receive_all :: "(apprentice \<Rightarrow> (herror + unit) \<times> apprentice) \<Rightarrow> message list \<Rightarrow> apprentice \<Rightarrow> (herror + unit) \<times> apprentice" where
  "receive_all f [] a = (Inr (), a)"
| "receive_all f (e # es) a = bindX (apprentice_react (app_methods_of f) e a) (\<lambda>_. receive_all f es)"

lemma receive_all_append: "receive_all f (xs @ ys) a = bindX (receive_all f xs a) (\<lambda>_. receive_all f ys)"
proof (induction xs arbitrary: a)
  case (Cons x xs)
  then show ?case by (cases "apprentice_react (app_methods_of f) x a" rule: prod.exhaust; cases "fst (apprentice_react (app_methods_of f) x a)") auto
qed simp

lemma apprentice_fields [simp]:
  "a_started (register_location l a) = a_started a" "a_started (hero_register_channel c a) = a_started a"
  "a_started (hero_join l d t a) = a_started a" "a_registered (hero_join l d t a) = a_registered a"
  "a_registered (register_location l a) = a_registered a" "a_registered (hero_register_channel c a) = a_registered a"
  for a :: apprentice
  by (simp_all add: register_location_def hero_register_channel_def hero_join_def)

definition learns_location :: "i64 \<Rightarrow> location \<Rightarrow> apprentice \<Rightarrow> apprentice" where
  "learns_location t l a = register_location l (a\<lparr>h_now := t\<rparr>)"

definition learns_channel :: "i64 \<Rightarrow> channel \<Rightarrow> apprentice \<Rightarrow> apprentice" where
  "learns_channel t c a = hero_register_channel c (a\<lparr>h_now := t\<rparr>)"

lemma react_location:
  "apprentice_react (app_methods_of f) (as_message (w, t, T_Location, JsonData (json_of (location_json l)))) a = (Inr (), learns_location t l a)"
  by (simp add: apprentice_react_def join_commands_def on_channel_def app_methods_of_def as_message_def register_location_from_event_def app_register_location_def
      location_json_roundtrip learns_location_def system_codes Let_def)

lemma react_channel:
  "apprentice_react (app_methods_of f) (as_message (w, t, T_Channel, ChannelData c)) a = (Inr (), learns_channel t c a)"
  by (simp add: apprentice_react_def join_commands_def on_channel_def app_methods_of_def as_message_def learns_channel_def system_codes Let_def)

lemma receive_locations:
  "receive_all f (map (\<lambda>x. as_message (w, t, T_Location, JsonData (json_of (location_json (snd x))))) ls) a =
   (Inr (), fold (\<lambda>x. learns_location t (snd x)) ls a)"
  by (induction ls arbitrary: a) (simp_all add: react_location)

lemma receive_channels:
  "receive_all f (map (\<lambda>x. as_message (w, t, T_Channel, ChannelData (snd x))) cs) a =
   (Inr (), fold (\<lambda>x. learns_channel t (snd x)) cs a)"
  by (induction cs arbitrary: a) (simp_all add: react_channel)

lemma fold_learns_location [simp]:
  "h_writers (fold (\<lambda>x. learns_location t (snd x)) ls a) = h_writers a"
  "h_home (fold (\<lambda>x. learns_location t (snd x)) ls a) = h_home a"
  "h_channels (fold (\<lambda>x. learns_location t (snd x)) ls a) = h_channels a"
  "a_started (fold (\<lambda>x. learns_location t (snd x)) ls a) = a_started a"
  by (induction ls arbitrary: a) (simp_all add: learns_location_def)

lemma fold_learns_channel [simp]:
  "h_writers (fold (\<lambda>x. learns_channel t (snd x)) cs a) = h_writers a"
  "h_home (fold (\<lambda>x. learns_channel t (snd x)) cs a) = h_home a"
  "h_locations (fold (\<lambda>x. learns_channel t (snd x)) cs a) = h_locations a"
  "a_started (fold (\<lambda>x. learns_channel t (snd x)) cs a) = a_started a"
  by (induction cs arbitrary: a) (simp_all add: learns_channel_def)

lemma has_learns [simp]:
  "has_location (learns_location t l a) u \<longleftrightarrow> u = uid l \<or> has_location a u"
  "has_channel (learns_channel t c a) v \<longleftrightarrow> v = channel_uid c \<or> has_channel a v"
  by (simp_all add: learns_location_def has_location_def register_location_def learns_channel_def has_channel_def
      hero_register_channel_def update_conv')

lemma fold_learns_location_has:
  "has_location (fold (\<lambda>x. learns_location t (snd x)) ls a) u \<longleftrightarrow> u \<in> uid ` snd ` set ls \<or> has_location a u"
proof (induction ls arbitrary: a)
  case (Cons x ls)
  then show ?case by auto
qed simp

lemma fold_learns_channel_has:
  "has_channel (fold (\<lambda>x. learns_channel t (snd x)) cs a) u \<longleftrightarrow> u \<in> channel_uid ` snd ` set cs \<or> has_channel a u"
proof (induction cs arbitrary: a)
  case (Cons x cs)
  then show ?case by auto
qed simp

definition live_app :: "location \<Rightarrow> apprentice \<Rightarrow> bool" where
  "live_app l a \<longleftrightarrow> h_home a = l \<and> l_mode l = LIVE \<and> \<not> a_started a \<and> h_writers a = []"

lemma react_request_write_to:
  assumes "\<not> has_writer a d"
  shows "apprentice_react (app_methods_of f) (as_message (w, t, T_RequestWriteTo, WriteToData d)) a =
    (Inr (), a\<lparr>h_now := t, h_writers := AList.update d (h_home a, d) (h_writers a)\<rparr>)"
  using assms by (simp add: apprentice_react_def join_commands_def on_channel_def app_methods_of_def as_message_def on_write_to_def has_writer_def open_writer_def
      system_codes Let_def)

lemma react_session_start: "apprentice_react (app_methods_of f) (as_message (w, t, T_SessionStart, NoData)) a = (Inr (), a\<lparr>h_now := t\<rparr>)"
  by (simp add: apprentice_react_def join_commands_def on_channel_def app_methods_of_def as_message_def system_codes Let_def)

lemma react_request_start:
  assumes "l_mode (h_home a) = LIVE" "\<not> a_started a"
  shows "apprentice_react (app_methods_of f) (as_message (w, t, T_RequestStart, NoData)) a =
    (Inr (), snd (f (a\<lparr>h_now := t, a_started := True\<rparr>)))"
proof -
  have "join_commands (as_message (w, t, T_RequestStart, NoData)) a = a"
    by (simp add: join_commands_def as_message_def system_codes)
  then show ?thesis using assms
    by (simp add: apprentice_react_def start_app_def app_methods_of_def as_message_def system_codes Let_def case_prod_beta)
qed

lemma bindX_unit [simp]: "bindX r (\<lambda>_. receive_all f []) = r"
proof (cases r)
  case (Pair x s)
  then show ?thesis by (cases x) auto
qed

section \<open>Properties\<close>

text \<open>The command journal of the master for an application is not the public one.\<close>

lemma command_location_nonzero:
  assumes "master_wf m" "\<not> has_location m (uid l)" "uid (app_master_location (uid l)) \<noteq> uid l"
    "uid (app_master_location (uid l)) \<noteq> 0"
  shows "uid (command_location l m) \<noteq> 0"
proof -
  obtain u where u: "map_of (app_locations (add_app l m)) (uid l) = Some u" "uid (command_location l m) = u"
    using command_location_known [OF assms(1-3)] by blast
  show ?thesis
  proof (cases "map_of (app_locations m) (uid l)")
    case None
    then show ?thesis using u assms(4) by (simp add: add_app_def register_location_def update_conv')
  next
    case (Some v)
    then have "v \<in> ran (map_of (app_locations m))" by (rule ranI)
    then have "v \<noteq> 0" using master_wfD(1,5) [OF assms(1)] by blast
    then show ?thesis using Some u by (simp add: add_app_def)
  qed
qed

lemma location_key:
  assumes "master_wf m" "map_of (h_locations (add_app l m)) v = Some x"
  shows "uid x = v"
  using assms(2) master_wfD(2) [OF assms(1)] by (auto simp: add_app_def register_location_def update_conv' split: option.splits if_splits)

text \<open>The messages of the introduction that the master writes for an application, received by that
  application in order, end in its \<open>on_start\<close>, run once, in a state that has a writer to its public
  journal and to the master, and knows every location and channel the master knew.\<close>

lemma introduction_starts_application:
  assumes "master_wf m" "\<not> has_location m (uid l)" "uid (app_master_location (uid l)) \<noteq> uid l"
    "uid (app_master_location (uid l)) \<noteq> 0" "live_app l a"
  shows "\<exists>b. receive_all f (map as_message (tl (introduction l j t m) @
      [((command_location l m, uid l), t, T_RequestStart, NoData)])) a = (Inr (), snd (f b)) \<and>
    a_started b \<and> h_now b = t \<and>
    map_of (h_writers b) 0 = Some (l, 0) \<and>
    map_of (h_writers b) (uid (command_location l m)) = Some (l, uid (command_location l m)) \<and>
    (\<forall>u. has_location (add_app l m) u \<longrightarrow> has_location b u) \<and>
    (\<forall>c \<in> set (h_channels m). has_channel b (channel_uid (snd c)))"
proof -
  let ?w = "(command_location l m, uid l)" and ?u = "uid (command_location l m)"
  have u0: "?u \<noteq> 0" by (rule command_location_nonzero [OF assms(1-4)])
  define a2 where "a2 = a\<lparr>h_now := t, h_writers := AList.update ?u (l, ?u) (AList.update 0 (l, 0) [])\<rparr>"
  define a3 where "a3 = fold (\<lambda>x. learns_location t (snd x)) (h_locations (add_app l m)) a2"
  define a4 where "a4 = fold (\<lambda>x. learns_channel t (snd x)) (h_channels m) a3"
  have start: "receive_all f (map as_message [(?w, t, T_SessionStart, NoData),
      (?w, t, T_RequestWriteTo, WriteToData 0), (?w, t, T_RequestWriteTo, WriteToData ?u)]) a = (Inr (), a2)"
    using assms(5) u0
    by (simp add: react_session_start react_request_write_to has_writer_def live_app_def a2_def)
  have tl: "tl (introduction l j t m) = [(?w, t, T_SessionStart, NoData),
      (?w, t, T_RequestWriteTo, WriteToData 0), (?w, t, T_RequestWriteTo, WriteToData ?u)]
     @ map (\<lambda>x. (?w, t, T_Location, JsonData (json_of (location_json (snd x))))) (h_locations (add_app l m))
     @ map (\<lambda>c. (?w, t, T_Channel, ChannelData (snd c))) (h_channels m)"
    by (simp add: introduction_def Let_def)
  have live: "l_mode (h_home a4) = LIVE" "\<not> a_started a4"
    using assms(5) by (simp_all add: a4_def a3_def a2_def live_app_def)
  have "receive_all f (map as_message (tl (introduction l j t m) @ [(?w, t, T_RequestStart, NoData)])) a =
    (Inr (), snd (f (a4\<lparr>h_now := t, a_started := True\<rparr>)))"
    unfolding tl map_append append_assoc receive_all_append start map_map o_def receive_locations receive_channels
      bindX.simps a3_def [symmetric] a4_def [symmetric]
    by (simp add: react_request_start live)
  moreover have "map_of (h_writers a4) 0 = Some (l, 0)" "map_of (h_writers a4) ?u = Some (l, ?u)"
    using u0 by (simp_all add: a4_def a3_def a2_def)
  moreover have "has_location a4 v" if known: "has_location (add_app l m) v" for v
  proof -
    have "has_location a3 v"
      using known map_of_SomeD location_key [OF assms(1)] by (force simp: a3_def fold_learns_location_has has_location_def [of "add_app l m"])
    then show ?thesis by (simp add: a4_def has_location_def)
  qed
  moreover have "has_channel a4 (channel_uid (snd c))" if "c \<in> set (h_channels m)" for c
    using that by (auto simp: a4_def fold_learns_channel_has)
  ultimately show ?thesis
    by (intro exI [of _ "a4\<lparr>h_now := t, a_started := True\<rparr>"]) (simp add: has_location_def has_channel_def)
qed

text \<open>What an application sends to check in is read by the master as a registration of exactly the
  application's location.\<close>

lemma checkin_names_home:
  "\<exists>e j. nanomsg_json (checkin_request now pid home) = Inr e \<and> m_msg_type e = T_Register \<and>
    m_source e = uid home \<and> m_gen_time e = now \<and> m_data e = JsonData j \<and> location_of_json j = Inr home"
  by (simp add: nanomsg_json_def checkin_request_def get_meta_def json_simps jgetters location_of_extended)

text \<open>A timer an application set at \<open>t\<close> for a duration \<open>d\<close>, which reached the master at a
  later time \<open>c\<close>, fires at the first Time the master sends for it, and only once; a Time not later
  than \<open>t + d\<close> leaves it waiting.\<close>

lemma timer_answered:
  assumes "map_of (timer_checkpoints a) i = Some t" "m_msg_type e = T_Time"
  shows "(t < c \<longrightarrow> fst (run_task n \<lparr>tt_checkpoint = c + d, tt_duration = d, tt_repeat_limit = 1, tt_repeat_count = 0\<rparr>) \<longrightarrow>
      n \<le> m_gen_time e \<longrightarrow> run_subscription e (Timer d i) a = (Inr (True, None), a)) \<and>
    (m_gen_time e \<le> t + d \<longrightarrow> run_subscription e (Timer d i) a = (Inr (False, Some (Timer d i)), a))"
  using assms by (auto simp: run_subscription_def timer_due_def run_task_def split: if_splits)

lemma timer_answered_witness:
  "run_subscription \<lparr>m_gen_time = 25, m_trigger_time = 0, m_msg_type = T_Time, m_source = 0, m_dest = 0, m_data = NoData\<rparr>
     (Timer 10 0) (new_apprentice demo_app 0\<lparr>timer_checkpoints := [(0, 5)]\<rparr>) =
   (Inr (True, None), new_apprentice demo_app 0\<lparr>timer_checkpoints := [(0, 5)]\<rparr>)"
  using timer_answered [of "new_apprentice demo_app 0\<lparr>timer_checkpoints := [(0, 5)]\<rparr>" 0 5
    "\<lparr>m_gen_time = 25, m_trigger_time = 0, m_msg_type = T_Time, m_source = 0, m_dest = 0, m_data = NoData\<rparr>" 6 20 10]
  by (simp add: run_task_def)

text \<open>A turn that the sockets leave alone.\<close>

definition quiet_turn :: "turn \<Rightarrow> bool" where
  "quiet_turn t \<longleftrightarrow> t_notice t = Inr None \<and> t_request t = Inr None"

lemma produce_one_quiet:
  assumes "l_mode (h_home h) = LIVE \<longrightarrow> quiet_turn t"
  shows "produce_one f t hs h = take_frames (l_mode (h_home h) = LIVE) t hs h"
  using assms by (simp add: produce_one_def take_notice_def take_request_def quiet_turn_def)

text \<open>One turn hands the events of the journals to a subscription in order, each with the process's time
  set to its own, up to the first event after the end time.  That holds among any other subscriptions: one
  that throws is dropped and stops the process, after the events of the turn.\<close>

lemma turn_delivers:
  assumes others: "\<forall>s \<in> set (xs @ ys). bystander s"
    and quiet: "l_mode (h_home h) = LIVE \<longrightarrow> quiet_turn t"
  shows "\<exists>ok rest hs h'. produce_one f t (xs @ record_event # ys) h =
      ((if rest = [] then map_sum id (\<lambda>goes. (goes, hs)) (journal_end (l_mode (h_home h) = LIVE) (t_left t)) else Inr (False, hs)), h') \<and>
    t_frames t = ok @ rest \<and> seen h' = seen h @ ok \<and> (\<forall>e \<in> set ok. m_gen_time e \<le> h_end_time h) \<and>
    (rest = [] \<or> h_end_time h < m_gen_time (hd rest)) \<and>
    h_now h' = (if ok = [] then h_now h else m_gen_time (last ok)) \<and>
    (h_live h' \<longrightarrow> hs = xs @ record_event # ys)"
proof -
  obtain go hs h' where d: "drain (t_frames t) (xs @ record_event # ys) h = (go, hs, h')" by (metis prod_cases3)
  have "produce_one f t (xs @ record_event # ys) h =
      ((if go then map_sum id (\<lambda>goes. (goes, hs)) (journal_end (l_mode (h_home h) = LIVE) (t_left t)) else Inr (False, hs)), h')"
    using d unfolding produce_one_quiet [OF quiet] by (simp add: take_frames_def split: sum.split)
  moreover from drain_record [OF others d] obtain ok rest where run: "t_frames t = ok @ rest" "seen h' = seen h @ ok"
    "\<forall>e \<in> set ok. m_gen_time e \<le> h_end_time h" "h_home h' = h_home h" "go = (rest = [])"
    "rest = [] \<or> h_end_time h < m_gen_time (hd rest)" "h_now h' = (if ok = [] then h_now h else m_gen_time (last ok))"
    "h_live h' \<longrightarrow> h_live h \<and> hs = xs @ record_event # ys"
    by blast
  ultimately show ?thesis
    by (intro exI [of _ ok] exI [of _ rest] exI [of _ hs] exI [of _ h'] conjI) simp_all
qed

text \<open>A subscription that returns and leaves the process going.\<close>

definition onlooker :: "(message \<Rightarrow> recorder \<Rightarrow> (herror + unit) \<times> recorder) \<Rightarrow> bool" where
  "onlooker s \<longleftrightarrow> (\<forall>e h. fst (s e h) = Inr () \<and> seen (snd (s e h)) = seen h \<and>
     h_end_time (snd (s e h)) = h_end_time h \<and> h_home (snd (s e h)) = h_home h \<and>
     h_now (snd (s e h)) = h_now h \<and> h_live (snd (s e h)) = h_live h)"

text \<open>What the events of a turn leave alone.\<close>

definition same_loop :: "recorder \<Rightarrow> recorder \<Rightarrow> bool" where
  "same_loop h h' \<longleftrightarrow> h_end_time h' = h_end_time h \<and> h_home h' = h_home h \<and> h_live h' = h_live h"

lemma publish_onlookers:
  assumes "\<forall>s \<in> set ss. onlooker s"
  shows "\<exists>h'. publish_event e ss h = (ss, h') \<and> seen h' = seen h \<and> h_now h' = h_now h \<and> same_loop h h'"
  using assms
proof (induction ss arbitrary: h)
  case (Cons s ss)
  have s: "s e h = (Inr (), snd (s e h))" and h1: "seen (snd (s e h)) = seen h" "h_now (snd (s e h)) = h_now h"
    "same_loop h (snd (s e h))"
    using Cons.prems by (auto simp: onlooker_def same_loop_def prod_eq_iff)
  obtain h' where h': "publish_event e ss (snd (s e h)) = (ss, h')" "seen h' = seen (snd (s e h))"
    "h_now h' = h_now (snd (s e h))" "same_loop (snd (s e h)) h'"
    using Cons by (metis list.set_intros(2))
  show ?case using publish_event_returns [of s e h "()" "snd (s e h)" ss, OF s] h' h1 by (intro exI [of _ h']) (simp add: same_loop_def)
qed (simp add: same_loop_def)

lemma publish_recorder:
  assumes "\<forall>s \<in> set (xs @ ys). onlooker s"
  shows "\<exists>h'. publish_event e (xs @ record_event # ys) h = (xs @ record_event # ys, h') \<and>
    seen h' = seen h @ [e] \<and> h_now h' = h_now h \<and> same_loop h h'"
proof -
  have x: "\<forall>s \<in> set xs. onlooker s" and y: "\<forall>s \<in> set ys. onlooker s" using assms by simp_all
  obtain h1 where 1: "publish_event e xs h = (xs, h1)" "seen h1 = seen h" "h_now h1 = h_now h" "same_loop h h1"
    using publish_onlookers [OF x] by blast
  let ?h2 = "h1\<lparr>seen := seen h1 @ [e]\<rparr>"
  obtain h3 where 3: "publish_event e ys ?h2 = (ys, h3)" "seen h3 = seen ?h2" "h_now h3 = h_now ?h2" "same_loop ?h2 h3"
    using publish_onlookers [OF y] by blast
  have "publish_event e (record_event # ys) h1 = (record_event # ys, h3)"
    using publish_event_returns [of record_event e h1 "()" ?h2 ys] 3(1) by (simp add: record_event_def)
  then show ?thesis using 1 3 by (intro exI [of _ h3]) (simp add: publish_event_append same_loop_def)
qed

text \<open>The frames up to the first one after the end time.\<close>

lemma drain_recorder:
  assumes "\<forall>s \<in> set (xs @ ys). onlooker s" "\<forall>e \<in> set ok. m_gen_time e \<le> h_end_time h"
    and "late = [] \<or> h_end_time h < m_gen_time (hd late)"
  shows "\<exists>h'. drain (ok @ late) (xs @ record_event # ys) h = (late = [], xs @ record_event # ys, h') \<and>
    seen h' = seen h @ ok \<and> h_now h' = (if ok = [] then h_now h else m_gen_time (last ok)) \<and> same_loop h h'"
  using assms(2,3)
proof (induction ok arbitrary: h)
  case Nil
  then show ?case by (cases late) (auto simp: same_loop_def)
next
  case (Cons e ok)
  obtain h1 where 1: "publish_event e (xs @ record_event # ys) (h\<lparr>h_now := m_gen_time e\<rparr>) = (xs @ record_event # ys, h1)"
    "seen h1 = seen h @ [e]" "h_now h1 = m_gen_time e" "same_loop h h1"
    using publish_recorder [OF assms(1), of e "h\<lparr>h_now := m_gen_time e\<rparr>"] by (auto simp: same_loop_def)
  have "h_end_time h1 = h_end_time h" using 1(4) by (simp add: same_loop_def)
  then obtain h' where h': "drain (ok @ late) (xs @ record_event # ys) h1 = (late = [], xs @ record_event # ys, h')"
    "seen h' = seen h1 @ ok" "h_now h' = (if ok = [] then h_now h1 else m_gen_time (last ok))" "same_loop h1 h'"
    using Cons.IH [of h1] Cons.prems by auto
  show ?case using 1 h' Cons.prems(1) by (intro exI [of _ h']) (simp add: same_loop_def)
qed

lemma turn_recorder:
  assumes "\<forall>s \<in> set (xs @ ys). onlooker s" "l_mode (h_home h) = LIVE \<longrightarrow> quiet_turn t"
    and "t_frames t = ok @ late" "\<forall>e \<in> set ok. m_gen_time e \<le> h_end_time h"
    and "late = [] \<or> h_end_time h < m_gen_time (hd late)"
  shows "\<exists>h'. produce_one f t (xs @ record_event # ys) h =
      ((if late = [] then map_sum id (\<lambda>goes. (goes, xs @ record_event # ys)) (journal_end (l_mode (h_home h) = LIVE) (t_left t))
        else Inr (False, xs @ record_event # ys)), h') \<and>
    seen h' = seen h @ ok \<and> h_now h' = (if ok = [] then h_now h else m_gen_time (last ok)) \<and> same_loop h h'"
  using drain_recorder [OF assms(1,4,5)] assms(3) unfolding produce_one_quiet [OF assms(2)]
  by (auto simp: take_frames_def split: sum.split)

text \<open>C20: the loop hands the events of the journals to a subscription in order, over as many turns as they
  come in, each with the process's time set to its own, up to the first event after the end time.  At that
  event it ends.  Without one a live process goes on; any other ends when the journals it reads have no more,
  and when none of them has ever had any it does not end but dies: the line it logs reads the time of
  a frame through a null pointer.  (The other subscriptions return.)\<close>

theorem loop_delivers_until_end:
  assumes others: "\<forall>s \<in> set (xs @ ys). onlooker s" and "h_live h"
    and before: "\<forall>t' \<in> set ts. (l_mode (h_home h) = LIVE \<longrightarrow> quiet_turn t') \<and>
      (l_mode (h_home h) = LIVE \<or> t_left t' = MoreCame) \<and> (\<forall>e \<in> set (t_frames t'). m_gen_time e \<le> h_end_time h)"
    and last: "l_mode (h_home h) = LIVE \<longrightarrow> quiet_turn t" "t_frames t = ok @ late" "\<forall>e \<in> set ok. m_gen_time e \<le> h_end_time h"
      "late = [] \<or> h_end_time h < m_gen_time (hd late)"
  shows "\<exists>h'. produce (produce_one f) (ts @ [t]) (xs @ record_event # ys) h =
      ((if late \<noteq> [] then Completed else if l_mode (h_home h) = LIVE then Running
        else case t_left t of NoCurrent \<Rightarrow> Failed NoCurrentFrame | AtEnd \<Rightarrow> Completed | MoreCame \<Rightarrow> Running),
       xs @ record_event # ys, h') \<and>
    seen h' = seen h @ concat (map t_frames ts) @ ok \<and>
    h_now h' = last (h_now h # map m_gen_time (concat (map t_frames ts) @ ok))"
  using before last(1,3,4) assms(2)
proof (induction ts arbitrary: h)
  case Nil
  obtain h' where h': "produce_one f t (xs @ record_event # ys) h =
      ((if late = [] then map_sum id (\<lambda>goes. (goes, xs @ record_event # ys)) (journal_end (l_mode (h_home h) = LIVE) (t_left t))
        else Inr (False, xs @ record_event # ys)), h')"
    "seen h' = seen h @ ok" "h_now h' = (if ok = [] then h_now h else m_gen_time (last ok))" "same_loop h h'"
    using turn_recorder [OF others Nil.prems(2) last(2) Nil.prems(3,4), of f] by blast
  have now: "h_now h' = last (h_now h # map m_gen_time ok)" using h'(3) by (simp add: last_map)
  show ?case
  proof (cases "late = [] \<and> l_mode (h_home h) \<noteq> LIVE \<and> t_left t = NoCurrent")
    case True
    then show ?thesis using h' now Nil.prems(5) by (simp add: journal_end_def)
  next
    case False
    then show ?thesis using h' now Nil.prems(5)
      by (cases "t_left t") (auto simp: journal_end_def same_loop_def intro: exI [of _ "h'\<lparr>h_live := False\<rparr>"])
  qed
next
  case (Cons t' ts)
  have t': "l_mode (h_home h) = LIVE \<longrightarrow> quiet_turn t'" "l_mode (h_home h) = LIVE \<or> t_left t' = MoreCame"
    "t_frames t' = t_frames t' @ []" "\<forall>e \<in> set (t_frames t'). m_gen_time e \<le> h_end_time h"
    using Cons.prems(1) by simp_all
  obtain h1 where 1: "produce_one f t' (xs @ record_event # ys) h = (Inr (True, xs @ record_event # ys), h1)"
    "seen h1 = seen h @ t_frames t'" "h_now h1 = (if t_frames t' = [] then h_now h else m_gen_time (last (t_frames t')))"
    "same_loop h h1"
    using turn_recorder [OF others t'(1,3,4), of f] t'(2) by (auto simp: journal_end_def)
  have same: "h_home h1 = h_home h" "h_end_time h1 = h_end_time h" "h_live h1" "h1\<lparr>h_live := True\<rparr> = h1"
    using 1(4) Cons.prems(5) by (simp_all add: same_loop_def)
  have now: "h_now h1 = last (h_now h # map m_gen_time (t_frames t'))" using 1(3) by (simp add: last_map)
  have "last (h_now h # map m_gen_time (t_frames t' @ us)) = last (h_now h1 # map m_gen_time us)" for us
    unfolding now by simp
  note now_later = this
  have p: "\<forall>t' \<in> set ts. (l_mode (h_home h1) = LIVE \<longrightarrow> quiet_turn t') \<and>
      (l_mode (h_home h1) = LIVE \<or> t_left t' = MoreCame) \<and> (\<forall>e \<in> set (t_frames t'). m_gen_time e \<le> h_end_time h1)"
    "l_mode (h_home h1) = LIVE \<longrightarrow> quiet_turn t" "\<forall>e \<in> set ok. m_gen_time e \<le> h_end_time h1"
    "late = [] \<or> h_end_time h1 < m_gen_time (hd late)"
    using Cons.prems(1-4) unfolding same(1,2) by simp_all
  obtain h' where ih: "produce (produce_one f) (ts @ [t]) (xs @ record_event # ys) h1 =
      ((if late \<noteq> [] then Completed else if l_mode (h_home h1) = LIVE then Running
        else case t_left t of NoCurrent \<Rightarrow> Failed NoCurrentFrame | AtEnd \<Rightarrow> Completed | MoreCame \<Rightarrow> Running),
       xs @ record_event # ys, h')"
    "seen h' = seen h1 @ concat (map t_frames ts) @ ok" "h_now h' = last (h_now h1 # map m_gen_time (concat (map t_frames ts) @ ok))"
    using Cons.IH [OF p same(3)] by blast
  have "produce (produce_one f) ((t' # ts) @ [t]) (xs @ record_event # ys) h =
      produce (produce_one f) (ts @ [t]) (xs @ record_event # ys) h1"
    using 1(1) same Cons.prems(5) by simp
  moreover have "seen h' = seen h @ concat (map t_frames (t' # ts)) @ ok" using ih(2) 1(2) by simp
  moreover have "h_now h' = last (h_now h # map m_gen_time (concat (map t_frames (t' # ts)) @ ok))"
    using ih(3) now_later [of "concat (map t_frames ts) @ ok"] by (simp only: list.map concat.simps append_assoc)
  ultimately show ?case using ih(1) unfolding same(1) by (intro exI [of _ h'] conjI) (simp_all only:)
qed

text \<open>A subscription that throws at every event, before one that records them.\<close>

definition failing :: "message \<Rightarrow> recorder \<Rightarrow> (herror + unit) \<times> recorder" where
  "failing e h = (Inl (HandlerError ''failing''), h)"

definition late_event :: message where
  "late_event = \<lparr>m_gen_time = 25, m_trigger_time = 0, m_msg_type = T_Time, m_source = 0, m_dest = 0, m_data = NoData\<rparr>"

definition late_turn :: turn where
  "late_turn = \<lparr>t_clock = 0, t_notice = Inr None, t_request_clock = 0, t_request = Inr None, t_frames = [late_event],
     t_left = AtEnd\<rparr>"

definition replaying :: recorder where
  "replaying = hero.extend (new_hero (make_location REPLAY STRATEGY ''a'' ''b'') 0) \<lparr>seen = []\<rparr>"

text \<open>A replay of two turns; and one of journals that have never had data.\<close>

theorem loop_delivers_until_end_witness:
  "(\<exists>h'. produce (produce_one (Pair (Inr ()))) [late_turn\<lparr>t_left := MoreCame\<rparr>, late_turn] [record_event] replaying =
      (Completed, [record_event], h') \<and> seen h' = [late_event, late_event]) \<and>
   (\<exists>h'. produce (produce_one (Pair (Inr ()))) [late_turn\<lparr>t_frames := [], t_left := NoCurrent\<rparr>] [record_event] replaying =
      (Failed NoCurrentFrame, [record_event], h') \<and> seen h' = [])"
proof -
  have h: "l_mode (h_home replaying) = REPLAY" "seen replaying = []" "h_end_time replaying = 2 ^ 63 - 1" "h_live replaying"
    by (simp_all add: replaying_def new_hero_def hero.extend_def make_location_def)
  have t: "t_frames late_turn = [late_event]" "t_left late_turn = AtEnd" "m_gen_time late_event = 25"
    by (simp_all add: late_turn_def late_event_def)
  have "\<exists>h'. produce (produce_one (Pair (Inr ()))) ([late_turn\<lparr>t_left := MoreCame\<rparr>] @ [late_turn]) ([] @ record_event # []) replaying =
      (Completed, [] @ record_event # [], h') \<and> seen h' = [late_event, late_event]"
    using loop_delivers_until_end [of "[]" "[]" replaying "[late_turn\<lparr>t_left := MoreCame\<rparr>]" late_turn "[late_event]" "[]" "Pair (Inr ())"]
      h t by auto
  moreover have "\<exists>h'. produce (produce_one (Pair (Inr ()))) ([] @ [late_turn\<lparr>t_frames := [], t_left := NoCurrent\<rparr>]) ([] @ record_event # []) replaying =
      (Failed NoCurrentFrame, [] @ record_event # [], h') \<and> seen h' = []"
    using loop_delivers_until_end [of "[]" "[]" replaying "[]" "late_turn\<lparr>t_frames := [], t_left := NoCurrent\<rparr>" "[]" "[]" "Pair (Inr ())"]
      h by auto
  ultimately show ?thesis by simp
qed

end
