(* ===== verification/ProcessProps.thy ===== *)
theory ProcessProps
  imports Process ApprenticeProps
begin

text \<open>
  Properties of a process around its sockets: the turn it makes is that of theory Hero, its last
  words are said once, and what an application sends to check in makes the master register it.
\<close>

section \<open>The turn\<close>

text \<open>The turn the sockets give.\<close>

definition notice_read :: "'n nanomsg \<Rightarrow> (string \<Rightarrow> json option) \<Rightarrow> device \<Rightarrow> 'n \<Rightarrow> herror + notice option" where
  "notice_read nn parse d n =
    (case observer_wait nn d n of
       (Inl x, d1, n1) \<Rightarrow> Inl x
     | (Inr came, d1, n1) \<Rightarrow>
         Inr (if \<not> came then None
              else if 2 < length (get_notice d1) then Some (Notice (read_text parse (get_notice d1)))
              else Some Ping))"

text \<open>The device and the library after the notice, and what the hook answers to a ping.\<close>

definition after_notice :: "'n nanomsg \<Rightarrow> 'n notified \<Rightarrow> device \<Rightarrow> 'n \<Rightarrow> (herror + unit) \<times> device \<times> 'n" where
  "after_notice nn notified d n =
    (case observer_wait nn d n of
       (Inr came, d1, n1) \<Rightarrow>
         if came \<and> length (get_notice d1) \<le> 2 then (case notified d1 n1 of (r, n2) \<Rightarrow> (r, d1, n2))
         else (Inr (), d1, n1)
     | (Inl x, d1, n1) \<Rightarrow> (Inr (), d1, n1))"

definition request_read :: "'n nanomsg \<Rightarrow> (string \<Rightarrow> json option) \<Rightarrow> device \<Rightarrow> 'n \<Rightarrow> herror + text_read option" where
  "request_read nn parse d n =
    (case rep_recv nn d n of
       (Inl x, d1, n1) \<Rightarrow> Inl x
     | (Inr rc, d1, n1) \<Rightarrow> Inr (if 0 < rc then Some (read_text parse (so_message (dev_rep_sock d1))) else None))"

definition turn_read ::
    "'n nanomsg \<Rightarrow> (string \<Rightarrow> json option) \<Rightarrow> 'n notified \<Rightarrow> i64 \<Rightarrow> i64 \<Rightarrow> message list \<Rightarrow>
     reader_left \<Rightarrow> device \<Rightarrow> 'n \<Rightarrow> turn" where
  "turn_read nn parse notified clock1 clock2 fs left d n =
    \<lparr>t_clock = clock1, t_notice = notice_read nn parse d n, t_request_clock = clock2,
     t_request = (case after_notice nn notified d n of (_, d1, n1) \<Rightarrow> request_read nn parse d1 n1), t_frames = fs, t_left = left\<rparr>"

lemma observer_wait_home: "observer_wait nn d n = (r, d1, n1) \<Longrightarrow> dev_home d1 = dev_home d"
  by (auto simp: observer_wait_def split: prod.splits sum.splits)

lemma rep_recv_home: "rep_recv nn d n = (r, d1, n1) \<Longrightarrow> dev_home d1 = dev_home d"
  by (auto simp: rep_recv_def split: prod.splits)

lemma io_notice_refines:
  assumes "io_notice nn parse notified clock1 hs (d, n, h) = (r, d1, n1, h1)"
  shows "take_notice (\<lambda>h. (fst (after_notice nn notified d n), h)) (turn_read nn parse notified clock1 clock2 fs left d n) hs h = (r, h1)
    \<and> (case r of Inl x \<Rightarrow> True | Inr hs1 \<Rightarrow> snd (after_notice nn notified d n) = (d1, n1)) \<and> dev_home d1 = dev_home d"
proof -
  obtain came d2 n2 where w: "observer_wait nn d n = (came, d2, n2)" by (metis prod_cases3)
  note home = observer_wait_home [OF w]
  show ?thesis
  proof (cases came)
    case (Inl x)
    then show ?thesis using assms w home by (simp add: io_notice_def take_notice_def turn_read_def notice_read_def) auto
  next
    case (Inr c)
    consider "\<not> c" | "c" "2 < length (get_notice d2)" | "c" "length (get_notice d2) \<le> 2" by linarith
    then show ?thesis
    proof cases
      case 1
      then show ?thesis using assms w home Inr
        by (auto simp: io_notice_def take_notice_def turn_read_def notice_read_def after_notice_def)
    next
      case 2
      obtain r2 h2 where "on_json (read_text parse (get_notice d2)) hs (h\<lparr>h_now := clock1\<rparr>) = (r2, h2)" by force
      then show ?thesis using assms w home Inr 2
        by (auto simp: io_notice_def take_notice_def turn_read_def notice_read_def after_notice_def Let_def split: sum.split)
    next
      case 3
      obtain r2 n3 where "notified d2 n2 = (r2, n3)" by force
      then show ?thesis using assms w home Inr 3
        by (cases r2) (auto simp: io_notice_def take_notice_def turn_read_def notice_read_def after_notice_def Let_def)
    qed
  qed
qed

lemma io_request_refines:
  assumes "io_request nn parse clock2 hs (d, n, h) = (r, d1, n1, h1)"
    and "t_request t = request_read nn parse d n" "t_request_clock t = clock2"
  shows "take_request t hs h = (r, h1) \<and> dev_home d1 = dev_home d"
proof -
  obtain rc d2 n2 where w: "rep_recv nn d n = (rc, d2, n2)" by (metis prod_cases3)
  note home = rep_recv_home [OF w]
  show ?thesis
  proof (cases rc)
    case (Inl x)
    then show ?thesis using assms w home by (simp add: io_request_def take_request_def request_read_def)
  next
    case (Inr c)
    obtain r2 h2 where "on_json (read_text parse (so_message (dev_rep_sock d2))) hs (h\<lparr>h_now := clock2\<rparr>) = (r2, h2)" by force
    then show ?thesis using assms w home Inr
      by (cases "0 < c") (simp_all add: io_request_def take_request_def request_read_def)
  qed
qed

text \<open>A turn of the loop that reads its sockets is the turn of theory Hero on what they gave: a
  time-out, a signal or nothing to read are no notice, any other error ends the loop, two
  characters are a ping and anything longer is read as json.\<close>

lemma sockets_refine_turn:
  assumes run: "io_produce_one nn parse notified clock1 clock2 fs left hs (d, n, h) = (r, d', n', h')"
    and home: "dev_home d = h_home h"
  shows "produce_one (\<lambda>h. (fst (after_notice nn notified d n), h))
      (turn_read nn parse notified clock1 clock2 fs left d n) hs h = (r, h') \<and> dev_home d' = dev_home d"
proof (cases "l_mode (h_home h) = LIVE")
  case False
  then show ?thesis using run home
    by (auto simp: io_produce_one_def produce_one_def take_frames_def turn_read_def journal_end_def
        split: prod.splits sum.splits reader_left.splits)
next
  case live: True
  let ?t = "turn_read nn parse notified clock1 clock2 fs left d n"
  obtain r1 d1 n1 h1 where 1: "io_notice nn parse notified clock1 hs (d, n, h) = (r1, d1, n1, h1)" by (metis prod_cases4)
  note n1 = io_notice_refines [OF 1, of clock2 fs left]
  show ?thesis
  proof (cases r1)
    case (Inl x)
    then show ?thesis using run home live 1 n1 by (auto simp: io_produce_one_def produce_one_def)
  next
    case (Inr hs1)
    obtain r2 d2 n2 h2 where 2: "io_request nn parse clock2 hs1 (d1, n1, h1) = (r2, d2, n2, h2)" by (metis prod_cases4)
    have "t_request ?t = request_read nn parse d1 n1" "t_request_clock ?t = clock2"
      using n1 Inr by (auto simp: turn_read_def split: prod.splits)
    note n2 = io_request_refines [OF 2 this]
    have "dev_home d2 = dev_home d" using n1 n2 by simp
    then show ?thesis using run home live 1 2 n1 n2 Inr
      by (cases r2) (auto simp: io_produce_one_def produce_one_def take_frames_def turn_read_def journal_end_def
        split: prod.splits sum.splits reader_left.splits)
  qed
qed

text \<open>Receiving never throws the errors that end the loop quietly.\<close>

lemma socket_recv_loud: "socket_recv nn w s n = (Inl x, s1, n1) \<Longrightarrow> \<not> quits_quietly x"
  by (auto simp: socket_recv_def quits_quietly_def Let_def split: prod.splits sum.splits if_splits)

lemma turn_read_is_socket_turn: "socket_turn (turn_read nn parse notified clock1 clock2 fs left d n)"
proof -
  have "\<not> quits_quietly x" if "notice_read nn parse d n = Inl x" for x
    using that socket_recv_loud [of nn "dev_low_latency d" "dev_observer d" n x]
    by (auto simp: notice_read_def observer_wait_def split: prod.splits sum.splits)
  moreover have "\<not> quits_quietly x" if "request_read nn parse d' n' = Inl x" for x d' n'
    using that socket_recv_loud [of nn True "dev_rep_sock d'" n' x]
    by (auto simp: request_read_def rep_recv_def split: prod.splits sum.splits)
  ultimately show ?thesis
    by (auto simp: socket_turn_def turn_read_def split: sum.splits prod.splits)
qed

section \<open>The life of a process\<close>

text \<open>A handler that does not bring a stopped process back.\<close>

definition mortal :: "'a handler \<Rightarrow> bool" where
  "mortal s \<longleftrightarrow> (\<forall>e h. h_live (snd (s e h)) \<longrightarrow> h_live h)"

lemma publish_mortal:
  assumes "\<forall>s \<in> set hs. mortal s" "publish_event e hs h = (hs', h')"
  shows "(h_live h' \<longrightarrow> h_live h \<and> hs' = hs) \<and> (\<forall>s \<in> set hs'. mortal s)"
  using assms
proof (induction hs arbitrary: h hs' h')
  case (Cons s hs)
  obtain r h1 where s: "s e h = (r, h1)" by force
  have by_s: "mortal s" and by_hs: "\<forall>s \<in> set hs. mortal s" using Cons.prems(1) by simp_all
  have h1: "h_live h1 \<Longrightarrow> h_live h" using by_s s unfolding mortal_def by (metis snd_conv)
  show ?case
  proof (cases r)
    case (Inl x)
    then have "publish_event e hs (signal_stop h1) = (hs', h')"
      using Cons.prems(2) publish_event_throws [of s e h x h1 hs] s by simp
    from Cons.IH [OF by_hs this] show ?thesis by simp
  next
    case (Inr u)
    obtain hs1 where hs1: "publish_event e hs h1 = (hs1, h')" "hs' = s # hs1"
      using Cons.prems(2) publish_event_returns [of s e h u h1 hs] s Inr by (cases "publish_event e hs h1") simp
    from Cons.IH [OF by_hs hs1(1)] show ?thesis using by_s h1 hs1(2) by simp
  qed
qed simp

lemma drain_mortal:
  assumes "\<forall>s \<in> set hs. mortal s" "drain fs hs h = (go, hs', h')"
  shows "(h_live h' \<longrightarrow> h_live h \<and> hs' = hs) \<and> (\<forall>s \<in> set hs'. mortal s)"
  using assms
proof (induction fs arbitrary: hs h)
  case (Cons f fs)
  show ?case
  proof (cases "m_gen_time f \<le> h_end_time h")
    case True
    obtain hs1 h1 where p: "publish_event f hs (h\<lparr>h_now := m_gen_time f\<rparr>) = (hs1, h1)" by force
    note 1 = publish_mortal [OF Cons.prems(1) p]
    have "drain fs hs1 h1 = (go, hs', h')" using Cons.prems(2) True p by simp
    from Cons.IH [OF conjunct2 [OF 1] this] show ?thesis using 1 by simp
  qed (use Cons.prems in simp)
qed simp

text \<open>What a part of a turn may do: it does not revive the process, the subscriptions that are left are
  all of them or the process is stopped, and its errors are no reason to end quietly.\<close>

definition survives :: "'a handler list \<Rightarrow> 'a hero_scheme \<Rightarrow> herror + 'a handler list \<Rightarrow> 'a hero_scheme \<Rightarrow> bool" where
  "survives hs h r h' \<longleftrightarrow> (h_live h' \<longrightarrow> h_live h) \<and>
    (case r of Inl x \<Rightarrow> \<not> quits_quietly x | Inr hs' \<Rightarrow> (\<forall>s \<in> set hs'. mortal s) \<and> (h_live h' \<longrightarrow> hs' = hs))"

lemma survives_trans: "survives hs h (Inr hs1) h1 \<Longrightarrow> survives hs1 h1 r h2 \<Longrightarrow> survives hs h r h2"
  by (cases r) (auto simp: survives_def)

lemma on_json_survives:
  assumes "\<forall>s \<in> set hs. mortal s" "on_json x hs h = (r, h')"
  shows "survives hs h r h'"
proof (cases x)
  case (Inr j)
  show ?thesis
  proof (cases "nanomsg_json j")
    case m: (Inr m)
    obtain hs1 h1 where "publish_event m hs h = (hs1, h1)" by force
    then show ?thesis using assms publish_mortal [OF assms(1)] Inr m by (auto simp: on_json_def survives_def)
  qed (use assms Inr in \<open>auto simp: on_json_def quits_quietly_def survives_def\<close>)
qed (use assms in \<open>auto simp: on_json_def quits_quietly_def survives_def\<close>)

lemma take_frames_survives:
  assumes "\<forall>s \<in> set hs. mortal s" "take_frames l t hs h = (r, h')"
  shows "(\<exists>x. r = Inl x \<and> survives hs h (Inl x) h') \<or> (\<exists>go hs'. r = Inr (go, hs') \<and> survives hs h (Inr hs') h')"
proof -
  obtain go hs3 h3 where "drain (t_frames t) hs h = (go, hs3, h3)" by (metis prod_cases3)
  then show ?thesis using drain_mortal [OF assms(1)] assms(2)
    by (cases "t_left t") (auto simp: take_frames_def journal_end_def survives_def quits_quietly_def split: if_splits)
qed

lemma take_request_survives:
  assumes "\<forall>s \<in> set hs. mortal s" "socket_turn t" "take_request t hs h = (r, h')"
  shows "survives hs h r h'"
proof (cases "t_request t")
  case (Inr q)
  show ?thesis
  proof (cases q)
    case (Some x)
    then have "on_json x hs (h\<lparr>h_now := t_request_clock t\<rparr>) = (r, h')" using assms(3) Inr by (simp add: take_request_def)
    from on_json_survives [OF assms(1) this] show ?thesis by (simp add: survives_def)
  qed (use assms Inr in \<open>auto simp: take_request_def survives_def\<close>)
qed (use assms in \<open>auto simp: take_request_def survives_def socket_turn_def\<close>)

text \<open>A hook that only the network acts on: it does not touch the process, and does not end it quietly.\<close>

definition only_network :: "('a hero_scheme \<Rightarrow> (herror + unit) \<times> 'a hero_scheme) \<Rightarrow> bool" where
  "only_network f \<longleftrightarrow> (\<forall>h. snd (f h) = h \<and> (case fst (f h) of Inl x \<Rightarrow> \<not> quits_quietly x | Inr _ \<Rightarrow> True))"

lemma take_notice_survives:
  assumes hs: "\<forall>s \<in> set hs. mortal s" and "socket_turn t" "only_network f" "take_notice f t hs h = (r, h')"
  shows "survives hs h r h'"
proof (cases "t_notice t")
  case (Inr q)
  consider "q = None" | "q = Some Ping" | x where "q = Some (Notice x)" by (metis notice.exhaust option.exhaust)
  then show ?thesis
  proof cases
    case 2
    let ?h = "h\<lparr>h_now := t_clock t\<rparr>"
    obtain r3 where "f ?h = (r3, ?h)" "case r3 of Inl x \<Rightarrow> \<not> quits_quietly x | Inr _ \<Rightarrow> True"
      using assms(3) unfolding only_network_def by (metis prod.collapse)
    then show ?thesis using assms(4) Inr 2 hs by (cases r3) (auto simp: take_notice_def survives_def)
  next
    case 3
    then have "on_json x hs (h\<lparr>h_now := t_clock t\<rparr>) = (r, h')" using assms(4) Inr by (simp add: take_notice_def)
    from on_json_survives [OF hs this] show ?thesis by (simp add: survives_def)
  qed (use assms Inr in \<open>auto simp: take_notice_def survives_def\<close>)
qed (use assms in \<open>auto simp: take_notice_def survives_def socket_turn_def\<close>)

lemma produce_one_survives:
  assumes hs: "\<forall>s \<in> set hs. mortal s" and t: "socket_turn t" and f: "only_network f"
    and run: "produce_one f t hs h = (r, h')"
  shows "(\<exists>x. r = Inl x \<and> survives hs h (Inl x) h') \<or> (\<exists>go hs'. r = Inr (go, hs') \<and> survives hs h (Inr hs') h')"
proof (cases "l_mode (h_home h) = LIVE")
  case False
  then show ?thesis using run take_frames_survives [OF hs] by (simp add: produce_one_def)
next
  case True
  obtain r1 h1 where 1: "take_notice f t hs h = (r1, h1)" by force
  note s1 = take_notice_survives [OF hs t f 1]
  show ?thesis
  proof (cases r1)
    case (Inl x)
    then show ?thesis using run True 1 s1 by (auto simp: produce_one_def)
  next
    case hs1: (Inr hs1)
    obtain r2 h2 where 2: "take_request t hs1 h1 = (r2, h2)" by force
    have m1: "\<forall>s \<in> set hs1. mortal s" using s1 hs1 by (simp add: survives_def)
    note s2 = survives_trans [OF s1 [unfolded hs1] take_request_survives [OF m1 t 2]]
    show ?thesis
    proof (cases r2)
      case (Inl x)
      then show ?thesis using run True 1 2 hs1 s2 by (auto simp: produce_one_def)
    next
      case hs2: (Inr hs2)
      have "\<forall>s \<in> set hs2. mortal s" using s2 hs2 by (simp add: survives_def)
      moreover have "take_frames True t hs2 h2 = (r, h')" using run True 1 2 hs1 hs2 by (simp add: produce_one_def)
      ultimately show ?thesis using take_frames_survives survives_trans [OF s2 [unfolded hs2]] by metis
    qed
  qed
qed

text \<open>What holds of a run at every moment.\<close>

definition run_ok :: "'a handler list \<times> 'a hero_scheme run_state \<Rightarrow> bool" where
  "run_ok x = (case x of (hs, r) \<Rightarrow>
     (\<forall>s \<in> set hs. mortal s) \<and> (h_live (rs_hero r) \<longrightarrow> hs \<noteq> []) \<and>
     (rs_phase r \<in> {Leaving, Finished} \<longrightarrow> \<not> h_live (rs_hero r)) \<and>
     (rs_phase r \<in> {Looping, Leaving} \<longrightarrow> rs_exits r = 0) \<and>
     (rs_phase r = Finished \<longrightarrow> rs_exits r = 1) \<and> rs_exits r \<le> 1)"

lemma interrupted: "hs \<noteq> [] \<Longrightarrow> \<not> h_live (fold (\<lambda>_. interrupt_on_error x) hs h)"
  by (induction hs rule: rev_induct) (simp_all add: interrupt_on_error_eq)

lemma run_step_ok:
  assumes "run_step f on_exit s s'" "run_ok s" "only_network f" "\<forall>h. h_live (on_exit h) \<longrightarrow> h_live h"
  shows "run_ok s'"
  using assms
proof (induction rule: run_step.induct)
  case (turn r t hs go hs1 h1)
  have "\<forall>s \<in> set hs. mortal s" using turn.prems(1) by (simp add: run_ok_def)
  from produce_one_survives [OF this turn(3) turn.prems(2) turn(4)] have "survives hs (rs_hero r) (Inr hs1) h1" by simp
  then show ?case using turn.prems(1) turn(1,2) by (auto simp: run_ok_def survives_def)
next
  case (failed r t hs x h1)
  have "\<forall>s \<in> set hs. mortal s" "hs \<noteq> []" using failed.prems(1) failed(2) by (auto simp: run_ok_def)
  moreover from produce_one_survives [OF this(1) failed(3) failed.prems(2) failed(4)]
  have "\<not> quits_quietly x" by (simp add: survives_def)
  ultimately show ?case using failed.prems(1) failed(1) interrupted [of hs x h1]
    by (auto simp: run_ok_def resume_on_error_def)
next
  case (kill r s h1 hs)
  then show ?case by (cases "rs_phase r") (auto simp: run_ok_def exit_hero_def)
qed (auto simp: run_ok_def stop_hero_def split: if_splits)

text \<open>C19: the last words of a process, such as the mark that ends its session, are said at most once,
  and exactly once by a run that finishes, whatever its subscriptions throw, whatever it receives from its
  sockets, and whichever signals come and when.  The hook that passes a notice on must not end the loop by an
  error that quits quietly (hypothesis \<open>only_network\<close>): that of every process but the master does nothing, and
  that of the master sends, which may be interrupted or time out; then the last words are said twice.\<close>

theorem last_words_said_once:
  assumes "run_steps f on_exit (hs, started_run h) (hs', r)"
    and "hs \<noteq> []" "\<forall>s \<in> set hs. mortal s" "only_network f" "\<forall>h. h_live (on_exit h) \<longrightarrow> h_live h"
  shows "rs_exits r \<le> 1 \<and> (rs_phase r = Finished \<longrightarrow> rs_exits r = 1 \<and> \<not> h_live (rs_hero r))"
proof -
  have "run_ok s'" if "run_steps f on_exit s s'" "run_ok s" for s s'
    using that by (induction rule: run_steps.induct) (use run_step_ok [OF _ _ assms(4,5)] in blast)+
  moreover have "run_ok (hs, started_run h)" using assms(2,3) by (simp add: run_ok_def started_run_def)
  ultimately have "run_ok (hs', r)" using assms(1) by blast
  then show ?thesis by (simp add: run_ok_def)
qed

text \<open>A recording subscription, one that fails, and an interrupt: the run finishes.\<close>

theorem last_words_said_once_witness:
  "\<exists>hs r. run_steps (Pair (Inr ())) (\<lambda>h. h\<lparr>seen := [late_event]\<rparr>) ([failing, record_event], started_run replaying) (hs, r) \<and>
    rs_phase r = Finished \<and> rs_exits r = 1"
proof -
  let ?f = "Pair (Inr ()) :: recorder \<Rightarrow> (herror + unit) \<times> recorder" and ?x = "\<lambda>h. h\<lparr>seen := [late_event]\<rparr>"
  let ?hs = "[failing, record_event]"
  let ?r1 = "(started_run replaying)\<lparr>rs_hero := signal_stop replaying\<rparr>"
  let ?r2 = "?r1\<lparr>rs_phase := Leaving\<rparr>"
  let ?r3 = "?r2\<lparr>rs_phase := Finished, rs_hero := ?x (rs_hero ?r2), rs_exits := Suc (rs_exits ?r2)\<rparr>"
  have live: "h_live replaying" by (simp add: replaying_def new_hero_def hero.extend_def)
  have "run_step ?f ?x (?hs, started_run replaying) (?hs, ?r1)"
    by (rule run_step.stop [where s = SIGINT]) (simp_all add: started_run_def stop_hero_def live)
  moreover have "run_step ?f ?x (?hs, ?r1) (?hs, ?r2)" by (rule run_step.over) (simp_all add: started_run_def)
  moreover have "run_step ?f ?x (?hs, ?r2) (?hs, ?r3)" by (rule run_step.leave) simp
  ultimately have steps: "run_steps ?f ?x (?hs, started_run replaying) (?hs, ?r3)"
    by (meson run_steps.intros)
  moreover have "\<forall>s \<in> set ?hs. mortal s" by (simp add: mortal_def failing_def record_event_def)
  moreover have "only_network ?f" by (simp add: only_network_def)
  ultimately have "rs_exits ?r3 = 1" using last_words_said_once [OF steps] by simp
  then show ?thesis using steps by (intro exI [of _ ?hs] exI [of _ ?r3]) simp
qed




section \<open>Checking in\<close>

lemma socket_recv_whole:
  assumes "nn_recv nn (so_sock s) (length (so_buf s)) w n = (Inr (int (length msg), msg), n1)" "length msg \<le> length (so_buf s)"
  obtains s1 where "socket_recv nn w s n = (Inr (int (length msg)), s1, n1)" "so_message s1 = msg"
  using assms by (auto simp: socket_recv_def Let_def)

text \<open>The turn of a master that is given a check-in and nothing else.\<close>

lemma master_turn:
  assumes arrives: "nn_recv nn (so_sock (dev_observer d)) (length (so_buf (dev_observer d))) (dev_low_latency d) n =
      (Inr (int (length text), text), n1)" "length text \<le> length (so_buf (dev_observer d))" "2 < length text"
    and quiet: "nn_recv nn (so_sock (dev_rep_sock d)) (length (so_buf (dev_rep_sock d))) True n1 = (Inl EAGAIN, n2)"
    and parsed: "parse text = Some j" "nanomsg_json j = Inr e"
    and home: "l_mode (dev_home d) = LIVE"
    and reacts: "publish_event e hs (m\<lparr>h_now := clock\<rparr>) = (hs', m')"
  shows "\<exists>d'. io_produce_one nn parse notified clock clock2 [] left hs (d, n, m) = (Inr (True, hs'), d', n2, m')"
proof -
  obtain s1 where s1: "socket_recv nn (dev_low_latency d) (dev_observer d) n = (Inr (int (length text)), s1, n1)" "so_message s1 = text"
    by (rule socket_recv_whole [OF arrives(1,2)])
  have "io_notice nn parse notified clock hs (d, n, m) = (Inr hs', d\<lparr>dev_observer := s1\<rparr>, n1, m')"
    using s1 arrives(3) parsed reacts less_le_trans [of 0 2 "length text"]
    by (auto simp: io_notice_def observer_wait_def get_notice_def Let_def read_text_def on_json_def)
  moreover have "io_request nn parse clock2 hs' (d\<lparr>dev_observer := s1\<rparr>, n1, m') =
      (Inr hs', d\<lparr>dev_observer := s1, dev_rep_sock := dev_rep_sock d\<lparr>so_message := []\<rparr>\<rparr>, n2, m')"
    using quiet by (simp add: io_request_def rep_recv_def socket_recv_def)
  ultimately show ?thesis using home by (simp add: io_produce_one_def journal_end_def)
qed

text \<open>What the application does with the announcement of its own registration.\<close>

lemma react_registered:
  assumes "location_of_json j = Inr l'" "live_app l a"
  shows "\<exists>a1. apprentice_react (app_methods_of f) (as_message (w, t, T_Register, JsonData j)) a = (Inr (), a1) \<and> live_app l a1"
  using assms
  by (simp add: apprentice_react_def join_commands_def app_methods_of_def as_message_def register_location_from_event_def
      app_register_location_def live_app_def system_codes Let_def)

text \<open>Everything the master writes to introduce an application, received by it in order.\<close>

lemma introduced_application:
  assumes m: "master_wf m" "\<not> has_location m (uid home)" "uid (app_master_location (uid home)) \<noteq> uid home"
      "uid (app_master_location (uid home)) \<noteq> 0"
    and b: "live_app home b" "location_of_json j = Inr home"
  shows "\<exists>b'. receive_all f (map as_message (introduction home j t m @
      [((command_location home m, uid home), t, T_RequestStart, NoData)])) b = (Inr (), snd (f b')) \<and>
    a_started b' \<and> map_of (h_writers b') 0 = Some (home, 0) \<and>
    (\<forall>u. has_location (add_app home m) u \<longrightarrow> has_location b' u)"
proof -
  let ?start = "[((command_location home m, uid home), t, T_RequestStart, NoData)]"
  obtain b1 where b1: "apprentice_react (app_methods_of f)
      (as_message (the (map_of (h_writers m) 0), t, T_Register, JsonData j)) b = (Inr (), b1)" "live_app home b1"
    using react_registered [OF b(2,1)] by blast
  have hd: "introduction home j t m = (the (map_of (h_writers m) 0), t, T_Register, JsonData j) # tl (introduction home j t m)"
    by (simp add: introduction_def Let_def)
  have "receive_all f (map as_message (introduction home j t m @ ?start)) b =
      receive_all f (map as_message (tl (introduction home j t m) @ ?start)) b1"
    by (subst hd) (simp add: b1(1))
  then show ?thesis using introduction_starts_application [OF m b1(2), of f j t] by metis
qed

text \<open>C17: an application that checks in is started.  If the network carries its message to the master,
  the turn of the master registers it, and everything the master then writes, received by the
  application in the order it was written, ends in its \<open>on_start\<close>, run once, in a state that has a writer
  to its public journal and knows what the master knew.\<close>

theorem checkin_starts_application:
  assumes sent: "device_publish nn (dump (last (a_published (checkin now pid b)))) c n = (Inr sent, n1)"
    and arrives: "nn_recv nn (so_sock (dev_observer d)) (length (so_buf (dev_observer d))) (dev_low_latency d) n1 =
      (Inr (int (length (dump (checkin_request now pid home))), dump (checkin_request now pid home)), n2)"
    and fits: "2 < length (dump (checkin_request now pid home))"
      "length (dump (checkin_request now pid home)) \<le> length (so_buf (dev_observer d))"
    and quiet: "nn_recv nn (so_sock (dev_rep_sock d)) (length (so_buf (dev_rep_sock d))) True n2 = (Inl EAGAIN, n3)"
    and parsed: "parse (dump (checkin_request now pid home)) = Some (checkin_request now pid home)"
    and master: "master_wf m" "l_mode (dev_home d) = LIVE" "\<not> has_location m (uid home)"
    and ids: "uid home \<noteq> 0" "uid (app_master_location (uid home)) \<noteq> uid home" "uid (app_master_location (uid home)) \<noteq> 0"
      "\<not> has_writer m (uid (app_master_location (uid home)))"
    and app: "live_app home b"
  shows "\<exists>hs' d' m' b'. io_produce_one nn parse notified clock clock2 [] left (master_subscriptions (\<lambda>_ _ m. m) clock3) (d, n1, m) =
      (Inr (True, hs'), d', n3, m') \<and>
    has_location m' (uid home) \<and> take (length (h_out m)) (h_out m') = h_out m \<and>
    receive_all f (map as_message (drop (length (h_out m)) (h_out m'))) (checkin now pid b) = (Inr (), snd (f b')) \<and>
    a_started b' \<and> map_of (h_writers b') 0 = Some (home, 0) \<and>
    (\<forall>u. has_location m' u \<longrightarrow> has_location b' u)"
proof -
  obtain e j where e: "nanomsg_json (checkin_request now pid home) = Inr e" "m_msg_type e = T_Register" "m_gen_time e = now"
    "m_data e = JsonData j" "location_of_json j = Inr home"
    using checkin_names_home [of now pid home] by blast
  define m0 where "m0 = m\<lparr>h_now := clock\<rparr>"
  have m0: "master_wf m0" "\<not> has_location m0 (uid home)" "no_clash e m0" "h_out m0 = h_out m"
    using master ids e by (simp_all add: m0_def master_wf_def has_location_def no_clash_def has_writer_def)
  obtain m1 where m1: "h_locations m1 = h_locations (add_app home m0)" "h_out m1 = h_out m0 @ introduction home j now m0"
    "register_app (\<lambda>_ _ m. m) clock3 e m0 =
      (Inr (), write_msg (command_location home m0, uid home) now T_RequestStart NoData m1)"
    using register_app_new [OF m0(1) e(4,5) m0(2,3), where f = "\<lambda>_ _ m. m"] e(3) by auto
  let ?hs = "master_subscriptions (\<lambda>_ _ m. m) clock3"
  let ?m' = "write_msg (command_location home m0, uid home) now T_RequestStart NoData m1"
  have "publish_event e ?hs (m\<lparr>h_now := clock\<rparr>) = (?hs, ?m')"
    using m1(3) e(2) by (simp add: publish_master master_react_def m0_def)
  then obtain d' where turn: "io_produce_one nn parse notified clock clock2 [] left ?hs (d, n1, m) = (Inr (True, ?hs), d', n3, ?m')"
    using master_turn [of nn d n1 _ n2 n3 parse _ e, OF arrives fits(2,1) quiet parsed e(1) master(2)] by blast
  have app': "live_app home (checkin now pid b)" using app by (simp add: live_app_def checkin_def)
  obtain b' where b': "receive_all f (map as_message (introduction home j now m0 @
      [((command_location home m0, uid home), now, T_RequestStart, NoData)])) (checkin now pid b) = (Inr (), snd (f b'))"
    "a_started b'" "map_of (h_writers b') 0 = Some (home, 0)" "\<forall>u. has_location (add_app home m0) u \<longrightarrow> has_location b' u"
    using introduced_application [OF m0(1,2) ids(2,3) app' e(5), of f now] by blast
  have "has_location (add_app home m0) u \<longleftrightarrow> has_location ?m' u" for u by (simp add: has_location_def m1(1))
  moreover have "has_location ?m' (uid home)"
    by (simp add: has_location_def m1(1) add_app_def register_location_def update_conv' split: option.split)
  moreover have "drop (length (h_out m)) (h_out ?m') = introduction home j now m0 @
      [((command_location home m0, uid home), now, T_RequestStart, NoData)]"
    by (simp add: m1(2) m0(4))
  moreover have "take (length (h_out m)) (h_out ?m') = h_out m" by (simp add: m1(2) m0(4))
  ultimately show ?thesis
    using turn b' by (intro exI [of _ ?hs] exI [of _ d'] exI [of _ ?m'] exI [of _ b']) simp
qed

text \<open>A network that carries every message to the socket 1, in order, and a json text for one message.\<close>

definition queue_network :: "string list nanomsg" where
  "queue_network = \<lparr>nn_socket = \<lambda>p n. (Inr 0, n), nn_setsockopt = \<lambda>k v n. (Inr (), n), nn_bind = \<lambda>k u n. (Inr 0, n),
     nn_connect = \<lambda>k u n. (Inr 0, n), nn_send = \<lambda>k msg w n. (Inr (int (length msg)), n @ [msg]),
     nn_recv = (\<lambda>k cap w n. case n of [] \<Rightarrow> (Inl EAGAIN, n)
       | x # xs \<Rightarrow> if k = 1 then (Inr (int (length x), take cap x), xs) else (Inl EAGAIN, n)),
     nn_shutdown = \<lambda>k w n. (Inr (), n), nn_close = \<lambda>k n. (Inr (), n)\<rparr>"

definition demo_socket :: "int \<Rightarrow> protocol \<Rightarrow> socket" where
  "demo_socket k p = \<lparr>so_sock = k, so_protocol = p, so_url = [], so_buf = replicate 16 NUL, so_message = []\<rparr>"

definition demo_device :: "location \<Rightarrow> device" where
  "demo_device home = \<lparr>dev_home = home, dev_live_home = home, dev_low_latency = False, dev_lazy = False,
     dev_rep_sock = demo_socket 0 REPLY, dev_publisher = demo_socket 2 PUSH, dev_observer = demo_socket 1 PULL\<rparr>"

theorem checkin_starts_application_witness:
  "\<exists>hs' d' n' m' b'. io_produce_one queue_network (\<lambda>_. Some (checkin_request 4 5 demo_app)) hero_on_notify 6 7 [] AtEnd
      (master_subscriptions (\<lambda>_ _ m. m) 8) (demo_device master_location, [''{check-in}''], fresh_master) = (Inr (True, hs'), d', n', m') \<and>
    receive_all (\<lambda>b. (Inr (), b)) (map as_message (drop (length (h_out fresh_master)) (h_out m')))
      (checkin 4 5 (new_apprentice demo_app 0)) = (Inr (), b') \<and> a_started b'"
proof -
  have sent: "device_publish queue_network ''{check-in}'' (demo_device demo_app) [] = (Inr 10, [''{check-in}''])"
    by (simp add: device_publish_def socket_send_def queue_network_def)
  have arrives: "nn_recv queue_network (so_sock (dev_observer (demo_device master_location)))
      (length (so_buf (dev_observer (demo_device master_location)))) (dev_low_latency (demo_device master_location)) [''{check-in}''] =
      (Inr (int (length ''{check-in}''), ''{check-in}''), [])"
    by (simp add: queue_network_def demo_device_def demo_socket_def)
  have quiet: "nn_recv queue_network (so_sock (dev_rep_sock (demo_device master_location)))
      (length (so_buf (dev_rep_sock (demo_device master_location)))) True [] = (Inl EAGAIN, [])"
    by (simp add: queue_network_def demo_device_def demo_socket_def)
  have live: "l_mode (dev_home (demo_device master_location)) = LIVE"
    by (simp add: demo_device_def master_location_def make_location_def)
  have fits: "2 < length ''{check-in}''" "length ''{check-in}'' \<le> length (so_buf (dev_observer (demo_device master_location)))"
    by (simp_all add: demo_device_def demo_socket_def)
  have "\<not> has_location fresh_master (uid demo_app)" "uid demo_app \<noteq> 0"
    "uid (app_master_location (uid demo_app)) \<noteq> uid demo_app" "uid (app_master_location (uid demo_app)) \<noteq> 0"
    "\<not> has_writer fresh_master (uid (app_master_location (uid demo_app)))"
    by (simp_all add: fresh_master_def new_master_def new_hero_def hero.extend_def has_location_def has_writer_def write_msg_def
        uid_demo_app uid_demo_command)
  moreover have "live_app demo_app (new_apprentice demo_app 0)"
    by (simp add: live_app_def new_apprentice_def new_hero_def hero.extend_def demo_app_def make_location_def)
  ultimately show ?thesis
    using checkin_starts_application [where nn = queue_network and dump = "\<lambda>_. ''{check-in}''" and now = 4 and pid = 5
      and b = "new_apprentice demo_app 0" and home = demo_app and parse = "\<lambda>_. Some (checkin_request 4 5 demo_app)"
      and f = "\<lambda>b. (Inr (), b)" and notified = hero_on_notify and clock = 6 and ?clock2.0 = 7 and ?clock3.0 = 8,
      OF sent arrives fits quiet refl fresh_master_wf live, unfolded snd_conv] by blast
qed


end
