(* ===== verification/TimeText.thy ===== *)
theory TimeText
  imports Locations
begin

text \<open>
  Times as text (time/time.cpp).  The formatting functions of the C library (put_time, get_time,
  localtime, mktime) are parameters; what the program adds is the conversion \<open>%N\<close> for nanoseconds and
  the texts of times that are not positive.
\<close>

record 'tm libc =
  put_time :: "'tm \<Rightarrow> string \<Rightarrow> string"
  get_time :: "string \<Rightarrow> string \<Rightarrow> 'tm"
  localtime :: "int \<Rightarrow> 'tm"
  mktime :: "'tm \<Rightarrow> int"

definition KUNGFU_DATETIME_FORMAT_DEFAULT :: string where
  "KUNGFU_DATETIME_FORMAT_DEFAULT = ''%F %T.%N''"

section \<open>Regular expressions\<close>

text \<open>\<open>%N\<close> searched, and replaced everywhere.\<close>

fun has_nano :: "string \<Rightarrow> bool" where
  "has_nano (c # d # s) = (c = CHR ''%'' \<and> d = CHR ''N'' \<or> has_nano (d # s))"
| "has_nano s = False"

fun replace_nano :: "string \<Rightarrow> string \<Rightarrow> string" where
  "replace_nano r (c # d # s) =
    (if c = CHR ''%'' \<and> d = CHR ''N'' then r @ replace_nano r s else c # replace_nano r (d # s))"
| "replace_nano r s = s"

definition is_digit :: "char \<Rightarrow> bool" where
  "is_digit c \<longleftrightarrow> c \<in> set ''0123456789''"

definition replace_digits :: "char \<Rightarrow> string \<Rightarrow> string" where
  "replace_digits x s = map (\<lambda>c. if is_digit c then x else c) s"

text \<open>The first match of nine digits.\<close>

fun nine_digits :: "string \<Rightarrow> string option" where
  "nine_digits [] = None"
| "nine_digits (c # s) =
    (if length (take 9 (c # s)) = 9 \<and> list_all is_digit (take 9 (c # s)) then Some (take 9 (c # s)) else nine_digits s)"

section \<open>Formatting and parsing\<close>

text \<open>\<open>fmt::format("{:09d}", n)\<close>.\<close>

definition format_09 :: "int \<Rightarrow> string" where
  "format_09 n =
    (let digits = show_nat (nat \<bar>n\<bar>); sign = (if n < 0 then ''-'' else [])
     in sign @ replicate (9 - length sign - length digits) CHR ''0'' @ digits)"

definition strftime :: "'tm libc \<Rightarrow> i64 \<Rightarrow> string \<Rightarrow> string" where
  "strftime lc nanotime format =
    (let time_since_epoch = nanotime sdiv NANOSECONDS_PER_SECOND;
         normal_format = (if has_nano format then replace_nano (format_09 (nanotime smod NANOSECONDS_PER_SECOND)) format
                          else format);
         text = put_time lc (localtime lc time_since_epoch) normal_format
     in if 0 < nanotime then text else if nanotime = 0 then replace_digits CHR ''0'' text
        else replace_digits CHR ''#'' text)"

text \<open>Parsing.  With \<open>%N\<close> the code takes every nine digits of the time as nanoseconds, and assigns to the
  string it iterates over: after the first match the iteration goes on in a string that is gone,
  which is undefined and \<open>None\<close> here.  The string that is parsed is the one that was given, with its
  nanoseconds.\<close>

definition strptime :: "'tm libc \<Rightarrow> string \<Rightarrow> string \<Rightarrow> i64 option" where
  "strptime lc timestr format =
    (let normal_format = (if has_nano format then replace_nano [] format else format);
         parsed = mktime lc (get_time lc timestr normal_format) * NANOSECONDS_PER_SECOND
     in if has_nano format \<and> nine_digits timestr \<noteq> None then None else Some parsed)"

section \<open>What is written and read back\<close>

lemma replace_nano_none [simp]: "\<not> has_nano s \<Longrightarrow> replace_nano r s = s"
  by (induction r s rule: replace_nano.induct) auto

lemma has_nano_snoc [simp]: "has_nano (p @ ''%N'')"
proof (induction p)
  case (Cons c p)
  obtain d s where "p @ ''%N'' = d # s" by (cases "p @ ''%N''") auto
  then show ?case using Cons.IH by simp
qed simp

lemma nine_digits_suffix:
  assumes "length ds = 9" "list_all is_digit ds"
  shows "nine_digits (p @ ds) \<noteq> None"
proof (induction p)
  case Nil
  have "ds \<noteq> []" using assms(1) by auto
  then obtain d ds' where "ds = d # ds'" by (cases ds) auto
  moreover have "take 9 ds = ds" using assms(1) by simp
  ultimately show ?case using assms by (simp only: append_Nil nine_digits.simps) simp
qed simp

lemma digit_char_digit: "d < 10 \<Longrightarrow> is_digit (digit_char d)"
proof -
  have "\<forall>d \<in> set [0..<10]. is_digit (digit_char d)" by code_simp
  then show "d < 10 \<Longrightarrow> is_digit (digit_char d)" by simp
qed

lemma zero_digit: "is_digit CHR ''0''"
  by code_simp

lemma shown_digits: "list_all is_digit (show_nat n)"
  by (induction n rule: show_nat.induct) (subst show_nat.simps, simp add: digit_char_digit)

lemma format_09_nano:
  assumes "0 \<le> n" "n < 10 ^ 9"
  shows "length (format_09 n) = 9" "list_all is_digit (format_09 n)"
proof -
  have "nat n < 10 ^ Suc 8" using assms by (simp add: nat_less_iff)
  then have "length (show_nat (nat n)) \<le> 9" using show_nat_length [of "nat n" 8] by simp
  then show "length (format_09 n) = 9" using assms(1) by (simp add: format_09_def Let_def)
  show "list_all is_digit (format_09 n)" using assms(1) shown_digits [of "nat n"] zero_digit
    by (auto simp: format_09_def Let_def list_all_iff)
qed

text \<open>A positive time written without nanoseconds is read back as its second.  Written with them, as in
  the default format, it is not read back at all.\<close>

lemma written_time_read_back:
  assumes libc: "\<And>tm f. get_time lc (put_time lc tm f) f = tm" "\<And>s. mktime lc (localtime lc s) = s"
      "\<And>tm f ds. list_all is_digit ds \<Longrightarrow> put_time lc tm (f @ ds) = put_time lc tm f @ ds"
    and t: "0 < t"
  shows "\<not> has_nano f \<Longrightarrow> strptime lc (strftime lc t f) f = Some (t - t mod NANOSECONDS_PER_SECOND)"
    and "\<not> has_nano p \<Longrightarrow> last (CHR '' '' # p) \<noteq> CHR ''%'' \<Longrightarrow> strptime lc (strftime lc t (p @ ''%N'')) (p @ ''%N'') = None"
proof -
  have ns: "NANOSECONDS_PER_SECOND = 10 ^ 9" by (simp add: NANOSECONDS_PER_SECOND_def)
  show "strptime lc (strftime lc t f) f = Some (t - t mod NANOSECONDS_PER_SECOND)" if "\<not> has_nano f"
  proof -
    have "t sdiv NANOSECONDS_PER_SECOND = t div NANOSECONDS_PER_SECOND"
      using t ns by (simp add: signed_divide_int_def)
    then show ?thesis using that t libc(1,2) by (simp add: strptime_def strftime_def Let_def minus_mod_eq_div_mult)
  qed
  show "strptime lc (strftime lc t (p @ ''%N'')) (p @ ''%N'') = None" if p: "\<not> has_nano p" "last (CHR '' '' # p) \<noteq> CHR ''%''"
  proof -
    let ?ds = "format_09 (t smod NANOSECONDS_PER_SECOND)"
    have "0 \<le> t smod NANOSECONDS_PER_SECOND" "t smod NANOSECONDS_PER_SECOND < 10 ^ 9"
      using smod_nonneg [of t NANOSECONDS_PER_SECOND] t ns by simp_all
    note ds = format_09_nano [OF this]
    have "replace_nano r (p @ ''%N'') = p @ r" for r
      using p by (induction r p rule: replace_nano.induct) (auto split: if_splits)
    then have "strftime lc t (p @ ''%N'') = put_time lc (localtime lc (t sdiv NANOSECONDS_PER_SECOND)) p @ ?ds"
      using t libc(3) ds(2) by (simp add: strftime_def Let_def)
    then show ?thesis using nine_digits_suffix [OF ds] by (simp add: strptime_def Let_def)
  qed
qed

end
