(* ===== verification/Bars.thy ===== *)
theory Bars
  imports Apprentice "HOL-Library.Monad_Syntax"
begin

text \<open>
  The bar generator (service/bar.cpp): it subscribes instruments of a market data source and turns
  their trades into bars of a fixed interval.
\<close>

section \<open>Intervals\<close>

text \<open>\<open>regex_search\<close> of \<open>[0-9]+\<close> finds the first run of digits; \<open>stoi\<close> throws on a value that is
  no int.\<close>

definition is_digit :: "char \<Rightarrow> bool" where
  "is_digit c \<longleftrightarrow> 48 \<le> (of_char c :: nat) \<and> (of_char c :: nat) \<le> 57"

definition first_digits :: "string \<Rightarrow> string" where
  "first_digits s = takeWhile is_digit (dropWhile (\<lambda>c. \<not> is_digit c) s)"

definition digits_value :: "string \<Rightarrow> int" where
  "digits_value s = foldl (\<lambda>v c. 10 * v + (of_char c - 48)) 0 s"

definition parse_time_interval :: "string \<Rightarrow> herror + i64" where
  "parse_time_interval s =
    (if first_digits s = [] then Inl (InvalidInterval s)
     else let n = digits_value (first_digits s) in
       if \<not> in_i32 n then Inl (HandlerError ''stoi'')
       else if endswith s ''s'' then Inr (n * NANOSECONDS_PER_SECOND)
       else if endswith s ''m'' then Inr (n * NANOSECONDS_PER_MINUTE)
       else if endswith s ''h'' then Inr (n * NANOSECONDS_PER_HOUR)
       else if endswith s ''d'' then Inr (n * NANOSECONDS_PER_DAY)
       else Inl (InvalidInterval s))"

section \<open>State\<close>

record bar_generator = apprentice +
  source_location :: location
  time_interval :: i64
  bars :: "(u32 \<times> bar) list"
  bars_waiting :: "instrument list list"
  bars_listening :: bool

definition new_bar_generator :: "mode \<Rightarrow> json \<Rightarrow> i64 \<Rightarrow> herror + bar_generator" where
  "new_bar_generator m config now =
    (case bindE (jget config ''source'') as_string of
       Inl e \<Rightarrow> Inl (JsonError e)
     | Inr src \<Rightarrow>
        bindE (case jfind config ''time_interval'' of
                 None \<Rightarrow> Inr NANOSECONDS_PER_MINUTE
               | Some j \<Rightarrow> (case as_string j of Inl e \<Rightarrow> Inl (JsonError e) | Inr s \<Rightarrow> parse_time_interval s))
          (\<lambda>interval. Inr (apprentice.extend (new_apprentice (make_location m SYSTEM ''service'' ''bar'') now)
             \<lparr>source_location = make_location LIVE MD src src, time_interval = interval, bars = [], bars_waiting = [],
                bars_listening = False\<rparr>)))"

definition source_uid :: "bar_generator \<Rightarrow> u32" where
  "source_uid g = uid (source_location g)"

section \<open>Subscription\<close>

text \<open>A new bar starts at the next multiple of the interval after now.  \<open>%\<close> by zero kills the process.\<close>

definition open_bar :: "i64 \<Rightarrow> i64 \<Rightarrow> instrument \<Rightarrow> bar" where
  "open_bar interval now i =
    (let start_time = now - now smod interval + interval in
     zero_bar\<lparr>bar_symbol := strncpy SYMBOL_LEN (ins_symbol i),
              bar_exchange_id := strncpy EXCHANGE_ID_LEN (ins_exchange_id i),
              bar_start_time := start_time, bar_end_time := start_time + interval\<rparr>)"

definition subscribe_one :: "instrument \<Rightarrow> bar_generator \<Rightarrow> (herror + unit) \<times> bar_generator" where
  "subscribe_one i g =
    (let symbol_id = get_symbol_id (c_str (ins_symbol i)) (c_str (ins_exchange_id i)) in
     if map_of (bars g) symbol_id \<noteq> None then (Inr (), g)
     else if time_interval g = 0 then (Inl (HandlerError ''division by zero''), g)
     else (Inr (), g\<lparr>bars := AList.update symbol_id (open_bar (time_interval g) (h_now g) i) (bars g)\<rparr>))"

fun subscribe_all :: "instrument list \<Rightarrow> bar_generator \<Rightarrow> (herror + unit) \<times> bar_generator" where
  "subscribe_all [] g = (Inr (), g)"
| "subscribe_all (i # is) g = bindX (subscribe_one i g) (\<lambda>_. subscribe_all is)"

text \<open>Without a writer to the source yet, the instruments wait for its first \<open>RequestWriteTo\<close>.\<close>

definition subscribe_bars :: "instrument list \<Rightarrow> bar_generator \<Rightarrow> (herror + unit) \<times> bar_generator" where
  "subscribe_bars is g =
    (if \<not> has_writer g (source_uid g) then (Inr (), g\<lparr>bars_waiting := bars_waiting g @ [is]\<rparr>)
     else subscribe_all is g)"

definition on_source_ready :: "message \<Rightarrow> bar_generator \<Rightarrow> (herror + unit) \<times> bar_generator" where
  "on_source_ready e g =
    (case m_data e of
       WriteToData d \<Rightarrow>
         if d = source_uid g then subscribe_all (concat (bars_waiting g)) (g\<lparr>bars_waiting := []\<rparr>) else (Inr (), g)
     | _ \<Rightarrow> (Inl BadPayload, g))"

definition bars_register_location :: "i64 \<Rightarrow> location \<Rightarrow> bar_generator \<Rightarrow> (herror + unit) \<times> bar_generator" where
  "bars_register_location t l g =
    (if has_location g (uid l) then (Inr (), g)
     else let g1 = register_location l g in
       if uid l = source_uid g1
       then bindX (request_read_from (h_now g1) (source_uid g1) True g1) (\<lambda>_ g2.
              request_write_to (h_now g2) (source_uid g2) g2)
       else (Inr (), g1))"

section \<open>Trades\<close>

text \<open>\<open>while (bar.start_time + time_interval_ < trade.trade_time) bar.start_time += time_interval_\<close>:
  it need not end, so \<open>None\<close> is a generator that hangs.\<close>

partial_function (option) advance_start :: "i64 \<Rightarrow> i64 \<Rightarrow> i64 \<Rightarrow> i64 option" where
  "advance_start interval t start =
    (if start + interval < t then advance_start interval t (start + interval) else Some start)"

declare advance_start.simps [code]

definition count_trade :: "trade \<Rightarrow> bar \<Rightarrow> bar" where
  "count_trade t b =
    (if bar_start_time b \<le> trd_trade_time t \<and> trd_trade_time t \<le> bar_end_time b
     then let b1 = (if bar_trade_count b = 0
                    then b\<lparr>bar_high := trd_price t, bar_low := trd_price t, bar_open := trd_price t,
                          bar_close := trd_price t, bar_start_volume := trd_volume t\<rparr>
                    else b)
          in b1\<lparr>bar_trade_count := bar_trade_count b1 + 1,
               bar_volume := f_sub (trd_volume t) (bar_start_volume b1),
               bar_high := f_max (bar_high b1) (trd_price t),
               bar_low := f_min (bar_low b1) (trd_price t),
               bar_close := trd_price t\<rparr>
     else b)"

definition restart_bar :: "i64 \<Rightarrow> trade \<Rightarrow> bar \<Rightarrow> bar option" where
  "restart_bar interval t b =
    do { start \<leftarrow> advance_start interval (trd_trade_time t) (bar_end_time b);
         let b1 = b\<lparr>bar_start_time := start, bar_end_time := start + interval\<rparr>;
         Some (if start \<le> trd_trade_time t
               then b1\<lparr>bar_trade_count := 1, bar_start_volume := trd_volume t, bar_volume := Zero False,
                      bar_high := trd_price t, bar_low := trd_price t, bar_open := trd_price t,
                      bar_close := trd_price t\<rparr>
               else b1\<lparr>bar_trade_count := 0, bar_start_volume := Zero False, bar_volume := Zero False,
                      bar_high := Zero False, bar_low := Zero False, bar_open := Zero False,
                      bar_close := Zero False\<rparr>) }"

text \<open>The bar after a trade, and the bar published, if any.\<close>

definition bar_trade :: "i64 \<Rightarrow> trade \<Rightarrow> bar \<Rightarrow> (bar option \<times> bar) option" where
  "bar_trade interval t b =
    (let b1 = count_trade t b in
     if bar_end_time b1 \<le> trd_trade_time t
     then map_option (\<lambda>b2. (Some b1, b2)) (restart_bar interval t b1)
     else Some (None, b1))"

text \<open>The handler: \<open>None\<close> when the loop above does not end.\<close>

definition on_trade :: "message \<Rightarrow> bar_generator \<Rightarrow> ((herror + unit) \<times> bar_generator) option" where
  "on_trade e g =
    (case m_data e of
       TradeData t \<Rightarrow>
         (let symbol_id = get_symbol_id (c_str (trd_symbol t)) (c_str (trd_exchange_id t)) in
          case map_of (bars g) symbol_id of
            None \<Rightarrow> Some (Inr (), g)
          | Some b \<Rightarrow>
             let b1 = count_trade t b; g1 = g\<lparr>bars := AList.update symbol_id b1 (bars g)\<rparr> in
             if bar_end_time b1 \<le> trd_trade_time t
             then (case get_writer 0 g1 of
                     (Inl err, g2) \<Rightarrow> Some (Inl err, g2)
                   | (Inr w, g2) \<Rightarrow>
                       map_option (\<lambda>b2. (Inr (), (write_msg w 0 T_Bar (BarData b1) g2)
                            \<lparr>bars := AList.update symbol_id b2 (bars g2)\<rparr>))
                         (restart_bar (time_interval g) t b1))
             else Some (Inr (), g1))
     | _ \<Rightarrow> Some (Inl BadPayload, g))"

definition on_subscribe_event :: "message \<Rightarrow> bar_generator \<Rightarrow> (herror + unit) \<times> bar_generator" where
  "on_subscribe_event e g =
    (case m_data e of
       JsonData j \<Rightarrow>
        (case bindE (jget_string j ''symbol'') (\<lambda>s. bindE (jget_string j ''exchange'') (\<lambda>x.
                bindE (jget_string j ''sub_type'') (\<lambda>k. Inr (s, x, k)))) of
           Inl err \<Rightarrow> (Inl (JsonError err), g)
         | Inr (s, x, k) \<Rightarrow>
            if k = ''bar''
            then subscribe_bars [zero_instrument\<lparr>ins_symbol := strcpy (ins_symbol zero_instrument) s,
                                                 ins_exchange_id := strcpy (ins_exchange_id zero_instrument) x\<rparr>] g
            else (Inr (), g))
     | _ \<Rightarrow> (Inl BadPayload, g))"

section \<open>Subscriptions\<close>

text \<open>\<open>on_start\<close> subscribes to trades and to subscription requests; the subscriptions of the
  application itself come first.\<close>

definition bars_on_start :: "bar_generator \<Rightarrow> (herror + unit) \<times> bar_generator" where
  "bars_on_start g = (Inr (), g\<lparr>bars_listening := True\<rparr>)"

definition bars_methods :: "bar_generator app_methods" where
  "bars_methods = (app_methods_of bars_on_start)\<lparr>m_register_location := bars_register_location\<rparr>"

definition bars_react :: "message \<Rightarrow> bar_generator \<Rightarrow> ((herror + unit) \<times> bar_generator) option" where
  "bars_react e g =
    (case apprentice_react bars_methods e g of
       (Inl err, g1) \<Rightarrow> Some (Inl err, g1)
     | (Inr _, g1) \<Rightarrow>
         if bars_listening g \<and> m_msg_type e = T_Trade then on_trade e g1
         else if bars_listening g \<and> m_msg_type e = T_Subscribe then Some (on_subscribe_event e g1)
         else if m_msg_type e = T_RequestWriteTo \<and> bars_waiting g \<noteq> [] then Some (on_source_ready e g1)
         else Some (Inr (), g1))"

section \<open>The loop\<close>

lemma advance_start_stops: "\<not> start + interval < t \<Longrightarrow> advance_start interval t start = Some start"
  by (simp add: advance_start.simps)

text \<open>With a positive interval the loop ends, on the last start from which the trade is not past the
  following interval.\<close>

lemma advance_start_total:
  assumes "0 < interval"
  shows "\<exists>k. advance_start interval t start = Some (start + int k * interval) \<and>
    t \<le> start + int k * interval + interval \<and> (k = 0 \<or> start + int k * interval < t)"
proof (induction "nat (t - start)" arbitrary: start rule: less_induct)
  case less
  show ?case
  proof (cases "start + interval < t")
    case True
    then obtain k where k: "advance_start interval t (start + interval) = Some (start + interval + int k * interval)"
      "t \<le> start + interval + int k * interval + interval" "k = 0 \<or> start + interval + int k * interval < t"
      using less [of "start + interval"] assms by auto
    show ?thesis
      by (rule exI [of _ "Suc k"], subst advance_start.simps) (use True k in \<open>auto simp: algebra_simps\<close>)
  next
    case False
    then show ?thesis by (intro exI [of _ 0]) (simp add: advance_start_stops)
  qed
qed

text \<open>Without one it does not.\<close>

lemma advance_start_hangs:
  assumes "interval \<le> 0" "start < t - interval"
  shows "advance_start interval t start = None"
proof (rule ccontr)
  assume "advance_start interval t start \<noteq> None"
  then obtain r where "advance_start interval t start = Some r" by blast
  then have "interval \<le> 0 \<longrightarrow> \<not> start + interval < t"
  proof (rule advance_start.raw_induct [where P = "\<lambda>i t s r. i \<le> 0 \<longrightarrow> \<not> s + i < t", rotated])
    fix f :: "i64 \<Rightarrow> i64 \<Rightarrow> i64 \<Rightarrow> i64 option" and i t s r
    assume IH: "\<And>i t s r. f i t s = Some r \<Longrightarrow> i \<le> 0 \<longrightarrow> \<not> s + i < t"
      and r: "(if s + i < t then f i t (s + i) else Some s) = Some r"
    show "i \<le> 0 \<longrightarrow> \<not> s + i < t"
      using r IH [of i t "s + i" r] by (cases "s + i < t") auto
  qed
  with assms show False by simp
qed

section \<open>Well-formed bars\<close>

definition bar_ok :: "i64 \<Rightarrow> bar \<Rightarrow> bool" where
  "bar_ok interval b \<longleftrightarrow> bar_end_time b = bar_start_time b + interval \<and> 0 \<le> bar_trade_count b \<and>
    (0 < bar_trade_count b \<longrightarrow>
       f_le (bar_low b) (bar_open b) \<and> f_le (bar_open b) (bar_high b) \<and>
       f_le (bar_low b) (bar_close b) \<and> f_le (bar_close b) (bar_high b))"

lemma f_le_not_nan: "f_le x y \<Longrightarrow> \<not> is_nan x" "f_le x y \<Longrightarrow> \<not> is_nan y"
  by (simp_all add: f_le_def)

lemma count_trade_frame [simp]:
  "bar_start_time (count_trade t b) = bar_start_time b" "bar_end_time (count_trade t b) = bar_end_time b"
  "bar_symbol (count_trade t b) = bar_symbol b" "bar_exchange_id (count_trade t b) = bar_exchange_id b"
  by (simp_all add: count_trade_def Let_def)

lemma count_trade_ok:
  assumes "bar_ok i b" "\<not> is_nan (trd_price t)"
  shows "bar_ok i (count_trade t b)"
proof (cases "bar_start_time b \<le> trd_trade_time t \<and> trd_trade_time t \<le> bar_end_time b")
  case True
  show ?thesis
  proof (cases "bar_trade_count b = 0")
    case zero: True
    then show ?thesis using True assms by (simp add: count_trade_def bar_ok_def f_max_def f_min_def)
  next
    case False
    then have c: "f_le (bar_low b) (bar_open b)" "f_le (bar_open b) (bar_high b)" using assms(1) by (auto simp: bar_ok_def)
    let ?p = "trd_price t"
    have n: "\<not> is_nan (bar_low b)" "\<not> is_nan (bar_high b)" using c f_le_not_nan by blast+
    have "f_le (f_min (bar_low b) ?p) (bar_open b)" "f_le (bar_open b) (f_max (bar_high b) ?p)"
      "f_le (f_min (bar_low b) ?p) ?p" "f_le ?p (f_max (bar_high b) ?p)"
      using f_min_bounds [OF n(1) assms(2)] f_max_bounds [OF n(2) assms(2)] c f_le_trans by blast+
    then show ?thesis using True False assms(1) by (simp add: count_trade_def bar_ok_def)
  qed
qed (use assms(1) in \<open>auto simp: count_trade_def\<close>)

lemma restart_bar_total:
  assumes "0 < interval" "bar_end_time b \<le> trd_trade_time t"
  shows "\<exists>k. restart_bar interval t b = Some (b\<lparr>bar_start_time := bar_end_time b + int k * interval,
      bar_end_time := bar_end_time b + int k * interval + interval, bar_trade_count := 1,
      bar_start_volume := trd_volume t, bar_volume := Zero False, bar_high := trd_price t, bar_low := trd_price t,
      bar_open := trd_price t, bar_close := trd_price t\<rparr>) \<and>
    bar_end_time b + int k * interval \<le> trd_trade_time t \<and>
    trd_trade_time t \<le> bar_end_time b + int k * interval + interval"
proof -
  obtain k where k: "advance_start interval (trd_trade_time t) (bar_end_time b) = Some (bar_end_time b + int k * interval)"
    "trd_trade_time t \<le> bar_end_time b + int k * interval + interval"
    "k = 0 \<or> bar_end_time b + int k * interval < trd_trade_time t"
    using advance_start_total [OF assms(1)] by blast
  then have "bar_end_time b + int k * interval \<le> trd_trade_time t" using assms(2) by auto
  with k show ?thesis by (intro exI [of _ k]) (simp add: restart_bar_def)
qed

end
