(* ===== verification/BarProps.thy ===== *)
theory BarProps
  imports Bars
begin

text \<open>
  Properties of the bar generator: its bars stay well formed and its handler ends, a published bar
  is the summary of the trades of its interval, and what an interval of zero does.
\<close>

section \<open>The table of bars\<close>

definition bars_ok :: "bar_generator \<Rightarrow> bool" where
  "bars_ok g \<longleftrightarrow> 0 < time_interval g \<and> (\<forall>k b. map_of (bars g) k = Some b \<longrightarrow> bar_ok (time_interval g) b)"

lemma write_msg_bars [simp]:
  "bars (write_msg w t k p g) = bars g" "time_interval (write_msg w t k p g) = time_interval g"
  for g :: bar_generator
  by (simp_all add: write_msg_def)

lemma bars_ok_update:
  assumes "bars_ok g" "bar_ok (time_interval g) b" "bars g' = AList.update k b (bars g)" "time_interval g' = time_interval g"
  shows "bars_ok g'"
  using assms by (auto simp: bars_ok_def update_conv' split: if_splits)

lemma zero_bar_count [simp]: "bar_trade_count zero_bar = 0"
  by (simp add: zero_bar_def)

lemma open_bar_ok: "0 < i \<Longrightarrow> bar_ok i (open_bar i now x)"
  by (simp add: open_bar_def bar_ok_def Let_def)

lemma subscribe_one_ok: "bars_ok g \<Longrightarrow> bars_ok (snd (subscribe_one x g))"
  by (auto simp: subscribe_one_def Let_def intro!: bars_ok_update [of g] open_bar_ok) (simp add: bars_ok_def)

lemma restart_bar_ok:
  assumes "0 < i" "\<not> is_nan (trd_price t)" "bar_end_time b \<le> trd_trade_time t"
  shows "\<exists>b'. restart_bar i t b = Some b' \<and> bar_ok i b' \<and>
    bar_start_time b' \<le> trd_trade_time t \<and> trd_trade_time t \<le> bar_end_time b' \<and> bar_trade_count b' = 1"
  using restart_bar_total [OF assms(1,3)] assms(2) by (auto simp: bar_ok_def)

section \<open>A sequence of trades\<close>

fun bar_run :: "i64 \<Rightarrow> trade list \<Rightarrow> bar \<Rightarrow> (bar list \<times> bar) option" where
  "bar_run i [] b = Some ([], b)"
| "bar_run i (t # ts) b =
    (case bar_trade i t b of
       None \<Rightarrow> None
     | Some (p, b1) \<Rightarrow> map_option (\<lambda>(ps, b2). ((case p of None \<Rightarrow> [] | Some x \<Rightarrow> [x]) @ ps, b2)) (bar_run i ts b1))"

lemma bar_run_inside:
  assumes "\<forall>t \<in> set ts. trd_trade_time t < bar_end_time b"
  shows "bar_run i (ts @ us) b = bar_run i us (fold count_trade ts b)"
  using assms
proof (induction ts arbitrary: b)
  case (Cons t ts)
  then have "bar_trade i t b = Some (None, count_trade t b)" by (simp add: bar_trade_def)
  then show ?case using Cons by (cases "bar_run i us (fold count_trade ts (count_trade t b))") auto
qed simp

text \<open>Trades of one instrument, as the map's entry sees them: the handler runs \<open>bar_trade\<close>.\<close>

lemma on_trade_entry:
  assumes "m_data e = TradeData t" "k = get_symbol_id (c_str (trd_symbol t)) (c_str (trd_exchange_id t))"
    "map_of (bars g) k = Some b" "map_of (h_writers g) 0 = Some w"
    "bar_trade (time_interval g) t b = Some (p, b')"
  shows "\<exists>g'. on_trade e g = Some (Inr (), g') \<and> map_of (bars g') k = Some b' \<and>
    (\<forall>k'. k' \<noteq> k \<longrightarrow> map_of (bars g') k' = map_of (bars g) k') \<and> time_interval g' = time_interval g \<and>
    h_out g' = h_out g @ (case p of None \<Rightarrow> [] | Some x \<Rightarrow> [(w, 0, T_Bar, BarData x)])"
proof (cases "bar_end_time (count_trade t b) \<le> trd_trade_time t")
  case True
  then obtain b2 where b2: "restart_bar (time_interval g) t (count_trade t b) = Some b2" "p = Some (count_trade t b)" "b' = b2"
    using assms(5) by (auto simp: bar_trade_def Let_def)
  then show ?thesis using assms True
    by (simp add: on_trade_def Let_def get_writer_def update_conv')
next
  case False
  then have "p = None" "b' = count_trade t b" using assms(5) by (auto simp: bar_trade_def Let_def)
  then show ?thesis using assms(1-4) False by (simp add: on_trade_def Let_def update_conv')
qed

section \<open>Properties\<close>

text \<open>C21: with a positive interval the handler of a trade always ends, it keeps every bar well
  formed (end = start + interval; once it has a trade, low \<open>\<le>\<close> open, close \<open>\<le>\<close> high), it publishes a
  bar only when the trade has reached the bar's end, and then leaves a bar that contains the trade.\<close>

theorem trades_keep_bars_ok:
  assumes "bars_ok g" "m_data e = TradeData t" "\<not> is_nan (trd_price t)" "map_of (h_writers g) 0 = Some w"
  shows "\<exists>g' ps. on_trade e g = Some (Inr (), g') \<and> bars_ok g' \<and>
    h_out g' = h_out g @ map (\<lambda>b. (w, 0, T_Bar, BarData b)) ps \<and> length ps \<le> 1 \<and>
    (\<forall>b \<in> set ps. bar_ok (time_interval g) b \<and> bar_end_time b \<le> trd_trade_time t \<and>
      (\<exists>b'. map_of (bars g') (get_symbol_id (c_str (trd_symbol t)) (c_str (trd_exchange_id t))) = Some b' \<and>
        bar_end_time b \<le> bar_start_time b' \<and> bar_start_time b' \<le> trd_trade_time t \<and> trd_trade_time t \<le> bar_end_time b'))"
proof (cases "map_of (bars g) (get_symbol_id (c_str (trd_symbol t)) (c_str (trd_exchange_id t)))")
  case None
  then show ?thesis using assms(1,2) by (intro exI [of _ g] exI [of _ "[]"]) (simp add: on_trade_def)
next
  case (Some b)
  let ?i = "time_interval g" and ?b = "count_trade t b" and ?k = "get_symbol_id (c_str (trd_symbol t)) (c_str (trd_exchange_id t))"
  have i: "0 < ?i" and bok: "bar_ok ?i ?b"
    using assms(1,3) Some count_trade_ok by (auto simp: bars_ok_def)
  have upd: "bars_ok g'" if "map_of (bars g') ?k = Some b'" "bar_ok ?i b'"
      "\<forall>k'. k' \<noteq> ?k \<longrightarrow> map_of (bars g') k' = map_of (bars g) k'" "time_interval g' = ?i" for g' b'
    unfolding bars_ok_def that(4)
  proof (intro conjI allI impI i)
    fix k x assume "map_of (bars g') k = Some x"
    then show "bar_ok ?i x" using that(1-3) assms(1) by (cases "k = ?k") (auto simp: bars_ok_def)
  qed
  show ?thesis
  proof (cases "bar_end_time ?b \<le> trd_trade_time t")
    case True
    obtain k where k: "restart_bar ?i t ?b = Some (?b\<lparr>bar_start_time := bar_end_time ?b + int k * ?i,
        bar_end_time := bar_end_time ?b + int k * ?i + ?i, bar_trade_count := 1, bar_start_volume := trd_volume t,
        bar_volume := Zero False, bar_high := trd_price t, bar_low := trd_price t, bar_open := trd_price t, bar_close := trd_price t\<rparr>)"
        (is "_ = Some ?b2")
      "bar_end_time ?b + int k * ?i \<le> trd_trade_time t" "trd_trade_time t \<le> bar_end_time ?b + int k * ?i + ?i"
      using restart_bar_total [OF i True] by blast
    have "bar_trade ?i t b = Some (Some ?b, ?b2)" using True k(1) by (simp add: bar_trade_def Let_def)
    from on_trade_entry [OF assms(2) refl Some assms(4) this] obtain g' where g': "on_trade e g = Some (Inr (), g')"
      "map_of (bars g') ?k = Some ?b2" "\<forall>k'. k' \<noteq> ?k \<longrightarrow> map_of (bars g') k' = map_of (bars g) k'"
      "time_interval g' = ?i" "h_out g' = h_out g @ [(w, 0, T_Bar, BarData ?b)]" by auto
    have "bar_ok ?i ?b2" using assms(3) by (simp add: bar_ok_def)
    then have "bars_ok g'" using upd g'(2-4) by blast
    then show ?thesis using g' True bok k(2,3) i
      by (intro exI [of _ g'] exI [of _ "[?b]"]) simp
  next
    case False
    then have "bar_trade ?i t b = Some (None, ?b)" by (simp add: bar_trade_def Let_def)
    from on_trade_entry [OF assms(2) refl Some assms(4) this] obtain g' where g': "on_trade e g = Some (Inr (), g')"
      "map_of (bars g') ?k = Some ?b" "\<forall>k'. k' \<noteq> ?k \<longrightarrow> map_of (bars g') k' = map_of (bars g) k'"
      "time_interval g' = ?i" "h_out g' = h_out g" by auto
    then have "bars_ok g'" using upd bok by blast
    then show ?thesis using g' by (intro exI [of _ g'] exI [of _ "[]"]) simp
  qed
qed

definition demo_trade :: "i64 \<Rightarrow> int \<Rightarrow> int \<Rightarrow> trade" where
  "demo_trade tm price volume = zero_trade\<lparr>trd_trade_time := tm, trd_price := Num price 0, trd_volume := Num volume 0\<rparr>"

definition demo_bar :: bar where
  "demo_bar = zero_bar\<lparr>bar_start_time := 60, bar_end_time := 120\<rparr>"

theorem trades_keep_bars_ok_witness:
  "\<exists>g'. on_trade \<lparr>m_gen_time = 0, m_trigger_time = 0, m_msg_type = T_Trade, m_source = 0, m_dest = 0,
      m_data = TradeData (demo_trade 130 5 1)\<rparr>
     (apprentice.extend (new_apprentice (make_location LIVE SYSTEM ''service'' ''bar'') 0\<lparr>h_writers := [(0, (master_location, 0))]\<rparr>)
       \<lparr>source_location = master_location, time_interval = 60, bars = [(get_symbol_id [] [], demo_bar)], bars_waiting = [], bars_listening = True\<rparr>)
     = Some (Inr (), g') \<and> bars_ok g'"
proof -
  let ?g = "apprentice.extend (new_apprentice (make_location LIVE SYSTEM ''service'' ''bar'') 0\<lparr>h_writers := [(0, (master_location, 0))]\<rparr>)
    \<lparr>source_location = master_location, time_interval = 60, bars = [(get_symbol_id [] [], demo_bar)], bars_waiting = [], bars_listening = True\<rparr>"
  have "bars_ok ?g" by (simp add: bars_ok_def bar_ok_def demo_bar_def apprentice.extend_def)
  moreover have "map_of (h_writers ?g) 0 = Some (master_location, 0)" by (simp add: apprentice.extend_def)
  moreover have "\<not> is_nan (trd_price (demo_trade 130 5 1))" by (simp add: demo_trade_def is_nan_def)
  ultimately show ?thesis
    using trades_keep_bars_ok [of ?g "\<lparr>m_gen_time = 0, m_trigger_time = 0, m_msg_type = T_Trade, m_source = 0, m_dest = 0,
      m_data = TradeData (demo_trade 130 5 1)\<rparr>" "demo_trade 130 5 1" "(master_location, 0)"] by auto
qed

text \<open>What a bar says of the trades it has counted, in the order they came.\<close>

definition summarises :: "trade list \<Rightarrow> bar \<Rightarrow> bool" where
  "summarises vs b \<longleftrightarrow> bar_trade_count b = int (length vs) \<and>
    (vs \<noteq> [] \<longrightarrow> bar_open b = trd_price (hd vs) \<and> bar_close b = trd_price (last vs) \<and>
      bar_high b \<in> trd_price ` set vs \<and> (\<forall>x \<in> set vs. f_le (trd_price x) (bar_high b)) \<and>
      bar_low b \<in> trd_price ` set vs \<and> (\<forall>x \<in> set vs. f_le (bar_low b) (trd_price x)) \<and>
      bar_start_volume b = trd_volume (hd vs) \<and> bar_volume b = f_sub (trd_volume (last vs)) (trd_volume (hd vs)))"

lemma count_trade_summarises:
  assumes "summarises vs b" "\<not> is_nan (trd_price t)" "bar_start_time b \<le> trd_trade_time t" "trd_trade_time t \<le> bar_end_time b"
  shows "summarises (vs @ [t]) (count_trade t b) \<and>
    bar_start_time (count_trade t b) = bar_start_time b \<and> bar_end_time (count_trade t b) = bar_end_time b"
proof (cases "vs = []")
  case True
  have m: "f_max (trd_price t) (trd_price t) = trd_price t" "f_min (trd_price t) (trd_price t) = trd_price t"
    by (simp_all add: f_max_def f_min_def)
  show ?thesis using assms True by (simp add: summarises_def count_trade_def Let_def m)
next
  case False
  have hi: "\<not> is_nan (bar_high b)" "\<forall>x \<in> set vs. f_le (trd_price x) (bar_high b)" "bar_high b \<in> trd_price ` set vs"
    and lo: "\<not> is_nan (bar_low b)" "\<forall>x \<in> set vs. f_le (bar_low b) (trd_price x)" "bar_low b \<in> trd_price ` set vs"
    and n: "bar_trade_count b = int (length vs)"
    using assms(1) False f_le_not_nan by (auto simp: summarises_def)
  note mx = f_max_bounds [OF hi(1) assms(2)] and mn = f_min_bounds [OF lo(1) assms(2)]
  have "\<forall>x \<in> set (vs @ [t]). f_le (trd_price x) (f_max (bar_high b) (trd_price t))"
    using hi(2) mx f_le_trans by auto
  moreover have "\<forall>x \<in> set (vs @ [t]). f_le (f_min (bar_low b) (trd_price t)) (trd_price x)"
    using lo(2) mn f_le_trans by auto
  moreover have "f_max (bar_high b) (trd_price t) \<in> trd_price ` set (vs @ [t])" "f_min (bar_low b) (trd_price t) \<in> trd_price ` set (vs @ [t])"
    using hi(3) lo(3) f_max_cases [of "bar_high b" "trd_price t"] f_min_cases [of "bar_low b" "trd_price t"] by auto
  ultimately show ?thesis using assms False n by (simp add: summarises_def count_trade_def Let_def)
qed

lemma count_trades_summarise:
  assumes "summarises vs b" "\<forall>x \<in> set ts. \<not> is_nan (trd_price x) \<and> bar_start_time b \<le> trd_trade_time x \<and> trd_trade_time x \<le> bar_end_time b"
  shows "summarises (vs @ ts) (fold count_trade ts b) \<and>
    bar_start_time (fold count_trade ts b) = bar_start_time b \<and> bar_end_time (fold count_trade ts b) = bar_end_time b"
  using assms
proof (induction ts arbitrary: vs b)
  case (Cons t ts)
  have t: "summarises (vs @ [t]) (count_trade t b)" "bar_start_time (count_trade t b) = bar_start_time b"
    "bar_end_time (count_trade t b) = bar_end_time b"
    using count_trade_summarises [OF Cons.prems(1), of t] Cons.prems(2) by simp_all
  have "\<forall>x \<in> set ts. \<not> is_nan (trd_price x) \<and> bar_start_time (count_trade t b) \<le> trd_trade_time x \<and>
      trd_trade_time x \<le> bar_end_time (count_trade t b)"
    using Cons.prems(2) t(2,3) by simp
  from Cons.IH [OF t(1) this] show ?case using t(2,3) by simp
qed simp

lemma f_sub_self: "\<not> is_nan x \<Longrightarrow> (\<forall>s. x \<noteq> Infty s) \<Longrightarrow> f_sub x x = Zero False"
  by (cases x) (auto simp: f_sub_def is_nan_def round_f64_def Let_def round_mag_def)

text \<open>C22: what the bar published for an interval says of the trades counted in it: their number, the first
  and the last price, the greatest and the least, and as its volume the difference of the \<open>volume\<close> fields of the
  last trade and the first, which is not the volume traded (a bar of one trade has volume 0).  A
  bar goes on from the trades it has counted; the first trade at or past its end publishes it and is the first
  trade of the next bar; one exactly at the end is counted in both.\<close>

theorem bar_is_summary:
  assumes "0 < i" "summarises vs b" "\<forall>x \<in> set (ts @ [u]). \<not> is_nan (trd_price x)"
    and "\<forall>x \<in> set ts. bar_start_time b \<le> trd_trade_time x \<and> trd_trade_time x < bar_end_time b"
    and "bar_start_time b < bar_end_time b" "bar_end_time b \<le> trd_trade_time u"
    and vol: "\<not> is_nan (trd_volume u)" "\<forall>s. trd_volume u \<noteq> Infty s"
  defines "counted \<equiv> vs @ ts @ (if trd_trade_time u = bar_end_time b then [u] else [])"
  shows "\<exists>p b'. bar_run i (ts @ [u]) b = Some ([p], b') \<and>
    bar_start_time p = bar_start_time b \<and> bar_end_time p = bar_end_time b \<and> summarises counted p \<and>
    summarises [u] b' \<and> bar_volume b' = Zero False \<and> bar_end_time b' = bar_start_time b' + i \<and> bar_end_time b \<le> bar_start_time b' \<and>
    bar_start_time b' \<le> trd_trade_time u \<and> trd_trade_time u \<le> bar_end_time b'"
proof -
  define P where "P = fold count_trade ts b"
  define Q where "Q = count_trade u P"
  have P: "summarises (vs @ ts) P" "bar_start_time P = bar_start_time b" "bar_end_time P = bar_end_time b"
  proof -
    have "\<forall>x \<in> set ts. \<not> is_nan (trd_price x) \<and> bar_start_time b \<le> trd_trade_time x \<and> trd_trade_time x \<le> bar_end_time b"
      using assms(3,4) by force
    from count_trades_summarise [OF assms(2) this]
    show "summarises (vs @ ts) P" "bar_start_time P = bar_start_time b" "bar_end_time P = bar_end_time b"
      by (simp_all add: P_def)
  qed
  have Q: "summarises counted Q" "bar_start_time Q = bar_start_time b" "bar_end_time Q = bar_end_time b"
  proof -
    have "summarises counted Q \<and> bar_start_time Q = bar_start_time b \<and> bar_end_time Q = bar_end_time b"
    proof (cases "trd_trade_time u = bar_end_time b")
      case True
      then show ?thesis using count_trade_summarises [OF P(1), of u] P(2,3) assms(3,5) by (simp add: counted_def Q_def)
    next
      case False
      then have "Q = P" using assms(6) P(3) by (simp add: Q_def count_trade_def)
      then show ?thesis using P False by (simp add: counted_def)
    qed
    then show "summarises counted Q" "bar_start_time Q = bar_start_time b" "bar_end_time Q = bar_end_time b" by simp_all
  qed
  have late: "bar_end_time Q \<le> trd_trade_time u" using Q(3) assms(6) by simp
  obtain k where k: "restart_bar i u Q = Some (Q\<lparr>bar_start_time := bar_end_time Q + int k * i,
      bar_end_time := bar_end_time Q + int k * i + i, bar_trade_count := 1, bar_start_volume := trd_volume u,
      bar_volume := Zero False, bar_high := trd_price u, bar_low := trd_price u, bar_open := trd_price u, bar_close := trd_price u\<rparr>)"
      (is "_ = Some ?b'")
    "bar_end_time Q + int k * i \<le> trd_trade_time u" "trd_trade_time u \<le> bar_end_time Q + int k * i + i"
    using restart_bar_total [OF assms(1) late] by blast
  have "bar_trade i u P = Some (Some Q, ?b')" using k(1) late by (simp add: bar_trade_def Let_def flip: Q_def)
  then have "bar_run i [u] P = Some ([Q], ?b')" by simp
  moreover have "\<forall>t \<in> set ts. trd_trade_time t < bar_end_time b" using assms(4) by simp
  ultimately have run: "bar_run i (ts @ [u]) b = Some ([Q], ?b')"
    using bar_run_inside [of ts b i "[u]"] by (simp only: P_def)
  have zero: "f_sub (trd_volume u) (trd_volume u) = Zero False" by (rule f_sub_self [OF vol])
  have "summarises [u] ?b'" using assms(3) zero by (simp add: summarises_def)
  then show ?thesis
    using Q k(2,3) assms(1) by (intro exI [of _ Q] exI [of _ ?b'] conjI run) simp_all
qed

theorem bar_is_summary_witness:
  "\<exists>p b'. bar_run 60 [demo_trade 61 5 10, demo_trade 70 7 13, demo_trade 120 6 20] demo_bar = Some ([p], b') \<and>
    summarises [demo_trade 61 5 10, demo_trade 70 7 13, demo_trade 120 6 20] p \<and> summarises [demo_trade 120 6 20] b'"
proof -
  have "summarises [] demo_bar" by (simp add: summarises_def demo_bar_def)
  from bar_is_summary [OF _ this, of 60 "[demo_trade 61 5 10, demo_trade 70 7 13]" "demo_trade 120 6 20"] show ?thesis
    by (auto simp: demo_trade_def demo_bar_def is_nan_def)
qed

text \<open>C23: an interval of zero, which the parser accepts (\<open>0s\<close>), kills the process at the first
  subscription, and a bar of a non-positive interval hangs it at a later trade: the search for the
  next interval never ends.\<close>

theorem zero_interval_fatal:
  "parse_time_interval ''0s'' = Inr 0 \<and>
   (map_of (bars g) (get_symbol_id (c_str (ins_symbol x)) (c_str (ins_exchange_id x))) = None \<longrightarrow> time_interval g = 0 \<longrightarrow>
     fst (subscribe_one x g) = Inl (HandlerError ''division by zero'')) \<and>
   (i \<le> 0 \<longrightarrow> bar_end_time (count_trade t b) < trd_trade_time t - i \<longrightarrow> bar_end_time (count_trade t b) \<le> trd_trade_time t \<longrightarrow>
     bar_trade i t b = None)"
proof -
  have "parse_time_interval ''0s'' = Inr 0"
    by (simp add: parse_time_interval_def first_digits_def is_digit_def digits_value_def in_i32_def endswith_def time_units)
  moreover have "bar_trade i t b = None" if "i \<le> 0" "bar_end_time (count_trade t b) < trd_trade_time t - i"
      "bar_end_time (count_trade t b) \<le> trd_trade_time t"
    using that advance_start_hangs [OF that(1,2)] by (simp add: bar_trade_def restart_bar_def Let_def)
  ultimately show ?thesis by (auto simp: subscribe_one_def Let_def)
qed

theorem zero_interval_fatal_witness:
  "bar_trade 0 (demo_trade 130 5 1) demo_bar = None"
  using zero_interval_fatal [of "undefined" "undefined" 0 "demo_trade 130 5 1" demo_bar]
  by (simp add: count_trade_def demo_bar_def demo_trade_def)

text \<open>A trade exactly at the end of a bar is counted in that bar and again in the next one.\<close>

theorem boundary_trade_counted_twice:
  assumes "0 < i" "bar_end_time b = trd_trade_time t" "bar_start_time b \<le> trd_trade_time t" "0 \<le> bar_trade_count b"
  shows "\<exists>p b'. bar_trade i t b = Some (Some p, b') \<and> bar_trade_count p = bar_trade_count b + 1 \<and>
    bar_close p = trd_price t \<and> bar_trade_count b' = 1 \<and> bar_open b' = trd_price t"
proof -
  have "bar_end_time (count_trade t b) \<le> trd_trade_time t" using assms(2) by simp
  from restart_bar_total [OF assms(1) this] assms show ?thesis
    by (auto simp: bar_trade_def Let_def) (auto simp: count_trade_def)
qed

theorem boundary_trade_counted_twice_witness:
  "\<exists>p b'. bar_trade 60 (demo_trade 120 5 1) demo_bar = Some (Some p, b') \<and> bar_trade_count p = 1 \<and> bar_trade_count b' = 1"
  using boundary_trade_counted_twice [of 60 demo_bar "demo_trade 120 5 1"]
  by (auto simp: demo_bar_def demo_trade_def)

end
