(* ===== verification/Quota.thy ===== *)
theory Quota
  imports Common Locations
begin

text \<open>
  The amounts a strategy may trade (strategy/metric_controller.h and .cpp): a list of the recent
  amounts of all strategies, oldest first, and a running total per strategy.
\<close>

definition HARD_LIMIT_AMOUNT_5MINUTES :: f64 where "HARD_LIMIT_AMOUNT_5MINUTES = of_int_f64 4000000"
definition HARD_LIMIT_ORDER_AMOUNT :: f64 where "HARD_LIMIT_ORDER_AMOUNT = of_int_f64 1000000"
definition TIME_PERIOD_CONTROL_5MINUTES :: i64 where "TIME_PERIOD_CONTROL_5MINUTES = NANOSECONDS_PER_MINUTE * 5"

record trade_amount =
  ta_time :: i64
  ta_value :: f64

record quota =
  q_data :: "trade_amount list"
  q_stats :: "u32 \<Rightarrow> f64 option"

definition new_quota :: quota where
  "new_quota = \<lparr>q_data = [], q_stats = (\<lambda>_. None)\<rparr>"

text \<open>\<open>stats[sid]\<close> of a strategy not seen yet is a fresh 0.\<close>

definition stat :: "quota \<Rightarrow> u32 \<Rightarrow> f64" where
  "stat q sid = (case q_stats q sid of None \<Rightarrow> Zero False | Some v \<Rightarrow> v)"

definition check_trade_quota :: "quota \<Rightarrow> u32 \<Rightarrow> bool" where
  "check_trade_quota q sid = (case q_stats q sid of None \<Rightarrow> True | Some v \<Rightarrow> f_lt v HARD_LIMIT_AMOUNT_5MINUTES)"

fun clean_up_loop :: "u32 \<Rightarrow> i64 \<Rightarrow> trade_amount list \<Rightarrow> (u32 \<Rightarrow> f64 option) \<Rightarrow> trade_amount list \<times> (u32 \<Rightarrow> f64 option)" where
  "clean_up_loop sid now [] st = ([], st)"
| "clean_up_loop sid now (t # ts) st =
    (if now - ta_time t > TIME_PERIOD_CONTROL_5MINUTES
     then clean_up_loop sid now ts
            (st(sid \<mapsto> f_sub (case st sid of None \<Rightarrow> Zero False | Some v \<Rightarrow> v) (ta_value t)))
     else (t # ts, st))"

definition clean_up_data :: "u32 \<Rightarrow> i64 \<Rightarrow> quota \<Rightarrow> quota" where
  "clean_up_data sid now q =
    (case clean_up_loop sid now (q_data q) (q_stats q) of (ts, st) \<Rightarrow> \<lparr>q_data = ts, q_stats = st\<rparr>)"

definition update_data :: "u32 \<Rightarrow> f64 \<Rightarrow> i64 \<Rightarrow> quota \<Rightarrow> quota" where
  "update_data sid v now q =
    (let q1 = clean_up_data sid now q in
     \<lparr>q_data = q_data q1 @ [\<lparr>ta_time = now, ta_value = v\<rparr>], q_stats = (q_stats q1)(sid \<mapsto> f_add (stat q1 sid) v)\<rparr>)"

definition contains :: "string \<Rightarrow> string \<Rightarrow> bool" where
  "contains s p \<longleftrightarrow> list_ex (\<lambda>i. take (length p) (drop i s) = p) [0..<Suc (length s)]"

definition get_multiplier :: "string \<Rightarrow> int" where
  "get_multiplier symbol =
    (if contains symbol ''_btc'' then 30000
     else if contains symbol ''_eth'' then 3000
     else if contains symbol ''_xt'' then 3
     else 1)"

definition update_trade_amount :: "u32 \<Rightarrow> string \<Rightarrow> f64 \<Rightarrow> i64 \<Rightarrow> quota \<Rightarrow> quota" where
  "update_trade_amount sid symbol v now q = update_data sid (f_mul v (of_int_f64 (get_multiplier symbol))) now q"

definition check_trade_amount :: "quota \<Rightarrow> u32 \<Rightarrow> bool" where
  "check_trade_amount q sid = check_trade_quota q sid"

definition check_order_amount :: "string \<Rightarrow> f64 \<Rightarrow> bool" where
  "check_order_amount symbol v = f_lt v HARD_LIMIT_ORDER_AMOUNT"

section \<open>The window\<close>

lemma clean_up_loop_data: "fst (clean_up_loop sid now ts st) = dropWhile (\<lambda>t. now - ta_time t > TIME_PERIOD_CONTROL_5MINUTES) ts"
  by (induction ts arbitrary: st) auto

lemma clean_up_loop_other: "sid' \<noteq> sid \<Longrightarrow> snd (clean_up_loop sid now ts st) sid' = st sid'"
  by (induction ts arbitrary: st) auto

lemma clean_up_loop_own:
  "snd (clean_up_loop sid now ts st) sid =
    (let old = takeWhile (\<lambda>t. now - ta_time t > TIME_PERIOD_CONTROL_5MINUTES) ts in
     if old = [] then st sid
     else Some (foldl f_sub (case st sid of None \<Rightarrow> Zero False | Some v \<Rightarrow> v) (map ta_value old)))"
proof (induction ts arbitrary: st)
  case (Cons t ts)
  show ?case
  proof (cases "now - ta_time t > TIME_PERIOD_CONTROL_5MINUTES")
    case True
    show ?thesis using Cons.IH [of "st(sid \<mapsto> f_sub (case st sid of None \<Rightarrow> Zero False | Some v \<Rightarrow> v) (ta_value t))"] True
      by (simp add: Let_def del: fun_upd_apply split: if_splits) simp_all
  qed simp
qed simp

lemma clean_up_data_fields:
  "q_data (clean_up_data sid now q) = fst (clean_up_loop sid now (q_data q) (q_stats q))"
  "q_stats (clean_up_data sid now q) = snd (clean_up_loop sid now (q_data q) (q_stats q))"
  by (simp_all add: clean_up_data_def split: prod.split)

lemma clean_up_keeps_recent:
  assumes "sorted (map ta_time (q_data q))"
  shows "q_data (clean_up_data sid now q) = filter (\<lambda>t. now - ta_time t \<le> TIME_PERIOD_CONTROL_5MINUTES) (q_data q)"
proof -
  have "dropWhile (\<lambda>t. now - ta_time t > p) ts = filter (\<lambda>t. now - ta_time t \<le> p) ts" if "sorted (map ta_time ts)" for ts p
    using that
  proof (induction ts)
    case (Cons t ts)
    show ?case
    proof (cases "now - ta_time t > p")
      case False
      then have "\<forall>x \<in> set ts. now - ta_time x \<le> p" using Cons.prems by auto
      then show ?thesis using False by simp
    qed (use Cons in auto)
  qed simp
  then show ?thesis
    using assms clean_up_loop_data [of sid now "q_data q" "q_stats q"]
    by (simp add: clean_up_data_fields)
qed

section \<open>Properties\<close>

text \<open>C24: the list of amounts is exactly the window of the last five minutes, but what leaves it is
  taken from the total of the strategy that happens to trade next: the total of another strategy
  keeps its expired amounts, so a strategy over the limit that stops trading stays blocked, while
  the trading strategy is credited with amounts it never traded.\<close>

theorem expired_amounts_charged_to_trader:
  assumes "sorted (map ta_time (q_data q))" "a \<noteq> b"
  shows "q_data (update_data b v now q) =
      filter (\<lambda>t. now - ta_time t \<le> TIME_PERIOD_CONTROL_5MINUTES) (q_data q) @ [\<lparr>ta_time = now, ta_value = v\<rparr>] \<and>
    check_trade_quota (update_data b v now q) a = check_trade_quota q a \<and>
    stat (update_data b v now q) b =
      f_add (foldl f_sub (stat q b)
        (map ta_value (takeWhile (\<lambda>t. now - ta_time t > TIME_PERIOD_CONTROL_5MINUTES) (q_data q)))) v"
proof -
  have o: "q_stats (clean_up_data b now q) a = q_stats q a"
    using clean_up_loop_other [OF assms(2)] by (simp add: clean_up_data_fields)
  have "stat (clean_up_data b now q) b = foldl f_sub (stat q b)
      (map ta_value (takeWhile (\<lambda>t. now - ta_time t > TIME_PERIOD_CONTROL_5MINUTES) (q_data q)))"
    using clean_up_loop_own [of b now "q_data q" "q_stats q"]
    by (simp add: clean_up_data_fields stat_def Let_def split: if_splits)
  then show ?thesis
    using clean_up_keeps_recent [OF assms(1), of b now] o assms(2)
    by (simp add: update_data_def Let_def check_trade_quota_def stat_def)
qed

theorem expired_amounts_charged_to_trader_witness:
  "\<not> check_trade_quota (update_data 2 (Num 1 0) 400000000000
       \<lparr>q_data = [\<lparr>ta_time = 0, ta_value = Num 5000000 0\<rparr>], q_stats = [1 \<mapsto> Num 5000000 0]\<rparr>) 1"
proof -
  have "\<not> f_lt (Num 5000000 0) HARD_LIMIT_AMOUNT_5MINUTES" unfolding HARD_LIMIT_AMOUNT_5MINUTES_def by code_simp
  moreover have "check_trade_quota (update_data 2 (Num 1 0) 400000000000
      \<lparr>q_data = [\<lparr>ta_time = 0, ta_value = Num 5000000 0\<rparr>], q_stats = [1 \<mapsto> Num 5000000 0]\<rparr>) 1 =
    check_trade_quota \<lparr>q_data = [\<lparr>ta_time = 0, ta_value = Num 5000000 0\<rparr>], q_stats = [1 \<mapsto> Num 5000000 0]\<rparr> 1"
    using expired_amounts_charged_to_trader [of "\<lparr>q_data = [\<lparr>ta_time = 0, ta_value = Num 5000000 0\<rparr>], q_stats = [1 \<mapsto> Num 5000000 0]\<rparr>"
      1 2 "Num 1 0" 400000000000] by simp
  ultimately show ?thesis by (simp add: check_trade_quota_def)
qed

end
