(* ===== verification/Strategy.thy ===== *)
theory Strategy
  imports Apprentice
begin

text \<open>
  The process that runs strategies (strategy/context.cpp, runner.cpp, utils.h): the accounts and
  market data sources it uses, the subscriptions of each strategy, the orders it sends to the
  brokers, and how the events that come back are handed to the strategies.  The strategies are
  user code: \<open>call\<close> runs a strategy's callback and is a parameter.  The identifier a writer gives
  to its next frame, which theory Writer models, is a parameter of the operations that return it.
\<close>

section \<open>State\<close>

datatype waiting = WInstruments u32 | WSubscribeAll u32
  | WSubscribe u32 "string list" string string InstrumentType

fun waiting_dest :: "waiting \<Rightarrow> u32" where
  "waiting_dest (WInstruments d) = d"
| "waiting_dest (WSubscribeAll d) = d"
| "waiting_dest (WSubscribe d ss x k it) = d"

record runner = apprentice +
  strategies :: "u32 list"
  has_context :: bool
  reacting :: bool
  account_location_ids :: "(u32 \<times> u32) list"
  accounts :: "(u32 \<times> location) list"
  account_cash_limits :: "(u32 \<times> (string \<times> f64) list) list"
  market_data :: "(string \<times> u32) list"
  subscribed_all :: bool
  subscribed_symbols :: "u32 list"
  current_strategy_idx :: u32
  rn_waiting :: "waiting list"
  timer_owners :: "(i32 \<times> u32) list"

type_synonym rstep = "runner \<Rightarrow> (herror + unit) \<times> runner"

definition new_runner :: "mode \<Rightarrow> string \<Rightarrow> string \<Rightarrow> i64 \<Rightarrow> runner" where
  "new_runner m g n now = apprentice.extend (new_apprentice (make_location m STRATEGY g n) now)
     \<lparr>strategies = [], has_context = False, reacting = False, account_location_ids = [], accounts = [], account_cash_limits = [],
      market_data = [], subscribed_all = False, subscribed_symbols = [], current_strategy_idx = 0,
      rn_waiting = [], timer_owners = []\<rparr>"

definition ledger_location :: location where
  "ledger_location = make_location LIVE SYSTEM ''service'' ''ledger''"

text \<open>The identifier of the next frame of a writer: the number of messages it has written tells
  which frame it is.\<close>

type_synonym frame_uids = "journal_key \<Rightarrow> nat \<Rightarrow> u64"

definition written :: "journal_key \<Rightarrow> 'a hero_scheme \<Rightarrow> nat" where
  "written w h = length (filter (\<lambda>x. fst x = w) (h_out h))"

section \<open>Accounts\<close>

definition add_account :: "string \<Rightarrow> string \<Rightarrow> rstep" where
  "add_account src account r =
    (let account_id = hash_str_32 account; l = make_location LIVE TD src account in
     if map_of (accounts r) account_id \<noteq> None then (Inr (), r)
     else if l_mode (h_home r) = LIVE \<and> \<not> has_location r (uid l)
       then (Inl (HandlerError ''invalid account''), r)
     else let r1 = r\<lparr>accounts := AList.update account_id l (accounts r),
                     account_location_ids := AList.update account_id (uid l) (account_location_ids r)\<rparr>
       in bindX (request_write_to (h_now r1) (uid l) r1) (\<lambda>_ r2.
            request_read_from (h_now r2) (uid l) False r2))"

definition used_account_location :: "u32 \<Rightarrow> runner \<Rightarrow> bool" where
  "used_account_location u r = list_ex (\<lambda>x. snd x = u) (account_location_ids r)"

definition list_accounts :: "runner \<Rightarrow> location list" where
  "list_accounts r = map snd (accounts r)"

definition set_account_cash_limit :: "string \<Rightarrow> string \<Rightarrow> f64 \<Rightarrow> runner \<Rightarrow> runner" where
  "set_account_cash_limit account coin limit r =
    (let a = hash_str_32 account; cs = (case map_of (account_cash_limits r) a of None \<Rightarrow> [] | Some cs \<Rightarrow> cs) in
     r\<lparr>account_cash_limits := AList.update a (AList.update coin limit cs) (account_cash_limits r)\<rparr>)"

definition get_account_cash_limit :: "string \<Rightarrow> string \<Rightarrow> runner \<Rightarrow> herror + f64" where
  "get_account_cash_limit account coin r =
    (case map_of (account_cash_limits r) (hash_str_32 account) of
       None \<Rightarrow> Inl (HandlerError ''invalid account'')
     | Some cs \<Rightarrow> (case map_of cs coin of None \<Rightarrow> Inl (HandlerError ''invalid coin'') | Some v \<Rightarrow> Inr v))"

definition lookup_account_location_id :: "string \<Rightarrow> runner \<Rightarrow> (herror + u32) \<times> runner" where
  "lookup_account_location_id account r =
    (case map_of (account_location_ids r) (hash_str_32 account) of
       None \<Rightarrow> (Inl (HandlerError ''invalid account''), r)
     | Some u \<Rightarrow> (Inr u, r))"

section \<open>Market data\<close>

definition add_marketdata :: "string \<Rightarrow> runner \<Rightarrow> (herror + u32) \<times> runner" where
  "add_marketdata src r =
    (case map_of (market_data r) src of
       Some u \<Rightarrow> (Inr u, r)
     | None \<Rightarrow>
        let l = (if src = ''bar'' then make_location LIVE SYSTEM ''service'' src else make_location LIVE MD src src)
        in if l_mode (h_home r) = LIVE \<and> \<not> has_location r (uid l) then (Inl (HandlerError ''invalid md''), r)
           else bindX (request_read_from (h_now r) (uid l) True r) (\<lambda>_ r1.
                bindX (request_write_to (h_now r1) (uid l) r1) (\<lambda>_ r2.
                  (Inr (uid l), r2\<lparr>market_data := AList.update src (uid l) (market_data r2)\<rparr>))))"

definition subscribe_json :: "string \<Rightarrow> string \<Rightarrow> string \<Rightarrow> InstrumentType \<Rightarrow> json" where
  "subscribe_json sub_type exchange symbol it =
    json_of [(''symbol'', JString symbol), (''exchange'', JString exchange), (''sub_type'', JString sub_type),
             (''inst_type'', JEnum InstrumentTypes it)]"

definition write_subscribe_msg ::
    "journal_key \<Rightarrow> i64 \<Rightarrow> string \<Rightarrow> string \<Rightarrow> string \<Rightarrow> InstrumentType \<Rightarrow> 'a hero_scheme \<Rightarrow> 'a hero_scheme" where
  "write_subscribe_msg w t sub_type exchange symbol it =
    write_msg w t T_Subscribe (JsonData (subscribe_json sub_type exchange symbol it))"

definition write_unsubscribe_msg ::
    "journal_key \<Rightarrow> i64 \<Rightarrow> string \<Rightarrow> string \<Rightarrow> string \<Rightarrow> InstrumentType \<Rightarrow> 'a hero_scheme \<Rightarrow> 'a hero_scheme" where
  "write_unsubscribe_msg w t sub_type exchange symbol it =
    write_msg w t T_Unsubscribe (JsonData (subscribe_json sub_type exchange symbol it))"

fun request_subscribe :: "u32 \<Rightarrow> string list \<Rightarrow> string \<Rightarrow> string \<Rightarrow> InstrumentType \<Rightarrow> rstep" where
  "request_subscribe md [] x k it r = (Inr (), r)"
| "request_subscribe md (s # ss) x k it r =
    bindX (get_writer md r) (\<lambda>w r1. request_subscribe md ss x k it (write_subscribe_msg w (h_now r1) k x s it r1))"

fun request_unsubscribe :: "u32 \<Rightarrow> string list \<Rightarrow> string \<Rightarrow> string \<Rightarrow> InstrumentType \<Rightarrow> rstep" where
  "request_unsubscribe md [] x k it r = (Inr (), r)"
| "request_unsubscribe md (s # ss) x k it r =
    bindX (get_writer md r) (\<lambda>w r1. request_unsubscribe md ss x k it (write_unsubscribe_msg w (h_now r1) k x s it r1))"

text \<open>\<open>subscribed_symbols_[symbol_id] = symbol_id\<close>.\<close>

definition note_symbol :: "u32 \<Rightarrow> runner \<Rightarrow> runner" where
  "note_symbol i r = r\<lparr>subscribed_symbols := List.insert i (subscribed_symbols r)\<rparr>"

definition note_symbols :: "string \<Rightarrow> string list \<Rightarrow> InstrumentType \<Rightarrow> string \<Rightarrow> runner \<Rightarrow> runner" where
  "note_symbols sub_type symbols it exchange r =
    fold (\<lambda>s r. note_symbol (get_sub_symbol_id s sub_type it exchange (current_strategy_idx r)) r) symbols r"

definition request_instruments :: "u32 \<Rightarrow> rstep" where
  "request_instruments d r = bindX (get_writer d r) (\<lambda>w r1. (Inr (), write_msg w 0 T_InstrumentRequest NoData r1))"

definition request_all :: "u32 \<Rightarrow> rstep" where
  "request_all md r = bindX (get_writer md r) (\<lambda>w r1. (Inr (), write_msg w 0 T_SubscribeAll NoData r1))"

fun run_waiting :: "waiting \<Rightarrow> rstep" where
  "run_waiting (WInstruments d) r = request_instruments d r"
| "run_waiting (WSubscribeAll d) r = request_all d r"
| "run_waiting (WSubscribe d ss x k it) r = request_subscribe d ss x k it r"

text \<open>What needs a writer that is not there yet waits for the request to open it.\<close>

definition now_or_wait :: "waiting \<Rightarrow> rstep" where
  "now_or_wait x r =
    (if \<not> has_writer r (waiting_dest x) then (Inr (), r\<lparr>rn_waiting := rn_waiting r @ [x]\<rparr>) else run_waiting x r)"

definition subscribe_instruments :: rstep where
  "subscribe_instruments r =
    (if l_mode (h_home r) = LIVE \<and> \<not> has_location r (uid ledger_location)
     then (Inl (HandlerError ''has no location for ledger service''), r)
     else now_or_wait (WInstruments (uid ledger_location)) r)"

definition subscribe_all_of :: "string \<Rightarrow> rstep" where
  "subscribe_all_of src r =
    bindX (add_marketdata src (r\<lparr>subscribed_all := True\<rparr>)) (\<lambda>md. now_or_wait (WSubscribeAll md))"

definition ctx_subscribe :: "string \<Rightarrow> string \<Rightarrow> string list \<Rightarrow> InstrumentType \<Rightarrow> string \<Rightarrow> rstep" where
  "ctx_subscribe sub_type src symbols it exchange r =
    bindX (add_marketdata src (note_symbols sub_type symbols it exchange r)) (\<lambda>md.
      now_or_wait (WSubscribe md symbols exchange sub_type it))"

definition ctx_unsubscribe :: "string \<Rightarrow> string \<Rightarrow> string list \<Rightarrow> InstrumentType \<Rightarrow> string \<Rightarrow> rstep" where
  "ctx_unsubscribe sub_type src symbols it exchange r =
    bindX (add_marketdata src (note_symbols sub_type symbols it exchange r)) (\<lambda>md.
      request_unsubscribe md symbols exchange sub_type it)"

definition subscribe_depth :: "string \<Rightarrow> string list \<Rightarrow> InstrumentType \<Rightarrow> string \<Rightarrow> rstep" where
  "subscribe_depth = ctx_subscribe ''depth''"

definition unsubscribe_depth :: "string \<Rightarrow> string list \<Rightarrow> InstrumentType \<Rightarrow> string \<Rightarrow> rstep" where
  "unsubscribe_depth = ctx_unsubscribe ''depth''"

definition subscribe_trade :: "string \<Rightarrow> string list \<Rightarrow> InstrumentType \<Rightarrow> string \<Rightarrow> rstep" where
  "subscribe_trade = ctx_subscribe ''trade''"

definition subscribe_ticker :: "string \<Rightarrow> string list \<Rightarrow> InstrumentType \<Rightarrow> string \<Rightarrow> rstep" where
  "subscribe_ticker = ctx_subscribe ''ticker''"

definition subscribe_index_price :: "string \<Rightarrow> string list \<Rightarrow> InstrumentType \<Rightarrow> string \<Rightarrow> rstep" where
  "subscribe_index_price src symbols it exchange r =
    (if it \<noteq> FFuture then (Inr (), r) else ctx_subscribe ''index_price'' src symbols it exchange r)"

definition is_subscribed :: "string \<Rightarrow> u32 \<Rightarrow> string \<Rightarrow> InstrumentType \<Rightarrow> string \<Rightarrow> runner \<Rightarrow> bool" where
  "is_subscribed sub_type sid symbol it exchange r \<longleftrightarrow>
    subscribed_all r \<or> get_sub_symbol_id (c_str symbol) sub_type it (c_str exchange) sid \<in> set (subscribed_symbols r)"

section \<open>Orders and requests to the brokers\<close>

definition account_writer :: "string \<Rightarrow> runner \<Rightarrow> (herror + journal_key) \<times> runner" where
  "account_writer account r = bindX (lookup_account_location_id account r) get_writer"

text \<open>A new order: the frame's bytes are those of a fresh page, zero, where nothing is assigned.\<close>

definition new_order_input ::
    "u32 \<Rightarrow> u64 \<Rightarrow> string \<Rightarrow> InstrumentType \<Rightarrow> string \<Rightarrow> string \<Rightarrow> f64 \<Rightarrow> f64 \<Rightarrow> OrderType \<Rightarrow> Side \<Rightarrow>
      TimeCondition \<Rightarrow> Direction \<Rightarrow> bool \<Rightarrow> order_input" where
  "new_order_input sid oid symbol it exchange account price volume type side tc ps ro =
    zero_order_input\<lparr>oi_strategy_id := sid, oi_order_id := oid,
      oi_symbol := strcpy (oi_symbol zero_order_input) symbol,
      oi_exchange_id := strcpy (oi_exchange_id zero_order_input) exchange,
      oi_account_id := strcpy (oi_account_id zero_order_input) account,
      oi_instrument_type := it, oi_price := price, oi_stop_price := price, oi_volume := volume,
      oi_order_type := type, oi_time_condition := tc, oi_side := side, oi_position_side := ps,
      oi_reduce_only := ro\<rparr>"

definition insert_order ::
    "frame_uids \<Rightarrow> string \<Rightarrow> InstrumentType \<Rightarrow> string \<Rightarrow> string \<Rightarrow> f64 \<Rightarrow> f64 \<Rightarrow> OrderType \<Rightarrow> Side \<Rightarrow>
      TimeCondition \<Rightarrow> Direction \<Rightarrow> bool \<Rightarrow> runner \<Rightarrow> (herror + u64) \<times> runner" where
  "insert_order fuid symbol it exchange account price volume type side tc ps ro r =
    (let r0 = note_symbol (get_sub_symbol_id symbol ''order'' it exchange (current_strategy_idx r)) r in
     bindX (account_writer account r0) (\<lambda>w r1.
       let oid = fuid w (written w r1) in
       (Inr oid, write_msg w 0 T_OrderInput (OrderInputData
          (new_order_input (current_strategy_idx r1) oid symbol it exchange account price volume type side tc ps ro)) r1)))"

definition new_action :: "u64 \<Rightarrow> u32 \<Rightarrow> u64 \<Rightarrow> string \<Rightarrow> string \<Rightarrow> InstrumentType \<Rightarrow> OrderActionFlag \<Rightarrow> order_action" where
  "new_action aid sid oid symbol ex_order_id it flag =
    zero_order_action\<lparr>oa_order_action_id := aid, oa_strategy_id := sid, oa_order_id := oid,
      oa_symbol := strncpy SYMBOL_LEN symbol, oa_ex_order_id := strncpy ORDER_ID_LEN ex_order_id,
      oa_instrument_type := it, oa_action_flag := flag\<rparr>"

definition query_order ::
    "frame_uids \<Rightarrow> string \<Rightarrow> u64 \<Rightarrow> string \<Rightarrow> InstrumentType \<Rightarrow> string \<Rightarrow> runner \<Rightarrow> (herror + u64) \<times> runner" where
  "query_order fuid account oid ex_order_id it symbol r =
    (let r0 = note_symbol (get_sub_symbol_id symbol ''order'' Spot [] (current_strategy_idx r)) r in
     bindX (account_writer account r0) (\<lambda>w r1.
       let aid = fuid w (written w r1) in
       (Inr aid, write_msg w 0 T_OrderAction (OrderActionData
          (new_action aid (current_strategy_idx r1) oid symbol ex_order_id it OA_Query)) r1)))"

definition cancel_order ::
    "frame_uids \<Rightarrow> string \<Rightarrow> u64 \<Rightarrow> string \<Rightarrow> string \<Rightarrow> InstrumentType \<Rightarrow> runner \<Rightarrow> (herror + u64) \<times> runner" where
  "cancel_order fuid account oid symbol ex_order_id it r =
    (let r0 = note_symbol (get_sub_symbol_id [] ''order'' Spot [] (current_strategy_idx r)) r in
     bindX (account_writer account r0) (\<lambda>w r1.
       let aid = fuid w (written w r1) in
       (Inr aid, write_msg w 0 T_OrderAction (OrderActionData
          (new_action aid (current_strategy_idx r1) oid symbol ex_order_id it OA_Cancel)) r1)))"

definition adjust_leverage :: "string \<Rightarrow> string \<Rightarrow> Direction \<Rightarrow> int \<Rightarrow> rstep" where
  "adjust_leverage account symbol ps leverage r =
    bindX (account_writer account r) (\<lambda>w r1. (Inr (), write_msg w (h_now r1) T_AdjustLeverage
      (JsonData (json_of [(''symbol'', JString symbol), (''position_side'', JEnum Directions ps),
         (''leverage'', JInt leverage), (''strategy_uid'', JU64 (current_strategy_idx r1))])) r1))"

definition merge_positions :: "string \<Rightarrow> string \<Rightarrow> int \<Rightarrow> InstrumentType \<Rightarrow> rstep" where
  "merge_positions account symbol amount it r =
    bindX (account_writer account r) (\<lambda>w r1. (Inr (), write_msg w (h_now r1) T_MergePosition
      (JsonData (json_of [(''strategy_uid'', JU64 (current_strategy_idx r1)), (''symbol'', JString symbol),
         (''amount'', JInt amount), (''account'', JString account), (''instrument_type'', JEnum InstrumentTypes it)])) r1))"

definition query_positions :: "string \<Rightarrow> string \<Rightarrow> InstrumentType \<Rightarrow> runner \<Rightarrow> (herror + bool) \<times> runner" where
  "query_positions account symbol it r =
    bindX (account_writer account r) (\<lambda>w r1. (Inr True, write_msg w (h_now r1) T_QueryPosition
      (JsonData (json_of [(''strategy_uid'', JU64 (current_strategy_idx r1)), (''symbol'', JString symbol),
         (''account'', JString account), (''instrument_type'', JEnum InstrumentTypes it)])) r1))"

section \<open>Timers\<close>

text \<open>A strategy's timer remembers whose it is; its callback runs as that strategy.  The wrapper
  catches what the callback throws, and the code that puts the strategy back is then skipped.\<close>

definition ctx_add_timer :: "i64 \<Rightarrow> rstep" where
  "ctx_add_timer nanotime r =
    (let i = timer_usage_count r; sid = current_strategy_idx r in
     bindX (add_timer nanotime r) (\<lambda>_ r1. (Inr (), r1\<lparr>timer_owners := AList.update i sid (timer_owners r1)\<rparr>)))"

definition ctx_add_time_interval :: "i64 \<Rightarrow> rstep" where
  "ctx_add_time_interval duration r =
    (let i = timer_usage_count r; sid = current_strategy_idx r in
     bindX (add_time_interval duration r) (\<lambda>_ r1. (Inr (), r1\<lparr>timer_owners := AList.update i sid (timer_owners r1)\<rparr>)))"

definition run_timer_callback :: "u32 \<Rightarrow> rstep \<Rightarrow> runner \<Rightarrow> runner" where
  "run_timer_callback sid callback r =
    (let prev = current_strategy_idx r in
     case callback (r\<lparr>current_strategy_idx := sid\<rparr>) of
       (Inl _, r1) \<Rightarrow> r1
     | (Inr _, r1) \<Rightarrow> r1\<lparr>current_strategy_idx := prev\<rparr>)"

end
