(* ===== verification/Runner.thy ===== *)
theory Runner
  imports Strategy
begin

text \<open>
  The runner (strategy/runner.cpp): which strategies are called for which event.
\<close>

datatype callback = PreStart | PostStart | PreStop | PostStop | OnDepth depth | OnTicker ticker
  | OnTrade trade | OnIndexPrice index_price | OnOrder order | OnTransaction my_trade
  | OnPosition position | OnUnionResponse json

type_synonym strategy_code = "u32 \<Rightarrow> callback \<Rightarrow> rstep"

text \<open>\<open>strategies_\<close> is ordered by its keys, and \<open>insert\<close> keeps the strategy that is there.\<close>

definition add_strategy :: "string \<Rightarrow> runner \<Rightarrow> runner" where
  "add_strategy path r =
    (let u = hash_str_32 path in
     if u \<in> set (strategies r) then r else r\<lparr>strategies := insort u (strategies r)\<rparr>)"

definition runner_register_location :: "i64 \<Rightarrow> location \<Rightarrow> rstep" where
  "runner_register_location t l r =
    (if has_context r \<and> used_account_location (uid l) r
     then (Inl (HandlerError ''restart due to account[TD] restart''), r)
     else (Inr (), register_location l r))"

text \<open>Calling the strategies one after the other, each as the current one.\<close>

fun each_strategy :: "strategy_code \<Rightarrow> (u32 \<Rightarrow> runner \<Rightarrow> callback option) \<Rightarrow> u32 list \<Rightarrow> rstep" where
  "each_strategy call what [] r = (Inr (), r)"
| "each_strategy call what (s # ss) r =
    (let r1 = r\<lparr>current_strategy_idx := s\<rparr> in
     bindX (case what s r1 of None \<Rightarrow> (Inr (), r1) | Some c \<Rightarrow> call s c r1) (\<lambda>_. each_strategy call what ss))"

text \<open>Calling one strategy, if it is there.\<close>

definition one_strategy :: "strategy_code \<Rightarrow> u32 \<Rightarrow> callback \<Rightarrow> rstep" where
  "one_strategy call s c r =
    (if s \<in> set (strategies r) then call s c (r\<lparr>current_strategy_idx := s\<rparr>) else (Inr (), r))"

definition context_react :: rstep where
  "context_react r =
    bindX (request_write_to (h_now r) (uid ledger_location) r) (\<lambda>_ r1.
      request_read_from (h_now r1) (uid ledger_location) False r1)"

definition post_start_all :: "strategy_code \<Rightarrow> rstep" where
  "post_start_all call r = each_strategy call (\<lambda>_ _. Some PostStart) (strategies r) r"

text \<open>The subscriptions to the market data and the answers of the brokers are made after the strategies
  have been called: one that throws leaves the process without them.\<close>

definition runner_on_start :: "strategy_code \<Rightarrow> rstep" where
  "runner_on_start call r =
    bindX (context_react (r\<lparr>has_context := True\<rparr>)) (\<lambda>_ r1.
    bindX (each_strategy call (\<lambda>_ _. Some PreStart) (strategies r1) r1) (\<lambda>_ r2.
      post_start_all call (r2\<lparr>reacting := True\<rparr>)))"

definition runner_on_exit :: "strategy_code \<Rightarrow> rstep" where
  "runner_on_exit call r =
    bindX (each_strategy call (\<lambda>_ _. Some PreStop) (strategies r) r) (\<lambda>_ r1.
      each_strategy call (\<lambda>_ _. Some PostStop) (strategies r1) r1)"

definition runner_methods :: "strategy_code \<Rightarrow> runner app_methods" where
  "runner_methods call = (app_methods_of (runner_on_start call))\<lparr>m_register_location := runner_register_location\<rparr>"

fun run_ready :: "u32 \<Rightarrow> waiting list \<Rightarrow> rstep" where
  "run_ready d [] r = (Inr (), r)"
| "run_ready d (x # xs) r =
    (if waiting_dest x = d
     then bindX (run_waiting x (r\<lparr>rn_waiting := remove1 x (rn_waiting r)\<rparr>)) (\<lambda>_. run_ready d xs)
     else run_ready d xs r)"

definition deliver :: "strategy_code \<Rightarrow> message \<Rightarrow> rstep" where
  "deliver call e r =
    (let k = m_msg_type e; ss = strategies r in
     if k = T_Depth then
       (case m_data e of DepthData d \<Rightarrow>
          each_strategy call (\<lambda>s r. if is_subscribed ''depth'' s (dep_symbol d) (dep_instrument_type d) (dep_exchange_id d) r
                                    then Some (OnDepth d) else None) ss r
        | _ \<Rightarrow> (Inl BadPayload, r))
     else if k = T_Ticker then
       (case m_data e of TickerData d \<Rightarrow>
          each_strategy call (\<lambda>s r. if is_subscribed ''ticker'' s (tkr_symbol d) (tkr_instrument_type d) (tkr_exchange_id d) r
                                    then Some (OnTicker d) else None) ss r
        | _ \<Rightarrow> (Inl BadPayload, r))
     else if k = T_Trade then
       (case m_data e of TradeData d \<Rightarrow>
          each_strategy call (\<lambda>s r. if is_subscribed ''trade'' s (trd_symbol d) (trd_instrument_type d) (trd_exchange_id d) r
                                    then Some (OnTrade d) else None) ss r
        | _ \<Rightarrow> (Inl BadPayload, r))
     else if k = T_IndexPrice then
       (case m_data e of IndexPriceData d \<Rightarrow>
          each_strategy call (\<lambda>s r. if is_subscribed ''index_price'' s (ipx_symbol d) (ipx_instrument_type d) (ipx_exchange_id d) r
                                    then Some (OnIndexPrice d) else None) ss r
        | _ \<Rightarrow> (Inl BadPayload, r))
     else if k = T_Order \<and> m_dest e = get_home_uid r then
       (case m_data e of OrderData d \<Rightarrow> one_strategy call (ord_strategy_id d) (OnOrder d) r | _ \<Rightarrow> (Inl BadPayload, r))
     else if k = T_MyTrade \<and> m_dest e = get_home_uid r then
       (case m_data e of MyTradeData d \<Rightarrow> one_strategy call (mtr_strategy_id d) (OnTransaction d) r | _ \<Rightarrow> (Inl BadPayload, r))
     else if k = T_Position then
       (case m_data e of PositionData d \<Rightarrow> each_strategy call (\<lambda>_ _. Some (OnPosition d)) ss r | _ \<Rightarrow> (Inl BadPayload, r))
     else if k = T_UnionResponse \<and> m_dest e = get_home_uid r then
       (case m_data e of
          JsonData j \<Rightarrow> (case jget_u32 j ''strategy_id'' of
                           Inl err \<Rightarrow> (Inl (JsonError err), r)
                         | Inr s \<Rightarrow> one_strategy call s (OnUnionResponse j) r)
        | _ \<Rightarrow> (Inl BadPayload, r))
     else if k = T_RequestWriteTo then
       (case m_data e of WriteToData d \<Rightarrow> run_ready d (rn_waiting r) r | _ \<Rightarrow> (Inl BadPayload, r))
     else (Inr (), r))"

text \<open>The timers of the strategies: \<open>timer_code\<close> runs the callback given with a timer.\<close>

fun run_fired :: "(i32 \<Rightarrow> rstep) \<Rightarrow> subscription list \<Rightarrow> runner \<Rightarrow> runner" where
  "run_fired timer_code [] r = r"
| "run_fired timer_code (s # ss) r =
    (let i = (case s of Timer d i \<Rightarrow> i | Interval d i \<Rightarrow> i);
         owner = (case map_of (timer_owners r) i of None \<Rightarrow> 0 | Some o' \<Rightarrow> o')
     in run_fired timer_code ss (run_timer_callback owner (timer_code i) r))"

text \<open>What \<open>add_account\<close> and \<open>subscribe\<close> wait for are subscriptions that \<open>pre_start\<close> makes; the others
  are those of \<open>on_start\<close>.\<close>

definition runner_types :: "i32 list" where
  "runner_types = [T_Depth, T_Ticker, T_Trade, T_IndexPrice, T_Order, T_MyTrade, T_Position, T_UnionResponse]"

definition deliver_started :: "strategy_code \<Rightarrow> message \<Rightarrow> rstep" where
  "deliver_started call e r = (if reacting r then deliver call e r else (Inr (), r))"

definition fire_timers :: "(i32 \<Rightarrow> rstep) \<Rightarrow> message \<Rightarrow> rstep" where
  "fire_timers timer_code e r = bindX (run_timers_on e r) (\<lambda>fired r1. (Inr (), run_fired timer_code fired r1))"

definition runner_subscriptions :: "strategy_code \<Rightarrow> (i32 \<Rightarrow> rstep) \<Rightarrow> (message \<Rightarrow> rstep) list" where
  "runner_subscriptions call timer_code =
    apprentice_subscriptions (runner_methods call) @ [on_type T_RequestWriteTo (deliver call)] @
    map (\<lambda>k. on_type k (deliver_started call)) runner_types @ [fire_timers timer_code]"

text \<open>What an event does when no subscription throws.\<close>

definition runner_react :: "strategy_code \<Rightarrow> (i32 \<Rightarrow> rstep) \<Rightarrow> message \<Rightarrow> rstep" where
  "runner_react call timer_code e r =
    bindX (apprentice_react (runner_methods call) e r) (\<lambda>_ r1.
    bindX (if m_msg_type e = T_RequestWriteTo then deliver call e r1 else deliver_started call e r1) (\<lambda>_ r2.
      fire_timers timer_code e r2))"

end
