(* ===== verification/Broker.thy ===== *)
theory Broker
  imports Apprentice "HOL-Library.List_Lexorder" "HOL-Library.Char_ord"
begin

text \<open>
  The gateways to the exchanges (broker/marketdata.cpp, broker/trader.cpp) and the mock gateway
  built on them (mock_native.cpp).  The base classes read the requests of the strategies and call
  the operations of the gateway, which a subclass provides.
\<close>

section \<open>The base classes\<close>

record 's md_methods =
  md_subscribe :: "instrument list \<Rightarrow> 's \<Rightarrow> (herror + bool) \<times> 's"
  md_subscribe_trade :: "instrument list \<Rightarrow> 's \<Rightarrow> (herror + bool) \<times> 's"
  md_subscribe_ticker :: "instrument list \<Rightarrow> 's \<Rightarrow> (herror + bool) \<times> 's"
  md_subscribe_index_price :: "instrument list \<Rightarrow> 's \<Rightarrow> (herror + bool) \<times> 's"
  md_subscribe_all :: "'s \<Rightarrow> (herror + bool) \<times> 's"
  md_unsubscribe :: "instrument list \<Rightarrow> 's \<Rightarrow> (herror + bool) \<times> 's"

definition ignore :: "(herror + 'b) \<times> 's \<Rightarrow> (herror + unit) \<times> 's" where
  "ignore r = bindX r (\<lambda>_ s. (Inr (), s))"

definition read_subscription :: "json \<Rightarrow> json_error + instrument \<times> string" where
  "read_subscription j =
    bindE (jget_string j ''symbol'') (\<lambda>symbol.
    bindE (jget_string j ''exchange'') (\<lambda>exchange.
    bindE (jget_string j ''sub_type'') (\<lambda>sub_type.
    bindE (jget_enum_int InstrumentTypes j ''inst_type'') (\<lambda>it.
      Inr (zero_instrument\<lparr>ins_symbol := strcpy (ins_symbol zero_instrument) symbol,
                           ins_exchange_id := strcpy (ins_exchange_id zero_instrument) exchange,
                           ins_instrument_type := it\<rparr>, sub_type)))))"

definition md_on_subscribe :: "'s md_methods \<Rightarrow> message \<Rightarrow> 's \<Rightarrow> (herror + unit) \<times> 's" where
  "md_on_subscribe ms e s =
    (case m_data e of
       JsonData j \<Rightarrow>
        (case read_subscription j of
           Inl err \<Rightarrow> (Inl (JsonError err), s)
         | Inr (i, sub_type) \<Rightarrow>
            if sub_type = ''depth'' then ignore (md_subscribe ms [i] s)
            else if sub_type = ''trade'' then ignore (md_subscribe_trade ms [i] s)
            else if sub_type = ''ticker'' then ignore (md_subscribe_ticker ms [i] s)
            else if sub_type = ''index_price'' then ignore (md_subscribe_index_price ms [i] s)
            else (Inr (), s))
     | _ \<Rightarrow> (Inl BadPayload, s))"

definition md_on_unsubscribe :: "'s md_methods \<Rightarrow> message \<Rightarrow> 's \<Rightarrow> (herror + unit) \<times> 's" where
  "md_on_unsubscribe ms e s =
    (case m_data e of
       JsonData j \<Rightarrow>
        (case read_subscription j of
           Inl err \<Rightarrow> (Inl (JsonError err), s)
         | Inr (i, sub_type) \<Rightarrow> if sub_type = ''depth'' then ignore (md_unsubscribe ms [i] s) else (Inr (), s))
     | _ \<Rightarrow> (Inl BadPayload, s))"

definition md_dispatch :: "'s md_methods \<Rightarrow> message \<Rightarrow> 's \<Rightarrow> (herror + unit) \<times> 's" where
  "md_dispatch ms e s =
    (if m_msg_type e = T_SubscribeAll then ignore (md_subscribe_all ms s)
     else if m_msg_type e = T_Subscribe then md_on_subscribe ms e s
     else if m_msg_type e = T_Unsubscribe then md_on_unsubscribe ms e s
     else (Inr (), s))"

record 's td_methods =
  td_insert_order :: "message \<Rightarrow> 's \<Rightarrow> (herror + bool) \<times> 's"
  td_cancel_order :: "message \<Rightarrow> 's \<Rightarrow> (herror + bool) \<times> 's"
  td_query_order :: "message \<Rightarrow> 's \<Rightarrow> (herror + bool) \<times> 's"
  td_adjust_leverage :: "message \<Rightarrow> 's \<Rightarrow> (herror + bool) \<times> 's"
  td_merge_position :: "message \<Rightarrow> 's \<Rightarrow> (herror + bool) \<times> 's"
  td_query_position :: "message \<Rightarrow> 's \<Rightarrow> (herror + bool) \<times> 's"

definition not_implemented :: "message \<Rightarrow> 's \<Rightarrow> (herror + bool) \<times> 's" where
  "not_implemented e s = (Inl (HandlerError ''not implemented''), s)"

definition td_dispatch :: "'s td_methods \<Rightarrow> message \<Rightarrow> 's \<Rightarrow> (herror + unit) \<times> 's" where
  "td_dispatch ms e s =
    (if m_msg_type e = T_OrderInput then ignore (td_insert_order ms e s)
     else if m_msg_type e = T_AdjustLeverage then ignore (td_adjust_leverage ms e s)
     else if m_msg_type e = T_MergePosition then ignore (td_merge_position ms e s)
     else if m_msg_type e = T_QueryPosition then ignore (td_query_position ms e s)
     else if m_msg_type e = T_OrderAction then
       (case m_data e of
          OrderActionData a \<Rightarrow> if oa_action_flag a = OA_Cancel then ignore (td_cancel_order ms e s)
                               else ignore (td_query_order ms e s)
        | _ \<Rightarrow> (Inl BadPayload, s))
     else (Inr (), s))"

text \<open>The subscriptions of the base class are made in \<open>on_start\<close>, after those of the application.\<close>

definition gateway_react ::
    "(message \<Rightarrow> 'a apprentice_scheme \<Rightarrow> (herror + unit) \<times> 'a apprentice_scheme) \<Rightarrow>
     ('a apprentice_scheme \<Rightarrow> (herror + unit) \<times> 'a apprentice_scheme) \<Rightarrow>
     message \<Rightarrow> 'a apprentice_scheme \<Rightarrow> (herror + unit) \<times> 'a apprentice_scheme" where
  "gateway_react dispatch on_start e a =
    bindX (apprentice_react (app_methods_of on_start) e a) (\<lambda>_ a1.
      if a_started a then dispatch e a1 else (Inr (), a1))"

definition publish_state :: "BrokerState \<Rightarrow> 'a hero_scheme \<Rightarrow> (herror + unit) \<times> 'a hero_scheme" where
  "publish_state b a = write_to 0 T_BrokerState (BrokerStateData b) 0 a"

section \<open>The mock market data\<close>

definition copy_text :: "nat \<Rightarrow> string \<Rightarrow> string" where
  "copy_text n s = (if n = 0 then [] else strncpy (n - 1) s @ [NUL])"

record mock_md = apprentice +
  mk_interval_ns :: i64
  mk_max_batch :: int
  mk_max_events :: i64
  mk_spin_ns :: i64
  mk_event_id :: i64
  mk_running :: bool
  mk_default_symbol :: string
  mk_default_exchange :: string
  mk_symbols :: "string list"
  mk_types :: "(string \<times> InstrumentType) list"
  mk_exchanges :: "(string \<times> string) list"

text \<open>The parameters come from the environment (\<open>atoll\<close>, \<open>atoi\<close>), with bounds.\<close>

definition new_mock_md ::
    "i64 option \<Rightarrow> int option \<Rightarrow> i64 option \<Rightarrow> i64 option \<Rightarrow> string option \<Rightarrow> string option \<Rightarrow> i64 \<Rightarrow> mock_md" where
  "new_mock_md interval batch events spin symb exch now =
    (let or = (\<lambda>x d. case x of None \<Rightarrow> d | Some v \<Rightarrow> v); ors = (\<lambda>x d. case x of None \<Rightarrow> d | Some v \<Rightarrow> if v = [] then d else v) in
     apprentice.extend (new_apprentice (make_location LIVE MD ''mock'' ''mock'') now)
      \<lparr>mk_interval_ns = max 1 (or interval 1000000), mk_max_batch = max 1 (or batch 1),
       mk_max_events = max 0 (or events 0), mk_spin_ns = max 0 (or spin 0), mk_event_id = 0, mk_running = False,
       mk_default_symbol = ors symb ''BTC-USDT'', mk_default_exchange = ors exch ''mock'',
       mk_symbols = [], mk_types = [], mk_exchanges = []\<rparr>)"

definition mock_md_on_start :: "mock_md \<Rightarrow> (herror + unit) \<times> mock_md" where
  "mock_md_on_start m = bindX (publish_state B_Ready m) (\<lambda>_ m1. (Inr (), m1\<lparr>mk_running := True\<rparr>))"

definition mock_md_on_exit :: "mock_md \<Rightarrow> mock_md" where
  "mock_md_on_exit m = m\<lparr>mk_running := False\<rparr>"

text \<open>\<open>std::set\<close> of strings: sorted, without duplicates.\<close>

definition set_insert :: "'a::linorder \<Rightarrow> 'a list \<Rightarrow> 'a list" where
  "set_insert x xs = (if x \<in> set xs then xs else insort x xs)"

definition mock_subscribe_one :: "instrument \<Rightarrow> mock_md \<Rightarrow> mock_md" where
  "mock_subscribe_one i m =
    (let symbol = (if c_str (ins_symbol i) = [] then mk_default_symbol m else c_str (ins_symbol i));
         exchange = c_str (ins_exchange_id i) in
     m\<lparr>mk_symbols := set_insert symbol (mk_symbols m),
       mk_types := AList.update symbol (ins_instrument_type i) (mk_types m),
       mk_exchanges := (if exchange = [] then mk_exchanges m else AList.update symbol exchange (mk_exchanges m))\<rparr>)"

definition mock_subscribe :: "instrument list \<Rightarrow> mock_md \<Rightarrow> (herror + bool) \<times> mock_md" where
  "mock_subscribe is m = (Inr True, fold mock_subscribe_one is m)"

definition mock_accept :: "instrument list \<Rightarrow> mock_md \<Rightarrow> (herror + bool) \<times> mock_md" where
  "mock_accept is m = (Inr True, m)"

definition mock_subscribe_all :: "mock_md \<Rightarrow> (herror + bool) \<times> mock_md" where
  "mock_subscribe_all m = (Inr True,
    m\<lparr>mk_symbols := set_insert (mk_default_symbol m) (mk_symbols m),
      mk_types := AList.update (mk_default_symbol m) Spot (mk_types m),
      mk_exchanges := AList.update (mk_default_symbol m) (mk_default_exchange m) (mk_exchanges m)\<rparr>)"

definition mock_unsubscribe_one :: "instrument \<Rightarrow> mock_md \<Rightarrow> mock_md" where
  "mock_unsubscribe_one i m =
    (let symbol = c_str (ins_symbol i) in
     m\<lparr>mk_symbols := remove1 symbol (mk_symbols m), mk_types := AList.delete symbol (mk_types m),
       mk_exchanges := AList.delete symbol (mk_exchanges m)\<rparr>)"

definition mock_unsubscribe :: "instrument list \<Rightarrow> mock_md \<Rightarrow> (herror + bool) \<times> mock_md" where
  "mock_unsubscribe is m = (Inr True, fold mock_unsubscribe_one is m)"

definition mock_md_methods :: "mock_md md_methods" where
  "mock_md_methods = \<lparr>md_subscribe = mock_subscribe, md_subscribe_trade = mock_accept,
     md_subscribe_ticker = mock_accept, md_subscribe_index_price = mock_accept,
     md_subscribe_all = mock_subscribe_all, md_unsubscribe = mock_unsubscribe\<rparr>"

definition pick_symbol :: "mock_md \<Rightarrow> string" where
  "pick_symbol m = (if mk_default_symbol m \<in> set (mk_symbols m) then mk_default_symbol m else hd (mk_symbols m))"

definition pick_instrument_type :: "mock_md \<Rightarrow> string \<Rightarrow> InstrumentType" where
  "pick_instrument_type m symbol =
    (case map_of (mk_types m) symbol of None \<Rightarrow> Spot | Some it \<Rightarrow> if it = IT_Unknown then Spot else it)"

definition pick_exchange :: "mock_md \<Rightarrow> string \<Rightarrow> string" where
  "pick_exchange m symbol =
    (case map_of (mk_exchanges m) symbol of
       None \<Rightarrow> mk_default_exchange m
     | Some x \<Rightarrow> if x = [] then mk_default_exchange m else x)"

text \<open>The levels of the book of event \<open>n\<close>: the middle moves by hundredths, the levels are tenths.\<close>

definition mock_mid :: "int \<Rightarrow> f64" where
  "mock_mid n = f_add (of_int_f64 65000) (f_mul (of_int_f64 (n smod 100)) (round_ratio False 1 100 0))"

definition mock_offset :: "nat \<Rightarrow> f64" where
  "mock_offset level = f_mul (of_int_f64 (int level + 1)) (round_ratio False 1 10 0)"

definition mock_volume :: "nat \<Rightarrow> f64" where
  "mock_volume level = f_mul (round_ratio False 1 1000 0) (of_int_f64 (int level + 1))"

definition mock_depth :: "mock_md \<Rightarrow> int \<Rightarrow> depth" where
  "mock_depth m n =
    (let symbol = pick_symbol m in
     zero_depth\<lparr>dep_source_id := copy_text SOURCE_ID_LEN ''mock'', dep_symbol := copy_text SYMBOL_LEN symbol,
       dep_exchange_id := copy_text EXCHANGE_ID_LEN (pick_exchange m symbol), dep_data_time := n,
       dep_instrument_type := pick_instrument_type m symbol,
       dep_bid_price := map (\<lambda>l. f_sub (mock_mid n) (mock_offset l)) [0..<10],
       dep_ask_price := map (\<lambda>l. f_add (mock_mid n) (mock_offset l)) [0..<10],
       dep_bid_volume := map mock_volume [0..<10], dep_ask_volume := map mock_volume [0..<10]\<rparr>)"

fun publish_batch :: "nat \<Rightarrow> journal_key \<Rightarrow> mock_md \<Rightarrow> mock_md" where
  "publish_batch 0 w m = m"
| "publish_batch (Suc k) w m =
    (if 0 < mk_max_events m \<and> mk_max_events m \<le> mk_event_id m then m\<lparr>mk_running := False\<rparr>
     else let n = mk_event_id m + 1 in
       publish_batch k w (write_msg w 0 T_Depth (DepthData (mock_depth m n)) (m\<lparr>mk_event_id := n\<rparr>)))"

definition publish_next :: "mock_md \<Rightarrow> (herror + unit) \<times> mock_md" where
  "publish_next m =
    (if mk_symbols m = [] then (Inr (), m)
     else bindX (get_writer 0 m) (\<lambda>w m1. (Inr (), publish_batch (nat (mk_max_batch m1)) w m1)))"

section \<open>The mock trader\<close>

definition mock_insert_order :: "i64 \<Rightarrow> message \<Rightarrow> apprentice \<Rightarrow> (herror + bool) \<times> apprentice" where
  "mock_insert_order now e a =
    (case m_data e of
       OrderInputData i \<Rightarrow>
         bindX (get_writer (m_source e) a) (\<lambda>w a1.
           let ord = order_from_input i zero_order;
               ord' = ord\<lparr>ord_insert_time := now, ord_update_time := now, ord_status := Submitted,
                          ord_volume_left := f_sub (ord_volume ord) (ord_volume_traded ord)\<rparr>
           in (Inr True, write_msg w now T_Order (OrderData ord') a1))
     | _ \<Rightarrow> (Inl BadPayload, a))"

definition mock_ack :: "message \<Rightarrow> apprentice \<Rightarrow> (herror + bool) \<times> apprentice" where
  "mock_ack e a = (Inr True, a)"

definition mock_td_methods :: "i64 \<Rightarrow> apprentice td_methods" where
  "mock_td_methods now = \<lparr>td_insert_order = mock_insert_order now, td_cancel_order = mock_ack, td_query_order = mock_ack,
     td_adjust_leverage = not_implemented, td_merge_position = not_implemented, td_query_position = not_implemented\<rparr>"

end
