(* ===== verification/StrategyProps.thy ===== *)
theory StrategyProps
  imports Runner Broker
begin

text \<open>
  What a strategy can rely on: orders come back to the strategy that sent them, market data
  reaches those that subscribed, and the state of the process stays well formed.
\<close>

section \<open>Messages\<close>

text \<open>The event a reader makes of what was written to a journal.\<close>

definition carries :: "message \<Rightarrow> journal_key \<times> i64 \<times> i32 \<times> payload \<Rightarrow> bool" where
  "carries e x = (case x of (w, t, k, p) \<Rightarrow>
     m_trigger_time e = t \<and> m_msg_type e = k \<and> m_data e = p \<and> m_source e = uid (fst w) \<and> m_dest e = snd w)"

lemma carries_iff [simp]: "carries e (w, t, k, p) \<longleftrightarrow>
    m_trigger_time e = t \<and> m_msg_type e = k \<and> m_data e = p \<and> m_source e = uid (fst w) \<and> m_dest e = snd w"
  by (simp add: carries_def)

lemma h_out_write_msg [simp]: "h_out (write_msg w t k p h) = h_out h @ [(w, t, k, p)]"
  by (simp add: write_msg_def)

lemma length_strcpy [simp]: "length (strcpy dst s) = length dst"
  by (simp add: strcpy_def)

lemmas event_types = T_OrderInput_def T_Order_def T_MyTrade_def T_Depth_def T_Ticker_def T_Trade_def T_IndexPrice_def
  T_Position_def T_UnionResponse_def T_RequestWriteTo_def T_Subscribe_def T_Unsubscribe_def T_SubscribeAll_def

section \<open>What a gateway promises of an order\<close>

locale order_gateway =
  fixes methods :: "'a apprentice_scheme td_methods"
    and stamp :: i64
    and answer :: "order_input \<Rightarrow> order"
  assumes insert_order_answers:
      "m_data e = OrderInputData i \<Longrightarrow> map_of (h_writers g) (m_source e) = Some w \<Longrightarrow>
       td_insert_order methods e g = (Inr True, write_msg w stamp T_Order (OrderData (answer i)) g)"
    and answer_names_order: "ord_strategy_id (answer i) = oi_strategy_id i" "ord_order_id (answer i) = oi_order_id i"
begin

lemma dispatch_answers:
  assumes "carries e (w, t, T_OrderInput, OrderInputData i)" "map_of (h_writers g) (uid (fst w)) = Some wb"
  shows "td_dispatch methods e g = (Inr (), write_msg wb stamp T_Order (OrderData (answer i)) g)"
  using assms insert_order_answers [of e i g wb] by (simp add: td_dispatch_def ignore_def)

lemma answer_delivered:
  assumes "carries e (wb, t, T_Order, OrderData (answer i))" "snd wb = get_home_uid r" "oi_strategy_id i \<in> set (strategies r)"
  shows "deliver call e r = call (oi_strategy_id i) (OnOrder (answer i)) (r\<lparr>current_strategy_idx := oi_strategy_id i\<rparr>)"
  using assms by (simp add: deliver_def Let_def one_strategy_def answer_names_order event_types)

end

definition mock_answer :: "i64 \<Rightarrow> order_input \<Rightarrow> order" where
  "mock_answer now i =
    (let ord = order_from_input i zero_order in
     ord\<lparr>ord_insert_time := now, ord_update_time := now, ord_status := Submitted,
         ord_volume_left := f_sub (ord_volume ord) (ord_volume_traded ord)\<rparr>)"

interpretation mock_trader: order_gateway "mock_td_methods now" now "mock_answer now" for now
  by unfold_locales (simp_all add: mock_td_methods_def mock_insert_order_def mock_answer_def get_writer_def
      order_from_input_def Let_def)

section \<open>Orders\<close>

lemma insert_order_sends:
  assumes "map_of (account_location_ids r) (hash_str_32 account) = Some td" "map_of (h_writers r) td = Some w"
  shows "insert_order fuid symbol it exchange account price volume type side tc ps ro r =
    (let i = new_order_input (current_strategy_idx r) (fuid w (written w r)) symbol it exchange account price volume type side tc ps ro
     in (Inr (oi_order_id i), write_msg w 0 T_OrderInput (OrderInputData i)
          (note_symbol (get_sub_symbol_id symbol ''order'' it exchange (current_strategy_idx r)) r)))"
  using assms by (simp add: insert_order_def account_writer_def lookup_account_location_id_def note_symbol_def get_writer_def
      Let_def written_def new_order_input_def)

text \<open>C25: an order returns to the strategy that sent it.  The order input goes to the account's
  trader with the identifier the strategy is given; the trader (the mock gateway) answers with one
  order, submitted, with the same identifier, symbol, price, volume and side, on its journal to the
  strategy process; the process calls \<open>on_order\<close> of exactly that strategy, as the current one.\<close>

theorem order_returns_to_its_strategy:
  assumes "map_of (account_location_ids r) (hash_str_32 account) = Some td" "map_of (h_writers r) td = Some w"
    and "uid (fst w) = get_home_uid r"
    and "map_of (h_writers g) (get_home_uid r) = Some wb" "snd wb = get_home_uid r"
    and "current_strategy_idx r \<in> set (strategies r)"
    and "NUL \<notin> set symbol" "length symbol < SYMBOL_LEN"
  shows "\<exists>input r1 ord.
    insert_order fuid symbol it exchange account price volume type side tc ps ro r = (Inr (fuid w (written w r)), r1) \<and>
    h_out r1 = h_out r @ [(w, 0, T_OrderInput, OrderInputData input)] \<and>
    (\<forall>e. carries e (w, 0, T_OrderInput, OrderInputData input) \<longrightarrow>
      td_dispatch (mock_td_methods now) e g = (Inr (), write_msg wb now T_Order (OrderData ord) g)) \<and>
    ord_order_id ord = fuid w (written w r) \<and> ord_status ord = Submitted \<and> c_str (ord_symbol ord) = symbol \<and>
    ord_price ord = price \<and> ord_volume ord = volume \<and> ord_side ord = side \<and>
    (\<forall>e r2 call. carries e (wb, now, T_Order, OrderData ord) \<and> strategies r2 = strategies r \<and> h_home r2 = h_home r \<longrightarrow>
      deliver call e r2 = call (current_strategy_idx r) (OnOrder ord) (r2\<lparr>current_strategy_idx := current_strategy_idx r\<rparr>))"
proof -
  define i where "i = new_order_input (current_strategy_idx r) (fuid w (written w r)) symbol it exchange account price volume
    type side tc ps ro"
  have sym: "c_str (oi_symbol i) = symbol" "oi_strategy_id i = current_strategy_idx r"
    using assms(7,8) strcpy_fits [of symbol "oi_symbol zero_order_input"]
    by (simp_all add: i_def new_order_input_def zero_order_input_def)
  have sym2: "c_str (strcpy (ord_symbol zero_order) (oi_symbol i)) = symbol"
    using assms(7,8) strcpy_fits [of symbol "ord_symbol zero_order"] sym(1) strcpy_c_str [of _ "oi_symbol i"]
    by (simp add: zero_order_def)
  have ord: "c_str (ord_symbol (mock_answer now i)) = symbol" "ord_status (mock_answer now i) = Submitted"
    "ord_price (mock_answer now i) = price" "ord_volume (mock_answer now i) = volume" "ord_side (mock_answer now i) = side"
    using sym2 by (simp_all add: mock_answer_def order_from_input_def Let_def) (simp_all add: i_def new_order_input_def)
  have "oi_strategy_id i \<in> set (strategies r)" using sym(2) assms(6) by simp
  then have delivered: "deliver call e r2 = call (current_strategy_idx r) (OnOrder (mock_answer now i))
      (r2\<lparr>current_strategy_idx := current_strategy_idx r\<rparr>)"
    if "carries e (wb, now, T_Order, OrderData (mock_answer now i))" "strategies r2 = strategies r" "h_home r2 = h_home r" for e r2 call
    using mock_trader.answer_delivered [OF that(1), of r2 call] that(2,3) assms(5) sym(2) by (simp add: get_home_uid_def)
  have answered: "td_dispatch (mock_td_methods now) e g = (Inr (), write_msg wb now T_Order (OrderData (mock_answer now i)) g)"
    if "carries e (w, 0, T_OrderInput, OrderInputData i)" for e
    using mock_trader.dispatch_answers [OF that] assms(3,4) by simp
  define r0 where "r0 = note_symbol (get_sub_symbol_id symbol ''order'' it exchange (current_strategy_idx r)) r"
  have sent: "insert_order fuid symbol it exchange account price volume type side tc ps ro r =
      (Inr (oi_order_id i), write_msg w 0 T_OrderInput (OrderInputData i) r0)" "h_out r0 = h_out r"
    "oi_order_id i = fuid w (written w r)"
    by (simp_all add: insert_order_sends [OF assms(1,2)] Let_def i_def r0_def note_symbol_def new_order_input_def)
  show ?thesis
    by (intro exI [of _ i] exI [of _ "write_msg w 0 T_OrderInput (OrderInputData i) r0"]
        exI [of _ "mock_answer now i"] conjI allI impI)
      (use sent ord mock_trader.answer_names_order answered delivered in \<open>simp_all del: carries_iff\<close>)
qed

definition demo_home :: location where "demo_home = make_location LIVE STRATEGY ''demo'' ''demo''"

definition demo_runner :: runner where
  "demo_runner = (new_runner LIVE ''demo'' ''demo'' 0)\<lparr>strategies := [5], current_strategy_idx := 5, has_context := True,
     account_location_ids := [(hash_str_32 ''acc'', 7)], market_data := [(''mock'', 9)],
     h_writers := [(7, (demo_home, 7)), (9, (demo_home, 9))]\<rparr>"

definition demo_trader :: apprentice where
  "demo_trader = (new_apprentice (make_location LIVE TD ''mock'' ''acc'') 0)
     \<lparr>h_writers := [(uid demo_home, (make_location LIVE TD ''mock'' ''acc'', uid demo_home))]\<rparr>"

lemma demo_fields [simp]:
  "h_home demo_runner = demo_home" "strategies demo_runner = [5]" "current_strategy_idx demo_runner = 5"
  "account_location_ids demo_runner = [(hash_str_32 ''acc'', 7)]" "market_data demo_runner = [(''mock'', 9)]"
  "h_writers demo_runner = [(7, (demo_home, 7)), (9, (demo_home, 9))]" "h_out demo_runner = []"
  "h_writers demo_trader = [(uid demo_home, (make_location LIVE TD ''mock'' ''acc'', uid demo_home))]"
  by (simp_all add: demo_runner_def demo_trader_def new_runner_def new_apprentice_def new_hero_def apprentice.defs hero.defs demo_home_def)

theorem order_returns_to_its_strategy_witness:
  "\<exists>input ord r1. insert_order (\<lambda>_ _. 42) ''btc_usdt'' Spot ''mock'' ''acc'' (Num 3 0) (Num 2 0) Limit Buy GTC Long False demo_runner =
      (Inr 42, r1) \<and>
    h_out r1 = [((demo_home, 7), 0, T_OrderInput, OrderInputData input)] \<and> ord_order_id ord = 42 \<and>
    deliver (\<lambda>s c r. (Inr (), r\<lparr>a_published := [JUint (unat s)]\<rparr>))
      \<lparr>m_gen_time = 1, m_trigger_time = 1, m_msg_type = T_Order, m_source = uid (make_location LIVE TD ''mock'' ''acc''),
        m_dest = uid demo_home, m_data = OrderData ord\<rparr> demo_runner = (Inr (), demo_runner\<lparr>a_published := [JUint 5]\<rparr>)"
proof -
  let ?wb = "(make_location LIVE TD ''mock'' ''acc'', uid demo_home)"
  have pre: "map_of (account_location_ids demo_runner) (hash_str_32 ''acc'') = Some 7" "map_of (h_writers demo_runner) 7 = Some (demo_home, 7)"
    "uid (fst (demo_home, 7 :: u32)) = get_home_uid demo_runner" "map_of (h_writers demo_trader) (get_home_uid demo_runner) = Some ?wb"
    "snd ?wb = get_home_uid demo_runner" "current_strategy_idx demo_runner \<in> set (strategies demo_runner)"
    "NUL \<notin> set ''btc_usdt''" "length ''btc_usdt'' < SYMBOL_LEN"
    by (simp_all add: NUL_def SYMBOL_LEN_def get_home_uid_def)
  obtain input r1 ord where
    o: "insert_order (\<lambda>_ _. 42) ''btc_usdt'' Spot ''mock'' ''acc'' (Num 3 0) (Num 2 0) Limit Buy GTC Long False demo_runner = (Inr 42, r1)"
      "h_out r1 = h_out demo_runner @ [((demo_home, 7), 0, T_OrderInput, OrderInputData input)]" "ord_order_id ord = 42"
    and d: "\<forall>e r2 call. carries e (?wb, 1, T_Order, OrderData ord) \<and> strategies r2 = strategies demo_runner \<and>
      h_home r2 = h_home demo_runner \<longrightarrow> deliver call e r2 = call (current_strategy_idx demo_runner) (OnOrder ord)
        (r2\<lparr>current_strategy_idx := current_strategy_idx demo_runner\<rparr>)"
    using order_returns_to_its_strategy [OF pre, of "\<lambda>_ _. 42" Spot "''mock''" "Num 3 0" "Num 2 0" Limit Buy GTC Long False 1]
    by blast
  have same: "demo_runner\<lparr>current_strategy_idx := 5\<rparr> = demo_runner" by (simp add: demo_runner_def)
  show ?thesis
    using o by (intro exI [of _ input] exI [of _ ord] exI [of _ r1]) (simp add: d same)
qed

section \<open>Market data\<close>







definition note_call :: strategy_code where
  "note_call s c r = (Inr (), r\<lparr>a_published := a_published r @ [JUint (unat s)]\<rparr>)"


section \<open>What a request to others leaves alone\<close>

text \<open>The part of the state that belongs to the strategies.\<close>

definition own :: "runner \<Rightarrow> u32 list \<times> (u32 \<times> u32) list \<times> (u32 \<times> location) list \<times> (string \<times> u32) list \<times>
    bool \<times> u32 list \<times> waiting list \<times> u32 \<times> (i32 \<times> u32) list" where
  "own r = (strategies r, account_location_ids r, accounts r, market_data r, subscribed_all r, subscribed_symbols r,
     rn_waiting r, current_strategy_idx r, timer_owners r)"

named_theorems own_simps \<open>operations that change only the tables and journals of the process\<close>

lemma own_write_msg [own_simps]: "own (write_msg w t k p r) = own r"
  by (simp add: own_def write_msg_def)

lemma bindX_snd: "snd (bindX x f) = (case fst x of Inl e \<Rightarrow> snd x | Inr v \<Rightarrow> snd (f v (snd x)))"
  by (cases x; cases "fst x") simp_all

lemma bindX_fst: "fst (bindX x f) = (case fst x of Inl e \<Rightarrow> Inl e | Inr v \<Rightarrow> fst (f v (snd x)))"
  by (cases x; cases "fst x") simp_all

lemma own_request [own_simps]: "own (snd (request_write_to t d r)) = own r" "own (snd (request_read_from t d p r)) = own r"
  by (simp_all add: request_write_to_def request_read_from_def require_write_to_def require_read_from_def get_writer_def
      get_location_def bindX_snd Let_def own_write_msg split: option.splits sum.splits)

lemma own_get_writer [own_simps]: "own (snd (get_writer d r)) = own r"
  by (simp add: get_writer_def split: option.splits)

lemma own_tables [own_simps]:
  "own (register_location l r) = own r" "own (deregister_location u r) = own r" "own (hero_register_channel c r) = own r"
  "own (deregister_channel_by_source u r) = own r" "own (hero_disjoin u r) = own r" "own (hero_join l d t r) = own r"
  by (simp_all add: own_def register_location_def deregister_location_def hero_register_channel_def
      deregister_channel_by_source_def hero_disjoin_def hero_join_def)

lemma own_updates [own_simps]:
  "own (r\<lparr>h_now := t\<rparr>) = own r" "own (r\<lparr>a_registered := b\<rparr>) = own r" "own (r\<lparr>a_started := b\<rparr>) = own r"
  "own (r\<lparr>h_writers := w\<rparr>) = own r" "own (r\<lparr>has_context := b\<rparr>) = own r" "own (r\<lparr>account_cash_limits := x\<rparr>) = own r"
  "own (r\<lparr>timer_checkpoints := y\<rparr>) = own r" "own (r\<lparr>timer_usage_count := z\<rparr>) = own r" "own (r\<lparr>a_timers := ts\<rparr>) = own r"
  "own (r\<lparr>reacting := b\<rparr>) = own r" "own (signal_stop r) = own r" "own (join_commands e r) = own r"
  by (simp_all add: own_def signal_stop_def join_commands_def hero_join_def)

lemma own_ask_time [own_simps]: "own (snd (ask_time i d r)) = own r"
  by (simp add: ask_time_def writer_at_def bindX_snd own_simps split: option.splits sum.splits)

lemma own_add_timer [own_simps]: "own (snd (add_timer t r)) = own r" "own (snd (add_time_interval t r)) = own r"
  by (simp_all add: add_timer_def add_time_interval_def bindX_snd own_simps split: sum.splits)

lemma own_run_subscriptions: "own (snd (run_subscriptions e ss r)) = own r"
proof (induction ss arbitrary: r)
  case (Cons s ss)
  have "own (snd (run_subscription e s r)) = own r"
    by (simp add: run_subscription_def bindX_snd own_simps split: subscription.splits sum.splits)
  then show ?case using Cons.IH by (simp add: bindX_snd split: sum.splits prod.splits)
qed simp

lemma own_run_timers_on [own_simps]: "own (snd (run_timers_on e r)) = own r"
  by (simp add: run_timers_on_def bindX_snd own_run_subscriptions own_simps split: sum.splits prod.splits)

lemma own_requests [own_simps]:
  "own (snd (request_subscribe md ss x k it r)) = own r" "own (snd (request_unsubscribe md ss x k it r)) = own r"
  by (induction ss arbitrary: r) (simp_all add: bindX_snd own_simps write_subscribe_msg_def write_unsubscribe_msg_def split: sum.splits)

lemma own_run_waiting [own_simps]: "own (snd (run_waiting x r)) = own r"
  by (cases x) (simp_all add: request_instruments_def request_all_def bindX_snd own_simps split: sum.splits)

lemma own_account_writer [own_simps]: "own (snd (account_writer account r)) = own r"
  by (simp add: account_writer_def lookup_account_location_id_def bindX_snd own_simps split: option.splits sum.splits)

lemma own_context_react [own_simps]: "own (snd (context_react r)) = own r"
  by (simp add: context_react_def bindX_snd own_simps split: sum.splits)

section \<open>The state stays well formed\<close>

definition marketdata_location :: "string \<Rightarrow> location" where
  "marketdata_location src = (if src = ''bar'' then make_location LIVE SYSTEM ''service'' src else make_location LIVE MD src src)"

text \<open>The market data sources, and what waits for a writer to one of them or to the ledger.\<close>

definition market_ok :: "(string \<times> u32) list \<Rightarrow> waiting list \<Rightarrow> bool" where
  "market_ok ms ws \<longleftrightarrow> distinct (map fst ms) \<and> (\<forall>x \<in> set ms. snd x = uid (marketdata_location (fst x))) \<and>
     (\<forall>x \<in> set ws. waiting_dest x = uid ledger_location \<or> waiting_dest x \<in> snd ` set ms)"

definition runner_wf :: "runner \<Rightarrow> bool" where
  "runner_wf r \<longleftrightarrow> sorted (strategies r) \<and> distinct (strategies r) \<and> distinct (map fst (accounts r)) \<and>
     account_location_ids r = map (\<lambda>x. (fst x, uid (snd x))) (accounts r) \<and>
     (\<forall>x \<in> set (accounts r). l_category (snd x) = TD \<and> l_mode (snd x) = LIVE) \<and>
     market_ok (market_data r) (rn_waiting r) \<and> distinct (subscribed_symbols r)"

lemma wf_cong: "own r = own r' \<Longrightarrow> runner_wf r = runner_wf r'"
  by (simp add: own_def runner_wf_def)

lemma wf_own [simp]: "own r' = own r \<Longrightarrow> runner_wf r \<Longrightarrow> runner_wf r'"
  using wf_cong by blast

lemma wf_index: "runner_wf (r\<lparr>current_strategy_idx := s\<rparr>) = runner_wf r" "runner_wf (r\<lparr>timer_owners := z\<rparr>) = runner_wf r"
  "runner_wf (r\<lparr>subscribed_all := b\<rparr>) = runner_wf r"
  by (simp_all add: runner_wf_def)

lemma wf_note_symbol: "runner_wf r \<Longrightarrow> runner_wf (note_symbol i r)"
  by (simp add: runner_wf_def note_symbol_def)

lemma wf_note_symbols: "runner_wf r \<Longrightarrow> runner_wf (note_symbols k ss it x r)"
  unfolding note_symbols_def by (induction ss arbitrary: r) (simp_all add: wf_note_symbol)

lemma update_absent: "map_of xs k = None \<Longrightarrow> AList.update k v xs = xs @ [(k, v)]"
  by (induction xs) (auto split: if_splits)

lemma wf_add_strategy: "runner_wf r \<Longrightarrow> runner_wf (add_strategy path r)"
  by (simp add: runner_wf_def add_strategy_def Let_def sorted_insort distinct_insort)

lemma wf_add_account: "runner_wf r \<Longrightarrow> runner_wf (snd (add_account src account r))"
proof -
  assume wf: "runner_wf r"
  define l k where "l = make_location LIVE TD src account" and "k = hash_str_32 account"
  define r1 where "r1 = r\<lparr>accounts := AList.update k l (accounts r),
      account_location_ids := AList.update k (uid l) (account_location_ids r)\<rparr>"
  have "runner_wf r1" if "map_of (accounts r) k = None"
  proof -
    have "map_of (account_location_ids r) k = None"
      using that wf by (simp add: runner_wf_def map_of_eq_None_iff image_image)
    then show ?thesis
      using that wf by (simp add: runner_wf_def r1_def update_absent map_of_eq_None_iff l_def make_location_def)
  qed
  then show ?thesis
    using wf by (auto simp: add_account_def Let_def bindX_snd l_def [symmetric] k_def [symmetric] r1_def [symmetric] own_simps split: sum.splits)
qed

lemma market_ok_add:
  assumes "market_ok ms ws" "map_of ms src = None"
  shows "market_ok (AList.update src (uid (marketdata_location src)) ms) ws"
  using assms by (auto simp: market_ok_def update_absent map_of_eq_None_iff)

lemma market_ok_wait: "market_ok ms ws \<Longrightarrow> waiting_dest x = uid ledger_location \<or> waiting_dest x \<in> snd ` set ms \<Longrightarrow> market_ok ms (ws @ [x])"
  by (auto simp: market_ok_def)

lemma market_ok_remove: "market_ok ms ws \<Longrightarrow> market_ok ms (remove1 x ws)"
  unfolding market_ok_def by (meson notin_set_remove1)

lemma market_data_own: "own r = own r' \<Longrightarrow> market_data r = market_data r'"
  by (simp add: own_def)

lemma add_marketdata_result:
  assumes "runner_wf r"
  shows "runner_wf (snd (add_marketdata src r)) \<and>
    (\<forall>md. fst (add_marketdata src r) = Inr md \<longrightarrow> md \<in> snd ` set (market_data (snd (add_marketdata src r))))"
proof (cases "map_of (market_data r) src")
  case (Some u)
  then show ?thesis using assms by (auto simp: add_marketdata_def dest!: map_of_SomeD intro: rev_image_eqI)
next
  case None
  have l: "(if src = ''bar'' then make_location LIVE SYSTEM ''service'' src else make_location LIVE MD src src) = marketdata_location src"
    by (simp add: marketdata_location_def)
  have "runner_wf (r2\<lparr>market_data := AList.update src (uid (marketdata_location src)) (market_data r2)\<rparr>)" if "own r2 = own r" for r2
    using assms that None wf_own [OF that assms] market_ok_add [of "market_data r2" "rn_waiting r2" src] market_data_own [OF that]
    by (simp add: runner_wf_def)
  moreover have "own (snd (request_write_to (h_now x) d x)) = own r" if "own x = own r" for x d
    using that by (simp add: own_simps)
  moreover have "uid (marketdata_location src) \<in> snd ` set (AList.update src (uid (marketdata_location src)) ms)" for ms
    by (induction ms) auto
  ultimately show ?thesis
    using assms by (auto simp: add_marketdata_def None l Let_def bindX_snd bindX_fst own_simps split: sum.splits)
qed

lemma wf_now_or_wait:
  assumes "runner_wf r" "waiting_dest x = uid ledger_location \<or> waiting_dest x \<in> snd ` set (market_data r)"
  shows "runner_wf (snd (now_or_wait x r))"
proof (cases "has_writer r (waiting_dest x)")
  case True
  then show ?thesis using assms(1) by (simp add: now_or_wait_def own_simps)
next
  case False
  then show ?thesis using assms market_ok_wait [of "market_data r" "rn_waiting r" x] by (simp add: now_or_wait_def runner_wf_def)
qed

lemma wf_ctx_subscribe: "runner_wf r \<Longrightarrow> runner_wf (snd (ctx_subscribe k src ss it x r))"
  using add_marketdata_result [of "note_symbols k ss it x r" src] wf_note_symbols [of r k ss it x]
  by (auto simp: ctx_subscribe_def bindX_snd split: sum.splits intro: wf_now_or_wait)

lemma wf_ctx_unsubscribe: "runner_wf r \<Longrightarrow> runner_wf (snd (ctx_unsubscribe k src ss it x r))"
  using add_marketdata_result [of "note_symbols k ss it x r" src] wf_note_symbols [of r k ss it x]
  by (auto simp: ctx_unsubscribe_def bindX_snd own_simps split: sum.splits)

lemma wf_subscribe_all_of: "runner_wf r \<Longrightarrow> runner_wf (snd (subscribe_all_of src r))"
  using add_marketdata_result [of "r\<lparr>subscribed_all := True\<rparr>" src] wf_index(3) [of True r]
  by (auto simp: subscribe_all_of_def bindX_snd split: sum.splits intro: wf_now_or_wait)

lemma wf_subscribe_instruments: "runner_wf r \<Longrightarrow> runner_wf (snd (subscribe_instruments r))"
  by (auto simp: subscribe_instruments_def intro: wf_now_or_wait)

lemma wf_insert_order: "runner_wf r \<Longrightarrow> runner_wf (snd (insert_order fuid s it x acc p v ty sd tc ps ro r))"
  using wf_note_symbol [of r "get_sub_symbol_id s ''order'' it x (current_strategy_idx r)"]
  by (auto simp: insert_order_def bindX_snd Let_def own_simps split: sum.splits)

lemma wf_query_order: "runner_wf r \<Longrightarrow> runner_wf (snd (query_order fuid acc n ex it s r))"
  using wf_note_symbol [of r "get_sub_symbol_id s ''order'' Spot [] (current_strategy_idx r)"]
  by (auto simp: query_order_def bindX_snd Let_def own_simps split: sum.splits)

lemma wf_cancel_order: "runner_wf r \<Longrightarrow> runner_wf (snd (cancel_order fuid acc n s ex it r))"
  using wf_note_symbol [of r "get_sub_symbol_id [] ''order'' Spot [] (current_strategy_idx r)"]
  by (auto simp: cancel_order_def bindX_snd Let_def own_simps split: sum.splits)

lemma wf_account_requests:
  "runner_wf r \<Longrightarrow> runner_wf (snd (adjust_leverage acc s ps n r))" "runner_wf r \<Longrightarrow> runner_wf (snd (merge_positions acc s k it r))"
  "runner_wf r \<Longrightarrow> runner_wf (snd (query_positions acc s it r))"
  by (auto simp: adjust_leverage_def merge_positions_def query_positions_def bindX_snd own_simps split: sum.splits)

lemma wf_timers: "runner_wf r \<Longrightarrow> runner_wf (snd (ctx_add_timer t r))" "runner_wf r \<Longrightarrow> runner_wf (snd (ctx_add_time_interval t r))"
  by (auto simp: ctx_add_timer_def ctx_add_time_interval_def Let_def bindX_snd wf_index own_simps split: sum.splits)

text \<open>What a callback may do: any sequence of the calls its context offers.\<close>

inductive context_calls :: "runner \<Rightarrow> runner \<Rightarrow> bool" where
  nothing: "context_calls r r"
| account: "context_calls r r1 \<Longrightarrow> context_calls r (snd (add_account src acc r1))"
| cash_limit: "context_calls r r1 \<Longrightarrow> context_calls r (set_account_cash_limit acc coin limit r1)"
| subscribe: "context_calls r r1 \<Longrightarrow> context_calls r (snd (ctx_subscribe k src ss it x r1))"
| unsubscribe: "context_calls r r1 \<Longrightarrow> context_calls r (snd (ctx_unsubscribe k src ss it x r1))"
| all: "context_calls r r1 \<Longrightarrow> context_calls r (snd (subscribe_all_of src r1))"
| instruments: "context_calls r r1 \<Longrightarrow> context_calls r (snd (subscribe_instruments r1))"
| order: "context_calls r r1 \<Longrightarrow> context_calls r (snd (insert_order fuid s it x acc p v ty sd tc ps ro r1))"
| query: "context_calls r r1 \<Longrightarrow> context_calls r (snd (query_order fuid acc n ex it s r1))"
| cancel: "context_calls r r1 \<Longrightarrow> context_calls r (snd (cancel_order fuid acc n s ex it r1))"
| leverage: "context_calls r r1 \<Longrightarrow> context_calls r (snd (adjust_leverage acc s ps lev r1))"
| merge_pos: "context_calls r r1 \<Longrightarrow> context_calls r (snd (merge_positions acc s amount it r1))"
| query_pos: "context_calls r r1 \<Longrightarrow> context_calls r (snd (query_positions acc s it r1))"
| timer: "context_calls r r1 \<Longrightarrow> context_calls r (snd (ctx_add_timer t r1))"
| interval: "context_calls r r1 \<Longrightarrow> context_calls r (snd (ctx_add_time_interval t r1))"

lemma wf_context_calls: "context_calls r r1 \<Longrightarrow> runner_wf r \<Longrightarrow> runner_wf r1"
proof (induction rule: context_calls.induct)
  case (cash_limit r r1 acc coin limit)
  then show ?case using wf_own [of "set_account_cash_limit acc coin limit r1" r1] by (simp add: set_account_cash_limit_def Let_def own_simps)
qed (simp_all add: wf_add_account wf_ctx_subscribe wf_ctx_unsubscribe wf_subscribe_all_of wf_subscribe_instruments wf_insert_order
      wf_query_order wf_cancel_order wf_account_requests wf_timers del: wf_own)

text \<open>The runs of the process: created, given its strategies, then handling events with the subscriptions
  it has left.\<close>

inductive runner_reaches :: "strategy_code \<Rightarrow> (i32 \<Rightarrow> rstep) \<Rightarrow> runner \<Rightarrow> bool" for call timer_code where
  created: "runner_reaches call timer_code (new_runner m g n now)"
| strategy_added: "runner_reaches call timer_code r \<Longrightarrow> runner_reaches call timer_code (add_strategy path r)"
| event_handled: "runner_reaches call timer_code r \<Longrightarrow> set hs \<subseteq> set (runner_subscriptions call timer_code) \<Longrightarrow>
    runner_reaches call timer_code (snd (publish_event e hs r))"

inductive_cases runner_reachesE: "runner_reaches call timer_code r"

lemma wf_each_strategy:
  assumes "\<And>s c r. runner_wf r \<Longrightarrow> runner_wf (snd (call s c r))"
  shows "runner_wf r \<Longrightarrow> runner_wf (snd (each_strategy call what ss r))"
proof (induction ss arbitrary: r)
  case (Cons s ss)
  have "runner_wf (snd (case what s (r\<lparr>current_strategy_idx := s\<rparr>) of None \<Rightarrow> (Inr (), r\<lparr>current_strategy_idx := s\<rparr>)
      | Some c \<Rightarrow> call s c (r\<lparr>current_strategy_idx := s\<rparr>)))"
    using assms Cons.prems by (simp add: wf_index del: wf_own split: option.splits)
  then show ?case using Cons.IH by (simp add: Let_def bindX_snd del: wf_own split: sum.splits)
qed simp

lemma wf_one_strategy:
  assumes "\<And>s c r. runner_wf r \<Longrightarrow> runner_wf (snd (call s c r))" "runner_wf r"
  shows "runner_wf (snd (one_strategy call s c r))"
  using assms by (simp add: one_strategy_def wf_index)

lemma wf_run_ready: "runner_wf r \<Longrightarrow> runner_wf (snd (run_ready d ws r))"
proof (induction ws arbitrary: r)
  case (Cons x ws)
  have "runner_wf (r\<lparr>rn_waiting := remove1 x (rn_waiting r)\<rparr>)"
    using Cons.prems market_ok_remove [of "market_data r" "rn_waiting r" x] by (simp add: runner_wf_def)
  then show ?case using Cons by (auto simp: bindX_snd own_simps split: sum.splits)
qed simp

lemma wf_deliver:
  assumes "\<And>s c r. runner_wf r \<Longrightarrow> runner_wf (snd (call s c r))" "runner_wf r"
  shows "runner_wf (snd (deliver call e r))"
  using wf_each_strategy [OF assms] wf_one_strategy [OF assms] wf_run_ready [OF assms(2)] assms(2)
  by (cases "m_data e") (simp_all add: deliver_def Let_def del: wf_own split: sum.splits)

lemma wf_run_fired:
  assumes "\<And>i r. runner_wf r \<Longrightarrow> runner_wf (snd (timer_code i r))"
  shows "runner_wf r \<Longrightarrow> runner_wf (run_fired timer_code ss r)"
proof (induction ss arbitrary: r)
  case (Cons s ss)
  have "runner_wf (run_timer_callback sid (timer_code i) r)" for sid i
    using assms [of "r\<lparr>current_strategy_idx := sid\<rparr>" i] Cons.prems
    by (auto simp: run_timer_callback_def Let_def wf_index split: prod.splits sum.splits)
  then show ?case using Cons.IH by (simp add: Let_def)
qed simp

lemma wf_runner_on_start:
  assumes "\<And>s c r. runner_wf r \<Longrightarrow> runner_wf (snd (call s c r))" "runner_wf r"
  shows "runner_wf (snd (runner_on_start call r))"
proof -
  have "own (snd (context_react (r\<lparr>has_context := True\<rparr>))) = own r" by (simp add: own_simps)
  then have "runner_wf (snd (context_react (r\<lparr>has_context := True\<rparr>)))" using assms(2) by (rule wf_own)
  moreover have "runner_wf (r1\<lparr>reacting := True\<rparr>)" if "runner_wf r1" for r1
    by (rule wf_own [OF _ that]) (simp add: own_simps)
  ultimately show ?thesis
    using wf_each_strategy [of call, OF assms(1)]
    by (simp add: runner_on_start_def post_start_all_def bindX_snd del: wf_own split: sum.splits)
qed

lemma wf_runner_on_exit:
  assumes "\<And>s c r. runner_wf r \<Longrightarrow> runner_wf (snd (call s c r))" "runner_wf r"
  shows "runner_wf (snd (runner_on_exit call r))"
  using wf_each_strategy [of call, OF assms(1)] assms(2) by (simp add: runner_on_exit_def bindX_snd del: wf_own split: sum.splits)

lemma own_handlers:
  "own (snd (register_location_from_event (runner_methods call) e r)) = own r"
  "own (snd (deregister_location_from_event (runner_methods call) e r)) = own r"
  "own (snd (m_on_write_to (runner_methods call) e r)) = own r" "own (snd (m_on_read_from (runner_methods call) e r)) = own r"
  by (simp_all add: register_location_from_event_def deregister_location_from_event_def runner_methods_def app_methods_of_def
      runner_register_location_def app_deregister_location_def on_write_to_def on_read_from_def get_location_def bindX_snd own_simps
      split: payload.splits sum.splits option.splits)

lemma wf_start_app:
  assumes "\<And>s c r. runner_wf r \<Longrightarrow> runner_wf (snd (call s c r))" "runner_wf r"
  shows "runner_wf (snd (start_app (runner_methods call) r))"
proof -
  have "runner_wf (r\<lparr>a_started := True\<rparr>)" by (rule wf_own [OF _ assms(2)]) (simp add: own_simps)
  from wf_runner_on_start [of call, OF assms(1) this] show ?thesis
    by (simp add: start_app_def runner_methods_def app_methods_of_def case_prod_beta del: wf_own)
qed

lemma own_apprentice_subscription:
  assumes "s \<in> set (apprentice_subscriptions (runner_methods call))"
  shows "own (snd (s e r)) = own r \<or> snd (s e r) = snd (start_app (runner_methods call) r)"
  using assms by (auto simp: apprentice_subscriptions_def on_type_def on_channel_def own_handlers own_simps split: payload.split)

lemma wf_fire_timers:
  assumes "\<And>i r. runner_wf r \<Longrightarrow> runner_wf (snd (timer_code i r))" "runner_wf r"
  shows "runner_wf (snd (fire_timers timer_code e r))"
proof -
  have "runner_wf (snd (run_timers_on e r))" using assms(2) own_run_timers_on wf_own by metis
  then show ?thesis using wf_run_fired [OF assms(1)] by (simp add: fire_timers_def bindX_snd del: wf_own split: sum.splits)
qed

lemma wf_subscription:
  assumes "\<And>s c r. runner_wf r \<Longrightarrow> runner_wf (snd (call s c r))" "\<And>i r. runner_wf r \<Longrightarrow> runner_wf (snd (timer_code i r))"
    and "s \<in> set (runner_subscriptions call timer_code)" "runner_wf r"
  shows "runner_wf (snd (s e r))"
proof -
  consider "s \<in> set (apprentice_subscriptions (runner_methods call))" | k where "s = on_type k (deliver call)"
    | k where "s = on_type k (deliver_started call)" | "s = fire_timers timer_code"
    using assms(3) by (auto simp: runner_subscriptions_def)
  then show ?thesis
  proof cases
    case 1
    from own_apprentice_subscription [OF this] show ?thesis
      using wf_own [OF _ assms(4)] wf_start_app [of call, OF assms(1,4)] by metis
  next
    case 2
    then show ?thesis using wf_deliver [of call, OF assms(1,4)] assms(4) by (simp add: on_type_def del: wf_own)
  next
    case 3
    then show ?thesis using wf_deliver [of call, OF assms(1,4)] assms(4) by (simp add: on_type_def deliver_started_def del: wf_own)
  next
    case 4
    then show ?thesis using wf_fire_timers [of timer_code, OF assms(2,4)] by simp
  qed
qed

text \<open>C28: the state of a strategy process is well formed at all times: its strategies are in order
  and distinct; each account stands for one TD location, and the identifiers the orders are
  addressed with are those of these locations; each market data source has the identifier of its
  location; and what waits for a writer waits for the ledger or for a source that was added.  This
  holds for every process that handles events with callbacks that do whatever the context offers and
  throw whenever they like.\<close>

theorem runner_always_well_formed:
  assumes "\<And>s c r. context_calls r (snd (call s c r))" "\<And>i r. context_calls r (snd (timer_code i r))"
    and "runner_reaches call timer_code r"
  shows "runner_wf r"
  using assms(3)
proof (induction rule: runner_reaches.induct)
  case (created m g n now)
  show ?case by (simp add: runner_wf_def market_ok_def new_runner_def new_apprentice_def new_hero_def apprentice.defs hero.defs)
next
  case (strategy_added r path)
  then show ?case by (simp add: wf_add_strategy del: wf_own)
next
  case (event_handled r hs e)
  have stop: "runner_wf (signal_stop r)" if "runner_wf r" for r
    by (rule wf_own [OF _ that]) (simp add: own_simps)
  have calls: "runner_wf (snd (call s c r))" "runner_wf (snd (timer_code i r))" if "runner_wf r" for s c r i
    using wf_context_calls that assms(1,2) by blast+
  have "runner_wf (snd (s e r))" if "s \<in> set hs" "runner_wf r" for s r
    using wf_subscription [of call timer_code, OF calls subsetD [OF event_handled(2) that(1)] that(2)] by blast
  then show ?case using publish_event_keeps [where P = runner_wf, OF event_handled(3) _ stop] by blast
qed

definition start_event :: message where
  "start_event = \<lparr>m_gen_time = 1, m_trigger_time = 0, m_msg_type = T_RequestStart, m_source = 0, m_dest = 0, m_data = NoData\<rparr>"

theorem runner_always_well_formed_witness:
  "runner_wf (snd (publish_event start_event (runner_subscriptions (\<lambda>s c. ctx_subscribe ''depth'' ''mock'' [''btc_usdt''] Spot ''mock'')
     (\<lambda>i. ctx_add_timer 5)) (add_strategy ''demo.py'' (new_runner LIVE ''demo'' ''demo'' 0))))"
  by (rule runner_always_well_formed [of "\<lambda>s c. ctx_subscribe ''depth'' ''mock'' [''btc_usdt''] Spot ''mock''" "\<lambda>i. ctx_add_timer 5"])
    (intro context_calls.subscribe context_calls.timer context_calls.nothing runner_reaches.intros subset_refl)+

section \<open>Whose callback\<close>

lemma each_strategy_cong:
  assumes "\<And>s c r. current_strategy_idx r = s \<Longrightarrow> call s c r = call' s c r"
  shows "each_strategy call what ss r = each_strategy call' what ss r"
proof (induction ss arbitrary: r)
  case (Cons s ss)
  have "call s c (r\<lparr>current_strategy_idx := s\<rparr>) = call' s c (r\<lparr>current_strategy_idx := s\<rparr>)" for c by (rule assms) simp
  moreover have "each_strategy call what ss = each_strategy call' what ss" using Cons.IH by (intro ext)
  ultimately show ?case by (simp add: Let_def cong: option.case_cong)
qed simp

lemma one_strategy_cong:
  assumes "\<And>s c r. current_strategy_idx r = s \<Longrightarrow> call s c r = call' s c r"
  shows "one_strategy call s c r = one_strategy call' s c r"
  using assms [of "r\<lparr>current_strategy_idx := s\<rparr>" s c] by (simp add: one_strategy_def)

definition owner_of :: "runner \<Rightarrow> i32 \<Rightarrow> u32" where
  "owner_of r i = (case map_of (timer_owners r) i of None \<Rightarrow> 0 | Some s \<Rightarrow> s)"

lemma run_fired_cong:
  assumes "\<And>i r. current_strategy_idx r = owner_of r i \<Longrightarrow> timer_code i r = timer_code' i r"
  shows "run_fired timer_code ss r = run_fired timer_code' ss r"
proof (induction ss arbitrary: r)
  case (Cons s ss)
  have "run_timer_callback (owner_of r i) (timer_code i) r = run_timer_callback (owner_of r i) (timer_code' i) r" for i
    using assms [of "r\<lparr>current_strategy_idx := owner_of r i\<rparr>" i] by (simp add: run_timer_callback_def owner_of_def)
  then show ?case using Cons.IH by (simp add: Let_def owner_of_def split: subscription.splits)
qed simp

text \<open>C27: every callback runs as the strategy it belongs to: changing what the code of a strategy,
  or of a timer of it, does in states where another strategy is the current one changes nothing in
  how events are handled, how the process starts and how it exits; so every order, subscription and
  timer is attributed to the strategy whose callback asked for it.\<close>

theorem callbacks_run_as_their_strategy:
  assumes "\<And>s c r. current_strategy_idx r = s \<Longrightarrow> call s c r = call' s c r"
    and "\<And>i r. current_strategy_idx r = owner_of r i \<Longrightarrow> timer_code i r = timer_code' i r"
  shows "runner_subscriptions call timer_code = runner_subscriptions call' timer_code' \<and>
    runner_react call timer_code e r = runner_react call' timer_code' e r \<and> runner_on_exit call r = runner_on_exit call' r"
proof -
  have e: "each_strategy call = each_strategy call'" using each_strategy_cong [OF assms(1)] by (intro ext)
  have one: "one_strategy call = one_strategy call'" using one_strategy_cong [OF assms(1)] by (intro ext)
  have fired: "run_fired timer_code = run_fired timer_code'" using run_fired_cong [OF assms(2)] by (intro ext)
  have del: "deliver call = deliver call'" unfolding deliver_def e one by (rule refl)
  have "runner_on_start call = runner_on_start call'" unfolding runner_on_start_def post_start_all_def e by (rule refl)
  then have ms: "runner_methods call = runner_methods call'" by (simp add: runner_methods_def)
  have "runner_react call timer_code e r = runner_react call' timer_code' e r" unfolding runner_react_def fire_timers_def deliver_started_def fired del ms by (rule refl)
  moreover have "runner_on_exit call r = runner_on_exit call' r" unfolding runner_on_exit_def e by (rule refl)
  moreover have "runner_subscriptions call timer_code = runner_subscriptions call' timer_code'"
    unfolding runner_subscriptions_def deliver_started_def [abs_def] fire_timers_def [abs_def] fired del ms by (rule refl)
  ultimately show ?thesis by simp
qed

theorem callbacks_run_as_their_strategy_witness:
  "runner_react (\<lambda>s c r. if current_strategy_idx r = s then note_call s c r else (Inl BadPayload, r)) (\<lambda>i r. (Inr (), r)) start_event demo_runner =
    runner_react note_call (\<lambda>i r. (Inr (), r)) start_event demo_runner"
  using callbacks_run_as_their_strategy [of "\<lambda>s c r. if current_strategy_idx r = s then note_call s c r else (Inl BadPayload, r)" note_call
    "\<lambda>i r. (Inr (), r)" "\<lambda>i r. (Inr (), r)" start_event demo_runner] by simp

section \<open>Unsubscribing\<close>

lemma subscribed_own: "own r = own r' \<Longrightarrow> subscribed_symbols r = subscribed_symbols r'"
  by (simp add: own_def)

lemma add_marketdata_subscribed: "subscribed_symbols (snd (add_marketdata src r)) = subscribed_symbols r"
  using subscribed_own [OF own_request(1)] subscribed_own [OF own_request(2)]
  by (simp add: add_marketdata_def Let_def bindX_snd split: option.splits sum.splits)

lemma note_symbols_keep: "set (subscribed_symbols r) \<subseteq> set (subscribed_symbols (note_symbols k ss it x r))"
  unfolding note_symbols_def
proof (induction ss arbitrary: r)
  case (Cons s ss)
  then show ?case using Cons.IH [of "note_symbol (get_sub_symbol_id s k it x (current_strategy_idx r)) r"] by (auto simp: note_symbol_def)
qed simp

lemma note_symbols_members:
  "s \<in> set ss \<Longrightarrow> get_sub_symbol_id s k it x (current_strategy_idx r) \<in> set (subscribed_symbols (note_symbols k ss it x r))"
proof (induction ss arbitrary: r)
  case (Cons s' ss)
  let ?r1 = "note_symbol (get_sub_symbol_id s' k it x (current_strategy_idx r)) r"
  have step: "note_symbols k (s' # ss) it x r = note_symbols k ss it x ?r1" "current_strategy_idx ?r1 = current_strategy_idx r"
    by (simp_all add: note_symbols_def note_symbol_def)
  show ?case
    using Cons.IH [of ?r1] Cons.prems note_symbols_keep [of ?r1 k ss it x] step by (auto simp: note_symbol_def)
qed simp

text \<open>unsubscribing leaves the strategy subscribed: after \<open>unsubscribe\<close>, with whatever outcome,
  the strategy is subscribed to the depth of the symbols, also when it was not before, so it goes on
  receiving what the source publishes for others.\<close>

lemma unsubscribing_subscribes:
  assumes "symbol \<in> set symbols" "NUL \<notin> set symbol" "NUL \<notin> set exchange"
  shows "is_subscribed ''depth'' (current_strategy_idx r) symbol it exchange (snd (unsubscribe_depth src symbols it exchange r))"
proof -
  have "subscribed_symbols (snd (unsubscribe_depth src symbols it exchange r)) = subscribed_symbols (note_symbols ''depth'' symbols it exchange r)"
    using subscribed_own [OF own_requests(2)] add_marketdata_subscribed
    by (simp add: unsubscribe_depth_def ctx_unsubscribe_def bindX_snd split: sum.splits)
  then show ?thesis using assms note_symbols_members [of symbol symbols "''depth''" it exchange r] by (simp add: is_subscribed_def)
qed

theorem unsubscribing_subscribes_witness:
  "is_subscribed ''depth'' 5 ''eth_usdt'' Spot [] (snd (unsubscribe_depth ''mock'' [''eth_usdt''] Spot [] demo_runner))"
  using unsubscribing_subscribes [of "''eth_usdt''" "[''eth_usdt'']" "[]" demo_runner Spot "''mock''"] by (simp add: NUL_def)

end
