(* ===== verification/Ledger.thy ===== *)
theory Ledger
  imports Apprentice
begin

text \<open>
  The ledger service (service/ledger.h and ledger.cpp): it watches every gateway and strategy of the
  system, keeps and publishes the states of the gateways, reads the orders that pass between traders
  and strategies, and hands what it reads to its subclass, which is Python code and a parameter here.
  The subscriptions that no code reaches (monitor_market_data, monitor_instruments,
  request_subscribe) are not modelled.
\<close>

section \<open>State\<close>

record ledger = apprentice +
  broker_states :: "(u32 \<times> BrokerState) list"
  lg_published :: "json list"
  lg_responses :: "string list"

type_synonym lstep = "ledger \<Rightarrow> (herror + unit) \<times> ledger"

text \<open>The virtual functions of the subclass, and the clock \<open>publish_broker_state\<close> reads: its n-th
  reading.\<close>

record ledger_hooks =
  lh_clock :: "nat \<Rightarrow> i64"
  lh_pre_start :: lstep
  lh_on_app_location :: "i64 \<Rightarrow> location \<Rightarrow> lstep"
  lh_on_depth :: "message \<Rightarrow> depth \<Rightarrow> lstep"
  lh_on_trade :: "message \<Rightarrow> trade \<Rightarrow> lstep"
  lh_on_order :: "message \<Rightarrow> order \<Rightarrow> lstep"
  lh_on_transaction :: "message \<Rightarrow> my_trade \<Rightarrow> lstep"
  lh_handle_asset_request :: "message \<Rightarrow> location \<Rightarrow> lstep"
  lh_handle_instrument_request :: "message \<Rightarrow> lstep"
  lh_handle_request :: "message \<Rightarrow> ledger \<Rightarrow> (herror + string) \<times> ledger"

definition new_ledger :: "mode \<Rightarrow> i64 \<Rightarrow> ledger" where
  "new_ledger m now = apprentice.extend (new_apprentice (make_location m SYSTEM ''service'' ''ledger'') now)
     \<lparr>broker_states = [], lg_published = [], lg_responses = []\<rparr>"

section \<open>Publishing\<close>

definition publish :: "json \<Rightarrow> ledger \<Rightarrow> ledger" where
  "publish j r = (if l_mode (h_home r) = LIVE then r\<lparr>lg_published := lg_published r @ [j]\<rparr> else r)"

definition get_broker_state :: "u32 \<Rightarrow> ledger \<Rightarrow> BrokerState" where
  "get_broker_state u r = (case map_of (broker_states r) u of None \<Rightarrow> B_Unknown | Some b \<Rightarrow> b)"

definition broker_state_json :: "i64 \<Rightarrow> i64 \<Rightarrow> u32 \<Rightarrow> location \<Rightarrow> BrokerState \<Rightarrow> json" where
  "broker_state_json now t home_uid l b =
    json_of [(''gen_time'', JInt now), (''trigger_time'', JInt t), (''msg_type'', JInt T_BrokerState),
      (''source'', JU64 home_uid),
      (''data'', json_of [(''category'', JInt (position_in [MD, TD, STRATEGY, SYSTEM] (l_category l))),
         (''group'', JString (l_group l)), (''name'', JString (l_name l)), (''state'', JInt (broker_state_code b))])]"

definition publish_broker_state :: "ledger_hooks \<Rightarrow> i64 \<Rightarrow> location \<Rightarrow> BrokerState \<Rightarrow> ledger \<Rightarrow> ledger" where
  "publish_broker_state lh t l b r =
    publish (broker_state_json (lh_clock lh (length (lg_published r))) t (get_home_uid r) l b) r"

definition update_broker_state :: "ledger_hooks \<Rightarrow> i64 \<Rightarrow> location \<Rightarrow> BrokerState \<Rightarrow> ledger \<Rightarrow> ledger" where
  "update_broker_state lh t l b r =
    publish_broker_state lh t l b (r\<lparr>broker_states := AList.update (uid l) b (broker_states r)\<rparr>)"

text \<open>The states of all gateways that are still there.\<close>

definition publish_broker_states :: "ledger_hooks \<Rightarrow> i64 \<Rightarrow> ledger \<Rightarrow> ledger" where
  "publish_broker_states lh t r =
    fold (\<lambda>(u, b) r. case map_of (h_locations r) u of None \<Rightarrow> r | Some l \<Rightarrow> publish_broker_state lh t l b r)
      (broker_states r) r"

section \<open>Watching the applications\<close>

text \<open>The commands the master writes to an application are in the journal of this location.\<close>

definition watch :: "i64 \<Rightarrow> location \<Rightarrow> ledger \<Rightarrow> ledger" where
  "watch t l r = hero_join l 0 t (hero_join (app_master_location (uid l)) (uid l) t
     (register_location (app_master_location (uid l)) r))"

definition ledger_register_location :: "ledger_hooks \<Rightarrow> i64 \<Rightarrow> location \<Rightarrow> lstep" where
  "ledger_register_location lh t l r =
    (if has_location r (uid l) then (Inr (), r)
     else let r1 = register_location l r in
       bindX (case l_category l of
                MD \<Rightarrow> bindX (request_write_to t (uid l) (watch t l r1)) (\<lambda>_ r2. (Inr (), update_broker_state lh t l B_Connected r2))
              | TD \<Rightarrow> bindX (request_write_to t (uid l) (watch t l r1)) (\<lambda>_ r2. (Inr (), update_broker_state lh t l B_Connected r2))
              | STRATEGY \<Rightarrow> bindX (request_write_to t (uid l) r1) (\<lambda>_ r2. (Inr (), watch t l r2))
              | SYSTEM \<Rightarrow> (Inr (), r1))
         (\<lambda>_. lh_on_app_location lh t l))"

definition ledger_deregister_location :: "ledger_hooks \<Rightarrow> i64 \<Rightarrow> u32 \<Rightarrow> lstep" where
  "ledger_deregister_location lh t u r =
    (case map_of (h_locations r) u of
       None \<Rightarrow> (Inr (), r)
     | Some l \<Rightarrow>
        let r1 = (if l_category l = MD \<or> l_category l = TD
                  then (update_broker_state lh t l B_DisConnected r)
                         \<lparr>broker_states := AList.delete u (broker_states (update_broker_state lh t l B_DisConnected r))\<rparr>
                  else r)
        in (Inr (), deregister_location u r1))"

definition ledger_on_write_to :: "message \<Rightarrow> lstep" where
  "ledger_on_write_to e r = (if m_source e = get_master_commands_uid r then on_write_to e r else (Inr (), r))"

text \<open>Reading a number in base 16 from a stream, for names that start with neither a sign nor
  \<open>0x\<close>: the digits up to the first other character, 0 when there are none, the largest number when
  they are too many.\<close>

definition hex_value :: "char \<Rightarrow> nat option" where
  "hex_value c =
    (let n = of_char c :: nat in
     if 48 \<le> n \<and> n \<le> 57 then Some (n - 48)
     else if 97 \<le> n \<and> n \<le> 102 then Some (n - 87)
     else if 65 \<le> n \<and> n \<le> 70 then Some (n - 55)
     else None)"

fun hex_number :: "nat \<Rightarrow> string \<Rightarrow> nat" where
  "hex_number n [] = n"
| "hex_number n (c # cs) = (case hex_value c of None \<Rightarrow> n | Some d \<Rightarrow> hex_number (16 * n + d) cs)"

definition read_hex :: "string \<Rightarrow> u32" where
  "read_hex s = (let n = hex_number 0 s in if n < 2 ^ 32 then word_of_nat n else - 1)"

text \<open>A request to read seen in the commands of some application: the application is named by the
  journal the request was read from.\<close>

definition ledger_on_read_from :: "message \<Rightarrow> lstep" where
  "ledger_on_read_from e r =
    (case m_data e of
       ReadFromData s from_time \<Rightarrow>
         bindX (get_location s r) (\<lambda>source_location r.
         bindX (get_location (m_source e) r) (\<lambda>master_cmd_location r.
           let dest_id = read_hex (l_name master_cmd_location) in
           bindX (get_location dest_id r) (\<lambda>dest_location r.
             if uid source_location = get_master_commands_uid r \<or> m_dest e = get_live_home_uid r
             then on_read_from e r
             else if m_msg_type e = T_RequestReadFrom \<and> l_category source_location = TD \<and> l_category dest_location = STRATEGY
             then (Inr (), hero_join source_location dest_id (m_gen_time e) r)
             else (Inr (), r))))
     | _ \<Rightarrow> (Inl BadPayload, r))"

section \<open>Events\<close>

text \<open>The handlers that catch what they throw.\<close>

definition caught :: "(herror + 'b) \<times> 's \<Rightarrow> (herror + unit) \<times> 's" where
  "caught r = (Inr (), snd r)"

definition ledger_dispatch :: "ledger_hooks \<Rightarrow> bool \<Rightarrow> message \<Rightarrow> lstep" where
  "ledger_dispatch lh from_socket e r =
    (let k = m_msg_type e in
     bindX (if k = T_BrokerState then
              bindX (get_location (m_source e) r) (\<lambda>l r1. case m_data e of
                  BrokerStateData b \<Rightarrow> (Inr (), update_broker_state lh (m_gen_time e) l b r1)
                | _ \<Rightarrow> (Inl BadPayload, r1))
            else if k = T_Depth then caught (case m_data e of DepthData d \<Rightarrow> lh_on_depth lh e d r | _ \<Rightarrow> (Inl BadPayload, r))
            else if k = T_Trade then caught (case m_data e of TradeData d \<Rightarrow> lh_on_trade lh e d r | _ \<Rightarrow> (Inl BadPayload, r))
            else if k = T_Order then caught (case m_data e of OrderData d \<Rightarrow> lh_on_order lh e d r | _ \<Rightarrow> (Inl BadPayload, r))
            else if k = T_MyTrade then caught (case m_data e of MyTradeData d \<Rightarrow> lh_on_transaction lh e d r | _ \<Rightarrow> (Inl BadPayload, r))
            else if k = T_QryAsset then
              caught (case m_data e of
                        JsonData j \<Rightarrow> (case location_of_json j of Inl err \<Rightarrow> (Inl (JsonError err), r)
                                       | Inr l \<Rightarrow> lh_handle_asset_request lh e l r)
                      | _ \<Rightarrow> (Inl BadPayload, r))
            else if k = T_InstrumentRequest then caught (lh_handle_instrument_request lh e r)
            else (Inr (), r))
       (\<lambda>_ r1. if from_socket \<and> m_source e = 0
               then caught (bindX (lh_handle_request lh e r1) (\<lambda>s r2. (Inr (), r2\<lparr>lg_responses := lg_responses r2 @ [s]\<rparr>)))
               else (Inr (), r1)))"

definition ledger_methods :: "ledger_hooks \<Rightarrow> ledger app_methods" where
  "ledger_methods lh = \<lparr>m_on_start = lh_pre_start lh, m_register_location = ledger_register_location lh,
     m_deregister_location = ledger_deregister_location lh, m_on_write_to = ledger_on_write_to,
     m_on_read_from = ledger_on_read_from\<rparr>"

definition ledger_react :: "ledger_hooks \<Rightarrow> bool \<Rightarrow> message \<Rightarrow> lstep" where
  "ledger_react lh from_socket e r =
    bindX (apprentice_react (ledger_methods lh) e r) (\<lambda>_ r1.
      if a_started r then ledger_dispatch lh from_socket e r1 else (Inr (), r1))"

definition ledger_cancel_order :: "(journal_key \<Rightarrow> nat \<Rightarrow> u64) \<Rightarrow> message \<Rightarrow> u32 \<Rightarrow> u64 \<Rightarrow> ledger \<Rightarrow> ledger" where
  "ledger_cancel_order fuid e account oid r =
    (case map_of (h_writers r) account of
       None \<Rightarrow> r
     | Some w \<Rightarrow> write_msg w (m_gen_time e) T_OrderAction (OrderActionData
         (zero_order_action\<lparr>oa_order_action_id := fuid w (length (filter (\<lambda>x. fst x = w) (h_out r))),
            oa_order_id := oid, oa_action_flag := OA_Cancel\<rparr>)) r)"

end
