(* ===== verification/LedgerProps.thy ===== *)
theory LedgerProps
  imports Ledger MasterProps
begin

text \<open>
  What the ledger keeps and publishes of the gateways, and which journals it reads of the orders
  between traders and strategies.
\<close>

section \<open>Names of applications\<close>

lemma hex_value_digit: "d < 16 \<Longrightarrow> hex_value (hex_digit d) = Some d"
proof -
  assume "d < 16"
  then have "d \<in> {0, 1, 2, 3, 4, 5, 6, 7, 8, 9, 10, 11, 12, 13, 14, 15}" by simp presburger
  then show ?thesis by (auto simp: hex_value_def hex_digit_def)
qed

lemma hex_number_digits:
  "hex_number m (map (\<lambda>i. hex_digit (n div 16 ^ i mod 16)) (rev [0..<k])) = m * 16 ^ k + n mod 16 ^ k"
proof (induction k arbitrary: m)
  case (Suc k)
  have "n mod 16 ^ Suc k = 16 ^ k * (n div 16 ^ k mod 16) + n mod 16 ^ k"
    by (simp only: power_Suc2 mod_mult2_eq)
  then show ?case using Suc.IH [of "16 * m + n div 16 ^ k mod 16"] by (simp add: hex_value_digit algebra_simps)
qed simp

lemma hex8_rev: "hex8 u = map (\<lambda>i. hex_digit (unat u div 16 ^ i mod 16)) (rev [0..<8])"
  by (simp add: hex8_def upt_rec)

lemma read_hex_hex8: "read_hex (hex8 u) = u"
proof -
  have "unat u < 4294967296" using unsigned_less [of u, where 'a = nat] by simp
  then show ?thesis using hex_number_digits [of 0 "unat u" 8] by (simp add: read_hex_def hex8_rev Let_def)
qed

section \<open>Frames\<close>

lemma ledger_publish_frame [simp]:
  "h_home (publish j r) = h_home r" "h_locations (publish j r) = h_locations r" "h_out (publish j r) = h_out r"
  "h_joined (publish j r) = h_joined r" "h_writers (publish j r) = h_writers r" "broker_states (publish j r) = broker_states r"
  by (simp_all add: publish_def)

lemma update_broker_state_frame [simp]:
  "h_home (update_broker_state lh t l b r) = h_home r" "h_locations (update_broker_state lh t l b r) = h_locations r"
  "h_out (update_broker_state lh t l b r) = h_out r" "h_joined (update_broker_state lh t l b r) = h_joined r"
  by (simp_all add: update_broker_state_def publish_broker_state_def)

lemma update_broker_state_result:
  "get_broker_state u (update_broker_state lh t l b r) = (if u = uid l then b else get_broker_state u r)"
  "l_mode (h_home r) = LIVE \<Longrightarrow> lg_published (update_broker_state lh t l b r) =
     lg_published r @ [broker_state_json (lh_clock lh (length (lg_published r))) t (get_home_uid r) l b]"
  by (simp_all add: update_broker_state_def publish_broker_state_def get_broker_state_def publish_def get_home_uid_def update_conv')

lemma watch_frame [simp]:
  "h_home (watch t l r) = h_home r" "h_out (watch t l r) = h_out r" "h_writers (watch t l r) = h_writers r"
  "has_location (watch t l r) u \<longleftrightarrow> u = uid (app_master_location (uid l)) \<or> has_location r u"
  by (simp_all add: watch_def)

lemma h_joined_hero_join:
  "h_joined (hero_join l d t h) = (if \<exists>j \<in> set (h_joined h). uid (fst (fst j)) = uid l \<and> snd (fst j) = d then h_joined h
     else h_joined h @ [((l, d), t)])"
  by (simp add: hero_join_def)

lemma hero_join_joined: "h_joined h = h_joined h' \<Longrightarrow> h_joined (hero_join l d t h) = h_joined (hero_join l d t h')"
  by (simp only: h_joined_hero_join)

lemma watch_joined: "h_joined r = h_joined r' \<Longrightarrow> h_joined (watch t l r) = h_joined (watch t l r')"
  unfolding watch_def by (intro hero_join_joined) simp

lemma has_location_update [simp]: "has_location (update_broker_state lh t l b r) u = has_location r u"
  by (simp add: has_location_def)

lemma more_frames [simp]:
  "broker_states (watch t l r) = broker_states r" "lg_published (watch t l r) = lg_published r"
  "broker_states (register_location l r) = broker_states r" "lg_published (register_location l r) = lg_published r"
  "broker_states (write_msg w t' k p r) = broker_states r" "lg_published (write_msg w t' k p r) = lg_published r"
  "broker_states (deregister_location u r) = broker_states r" "lg_published (deregister_location u r) = lg_published r"
  by (simp_all add: watch_def hero_join_def register_location_def write_msg_def deregister_location_def)

lemma requested:
  assumes "l_mode (h_home r) = LIVE" "has_location r (get_master_commands_uid r)" "map_of (h_writers r) (get_master_commands_uid r) = Some w"
    and "has_location r d"
  shows "request_write_to t d r = (Inr (), write_msg w t T_RequestWriteTo (WriteToData d) r)"
  using assms require_write_to_known [of r "get_master_commands_uid r" _ w d t] by (auto simp: request_write_to_def has_location_def)

text \<open>C29: the life of a gateway in the ledger.  Its first registration makes it Connected,
  publishes that, asks it to be written to, and has its public journal and the commands the master
  gives it read; registering it again does nothing.  A state it reports is kept and published.  Its
  deregistration publishes DisConnected, forgets the state and the location, and doing it again does
  nothing.\<close>

theorem gateway_life_cycle:
  assumes "l_mode (h_home r) = LIVE" "has_location r (get_master_commands_uid r)" "map_of (h_writers r) (get_master_commands_uid r) = Some w"
    and "l_category l = MD \<or> l_category l = TD" "\<not> has_location r (uid l)"
  shows "(\<exists>r1. ledger_register_location lh t l r = lh_on_app_location lh t l r1 \<and>
      get_broker_state (uid l) r1 = B_Connected \<and> has_location r1 (uid l) \<and>
      lg_published r1 = lg_published r @ [broker_state_json (lh_clock lh (length (lg_published r))) t (get_home_uid r) l B_Connected] \<and>
      h_out r1 = h_out r @ [(w, t, T_RequestWriteTo, WriteToData (uid l))] \<and> h_joined r1 = h_joined (watch t l r)) \<and>
    (\<forall>r1. has_location r1 (uid l) \<longrightarrow> ledger_register_location lh t l r1 = (Inr (), r1)) \<and>
    (\<forall>r1 e b. map_of (h_locations r1) (uid l) = Some l \<and> h_home r1 = h_home r \<and>
        m_msg_type e = T_BrokerState \<and> m_source e = uid l \<and> m_data e = BrokerStateData b \<longrightarrow>
      (\<exists>r2. ledger_dispatch lh False e r1 = (Inr (), r2) \<and> get_broker_state (uid l) r2 = b \<and>
        lg_published r2 = lg_published r1 @
          [broker_state_json (lh_clock lh (length (lg_published r1))) (m_gen_time e) (get_home_uid r) l b])) \<and>
    (\<forall>r1. map_of (h_locations r1) (uid l) = Some l \<and> h_home r1 = h_home r \<longrightarrow>
      (\<exists>r2. ledger_deregister_location lh t (uid l) r1 = (Inr (), r2) \<and>
        lg_published r2 = lg_published r1 @ [broker_state_json (lh_clock lh (length (lg_published r1))) t (get_home_uid r) l B_DisConnected] \<and>
        get_broker_state (uid l) r2 = B_Unknown \<and> \<not> has_location r2 (uid l) \<and>
        ledger_deregister_location lh t (uid l) r2 = (Inr (), r2)))"
proof -
  let ?r0 = "watch t l (register_location l r)"
  let ?r1 = "update_broker_state lh t l B_Connected (write_msg w t T_RequestWriteTo (WriteToData (uid l)) ?r0)"
  have cmd: "get_master_commands_uid ?r0 = get_master_commands_uid r" by (simp add: get_master_commands_uid_def)
  have "request_write_to t (uid l) ?r0 = (Inr (), write_msg w t T_RequestWriteTo (WriteToData (uid l)) ?r0)"
    by (rule requested) (use assms cmd in simp_all)
  then have reg: "ledger_register_location lh t l r = lh_on_app_location lh t l ?r1"
    using assms(4,5) by (auto simp: ledger_register_location_def Let_def)
  have eff: "get_broker_state (uid l) ?r1 = B_Connected" "has_location ?r1 (uid l)" "h_joined ?r1 = h_joined (watch t l r)"
    "h_out ?r1 = h_out r @ [(w, t, T_RequestWriteTo, WriteToData (uid l))]"
    using watch_joined [of "register_location l r" r] by (simp_all add: update_broker_state_result)
  have pub: "lg_published ?r1 = lg_published r @ [broker_state_json (lh_clock lh (length (lg_published r))) t (get_home_uid r) l B_Connected]"
    using assms(1) by (simp add: update_broker_state_result get_home_uid_def)
  have reported: "\<exists>r2. ledger_dispatch lh False e r1 = (Inr (), r2) \<and> get_broker_state (uid l) r2 = b \<and>
      lg_published r2 = lg_published r1 @
        [broker_state_json (lh_clock lh (length (lg_published r1))) (m_gen_time e) (get_home_uid r) l b]"
    if "map_of (h_locations r1) (uid l) = Some l" "h_home r1 = h_home r" "m_msg_type e = T_BrokerState" "m_source e = uid l"
      "m_data e = BrokerStateData b" for r1 e b
    using that assms(1) by (simp add: ledger_dispatch_def Let_def get_location_eq update_broker_state_result get_home_uid_def)
  have gone: "\<exists>r2. ledger_deregister_location lh t (uid l) r1 = (Inr (), r2) \<and>
        lg_published r2 = lg_published r1 @ [broker_state_json (lh_clock lh (length (lg_published r1))) t (get_home_uid r) l B_DisConnected] \<and>
        get_broker_state (uid l) r2 = B_Unknown \<and> \<not> has_location r2 (uid l) \<and>
        ledger_deregister_location lh t (uid l) r2 = (Inr (), r2)"
    if "map_of (h_locations r1) (uid l) = Some l" "h_home r1 = h_home r" for r1
    using that assms(1,4) by (simp add: ledger_deregister_location_def Let_def update_broker_state_result get_home_uid_def)
      (simp add: deregister_location_def has_location_def get_broker_state_def delete_conv')
  have again: "ledger_register_location lh t l r1 = (Inr (), r1)" if "has_location r1 (uid l)" for r1
    using that by (simp add: ledger_register_location_def)
  show ?thesis
    by (intro conjI, (use reg eff pub in blast), (use again in blast), (use reported in blast), (use gone in blast))
qed

definition demo_ledger :: ledger where
  "demo_ledger = (new_ledger LIVE 0)\<lparr>h_writers := [(2334267952, (make_location LIVE SYSTEM ''service'' ''ledger'', 2334267952))]\<rparr>"

lemma uid_ledger: "uid (make_location LIVE SYSTEM ''service'' ''ledger'') = 2684597489"
  by (simp add: uid_def uname_def make_location_def hash_eval)

lemma uid_ledger_commands: "uid (app_master_location 2684597489) = 2334267952"
proof -
  have "hex8 2684597489 = ''a003b4f1''" by (simp add: hex8_def hex_digit_def upt_rec)
  then show ?thesis by (simp add: uid_def uname_def make_location_def app_master_location_def hash_eval)
qed

lemma uid_mock_md: "uid (make_location LIVE MD ''mock'' ''mock'') = 2199944884"
  by (simp add: uid_def uname_def make_location_def hash_eval)

lemma uid_mock_td: "uid (make_location LIVE TD ''mock'' ''acc'') = 2183171193"
  by (simp add: uid_def uname_def make_location_def hash_eval)

lemma demo_ledger_fields:
  "l_mode (h_home demo_ledger) = LIVE" "get_master_commands_uid demo_ledger = 2334267952"
  "map (fst) (h_locations demo_ledger) = [2334267952]" "lg_published demo_ledger = []"
  "map_of (h_writers demo_ledger) 2334267952 = Some (make_location LIVE SYSTEM ''service'' ''ledger'', 2334267952)"
  "get_home_uid demo_ledger = 2684597489"
proof -
  have "live_home (make_location LIVE SYSTEM ''service'' ''ledger'') = make_location LIVE SYSTEM ''service'' ''ledger''"
    by (simp add: live_home_def make_location_def)
  then have c: "master_commands_location (make_location LIVE SYSTEM ''service'' ''ledger'') = app_master_location 2684597489"
    by (simp add: master_commands_location_def app_master_location_def uid_ledger)
  show "l_mode (h_home demo_ledger) = LIVE" "get_master_commands_uid demo_ledger = 2334267952"
    "map (fst) (h_locations demo_ledger) = [2334267952]" "lg_published demo_ledger = []"
    "map_of (h_writers demo_ledger) 2334267952 = Some (make_location LIVE SYSTEM ''service'' ''ledger'', 2334267952)"
    "get_home_uid demo_ledger = 2684597489"
    by (simp_all add: demo_ledger_def new_ledger_def new_apprentice_def new_hero_def hero.defs apprentice.defs
        get_master_commands_uid_def get_home_uid_def c uid_ledger uid_ledger_commands)
      (simp add: make_location_def)
qed

definition idle_hooks :: ledger_hooks where
  "idle_hooks = \<lparr>lh_clock = (\<lambda>n. int n), lh_pre_start = (\<lambda>r. (Inr (), r)), lh_on_app_location = (\<lambda>t l r. (Inr (), r)),
     lh_on_depth = (\<lambda>e d r. (Inr (), r)), lh_on_trade = (\<lambda>e d r. (Inr (), r)), lh_on_order = (\<lambda>e d r. (Inr (), r)),
     lh_on_transaction = (\<lambda>e d r. (Inr (), r)), lh_handle_asset_request = (\<lambda>e l r. (Inr (), r)),
     lh_handle_instrument_request = (\<lambda>e r. (Inr (), r)), lh_handle_request = (\<lambda>e r. (Inr [], r))\<rparr>"

theorem gateway_life_cycle_witness:
  "\<exists>r1. ledger_register_location idle_hooks 4 (make_location LIVE MD ''mock'' ''mock'') demo_ledger =
      lh_on_app_location idle_hooks 4 (make_location LIVE MD ''mock'' ''mock'') r1 \<and>
    get_broker_state 2199944884 r1 = B_Connected \<and>
    lg_published r1 = [broker_state_json (lh_clock idle_hooks 0) 4 2684597489 (make_location LIVE MD ''mock'' ''mock'') B_Connected]"
proof -
  let ?l = "make_location LIVE MD ''mock'' ''mock''"
  have keys: "fst ` set (h_locations demo_ledger) = {2334267952}"
    using demo_ledger_fields(3) by (metis list.set(1) list.simps(15) set_map)
  have pre: "l_mode (h_home demo_ledger) = LIVE" "has_location demo_ledger (get_master_commands_uid demo_ledger)"
    "map_of (h_writers demo_ledger) (get_master_commands_uid demo_ledger) = Some (make_location LIVE SYSTEM ''service'' ''ledger'', 2334267952)"
    "l_category ?l = MD \<or> l_category ?l = TD" "\<not> has_location demo_ledger (uid ?l)"
    by (simp_all add: demo_ledger_fields uid_mock_md has_location_def map_of_eq_None_iff keys) (simp add: make_location_def)
  from gateway_life_cycle [OF pre, of idle_hooks 4] show ?thesis by (auto simp: uid_mock_md demo_ledger_fields)
qed

section \<open>The orders between traders and strategies\<close>

lemma ledger_reads_from:
  assumes "map_of (h_locations r) (uid t) = Some t" "map_of (h_locations r) (uid s) = Some s"
    and "map_of (h_locations r) (m_source e) = Some (app_master_location (uid s))"
    and "m_data e = ReadFromData (uid t) from_time" "m_msg_type e = T_RequestReadFrom"
    and "l_category t = TD" "l_category s = STRATEGY" "uid t \<noteq> get_master_commands_uid r" "m_dest e \<noteq> get_live_home_uid r"
  shows "ledger_on_read_from e r = (Inr (), hero_join t (uid s) (m_gen_time e) r)"
proof -
  have "read_hex (l_name (app_master_location (uid s))) = uid s" by (simp add: app_master_location_def make_location_def read_hex_hex8)
  then show ?thesis using assms by (simp add: ledger_on_read_from_def get_location_eq Let_def)
qed

text \<open>C30: the ledger follows the orders of every strategy.  When a trader and a strategy are
  registered with the ledger, it reads the journal of the commands the master gives the strategy;
  when the master then tells the strategy to read from the trader, the ledger joins the trader's
  journal to that strategy, which it finds by the name of the commands' journal, from the time of the
  request on.\<close>

theorem ledger_follows_orders:
  assumes "l_mode (h_home r) = LIVE" "has_location r (get_master_commands_uid r)" "map_of (h_writers r) (get_master_commands_uid r) = Some w"
    and "map_of (h_locations r) (uid t) = Some t" "l_category t = TD" "\<not> has_location r (uid s)" "l_category s = STRATEGY"
    and "distinct [uid t, uid s, uid (app_master_location (uid s)), get_master_commands_uid r]"
    and "m_source e = uid (app_master_location (uid s))" "m_dest e = uid s" "uid s \<noteq> get_live_home_uid r"
    and "m_data e = ReadFromData (uid t) from_time" "m_msg_type e = T_RequestReadFrom"
    and "\<And>r. lh_on_app_location lh n s r = (Inr (), r)"
  shows "\<exists>r1. ledger_register_location lh n s r = (Inr (), r1) \<and>
    (\<exists>j \<in> set (h_joined r1). uid (fst (fst j)) = uid (app_master_location (uid s)) \<and> snd (fst j) = uid s) \<and>
    m_on_read_from (ledger_methods lh) e r1 = (Inr (), hero_join t (uid s) (m_gen_time e) r1)"
proof -
  let ?r0 = "register_location s r"
  let ?r1 = "watch n s (write_msg w n T_RequestWriteTo (WriteToData (uid s)) ?r0)"
  have "request_write_to n (uid s) ?r0 = (Inr (), write_msg w n T_RequestWriteTo (WriteToData (uid s)) ?r0)"
    by (rule requested) (use assms(1-3) in \<open>simp_all add: get_master_commands_uid_def\<close>)
  then have reg: "ledger_register_location lh n s r = (Inr (), ?r1)"
    using assms(6,7,14) by (simp add: ledger_register_location_def Let_def)
  have joined: "\<exists>j \<in> set (h_joined ?r1). uid (fst (fst j)) = uid (app_master_location (uid s)) \<and> snd (fst j) = uid s"
    by (auto simp: watch_def h_joined_hero_join)
  have locs: "h_locations ?r1 = AList.update (uid (app_master_location (uid s))) (app_master_location (uid s))
      (AList.update (uid s) s (h_locations r))"
    by (simp add: watch_def) (simp add: register_location_def)
  have homes: "get_master_commands_uid ?r1 = get_master_commands_uid r" "get_live_home_uid ?r1 = get_live_home_uid r"
    by (simp_all add: get_master_commands_uid_def get_live_home_uid_def)
  have "ledger_on_read_from e ?r1 = (Inr (), hero_join t (uid s) (m_gen_time e) ?r1)"
    by (rule ledger_reads_from) (use assms homes in \<open>auto simp: locs update_conv'\<close>)
  then show ?thesis using reg joined by (auto simp: ledger_methods_def)
qed

definition demo_read_request :: message where
  "demo_read_request = \<lparr>m_gen_time = 9, m_trigger_time = 9, m_msg_type = T_RequestReadFrom, m_source = 4202583218,
     m_dest = 2458552209, m_data = ReadFromData 2183171193 9\<rparr>"

theorem ledger_follows_orders_witness:
  "\<exists>r1. m_on_read_from (ledger_methods idle_hooks) demo_read_request r1 =
    (Inr (), hero_join (make_location LIVE TD ''mock'' ''acc'') 2458552209 9 r1)"
proof -
  let ?t = "make_location LIVE TD ''mock'' ''acc''"
  define r where "r = demo_ledger\<lparr>h_locations := [(2334267952, config_location), (2183171193, ?t)]\<rparr>"
  have same: "h_home r = h_home demo_ledger" "h_writers r = h_writers demo_ledger"
    "h_locations r = [(2334267952, config_location), (2183171193, ?t)]" by (simp_all add: r_def)
  have uids: "get_master_commands_uid r = 2334267952" "get_live_home_uid r = 2684597489"
    using demo_ledger_fields(2)
    by (simp_all add: get_master_commands_uid_def get_live_home_uid_def same)
      (simp add: demo_ledger_def new_ledger_def new_apprentice_def new_hero_def hero.defs apprentice.defs live_home_def make_location_def
        uid_ledger [unfolded make_location_def])
  have pre: "l_mode (h_home r) = LIVE" "has_location r (get_master_commands_uid r)"
    "map_of (h_writers r) (get_master_commands_uid r) = Some (make_location LIVE SYSTEM ''service'' ''ledger'', 2334267952)"
    "map_of (h_locations r) (uid ?t) = Some ?t" "l_category ?t = TD" "\<not> has_location r (uid demo_app)" "l_category demo_app = STRATEGY"
    "distinct [uid ?t, uid demo_app, uid (app_master_location (uid demo_app)), get_master_commands_uid r]"
    "m_source demo_read_request = uid (app_master_location (uid demo_app))" "m_dest demo_read_request = uid demo_app"
    "uid demo_app \<noteq> get_live_home_uid r" "m_data demo_read_request = ReadFromData (uid ?t) 9"
    "m_msg_type demo_read_request = T_RequestReadFrom"
    using demo_ledger_fields(1,5)
    by (simp_all add: same uids uid_mock_td uid_demo_app uid_demo_command has_location_def demo_read_request_def)
      (simp_all add: demo_app_def make_location_def)
  show ?thesis
    using ledger_follows_orders [OF pre, of idle_hooks 3] by (auto simp: idle_hooks_def uid_demo_app demo_read_request_def)
qed

end
