(* ===== verification/Commander.thy ===== *)
theory Commander
  imports Ledger
begin

text \<open>
  The commander (commander.h and commander.cpp), an older ledger: it writes to the traders, reads
  traders and strategies, and hands orders and requests to its subclass, which is Python code and a
  parameter here.
\<close>

record commander = apprentice +
  cm_responses :: "string list"

type_synonym cstep = "commander \<Rightarrow> (herror + unit) \<times> commander"

record commander_hooks =
  ch_on_order :: "message \<Rightarrow> order \<Rightarrow> cstep"
  ch_handle_request :: "message \<Rightarrow> commander \<Rightarrow> (herror + string) \<times> commander"

definition new_commander :: "string \<Rightarrow> i64 \<Rightarrow> commander" where
  "new_commander n now = apprentice.extend (new_apprentice (make_location LIVE SYSTEM ''ledger'' n) now) \<lparr>cm_responses = []\<rparr>"

definition connect :: "i64 \<Rightarrow> location \<Rightarrow> commander \<Rightarrow> commander" where
  "connect t l r = hero_join l 0 t (hero_join (app_master_location (uid l)) (uid l) t r)"

text \<open>The case of a trader falls through to that of a strategy.\<close>

definition commander_register_location :: "i64 \<Rightarrow> location \<Rightarrow> cstep" where
  "commander_register_location t l r =
    (if has_location r (uid l) then (Inr (), r)
     else let r1 = register_location l r in
       case l_category l of
         TD \<Rightarrow> bindX (request_write_to t (uid l) r1) (\<lambda>_ r2. (Inr (), connect t l r2))
       | STRATEGY \<Rightarrow> (Inr (), connect t l r1)
       | _ \<Rightarrow> (Inr (), r1))"

definition commander_deregister_location :: "i64 \<Rightarrow> u32 \<Rightarrow> cstep" where
  "commander_deregister_location t u r = bindX (get_location u r) (\<lambda>_ r1. (Inr (), deregister_location u r1))"

definition commander_on_write_to :: "message \<Rightarrow> cstep" where
  "commander_on_write_to e r = (if m_source e = get_master_commands_uid r then on_write_to e r else (Inr (), r))"

definition commander_on_read_from :: "message \<Rightarrow> cstep" where
  "commander_on_read_from e r =
    (case m_data e of
       ReadFromData s from_time \<Rightarrow>
         bindX (get_location s r) (\<lambda>source_location r.
         bindX (get_location (m_source e) r) (\<lambda>master_cmd_location r.
           let dest_id = read_hex (l_name master_cmd_location) in
           bindX (get_location dest_id r) (\<lambda>dest_location r.
             if uid source_location = get_master_commands_uid r then on_read_from e r
             else if m_msg_type e = T_RequestReadFrom \<and> l_category source_location = TD \<and> l_category dest_location = STRATEGY
             then (Inr (), hero_join source_location dest_id (m_gen_time e) r)
             else (Inr (), r))))
     | _ \<Rightarrow> (Inl BadPayload, r))"

definition commander_dispatch :: "commander_hooks \<Rightarrow> bool \<Rightarrow> message \<Rightarrow> cstep" where
  "commander_dispatch ch from_socket e r =
    bindX (if m_msg_type e = T_Order
           then caught (case m_data e of OrderData d \<Rightarrow> ch_on_order ch e d r | _ \<Rightarrow> (Inl BadPayload, r))
           else (Inr (), r))
      (\<lambda>_ r1. if from_socket \<and> m_source e = 0
              then caught (bindX (ch_handle_request ch e r1) (\<lambda>s r2. (Inr (), r2\<lparr>cm_responses := cm_responses r2 @ [s]\<rparr>)))
              else (Inr (), r1))"

definition commander_on_start :: cstep where
  "commander_on_start r = (Inr (), r)"

definition commander_methods :: "commander app_methods" where
  "commander_methods = \<lparr>m_on_start = commander_on_start, m_register_location = commander_register_location,
     m_deregister_location = commander_deregister_location, m_on_write_to = commander_on_write_to,
     m_on_read_from = commander_on_read_from\<rparr>"

definition commander_react :: "commander_hooks \<Rightarrow> bool \<Rightarrow> message \<Rightarrow> cstep" where
  "commander_react ch from_socket e r =
    bindX (apprentice_react commander_methods e r) (\<lambda>_ r1.
      if a_started r then commander_dispatch ch from_socket e r1 else (Inr (), r1))"

definition commander_cancel_order ::
    "(journal_key \<Rightarrow> nat \<Rightarrow> u64) \<Rightarrow> message \<Rightarrow> u32 \<Rightarrow> u64 \<Rightarrow> commander \<Rightarrow> (herror + unit) \<times> commander" where
  "commander_cancel_order fuid e account oid r =
    bindX (get_writer account r) (\<lambda>w r1. (Inr (), write_msg w (m_gen_time e) T_OrderAction (OrderActionData
       (zero_order_action\<lparr>oa_order_action_id := fuid w (length (filter (\<lambda>x. fst x = w) (h_out r1))),
          oa_order_id := oid, oa_action_flag := OA_Cancel\<rparr>)) r1))"

text \<open>The commander joins the commands' journals of the others without registering their locations
  (the ledger does); those of applications that register later are not introduced by the master
  either, and the first request to read it sees there throws.\<close>

theorem commander_fails_on_requests_of_others:
  assumes "map_of (h_locations r) s = Some t" "\<not> has_location r (uid (app_master_location u))"
    and "m_source e = uid (app_master_location u)" "m_data e = ReadFromData s from_time"
  shows "m_on_read_from commander_methods e r = (Inl (NoLocation (uid (app_master_location u))), r)"
  using assms by (simp add: commander_methods_def commander_on_read_from_def get_location_def has_location_def)

lemma connect_registers_nothing: "h_locations (connect t l r) = h_locations r"
  by (simp add: connect_def)

end
