(* ===== verification/Algo.thy ===== *)
theory Algo
  imports Strategy
begin

text \<open>
  Algorithmic orders (algo/algo.h, algo/context.cpp) and the service that executes them
  (service/algo.h, service/algo.cpp).  An order is user code: its text is a function of its
  identifier, and what it does with events is a parameter.  The context belongs to a process, the
  service or one that runs strategies, and keeps its orders apart from it.
\<close>

section \<open>The context\<close>

record algo_order =
  ao_order_id :: u64
  ao_dumps :: "u64 \<Rightarrow> json"

type_synonym algo_orders = "(u64 \<times> algo_order) list"

definition algo_location :: location where
  "algo_location = make_location LIVE SYSTEM ''service'' ''algo''"

definition has_order :: "u64 \<Rightarrow> algo_orders \<Rightarrow> bool" where
  "has_order oid os \<longleftrightarrow> map_of os oid \<noteq> None"

text \<open>Outside the service the order goes to it; what is thrown is caught, and the answer is 0.\<close>

definition algo_add_order :: "frame_uids \<Rightarrow> algo_order \<Rightarrow> algo_orders \<Rightarrow> 'a hero_scheme \<Rightarrow> (u64 \<times> algo_orders) \<times> 'a hero_scheme" where
  "algo_add_order fuid x os h =
    (if get_home_uid h \<noteq> uid algo_location then
       (case map_of (h_writers h) (uid algo_location) of
          None \<Rightarrow> ((0, os), h)
        | Some w \<Rightarrow>
           let oid = fuid w (written w h) in
           ((oid, AList.update oid (x\<lparr>ao_order_id := oid\<rparr>) os), write_msg w 0 T_AlgoOrderInput (JsonData (ao_dumps x oid)) h))
     else ((ao_order_id x, AList.update (ao_order_id x) x os), h))"

definition cancel_action :: "u64 \<Rightarrow> u64 \<Rightarrow> order_action" where
  "cancel_action aid oid = zero_order_action\<lparr>oa_order_action_id := aid, oa_order_id := oid, oa_action_flag := OA_Cancel\<rparr>"

definition algo_cancel_order :: "frame_uids \<Rightarrow> algo_order \<Rightarrow> 'a hero_scheme \<Rightarrow> (herror + u64) \<times> 'a hero_scheme" where
  "algo_cancel_order fuid x h =
    (if get_home_uid h \<noteq> uid algo_location then
       bindX (get_writer (uid algo_location) h) (\<lambda>w h1.
         let aid = fuid w (written w h1) in
         (Inr aid, write_msg w 0 T_OrderAction (OrderActionData (cancel_action aid (ao_order_id x))) h1))
     else (Inr 0, h))"

definition algo_subscribe :: "string \<Rightarrow> 'a hero_scheme \<Rightarrow> (herror + unit) \<times> 'a hero_scheme" where
  "algo_subscribe src h = bindX (get_writer (uid (make_location LIVE MD src src)) h) (\<lambda>_ h1. (Inr (), h1))"

definition algo_account :: "order_input \<Rightarrow> location" where
  "algo_account i = make_location LIVE TD (c_str (oi_source_id i)) (c_str (oi_account_id i))"

definition algo_insert_order :: "frame_uids \<Rightarrow> order_input \<Rightarrow> 'a hero_scheme \<Rightarrow> (herror + u64) \<times> 'a hero_scheme" where
  "algo_insert_order fuid i h =
    (if get_home_uid h \<noteq> uid algo_location then (Inr 0, h)
     else bindX (get_writer (uid (algo_account i)) h) (\<lambda>w h1.
       let oid = fuid w (written w h1) in
       (Inr oid, write_msg w 0 T_OrderInput (OrderInputData (i\<lparr>oi_order_id := oid\<rparr>)) h1)))"

text \<open>The account is computed back from the identifier of the order.\<close>

definition account_of_order :: "u64 \<Rightarrow> 'a hero_scheme \<Rightarrow> u32" where
  "account_of_order oid h = ucast (drop_bit 32 oid XOR (ucast (get_home_uid h) :: u64))"

definition algo_cancel_order_id :: "frame_uids \<Rightarrow> u64 \<Rightarrow> 'a hero_scheme \<Rightarrow> (herror + u64) \<times> 'a hero_scheme" where
  "algo_cancel_order_id fuid oid h =
    (if get_home_uid h \<noteq> uid algo_location then (Inr 0, h)
     else bindX (get_writer (account_of_order oid h) h) (\<lambda>w h1.
       let aid = fuid w (written w h1) in
       (Inr aid, write_msg w 0 T_OrderAction (OrderActionData (cancel_action aid oid)) h1)))"

text \<open>The events of the orders: an Order or a Trade goes to the order number 0.\<close>

record 's algo_hooks =
  al_child_order :: "algo_order \<Rightarrow> order \<Rightarrow> 's \<Rightarrow> (herror + unit) \<times> 's"
  al_child_trade :: "algo_order \<Rightarrow> trade \<Rightarrow> 's \<Rightarrow> (herror + unit) \<times> 's"
  al_order_report :: "algo_order \<Rightarrow> json \<Rightarrow> 's \<Rightarrow> (herror + unit) \<times> 's"

definition to_order :: "u64 \<Rightarrow> algo_orders \<Rightarrow> (algo_order \<Rightarrow> 's \<Rightarrow> (herror + unit) \<times> 's) \<Rightarrow> 's \<Rightarrow> (herror + unit) \<times> 's" where
  "to_order oid os f s = (case map_of os oid of None \<Rightarrow> (Inr (), s) | Some x \<Rightarrow> f x s)"

definition algo_events :: "'s algo_hooks \<Rightarrow> algo_orders \<Rightarrow> message \<Rightarrow> 's \<Rightarrow> (herror + unit) \<times> 's" where
  "algo_events ah os e s =
    (if m_msg_type e = T_Order then
       (case m_data e of OrderData d \<Rightarrow> to_order 0 os (\<lambda>x. al_child_order ah x d) s | _ \<Rightarrow> (Inl BadPayload, s))
     else if m_msg_type e = T_Trade then
       (case m_data e of TradeData d \<Rightarrow> to_order 0 os (\<lambda>x. al_child_trade ah x d) s | _ \<Rightarrow> (Inl BadPayload, s))
     else if m_msg_type e = T_AlgoOrderReport then
       (Inr (), snd (case m_data e of
          JsonData j \<Rightarrow> (case jget_u64 j ''order_id'' of
                           Inl err \<Rightarrow> (Inl (JsonError err), s)
                         | Inr oid \<Rightarrow> to_order oid os (\<lambda>x. al_order_report ah x j) s)
        | _ \<Rightarrow> (Inl BadPayload, s)))
     else (Inr (), s))"

section \<open>The service\<close>

record algo_service = apprentice +
  al_orders :: algo_orders

type_synonym astep = "algo_service \<Rightarrow> (herror + unit) \<times> algo_service"

record service_hooks = "algo_service algo_hooks" +
  as_insert_order :: "message \<Rightarrow> json \<Rightarrow> astep"
  as_cancel_order :: "message \<Rightarrow> order_action \<Rightarrow> astep"
  as_modify_order :: "message \<Rightarrow> json \<Rightarrow> astep"

definition new_algo_service :: "mode \<Rightarrow> i64 \<Rightarrow> algo_service" where
  "new_algo_service m now = apprentice.extend (new_apprentice (make_location m SYSTEM ''service'' ''algo'') now) \<lparr>al_orders = []\<rparr>"

definition service_add_order :: "frame_uids \<Rightarrow> algo_order \<Rightarrow> algo_service \<Rightarrow> algo_service" where
  "service_add_order fuid x r = (case algo_add_order fuid x (al_orders r) r of ((oid, os), r1) \<Rightarrow> r1\<lparr>al_orders := os\<rparr>)"

definition algo_register_location :: "i64 \<Rightarrow> location \<Rightarrow> astep" where
  "algo_register_location t l r =
    (if has_location r (uid l) then (Inr (), r)
     else let r1 = register_location l r in
       case l_category l of
         MD \<Rightarrow> bindX (request_read_from t (uid l) True r1) (\<lambda>_. request_write_to t (uid l))
       | TD \<Rightarrow> bindX (request_read_from t (uid l) False r1) (\<lambda>_. request_write_to t (uid l))
       | STRATEGY \<Rightarrow> bindX (request_read_from t (uid l) False r1) (\<lambda>_. request_write_to t (uid l))
       | SYSTEM \<Rightarrow> (Inr (), r1))"

definition algo_on_start :: astep where
  "algo_on_start r = (Inr (), r)"

definition algo_methods :: "algo_service app_methods" where
  "algo_methods = (app_methods_of algo_on_start)\<lparr>m_register_location := algo_register_location\<rparr>"

definition algo_dispatch :: "service_hooks \<Rightarrow> message \<Rightarrow> astep" where
  "algo_dispatch sh e r =
    bindX (algo_events (algo_hooks.truncate sh) (al_orders r) e r) (\<lambda>_ r1.
      if m_msg_type e = T_AlgoOrderInput then
        (case m_data e of JsonData j \<Rightarrow> as_insert_order sh e j r1 | _ \<Rightarrow> (Inl BadPayload, r1))
      else if m_msg_type e = T_OrderAction then
        (case m_data e of OrderActionData a \<Rightarrow> as_cancel_order sh e a r1 | _ \<Rightarrow> (Inl BadPayload, r1))
      else if m_msg_type e = T_AlgoOrderModify then
        (case m_data e of JsonData j \<Rightarrow> as_modify_order sh e j r1 | _ \<Rightarrow> (Inl BadPayload, r1))
      else (Inr (), r1))"

definition algo_react :: "service_hooks \<Rightarrow> message \<Rightarrow> astep" where
  "algo_react sh e r =
    bindX (apprentice_react algo_methods e r) (\<lambda>_ r1. if a_started r then algo_dispatch sh e r1 else (Inr (), r1))"

end
