(* ===== verification/AlgoProps.thy ===== *)
theory AlgoProps
  imports Algo JournalProps
begin

text \<open>Orders of the algo service: what cancelling one by its identifier does.\<close>

lemma frame_uid_high: "drop_bit 32 (frame_uid (frame_id_base l d u) p k) = (ucast ((l XOR d) XOR u) :: u64)"
  by (rule bit_word_eqI) (auto simp: frame_uid_def frame_id_base_def Let_def bit_simps dest: bit_imp_le_length)

lemma account_of_made_order:
  assumes "get_home_uid h = l"
  shows "account_of_order (frame_uid (frame_id_base l d u) p k) h = d XOR u"
proof -
  have "ucast (ucast ((l XOR d) XOR u) XOR (ucast l :: u64)) = d XOR u"
    by (rule bit_word_eqI) (auto simp: bit_simps dest: bit_imp_le_length)
  then show ?thesis using assms by (simp only: account_of_order_def frame_uid_high)
qed

text \<open>the algo service cannot cancel the orders it inserted.  The identifier of an order carries
  the service, the account and the random number of the writer; cancelling by identifier takes out
  the service only and addresses the account's number XORed with the random one, which is the
  account only for the random number 0; when no writer happens to have that number, it throws and
  nothing is cancelled.\<close>

lemma algo_cancel_misses_account:
  assumes "get_home_uid h = uid algo_location" "map_of (h_writers h) (uid (algo_account i)) = Some w"
    and "fuid w (written w h) = frame_uid (frame_id_base (uid algo_location) (uid (algo_account i)) uuid) p k"
  shows "\<exists>oid h1. algo_insert_order fuid i h = (Inr oid, h1) \<and> h_out h1 = h_out h @ [(w, 0, T_OrderInput, OrderInputData (i\<lparr>oi_order_id := oid\<rparr>))] \<and>
    account_of_order oid h1 = uid (algo_account i) XOR uuid \<and>
    (account_of_order oid h1 = uid (algo_account i) \<longleftrightarrow> uuid = 0) \<and>
    (map_of (h_writers h) (uid (algo_account i) XOR uuid) = None \<longrightarrow>
      algo_cancel_order_id fuid oid h1 = (Inl (NoWriter (uid (algo_account i) XOR uuid)), h1))"
proof -
  define oid where "oid = fuid w (written w h)"
  define h1 where "h1 = write_msg w 0 T_OrderInput (OrderInputData (i\<lparr>oi_order_id := oid\<rparr>)) h"
  have ins: "algo_insert_order fuid i h = (Inr oid, h1)"
    using assms(1,2) by (simp add: algo_insert_order_def get_writer_eq Let_def oid_def h1_def)
  have home: "get_home_uid h1 = uid algo_location" using assms(1) by (simp add: get_home_uid_def h1_def)
  have acc: "account_of_order oid h1 = uid (algo_account i) XOR uuid"
    using account_of_made_order [OF home, of "uid (algo_account i)" uuid p k] assms(3) by (simp add: oid_def)
  have zero: "uid (algo_account i) XOR uuid = uid (algo_account i) \<longleftrightarrow> uuid = 0"
    by (metis bit.xor_left_self xor.right_neutral)
  show ?thesis
    using ins acc zero home by (intro exI [of _ oid] exI [of _ h1])
      (simp add: algo_cancel_order_id_def get_writer_def h1_def)
qed

definition demo_algo_input :: order_input where
  "demo_algo_input = zero_order_input\<lparr>oi_source_id := strcpy (oi_source_id zero_order_input) ''mock''\<rparr>"

definition demo_algo :: algo_service where
  "demo_algo = (new_algo_service LIVE 0)\<lparr>h_writers := [(uid (algo_account demo_algo_input), (algo_location, uid (algo_account demo_algo_input)))]\<rparr>"

theorem algo_cancel_misses_account_witness:
  "\<exists>oid h1. algo_insert_order (\<lambda>w n. frame_uid (frame_id_base (uid algo_location) (uid (algo_account demo_algo_input)) 12345) 1 7)
      demo_algo_input demo_algo = (Inr oid, h1) \<and> account_of_order oid h1 \<noteq> uid (algo_account demo_algo_input)"
proof -
  have pre: "get_home_uid demo_algo = uid algo_location" "map_of (h_writers demo_algo) (uid (algo_account demo_algo_input)) =
      Some (algo_location, uid (algo_account demo_algo_input))"
    by (simp_all add: demo_algo_def new_algo_service_def new_apprentice_def new_hero_def hero.defs apprentice.defs get_home_uid_def algo_location_def)
  show ?thesis
    using algo_cancel_misses_account [OF pre, of "\<lambda>w n. frame_uid (frame_id_base (uid algo_location) (uid (algo_account demo_algo_input)) 12345) 1 7"
      12345 1 7, OF refl] by auto
qed

end
