(* ===== verification/Books.thy ===== *)
theory Books
  imports Strategy
begin

text \<open>
  The books of positions (book/book.h and book.cpp): a process adds a book for a trader or a strategy
  and its handlers are called with the events of that location.  A book is user code, named here by a
  number; what its handlers do is a parameter.  Handlers catch what the books throw.
\<close>

section \<open>State\<close>

record book_context =
  bc_instruments :: "(u32 \<times> instrument) list"
  bc_collected :: "instrument list"
  bc_books :: "(u32 \<times> nat list) list"
  bc_subscribed :: "(location \<times> nat) list"
  bc_waiting :: "location list"

definition new_book_context :: book_context where
  "new_book_context = \<lparr>bc_instruments = [], bc_collected = [], bc_books = [], bc_subscribed = [], bc_waiting = []\<rparr>"

text \<open>The process: its context of books and itself.\<close>

type_synonym 'a bookish = "book_context \<times> 'a apprentice_scheme"
type_synonym 'a bstep = "'a bookish \<Rightarrow> (herror + unit) \<times> 'a bookish"

definition on_app :: "('a apprentice_scheme \<Rightarrow> (herror + unit) \<times> 'a apprentice_scheme) \<Rightarrow> 'a bstep" where
  "on_app f s = (case f (snd s) of (r, a) \<Rightarrow> (r, (fst s, a)))"

datatype book_event = BDepth depth | BPosition position | BTrade my_trade | BOrder order | BAsset asset

type_synonym 'a book_code = "nat \<Rightarrow> message \<Rightarrow> book_event \<Rightarrow> 'a bstep"

section \<open>Instruments\<close>

definition instrument_key :: "string \<Rightarrow> string \<Rightarrow> u32" where
  "instrument_key symbol exchange = hash_str_32 (symbol @ exchange)"

definition get_inst_info :: "string \<Rightarrow> string \<Rightarrow> book_context \<Rightarrow> herror + instrument" where
  "get_inst_info symbol exchange c =
    (case map_of (bc_instruments c) (instrument_key symbol exchange) of
       None \<Rightarrow> Inl (HandlerError ''no instrument info found'')
     | Some i \<Rightarrow> Inr i)"

definition all_inst_info :: "book_context \<Rightarrow> instrument list" where
  "all_inst_info c = map snd (bc_instruments c)"

text \<open>The instruments sent to the process are collected up to the end mark and then replace the
  table; then collecting starts anew.\<close>

definition instrument_table :: "instrument list \<Rightarrow> (u32 \<times> instrument) list" where
  "instrument_table is =
    fold (\<lambda>i. AList.update (instrument_key (c_str (ins_symbol i)) (c_str (ins_exchange_id i))) i) is []"

definition monitor_instruments :: "message \<Rightarrow> 'a apprentice_scheme \<Rightarrow> book_context \<Rightarrow> book_context" where
  "monitor_instruments e a c =
    (if m_dest e \<noteq> get_live_home_uid a then c
     else if m_msg_type e = T_InstrumentEnd then
       (if h_live a then c\<lparr>bc_instruments := instrument_table (bc_collected c), bc_collected := []\<rparr> else c)
     else if m_msg_type e = T_Instrument then
       (case m_data e of InstrumentData i \<Rightarrow> c\<lparr>bc_collected := bc_collected c @ [i]\<rparr> | _ \<Rightarrow> c)
     else c)"

section \<open>Books\<close>

definition pop_book :: "u32 \<Rightarrow> book_context \<Rightarrow> book_context" where
  "pop_book u c = c\<lparr>bc_books := AList.delete u (bc_books c)\<rparr>"

text \<open>The journals of a channel from or to the location of a book are read.\<close>

definition join_channel :: "location \<Rightarrow> channel \<Rightarrow> 'a apprentice_scheme \<Rightarrow> 'a apprentice_scheme" where
  "join_channel l ch a =
    (if ch_source_id ch = uid l then hero_join l (ch_dest_id ch) (h_now a) a
     else if ch_dest_id ch = uid l then
       (case map_of (h_locations a) (ch_source_id ch) of
          None \<Rightarrow> a
        | Some src \<Rightarrow> hero_join src (ch_dest_id ch) (h_now a) a)
     else a)"

definition request_asset :: "location \<Rightarrow> 'a apprentice_scheme \<Rightarrow> (herror + unit) \<times> 'a apprentice_scheme" where
  "request_asset l a =
    bindX (get_writer (uid ledger_location) a) (\<lambda>w a1. (Inr (), write_msg w 0 T_QryAsset
      (JsonData (json_of (location_json l @ [(''uname'', JString (uname l)), (''uid'', JU64 (uid l))]))) a1))"

text \<open>The assets of the location are asked of the ledger, when there is a writer to it.\<close>

definition ask_ledger :: "location \<Rightarrow> 'a bstep" where
  "ask_ledger l s =
    (let c = fst s; a = snd s in
     if get_home_uid a = uid ledger_location then (Inr (), s)
     else if l_mode (h_home a) = LIVE \<and> \<not> has_location a (uid ledger_location)
       then (Inl (HandlerError ''has no location for ledger service''), s)
     else bindX (if \<not> has_writer a (uid ledger_location) then (Inr (), (c\<lparr>bc_waiting := bc_waiting c @ [l]\<rparr>, a))
                 else on_app (request_asset l) s) (\<lambda>_.
          on_app (\<lambda>a. bindX (request_write_to (h_now a) (uid ledger_location) a) (\<lambda>_ a1.
            request_read_from (h_now a1) (uid ledger_location) False a1))))"

definition add_book :: "location \<Rightarrow> nat \<Rightarrow> 'a bstep" where
  "add_book l b s =
    (if l_category l \<noteq> TD \<and> l_category l \<noteq> STRATEGY then (Inl (HandlerError ''invalid book location category''), s)
     else
       let c = fst s; a = snd s;
           old = (case map_of (bc_books c) (uid l) of None \<Rightarrow> [] | Some bs \<Rightarrow> bs);
           c1 = c\<lparr>bc_books := AList.update (uid l) (List.insert b old) (bc_books c), bc_subscribed := bc_subscribed c @ [(l, b)]\<rparr>;
           a1 = fold (\<lambda>ch. join_channel l (snd ch)) (h_channels a) a
       in ask_ledger l (c1, a1))"

text \<open>Whether an event concerns the book of a location, and what its handler is given.\<close>

definition of_location :: "location \<Rightarrow> message \<Rightarrow> bool" where
  "of_location l e \<longleftrightarrow> (if l_category l = TD then uid l = m_source e else uid l = m_dest e)"

definition book_event_of :: "location \<Rightarrow> message \<Rightarrow> book_event option" where
  "book_event_of l e =
    (if m_msg_type e = T_Depth then (case m_data e of DepthData d \<Rightarrow> Some (BDepth d) | _ \<Rightarrow> None)
     else if m_msg_type e = T_Position \<and> of_location l e then
       (case m_data e of PositionData d \<Rightarrow> Some (BPosition d) | _ \<Rightarrow> None)
     else if m_msg_type e = T_MyTrade \<and> of_location l e then
       (case m_data e of MyTradeData d \<Rightarrow> Some (BTrade d) | _ \<Rightarrow> None)
     else if m_msg_type e = T_Order \<and> of_location l e then
       (case m_data e of OrderData d \<Rightarrow> Some (BOrder d) | _ \<Rightarrow> None)
     else if m_msg_type e = T_Asset then
       (case m_data e of AssetData d \<Rightarrow> if ast_holder_uid d = uid l then Some (BAsset d) else None | _ \<Rightarrow> None)
     else None)"

definition caught_call :: "(herror + unit) \<times> 's \<Rightarrow> 's" where
  "caught_call r = snd r"

text \<open>What the subscriptions of \<open>add_book\<close> do with an event; they stay when the book is popped.\<close>

definition call_books :: "'a book_code \<Rightarrow> message \<Rightarrow> 'a bookish \<Rightarrow> 'a bookish" where
  "call_books code e s =
    fold (\<lambda>(l, b) s. case book_event_of l e of None \<Rightarrow> s | Some x \<Rightarrow> caught_call (code b e x s)) (bc_subscribed (fst s)) s"

definition follow_channel :: "message \<Rightarrow> 'a bookish \<Rightarrow> 'a bookish" where
  "follow_channel e s =
    (case m_data e of
       ChannelData ch \<Rightarrow> (if m_msg_type e = T_Channel
          then (fst s, fold (\<lambda>x. join_channel (fst x) ch) (bc_subscribed (fst s)) (snd s)) else s)
     | _ \<Rightarrow> s)"

fun ask_assets :: "location list \<Rightarrow> 'a bstep" where
  "ask_assets [] s = (Inr (), s)"
| "ask_assets (l # ls) s =
    bindX (on_app (request_asset l) ((fst s)\<lparr>bc_waiting := remove1 l (bc_waiting (fst s))\<rparr>, snd s)) (\<lambda>_. ask_assets ls)"

definition asset_requests_ready :: "message \<Rightarrow> 'a bstep" where
  "asset_requests_ready e s =
    (if m_msg_type e = T_RequestWriteTo \<and> m_data e = WriteToData (uid ledger_location)
     then ask_assets (bc_waiting (fst s)) s else (Inr (), s))"

definition books_react :: "'a book_code \<Rightarrow> message \<Rightarrow> 'a bstep" where
  "books_react code e s =
    asset_requests_ready e (call_books code e (follow_channel e (monitor_instruments e (snd s) (fst s), snd s)))"

section \<open>Removing a book\<close>

text \<open>A book that was removed is still called: \<open>pop_book\<close> leaves its subscriptions.\<close>

lemma pop_book_keeps_subscriptions: "bc_subscribed (pop_book u c) = bc_subscribed c"
  by (simp add: pop_book_def)

text \<open>The last of the instruments with a key is the one found.\<close>

lemma instrument_table_last:
  assumes "is = xs @ [i] @ ys"
    and "\<forall>j \<in> set ys. instrument_key (c_str (ins_symbol j)) (c_str (ins_exchange_id j)) \<noteq> k"
    and "k = instrument_key (c_str (ins_symbol i)) (c_str (ins_exchange_id i))"
  shows "map_of (instrument_table is) k = Some i"
proof -
  have "map_of (fold (\<lambda>i. AList.update (instrument_key (c_str (ins_symbol i)) (c_str (ins_exchange_id i))) i) ys t) k = map_of t k" for t
    using assms(2) by (induction ys arbitrary: t) (auto simp: update_conv')
  then show ?thesis using assms(1,3) by (simp add: instrument_table_def update_conv')
qed

end
