(* ===== verification/BinanceConvert.thy ===== *)
theory BinanceConvert
  imports Common Hero
begin

text \<open>
  The enumerations of the Binance library and their texts (binapi/enums.hpp, enums.cpp, fnv1a.hpp),
  their translation to those of the program, and the translation of the names of instruments
  (type_convert_binance.h).
\<close>

section \<open>Enumerations and their texts\<close>

datatype e_side = E_buy | E_sell
datatype e_position_side = E_long | E_short
datatype e_status = E_new | E_partially_filled | E_filled | E_canceled | E_pending_cancel | E_rejected | E_expired
datatype e_type = E_limit | E_market | E_stop_loss | E_stop_loss_limit | E_take_profit | E_take_profit_limit | E_limit_maker
datatype e_time = E_GTC | E_IOC | E_FOK
datatype e_trade_resp_type = E_ACK | E_RESULT | E_FULL | E_TEST | E_UNKNOWN

text \<open>A character is signed.\<close>

definition fnv1a_step :: "u32 \<Rightarrow> char \<Rightarrow> u32" where
  "fnv1a_step seed c =
    (let n = of_char c :: nat in
     (seed XOR (if n < 128 then word_of_nat n else word_of_int (int n - 256))) * 0x01000193)"

definition fnv1a :: "string \<Rightarrow> u32" where
  "fnv1a s = foldl fnv1a_step 0x811c9dc5 s"

text \<open>A switch over the hash of the text; the end is marked unreachable.\<close>

fun switch_hash :: "(string \<times> 'a) list \<Rightarrow> u32 \<Rightarrow> herror + 'a" where
  "switch_hash [] h = Inl (HandlerError ''unreachable'')"
| "switch_hash ((s, x) # xs) h = (if h = fnv1a s then Inr x else switch_hash xs h)"

definition e_side_from_string :: "string \<Rightarrow> herror + e_side" where
  "e_side_from_string s = switch_hash [(''BUY'', E_buy), (''SELL'', E_sell)] (fnv1a s)"

fun e_side_to_string :: "e_side \<Rightarrow> string" where
  "e_side_to_string E_buy = ''BUY''"
| "e_side_to_string E_sell = ''SELL''"

definition e_position_side_from_string :: "string \<Rightarrow> herror + e_position_side" where
  "e_position_side_from_string s = switch_hash [(''LONG'', E_long), (''SHORT'', E_short)] (fnv1a s)"

fun e_position_side_to_string :: "e_position_side \<Rightarrow> string" where
  "e_position_side_to_string E_long = ''LONG''"
| "e_position_side_to_string E_short = ''SHORT''"

definition e_status_from_string :: "string \<Rightarrow> herror + e_status" where
  "e_status_from_string s = switch_hash [(''NEW'', E_new), (''PARTIALLY_FILLED'', E_partially_filled), (''FILLED'', E_filled),
     (''CANCELED'', E_canceled), (''PENDING_CANCEL'', E_pending_cancel), (''REJECTED'', E_rejected), (''EXPIRED'', E_expired)] (fnv1a s)"

fun e_status_to_string :: "e_status \<Rightarrow> string" where
  "e_status_to_string E_new = ''NEW''"
| "e_status_to_string E_partially_filled = ''PARTIALLY_FILLED''"
| "e_status_to_string E_filled = ''FILLED''"
| "e_status_to_string E_canceled = ''CANCELED''"
| "e_status_to_string E_pending_cancel = ''PENDING_CANCEL''"
| "e_status_to_string E_rejected = ''REJECTED''"
| "e_status_to_string E_expired = ''EXPIRED''"

definition e_type_from_string :: "string \<Rightarrow> herror + e_type" where
  "e_type_from_string s = switch_hash [(''LIMIT'', E_limit), (''MARKET'', E_market), (''STOP_LOSS'', E_stop_loss),
     (''STOP_LOSS_LIMIT'', E_stop_loss_limit), (''TAKE_PROFIT'', E_take_profit), (''TAKE_PROFIT_LIMIT'', E_take_profit_limit),
     (''LIMIT_MAKER'', E_limit_maker)] (fnv1a s)"

fun e_type_to_string :: "e_type \<Rightarrow> string" where
  "e_type_to_string E_limit = ''LIMIT''"
| "e_type_to_string E_market = ''MARKET''"
| "e_type_to_string E_stop_loss = ''STOP_LOSS''"
| "e_type_to_string E_stop_loss_limit = ''STOP_LOSS_LIMIT''"
| "e_type_to_string E_take_profit = ''TAKE_PROFIT''"
| "e_type_to_string E_take_profit_limit = ''TAKE_PROFIT_LIMIT''"
| "e_type_to_string E_limit_maker = ''LIMIT_MAKER''"

definition e_time_from_string :: "string \<Rightarrow> herror + e_time" where
  "e_time_from_string s = switch_hash [(''GTC'', E_GTC), (''IOC'', E_IOC), (''FOK'', E_FOK)] (fnv1a s)"

fun e_time_to_string :: "e_time \<Rightarrow> string" where
  "e_time_to_string E_GTC = ''GTC''"
| "e_time_to_string E_IOC = ''IOC''"
| "e_time_to_string E_FOK = ''FOK''"

definition e_trade_resp_type_from_string :: "string \<Rightarrow> herror + e_trade_resp_type" where
  "e_trade_resp_type_from_string s = switch_hash [(''ACK'', E_ACK), (''RESULT'', E_RESULT), (''FULL'', E_FULL),
     (''TEST'', E_TEST), (''UNKNOWN'', E_UNKNOWN)] (fnv1a s)"

fun e_trade_resp_type_to_string :: "e_trade_resp_type \<Rightarrow> string" where
  "e_trade_resp_type_to_string E_ACK = ''ASK''"
| "e_trade_resp_type_to_string E_RESULT = ''RESULT''"
| "e_trade_resp_type_to_string E_FULL = ''FULL''"
| "e_trade_resp_type_to_string E_TEST = ''TEST''"
| "e_trade_resp_type_to_string E_UNKNOWN = ''UNKNOWN''"

text \<open>The texts are read as they are written, but for the acknowledgement, which is written \<open>ASK\<close>.\<close>

lemma e_side_read: "e_side_from_string (e_side_to_string x) = Inr x"
  by (induct x; code_simp)

lemma e_position_side_read: "e_position_side_from_string (e_position_side_to_string x) = Inr x"
  by (induct x; code_simp)

lemma e_status_read: "e_status_from_string (e_status_to_string x) = Inr x"
  by (induct x; code_simp)

lemma e_type_read: "e_type_from_string (e_type_to_string x) = Inr x"
  by (induct x; code_simp)

lemma e_time_read: "e_time_from_string (e_time_to_string x) = Inr x"
  by (induct x; code_simp)

lemma ack_text_unread: "e_trade_resp_type_from_string (e_trade_resp_type_to_string E_ACK) = Inl (HandlerError ''unreachable'')"
  by code_simp

section \<open>Translation\<close>

definition from_binance_type :: "e_type \<Rightarrow> OrderType" where
  "from_binance_type t = (if t = E_limit then Limit else if t = E_market then Market else OT_UnKnown)"

definition to_binance_type :: "OrderType \<Rightarrow> herror + e_type" where
  "to_binance_type t = (if t = Limit then Inr E_limit else if t = Market then Inr E_market
     else Inl (HandlerError ''unknown wingchun order type''))"

fun from_binance_status :: "e_status \<Rightarrow> OrderStatus" where
  "from_binance_status E_new = Submitted"
| "from_binance_status E_partially_filled = PartialFilledActive"
| "from_binance_status E_filled = Filled"
| "from_binance_status E_canceled = Cancelled"
| "from_binance_status E_pending_cancel = Pending"
| "from_binance_status E_rejected = OS_Error"
| "from_binance_status E_expired = OS_Error"

fun from_binance_side :: "e_side \<Rightarrow> Side" where
  "from_binance_side E_buy = Buy"
| "from_binance_side E_sell = Sell"

definition to_binance_side :: "Side \<Rightarrow> herror + e_side" where
  "to_binance_side s = (if s = Buy then Inr E_buy else if s = Sell then Inr E_sell
     else Inl (HandlerError ''unknown wingchun side''))"

fun to_binance_position_side :: "Direction \<Rightarrow> e_position_side" where
  "to_binance_position_side Long = E_long"
| "to_binance_position_side Short = E_short"

section \<open>Names of instruments\<close>

fun split_underscore :: "string \<Rightarrow> string list" where
  "split_underscore [] = [[]]"
| "split_underscore (c # cs) =
    (if c = CHR ''_'' then [] # split_underscore cs
     else case split_underscore cs of [] \<Rightarrow> [[c]] | w # ws \<Rightarrow> (c # w) # ws)"

definition to_binance_symbol :: "string \<Rightarrow> string" where
  "to_binance_symbol symbol = fold (\<lambda>coin res. res @ map toupper coin) (split_underscore symbol) []"

definition quote_coins :: "string list" where
  "quote_coins = [''BTC'', ''USDT'', ''BNB'', ''BUSD'', ''ETH'']"

text \<open>The last position at which a text occurs.\<close>

fun rfind :: "nat \<Rightarrow> string \<Rightarrow> string \<Rightarrow> nat option" where
  "rfind 0 s p = (if take (length p) s = p then Some 0 else None)"
| "rfind (Suc n) s p = (if take (length p) (drop (Suc n) s) = p then Some (Suc n) else rfind n s p)"

fun insert_separator :: "string list \<Rightarrow> string \<Rightarrow> string option" where
  "insert_separator [] s = None"
| "insert_separator (q # qs) s =
    (if endswith s q
     then (case rfind (length s) s q of None \<Rightarrow> None | Some n \<Rightarrow> Some (take n s @ ''_'' @ drop n s))
     else insert_separator qs s)"

definition from_binance_symbol :: "string \<Rightarrow> string" where
  "from_binance_symbol symbol =
    (case insert_separator quote_coins symbol of None \<Rightarrow> symbol | Some res \<Rightarrow> map tolower res)"

section \<open>Names there and back\<close>

lemma to_binance_symbol_eq: "to_binance_symbol s = map toupper (filter (\<lambda>c. c \<noteq> CHR ''_'') s)"
proof -
  have acc: "fold (\<lambda>coin res. res @ map toupper coin) ws r = r @ map toupper (concat ws)" for ws r
    by (induction ws arbitrary: r) simp_all
  have "concat (split_underscore s) = filter (\<lambda>c. c \<noteq> CHR ''_'') s"
    by (induction s) (auto split: list.splits)
  then show ?thesis by (simp add: to_binance_symbol_def acc)
qed

lemma endswith_append: "endswith (b @ q) p \<longleftrightarrow> length p \<le> length (b @ q) \<and> drop (length (b @ q) - length p) (b @ q) = p"
  by (simp add: endswith_def)

lemma rfind_end:
  assumes "q \<noteq> []" and "length q \<le> length s"
  shows "rfind (length s) s q = rfind (length s - length q) s q"
proof -
  have skip: "rfind (n + k) s q = rfind n s q" if "length s < Suc n + length q" for n k
    using that
  proof (induction k)
    case (Suc k)
    have "0 < length q" using assms by simp
    then have "length s - Suc (n + k) < length q" using Suc.prems by linarith
    then have "length (take (length q) (drop (Suc (n + k)) s)) < length q" by simp
    then have "take (length q) (drop (Suc (n + k)) s) \<noteq> q" by (metis less_irrefl)
    then show ?case using Suc by simp
  qed simp
  show ?thesis using skip [of "length s - length q" "length q"] assms by simp
qed

lemma rfind_suffix:
  assumes "q \<noteq> []"
  shows "rfind (length (b @ q)) (b @ q) q = Some (length b)"
proof -
  have "rfind (length b) (b @ q) q = Some (length b)" by (cases "length b") simp_all
  then show ?thesis using rfind_end [OF assms, of "b @ q"] by simp
qed

lemma insert_separator_quote:
  assumes "q \<in> set quote_coins"
  shows "insert_separator quote_coins (b @ q) = Some (b @ ''_'' @ q)"
proof -
  have "q = ''BTC'' \<or> q = ''USDT'' \<or> q = ''BNB'' \<or> q = ''BUSD'' \<or> q = ''ETH''"
    using assms by (simp add: quote_coins_def)
  moreover from this have "rfind (length (b @ q)) (b @ q) q = Some (length b)" by (intro rfind_suffix) auto
  ultimately show ?thesis
    by (elim disjE) (simp_all del: rfind.simps add: quote_coins_def endswith_def)
qed

lemma insert_separator_finds: "insert_separator qs s = Some r \<Longrightarrow> \<exists>n. r = take n s @ ''_'' @ drop n s"
  by (induction qs) (auto split: if_splits option.splits)

lemma toupper_tolower: "toupper (tolower c) = toupper c"
  by (auto simp: tolower_def toupper_def Let_def)

lemma tolower_underscore: "tolower c = CHR ''_'' \<longleftrightarrow> c = CHR ''_''"
proof -
  have "char_of n \<noteq> CHR ''_''" if "97 \<le> n" "n \<le> 122" for n :: nat
  proof
    assume "char_of n = CHR ''_''"
    then have "of_char (char_of n) = (of_char CHR ''_'' :: nat)" by simp
    then show False using that by simp
  qed
  then show ?thesis by (auto simp: tolower_def Let_def)
qed

lemma upper_base:
  assumes "list_all (\<lambda>c. c \<noteq> CHR ''_'' \<and> tolower c = c) s"
  shows "filter (\<lambda>c. c \<noteq> CHR ''_'') s = s" and "map tolower (map toupper s) = s"
  using assms by (auto simp: list_all_iff tolower_toupper filter_id_conv map_idI)

lemma upper_name:
  assumes "list_all (\<lambda>c. c \<noteq> CHR ''_'' \<and> toupper c = c) s"
  shows "filter (\<lambda>c. c \<noteq> CHR ''_'') (map tolower s) = map tolower s" and "map toupper (map tolower s) = s"
  using assms by (auto simp: list_all_iff toupper_tolower tolower_underscore filter_id_conv map_idI)

text \<open>the name of an instrument, lower case with an underscore before one of the five quotes, is
  read as it was from the name the exchange gives it, whatever the base coin, even when it contains
  the quote; and a name of the exchange without underscores is written as it was.\<close>

lemma symbol_roundtrip:
  assumes base: "list_all (\<lambda>c. c \<noteq> CHR ''_'' \<and> tolower c = c) base"
    and "quote": "map toupper quote \<in> set quote_coins" "list_all (\<lambda>c. c \<noteq> CHR ''_'' \<and> tolower c = c) quote"
    and name: "list_all (\<lambda>c. c \<noteq> CHR ''_'' \<and> toupper c = c) name"
  shows "from_binance_symbol (to_binance_symbol (base @ ''_'' @ quote)) = base @ ''_'' @ quote
    \<and> to_binance_symbol (from_binance_symbol name) = name"
proof
  have "to_binance_symbol (base @ ''_'' @ quote) = map toupper base @ map toupper quote"
    using upper_base(1) [OF base] upper_base(1) [OF quote(2)] by (simp add: to_binance_symbol_eq)
  then show "from_binance_symbol (to_binance_symbol (base @ ''_'' @ quote)) = base @ ''_'' @ quote"
    using insert_separator_quote [OF quote(1)] upper_base(2) [OF base] upper_base(2) [OF quote(2)]
    by (simp add: from_binance_symbol_def tolower_underscore)
next
  show "to_binance_symbol (from_binance_symbol name) = name"
  proof (cases "insert_separator quote_coins name")
    case None
    then show ?thesis using name
      by (auto simp: from_binance_symbol_def to_binance_symbol_eq list_all_iff filter_id_conv map_idI)
  next
    case (Some r)
    then obtain n where r: "r = take n name @ ''_'' @ drop n name" using insert_separator_finds by blast
    have parts: "list_all (\<lambda>c. c \<noteq> CHR ''_'' \<and> toupper c = c) (take n name)"
      "list_all (\<lambda>c. c \<noteq> CHR ''_'' \<and> toupper c = c) (drop n name)"
      using name by (auto simp: list_all_iff dest: in_set_takeD in_set_dropD)
    have "tolower CHR ''_'' = CHR ''_''" by (simp add: tolower_underscore)
    then have "filter (\<lambda>c. c \<noteq> CHR ''_'') (map tolower r) = map tolower (take n name) @ map tolower (drop n name)"
      by (simp only: r map_append filter_append upper_name(1) [OF parts(1)] upper_name(1) [OF parts(2)]) simp
    then show ?thesis
      by (simp only: from_binance_symbol_def to_binance_symbol_eq Some option.case map_append
        upper_name(2) [OF parts(1)] upper_name(2) [OF parts(2)] append_take_drop_id)
  qed
qed

lemma symbol_roundtrip_witness:
  "from_binance_symbol (to_binance_symbol ''ltc_usdt'') = ''ltc_usdt'' \<and> to_binance_symbol (from_binance_symbol ''ETHBTC'') = ''ETHBTC''"
proof -
  have "list_all (\<lambda>c. c \<noteq> CHR ''_'' \<and> tolower c = c) ''ltc''" "map toupper ''usdt'' \<in> set quote_coins"
    "list_all (\<lambda>c. c \<noteq> CHR ''_'' \<and> tolower c = c) ''usdt''" "list_all (\<lambda>c. c \<noteq> CHR ''_'' \<and> toupper c = c) ''ETHBTC''"
    by (simp_all add: toupper_def tolower_def quote_coins_def char_of_def bit_0)
  from symbol_roundtrip [OF this] show ?thesis by simp
qed

text \<open>The pairs of other quotes are left as the exchange writes them.\<close>

lemma other_quotes_untranslated: "from_binance_symbol (to_binance_symbol ''btc_usdc'') = ''BTCUSDC''"
  by code_simp

end
