(* ===== verification/BinanceApi.thy ===== *)
theory BinanceApi
  imports BinanceConvert
begin

text \<open>
  The requests the trader makes of the REST interface of the exchange (binapi/api.cpp, api.hpp): the
  parameters of each, and the text that is sent.  The signature (HMAC-SHA256 of OpenSSL) and the
  clock are arguments.
\<close>

section \<open>Requests\<close>

datatype http_verb = HttpGet | HttpPost | HttpPut | HttpDelete

text \<open>A parameter is a number or a text, which may be a null pointer.\<close>

datatype param = PSize u64 | PText "string option"

record rest_request =
  rq_host :: string
  rq_signed :: bool
  rq_target :: string
  rq_verb :: http_verb
  rq_params :: "(string \<times> param) list"

fun is_valid_value :: "param \<Rightarrow> bool" where
  "is_valid_value (PSize n) \<longleftrightarrow> n \<noteq> 0"
| "is_valid_value (PText t) \<longleftrightarrow> t \<noteq> None"

fun param_text :: "param \<Rightarrow> string" where
  "param_text (PSize n) = show_nat (unat n)"
| "param_text (PText None) = []"
| "param_text (PText (Some t)) = t"

text \<open>The loop that appends the valid parameters.\<close>

fun append_params :: "(string \<times> param) list \<Rightarrow> string \<Rightarrow> string" where
  "append_params [] data = data"
| "append_params ((k, v) # ps) data =
    append_params ps
      (if is_valid_value v then (if data \<noteq> [] then data @ ''&'' else data) @ k @ ''='' @ param_text v else data)"

definition TIMEOUT :: nat where "TIMEOUT = 10000"

definition request_data :: "(string \<Rightarrow> string) \<Rightarrow> u64 \<Rightarrow> rest_request \<Rightarrow> string" where
  "request_data hmac now_ms r =
    (let data = append_params (rq_params r) [] in
     if rq_signed r
     then let signed_data = (if data \<noteq> [] then data @ ''&'' else data) @ ''timestamp='' @ show_nat (unat now_ms)
                @ ''&recvWindow='' @ show_nat TIMEOUT
          in signed_data @ ''&signature='' @ hmac signed_data
     else data)"

text \<open>What goes in the target of the request and what in its body.\<close>

definition request_text :: "(string \<Rightarrow> string) \<Rightarrow> u64 \<Rightarrow> rest_request \<Rightarrow> string \<times> string" where
  "request_text hmac now_ms r =
    (let data = request_data hmac now_ms r in
     if (rq_verb r = HttpGet \<or> rq_verb r = HttpDelete) \<and> data \<noteq> [] then (rq_target r @ ''?'' @ data, [])
     else (rq_target r, data))"

section \<open>The calls\<close>

definition opt_text :: "string \<Rightarrow> param" where
  "opt_text s = PText (if s = [] then None else Some s)"

definition api_new_order :: "string \<Rightarrow> string \<Rightarrow> e_side \<Rightarrow> e_type \<Rightarrow> e_time \<Rightarrow> e_trade_resp_type \<Rightarrow> string \<Rightarrow> string \<Rightarrow>
    string \<Rightarrow> string \<Rightarrow> string \<Rightarrow> rest_request" where
  "api_new_order host symbol side type time resp amount price client_order_id stop_price iceberg =
    \<lparr>rq_host = host, rq_signed = True, rq_target = ''/api/v3/order'', rq_verb = HttpPost, rq_params =
      [(''symbol'', PText (Some symbol)), (''side'', PText (Some (e_side_to_string side))),
       (''type'', PText (Some (e_type_to_string type))),
       (''timeInForce'', PText (if type = E_market then None else Some (e_time_to_string time))),
       (''quantity'', opt_text amount), (''price'', opt_text price), (''newClientOrderId'', opt_text client_order_id),
       (''stopPrice'', opt_text stop_price), (''icebergQty'', opt_text iceberg),
       (''newOrderRespType'', PText (Some (e_trade_resp_type_to_string resp)))]\<rparr>"

text \<open>Only limit and market orders of the futures are supported.\<close>

definition api_future_new_order :: "string \<Rightarrow> string \<Rightarrow> e_side \<Rightarrow> e_position_side \<Rightarrow> e_type \<Rightarrow> string \<Rightarrow> string \<Rightarrow> string \<Rightarrow>
    e_time \<Rightarrow> rest_request" where
  "api_future_new_order host symbol side ps type price quantity client_order_id time =
    (let common = [(''symbol'', PText (Some symbol)), (''side'', PText (Some (e_side_to_string side))),
           (''type'', PText (Some (e_type_to_string type))), (''positionSide'', PText (Some (e_position_side_to_string ps)))];
         order_part = [(''quantity'', PText (Some quantity)), (''newClientOrderId'', PText (Some client_order_id))];
         req = \<lparr>rq_host = host, rq_signed = True, rq_target = ''/fapi/v1/order'', rq_verb = HttpPost, rq_params = []\<rparr>
     in if type = E_limit then
          req\<lparr>rq_params := common @ [(''price'', PText (Some price))] @ order_part
               @ [(''timeInForce'', PText (Some (e_time_to_string time)))]\<rparr>
        else if type = E_market then req\<lparr>rq_params := common @ order_part\<rparr>
        else req\<lparr>rq_verb := HttpPut\<rparr>)"

definition api_order_info :: "string \<Rightarrow> string \<Rightarrow> u64 \<Rightarrow> string \<Rightarrow> rest_request" where
  "api_order_info host symbol orderid client_orderid =
    \<lparr>rq_host = host, rq_signed = True, rq_target = ''/api/v3/order'', rq_verb = HttpGet, rq_params =
      [(''symbol'', PText (Some symbol)), (''orderId'', PSize orderid), (''origClientOrderId'', opt_text client_orderid)]\<rparr>"

definition api_future_order_info :: "string \<Rightarrow> string \<Rightarrow> u64 \<Rightarrow> string \<Rightarrow> rest_request" where
  "api_future_order_info host symbol orderid client_orderid =
    \<lparr>rq_host = host, rq_signed = True, rq_target = ''/fapi/v1/order'', rq_verb = HttpGet, rq_params =
      [(''symbol'', PText (Some symbol)), (''orderId'', PSize orderid), (''origClientOrderId'', opt_text client_orderid)]\<rparr>"

definition api_cancel_order :: "string \<Rightarrow> string \<Rightarrow> u64 \<Rightarrow> string \<Rightarrow> string \<Rightarrow> rest_request" where
  "api_cancel_order host symbol order_id client_order_id new_client_order_id =
    \<lparr>rq_host = host, rq_signed = True, rq_target = ''/api/v3/order'', rq_verb = HttpDelete, rq_params =
      [(''symbol'', PText (Some symbol)), (''orderId'', PSize order_id),
       (''origClientOrderId'', opt_text client_order_id), (''newClientOrderId'', opt_text new_client_order_id)]\<rparr>"

definition api_future_cancel_order :: "string \<Rightarrow> string \<Rightarrow> u64 \<Rightarrow> string \<Rightarrow> rest_request" where
  "api_future_cancel_order host symbol order_id client_order_id =
    \<lparr>rq_host = host, rq_signed = True, rq_target = ''/fapi/v1/order'', rq_verb = HttpDelete, rq_params =
      [(''symbol'', PText (Some symbol)), (''orderId'', PSize order_id), (''origClientOrderId'', opt_text client_order_id)]\<rparr>"

definition api_adjust_leverage :: "string \<Rightarrow> string \<Rightarrow> i32 \<Rightarrow> rest_request" where
  "api_adjust_leverage host symbol leverage =
    \<lparr>rq_host = host, rq_signed = True, rq_target = ''/fapi/v1/leverage'', rq_verb = HttpPost, rq_params =
      [(''symbol'', PText (Some symbol)), (''leverage'', PSize (word_of_int leverage))]\<rparr>"

definition api_start_user_data_stream :: "string \<Rightarrow> rest_request" where
  "api_start_user_data_stream host =
    \<lparr>rq_host = host, rq_signed = False, rq_target = ''/api/v3/userDataStream'', rq_verb = HttpPost, rq_params = []\<rparr>"

definition api_future_start_user_data_stream :: "string \<Rightarrow> rest_request" where
  "api_future_start_user_data_stream host =
    \<lparr>rq_host = host, rq_signed = False, rq_target = ''/fapi/v1/listenKey'', rq_verb = HttpPost, rq_params = []\<rparr>"

definition api_future_ping_user_data_stream :: "string \<Rightarrow> string \<Rightarrow> rest_request" where
  "api_future_ping_user_data_stream host listen_key =
    \<lparr>rq_host = host, rq_signed = False, rq_target = ''/fapi/v1/listenKey'', rq_verb = HttpPut, rq_params =
      [(''listenKey'', PText (Some listen_key))]\<rparr>"

section \<open>The numbers of a request\<close>

text \<open>A double with a fixed number of decimals, without the zeros at its end.\<close>

definition rtrim_zero :: "string \<Rightarrow> string" where
  "rtrim_zero s = rev (dropWhile (\<lambda>c. c = CHR ''0'') (rev s))"

definition pad_zeros :: "nat \<Rightarrow> string \<Rightarrow> string" where
  "pad_zeros n s = replicate (n - length s) (CHR ''0'') @ s"

text \<open>\<open>std::fixed\<close>: the exact value rounded to a multiple of \<open>10 ^ - precision\<close>, ties to even.\<close>

definition fixed_units :: "nat \<Rightarrow> int \<Rightarrow> int \<Rightarrow> int" where
  "fixed_units precision m e =
    (if 0 \<le> e then \<bar>m\<bar> * 2 ^ nat e * 10 ^ precision else shift_rne (\<bar>m\<bar> * 10 ^ precision) (nat (- e)))"

definition show_units :: "nat \<Rightarrow> bool \<Rightarrow> int \<Rightarrow> string" where
  "show_units precision neg u =
    (if neg then ''-'' else []) @ show_nat (nat (u div 10 ^ precision)) @ ''.''
      @ pad_zeros precision (show_nat (nat (u mod 10 ^ precision)))"

fun show_fixed :: "nat \<Rightarrow> f64 \<Rightarrow> string" where
  "show_fixed precision NaN = ''nan''"
| "show_fixed precision (Infty neg) = (if neg then ''-inf'' else ''inf'')"
| "show_fixed precision (Zero neg) = show_units precision neg 0"
| "show_fixed precision (Num m e) = show_units precision (m < 0) (fixed_units precision m e)"

definition double_to_string :: "f64 \<Rightarrow> string" where
  "double_to_string v =
    (let str = rtrim_zero (show_fixed 11 v) in if str \<noteq> [] \<and> last str = CHR ''.'' then butlast str else str)"

section \<open>Numbers read from a stream\<close>

definition is_space :: "char \<Rightarrow> bool" where
  "is_space c = (let n = of_char c :: nat in n = 32 \<or> (9 \<le> n \<and> n \<le> 13))"

definition dec_value :: "char \<Rightarrow> nat option" where
  "dec_value c = (let n = of_char c :: nat in if 48 \<le> n \<and> n \<le> 57 then Some (n - 48) else None)"

fun dec_number :: "nat \<Rightarrow> string \<Rightarrow> nat" where
  "dec_number n [] = n"
| "dec_number n (c # cs) = (case dec_value c of None \<Rightarrow> n | Some d \<Rightarrow> dec_number (10 * n + d) cs)"

definition read_size :: "string \<Rightarrow> u64" where
  "read_size s =
    (let t = dropWhile is_space s;
         neg = (take 1 t = ''-'');
         n = dec_number 0 (if neg \<or> take 1 t = ''+'' then tl t else t)
     in if 2 ^ 64 \<le> n then - 1 else if neg then - word_of_nat n else word_of_nat n)"

lemma dec_value_digit [simp]: "d < 10 \<Longrightarrow> dec_value (digit_char d) = Some d"
  by (simp add: dec_value_def digit_char_def)

lemma dec_number_append: "list_all (\<lambda>c. dec_value c \<noteq> None) xs \<Longrightarrow> dec_number n (xs @ ys) = dec_number (dec_number n xs) ys"
  by (induction xs arbitrary: n) auto

lemma show_nat_digits: "list_all (\<lambda>c. dec_value c \<noteq> None) (show_nat n)"
proof (induction n rule: show_nat.induct)
  case (1 n)
  then show ?case by (simp add: show_nat.simps [of n])
qed

lemma dec_number_show_nat: "dec_number 0 (show_nat n) = n"
proof (induction n rule: show_nat.induct)
  case (1 n)
  then show ?case
    by (cases "n < 10") (simp_all add: show_nat.simps [of n] dec_number_append [OF show_nat_digits])
qed

text \<open>An identifier written in decimal is read as it was.\<close>

lemma read_size_show [simp]: "read_size (show_nat (unat w)) = w"
proof -
  obtain c cs where s: "show_nat (unat w) = c # cs" by (cases "show_nat (unat w)") auto
  then have "dec_value c \<noteq> None" using show_nat_digits [of "unat w"] by simp
  then have "\<not> is_space c" "c \<noteq> CHR ''-''" "c \<noteq> CHR ''+''"
    by (auto simp: dec_value_def is_space_def Let_def split: if_splits)
  then have "read_size (show_nat (unat w)) = (let n = dec_number 0 (c # cs) in if 2 ^ 64 \<le> n then - 1 else word_of_nat n)"
    by (simp add: read_size_def s Let_def del: dec_number.simps)
  also have "dec_number 0 (c # cs) = unat w" using dec_number_show_nat [of "unat w"] by (simp add: s)
  finally show ?thesis using unsigned_less [of w, where ?'a = nat] by simp
qed

end
