(* ===== verification/Flatjson.thy ===== *)
theory Flatjson
  imports Common
begin

text \<open>
  The values of the json library that the Binance library brings along (binapi/flatjson.hpp), as its
  messages are read from them (the functions \<open>__get_json\<close> at the top of binapi/types.cpp).  A value
  keeps the text it was read from: numbers are converted when they are asked for, and a string is the
  text between its quotes, escapes and all.

  An access that fails throws, but two failures cannot be caught: an assertion (the extension is built
  with assertions on, extensions/binance/CMakeLists.txt) ends the process, and the text of a null is a
  null pointer, which two conversions read.  The decimal numbers (boost::multiprecision) are the
  doubles the program converts them to; reading their text is the parameter \<open>dec\<close>, which gives nothing
  where the library throws.
\<close>

section \<open>Values\<close>

datatype fjson = FNull | FBool bool | FNumber string | FString string
  | FArray "fjson list" | FObject "(string \<times> fjson) list"

datatype fj_error = KeyNotFound string | OutOfRange nat | NotSimple | NotObject | NotArray | BadDecimal string
  | NullRead | AssertionFails

fun uncaught :: "fj_error \<Rightarrow> bool" where
  "uncaught NullRead \<longleftrightarrow> True"
| "uncaught AssertionFails \<longleftrightarrow> True"
| "uncaught e \<longleftrightarrow> False"

text \<open>The text of a simple value; that of a null is a null pointer.\<close>

fun to_sstring :: "fjson \<Rightarrow> fj_error + string option" where
  "to_sstring FNull = Inr None"
| "to_sstring (FBool b) = Inr (Some (if b then ''true'' else ''false''))"
| "to_sstring (FNumber s) = Inr (Some s)"
| "to_sstring (FString s) = Inr (Some s)"
| "to_sstring (FArray js) = Inl NotSimple"
| "to_sstring (FObject kvs) = Inl NotSimple"

definition fj_to_string :: "fjson \<Rightarrow> fj_error + string" where
  "fj_to_string j = bindE (to_sstring j) (\<lambda>t. Inr (case t of None \<Rightarrow> [] | Some s \<Rightarrow> s))"

section \<open>Conversions\<close>

text \<open>The switch over the length adds the digits up, whatever characters they are; a text longer than
  20 characters is 0.\<close>

fun sum_digits :: "string \<Rightarrow> u64" where
  "sum_digits [] = 0"
| "sum_digits (c # cs) = word_of_int (int (of_char c) - 48) * 10 ^ length cs + sum_digits cs"

definition conv_unsigned :: "string \<Rightarrow> u64" where
  "conv_unsigned s = (if length s \<le> 20 then sum_digits s else 0)"

definition conv_int :: "string \<Rightarrow> i32" where
  "conv_int s = (if take 1 s = ''-'' then sint (- (ucast (conv_unsigned (drop 1 s)) :: u32))
     else sint (ucast (conv_unsigned s) :: u32))"

definition conv_bool :: "string \<Rightarrow> bool" where
  "conv_bool s \<longleftrightarrow> take 1 s = ''t'' \<and> length s = 4"

definition fj_to_size :: "fjson \<Rightarrow> fj_error + u64" where
  "fj_to_size j = bindE (to_sstring j) (\<lambda>t. Inr (case t of None \<Rightarrow> 0 | Some s \<Rightarrow> conv_unsigned s))"

definition fj_to_int :: "fjson \<Rightarrow> fj_error + i32" where
  "fj_to_int j = bindE (to_sstring j) (\<lambda>t. case t of None \<Rightarrow> Inl NullRead | Some s \<Rightarrow> Inr (conv_int s))"

definition fj_to_bool :: "fjson \<Rightarrow> fj_error + bool" where
  "fj_to_bool j = bindE (to_sstring j) (\<lambda>t. case t of None \<Rightarrow> Inl NullRead | Some s \<Rightarrow> Inr (conv_bool s))"

section \<open>Members and elements\<close>

text \<open>The first member of that name; looking into anything but an object throws.\<close>

fun fj_find :: "fjson \<Rightarrow> string \<Rightarrow> fj_error + fjson option" where
  "fj_find (FObject kvs) k = Inr (map_of kvs k)"
| "fj_find j k = Inl NotObject"

definition fj_contains :: "fjson \<Rightarrow> string \<Rightarrow> fj_error + bool" where
  "fj_contains j k = bindE (fj_find j k) (\<lambda>r. Inr (r \<noteq> None))"

definition fj_at :: "fjson \<Rightarrow> string \<Rightarrow> fj_error + fjson" where
  "fj_at j k = bindE (fj_find j k) (\<lambda>r. case r of None \<Rightarrow> Inl (KeyNotFound k) | Some v \<Rightarrow> Inr v)"

fun fj_elem :: "fjson \<Rightarrow> nat \<Rightarrow> fj_error + fjson" where
  "fj_elem (FArray js) n = (if n < length js then Inr (js ! n) else Inl (OutOfRange n))"
| "fj_elem j n = Inl NotArray"

fun fj_size :: "fjson \<Rightarrow> nat" where
  "fj_size (FArray js) = length js"
| "fj_size (FObject kvs) = length kvs"
| "fj_size j = 1"

fun is_object :: "fjson \<Rightarrow> bool" where
  "is_object (FObject kvs) \<longleftrightarrow> True"
| "is_object j \<longleftrightarrow> False"

fun is_array :: "fjson \<Rightarrow> bool" where
  "is_array (FArray js) \<longleftrightarrow> True"
| "is_array j \<longleftrightarrow> False"

definition fj_assert :: "bool \<Rightarrow> fj_error + unit" where
  "fj_assert b = (if b then Inr () else Inl AssertionFails)"

text \<open>The loop over the elements of a value, from the first to the last.\<close>

fun for_elements :: "fjson \<Rightarrow> (fjson \<Rightarrow> 'r \<Rightarrow> fj_error + 'r) \<Rightarrow> nat list \<Rightarrow> 'r \<Rightarrow> fj_error + 'r" where
  "for_elements j f [] r = Inr r"
| "for_elements j f (i # is) r = bindE (fj_elem j i) (\<lambda>it. bindE (f it r) (for_elements j f is))"

definition each_element :: "fjson \<Rightarrow> (fjson \<Rightarrow> 'r \<Rightarrow> fj_error + 'r) \<Rightarrow> 'r \<Rightarrow> fj_error + 'r" where
  "each_element j f r = for_elements j f [0..<fj_size j] r"

section \<open>The fields of a message\<close>

text \<open>A field of a message: its name in the text, and how it is set.  Integers and booleans that cannot
  be read are 0; a text that is null is empty.\<close>

datatype (dead 'r) field =
    FSize string "(u64 \<Rightarrow> u64) \<Rightarrow> 'r \<Rightarrow> 'r"
  | FInt string "(i32 \<Rightarrow> i32) \<Rightarrow> 'r \<Rightarrow> 'r"
  | FFlag string "(bool \<Rightarrow> bool) \<Rightarrow> 'r \<Rightarrow> 'r"
  | FText string "(string \<Rightarrow> string) \<Rightarrow> 'r \<Rightarrow> 'r"
  | FDec string "(f64 \<Rightarrow> f64) \<Rightarrow> 'r \<Rightarrow> 'r"

definition or_zero :: "'a \<Rightarrow> fj_error + 'a \<Rightarrow> fj_error + 'a" where
  "or_zero z r = (case r of Inl e \<Rightarrow> if uncaught e then Inl e else Inr z | Inr v \<Rightarrow> Inr v)"

definition to_decimal :: "(string \<Rightarrow> f64 option) \<Rightarrow> string \<Rightarrow> fj_error + f64" where
  "to_decimal dec s = (case dec s of None \<Rightarrow> Inl (BadDecimal s) | Some x \<Rightarrow> Inr x)"

fun get_json :: "(string \<Rightarrow> f64 option) \<Rightarrow> 'r field \<Rightarrow> fjson \<Rightarrow> 'r \<Rightarrow> fj_error + 'r" where
  "get_json dec (FSize k upd) j r = bindE (or_zero 0 (bindE (fj_at j k) fj_to_size)) (\<lambda>v. Inr (upd (\<lambda>_. v) r))"
| "get_json dec (FInt k upd) j r = bindE (or_zero 0 (bindE (fj_at j k) fj_to_int)) (\<lambda>v. Inr (upd (\<lambda>_. v) r))"
| "get_json dec (FFlag k upd) j r = bindE (or_zero False (bindE (fj_at j k) fj_to_bool)) (\<lambda>v. Inr (upd (\<lambda>_. v) r))"
| "get_json dec (FText k upd) j r = bindE (bindE (fj_at j k) fj_to_string) (\<lambda>v. Inr (upd (\<lambda>_. v) r))"
| "get_json dec (FDec k upd) j r =
    bindE (bindE (fj_at j k) fj_to_string) (\<lambda>s. bindE (to_decimal dec s) (\<lambda>v. Inr (upd (\<lambda>_. v) r)))"

fun get_fields :: "(string \<Rightarrow> f64 option) \<Rightarrow> 'r field list \<Rightarrow> fjson \<Rightarrow> 'r \<Rightarrow> fj_error + 'r" where
  "get_fields dec [] j r = Inr r"
| "get_fields dec (f # fs) j r = bindE (get_json dec f j r) (get_fields dec fs j)"

end
