(* ===== verification/StreamTypes.thy ===== *)
theory StreamTypes
  imports Flatjson "HOL-Library.AList"
begin

text \<open>
  The messages of the streams of the exchange (the namespaces \<open>ws\<close> and \<open>userdata\<close> of
  binapi/types.hpp and types.cpp).  Each is a record, the list of the fields \<open>construct\<close> reads, in the
  order in which it reads them, and \<open>construct\<close>, which starts from \<open>res{}\<close>, where all is zero; a field
  that is not in the list is declared and never read.  What \<open>operator<<\<close> prints is a json text, of the
  value \<open>json\<close> gives; \<open>shw\<close> prints a decimal.  A value that was parsed is valid, so the assertions that
  it is are left out; the others are kept.  A \<open>std::map\<close> is a list of pairs.
\<close>

definition fj_num :: "u64 \<Rightarrow> fjson" where
  "fj_num w = FNumber (show_nat (unat w))"

definition emplace :: "'k \<Rightarrow> 'v \<Rightarrow> ('k \<times> 'v) list \<Rightarrow> ('k \<times> 'v) list" where
  "emplace k v xs = (if map_of xs k = None then (k, v) # xs else xs)"

text \<open>A level of an order book: the price and the amount at the indexes 0 and 1.\<close>

definition read_level :: "(string \<Rightarrow> f64 option) \<Rightarrow> fjson \<Rightarrow> (f64 \<times> f64) list \<Rightarrow> fj_error + (f64 \<times> f64) list" where
  "read_level dec it r =
    bindE (bindE (bindE (fj_elem it 0) fj_to_string) (to_decimal dec)) (\<lambda>price.
    bindE (bindE (bindE (fj_elem it 1) fj_to_string) (to_decimal dec)) (\<lambda>amount.
      Inr (r @ [(price, amount)])))"

section \<open>Market data\<close>

record ws_agg_trade =
  wg_e :: string
  wg_E :: u64
  wg_s :: string
  wg_a :: u64
  wg_p :: f64
  wg_q :: f64
  wg_f :: u64
  wg_l :: u64
  wg_T :: u64
  wg_m :: bool
  wg_M :: bool

definition zero_ws_agg_trade :: ws_agg_trade where
  "zero_ws_agg_trade = \<lparr>wg_e = [], wg_E = 0, wg_s = [], wg_a = 0, wg_p = Zero False, wg_q = Zero False, wg_f = 0, wg_l = 0, wg_T = 0,
     wg_m = False, wg_M = False\<rparr>"

definition ws_agg_trade_fields :: "ws_agg_trade field list" where
  "ws_agg_trade_fields = [FText ''e'' wg_e_update, FSize ''E'' wg_E_update, FText ''s'' wg_s_update, FSize ''a'' wg_a_update,
     FDec ''p'' wg_p_update, FDec ''q'' wg_q_update, FSize ''f'' wg_f_update, FSize ''l'' wg_l_update,
     FSize ''T'' wg_T_update, FFlag ''m'' wg_m_update]"

definition ws_agg_trade_construct :: "(string \<Rightarrow> f64 option) \<Rightarrow> fjson \<Rightarrow> fj_error + ws_agg_trade" where
  "ws_agg_trade_construct dec json = get_fields dec ws_agg_trade_fields json zero_ws_agg_trade"

definition ws_agg_trade_json :: "(f64 \<Rightarrow> string) \<Rightarrow> ws_agg_trade \<Rightarrow> fjson" where
  "ws_agg_trade_json shw x = FObject [(''e'', FString (wg_e x)), (''E'', fj_num (wg_E x)), (''s'', FString (wg_s x)), (''a'', fj_num (wg_a x)),
     (''p'', FString (shw (wg_p x))), (''q'', FString (shw (wg_q x))), (''f'', fj_num (wg_f x)),
     (''l'', fj_num (wg_l x)), (''T'', fj_num (wg_T x)), (''m'', FBool (wg_m x)), (''M'', FBool (wg_M x))]"

record ws_trade =
  wt_E :: u64
  wt_s :: string
  wt_t :: u64
  wt_p :: f64
  wt_q :: f64
  wt_b :: u64
  wt_a :: u64
  wt_T :: u64
  wt_m :: bool
  wt_M :: bool

definition zero_ws_trade :: ws_trade where
  "zero_ws_trade = \<lparr>wt_E = 0, wt_s = [], wt_t = 0, wt_p = Zero False, wt_q = Zero False, wt_b = 0, wt_a = 0, wt_T = 0,
     wt_m = False, wt_M = False\<rparr>"

definition ws_trade_fields :: "ws_trade field list" where
  "ws_trade_fields = [FSize ''E'' wt_E_update, FText ''s'' wt_s_update, FSize ''t'' wt_t_update, FDec ''p'' wt_p_update,
     FDec ''q'' wt_q_update, FSize ''b'' wt_b_update, FSize ''a'' wt_a_update, FSize ''T'' wt_T_update,
     FFlag ''m'' wt_m_update, FFlag ''M'' wt_M_update]"

definition ws_trade_construct :: "(string \<Rightarrow> f64 option) \<Rightarrow> fjson \<Rightarrow> fj_error + ws_trade" where
  "ws_trade_construct dec json = get_fields dec ws_trade_fields json zero_ws_trade"

definition ws_trade_json :: "(f64 \<Rightarrow> string) \<Rightarrow> ws_trade \<Rightarrow> fjson" where
  "ws_trade_json shw x = FObject [(''E'', fj_num (wt_E x)), (''s'', FString (wt_s x)), (''t'', fj_num (wt_t x)), (''p'', FString (shw (wt_p x))),
     (''q'', FString (shw (wt_q x))), (''b'', fj_num (wt_b x)), (''a'', fj_num (wt_a x)), (''T'', fj_num (wt_T x)),
     (''m'', FBool (wt_m x)), (''M'', FBool (wt_M x))]"

record part_depths =
  pd_E :: u64
  pd_T :: u64
  pd_a :: "(f64 \<times> f64) list"
  pd_b :: "(f64 \<times> f64) list"

definition zero_part_depths :: part_depths where
  "zero_part_depths = \<lparr>pd_E = 0, pd_T = 0, pd_a = [], pd_b = []\<rparr>"

text \<open>A message with neither \<open>asks\<close> nor \<open>a\<close> leaves two values that were never loaded; asking for their
  size reads a null pointer.\<close>

definition part_depths_sides :: "fjson \<Rightarrow> fj_error + fjson \<times> fjson" where
  "part_depths_sides json =
    bindE (fj_contains json ''asks'') (\<lambda>long.
      if long then bindE (fj_at json ''asks'') (\<lambda>a. bindE (fj_at json ''bids'') (\<lambda>b. Inr (a, b)))
      else bindE (fj_contains json ''a'') (\<lambda>short.
        if short then bindE (fj_at json ''a'') (\<lambda>a. bindE (fj_at json ''b'') (\<lambda>b. Inr (a, b)))
        else Inl NullRead))"

definition part_depths_construct :: "(string \<Rightarrow> f64 option) \<Rightarrow> fjson \<Rightarrow> fj_error + part_depths" where
  "part_depths_construct dec json =
    bindE (get_fields dec [FSize ''E'' pd_E_update, FSize ''T'' pd_T_update] json zero_part_depths) (\<lambda>res.
    bindE (part_depths_sides json) (\<lambda>(a, b).
    bindE (each_element a (read_level dec) []) (\<lambda>asks.
    bindE (each_element b (read_level dec) []) (\<lambda>bids.
      Inr (res\<lparr>pd_a := asks, pd_b := bids\<rparr>)))))"

record diff_depths =
  dd_E :: u64
  dd_s :: string
  dd_u :: u64
  dd_U :: u64
  dd_a :: "(f64 \<times> f64) list"
  dd_b :: "(f64 \<times> f64) list"

definition diff_depths_construct :: "(string \<Rightarrow> f64 option) \<Rightarrow> fjson \<Rightarrow> fj_error + diff_depths" where
  "diff_depths_construct dec json =
    bindE (get_fields dec [FSize ''E'' dd_E_update, FText ''s'' dd_s_update, FSize ''u'' dd_u_update, FSize ''U'' dd_U_update]
      json \<lparr>dd_E = 0, dd_s = [], dd_u = 0, dd_U = 0, dd_a = [], dd_b = []\<rparr>) (\<lambda>res.
    bindE (fj_at json ''a'') (\<lambda>a.
    bindE (each_element a (read_level dec) []) (\<lambda>asks.
    bindE (fj_at json ''b'') (\<lambda>b.
    bindE (each_element b (read_level dec) []) (\<lambda>bids.
      Inr (res\<lparr>dd_a := asks, dd_b := bids\<rparr>))))))"

record ws_mark_price =
  wm_s :: string
  wm_p :: f64
  wm_P :: f64
  wm_r :: f64
  wm_T :: u64

definition zero_ws_mark_price :: ws_mark_price where
  "zero_ws_mark_price = \<lparr>wm_s = [], wm_p = Zero False, wm_P = Zero False, wm_r = Zero False, wm_T = 0\<rparr>"

definition ws_mark_price_fields :: "ws_mark_price field list" where
  "ws_mark_price_fields = [FText ''s'' wm_s_update, FDec ''p'' wm_p_update, FDec ''P'' wm_P_update, FDec ''r'' wm_r_update,
     FSize ''T'' wm_T_update]"

definition ws_mark_price_construct :: "(string \<Rightarrow> f64 option) \<Rightarrow> fjson \<Rightarrow> fj_error + ws_mark_price" where
  "ws_mark_price_construct dec json = get_fields dec ws_mark_price_fields json zero_ws_mark_price"

text \<open>A candle: its first two fields are of the message, the others of its member \<open>k\<close>.\<close>

record ws_kline =
  wk_E :: u64
  wk_s :: string
  wk_t :: u64
  wk_T :: u64
  wk_i :: string
  wk_f :: u64
  wk_L :: u64
  wk_o :: f64
  wk_c :: f64
  wk_h :: f64
  wk_l :: f64
  wk_v :: f64
  wk_n :: u64
  wk_x :: bool
  wk_q :: f64
  wk_V :: f64
  wk_Q :: f64

definition zero_ws_kline :: ws_kline where
  "zero_ws_kline = \<lparr>wk_E = 0, wk_s = [], wk_t = 0, wk_T = 0, wk_i = [], wk_f = 0, wk_L = 0, wk_o = Zero False, wk_c = Zero False,
     wk_h = Zero False, wk_l = Zero False, wk_v = Zero False, wk_n = 0, wk_x = False, wk_q = Zero False,
     wk_V = Zero False, wk_Q = Zero False\<rparr>"

definition ws_kline_fields :: "ws_kline field list" where
  "ws_kline_fields = [FSize ''E'' wk_E_update, FText ''s'' wk_s_update, FSize ''t'' wk_t_update, FSize ''T'' wk_T_update,
     FText ''i'' wk_i_update, FSize ''f'' wk_f_update, FSize ''L'' wk_L_update, FDec ''o'' wk_o_update,
     FDec ''c'' wk_c_update, FDec ''h'' wk_h_update, FDec ''l'' wk_l_update, FDec ''v'' wk_v_update,
     FSize ''n'' wk_n_update, FFlag ''x'' wk_x_update, FDec ''q'' wk_q_update, FDec ''V'' wk_V_update,
     FDec ''Q'' wk_Q_update]"

definition ws_kline_construct :: "(string \<Rightarrow> f64 option) \<Rightarrow> fjson \<Rightarrow> fj_error + ws_kline" where
  "ws_kline_construct dec json =
    bindE (get_fields dec (take 2 ws_kline_fields) json zero_ws_kline) (\<lambda>res.
    bindE (fj_at json ''k'') (\<lambda>k. get_fields dec (drop 2 ws_kline_fields) k res))"

record ws_mini_ticker =
  wn_E :: u64
  wn_s :: string
  wn_c :: f64
  wn_o :: f64
  wn_h :: f64
  wn_l :: f64
  wn_v :: f64
  wn_q :: f64

definition zero_ws_mini_ticker :: ws_mini_ticker where
  "zero_ws_mini_ticker = \<lparr>wn_E = 0, wn_s = [], wn_c = Zero False, wn_o = Zero False, wn_h = Zero False, wn_l = Zero False,
     wn_v = Zero False, wn_q = Zero False\<rparr>"

definition ws_mini_ticker_fields :: "ws_mini_ticker field list" where
  "ws_mini_ticker_fields = [FSize ''E'' wn_E_update, FText ''s'' wn_s_update, FDec ''c'' wn_c_update, FDec ''o'' wn_o_update,
     FDec ''h'' wn_h_update, FDec ''l'' wn_l_update, FDec ''v'' wn_v_update, FDec ''q'' wn_q_update]"

definition ws_mini_ticker_construct :: "(string \<Rightarrow> f64 option) \<Rightarrow> fjson \<Rightarrow> fj_error + ws_mini_ticker" where
  "ws_mini_ticker_construct dec json = get_fields dec ws_mini_ticker_fields json zero_ws_mini_ticker"

record ws_market_ticker =
  wr_E :: u64
  wr_s :: string
  wr_p :: f64
  wr_P :: f64
  wr_w :: f64
  wr_x :: f64
  wr_c :: f64
  wr_Q :: f64
  wr_b :: f64
  wr_B :: f64
  wr_a :: f64
  wr_A :: f64
  wr_o :: f64
  wr_h :: f64
  wr_l :: f64
  wr_v :: f64
  wr_q :: f64
  wr_O :: u64
  wr_C :: u64
  wr_F :: u64
  wr_L :: u64
  wr_n :: u64

definition zero_ws_market_ticker :: ws_market_ticker where
  "zero_ws_market_ticker = \<lparr>wr_E = 0, wr_s = [], wr_p = Zero False, wr_P = Zero False, wr_w = Zero False, wr_x = Zero False,
     wr_c = Zero False, wr_Q = Zero False, wr_b = Zero False, wr_B = Zero False, wr_a = Zero False,
     wr_A = Zero False, wr_o = Zero False, wr_h = Zero False, wr_l = Zero False, wr_v = Zero False,
     wr_q = Zero False, wr_O = 0, wr_C = 0, wr_F = 0, wr_L = 0, wr_n = 0\<rparr>"

definition ws_market_ticker_fields :: "ws_market_ticker field list" where
  "ws_market_ticker_fields = [FSize ''E'' wr_E_update, FText ''s'' wr_s_update, FDec ''p'' wr_p_update, FDec ''P'' wr_P_update,
     FDec ''w'' wr_w_update, FDec ''x'' wr_x_update, FDec ''c'' wr_c_update, FDec ''Q'' wr_Q_update,
     FDec ''b'' wr_b_update, FDec ''B'' wr_B_update, FDec ''a'' wr_a_update, FDec ''A'' wr_A_update,
     FDec ''o'' wr_o_update, FDec ''h'' wr_h_update, FDec ''l'' wr_l_update, FDec ''v'' wr_v_update,
     FDec ''q'' wr_q_update, FSize ''O'' wr_O_update, FSize ''C'' wr_C_update, FSize ''F'' wr_F_update,
     FSize ''L'' wr_L_update, FSize ''n'' wr_n_update]"

definition ws_market_ticker_construct :: "(string \<Rightarrow> f64 option) \<Rightarrow> fjson \<Rightarrow> fj_error + ws_market_ticker" where
  "ws_market_ticker_construct dec json = get_fields dec ws_market_ticker_fields json zero_ws_market_ticker"

definition ws_market_ticker_json :: "(f64 \<Rightarrow> string) \<Rightarrow> ws_market_ticker \<Rightarrow> fjson" where
  "ws_market_ticker_json shw x = FObject [(''E'', fj_num (wr_E x)), (''s'', FString (wr_s x)), (''p'', FString (shw (wr_p x))),
     (''P'', FString (shw (wr_P x))), (''w'', FString (shw (wr_w x))), (''x'', FString (shw (wr_x x))),
     (''c'', FString (shw (wr_c x))), (''Q'', FString (shw (wr_Q x))), (''b'', FString (shw (wr_b x))),
     (''B'', FString (shw (wr_B x))), (''a'', FString (shw (wr_a x))), (''A'', FString (shw (wr_A x))),
     (''o'', FString (shw (wr_o x))), (''h'', FString (shw (wr_h x))), (''l'', FString (shw (wr_l x))),
     (''v'', FString (shw (wr_v x))), (''q'', FString (shw (wr_q x))), (''O'', fj_num (wr_O x)),
     (''C'', fj_num (wr_C x)), (''F'', fj_num (wr_F x)), (''L'', fj_num (wr_L x)), (''n'', fj_num (wr_n x))]"

text \<open>The streams of all tickers: the first of each symbol is kept.\<close>

definition mini_tickers_construct :: "(string \<Rightarrow> f64 option) \<Rightarrow> fjson \<Rightarrow> fj_error + (string \<times> ws_mini_ticker) list" where
  "mini_tickers_construct dec json =
    bindE (fj_assert (is_array json)) (\<lambda>_.
    each_element json (\<lambda>it tickers.
      bindE (bindE (fj_at it ''s'') fj_to_string) (\<lambda>symbol.
      bindE (ws_mini_ticker_construct dec it) (\<lambda>item. Inr (emplace symbol item tickers)))) [])"

definition markets_tickers_construct :: "(string \<Rightarrow> f64 option) \<Rightarrow> fjson \<Rightarrow> fj_error + (string \<times> ws_market_ticker) list" where
  "markets_tickers_construct dec json =
    bindE (fj_assert (is_array json)) (\<lambda>_.
    each_element json (\<lambda>it tickers.
      bindE (ws_market_ticker_construct dec it) (\<lambda>item. Inr (emplace (wr_s item) item tickers))) [])"

record ws_book_ticker =
  wb_u :: u64
  wb_s :: string
  wb_b :: f64
  wb_B :: f64
  wb_a :: f64
  wb_A :: f64
  wb_E :: u64
  wb_T :: u64

definition zero_ws_book_ticker :: ws_book_ticker where
  "zero_ws_book_ticker = \<lparr>wb_u = 0, wb_s = [], wb_b = Zero False, wb_B = Zero False, wb_a = Zero False, wb_A = Zero False, wb_E = 0,
     wb_T = 0\<rparr>"

definition ws_book_ticker_fields :: "ws_book_ticker field list" where
  "ws_book_ticker_fields = [FSize ''u'' wb_u_update, FText ''s'' wb_s_update, FDec ''b'' wb_b_update, FDec ''B'' wb_B_update,
     FDec ''a'' wb_a_update, FDec ''A'' wb_A_update, FSize ''E'' wb_E_update, FSize ''T'' wb_T_update]"

definition ws_book_ticker_construct :: "(string \<Rightarrow> f64 option) \<Rightarrow> fjson \<Rightarrow> fj_error + ws_book_ticker" where
  "ws_book_ticker_construct dec json = get_fields dec ws_book_ticker_fields json zero_ws_book_ticker"

definition ws_book_ticker_json :: "(f64 \<Rightarrow> string) \<Rightarrow> ws_book_ticker \<Rightarrow> fjson" where
  "ws_book_ticker_json shw x = FObject [(''u'', fj_num (wb_u x)), (''s'', FString (wb_s x)), (''b'', FString (shw (wb_b x))),
     (''B'', FString (shw (wb_B x))), (''a'', FString (shw (wb_a x))), (''A'', FString (shw (wb_A x))),
     (''E'', FString (show_nat (unat (wb_E x)))), (''T'', FString (show_nat (unat (wb_T x))))]"

section \<open>The streams of an account\<close>

record account_balance =
  ab_a :: string
  ab_f :: f64
  ab_l :: f64

definition zero_account_balance :: account_balance where
  "zero_account_balance = \<lparr>ab_a = [], ab_f = Zero False, ab_l = Zero False\<rparr>"

record account_update =
  au_e :: string
  au_E :: u64
  au_u :: u64
  au_B :: "(string \<times> account_balance) list"

text \<open>A later balance of the same coin replaces the earlier one.\<close>

definition read_balance ::
    "(string \<Rightarrow> f64 option) \<Rightarrow> fjson \<Rightarrow> (string \<times> account_balance) list \<Rightarrow> fj_error + (string \<times> account_balance) list" where
  "read_balance dec it B =
    bindE (get_fields dec [FText ''a'' ab_a_update, FDec ''l'' ab_l_update, FDec ''f'' ab_f_update] it zero_account_balance)
      (\<lambda>item. Inr (AList.update (ab_a item) item B))"

definition account_update_construct :: "(string \<Rightarrow> f64 option) \<Rightarrow> fjson \<Rightarrow> fj_error + account_update" where
  "account_update_construct dec json =
    bindE (get_fields dec [FText ''e'' au_e_update, FSize ''E'' au_E_update, FSize ''u'' au_u_update] json
      \<lparr>au_e = [], au_E = 0, au_u = 0, au_B = []\<rparr>) (\<lambda>res.
    bindE (fj_at json ''B'') (\<lambda>B.
    bindE (each_element B (read_balance dec) []) (\<lambda>balances. Inr (res\<lparr>au_B := balances\<rparr>))))"

record balance_update =
  bu_e :: string
  bu_E :: u64
  bu_a :: string
  bu_d :: f64
  bu_T :: u64

definition zero_balance_update :: balance_update where
  "zero_balance_update = \<lparr>bu_e = [], bu_E = 0, bu_a = [], bu_d = Zero False, bu_T = 0\<rparr>"

definition balance_update_fields :: "balance_update field list" where
  "balance_update_fields = [FText ''e'' bu_e_update, FSize ''E'' bu_E_update, FText ''a'' bu_a_update, FDec ''d'' bu_d_update,
     FSize ''T'' bu_T_update]"

definition balance_update_construct :: "(string \<Rightarrow> f64 option) \<Rightarrow> fjson \<Rightarrow> fj_error + balance_update" where
  "balance_update_construct dec json = get_fields dec balance_update_fields json zero_balance_update"

definition balance_update_json :: "(f64 \<Rightarrow> string) \<Rightarrow> balance_update \<Rightarrow> fjson" where
  "balance_update_json shw x = FObject [(''e'', FString (bu_e x)), (''E'', fj_num (bu_E x)), (''a'', FString (bu_a x)),
     (''d'', FString (shw (bu_d x))), (''T'', fj_num (bu_T x))]"

record spot_update =
  su_e :: string
  su_E :: u64
  su_s :: string
  su_c :: string
  su_S :: string
  su_o :: string
  su_f :: string
  su_q :: f64
  su_p :: f64
  su_P :: f64
  su_F :: f64
  su_C :: string
  su_x :: string
  su_X :: string
  su_r :: string
  su_i :: u64
  su_l :: f64
  su_z :: f64
  su_L :: f64
  su_n :: f64
  su_N :: string
  su_T :: u64
  su_t :: u64
  su_I :: u64
  su_w :: bool
  su_m :: bool
  su_M :: bool
  su_O :: u64
  su_Z :: f64
  su_Y :: f64
  su_Q :: f64
  su_W :: u64
  su_V :: string

definition zero_spot_update :: spot_update where
  "zero_spot_update = \<lparr>su_e = [], su_E = 0, su_s = [], su_c = [], su_S = [], su_o = [], su_f = [], su_q = Zero False,
     su_p = Zero False, su_P = Zero False, su_F = Zero False, su_C = [], su_x = [], su_X = [], su_r = [], su_i = 0,
     su_l = Zero False, su_z = Zero False, su_L = Zero False, su_n = Zero False, su_N = [], su_T = 0, su_t = 0,
     su_I = 0, su_w = False, su_m = False, su_M = False, su_O = 0, su_Z = Zero False, su_Y = Zero False,
     su_Q = Zero False, su_W = 0, su_V = []\<rparr>"

definition spot_update_fields :: "spot_update field list" where
  "spot_update_fields = [FText ''e'' su_e_update, FSize ''E'' su_E_update, FText ''s'' su_s_update, FText ''c'' su_c_update,
     FText ''S'' su_S_update, FText ''o'' su_o_update, FText ''f'' su_f_update, FDec ''q'' su_q_update,
     FDec ''p'' su_p_update, FDec ''P'' su_P_update, FDec ''F'' su_F_update, FText ''C'' su_C_update,
     FText ''x'' su_x_update, FText ''X'' su_X_update, FText ''r'' su_r_update, FSize ''i'' su_i_update,
     FDec ''l'' su_l_update, FDec ''z'' su_z_update, FDec ''L'' su_L_update, FDec ''n'' su_n_update,
     FText ''N'' su_N_update, FSize ''T'' su_T_update, FSize ''t'' su_t_update, FSize ''I'' su_I_update,
     FFlag ''w'' su_w_update, FFlag ''m'' su_m_update, FFlag ''M'' su_M_update, FSize ''O'' su_O_update,
     FDec ''Z'' su_Z_update]"

definition spot_update_construct :: "(string \<Rightarrow> f64 option) \<Rightarrow> fjson \<Rightarrow> fj_error + spot_update" where
  "spot_update_construct dec json = get_fields dec spot_update_fields json zero_spot_update"

definition spot_update_json :: "(f64 \<Rightarrow> string) \<Rightarrow> spot_update \<Rightarrow> fjson" where
  "spot_update_json shw x = FObject [(''e'', FString (su_e x)), (''E'', fj_num (su_E x)), (''s'', FString (su_s x)), (''c'', FString (su_c x)),
     (''S'', FString (su_S x)), (''o'', FString (su_o x)), (''f'', FString (su_f x)),
     (''q'', FString (shw (su_q x))), (''p'', FString (shw (su_p x))), (''P'', FString (shw (su_P x))),
     (''F'', FString (shw (su_F x))), (''C'', FString (su_C x)), (''x'', FString (su_x x)),
     (''X'', FString (su_X x)), (''r'', FString (su_r x)), (''i'', fj_num (su_i x)),
     (''l'', FString (shw (su_l x))), (''z'', FString (shw (su_z x))), (''L'', FString (shw (su_L x))),
     (''n'', FString (shw (su_n x))), (''N'', FString (su_N x)), (''T'', fj_num (su_T x)), (''t'', fj_num (su_t x)),
     (''I'', fj_num (su_I x)), (''w'', FBool (su_w x)), (''m'', FBool (su_m x)), (''M'', FBool (su_M x)),
     (''O'', fj_num (su_O x)), (''Z'', FString (shw (su_Z x)))]"

record future_data =
  fo_s :: string
  fo_c :: string
  fo_S :: string
  fo_o :: string
  fo_f :: string
  fo_q :: f64
  fo_p :: f64
  fo_ap :: f64
  fo_sp :: f64
  fo_x :: string
  fo_X :: string
  fo_i :: u64
  fo_l :: f64
  fo_z :: f64
  fo_L :: f64
  fo_N :: string
  fo_n :: f64
  fo_T :: u64
  fo_t :: u64
  fo_b :: f64
  fo_a :: f64
  fo_m :: bool
  fo_R :: bool
  fo_wt :: string
  fo_ot :: string
  fo_ps :: string
  fo_cp :: bool
  fo_AP :: f64
  fo_cr :: f64
  fo_rp :: f64

definition zero_future_data :: future_data where
  "zero_future_data = \<lparr>fo_s = [], fo_c = [], fo_S = [], fo_o = [], fo_f = [], fo_q = Zero False, fo_p = Zero False,
     fo_ap = Zero False, fo_sp = Zero False, fo_x = [], fo_X = [], fo_i = 0, fo_l = Zero False, fo_z = Zero False,
     fo_L = Zero False, fo_N = [], fo_n = Zero False, fo_T = 0, fo_t = 0, fo_b = Zero False, fo_a = Zero False,
     fo_m = False, fo_R = False, fo_wt = [], fo_ot = [], fo_ps = [], fo_cp = False, fo_AP = Zero False,
     fo_cr = Zero False, fo_rp = Zero False\<rparr>"

definition future_data_fields :: "future_data field list" where
  "future_data_fields = [FText ''s'' fo_s_update, FText ''c'' fo_c_update, FText ''S'' fo_S_update, FText ''o'' fo_o_update,
     FText ''f'' fo_f_update, FDec ''q'' fo_q_update, FDec ''p'' fo_p_update, FDec ''ap'' fo_ap_update,
     FDec ''sp'' fo_sp_update, FText ''x'' fo_x_update, FText ''X'' fo_X_update, FSize ''i'' fo_i_update,
     FDec ''l'' fo_l_update, FDec ''z'' fo_z_update, FDec ''L'' fo_L_update, FText ''N'' fo_N_update,
     FDec ''n'' fo_n_update, FSize ''T'' fo_T_update, FSize ''t'' fo_t_update, FDec ''b'' fo_b_update,
     FDec ''a'' fo_a_update, FFlag ''m'' fo_m_update, FFlag ''R'' fo_R_update, FText ''wt'' fo_wt_update,
     FText ''ot'' fo_ot_update, FText ''ps'' fo_ps_update, FFlag ''cp'' fo_cp_update, FDec ''rp'' fo_rp_update]"

record future_update =
  fu_e :: string
  fu_E :: u64
  fu_T :: u64
  fu_o :: future_data

definition zero_future_update :: future_update where
  "zero_future_update = \<lparr>fu_e = [], fu_E = 0, fu_T = 0, fu_o = zero_future_data\<rparr>"

definition future_update_construct :: "(string \<Rightarrow> f64 option) \<Rightarrow> fjson \<Rightarrow> fj_error + future_update" where
  "future_update_construct dec json =
    bindE (get_fields dec [FText ''e'' fu_e_update, FSize ''T'' fu_T_update, FSize ''E'' fu_E_update] json zero_future_update) (\<lambda>res.
    bindE (fj_at json ''o'') (\<lambda>order.
    bindE (get_fields dec future_data_fields order (fu_o res)) (\<lambda>d. Inr (res\<lparr>fu_o := d\<rparr>))))"

end
