(* ===== verification/FlatjsonParse.thy ===== *)
theory FlatjsonParse
  imports Flatjson
begin

text \<open>
  The parser of the json library of the Binance library (\<open>fj_parse_value\<close> and what it calls in
  binapi/flatjson.hpp), and the text it dumps.  The parser fills an array of tokens; here it builds the
  value the tokens stand for.  It runs twice, first to count the tokens and then to fill them, and only
  the second run checks the widths of its counters (\<open>filling\<close>); that the array is full never happens,
  because it was counted.  The text is that of a \<open>std::string\<close>, so the character after its end is 0.

  The recursion is bounded by fuel: twice the length of the text is enough (\<open>parse_value_fuel\<close>).
\<close>

section \<open>Characters\<close>

datatype fj_code = FJ_INVALID | FJ_INCOMPLETE | FJ_KLEN_OVERFLOW | FJ_VLEN_OVERFLOW | FJ_CHILDS_OVERFLOW
  | FJ_ABORTED | FJ_NO_FUEL

fun fj_code_number :: "fj_code \<Rightarrow> i32" where
  "fj_code_number FJ_INVALID = - 1"
| "fj_code_number FJ_INCOMPLETE = - 2"
| "fj_code_number FJ_KLEN_OVERFLOW = - 4"
| "fj_code_number FJ_VLEN_OVERFLOW = - 5"
| "fj_code_number FJ_CHILDS_OVERFLOW = - 6"
| "fj_code_number e = 0"

abbreviation char_code :: "char \<Rightarrow> nat" where
  "char_code c \<equiv> of_char c"

definition quote_char :: char where "quote_char = char_of (34 :: nat)"
definition backslash :: char where "backslash = char_of (92 :: nat)"
definition end_char :: char where "end_char = char_of (255 :: nat)"

definition fj_is_space :: "char \<Rightarrow> bool" where
  "fj_is_space c \<longleftrightarrow> char_code c \<in> {32, 9, 13, 10}"

definition fj_is_digit :: "char \<Rightarrow> bool" where
  "fj_is_digit c \<longleftrightarrow> 48 \<le> char_code c \<and> char_code c < 58"

definition fj_is_hex_digit :: "char \<Rightarrow> bool" where
  "fj_is_hex_digit c \<longleftrightarrow> fj_is_digit c \<or> 65 \<le> char_code c \<and> char_code c < 71 \<or> 97 \<le> char_code c \<and> char_code c < 103"

text \<open>The length of a character by its first byte; above 254 an assertion fails.\<close>

definition fj_utf8_char_len :: "char \<Rightarrow> nat" where
  "fj_utf8_char_len c = (let n = char_code c in if n < 128 then 1 else if n < 224 then 2 else if n < 240 then 3 else 4)"

text \<open>\<open>fj_skip_ws\<close>, and the macro that skips and looks; the end looks like the character 255.\<close>

abbreviation fj_skip_ws :: "string \<Rightarrow> string" where
  "fj_skip_ws s \<equiv> dropWhile fj_is_space s"

definition cur_char :: "string \<Rightarrow> char" where
  "cur_char s = (case fj_skip_ws s of [] \<Rightarrow> end_char | c # _ \<Rightarrow> c)"

definition fj_check_and_skip :: "char \<Rightarrow> string \<Rightarrow> fj_code + string" where
  "fj_check_and_skip expected s =
    (if cur_char s = expected then Inr (tl (fj_skip_ws s))
     else if cur_char s = end_char then Inl FJ_INCOMPLETE else Inl FJ_INVALID)"

section \<open>Simple values\<close>

text \<open>The characters of an escape after its backslash; \<open>left\<close> counts from the backslash.\<close>

definition fj_escape_len :: "string \<Rightarrow> nat \<Rightarrow> fj_code + nat" where
  "fj_escape_len s left =
    (case s of
       [] \<Rightarrow> Inl FJ_INVALID
     | c # cs \<Rightarrow>
        if c = CHR ''u''
        then if left < 6 then Inl FJ_INCOMPLETE
             else if list_all fj_is_hex_digit (take 4 cs) then Inr 5 else Inl FJ_INVALID
        else if c = quote_char \<or> c = backslash \<or> c \<in> set ''/bfnrt''
        then if left < 2 then Inl FJ_INCOMPLETE else Inr 1
        else Inl FJ_INVALID)"

text \<open>The text up to the closing quote; \<open>acc\<close> is what was read, backwards.\<close>

function scan_string :: "string \<Rightarrow> string \<Rightarrow> fj_code + string \<times> string" where
  "scan_string acc [] = Inl FJ_INCOMPLETE"
| "scan_string acc (c # cs) =
    (let s = c # cs; len = fj_utf8_char_len c in
     if char_code c = 255 then Inl FJ_ABORTED
     else if char_code c < 32 then Inl FJ_INVALID
     else if length s < len then Inl FJ_INCOMPLETE
     else if c = backslash
     then (case fj_escape_len cs (length s) of
             Inl e \<Rightarrow> Inl e
           | Inr n \<Rightarrow> scan_string (rev (take (len + n) s) @ acc) (drop (len + n) s))
     else if c = quote_char then Inr (rev acc, cs)
     else scan_string (rev (take len s) @ acc) (drop len s))"
  by pat_completeness auto

termination
  by (relation "measure (\<lambda>(acc, s). length s)") (auto simp: fj_utf8_char_len_def Let_def)

definition fj_parse_string :: "string \<Rightarrow> fj_code + string \<times> string" where
  "fj_parse_string s = bindE (fj_check_and_skip quote_char s) (scan_string [])"

text \<open>One digit at least, and all that follow.\<close>

definition skip_digits :: "(char \<Rightarrow> bool) \<Rightarrow> string \<Rightarrow> fj_code + string" where
  "skip_digits digit s =
    (case s of [] \<Rightarrow> Inl FJ_INCOMPLETE | c # _ \<Rightarrow> if digit c then Inr (dropWhile digit s) else Inl FJ_INVALID)"

definition skip_fraction :: "string \<Rightarrow> fj_code + string" where
  "skip_fraction s = (if take 1 s = ''.'' then skip_digits fj_is_digit (tl s) else Inr s)"

definition skip_exponent :: "string \<Rightarrow> fj_code + string" where
  "skip_exponent s =
    (if take 1 s = ''e'' \<or> take 1 s = ''E''
     then let t = tl s in skip_digits fj_is_digit (if take 1 t = ''+'' \<or> take 1 t = ''-'' then tl t else t)
     else Inr s)"

definition fj_parse_number :: "string \<Rightarrow> fj_code + string \<times> string" where
  "fj_parse_number start =
    (let s = (if take 1 start = ''-'' then tl start else start) in
     bindE (if take 2 s = ''0x'' then skip_digits fj_is_hex_digit (drop 2 s)
            else bindE (skip_digits fj_is_digit s) (\<lambda>s1. bindE (skip_fraction s1) skip_exponent)) (\<lambda>r.
     let v = take (length start - length r) start in
     if 1 < length v \<and> take 1 v = ''0'' \<and> take 1 (tl v) \<noteq> ''.'' then Inl FJ_INVALID else Inr (v, r)))"

definition fj_expect :: "string \<Rightarrow> string \<Rightarrow> fj_code + string" where
  "fj_expect word s =
    (if length s < length word then Inl FJ_INCOMPLETE
     else if take (length word) s = word then Inr (drop (length word) s) else Inl FJ_INVALID)"

section \<open>Values\<close>

definition value_length :: "fjson \<Rightarrow> nat" where
  "value_length v = (case v of FNull \<Rightarrow> 4 | FBool b \<Rightarrow> (if b then 4 else 5) | FNumber s \<Rightarrow> length s | FString s \<Rightarrow> length s | _ \<Rightarrow> 0)"

definition over :: "bool \<Rightarrow> nat \<Rightarrow> nat \<Rightarrow> bool" where
  "over filling n m \<longleftrightarrow> filling \<and> m \<le> n"

text \<open>After an element: an optional comma, which must not stand directly before the end.\<close>

definition skip_comma :: "char \<Rightarrow> string \<Rightarrow> fj_code + string" where
  "skip_comma close s =
    (if cur_char s = CHR '',''
     then let t = tl (fj_skip_ws s) in if take 1 t = [close] then Inl FJ_INVALID else Inr t
     else Inr (fj_skip_ws s))"

text \<open>\<open>n\<close> is the number of children so far.\<close>

fun parse_value :: "bool \<Rightarrow> nat \<Rightarrow> string \<Rightarrow> fj_code + fjson \<times> string"
  and parse_elements :: "bool \<Rightarrow> nat \<Rightarrow> nat \<Rightarrow> string \<Rightarrow> fj_code + fjson list \<times> string"
  and parse_members :: "bool \<Rightarrow> nat \<Rightarrow> nat \<Rightarrow> string \<Rightarrow> fj_code + (string \<times> fjson) list \<times> string" where
  "parse_value filling 0 s = Inl FJ_NO_FUEL"
| "parse_value filling (Suc k) s =
    (let c = cur_char s; t = fj_skip_ws s in
     if c = CHR ''{'' then bindE (parse_members filling k 0 (tl t)) (\<lambda>(kvs, r). Inr (FObject kvs, r))
     else if c = CHR ''['' then bindE (parse_elements filling k 0 (tl t)) (\<lambda>(js, r). Inr (FArray js, r))
     else if c = CHR ''n'' then bindE (fj_expect ''null'' t) (\<lambda>r. Inr (FNull, r))
     else if c = CHR ''t'' then bindE (fj_expect ''true'' t) (\<lambda>r. Inr (FBool True, r))
     else if c = CHR ''f'' then bindE (fj_expect ''false'' t) (\<lambda>r. Inr (FBool False, r))
     else if c = CHR ''-'' \<or> fj_is_digit c then bindE (fj_parse_number t) (\<lambda>(v, r). Inr (FNumber v, r))
     else if c = quote_char then bindE (fj_parse_string t) (\<lambda>(v, r). Inr (FString v, r))
     else if c = end_char then Inl FJ_INCOMPLETE else Inl FJ_INVALID)"
| "parse_elements filling 0 n s = Inl FJ_NO_FUEL"
| "parse_elements filling (Suc k) n s =
    (if over filling n 65535 then Inl FJ_CHILDS_OVERFLOW
     else if cur_char s = CHR '']'' then Inr ([], tl (fj_skip_ws s))
     else bindE (parse_value filling k s) (\<lambda>(v, r).
          if over filling (value_length v) (2 ^ 32 - 1) then Inl FJ_VLEN_OVERFLOW
          else bindE (skip_comma (CHR '']'') r) (\<lambda>r1.
               bindE (parse_elements filling k (Suc n) r1) (\<lambda>(vs, r2). Inr (v # vs, r2)))))"
| "parse_members filling 0 n s = Inl FJ_NO_FUEL"
| "parse_members filling (Suc k) n s =
    (if cur_char s = CHR ''}''
     then if over filling n 65535 then Inl FJ_CHILDS_OVERFLOW else Inr ([], tl (fj_skip_ws s))
     else if cur_char s \<noteq> quote_char then Inl (if cur_char s = end_char then FJ_INCOMPLETE else FJ_INVALID)
     else bindE (fj_parse_string s) (\<lambda>(key, r).
          if over filling (length key) 255 then Inl FJ_KLEN_OVERFLOW
          else bindE (fj_check_and_skip (CHR '':'') r) (\<lambda>r1.
               if over filling n 65535 then Inl FJ_CHILDS_OVERFLOW
               else bindE (parse_value filling k r1) (\<lambda>(v, r2).
                    if over filling (value_length v) (2 ^ 32 - 1) then Inl FJ_VLEN_OVERFLOW
                    else bindE (skip_comma (CHR ''}'') r2) (\<lambda>r3.
                         bindE (parse_members filling k (Suc n) r3) (\<lambda>(kvs, r4). Inr ((key, v) # kvs, r4)))))))"

text \<open>Loading a text.  An empty text is not loaded, and that is not an error; one character after the
  value is taken without looking at it.\<close>

datatype fj_loaded = NotLoaded i32 | LoadAborts | Loaded fjson

definition fj_fuel :: "string \<Rightarrow> nat" where
  "fj_fuel s = 2 * length s + 2"

definition fj_load :: "string \<Rightarrow> fj_loaded" where
  "fj_load s =
    (let failed = (\<lambda>e. if e = FJ_ABORTED then LoadAborts else NotLoaded (fj_code_number e)) in
     if s = [] then NotLoaded 0
     else case parse_value False (fj_fuel s) s of
       Inl e \<Rightarrow> failed e
     | Inr (_, r) \<Rightarrow>
        if length r \<noteq> 1 \<and> fj_skip_ws r \<noteq> [] then failed FJ_INVALID
        else (case parse_value True (fj_fuel s) s of Inl e \<Rightarrow> failed e | Inr (v, _) \<Rightarrow> Loaded v))"

section \<open>Texts\<close>

text \<open>What \<open>dump\<close> writes of a value without indentation.\<close>

fun join_with :: "string \<Rightarrow> string list \<Rightarrow> string" where
  "join_with sep [] = []"
| "join_with sep [x] = x"
| "join_with sep (x # y # xs) = x @ sep @ join_with sep (y # xs)"

definition quoted :: "string \<Rightarrow> string" where
  "quoted s = quote_char # s @ [quote_char]"

fun fj_text :: "fjson \<Rightarrow> string" where
  "fj_text FNull = ''null''"
| "fj_text (FBool b) = (if b then ''true'' else ''false'')"
| "fj_text (FNumber s) = s"
| "fj_text (FString s) = quoted s"
| "fj_text (FArray js) = ''['' @ join_with '','' (map fj_text js) @ '']''"
| "fj_text (FObject kvs) = ''{'' @ join_with '','' (map (\<lambda>(k, v). quoted k @ '':'' @ fj_text v) kvs) @ ''}''"

end
