(* ===== verification/RestTypes.thy ===== *)
theory RestTypes
  imports StreamTypes BinanceConvert FlatjsonParse
begin

text \<open>
  The answers of the exchange to requests (the namespace \<open>rest\<close> of binapi/types.hpp and types.cpp),
  written as the messages of \<open>StreamTypes\<close>: a record, the fields that are read, \<open>construct\<close>, and the
  value whose text \<open>operator<<\<close> prints.  The sums over the fills of an order and the arithmetic of
  balances, which nothing calls, are left out.
\<close>

record leverage_info =
  lv_leverage :: i32
  lv_maxNotionalValue :: f64
  lv_symbol :: string

definition zero_leverage_info :: leverage_info where
  "zero_leverage_info = \<lparr>lv_leverage = 0, lv_maxNotionalValue = Zero False, lv_symbol = []\<rparr>"

definition leverage_info_fields :: "leverage_info field list" where
  "leverage_info_fields = [FInt ''leverage'' lv_leverage_update, FDec ''maxNotionalValue'' lv_maxNotionalValue_update,
     FText ''symbol'' lv_symbol_update]"

definition leverage_info_construct :: "(string \<Rightarrow> f64 option) \<Rightarrow> fjson \<Rightarrow> fj_error + leverage_info" where
  "leverage_info_construct dec json = get_fields dec leverage_info_fields json zero_leverage_info"

definition leverage_info_json :: "(f64 \<Rightarrow> string) \<Rightarrow> leverage_info \<Rightarrow> fjson" where
  "leverage_info_json shw x = FObject [(''symbol'', FString (lv_symbol x)), (''leverage'', FNumber (show_int (lv_leverage x))),
     (''maxNotionalValue'', FNumber (shw (lv_maxNotionalValue x)))]"

text \<open>Four answers say no more than that they are empty.\<close>

definition ping_construct :: "fjson \<Rightarrow> fj_error + bool" where
  "ping_construct json = bindE (fj_assert (is_object json)) (\<lambda>_. Inr (fj_size json = 0))"

definition new_test_order_construct :: "fjson \<Rightarrow> fj_error + bool" where
  "new_test_order_construct json = bindE (fj_assert (is_object json)) (\<lambda>_. Inr (fj_size json = 0))"

definition ping_user_data_stream_construct :: "fjson \<Rightarrow> fj_error + bool" where
  "ping_user_data_stream_construct json = Inr (is_object json \<and> fj_size json = 0)"

definition close_user_data_stream_construct :: "fjson \<Rightarrow> fj_error + bool" where
  "close_user_data_stream_construct json = Inr (is_object json \<and> fj_size json = 0)"

text \<open>The instruments of the futures are kept as the text of the answer; printing a simple value looks at
  the token it is in, and the outermost is in none.\<close>

definition future_exchange_info_construct :: "fjson \<Rightarrow> fj_error + string" where
  "future_exchange_info_construct json =
    (if is_object json \<or> is_array json then Inr (fj_text json) else Inl NullRead)"

record server_time =
  svt_serverTime :: u64

definition zero_server_time :: server_time where
  "zero_server_time = \<lparr>svt_serverTime = 0\<rparr>"

definition server_time_fields :: "server_time field list" where
  "server_time_fields = [FSize ''serverTime'' svt_serverTime_update]"

definition server_time_construct :: "(string \<Rightarrow> f64 option) \<Rightarrow> fjson \<Rightarrow> fj_error + server_time" where
  "server_time_construct dec json = get_fields dec server_time_fields json zero_server_time"

definition server_time_json :: "(f64 \<Rightarrow> string) \<Rightarrow> server_time \<Rightarrow> fjson" where
  "server_time_json shw x = FObject [(''serverTime'', fj_num (svt_serverTime x))]"

record avg_price =
  avp_mins :: u64
  avp_price :: f64

definition zero_avg_price :: avg_price where
  "zero_avg_price = \<lparr>avp_mins = 0, avp_price = Zero False\<rparr>"

definition avg_price_fields :: "avg_price field list" where
  "avg_price_fields = [FSize ''mins'' avp_mins_update, FDec ''price'' avp_price_update]"

definition avg_price_construct :: "(string \<Rightarrow> f64 option) \<Rightarrow> fjson \<Rightarrow> fj_error + avg_price" where
  "avg_price_construct dec json = get_fields dec avg_price_fields json zero_avg_price"

definition avg_price_json :: "(f64 \<Rightarrow> string) \<Rightarrow> avg_price \<Rightarrow> fjson" where
  "avg_price_json shw x = FObject [(''mins'', fj_num (avp_mins x)), (''price'', FString (shw (avp_price x)))]"

section \<open>The market\<close>

record symbol_price =
  spx_symbol :: string
  spx_price :: f64

definition zero_symbol_price :: symbol_price where
  "zero_symbol_price = \<lparr>spx_symbol = [], spx_price = Zero False\<rparr>"

definition symbol_price_fields :: "symbol_price field list" where
  "symbol_price_fields = [FText ''symbol'' spx_symbol_update, FDec ''price'' spx_price_update]"

definition symbol_price_construct :: "(string \<Rightarrow> f64 option) \<Rightarrow> fjson \<Rightarrow> fj_error + symbol_price" where
  "symbol_price_construct dec json = get_fields dec symbol_price_fields json zero_symbol_price"

definition symbol_price_json :: "(f64 \<Rightarrow> string) \<Rightarrow> symbol_price \<Rightarrow> fjson" where
  "symbol_price_json shw x = FObject [(''symbol'', FString (spx_symbol x)), (''price'', FString (shw (spx_price x)))]"

record day_ticker =
  dt_symbol :: string
  dt_priceChange :: f64
  dt_priceChangePercent :: f64
  dt_weightedAvgPrice :: f64
  dt_prevClosePrice :: f64
  dt_lastPrice :: f64
  dt_lastQty :: f64
  dt_bidPrice :: f64
  dt_askPrice :: f64
  dt_openPrice :: f64
  dt_highPrice :: f64
  dt_lowPrice :: f64
  dt_volume :: f64
  dt_quoteVolume :: f64
  dt_openTime :: u64
  dt_closeTime :: u64
  dt_firstId :: u64
  dt_lastId :: u64
  dt_count :: u64

definition zero_day_ticker :: day_ticker where
  "zero_day_ticker = \<lparr>dt_symbol = [], dt_priceChange = Zero False, dt_priceChangePercent = Zero False,
     dt_weightedAvgPrice = Zero False, dt_prevClosePrice = Zero False, dt_lastPrice = Zero False,
     dt_lastQty = Zero False, dt_bidPrice = Zero False, dt_askPrice = Zero False, dt_openPrice = Zero False,
     dt_highPrice = Zero False, dt_lowPrice = Zero False, dt_volume = Zero False, dt_quoteVolume = Zero False,
     dt_openTime = 0, dt_closeTime = 0, dt_firstId = 0, dt_lastId = 0, dt_count = 0\<rparr>"

definition day_ticker_fields :: "day_ticker field list" where
  "day_ticker_fields = [FText ''symbol'' dt_symbol_update, FDec ''priceChange'' dt_priceChange_update,
     FDec ''priceChangePercent'' dt_priceChangePercent_update, FDec ''weightedAvgPrice'' dt_weightedAvgPrice_update,
     FDec ''prevClosePrice'' dt_prevClosePrice_update, FDec ''lastPrice'' dt_lastPrice_update,
     FDec ''lastQty'' dt_lastQty_update, FDec ''bidPrice'' dt_bidPrice_update, FDec ''askPrice'' dt_askPrice_update,
     FDec ''openPrice'' dt_openPrice_update, FDec ''highPrice'' dt_highPrice_update,
     FDec ''lowPrice'' dt_lowPrice_update, FDec ''volume'' dt_volume_update,
     FDec ''quoteVolume'' dt_quoteVolume_update, FSize ''openTime'' dt_openTime_update,
     FSize ''closeTime'' dt_closeTime_update, FSize ''firstId'' dt_firstId_update,
     FSize ''lastId'' dt_lastId_update, FSize ''count'' dt_count_update]"

definition day_ticker_construct :: "(string \<Rightarrow> f64 option) \<Rightarrow> fjson \<Rightarrow> fj_error + day_ticker" where
  "day_ticker_construct dec json = get_fields dec day_ticker_fields json zero_day_ticker"

definition day_ticker_json :: "(f64 \<Rightarrow> string) \<Rightarrow> day_ticker \<Rightarrow> fjson" where
  "day_ticker_json shw x = FObject [(''symbol'', FString (dt_symbol x)), (''priceChange'', FString (shw (dt_priceChange x))),
     (''priceChangePercent'', FString (shw (dt_priceChangePercent x))),
     (''weightedAvgPrice'', FString (shw (dt_weightedAvgPrice x))),
     (''prevClosePrice'', FString (shw (dt_prevClosePrice x))), (''lastPrice'', FString (shw (dt_lastPrice x))),
     (''lastQty'', FString (shw (dt_lastQty x))), (''bidPrice'', FString (shw (dt_bidPrice x))),
     (''askPrice'', FString (shw (dt_askPrice x))), (''openPrice'', FString (shw (dt_openPrice x))),
     (''highPrice'', FString (shw (dt_highPrice x))), (''lowPrice'', FString (shw (dt_lowPrice x))),
     (''volume'', FString (shw (dt_volume x))), (''quoteVolume'', FString (shw (dt_quoteVolume x))),
     (''openTime'', fj_num (dt_openTime x)), (''closeTime'', fj_num (dt_closeTime x)),
     (''firstId'', fj_num (dt_firstId x)), (''lastId'', fj_num (dt_lastId x)), (''count'', fj_num (dt_count x))]"

text \<open>Tables by symbol: the first entry of each is kept.\<close>

definition prices_construct :: "(string \<Rightarrow> f64 option) \<Rightarrow> fjson \<Rightarrow> fj_error + (string \<times> symbol_price) list" where
  "prices_construct dec json =
    bindE (fj_assert (is_array json)) (\<lambda>_.
    each_element json (\<lambda>it prices.
      bindE (symbol_price_construct dec it) (\<lambda>item. Inr (emplace (spx_symbol item) item prices))) [])"

definition day_tickers_construct :: "(string \<Rightarrow> f64 option) \<Rightarrow> fjson \<Rightarrow> fj_error + (string \<times> day_ticker) list" where
  "day_tickers_construct dec json =
    each_element json (\<lambda>it tickers.
      bindE (fj_assert (is_object it)) (\<lambda>_.
      bindE (day_ticker_construct dec it) (\<lambda>item. Inr (emplace (dt_symbol item) item tickers)))) []"

record order_depths =
  od_lastUpdateId :: u64
  od_bids :: "(f64 \<times> f64) list"
  od_asks :: "(f64 \<times> f64) list"

text \<open>Here every level is asserted to be an array.\<close>

definition read_rest_level :: "(string \<Rightarrow> f64 option) \<Rightarrow> fjson \<Rightarrow> (f64 \<times> f64) list \<Rightarrow> fj_error + (f64 \<times> f64) list" where
  "read_rest_level dec it r = bindE (fj_assert (is_array it)) (\<lambda>_. read_level dec it r)"

definition order_depths_construct :: "(string \<Rightarrow> f64 option) \<Rightarrow> fjson \<Rightarrow> fj_error + order_depths" where
  "order_depths_construct dec json =
    bindE (get_fields dec [FSize ''lastUpdateId'' od_lastUpdateId_update] json \<lparr>od_lastUpdateId = 0, od_bids = [], od_asks = []\<rparr>) (\<lambda>res.
    bindE (fj_at json ''bids'') (\<lambda>b.
    bindE (fj_assert (is_array b)) (\<lambda>_.
    bindE (each_element b (read_rest_level dec) []) (\<lambda>bids.
    bindE (fj_at json ''asks'') (\<lambda>a.
    bindE (fj_assert (is_array a)) (\<lambda>_.
    bindE (each_element a (read_rest_level dec) []) (\<lambda>asks.
      Inr (res\<lparr>od_bids := bids, od_asks := asks\<rparr>))))))))"

record rest_trade =
  rt_id :: u64
  rt_price :: f64
  rt_qty :: f64
  rt_time :: u64
  rt_isBuyerMaker :: bool
  rt_isBestMatch :: bool

definition zero_rest_trade :: rest_trade where
  "zero_rest_trade = \<lparr>rt_id = 0, rt_price = Zero False, rt_qty = Zero False, rt_time = 0, rt_isBuyerMaker = False,
     rt_isBestMatch = False\<rparr>"

definition rest_trade_fields :: "rest_trade field list" where
  "rest_trade_fields = [FSize ''id'' rt_id_update, FDec ''price'' rt_price_update, FDec ''qty'' rt_qty_update,
     FSize ''time'' rt_time_update, FFlag ''isBuyerMaker'' rt_isBuyerMaker_update,
     FFlag ''isBestMatch'' rt_isBestMatch_update]"

record rest_agg_trade =
  ra_id :: u64
  ra_price :: f64
  ra_qty :: f64
  ra_first_id :: u64
  ra_last_id :: u64
  ra_time :: u64
  ra_isBuyerMaker :: bool
  ra_isBestMatch :: bool

definition zero_rest_agg_trade :: rest_agg_trade where
  "zero_rest_agg_trade = \<lparr>ra_id = 0, ra_price = Zero False, ra_qty = Zero False, ra_first_id = 0, ra_last_id = 0, ra_time = 0,
     ra_isBuyerMaker = False, ra_isBestMatch = False\<rparr>"

definition rest_agg_trade_fields :: "rest_agg_trade field list" where
  "rest_agg_trade_fields = [FSize ''a'' ra_id_update, FDec ''p'' ra_price_update, FDec ''q'' ra_qty_update, FSize ''f'' ra_first_id_update,
     FSize ''l'' ra_last_id_update, FSize ''T'' ra_time_update, FFlag ''m'' ra_isBuyerMaker_update,
     FFlag ''M'' ra_isBestMatch_update]"

text \<open>One trade is the first of a list.\<close>

definition rest_trade_construct :: "(string \<Rightarrow> f64 option) \<Rightarrow> fjson \<Rightarrow> fj_error + rest_trade" where
  "rest_trade_construct dec json = bindE (fj_elem json 0) (\<lambda>it. get_fields dec rest_trade_fields it zero_rest_trade)"

definition rest_trades_construct :: "(string \<Rightarrow> f64 option) \<Rightarrow> fjson \<Rightarrow> fj_error + rest_trade list" where
  "rest_trades_construct dec json =
    each_element json (\<lambda>it trades. bindE (get_fields dec rest_trade_fields it zero_rest_trade) (\<lambda>item. Inr (trades @ [item]))) []"

definition rest_agg_trade_construct :: "(string \<Rightarrow> f64 option) \<Rightarrow> fjson \<Rightarrow> fj_error + rest_agg_trade" where
  "rest_agg_trade_construct dec json = bindE (fj_elem json 0) (\<lambda>it. get_fields dec rest_agg_trade_fields it zero_rest_agg_trade)"

definition rest_agg_trades_construct :: "(string \<Rightarrow> f64 option) \<Rightarrow> fjson \<Rightarrow> fj_error + rest_agg_trade list" where
  "rest_agg_trades_construct dec json =
    each_element json (\<lambda>it trades. bindE (get_fields dec rest_agg_trade_fields it zero_rest_agg_trade) (\<lambda>item. Inr (trades @ [item]))) []"

record rest_kline =
  rk_start_time :: u64
  rk_end_time :: u64
  rk_open :: f64
  rk_high :: f64
  rk_low :: f64
  rk_close :: f64
  rk_volume :: f64
  rk_quote_volume :: f64
  rk_num_trades :: u64
  rk_taker_buy_base_vol :: f64
  rk_taker_buy_quote_vol :: f64

definition zero_rest_kline :: rest_kline where
  "zero_rest_kline = \<lparr>rk_start_time = 0, rk_end_time = 0, rk_open = Zero False, rk_high = Zero False, rk_low = Zero False,
     rk_close = Zero False, rk_volume = Zero False, rk_quote_volume = Zero False, rk_num_trades = 0,
     rk_taker_buy_base_vol = Zero False, rk_taker_buy_quote_vol = Zero False\<rparr>"

text \<open>A candle is an array; here an integer that cannot be read throws.\<close>

definition elem_size :: "fjson \<Rightarrow> nat \<Rightarrow> fj_error + u64" where
  "elem_size it n = bindE (fj_elem it n) fj_to_size"

definition elem_decimal :: "(string \<Rightarrow> f64 option) \<Rightarrow> fjson \<Rightarrow> nat \<Rightarrow> fj_error + f64" where
  "elem_decimal dec it n = bindE (bindE (fj_elem it n) fj_to_string) (to_decimal dec)"

definition read_kline :: "(string \<Rightarrow> f64 option) \<Rightarrow> fjson \<Rightarrow> rest_kline list \<Rightarrow> fj_error + rest_kline list" where
  "read_kline dec it klines =
    bindE (fj_assert (is_array it)) (\<lambda>_.
    bindE (elem_size it 0) (\<lambda>start_time.
    bindE (elem_decimal dec it 1) (\<lambda>op.
    bindE (elem_decimal dec it 2) (\<lambda>high.
    bindE (elem_decimal dec it 3) (\<lambda>low.
    bindE (elem_decimal dec it 4) (\<lambda>close.
    bindE (elem_decimal dec it 5) (\<lambda>volume.
    bindE (elem_size it 6) (\<lambda>end_time.
    bindE (elem_decimal dec it 7) (\<lambda>quote_volume.
    bindE (elem_size it 8) (\<lambda>num_trades.
    bindE (elem_decimal dec it 9) (\<lambda>base_vol.
    bindE (elem_decimal dec it 10) (\<lambda>quote_vol.
      Inr (klines @ [\<lparr>rk_start_time = start_time, rk_end_time = end_time, rk_open = op, rk_high = high, rk_low = low,
        rk_close = close, rk_volume = volume, rk_quote_volume = quote_volume, rk_num_trades = num_trades,
        rk_taker_buy_base_vol = base_vol, rk_taker_buy_quote_vol = quote_vol\<rparr>])))))))))))))"

definition klines_construct :: "(string \<Rightarrow> f64 option) \<Rightarrow> fjson \<Rightarrow> fj_error + rest_kline list" where
  "klines_construct dec json = each_element json (read_kline dec) []"

section \<open>Instruments\<close>

record price_filter =
  pf_minPrice :: f64
  pf_maxPrice :: f64
  pf_tickSize :: f64

definition zero_price_filter :: price_filter where
  "zero_price_filter = \<lparr>pf_minPrice = Zero False, pf_maxPrice = Zero False, pf_tickSize = Zero False\<rparr>"

record percent_price =
  pp_multiplierUp :: f64
  pp_multiplierDown :: f64
  pp_avgPriceMins :: u64

definition zero_percent_price :: percent_price where
  "zero_percent_price = \<lparr>pp_multiplierUp = Zero False, pp_multiplierDown = Zero False, pp_avgPriceMins = 0\<rparr>"

record percent_price_by_side =
  ps_bidMultiplierUp :: f64
  ps_bidMultiplierDown :: f64
  ps_askMultiplierUp :: f64
  ps_askMultiplierDown :: f64
  ps_avgPriceMins :: u64

definition zero_percent_price_by_side :: percent_price_by_side where
  "zero_percent_price_by_side = \<lparr>ps_bidMultiplierUp = Zero False, ps_bidMultiplierDown = Zero False, ps_askMultiplierUp = Zero False,
     ps_askMultiplierDown = Zero False, ps_avgPriceMins = 0\<rparr>"

record lot_size =
  lz_minQty :: f64
  lz_maxQty :: f64
  lz_stepSize :: f64

definition zero_lot_size :: lot_size where
  "zero_lot_size = \<lparr>lz_minQty = Zero False, lz_maxQty = Zero False, lz_stepSize = Zero False\<rparr>"

record market_lot_size =
  mz_minQty :: f64
  mz_maxQty :: f64
  mz_stepSize :: f64

definition zero_market_lot_size :: market_lot_size where
  "zero_market_lot_size = \<lparr>mz_minQty = Zero False, mz_maxQty = Zero False, mz_stepSize = Zero False\<rparr>"

record min_notional =
  mn_minNotional :: f64

definition zero_min_notional :: min_notional where
  "zero_min_notional = \<lparr>mn_minNotional = Zero False\<rparr>"

record iceberg_parts =
  ip_limit :: u64

definition zero_iceberg_parts :: iceberg_parts where
  "zero_iceberg_parts = \<lparr>ip_limit = 0\<rparr>"

record max_num_orders =
  mo_maxNumOrders :: u64

definition zero_max_num_orders :: max_num_orders where
  "zero_max_num_orders = \<lparr>mo_maxNumOrders = 0\<rparr>"

record max_num_algo_orders =
  ma_maxNumAlgoOrders :: u64

definition zero_max_num_algo_orders :: max_num_algo_orders where
  "zero_max_num_algo_orders = \<lparr>ma_maxNumAlgoOrders = 0\<rparr>"

record max_position =
  mp_maxPosition :: f64

definition zero_max_position :: max_position where
  "zero_max_position = \<lparr>mp_maxPosition = Zero False\<rparr>"

record trailing_delta =
  td_minTrailingAboveDelta :: u64
  td_maxTrailingAboveDelta :: u64
  td_minTrailingBelowDelta :: u64
  td_maxTrailingBelowDelta :: u64

definition zero_trailing_delta :: trailing_delta where
  "zero_trailing_delta = \<lparr>td_minTrailingAboveDelta = 0, td_maxTrailingAboveDelta = 0, td_minTrailingBelowDelta = 0,
     td_maxTrailingBelowDelta = 0\<rparr>"

text \<open>The variant of the eleven kinds of filter.\<close>

datatype filter_kind =
    PriceFilter price_filter
  | PercentPrice percent_price
  | PercentPriceBySide percent_price_by_side
  | LotSize lot_size
  | MarketLotSize market_lot_size
  | MinNotional min_notional
  | IcebergParts iceberg_parts
  | MaxNumOrders max_num_orders
  | MaxNumAlgoOrders max_num_algo_orders
  | MaxPosition max_position
  | TrailingDelta trailing_delta

text \<open>The switch over the hash of the name; an unknown one leaves the variant as it was made, an empty
  price filter.\<close>

definition read_filter :: "(string \<Rightarrow> f64 option) \<Rightarrow> fjson \<Rightarrow> u32 \<Rightarrow> fj_error + filter_kind" where
  "read_filter dec fit h =
    (if h = fnv1a ''PRICE_FILTER'' then bindE (get_fields dec [FDec ''minPrice'' pf_minPrice_update, FDec ''maxPrice'' pf_maxPrice_update,
         FDec ''tickSize'' pf_tickSize_update] fit zero_price_filter)
       (\<lambda>x. Inr (PriceFilter x))
     else if h = fnv1a ''PERCENT_PRICE'' then bindE (get_fields dec [FDec ''multiplierUp'' pp_multiplierUp_update, FDec ''multiplierDown'' pp_multiplierDown_update,
         FSize ''avgPriceMins'' pp_avgPriceMins_update] fit zero_percent_price)
       (\<lambda>x. Inr (PercentPrice x))
     else if h = fnv1a ''PERCENT_PRICE_BY_SIDE'' then bindE (get_fields dec [FDec ''bidMultiplierUp'' ps_bidMultiplierUp_update, FDec ''bidMultiplierDown'' ps_bidMultiplierDown_update,
         FDec ''askMultiplierUp'' ps_askMultiplierUp_update, FDec ''askMultiplierDown'' ps_askMultiplierDown_update,
         FSize ''avgPriceMins'' ps_avgPriceMins_update] fit zero_percent_price_by_side)
       (\<lambda>x. Inr (PercentPriceBySide x))
     else if h = fnv1a ''LOT_SIZE'' then bindE (get_fields dec [FDec ''minQty'' lz_minQty_update, FDec ''maxQty'' lz_maxQty_update, FDec ''stepSize'' lz_stepSize_update] fit zero_lot_size)
       (\<lambda>x. Inr (LotSize x))
     else if h = fnv1a ''MARKET_LOT_SIZE'' then bindE (get_fields dec [FDec ''minQty'' mz_minQty_update, FDec ''maxQty'' mz_maxQty_update, FDec ''stepSize'' mz_stepSize_update] fit zero_market_lot_size)
       (\<lambda>x. Inr (MarketLotSize x))
     else if h = fnv1a ''MIN_NOTIONAL'' then bindE (get_fields dec [FDec ''minNotional'' mn_minNotional_update] fit zero_min_notional)
       (\<lambda>x. Inr (MinNotional x))
     else if h = fnv1a ''ICEBERG_PARTS'' then bindE (get_fields dec [FSize ''limit'' ip_limit_update] fit zero_iceberg_parts)
       (\<lambda>x. Inr (IcebergParts x))
     else if h = fnv1a ''MAX_NUM_ORDERS'' then bindE (get_fields dec [FSize ''maxNumOrders'' mo_maxNumOrders_update] fit zero_max_num_orders)
       (\<lambda>x. Inr (MaxNumOrders x))
     else if h = fnv1a ''MAX_NUM_ALGO_ORDERS'' then bindE (get_fields dec [FSize ''maxNumAlgoOrders'' ma_maxNumAlgoOrders_update] fit zero_max_num_algo_orders)
       (\<lambda>x. Inr (MaxNumAlgoOrders x))
     else if h = fnv1a ''MAX_POSITION'' then bindE (get_fields dec [FDec ''maxPosition'' mp_maxPosition_update] fit zero_max_position)
       (\<lambda>x. Inr (MaxPosition x))
     else if h = fnv1a ''TRAILING_DELTA'' then bindE (get_fields dec [FSize ''minTrailingAboveDelta'' td_minTrailingAboveDelta_update,
         FSize ''maxTrailingAboveDelta'' td_maxTrailingAboveDelta_update,
         FSize ''minTrailingBelowDelta'' td_minTrailingBelowDelta_update,
         FSize ''maxTrailingBelowDelta'' td_maxTrailingBelowDelta_update] fit zero_trailing_delta)
       (\<lambda>x. Inr (TrailingDelta x))
     else Inr (PriceFilter zero_price_filter))"

fun filter_json :: "(f64 \<Rightarrow> string) \<Rightarrow> filter_kind \<Rightarrow> fjson" where
  "filter_json shw (PriceFilter x) = FObject [(''filterType'', FString ''PRICE_FILTER''), (''minPrice'', FString (shw (pf_minPrice x))),
     (''maxPrice'', FString (shw (pf_maxPrice x))), (''tickSize'', FString (shw (pf_tickSize x)))]"
| "filter_json shw (PercentPrice x) = FObject [(''filterType'', FString ''PERCENT_PRICE''), (''multiplierUp'', FString (shw (pp_multiplierUp x))),
     (''multiplierDown'', FString (shw (pp_multiplierDown x))), (''avgPriceMins'', fj_num (pp_avgPriceMins x))]"
| "filter_json shw (PercentPriceBySide x) = FObject [(''filterType'', FString ''PERCENT_PRICE_BY_SIDE''),
     (''bidMultiplierUp'', FString (shw (ps_bidMultiplierUp x))),
     (''bidMultiplierDown'', FString (shw (ps_bidMultiplierDown x))),
     (''askMultiplierUp'', FString (shw (ps_askMultiplierUp x))),
     (''askMultiplierDown'', FString (shw (ps_askMultiplierDown x))), (''avgPriceMins'', fj_num (ps_avgPriceMins x))]"
| "filter_json shw (LotSize x) = FObject [(''filterType'', FString ''LOT_SIZE''), (''minQty'', FString (shw (lz_minQty x))),
     (''maxQty'', FString (shw (lz_maxQty x))), (''stepSize'', FString (shw (lz_stepSize x)))]"
| "filter_json shw (MarketLotSize x) = FObject [(''filterType'', FString ''MARKET_LOT_SIZE''), (''minQty'', FString (shw (mz_minQty x))),
     (''maxQty'', FString (shw (mz_maxQty x))), (''stepSize'', FString (shw (mz_stepSize x)))]"
| "filter_json shw (MinNotional x) = FObject [(''filterType'', FString ''MIN_NOTIONAL''), (''minNotional'', FString (shw (mn_minNotional x)))]"
| "filter_json shw (IcebergParts x) = FObject [(''filterType'', FString ''ICEBERG_PARTS''), (''limit'', fj_num (ip_limit x))]"
| "filter_json shw (MaxNumOrders x) = FObject [(''filterType'', FString ''MAX_NUM_ORDERS''), (''maxNumOrders'', fj_num (mo_maxNumOrders x))]"
| "filter_json shw (MaxNumAlgoOrders x) = FObject [(''filterType'', FString ''MAX_NUM_ALGO_ORDERS''), (''maxNumAlgoOrders'', fj_num (ma_maxNumAlgoOrders x))]"
| "filter_json shw (MaxPosition x) = FObject [(''filterType'', FString ''MAX_POSITION''), (''maxPosition'', FString (shw (mp_maxPosition x)))]"
| "filter_json shw (TrailingDelta x) = FObject [(''filterType'', FString ''TRAILING_DELTA''),
     (''minTrailingAboveDelta'', FString (show_nat (unat (td_minTrailingAboveDelta x)))),
     (''maxTrailingAboveDelta'', FString (show_nat (unat (td_maxTrailingAboveDelta x)))),
     (''minTrailingBelowDelta'', FString (show_nat (unat (td_minTrailingBelowDelta x)))),
     (''maxTrailingBelowDelta'', FString (show_nat (unat (td_maxTrailingBelowDelta x))))]"

record symbol_filter =
  sf_filterType :: string
  sf_filter :: filter_kind

record rate_limit =
  rl_rateLimitType :: string
  rl_interval :: string
  rl_limit :: u64

record symbol_info =
  sy_symbol :: string
  sy_status :: string
  sy_baseAsset :: string
  sy_baseAssetPrecision :: u64
  sy_quoteAsset :: string
  sy_quotePrecision :: u64
  sy_orderTypes :: "string list"
  sy_icebergAllowed :: bool
  sy_filters :: "symbol_filter list"

record exchange_info =
  xi_timezone :: string
  xi_serverTime :: u64
  xi_exchangeFilters :: "string list"
  xi_rateLimits :: "rate_limit list"
  xi_symbols :: "(string \<times> symbol_info) list"

text \<open>A member that is asserted to be a list, and what is read of its elements.\<close>

definition read_list :: "fjson \<Rightarrow> string \<Rightarrow> (fjson \<Rightarrow> fj_error + 'a) \<Rightarrow> fj_error + 'a list" where
  "read_list json k f =
    bindE (fj_at json k) (\<lambda>js.
    bindE (fj_assert (is_array js)) (\<lambda>_.
    each_element js (\<lambda>it xs. bindE (f it) (\<lambda>x. Inr (xs @ [x]))) []))"

definition read_symbol_filter :: "(string \<Rightarrow> f64 option) \<Rightarrow> fjson \<Rightarrow> fj_error + symbol_filter" where
  "read_symbol_filter dec fit =
    bindE (get_fields dec [FText ''filterType'' sf_filterType_update] fit
      \<lparr>sf_filterType = [], sf_filter = PriceFilter zero_price_filter\<rparr>) (\<lambda>f.
    bindE (read_filter dec fit (fnv1a (sf_filterType f))) (\<lambda>k. Inr (f\<lparr>sf_filter := k\<rparr>)))"

definition read_symbol :: "(string \<Rightarrow> f64 option) \<Rightarrow> fjson \<Rightarrow> fj_error + symbol_info" where
  "read_symbol dec sit =
    bindE (get_fields dec [FText ''symbol'' sy_symbol_update, FText ''status'' sy_status_update, FText ''baseAsset'' sy_baseAsset_update,
        FSize ''baseAssetPrecision'' sy_baseAssetPrecision_update, FText ''quoteAsset'' sy_quoteAsset_update,
        FSize ''quotePrecision'' sy_quotePrecision_update, FFlag ''icebergAllowed'' sy_icebergAllowed_update] sit
      \<lparr>sy_symbol = [], sy_status = [], sy_baseAsset = [], sy_baseAssetPrecision = 0, sy_quoteAsset = [], sy_quotePrecision = 0,
       sy_orderTypes = [], sy_icebergAllowed = False, sy_filters = []\<rparr>) (\<lambda>sym.
    bindE (read_list sit ''orderTypes'' fj_to_string) (\<lambda>types.
    bindE (read_list sit ''filters'' (read_symbol_filter dec)) (\<lambda>filters.
      Inr (sym\<lparr>sy_orderTypes := types, sy_filters := filters\<rparr>))))"

definition exchange_info_construct :: "(string \<Rightarrow> f64 option) \<Rightarrow> fjson \<Rightarrow> fj_error + exchange_info" where
  "exchange_info_construct dec json =
    bindE (get_fields dec [FText ''timezone'' xi_timezone_update, FSize ''serverTime'' xi_serverTime_update] json
      \<lparr>xi_timezone = [], xi_serverTime = 0, xi_exchangeFilters = [], xi_rateLimits = [], xi_symbols = []\<rparr>) (\<lambda>res.
    bindE (read_list json ''exchangeFilters'' fj_to_string) (\<lambda>filters.
    bindE (read_list json ''rateLimits'' (\<lambda>it. get_fields dec [FText ''rateLimitType'' rl_rateLimitType_update,
        FText ''interval'' rl_interval_update, FSize ''limit'' rl_limit_update] it
        \<lparr>rl_rateLimitType = [], rl_interval = [], rl_limit = 0\<rparr>)) (\<lambda>limits.
    bindE (read_list json ''symbols'' (read_symbol dec)) (\<lambda>symbols.
      Inr (res\<lparr>xi_exchangeFilters := filters, xi_rateLimits := limits,
        xi_symbols := fold (\<lambda>sym. emplace (sy_symbol sym) sym) symbols []\<rparr>)))))"

text \<open>The text of an instrument, which becomes its market information.\<close>

definition symbol_json :: "(f64 \<Rightarrow> string) \<Rightarrow> symbol_info \<Rightarrow> fjson" where
  "symbol_json shw x = FObject [(''symbol'', FString (sy_symbol x)), (''status'', FString (sy_status x)),
     (''baseAsset'', FString (sy_baseAsset x)), (''baseAssetPrecision'', fj_num (sy_baseAssetPrecision x)),
     (''quoteAsset'', FString (sy_quoteAsset x)), (''quotePrecision'', fj_num (sy_quotePrecision x)),
     (''orderTypes'', FArray (map FString (sy_orderTypes x))), (''icebergAllowed'', FBool (sy_icebergAllowed x)),
     (''filters'', FArray (map (\<lambda>f. filter_json shw (sf_filter f)) (sy_filters x)))]"

section \<open>Orders and accounts\<close>

record asset_balance =
  asb_asset :: string
  asb_free :: f64
  asb_locked :: f64

definition zero_asset_balance :: asset_balance where
  "zero_asset_balance = \<lparr>asb_asset = [], asb_free = Zero False, asb_locked = Zero False\<rparr>"

record account_info =
  ac_makerCommission :: u64
  ac_takerCommission :: u64
  ac_buyerCommission :: u64
  ac_sellerCommission :: u64
  ac_canTrade :: bool
  ac_canWithdraw :: bool
  ac_canDeposit :: bool
  ac_updateTime :: u64
  ac_balances :: "(string \<times> asset_balance) list"

definition account_info_construct :: "(string \<Rightarrow> f64 option) \<Rightarrow> fjson \<Rightarrow> fj_error + account_info" where
  "account_info_construct dec json =
    bindE (get_fields dec [FSize ''makerCommission'' ac_makerCommission_update, FSize ''takerCommission'' ac_takerCommission_update,
        FSize ''buyerCommission'' ac_buyerCommission_update, FSize ''sellerCommission'' ac_sellerCommission_update,
        FFlag ''canTrade'' ac_canTrade_update, FFlag ''canWithdraw'' ac_canWithdraw_update, FFlag ''canDeposit'' ac_canDeposit_update,
        FSize ''updateTime'' ac_updateTime_update] json
      \<lparr>ac_makerCommission = 0, ac_takerCommission = 0, ac_buyerCommission = 0, ac_sellerCommission = 0, ac_canTrade = False,
       ac_canWithdraw = False, ac_canDeposit = False, ac_updateTime = 0, ac_balances = []\<rparr>) (\<lambda>res.
    bindE (read_list json ''balances'' (\<lambda>it. get_fields dec [FText ''asset'' asb_asset_update, FDec ''free'' asb_free_update,
        FDec ''locked'' asb_locked_update] it zero_asset_balance)) (\<lambda>items.
      Inr (res\<lparr>ac_balances := fold (\<lambda>item. emplace (asb_asset item) item) items []\<rparr>)))"

record order_info =
  of_symbol :: string
  of_orderId :: u64
  of_clientOrderId :: string
  of_price :: f64
  of_origQty :: f64
  of_executedQty :: f64
  of_cummulativeQuoteQty :: f64
  of_status :: string
  of_timeInForce :: string
  of_type :: string
  of_side :: string
  of_stopPrice :: f64
  of_icebergQty :: f64
  of_time :: u64
  of_updateTime :: u64
  of_isWorking :: bool

definition zero_order_info :: order_info where
  "zero_order_info = \<lparr>of_symbol = [], of_orderId = 0, of_clientOrderId = [], of_price = Zero False, of_origQty = Zero False,
     of_executedQty = Zero False, of_cummulativeQuoteQty = Zero False, of_status = [], of_timeInForce = [],
     of_type = [], of_side = [], of_stopPrice = Zero False, of_icebergQty = Zero False, of_time = 0,
     of_updateTime = 0, of_isWorking = False\<rparr>"

definition order_info_fields :: "order_info field list" where
  "order_info_fields = [FText ''symbol'' of_symbol_update, FSize ''orderId'' of_orderId_update,
     FText ''clientOrderId'' of_clientOrderId_update, FDec ''price'' of_price_update,
     FDec ''origQty'' of_origQty_update, FDec ''executedQty'' of_executedQty_update,
     FDec ''cummulativeQuoteQty'' of_cummulativeQuoteQty_update, FText ''status'' of_status_update,
     FText ''timeInForce'' of_timeInForce_update, FText ''type'' of_type_update, FText ''side'' of_side_update,
     FDec ''stopPrice'' of_stopPrice_update, FDec ''icebergQty'' of_icebergQty_update,
     FSize ''time'' of_time_update, FSize ''updateTime'' of_updateTime_update,
     FFlag ''isWorking'' of_isWorking_update]"

definition order_info_construct :: "(string \<Rightarrow> f64 option) \<Rightarrow> fjson \<Rightarrow> fj_error + order_info" where
  "order_info_construct dec json = get_fields dec order_info_fields json zero_order_info"

definition order_info_json :: "(f64 \<Rightarrow> string) \<Rightarrow> order_info \<Rightarrow> fjson" where
  "order_info_json shw x = FObject [(''symbol'', FString (of_symbol x)), (''orderId'', fj_num (of_orderId x)),
     (''clientOrderId'', FString (of_clientOrderId x)), (''price'', FString (shw (of_price x))),
     (''origQty'', FString (shw (of_origQty x))), (''executedQty'', FString (shw (of_executedQty x))),
     (''cummulativeQuoteQty'', FString (shw (of_cummulativeQuoteQty x))), (''status'', FString (of_status x)),
     (''timeInForce'', FString (of_timeInForce x)), (''type'', FString (of_type x)),
     (''side'', FString (of_side x)), (''stopPrice'', FString (shw (of_stopPrice x))),
     (''icebergQty'', FString (shw (of_icebergQty x))), (''time'', fj_num (of_time x)),
     (''updateTime'', fj_num (of_updateTime x)), (''isWorking'', FBool (of_isWorking x))]"

text \<open>Orders by symbol, in the order of the answer.\<close>

definition push_order :: "order_info \<Rightarrow> (string \<times> order_info list) list \<Rightarrow> (string \<times> order_info list) list" where
  "push_order item orders =
    AList.update (of_symbol item) ((case map_of orders (of_symbol item) of None \<Rightarrow> [] | Some xs \<Rightarrow> xs) @ [item]) orders"

definition orders_info_construct :: "(string \<Rightarrow> f64 option) \<Rightarrow> fjson \<Rightarrow> fj_error + (string \<times> order_info list) list" where
  "orders_info_construct dec json =
    each_element json (\<lambda>it orders. bindE (order_info_construct dec it) (\<lambda>item. Inr (push_order item orders))) []"

record order_ack =
  nk_symbol :: string
  nk_orderId :: u64
  nk_clientOrderId :: string
  nk_transactTime :: u64

definition zero_order_ack :: order_ack where
  "zero_order_ack = \<lparr>nk_symbol = [], nk_orderId = 0, nk_clientOrderId = [], nk_transactTime = 0\<rparr>"

definition order_ack_fields :: "order_ack field list" where
  "order_ack_fields = [FText ''symbol'' nk_symbol_update, FSize ''orderId'' nk_orderId_update,
     FText ''clientOrderId'' nk_clientOrderId_update, FSize ''transactTime'' nk_transactTime_update]"

definition order_ack_construct :: "(string \<Rightarrow> f64 option) \<Rightarrow> fjson \<Rightarrow> fj_error + order_ack" where
  "order_ack_construct dec json = get_fields dec order_ack_fields json zero_order_ack"

definition order_ack_json :: "(f64 \<Rightarrow> string) \<Rightarrow> order_ack \<Rightarrow> fjson" where
  "order_ack_json shw x = FObject [(''symbol'', FString (nk_symbol x)), (''orderId'', fj_num (nk_orderId x)),
     (''clientOrderId'', FString (nk_clientOrderId x)), (''transactTime'', fj_num (nk_transactTime x))]"

record order_result =
  nr_symbol :: string
  nr_orderId :: u64
  nr_clientOrderId :: string
  nr_transactTime :: u64
  nr_price :: f64
  nr_origQty :: f64
  nr_executedQty :: f64
  nr_cummulativeQuoteQty :: f64
  nr_status :: string
  nr_timeInForce :: string
  nr_type :: string
  nr_side :: string

definition zero_order_result :: order_result where
  "zero_order_result = \<lparr>nr_symbol = [], nr_orderId = 0, nr_clientOrderId = [], nr_transactTime = 0, nr_price = Zero False,
     nr_origQty = Zero False, nr_executedQty = Zero False, nr_cummulativeQuoteQty = Zero False, nr_status = [],
     nr_timeInForce = [], nr_type = [], nr_side = []\<rparr>"

definition order_result_fields :: "order_result field list" where
  "order_result_fields = [FText ''symbol'' nr_symbol_update, FSize ''orderId'' nr_orderId_update,
     FText ''clientOrderId'' nr_clientOrderId_update, FSize ''transactTime'' nr_transactTime_update,
     FDec ''price'' nr_price_update, FDec ''origQty'' nr_origQty_update, FDec ''executedQty'' nr_executedQty_update,
     FDec ''cummulativeQuoteQty'' nr_cummulativeQuoteQty_update, FText ''status'' nr_status_update,
     FText ''timeInForce'' nr_timeInForce_update, FText ''type'' nr_type_update, FText ''side'' nr_side_update]"

definition order_result_construct :: "(string \<Rightarrow> f64 option) \<Rightarrow> fjson \<Rightarrow> fj_error + order_result" where
  "order_result_construct dec json = get_fields dec order_result_fields json zero_order_result"

definition order_result_json :: "(f64 \<Rightarrow> string) \<Rightarrow> order_result \<Rightarrow> fjson" where
  "order_result_json shw x = FObject [(''symbol'', FString (nr_symbol x)), (''orderId'', fj_num (nr_orderId x)),
     (''clientOrderId'', FString (nr_clientOrderId x)), (''transactTime'', fj_num (nr_transactTime x)),
     (''price'', FString (shw (nr_price x))), (''origQty'', FString (shw (nr_origQty x))),
     (''executedQty'', FString (shw (nr_executedQty x))),
     (''cummulativeQuoteQty'', FString (shw (nr_cummulativeQuoteQty x))), (''status'', FString (nr_status x)),
     (''timeInForce'', FString (nr_timeInForce x)), (''type'', FString (nr_type x)), (''side'', FString (nr_side x))]"

record fill_part =
  fp_price :: f64
  fp_qty :: f64
  fp_commission :: f64
  fp_commissionAsset :: string

definition zero_fill_part :: fill_part where
  "zero_fill_part = \<lparr>fp_price = Zero False, fp_qty = Zero False, fp_commission = Zero False, fp_commissionAsset = []\<rparr>"

record order_full =
  nf_symbol :: string
  nf_orderId :: u64
  nf_clientOrderId :: string
  nf_transactTime :: u64
  nf_price :: f64
  nf_origQty :: f64
  nf_executedQty :: f64
  nf_cummulativeQuoteQty :: f64
  nf_status :: string
  nf_timeInForce :: string
  nf_type :: string
  nf_side :: string
  nf_fills :: "fill_part list"

definition zero_order_full :: order_full where
  "zero_order_full = \<lparr>nf_symbol = [], nf_orderId = 0, nf_clientOrderId = [], nf_transactTime = 0, nf_price = Zero False,
     nf_origQty = Zero False, nf_executedQty = Zero False, nf_cummulativeQuoteQty = Zero False, nf_status = [],
     nf_timeInForce = [], nf_type = [], nf_side = [], nf_fills = []\<rparr>"

definition order_full_fields :: "order_full field list" where
  "order_full_fields = [FText ''symbol'' nf_symbol_update, FSize ''orderId'' nf_orderId_update,
     FText ''clientOrderId'' nf_clientOrderId_update, FSize ''transactTime'' nf_transactTime_update,
     FDec ''price'' nf_price_update, FDec ''origQty'' nf_origQty_update, FDec ''executedQty'' nf_executedQty_update,
     FDec ''cummulativeQuoteQty'' nf_cummulativeQuoteQty_update, FText ''status'' nf_status_update,
     FText ''timeInForce'' nf_timeInForce_update, FText ''type'' nf_type_update, FText ''side'' nf_side_update]"

definition order_full_construct :: "(string \<Rightarrow> f64 option) \<Rightarrow> fjson \<Rightarrow> fj_error + order_full" where
  "order_full_construct dec json =
    bindE (get_fields dec order_full_fields json zero_order_full) (\<lambda>res.
    bindE (fj_at json ''fills'') (\<lambda>fills.
    bindE (each_element fills (\<lambda>it xs. bindE (get_fields dec [FDec ''price'' fp_price_update, FDec ''qty'' fp_qty_update,
        FDec ''commission'' fp_commission_update, FText ''commissionAsset'' fp_commissionAsset_update] it zero_fill_part)
        (\<lambda>x. Inr (xs @ [x]))) []) (\<lambda>parts.
      Inr (res\<lparr>nf_fills := parts\<rparr>))))"

text \<open>The answer to a new order is one of four; a default one is an acknowledgement, the first of them.\<close>

datatype new_order_resp = AckResp order_ack | ResultResp order_result | FullResp order_full | TestResp bool

definition default_order_resp :: new_order_resp where
  "default_order_resp = AckResp zero_order_ack"

definition new_order_resp_construct :: "(string \<Rightarrow> f64 option) \<Rightarrow> fjson \<Rightarrow> fj_error + new_order_resp" where
  "new_order_resp_construct dec json =
    bindE (fj_contains json ''fills'') (\<lambda>fills.
    if fills then bindE (order_full_construct dec json) (\<lambda>x. Inr (FullResp x))
    else bindE (fj_contains json ''side'') (\<lambda>side.
    if side then bindE (order_result_construct dec json) (\<lambda>x. Inr (ResultResp x))
    else bindE (fj_contains json ''symbol'') (\<lambda>symbol.
    if symbol then bindE (order_ack_construct dec json) (\<lambda>x. Inr (AckResp x))
    else if is_object json \<and> fj_size json = 0 then bindE (new_test_order_construct json) (\<lambda>x. Inr (TestResp x))
    else Inl AssertionFails)))"

fun get_responce_type :: "new_order_resp \<Rightarrow> e_trade_resp_type" where
  "get_responce_type (AckResp x) = E_ACK"
| "get_responce_type (ResultResp x) = E_RESULT"
| "get_responce_type (FullResp x) = E_FULL"
| "get_responce_type (TestResp x) = E_TEST"

definition is_valid_responce_type :: "new_order_resp \<Rightarrow> bool" where
  "is_valid_responce_type r \<longleftrightarrow> get_responce_type r \<noteq> E_UNKNOWN"

fun get_order_id :: "new_order_resp \<Rightarrow> fj_error + u64" where
  "get_order_id (AckResp x) = Inr (nk_orderId x)"
| "get_order_id (ResultResp x) = Inr (nr_orderId x)"
| "get_order_id (FullResp x) = Inr (nf_orderId x)"
| "get_order_id (TestResp x) = Inl AssertionFails"

record cancel_order_info =
  cn_symbol :: string
  cn_orderId :: u64
  cn_clientOrderId :: string
  cn_price :: f64
  cn_origQty :: f64
  cn_executedQty :: f64
  cn_cummulativeQuoteQty :: f64
  cn_status :: string
  cn_timeInForce :: string
  cn_type :: string
  cn_side :: string
  cn_positionSide :: string

definition zero_cancel_order_info :: cancel_order_info where
  "zero_cancel_order_info = \<lparr>cn_symbol = [], cn_orderId = 0, cn_clientOrderId = [], cn_price = Zero False, cn_origQty = Zero False,
     cn_executedQty = Zero False, cn_cummulativeQuoteQty = Zero False, cn_status = [], cn_timeInForce = [],
     cn_type = [], cn_side = [], cn_positionSide = []\<rparr>"

definition cancel_order_info_fields :: "cancel_order_info field list" where
  "cancel_order_info_fields = [FText ''symbol'' cn_symbol_update, FSize ''orderId'' cn_orderId_update,
     FText ''clientOrderId'' cn_clientOrderId_update, FDec ''price'' cn_price_update,
     FDec ''origQty'' cn_origQty_update, FDec ''executedQty'' cn_executedQty_update,
     FText ''status'' cn_status_update, FText ''timeInForce'' cn_timeInForce_update, FText ''type'' cn_type_update,
     FText ''side'' cn_side_update, FText ''positionSide'' cn_positionSide_update]"

definition cancel_order_info_construct :: "(string \<Rightarrow> f64 option) \<Rightarrow> fjson \<Rightarrow> fj_error + cancel_order_info" where
  "cancel_order_info_construct dec json = get_fields dec cancel_order_info_fields json zero_cancel_order_info"

record my_trade =
  my_symbol :: string
  my_id :: u64
  my_orderId :: u64
  my_price :: f64
  my_qty :: f64
  my_commission :: f64
  my_commissionAsset :: string
  my_time :: u64
  my_isBuyer :: bool
  my_isMaker :: bool
  my_isBestMatch :: bool

definition zero_my_trade :: my_trade where
  "zero_my_trade = \<lparr>my_symbol = [], my_id = 0, my_orderId = 0, my_price = Zero False, my_qty = Zero False,
     my_commission = Zero False, my_commissionAsset = [], my_time = 0, my_isBuyer = False, my_isMaker = False,
     my_isBestMatch = False\<rparr>"

definition my_trade_fields :: "my_trade field list" where
  "my_trade_fields = [FText ''symbol'' my_symbol_update, FSize ''id'' my_id_update, FSize ''orderId'' my_orderId_update,
     FDec ''price'' my_price_update, FDec ''qty'' my_qty_update, FDec ''commission'' my_commission_update,
     FText ''commissionAsset'' my_commissionAsset_update, FSize ''time'' my_time_update,
     FFlag ''isBuyer'' my_isBuyer_update, FFlag ''isMaker'' my_isMaker_update,
     FFlag ''isBestMatch'' my_isBestMatch_update]"

definition my_trade_construct :: "(string \<Rightarrow> f64 option) \<Rightarrow> fjson \<Rightarrow> fj_error + my_trade" where
  "my_trade_construct dec json = get_fields dec my_trade_fields json zero_my_trade"

definition my_trade_json :: "(f64 \<Rightarrow> string) \<Rightarrow> my_trade \<Rightarrow> fjson" where
  "my_trade_json shw x = FObject [(''symbol'', FString (my_symbol x)), (''id'', fj_num (my_id x)), (''orderId'', fj_num (my_orderId x)),
     (''price'', FString (shw (my_price x))), (''qty'', FString (shw (my_qty x))),
     (''commission'', FString (shw (my_commission x))), (''commissionAsset'', FString (my_commissionAsset x)),
     (''time'', fj_num (my_time x)), (''isBuyer'', FBool (my_isBuyer x)), (''isMaker'', FBool (my_isMaker x)),
     (''isBestMatch'', FBool (my_isBestMatch x))]"

definition my_trades_construct :: "(string \<Rightarrow> f64 option) \<Rightarrow> fjson \<Rightarrow> fj_error + my_trade list" where
  "my_trades_construct dec json =
    each_element json (\<lambda>it trades. bindE (my_trade_construct dec it) (\<lambda>item. Inr (trades @ [item]))) []"

record start_user_data_stream =
  us_listenKey :: string

definition zero_start_user_data_stream :: start_user_data_stream where
  "zero_start_user_data_stream = \<lparr>us_listenKey = []\<rparr>"

definition start_user_data_stream_fields :: "start_user_data_stream field list" where
  "start_user_data_stream_fields = [FText ''listenKey'' us_listenKey_update]"

definition start_user_data_stream_construct :: "(string \<Rightarrow> f64 option) \<Rightarrow> fjson \<Rightarrow> fj_error + start_user_data_stream" where
  "start_user_data_stream_construct dec json = get_fields dec start_user_data_stream_fields json zero_start_user_data_stream"

definition start_user_data_stream_json :: "(f64 \<Rightarrow> string) \<Rightarrow> start_user_data_stream \<Rightarrow> fjson" where
  "start_user_data_stream_json shw x = FObject [(''listenKey'', FString (us_listenKey x))]"

record future_order_resp =
  fn_clientOrderId :: u64
  fn_cumQty :: string
  fn_cumQuote :: f64
  fn_executedQty :: f64
  fn_orderId :: u64
  fn_avgPrice :: f64
  fn_origQty :: u64
  fn_price :: f64
  fn_reduceOnly :: bool
  fn_side :: string
  fn_positionSide :: string
  fn_status :: string
  fn_stopPrice :: f64
  fn_closePosition :: bool
  fn_symbol :: string
  fn_timeInForce :: string
  fn_type :: string
  fn_origType :: string
  fn_activatePrice :: f64
  fn_priceRate :: f64
  fn_updateTime :: u64
  fn_workingType :: string
  fn_priceProtect :: bool

definition zero_future_order_resp :: future_order_resp where
  "zero_future_order_resp = \<lparr>fn_clientOrderId = 0, fn_cumQty = [], fn_cumQuote = Zero False, fn_executedQty = Zero False, fn_orderId = 0,
     fn_avgPrice = Zero False, fn_origQty = 0, fn_price = Zero False, fn_reduceOnly = False, fn_side = [],
     fn_positionSide = [], fn_status = [], fn_stopPrice = Zero False, fn_closePosition = False, fn_symbol = [],
     fn_timeInForce = [], fn_type = [], fn_origType = [], fn_activatePrice = Zero False, fn_priceRate = Zero False,
     fn_updateTime = 0, fn_workingType = [], fn_priceProtect = False\<rparr>"

definition future_order_resp_fields :: "future_order_resp field list" where
  "future_order_resp_fields = [FSize ''clientOrderId'' fn_clientOrderId_update, FText ''cumQty'' fn_cumQty_update,
     FDec ''cumQuote'' fn_cumQuote_update, FDec ''executedQty'' fn_executedQty_update,
     FSize ''orderId'' fn_orderId_update, FDec ''avgPrice'' fn_avgPrice_update, FSize ''origQty'' fn_origQty_update,
     FDec ''price'' fn_price_update, FFlag ''reduceOnly'' fn_reduceOnly_update, FText ''side'' fn_side_update,
     FText ''positionSide'' fn_positionSide_update, FText ''status'' fn_status_update,
     FDec ''stopPrice'' fn_stopPrice_update, FFlag ''closePosition'' fn_closePosition_update,
     FText ''symbol'' fn_symbol_update, FText ''timeInForce'' fn_timeInForce_update, FText ''type'' fn_type_update,
     FText ''origType'' fn_origType_update, FSize ''updateTime'' fn_updateTime_update,
     FText ''workingType'' fn_workingType_update, FFlag ''priceProtect'' fn_priceProtect_update]"

definition future_order_resp_construct :: "(string \<Rightarrow> f64 option) \<Rightarrow> fjson \<Rightarrow> fj_error + future_order_resp" where
  "future_order_resp_construct dec json = get_fields dec future_order_resp_fields json zero_future_order_resp"

end
