(* ===== verification/Websockets.thy ===== *)
theory Websockets
  imports Common Hero
begin

text \<open>
  The websockets of the Binance library (binapi/websocket.cpp): the set of open channels of each
  host, the flag that says one was lost, and the deleter of a socket.  The deleter is a static
  local of a template, one for every type of callback; what it captured, the object that opened the
  first channel of that type, it keeps for the rest of the process.  The network is not modelled:
  its events are the operations \<open>socket_stops\<close> and \<open>delete_socket\<close>.  A handle is an address; a fresh
  one is never an old one here.
\<close>

datatype ws_host = Spot_ws | Ubase_ws | Cbase_ws

datatype callback_kind = PartDepthsCb | TradeCb | AggTradeCb | BookTickerCb | UserdataCb | FutureOrderCb

record socket =
  sock_stop_requested :: bool
  sock_kind :: callback_kind

record sockets =
  sk_set :: "ws_host \<Rightarrow> nat list"
  sk_reconnected :: "ws_host \<Rightarrow> bool"
  sk_owner :: "callback_kind \<Rightarrow> ws_host option"
  sk_live :: "(nat \<times> socket) list"
  sk_next :: nat
  sk_opened :: "(ws_host \<times> string) list"

definition no_sockets :: sockets where
  "no_sockets = \<lparr>sk_set = (\<lambda>_. []), sk_reconnected = (\<lambda>_. False), sk_owner = (\<lambda>_. None), sk_live = [],
     sk_next = 0, sk_opened = []\<rparr>"

definition make_channel_name :: "string option \<Rightarrow> string \<Rightarrow> string" where
  "make_channel_name pair channel =
    (case pair of
       None \<Rightarrow> ''/ws/'' @ channel
     | Some p \<Rightarrow> (let res = ''/ws/'' @ p in if take 1 p \<noteq> ''!'' then map tolower res else res) @ ''@'' @ channel)"

definition start_channel :: "ws_host \<Rightarrow> callback_kind \<Rightarrow> string option \<Rightarrow> string \<Rightarrow> sockets \<Rightarrow> nat \<times> sockets" where
  "start_channel h k pair channel s =
    (let n = sk_next s in
     (n, s\<lparr>sk_owner := (if sk_owner s k = None then (sk_owner s)(k := Some h) else sk_owner s),
          sk_live := (n, \<lparr>sock_stop_requested = False, sock_kind = k\<rparr>) # sk_live s,
          sk_next := n + 1,
          sk_opened := sk_opened s @ [(h, make_channel_name pair channel)],
          sk_set := (sk_set s)(h := n # sk_set s h)\<rparr>))"

text \<open>\<open>stop\<close>: after an error, a callback that returns false, or three to four hours.\<close>

definition socket_stops :: "nat \<Rightarrow> sockets \<Rightarrow> sockets" where
  "socket_stops n s = s\<lparr>sk_live := map (\<lambda>(i, x). (i, if i = n then x\<lparr>sock_stop_requested := True\<rparr> else x)) (sk_live s)\<rparr>"

definition delete_socket :: "nat \<Rightarrow> sockets \<Rightarrow> sockets" where
  "delete_socket n s =
    (case map_of (sk_live s) n of
       None \<Rightarrow> s
     | Some x \<Rightarrow>
        (case sk_owner s (sock_kind x) of
           None \<Rightarrow> s
         | Some h \<Rightarrow> s\<lparr>sk_set := (sk_set s)(h := removeAll n (sk_set s h)), sk_live := AList.delete n (sk_live s),
                      sk_reconnected := (sk_reconnected s)(h := True)\<rparr>))"

text \<open>\<open>is_ready\<close> reads the socket its set still points to; when the socket is gone this is undefined.\<close>

definition undefined_behaviour :: herror where
  "undefined_behaviour = HandlerError ''undefined behaviour''"

definition is_ready :: "ws_host \<Rightarrow> nat \<Rightarrow> sockets \<Rightarrow> herror + bool" where
  "is_ready h n s =
    (if n \<notin> set (sk_set s h) then Inr False
     else case map_of (sk_live s) n of
            None \<Rightarrow> Inl undefined_behaviour
          | Some x \<Rightarrow> Inr (\<not> sock_stop_requested x))"

definition fetch_reconnect_flag :: "ws_host \<Rightarrow> sockets \<Rightarrow> bool \<times> sockets" where
  "fetch_reconnect_flag h s =
    (sk_reconnected s h \<or> sk_set s h = [], s\<lparr>sk_reconnected := (sk_reconnected s)(h := False)\<rparr>)"

section \<open>What holds of the sockets\<close>

text \<open>Every live socket is in the set of one host, and addresses are fresh.\<close>

definition sockets_wf :: "sockets \<Rightarrow> bool" where
  "sockets_wf s \<longleftrightarrow> (\<forall>n \<in> fst ` set (sk_live s). n < sk_next s) \<and> distinct (map fst (sk_live s))
    \<and> (\<forall>h. \<forall>n \<in> set (sk_set s h). n < sk_next s)
    \<and> (\<forall>n x. map_of (sk_live s) n = Some x \<longrightarrow> sk_owner s (sock_kind x) \<noteq> None)"

lemma sockets_wf_start:
  assumes "sockets_wf s"
  shows "sockets_wf (snd (start_channel h k pair channel s))"
  using assms by (fastforce simp: sockets_wf_def start_channel_def Let_def less_Suc_eq split: if_splits)

lemma set_delete_subset: "set (AList.delete k xs) \<subseteq> set xs"
  by (auto simp: AList.delete_eq)

lemma sockets_wf_delete:
  assumes "sockets_wf s"
  shows "sockets_wf (delete_socket n s)"
proof -
  have left: "(i, x) \<in> set (sk_live s)" if "(i, x) \<in> set (AList.delete n (sk_live s))" for i x
    using that by (rule subsetD [OF set_delete_subset])
  have fresh: "i < sk_next s" if "(i, x) \<in> set (AList.delete n (sk_live s))" for i x
    using left [OF that] assms by (force simp: sockets_wf_def)
  have owned: "\<exists>h. sk_owner s (sock_kind x) = Some h" if "(i, x) \<in> set (AList.delete n (sk_live s))" for i x
    using left [OF that] assms by (auto simp: sockets_wf_def)
  show ?thesis using assms
    by (auto simp: sockets_wf_def delete_socket_def distinct_delete split: option.split intro: fresh owned)
qed

lemma sockets_next_delete [simp]: "sk_next (delete_socket n s) = sk_next s"
  by (simp add: delete_socket_def split: option.split)

lemma start_channel_ready: "is_ready h (fst (start_channel h k pair channel s)) (snd (start_channel h k pair channel s)) = Inr True"
  by (simp add: is_ready_def start_channel_def Let_def)

lemma start_channel_opened: "sk_opened (snd (start_channel h k pair channel s)) = sk_opened s @ [(h, make_channel_name pair channel)]"
  by (simp add: start_channel_def Let_def)

lemma start_channel_ready_others:
  assumes "sockets_wf s" and "n < sk_next s"
  shows "is_ready h' n (snd (start_channel h k pair channel s)) = is_ready h' n s"
  using assms by (simp add: is_ready_def start_channel_def Let_def)

text \<open>A socket deleted on the host that opened the first channel of its kind is found lost.\<close>

lemma deleted_not_ready:
  assumes "map_of (sk_live s) n = Some x" and "sk_owner s (sock_kind x) = Some h"
  shows "is_ready h n (delete_socket n s) = Inr False" and "fst (fetch_reconnect_flag h (delete_socket n s))"
  using assms by (auto simp: is_ready_def delete_socket_def fetch_reconnect_flag_def)

text \<open>Deleted on another host, it stays in the set of its host, which then points to a dead object.\<close>

lemma deleted_dangling:
  assumes "map_of (sk_live s) n = Some x" and "sk_owner s (sock_kind x) = Some h" and "h' \<noteq> h" and "n \<in> set (sk_set s h')"
  shows "is_ready h' n (delete_socket n s) = Inl undefined_behaviour"
  using assms by (simp add: is_ready_def delete_socket_def delete_conv')

end
