(* ===== verification/Answers.thy ===== *)
theory Answers
  imports RestTypes Websockets
begin

text \<open>
  How the texts of the exchange reach the program: the answers to requests, as the callback of a
  request (binapi/invoker.hpp) or as the result of a synchronous one (\<open>post\<close> in binapi/api.cpp), and
  the messages of a stream (\<open>wscb\<close> and \<open>on_read\<close> in binapi/websocket.cpp).  A callback is called with an
  error code and a value, and says whether it goes on, or throws.

  An exception is caught and printed, except where the code stands outside of its \<open>try\<close>; then it
  leaves the thread of the network, which ends the process, as a failed assertion and the reading of a
  null pointer do.  So \<open>Inl\<close> is the end of the process here, and only there.
\<close>

section \<open>What can be caught\<close>

definition fj_herror :: "fj_error \<Rightarrow> herror" where
  "fj_herror e = (if e = NullRead then undefined_behaviour
     else if e = AssertionFails then HandlerError ''unreachable'' else HandlerError ''json'')"

definition ends_process :: "herror \<Rightarrow> bool" where
  "ends_process e \<longleftrightarrow> e = undefined_behaviour \<or> e = HandlerError ''unreachable''"

lemma ends_process_fj [simp]: "ends_process (fj_herror e) \<longleftrightarrow> uncaught e"
  by (cases e) (simp_all add: ends_process_def fj_herror_def undefined_behaviour_def)

text \<open>\<open>catch (const std::exception \&)\<close>, with what follows it.\<close>

definition or_else :: "(herror + 'b) \<times> 's \<Rightarrow> ('s \<Rightarrow> (herror + 'b) \<times> 's) \<Rightarrow> (herror + 'b) \<times> 's" where
  "or_else r f = (case r of (Inl e, s) \<Rightarrow> if ends_process e then (Inl e, s) else f s | (Inr b, s) \<Rightarrow> (Inr b, s))"

lemma or_else_Inr [simp]: "or_else (Inr b, s) f = (Inr b, s)"
  by (simp add: or_else_def)

lemma or_else_caught: "\<not> ends_process e \<Longrightarrow> or_else (Inl e, s) f = f s"
  by (simp add: or_else_def)

type_synonym ('v, 's) reply_callback = "i32 \<Rightarrow> 'v \<Rightarrow> 's \<Rightarrow> (herror + bool) \<times> 's"

section \<open>Errors of the exchange\<close>

definition is_api_error :: "fjson \<Rightarrow> fj_error + bool" where
  "is_api_error json = bindE (fj_contains json ''code'') (\<lambda>c. if c then fj_contains json ''msg'' else Inr False)"

definition construct_error :: "fjson \<Rightarrow> fj_error + i32 \<times> string" where
  "construct_error json =
    bindE (bindE (fj_at json ''code'') fj_to_int) (\<lambda>ec. bindE (bindE (fj_at json ''msg'') fj_to_string) (\<lambda>msg. Inr (ec, msg)))"

definition object_error :: "fjson \<Rightarrow> fj_error + bool" where
  "object_error json = (if is_object json then is_api_error json else Inr False)"

section \<open>Answers to requests\<close>

text \<open>The callback of a request: an exception, its own included, is printed and forgotten.\<close>

definition answer_value :: "(fjson \<Rightarrow> fj_error + 'v) \<Rightarrow> 'v \<Rightarrow> string \<Rightarrow> fj_error + i32 \<times> 'v" where
  "answer_value build zero body =
    (case fj_load body of
       NotLoaded code \<Rightarrow> Inr (code, zero)
     | LoadAborts \<Rightarrow> Inl AssertionFails
     | Loaded json \<Rightarrow>
         bindE (object_error json) (\<lambda>error.
           if error then bindE (construct_error json) (\<lambda>(ec, msg). Inr (ec, zero))
           else bindE (build json) (\<lambda>v. Inr (0, v))))"

definition invoke :: "(fjson \<Rightarrow> fj_error + 'v) \<Rightarrow> 'v \<Rightarrow> ('v, 's) reply_callback \<Rightarrow> i32 \<Rightarrow> string \<Rightarrow> 's \<Rightarrow> (herror + bool) \<times> 's" where
  "invoke build zero cb ec body s =
    or_else
      (if body = [] \<or> ec \<noteq> 0 then cb ec zero s
       else case answer_value build zero body of
         Inl e \<Rightarrow> (Inl (fj_herror e), s)
       | Inr (code, v) \<Rightarrow> cb code v s)
      (\<lambda>s1. (Inr True, s1))"

text \<open>The result of a synchronous request; it holds unless there is a message.  The message begins with
  the file and the line, so it is never empty.\<close>

record 'v api_result =
  ar_ec :: i32
  ar_errmsg :: string
  ar_v :: 'v

definition result_ok :: "'v api_result \<Rightarrow> bool" where
  "result_ok r \<longleftrightarrow> ar_errmsg r = []"

definition make_errmsg :: "string \<Rightarrow> string" where
  "make_errmsg msg = ''api.cpp: '' @ msg"

fun contains_text :: "string \<Rightarrow> string \<Rightarrow> bool" where
  "contains_text [] p \<longleftrightarrow> p = []"
| "contains_text (c # cs) p \<longleftrightarrow> take (length p) (c # cs) = p \<or> contains_text cs p"

definition is_html :: "string \<Rightarrow> bool" where
  "is_html s \<longleftrightarrow> contains_text s ''<HTML>'' \<or> contains_text s ''<HEAD>'' \<or> contains_text s ''<BODY>''"

text \<open>\<open>net\<close> is the body that came, or nothing after an error of the network, whose message the
  caller does not look at: it goes on with an empty body, which the library does not load and does not
  call an error.  A page of html is a success without a value.\<close>

definition sync_post :: "(fjson \<Rightarrow> fj_error + 'v) \<Rightarrow> 'v \<Rightarrow> string option \<Rightarrow> herror + 'v api_result" where
  "sync_post build zero net =
    (let body = (case net of None \<Rightarrow> [] | Some b \<Rightarrow> b); res = \<lparr>ar_ec = 0, ar_errmsg = [], ar_v = zero\<rparr> in
     if body \<noteq> [] \<and> is_html body then Inr res
     else case fj_load body of
       LoadAborts \<Rightarrow> Inl (HandlerError ''unreachable'')
     | NotLoaded code \<Rightarrow>
         if code \<noteq> 0 then Inr (res\<lparr>ar_ec := code, ar_errmsg := make_errmsg []\<rparr>) else Inl undefined_behaviour
     | Loaded json \<Rightarrow>
         (case bindE (object_error json) (\<lambda>error.
               if error then bindE (construct_error json) (\<lambda>(ec, msg). Inr (res\<lparr>ar_ec := ec, ar_errmsg := make_errmsg msg\<rparr>))
               else bindE (build json) (\<lambda>v. Inr (res\<lparr>ar_v := v\<rparr>))) of
            Inr r \<Rightarrow> Inr r
          | Inl e \<Rightarrow> if uncaught e then Inl (fj_herror e) else Inr (res\<lparr>ar_errmsg := make_errmsg ''exception''\<rparr>)))"

section \<open>Messages of a stream\<close>

text \<open>A message that is no json text is looked at all the same.  An error of the exchange goes to the
  callback; should the callback throw, the message is read as if it were none.\<close>

definition construct_and_call ::
    "(fjson \<Rightarrow> fj_error + 'm) \<Rightarrow> ('m, 's) reply_callback \<Rightarrow> fjson \<Rightarrow> 's \<Rightarrow> (herror + bool) \<times> 's" where
  "construct_and_call build cb json s =
    or_else (case build json of Inl e \<Rightarrow> (Inl (fj_herror e), s) | Inr m \<Rightarrow> cb 0 m s) (\<lambda>s1. (Inr False, s1))"

definition stream_message ::
    "(fjson \<Rightarrow> fj_error + 'm) \<Rightarrow> 'm \<Rightarrow> ('m, 's) reply_callback \<Rightarrow> i32 \<Rightarrow> string \<Rightarrow> 's \<Rightarrow> (herror + bool) \<times> 's" where
  "stream_message build zero cb ec body s =
    (if ec \<noteq> 0 then or_else (case cb ec zero s of (Inr _, s1) \<Rightarrow> (Inr False, s1) | r \<Rightarrow> r) (\<lambda>s1. (Inr False, s1))
     else case fj_load body of
       NotLoaded code \<Rightarrow> (Inl undefined_behaviour, s)
     | LoadAborts \<Rightarrow> (Inl (HandlerError ''unreachable''), s)
     | Loaded json \<Rightarrow>
         (case bindE (object_error json) (\<lambda>error. if error then bindE (construct_error json) (\<lambda>x. Inr (Some x)) else Inr None) of
            Inl e \<Rightarrow> (Inl (fj_herror e), s)
          | Inr None \<Rightarrow> construct_and_call build cb json s
          | Inr (Some (code, msg)) \<Rightarrow> or_else (cb code zero s) (construct_and_call build cb json)))"

text \<open>A stream of an account carries its messages as texts, which are read again; the kind of a message is
  told by the hash of its member \<open>e\<close>.\<close>

definition stream_event :: "string \<Rightarrow> herror + fjson \<times> u32" where
  "stream_event data =
    (case fj_load data of
       NotLoaded code \<Rightarrow> Inl undefined_behaviour
     | LoadAborts \<Rightarrow> Inl (HandlerError ''unreachable'')
     | Loaded json \<Rightarrow>
         (case bindE (fj_contains json ''e'') (\<lambda>there. bindE (fj_assert there) (\<lambda>_.
               bindE (bindE (fj_at json ''e'') to_sstring) (\<lambda>t. Inr (fnv1a (case t of None \<Rightarrow> [] | Some e \<Rightarrow> e))))) of
            Inl e \<Rightarrow> Inl (fj_herror e)
          | Inr h \<Rightarrow> Inr (json, h)))"

definition with_built :: "fj_error + 'm \<Rightarrow> ('m \<Rightarrow> 's \<Rightarrow> (herror + 'b) \<times> 's) \<Rightarrow> 's \<Rightarrow> (herror + 'b) \<times> 's" where
  "with_built r f s = (case r of Inl e \<Rightarrow> (Inl (fj_herror e), s) | Inr m \<Rightarrow> f m s)"

end
