(* ===== verification/BinanceTd.thy ===== *)
theory BinanceTd
  imports BinanceApi Answers Broker
begin

text \<open>
  The trader of Binance (trader_binance.cpp, trader_binance.h, order_mapper.h): it keeps the orders it
  has sent, by their identifiers, which the exchange gives back with every update, and writes the
  updates to the strategy an order came from.  The requests to the exchange and the channels opened
  are recorded in the order they are made; the answers come as later calls of the callbacks, on a
  second thread, and are operations here.  The callbacks of queries use the event they were asked
  by, which the code captures by reference.
\<close>

section \<open>State\<close>

record configuration =
  cf_user_id :: string
  cf_spot_rest_host :: string
  cf_ubase_rest_host :: string

definition read_configuration :: "json \<Rightarrow> json_error + configuration" where
  "read_configuration j =
    bindE (jget_string j ''user_id'') (\<lambda>user.
    bindE (jget_string j ''access_key'') (\<lambda>_.
    bindE (jget_string j ''secret_key'') (\<lambda>_.
      Inr \<lparr>cf_user_id = user, cf_spot_rest_host = ''api.binance.com'', cf_ubase_rest_host = ''fapi.binance.com''\<rparr>)))"

record order_map_record =
  om_order_id :: u64
  om_ex_order_id :: string
  om_source :: u64
  om_last_update :: u64
  om_order :: order

record binance_td = apprentice +
  bt_config :: configuration
  bt_sockets :: sockets
  bt_orders :: "(u64 \<times> order_map_record) list"
  bt_listen_keys :: "string list"
  bt_check_time :: i32
  bt_requests :: "rest_request list"

type_synonym tdstep = "binance_td \<Rightarrow> (herror + bool) \<times> binance_td"

definition new_binance_td :: "string \<Rightarrow> json \<Rightarrow> i64 \<Rightarrow> json_error + binance_td" where
  "new_binance_td account config now =
    bindE (read_configuration config) (\<lambda>c.
      Inr (apprentice.extend (new_apprentice (make_location LIVE TD ''binance'' account) now)
        \<lparr>bt_config = c, bt_sockets = no_sockets, bt_orders = [], bt_listen_keys = [], bt_check_time = 0,
         bt_requests = []\<rparr>))"

definition td_request :: "rest_request \<Rightarrow> binance_td \<Rightarrow> binance_td" where
  "td_request r a = a\<lparr>bt_requests := bt_requests a @ [r]\<rparr>"

definition get_account_id :: "binance_td \<Rightarrow> string" where
  "get_account_id a = l_name (h_home a)"

definition get_source :: "binance_td \<Rightarrow> string" where
  "get_source a = l_group (h_home a)"

section \<open>Orders\<close>

definition placed_order :: "i64 \<Rightarrow> order_input \<Rightarrow> order" where
  "placed_order nano i = (order_from_input i zero_order)\<lparr>ord_insert_time := nano, ord_update_time := nano\<rparr>"

definition spot_request :: "configuration \<Rightarrow> order_input \<Rightarrow> herror + rest_request" where
  "spot_request c i =
    bindE (to_binance_side (oi_side i)) (\<lambda>side.
    bindE (to_binance_type (oi_order_type i)) (\<lambda>type.
      Inr (api_new_order (cf_spot_rest_host c) (to_binance_symbol (c_str (oi_symbol i))) side type E_GTC E_FULL
        (double_to_string (oi_volume i)) (double_to_string (oi_price i)) (show_nat (unat (oi_order_id i))) [] [])))"

definition future_request :: "configuration \<Rightarrow> order_input \<Rightarrow> herror + rest_request" where
  "future_request c i =
    bindE (to_binance_side (oi_side i)) (\<lambda>side.
    bindE (to_binance_type (oi_order_type i)) (\<lambda>type.
      Inr (api_future_new_order (cf_ubase_rest_host c) (to_binance_symbol (c_str (oi_symbol i))) side
        (to_binance_position_side (oi_position_side i)) type (double_to_string (oi_price i))
        (double_to_string (oi_volume i)) (show_nat (unat (oi_order_id i))) E_GTC)))"

definition send_request :: "herror + rest_request \<Rightarrow> tdstep" where
  "send_request r a = (case r of Inl e \<Rightarrow> (Inl e, a) | Inr q \<Rightarrow> (Inr True, td_request q a))"

definition bnc_insert_order :: "i64 \<Rightarrow> message \<Rightarrow> tdstep" where
  "bnc_insert_order nano e a =
    (case m_data e of
       OrderInputData i \<Rightarrow>
         let a1 = a\<lparr>bt_orders := emplace (oi_order_id i)
               \<lparr>om_order_id = oi_order_id i, om_ex_order_id = [], om_source = ucast (m_source e),
                om_last_update = word_of_int nano, om_order = placed_order nano i\<rparr> (bt_orders a)\<rparr>
         in if oi_instrument_type i = Spot then send_request (spot_request (bt_config a) i) a1
            else if oi_instrument_type i = FFuture then send_request (future_request (bt_config a) i) a1
            else (Inr True, a1)
     | _ \<Rightarrow> (Inl BadPayload, a))"

text \<open>The callback of a spot order, which looks at the error code only to log it.\<close>

definition on_spot_answer :: "i64 \<Rightarrow> u32 \<Rightarrow> order_input \<Rightarrow> i32 \<Rightarrow> new_order_resp \<Rightarrow> tdstep" where
  "on_spot_answer nano src i ec res a =
    bindX (get_writer src a) (\<lambda>w a1.
      if \<not> is_valid_responce_type res
      then (Inr False, write_msg w nano T_Order (OrderData ((placed_order nano i)\<lparr>ord_status := OS_Error\<rparr>)) a1)
      else (case get_order_id res of
         Inl e \<Rightarrow> (Inl (fj_herror e), a1)
       | Inr ex_order_id \<Rightarrow> (Inr True, write_msg w nano T_Order (OrderData ((placed_order nano i)
           \<lparr>ord_ex_order_id := strcpy (ord_ex_order_id (placed_order nano i)) (show_nat (unat ex_order_id)),
            ord_status := Submitted\<rparr>)) a1)))"

definition spot_answer :: "(string \<Rightarrow> f64 option) \<Rightarrow> i64 \<Rightarrow> u32 \<Rightarrow> order_input \<Rightarrow> i32 \<Rightarrow> string \<Rightarrow> tdstep" where
  "spot_answer dec nano src i = invoke (new_order_resp_construct dec) default_order_resp (on_spot_answer nano src i)"

text \<open>The answer to an order of the futures is written only when it is an error.\<close>

definition on_future_answer :: "i64 \<Rightarrow> u32 \<Rightarrow> order_input \<Rightarrow> i32 \<Rightarrow> future_order_resp \<Rightarrow> tdstep" where
  "on_future_answer nano src i ec res a =
    (if ec \<noteq> 0 then bindX (get_writer src a) (\<lambda>w a1.
       (Inr True, write_msg w nano T_Order (OrderData ((placed_order nano i)\<lparr>ord_status := OS_Error\<rparr>)) a1))
     else (Inr True, a))"

definition future_answer :: "(string \<Rightarrow> f64 option) \<Rightarrow> i64 \<Rightarrow> u32 \<Rightarrow> order_input \<Rightarrow> i32 \<Rightarrow> string \<Rightarrow> tdstep" where
  "future_answer dec nano src i = invoke (future_order_resp_construct dec) zero_future_order_resp (on_future_answer nano src i)"

section \<open>Updates of the exchange\<close>

definition updated_order :: "binance_td \<Rightarrow> u64 \<Rightarrow> order \<Rightarrow> u64 \<Rightarrow> string \<Rightarrow> f64 \<Rightarrow> OrderStatus \<Rightarrow> order" where
  "updated_order a coid known ex_id symbol traded st =
    zero_order\<lparr>ord_strategy_id := ord_strategy_id known, ord_order_id := coid,
      ord_ex_order_id := strncpy ORDER_ID_LEN (show_nat (unat ex_id)),
      ord_symbol := strncpy SYMBOL_LEN (from_binance_symbol symbol),
      ord_instrument_type := ord_instrument_type known,
      ord_exchange_id := strncpy EXCHANGE_ID_LEN ''binance'',
      ord_account_id := strncpy ACCOUNT_ID_LEN (get_account_id a), ord_source_id := strncpy SOURCE_ID_LEN (get_source a),
      ord_price := ord_price known, ord_volume := ord_volume known, ord_volume_traded := traded,
      ord_volume_left := f_sub (ord_volume known) traded, ord_stop_price := ord_stop_price known, ord_status := st,
      ord_side := ord_side known, ord_order_type := ord_order_type known, ord_position_side := ord_position_side known,
      ord_insert_time := ord_insert_time known\<rparr>"

definition future_order :: "binance_td \<Rightarrow> u64 \<Rightarrow> order \<Rightarrow> future_update \<Rightarrow> OrderStatus \<Rightarrow> order" where
  "future_order a coid known u st =
    (updated_order a coid known (fo_i (fu_o u)) (fo_s (fu_o u)) (fo_z (fu_o u)) st)
      \<lparr>ord_fee_currency := strncpy SYMBOL_LEN (fo_N (fu_o u)), ord_avg_price := fo_ap (fu_o u), ord_fee := fo_n (fu_o u),
       ord_update_time := sint (fu_T u), ord_close_pnl := fo_rp (fu_o u)\<rparr>"

definition spot_order :: "binance_td \<Rightarrow> u64 \<Rightarrow> order \<Rightarrow> spot_update \<Rightarrow> OrderStatus \<Rightarrow> order" where
  "spot_order a coid known u st =
    (updated_order a coid known (su_i u) (su_s u) (su_z u) st)
      \<lparr>ord_fee_currency := strncpy SYMBOL_LEN [], ord_avg_price := f_div (su_Z u) (su_z u), ord_fee := su_n u,
       ord_update_time := sint (su_T u)\<rparr>"

text \<open>An update is written to where the order came from; a status that is neither new nor partially
  filled ends what is known of the order.\<close>

definition publish_update :: "u64 \<Rightarrow> string \<Rightarrow> (order \<Rightarrow> OrderStatus \<Rightarrow> order) \<Rightarrow> tdstep" where
  "publish_update coid X build a =
    (case map_of (bt_orders a) coid of
       None \<Rightarrow> (Inr True, a)
     | Some r \<Rightarrow>
        bindX (get_writer (ucast (om_source r)) a) (\<lambda>w a1.
          (case e_status_from_string X of
             Inl err \<Rightarrow> (Inl err, a1)
           | Inr st \<Rightarrow>
              (let ord = build (om_order r) (from_binance_status st);
                   a2 = write_msg w 0 T_Order (OrderData ord) a1
               in (Inr True,
                   if ord_status ord \<noteq> PartialFilledActive \<and> ord_status ord \<noteq> Submitted
                   then a2\<lparr>bt_orders := AList.delete coid (bt_orders a2)\<rparr> else a2)))))"

definition on_future_update :: "i32 \<Rightarrow> future_update \<Rightarrow> tdstep" where
  "on_future_update ec u a =
    (if ec \<noteq> 0 then (Inr True, a)
     else let coid = read_size (fo_c (fu_o u)) in publish_update coid (fo_X (fu_o u)) (\<lambda>known. future_order a coid known u) a)"

definition on_spot_update :: "i32 \<Rightarrow> spot_update \<Rightarrow> tdstep" where
  "on_spot_update ec u a =
    (if ec \<noteq> 0 then (Inr True, a)
     else let coid = read_size (su_c u) in publish_update coid (su_X u) (\<lambda>known. spot_order a coid known u) a)"

text \<open>The messages of the streams of the account (binapi/websocket.cpp); two of the callbacks of the trader
  do nothing.\<close>

definition on_userdata :: "(string \<Rightarrow> f64 option) \<Rightarrow> i32 \<Rightarrow> string \<Rightarrow> tdstep" where
  "on_userdata dec ec data a =
    (if ec \<noteq> 0 then bindX (on_spot_update ec zero_spot_update a) (\<lambda>_ a1. (Inr False, a1))
     else case stream_event data of
       Inl e \<Rightarrow> (Inl e, a)
     | Inr (json, h) \<Rightarrow>
        if h = fnv1a ''outboundAccountPosition'' then with_built (account_update_construct dec json) (\<lambda>_ a1. (Inr True, a1)) a
        else if h = fnv1a ''balanceUpdate'' then with_built (balance_update_construct dec json) (\<lambda>_ a1. (Inr True, a1)) a
        else if h = fnv1a ''executionReport'' then with_built (spot_update_construct dec json) (on_spot_update 0) a
        else if h = fnv1a ''listStatus'' then (Inr True, a)
        else (Inl (HandlerError ''unreachable''), a))"

definition on_future_order_data :: "(string \<Rightarrow> f64 option) \<Rightarrow> i32 \<Rightarrow> string \<Rightarrow> tdstep" where
  "on_future_order_data dec ec data a =
    (if ec \<noteq> 0 then bindX (on_future_update ec zero_future_update a) (\<lambda>_ a1. (Inr False, a1))
     else case stream_event data of
       Inl e \<Rightarrow> (Inl e, a)
     | Inr (json, h) \<Rightarrow>
        if h = fnv1a ''ORDER_TRADE_UPDATE'' then with_built (future_update_construct dec json) (on_future_update 0) a
        else (Inr True, a))"

text \<open>A message of a stream of the account, on the channel \<open>n\<close>: it is handed on as the text it is, and the
  channel stops when its callback says so.\<close>

definition account_callback :: "(string \<Rightarrow> f64 option) \<Rightarrow> callback_kind \<Rightarrow> i32 \<Rightarrow> string \<Rightarrow> tdstep" where
  "account_callback dec k = (if k = FutureOrderCb then on_future_order_data dec else on_userdata dec)"

definition account_message ::
    "(string \<Rightarrow> f64 option) \<Rightarrow> callback_kind \<Rightarrow> nat \<Rightarrow> i32 \<Rightarrow> string \<Rightarrow> binance_td \<Rightarrow> (herror + unit) \<times> binance_td" where
  "account_message dec k n ec body a =
    bindX (stream_message (\<lambda>_. Inr body) [] (account_callback dec k) ec body a) (\<lambda>go a1.
      (Inr (), if go then a1 else a1\<lparr>bt_sockets := socket_stops n (bt_sockets a1)\<rparr>))"

section \<open>Queries, cancellations, leverage\<close>

definition bnc_query_order :: "message \<Rightarrow> tdstep" where
  "bnc_query_order e a =
    (case m_data e of
       OrderActionData x \<Rightarrow>
         let symbol = to_binance_symbol (c_str (oa_symbol x)); ex_id = read_size (c_str (oa_ex_order_id x));
             client_id = show_nat (unat (oa_order_id x))
         in if oa_instrument_type x = Spot then
              (Inr True, td_request (api_order_info (cf_spot_rest_host (bt_config a)) symbol ex_id client_id) a)
            else if oa_instrument_type x = FFuture then
              (Inr True, td_request (api_future_order_info (cf_ubase_rest_host (bt_config a)) symbol ex_id client_id) a)
            else (Inr False, a)
     | _ \<Rightarrow> (Inl BadPayload, a))"

definition queried_order :: "binance_td \<Rightarrow> order_action \<Rightarrow> order_info \<Rightarrow> OrderStatus \<Rightarrow> Side \<Rightarrow> OrderType \<Rightarrow> order" where
  "queried_order a x r st side type =
    zero_order\<lparr>ord_order_id := oa_order_id x, ord_insert_time := sint (of_time r), ord_update_time := sint (of_updateTime r),
      ord_symbol := strcpy (ord_symbol zero_order) (oa_symbol x),
      ord_exchange_id := strcpy (ord_exchange_id zero_order) ''binance'',
      ord_account_id := strcpy (ord_account_id zero_order) (get_account_id a),
      ord_source_id := strcpy (ord_source_id zero_order) (get_source a),
      ord_price := of_price r, ord_volume := of_origQty r, ord_status := st, ord_side := side, ord_order_type := type,
      ord_ex_order_id := strcpy (ord_ex_order_id zero_order) (show_nat (unat (of_orderId r)))\<rparr>"

definition on_order_info :: "message \<Rightarrow> order_action \<Rightarrow> i32 \<Rightarrow> order_info \<Rightarrow> tdstep" where
  "on_order_info e x ec r a =
    (if ec \<noteq> 0 then (Inr True, a)
     else bindX (get_writer (m_source e) a) (\<lambda>w a1.
       (case bindE (e_status_from_string (of_status r)) (\<lambda>st.
             bindE (e_side_from_string (of_side r)) (\<lambda>side.
             bindE (e_type_from_string (of_type r)) (\<lambda>type. Inr (st, side, type)))) of
          Inl err \<Rightarrow> (Inl err, a1)
        | Inr (st, side, type) \<Rightarrow>
            (Inr True, write_msg w (m_gen_time e) T_Order (OrderData
              (queried_order a x r (from_binance_status st) (from_binance_side side) (from_binance_type type))) a1))))"

text \<open>The test of the identifiers compares the address of an array with null: it is always true.\<close>

definition bnc_cancel_order :: "message \<Rightarrow> tdstep" where
  "bnc_cancel_order e a =
    (case m_data e of
       OrderActionData x \<Rightarrow>
         let symbol = to_binance_symbol (c_str (oa_symbol x)); ex_id = read_size (c_str (oa_ex_order_id x));
             client_id = show_nat (unat (oa_order_id x))
         in if oa_instrument_type x = Spot then
              (Inr True, td_request (api_cancel_order (cf_spot_rest_host (bt_config a)) symbol ex_id [] client_id) a)
            else if oa_instrument_type x = FFuture then
              (Inr True, td_request (api_future_cancel_order (cf_ubase_rest_host (bt_config a)) symbol ex_id client_id) a)
            else (Inr True, a)
     | _ \<Rightarrow> (Inl BadPayload, a))"

text \<open>The answer to a cancellation is only logged.\<close>

definition on_cancel_answer :: "i32 \<Rightarrow> cancel_order_info \<Rightarrow> tdstep" where
  "on_cancel_answer ec res a = (Inr (ec = 0 \<and> cn_orderId res \<noteq> 0 \<and> cn_status res = ''CANCELED''), a)"

text \<open>The position side is read and not used.\<close>

definition bnc_adjust_leverage :: "message \<Rightarrow> tdstep" where
  "bnc_adjust_leverage e a =
    (case m_data e of
       JsonData j \<Rightarrow>
         (case bindE (jget_i32 j ''position_side'') (\<lambda>_.
               bindE (jget_u64 j ''strategy_uid'') (\<lambda>strategy.
               bindE (jget_string j ''symbol'') (\<lambda>symbol.
               bindE (jget_i32 j ''leverage'') (\<lambda>leverage. Inr (symbol, leverage))))) of
            Inl err \<Rightarrow> (Inl (JsonError err), a)
          | Inr (symbol, leverage) \<Rightarrow>
              (Inr True, td_request (api_adjust_leverage (cf_ubase_rest_host (bt_config a)) symbol leverage) a))
     | _ \<Rightarrow> (Inl BadPayload, a))"

definition write_union_response :: "journal_key \<Rightarrow> i64 \<Rightarrow> json \<Rightarrow> 'a hero_scheme \<Rightarrow> 'a hero_scheme" where
  "write_union_response w t j = write_msg w t T_UnionResponse (JsonData j)"

definition on_leverage_answer :: "i64 \<Rightarrow> u32 \<Rightarrow> string \<Rightarrow> u64 \<Rightarrow> i32 \<Rightarrow> leverage_info \<Rightarrow> tdstep" where
  "on_leverage_answer now src symbol strategy ec res a =
    (if ec \<noteq> 0 then (Inr False, a)
     else bindX (get_writer src a) (\<lambda>w a1.
       (Inr True, write_union_response w now (json_of [(''symbol'', JString symbol), (''msg_type'', JInt T_AdjustLeverage),
          (''ret'', JBool True), (''strategy_id'', JU64 strategy)]) a1)))"

definition binance_td_methods :: "i64 \<Rightarrow> binance_td td_methods" where
  "binance_td_methods nano = \<lparr>td_insert_order = bnc_insert_order nano, td_cancel_order = bnc_cancel_order,
     td_query_order = bnc_query_order, td_adjust_leverage = bnc_adjust_leverage, td_merge_position = not_implemented,
     td_query_position = not_implemented\<rparr>"

section \<open>The stream of the account\<close>

text \<open>\<open>net\<close> is the body of the answer to the request for a listen key, or nothing after an error of the
  network.\<close>

definition start_userdata :: "InstrumentType \<Rightarrow> string option \<Rightarrow> binance_td \<Rightarrow> (herror + unit) \<times> binance_td" where
  "start_userdata type net a =
    (let (h, k, r) = (if type = FFuture
           then (Ubase_ws, FutureOrderCb, api_future_start_user_data_stream (cf_ubase_rest_host (bt_config a)))
           else (Spot_ws, UserdataCb, api_start_user_data_stream (cf_spot_rest_host (bt_config a))));
         a1 = td_request r a
     in case sync_post (start_user_data_stream_construct (\<lambda>_. None)) zero_start_user_data_stream net of
          Inl e \<Rightarrow> (Inl e, a1)
        | Inr start_uds \<Rightarrow>
            if \<not> result_ok start_uds then publish_state B_LoggedInFailed a1
            else let key = us_listenKey (ar_v start_uds) in
              (Inr (), a1\<lparr>bt_listen_keys := bt_listen_keys a1 @ [key],
                          bt_sockets := snd (start_channel h k None key (bt_sockets a1))\<rparr>))"

definition ping_keys :: "binance_td \<Rightarrow> binance_td" where
  "ping_keys a = fold (\<lambda>k. td_request (api_future_ping_user_data_stream (cf_ubase_rest_host (bt_config a)) k)) (bt_listen_keys a) a"

definition restart_if_lost :: "ws_host \<Rightarrow> InstrumentType \<Rightarrow> string option \<Rightarrow> binance_td \<Rightarrow> (herror + unit) \<times> binance_td" where
  "restart_if_lost h type net a =
    (case fetch_reconnect_flag h (bt_sockets a) of
       (flag, s) \<Rightarrow> (let a1 = a\<lparr>bt_sockets := s\<rparr> in if flag then start_userdata type net a1 else (Inr (), a1)))"

definition btd_check_status :: "string option \<Rightarrow> string option \<Rightarrow> binance_td \<Rightarrow> (herror + unit) \<times> binance_td" where
  "btd_check_status spot_net future_net a =
    (let t = bt_check_time a + 5;
         a1 = (if t > 3000 then ping_keys (a\<lparr>bt_check_time := 0\<rparr>) else a\<lparr>bt_check_time := t\<rparr>)
     in bindX (restart_if_lost Spot_ws Spot spot_net a1) (\<lambda>_. restart_if_lost Ubase_ws FFuture future_net))"

definition btd_on_start :: "string option \<Rightarrow> binance_td \<Rightarrow> (herror + unit) \<times> binance_td" where
  "btd_on_start net a =
    bindX (start_userdata FFuture net a) (\<lambda>_ a1.
    bindX (add_time_interval 5000000000 a1) (\<lambda>_. publish_state B_Ready))"

text \<open>Every fired interval is the status check.\<close>

definition btd_react ::
    "i64 \<Rightarrow> string option \<Rightarrow> string option \<Rightarrow> message \<Rightarrow> binance_td \<Rightarrow> (herror + unit) \<times> binance_td" where
  "btd_react nano spot_net future_net e a =
    bindX (gateway_react (td_dispatch (binance_td_methods nano)) (btd_on_start future_net) e a) (\<lambda>_ a1.
    bindX (run_timers_on e a1) (\<lambda>fired a2.
      fold (\<lambda>_ r. bindX r (\<lambda>_. btd_check_status spot_net future_net)) fired (Inr (), a2)))"

end
