(* ===== verification/BinanceProps.thy ===== *)
theory BinanceProps
  imports BinanceTd
begin

text \<open>
  What holds of the trader of Binance: the updates of the exchange reach the strategy that sent the
  order, until the first status that the trader takes for its last.
\<close>

section \<open>Updates of orders\<close>

datatype exchange_update = FutureUpdate future_update | SpotUpdate spot_update

fun up_client :: "exchange_update \<Rightarrow> u64" where
  "up_client (FutureUpdate u) = read_size (fo_c (fu_o u))"
| "up_client (SpotUpdate u) = read_size (su_c u)"

fun up_status :: "exchange_update \<Rightarrow> herror + e_status" where
  "up_status (FutureUpdate u) = e_status_from_string (fo_X (fu_o u))"
| "up_status (SpotUpdate u) = e_status_from_string (su_X u)"

fun up_order :: "binance_td \<Rightarrow> u64 \<Rightarrow> order \<Rightarrow> exchange_update \<Rightarrow> OrderStatus \<Rightarrow> order" where
  "up_order a coid known (FutureUpdate u) st = future_order a coid known u st"
| "up_order a coid known (SpotUpdate u) st = spot_order a coid known u st"

fun on_update :: "exchange_update \<Rightarrow> tdstep" where
  "on_update (FutureUpdate u) a = on_future_update 0 u a"
| "on_update (SpotUpdate u) a = on_spot_update 0 u a"

fun on_updates :: "exchange_update list \<Rightarrow> tdstep" where
  "on_updates [] a = (Inr True, a)"
| "on_updates (u # us) a = bindX (on_update u a) (\<lambda>_. on_updates us)"

text \<open>The statuses after which more is expected.\<close>

definition stays :: "exchange_update \<Rightarrow> bool" where
  "stays u \<longleftrightarrow> up_status u = Inr E_new \<or> up_status u = Inr E_partially_filled"

fun until_final :: "exchange_update list \<Rightarrow> exchange_update list" where
  "until_final [] = []"
| "until_final (u # us) = u # (if stays u then until_final us else [])"

definition known_writers :: "binance_td \<Rightarrow> bool" where
  "known_writers a \<longleftrightarrow> (\<forall>c r. map_of (bt_orders a) c = Some r \<longrightarrow> map_of (h_writers a) (ucast (om_source r)) \<noteq> None)"

definition status_of :: "exchange_update \<Rightarrow> OrderStatus" where
  "status_of u = (case up_status u of Inr st \<Rightarrow> from_binance_status st | Inl _ \<Rightarrow> OS_Unknown)"

definition update_message :: "journal_key \<Rightarrow> binance_td \<Rightarrow> u64 \<Rightarrow> order \<Rightarrow> exchange_update \<Rightarrow> journal_key \<times> i64 \<times> i32 \<times> payload" where
  "update_message w a coid known u = (w, 0, T_Order, OrderData (up_order a coid known u (status_of u)))"

text \<open>The messages of an order among those written.\<close>

fun of_order :: "u64 \<Rightarrow> journal_key \<times> i64 \<times> i32 \<times> payload \<Rightarrow> bool" where
  "of_order oid (w, t, k, OrderData x) \<longleftrightarrow> ord_order_id x = oid"
| "of_order oid (w, t, k, p) \<longleftrightarrow> False"

lemma up_order_id [simp]: "ord_order_id (up_order a coid known u st) = coid"
  by (cases u) (simp_all add: future_order_def spot_order_def updated_order_def)

lemma up_order_status [simp]: "ord_status (up_order a coid known u st) = st"
  by (cases u) (simp_all add: future_order_def spot_order_def updated_order_def)

lemma up_order_home: "h_home a = h_home a' \<Longrightarrow> up_order a = up_order a'"
  by (intro ext) (rename_tac c k u st, case_tac u,
    simp_all add: future_order_def spot_order_def updated_order_def get_account_id_def get_source_def)

lemma ends_iff_not_stays:
  assumes "up_status u = Inr st"
  shows "from_binance_status st \<noteq> PartialFilledActive \<and> from_binance_status st \<noteq> Submitted \<longleftrightarrow> \<not> stays u"
  using assms by (cases st) (simp_all add: stays_def)

lemma up_order_eq [simp]:
  "up_order a coid known (FutureUpdate v) = future_order a coid known v"
  "up_order a coid known (SpotUpdate v') = spot_order a coid known v'"
  by (rule ext, simp)+

lemma on_update_publishes:
  "on_update u a = publish_update (up_client u) (case u of FutureUpdate v \<Rightarrow> fo_X (fu_o v) | SpotUpdate v \<Rightarrow> su_X v)
     (\<lambda>known. up_order a (up_client u) known u) a"
  by (cases u) (simp_all add: on_future_update_def on_spot_update_def Let_def)

lemma on_update_unknown: "map_of (bt_orders a) (up_client u) = None \<Longrightarrow> on_update u a = (Inr True, a)"
  by (simp add: on_update_publishes publish_update_def)

lemma on_update_known:
  assumes "map_of (bt_orders a) (up_client u) = Some r" and "map_of (h_writers a) (ucast (om_source r)) = Some w"
    and st: "up_status u = Inr st"
  shows "on_update u a = (Inr True, a\<lparr>h_out := h_out a @ [update_message w a (up_client u) (om_order r) u],
     bt_orders := (if stays u then bt_orders a else AList.delete (up_client u) (bt_orders a))\<rparr>)"
proof -
  have X: "e_status_from_string (case u of FutureUpdate v \<Rightarrow> fo_X (fu_o v) | SpotUpdate v \<Rightarrow> su_X v) = Inr st"
    using st by (cases u) simp_all
  show ?thesis
    using assms ends_iff_not_stays [OF st]
    by (simp add: on_update_publishes publish_update_def get_writer_def X Let_def write_msg_def update_message_def status_of_def)
qed

lemma updates_of_order:
  assumes "\<forall>u \<in> set us. \<exists>st. up_status u = Inr st" and "known_writers a"
  shows "\<exists>a' new. on_updates us a = (Inr True, a') \<and> h_out a' = h_out a @ new \<and>
    filter (of_order oid) new =
      (case map_of (bt_orders a) oid of
         None \<Rightarrow> []
       | Some r \<Rightarrow> map (update_message (the (map_of (h_writers a) (ucast (om_source r)))) a oid (om_order r))
           (until_final (filter (\<lambda>u. up_client u = oid) us)))"
  using assms
proof (induction us arbitrary: a)
  case Nil
  then show ?case by (simp split: option.split)
next
  case (Cons u us)
  show ?case
  proof (cases "map_of (bt_orders a) (up_client u)")
    case None
    then have "on_updates (u # us) a = on_updates us a" by (simp add: on_update_unknown)
    moreover have "filter (\<lambda>v. up_client v = oid) (u # us) = filter (\<lambda>v. up_client v = oid) us \<or> map_of (bt_orders a) oid = None"
      using None by auto
    ultimately show ?thesis using Cons.IH [of a] Cons.prems by (auto split: option.splits)
  next
    case (Some r)
    obtain w where w: "map_of (h_writers a) (ucast (om_source r)) = Some w"
      using Cons.prems(2) Some unfolding known_writers_def by blast
    obtain st where st: "up_status u = Inr st" using Cons.prems(1) by auto
    define a1 where "a1 = a\<lparr>h_out := h_out a @ [update_message w a (up_client u) (om_order r) u],
      bt_orders := (if stays u then bt_orders a else AList.delete (up_client u) (bt_orders a))\<rparr>"
    have step: "on_update u a = (Inr True, a1)" using on_update_known [OF Some w st] by (simp add: a1_def)
    have known: "known_writers a1"
      using Cons.prems(2) by (auto simp: known_writers_def a1_def delete_conv' fun_upd_apply split: if_splits)
    obtain a' new where IH: "on_updates us a1 = (Inr True, a')" "h_out a' = h_out a1 @ new"
      "filter (of_order oid) new =
        (case map_of (bt_orders a1) oid of
           None \<Rightarrow> []
         | Some r \<Rightarrow> map (update_message (the (map_of (h_writers a1) (ucast (om_source r)))) a1 oid (om_order r))
             (until_final (filter (\<lambda>u. up_client u = oid) us)))"
      using Cons.IH [of a1] Cons.prems(1) known by auto
    have home: "h_home a1 = h_home a" by (simp add: a1_def)
    have same: "update_message w' a1 = update_message w' a" for w'
      by (intro ext) (simp add: update_message_def up_order_home [OF home])
    have new': "h_out a' = h_out a @ (update_message w a (up_client u) (om_order r) u # new)"
      using IH(2) by (simp add: a1_def)
    have writers: "h_writers a1 = h_writers a" by (simp add: a1_def)
    have orders: "map_of (bt_orders a1) oid =
        (if up_client u = oid \<and> \<not> stays u then None else map_of (bt_orders a) oid)"
      by (simp add: a1_def delete_conv')
    have rest: "filter (of_order oid) (update_message w a (up_client u) (om_order r) u # new) =
      (case map_of (bt_orders a) oid of
         None \<Rightarrow> []
       | Some r \<Rightarrow> map (update_message (the (map_of (h_writers a) (ucast (om_source r)))) a oid (om_order r))
           (until_final (filter (\<lambda>u. up_client u = oid) (u # us))))"
      using IH(3)[unfolded same writers orders] Some w
      by (cases "up_client u = oid") (auto simp: update_message_def split: if_splits option.splits)
    show ?thesis by (rule exI, rule exI, intro conjI, unfold on_updates.simps step bindX.simps, rule IH(1), rule new', rule rest)
  qed
qed

definition client_ids :: "rest_request \<Rightarrow> string list" where
  "client_ids q = List.map_filter (\<lambda>(k, v). case v of PText t \<Rightarrow> if k = ''newClientOrderId'' then t else None | PSize n \<Rightarrow> None) (rq_params q)"

lemma client_ids_order [simp]:
  "client_ids (api_new_order host symbol side type time resp amount price (show_nat n) [] []) = [show_nat n]"
  "type = E_limit \<or> type = E_market \<Longrightarrow>
    client_ids (api_future_new_order host symbol side ps type price amount (show_nat n) time) = [show_nat n]"
  by (auto simp: client_ids_def api_new_order_def api_future_new_order_def List.map_filter_def opt_text_def Let_def)

lemma bnc_insert_order_sends:
  assumes "m_data e = OrderInputData i" and "oi_instrument_type i = Spot \<or> oi_instrument_type i = FFuture"
    and "oi_side i = Buy \<or> oi_side i = Sell" and "oi_order_type i = Limit \<or> oi_order_type i = Market"
  shows "\<exists>q. client_ids q = [show_nat (unat (oi_order_id i))] \<and> bnc_insert_order nano e a = (Inr True,
    a\<lparr>bt_orders := emplace (oi_order_id i) \<lparr>om_order_id = oi_order_id i, om_ex_order_id = [],
        om_source = ucast (m_source e), om_last_update = word_of_int nano, om_order = placed_order nano i\<rparr> (bt_orders a),
      bt_requests := bt_requests a @ [q]\<rparr>)"
proof -
  obtain side where side: "to_binance_side (oi_side i) = Inr side" using assms(3) by (auto simp: to_binance_side_def)
  obtain type where type: "to_binance_type (oi_order_type i) = Inr type" "type = E_limit \<or> type = E_market"
    using assms(4) by (auto simp: to_binance_type_def)
  define c where "c = bt_config a"
  define symbol where "symbol = to_binance_symbol (c_str (oi_symbol i))"
  define cid where "cid = show_nat (unat (oi_order_id i))"
  note defs = bnc_insert_order_def assms(1) Let_def send_request_def spot_request_def
      future_request_def side type(1) td_request_def c_def symbol_def cid_def
  from assms(2) show ?thesis
  proof
    assume "oi_instrument_type i = Spot"
    then show ?thesis
      by (intro exI [of _ "api_new_order (cf_spot_rest_host c) symbol side type E_GTC E_FULL
        (double_to_string (oi_volume i)) (double_to_string (oi_price i)) cid [] []"]) (simp add: defs)
  next
    assume "oi_instrument_type i = FFuture"
    then show ?thesis
      by (intro exI [of _ "api_future_new_order (cf_ubase_rest_host c) symbol side
        (to_binance_position_side (oi_position_side i)) type (double_to_string (oi_price i))
        (double_to_string (oi_volume i)) cid E_GTC"]) (simp add: defs type(2))
  qed
qed

text \<open>An order sent to Binance carries its identifier as the client identifier of the exchange, and
  whatever updates of whatever orders come in between, of the spot market or of the futures, those
  that name it are written, in order and with the strategy, price and volume of the order, to the
  strategy that sent it, up to the first whose status is neither new nor partially filled; what the
  exchange says of the order after that is dropped, so that a pending cancellation is the last it hears.\<close>

lemma updates_reach_their_strategy:
  assumes "m_data e = OrderInputData i" and "oi_instrument_type i = Spot \<or> oi_instrument_type i = FFuture"
    and "oi_side i = Buy \<or> oi_side i = Sell" and "oi_order_type i = Limit \<or> oi_order_type i = Market"
    and fresh: "map_of (bt_orders a) (oi_order_id i) = None" and w: "map_of (h_writers a) (m_source e) = Some w"
    and "known_writers a" and "\<forall>u \<in> set us. \<exists>st. up_status u = Inr st"
  shows "\<exists>a1 q a2 new. bnc_insert_order nano e a = (Inr True, a1) \<and> bt_requests a1 = bt_requests a @ [q]
    \<and> map read_size (client_ids q) = [oi_order_id i]
    \<and> on_updates us a1 = (Inr True, a2) \<and> h_out a2 = h_out a @ new
    \<and> filter (of_order (oi_order_id i)) new =
        map (update_message w a (oi_order_id i) (placed_order nano i))
          (until_final (filter (\<lambda>u. up_client u = oi_order_id i) us))"
proof -
  obtain q where q: "client_ids q = [show_nat (unat (oi_order_id i))]"
    and "insert": "bnc_insert_order nano e a = (Inr True,
      a\<lparr>bt_orders := emplace (oi_order_id i) \<lparr>om_order_id = oi_order_id i, om_ex_order_id = [],
          om_source = ucast (m_source e), om_last_update = word_of_int nano, om_order = placed_order nano i\<rparr> (bt_orders a),
        bt_requests := bt_requests a @ [q]\<rparr>)" (is "_ = (_, ?a1)")
    using bnc_insert_order_sends [OF assms(1-4)] by blast
  have orders: "map_of (emplace (oi_order_id i) v (bt_orders a)) c =
      (if c = oi_order_id i then Some v else map_of (bt_orders a) c)" for v c
    using fresh by (simp add: emplace_def)
  have src: "ucast (ucast (m_source e) :: u64) = m_source e" by (simp add: unsigned_ucast_eq take_bit_word_eq_self)
  have "known_writers ?a1"
    using \<open>known_writers a\<close> w by (auto simp: known_writers_def orders src split: if_splits)
  then obtain a2 new where "on_updates us ?a1 = (Inr True, a2)" "h_out a2 = h_out ?a1 @ new"
    "filter (of_order (oi_order_id i)) new = map (update_message w ?a1 (oi_order_id i) (placed_order nano i))
       (until_final (filter (\<lambda>u. up_client u = oi_order_id i) us))"
    using updates_of_order [OF assms(8), of ?a1 "oi_order_id i"] w by (auto simp: orders src)
  moreover have "update_message w ?a1 = update_message w a" 
    by (intro ext) (simp add: update_message_def up_order_home [of ?a1 a])
  ultimately show ?thesis using "insert" q by auto
qed

text \<open>A trader, and updates of an order of the futures.\<close>

definition demo_td :: binance_td where
  "demo_td = apprentice.extend ((new_apprentice (make_location LIVE TD ''binance'' ''acc'') 0)
       \<lparr>h_writers := [(7, (make_location LIVE TD ''binance'' ''acc'', 7))]\<rparr>)
     \<lparr>bt_config = \<lparr>cf_user_id = ''u'', cf_spot_rest_host = ''s'', cf_ubase_rest_host = ''f''\<rparr>, bt_sockets = no_sockets,
      bt_orders = [], bt_listen_keys = [], bt_check_time = 0, bt_requests = []\<rparr>"

definition demo_update :: "string \<Rightarrow> exchange_update" where
  "demo_update X = FutureUpdate (zero_future_update\<lparr>fu_T := 1, fu_o := zero_future_data\<lparr>fo_c := show_nat (unat (5 :: u64)), fo_i := 9,
     fo_s := ''BTCUSDT'', fo_N := ''USDT'', fo_X := X\<rparr>\<rparr>)"

lemma demo_update_facts:
  "up_client (demo_update X) = 5" "up_status (demo_update (e_status_to_string st)) = Inr st"
  "status_of (demo_update (e_status_to_string st)) = from_binance_status st"
  using read_size_show [of 5] by (simp_all add: demo_update_def e_status_read status_of_def del: read_size_show e_status_to_string.simps)

end
