(* ===== verification/TradingProps.thy ===== *)
theory TradingProps
  imports StrategyProps BinanceProps ApprenticeProps
begin

text \<open>
  The strategies and the Binance gateway together: what a strategy hears of an order it sends.
\<close>

text \<open>Events of the process of a strategy, one after another; and a strategy called with orders.\<close>

fun deliver_all :: "strategy_code \<Rightarrow> message list \<Rightarrow> rstep" where
  "deliver_all call [] r = (Inr (), r)"
| "deliver_all call (e # es) r = bindX (deliver call e r) (\<lambda>_. deliver_all call es)"

fun hears :: "strategy_code \<Rightarrow> u32 \<Rightarrow> order list \<Rightarrow> rstep" where
  "hears call s [] r = (Inr (), r)"
| "hears call s (x # xs) r = bindX (call s (OnOrder x) (r\<lparr>current_strategy_idx := s\<rparr>)) (\<lambda>_. hears call s xs)"

lemma up_order_strategy: "ord_strategy_id (up_order a coid known u st) = ord_strategy_id known"
  by (cases u) (simp_all add: future_order_def spot_order_def updated_order_def)

lemma placed_order_strategy: "ord_strategy_id (placed_order nano i) = oi_strategy_id i"
  by (simp add: placed_order_def order_from_input_def)

lemma order_delivered:
  assumes "snd w = get_home_uid r" "ord_strategy_id x \<in> set (strategies r)"
  shows "deliver call (as_message (w, t, T_Order, OrderData x)) r =
    call (ord_strategy_id x) (OnOrder x) (r\<lparr>current_strategy_idx := ord_strategy_id x\<rparr>)"
  using assms by (simp add: deliver_def as_message_def Let_def one_strategy_def event_types)

text \<open>The code of the strategies leaves the list of strategies and the home of the process alone.\<close>

definition keeps_strategies :: "strategy_code \<Rightarrow> bool" where
  "keeps_strategies call \<longleftrightarrow>
    (\<forall>s c r. strategies (snd (call s c r)) = strategies r \<and> h_home (snd (call s c r)) = h_home r)"

lemma keeps_strategiesD:
  assumes "keeps_strategies call" "call s c r = (res, r1)"
  shows "strategies r1 = strategies r" "h_home r1 = h_home r"
proof -
  from assms(1) have "strategies (snd (call s c r)) = strategies r \<and> h_home (snd (call s c r)) = h_home r"
    unfolding keeps_strategies_def by blast
  then show "strategies r1 = strategies r" "h_home r1 = h_home r" using assms(2) by simp_all
qed

lemma orders_delivered:
  assumes "keeps_strategies call" "s \<in> set (strategies r)" "snd w = get_home_uid r" "\<forall>x \<in> set xs. ord_strategy_id x = s"
  shows "deliver_all call (map (\<lambda>x. as_message (w, t, T_Order, OrderData x)) xs) r = hears call s xs r"
  using assms(2-)
proof (induction xs arbitrary: r)
  case (Cons x xs)
  obtain res r1 where step: "call s (OnOrder x) (r\<lparr>current_strategy_idx := s\<rparr>) = (res, r1)" by force
  have "strategies r1 = strategies r" "h_home r1 = h_home r"
    using keeps_strategiesD [OF assms(1) step] by simp_all
  then have "deliver_all call (map (\<lambda>x. as_message (w, t, T_Order, OrderData x)) xs) r1 = hears call s xs r1"
    using Cons by (simp add: get_home_uid_def)
  then show ?case using order_delivered [of w r x call t] Cons.prems step by (cases res) simp_all
qed simp

text \<open>What the trader writes of an order is, delivered, what the strategy that placed it hears.\<close>

lemma updates_delivered:
  assumes "keeps_strategies call" "oi_strategy_id i \<in> set (strategies r)" "snd w = get_home_uid r"
  shows "deliver_all call (map as_message (map (update_message w a oid (placed_order nano i)) us)) r =
    hears call (oi_strategy_id i) (map (\<lambda>u. up_order a oid (placed_order nano i) u (status_of u)) us) r"
proof -
  have "map as_message (map (update_message w a oid (placed_order nano i)) us) =
      map (\<lambda>x. as_message (w, 0, T_Order, OrderData x)) (map (\<lambda>u. up_order a oid (placed_order nano i) u (status_of u)) us)"
    by (simp add: update_message_def)
  then show ?thesis
    using orders_delivered [OF assms, of "map (\<lambda>u. up_order a oid (placed_order nano i) u (status_of u)) us" 0]
    by (simp only:) (simp add: up_order_strategy placed_order_strategy)
qed

text \<open>C31: an order that a strategy sends through Binance.  The order goes to the trader of the account; the
  request to the exchange carries its identifier, which the exchange gives back; and whatever updates
  of whatever orders come then, of the spot market or of the futures, the strategy that sent it hears
  of its own: \<open>on_order\<close> is called, as the current strategy, with every update that names the order, in
  order, up to the first whose status is neither new nor partially filled.  What the exchange says
  of the order after that is dropped, so that a pending cancellation is the last it hears.\<close>

theorem strategy_hears_of_its_order:
  assumes account: "map_of (account_location_ids r) (hash_str_32 account) = Some td" "map_of (h_writers r) td = Some w"
      "uid (fst w) = get_home_uid r"
    and order: "it = Spot \<or> it = FFuture" "side = Buy \<or> side = Sell" "type = Limit \<or> type = Market"
    and strategy: "current_strategy_idx r \<in> set (strategies r)" "keeps_strategies call"
    and trader: "map_of (bt_orders a) (fuid w (written w r)) = None" "map_of (h_writers a) (get_home_uid r) = Some wb"
      "snd wb = get_home_uid r" "known_writers a"
    and us: "\<forall>u \<in> set us. \<exists>st. up_status u = Inr st"
  shows "\<exists>i r1 q a1 a2 new.
    insert_order fuid symbol it exchange account price volume type side tc ps ro r = (Inr (fuid w (written w r)), r1) \<and>
    h_out r1 = h_out r @ [(w, 0, T_OrderInput, OrderInputData i)] \<and>
    bnc_insert_order nano (as_message (w, 0, T_OrderInput, OrderInputData i)) a = (Inr True, a1) \<and>
    bt_requests a1 = bt_requests a @ [q] \<and> map read_size (client_ids q) = [fuid w (written w r)] \<and>
    on_updates us a1 = (Inr True, a2) \<and> h_out a2 = h_out a @ new \<and>
    (\<forall>r2. strategies r2 = strategies r \<and> h_home r2 = h_home r \<longrightarrow>
      deliver_all call (map as_message (filter (of_order (fuid w (written w r))) new)) r2 =
      hears call (current_strategy_idx r)
        (map (\<lambda>u. up_order a (fuid w (written w r)) (placed_order nano i) u (status_of u))
          (until_final (filter (\<lambda>u. up_client u = fuid w (written w r)) us))) r2)"
proof -
  define i where "i = new_order_input (current_strategy_idx r) (fuid w (written w r)) symbol it exchange account price volume
    type side tc ps ro"
  let ?oid = "fuid w (written w r)" and ?e = "as_message (w, 0, T_OrderInput, OrderInputData i)"
  have i: "oi_order_id i = ?oid" "oi_strategy_id i = current_strategy_idx r" "oi_instrument_type i = it" "oi_side i = side"
    "oi_order_type i = type"
    by (simp_all add: i_def new_order_input_def)
  define r0 where "r0 = note_symbol (get_sub_symbol_id symbol ''order'' it exchange (current_strategy_idx r)) r"
  have sent: "insert_order fuid symbol it exchange account price volume type side tc ps ro r =
      (Inr ?oid, write_msg w 0 T_OrderInput (OrderInputData i) r0)" "h_out r0 = h_out r"
    using i(1) by (simp_all add: insert_order_sends [OF account(1,2)] Let_def i_def r0_def note_symbol_def)
  have e: "m_data ?e = OrderInputData i" "m_source ?e = get_home_uid r" using account(3) by (simp_all add: as_message_def)
  obtain q a1 a2 new where run: "bnc_insert_order nano ?e a = (Inr True, a1)" "bt_requests a1 = bt_requests a @ [q]"
    "map read_size (client_ids q) = [?oid]" "on_updates us a1 = (Inr True, a2)" "h_out a2 = h_out a @ new"
    "filter (of_order ?oid) new = map (update_message wb a ?oid (placed_order nano i))
       (until_final (filter (\<lambda>u. up_client u = ?oid) us))"
    using updates_reach_their_strategy [OF e(1), of a wb us nano] order trader us by (auto simp: i e(2))
  have "deliver_all call (map as_message (filter (of_order ?oid) new)) r2 = hears call (current_strategy_idx r)
      (map (\<lambda>u. up_order a ?oid (placed_order nano i) u (status_of u)) (until_final (filter (\<lambda>u. up_client u = ?oid) us))) r2"
    if "strategies r2 = strategies r" "h_home r2 = h_home r" for r2
    using updates_delivered [OF strategy(2), of i r2 wb a ?oid nano "until_final (filter (\<lambda>u. up_client u = ?oid) us)"]
      that strategy(1) trader(3) by (simp add: run(6) i(2) get_home_uid_def)
  then show ?thesis using sent run
    by (intro exI [of _ i] exI [of _ "write_msg w 0 T_OrderInput (OrderInputData i) r0"] exI [of _ q] exI [of _ a1] exI [of _ a2]
        exI [of _ new]) simp
qed

text \<open>An order of the futures that is being cancelled: the exchange reports it as pending, which the
  trader takes for the end of the order, so that the cancellation is not reported.\<close>

definition demo_trader_of :: "location \<Rightarrow> binance_td" where
  "demo_trader_of home = demo_td\<lparr>h_writers := [(uid home, (make_location LIVE TD ''binance'' ''acc'', uid home))]\<rparr>"

theorem strategy_hears_of_its_order_witness:
  "\<exists>i r1 a1 a2 new orders.
    insert_order (\<lambda>w n. 5) ''btc_usdt'' FFuture ''binance'' ''acc'' (Zero False) (Zero False) Limit Buy GTC Long False demo_runner = (Inr 5, r1) \<and>
    bnc_insert_order 2 (as_message ((demo_home, 7), 0, T_OrderInput, OrderInputData i)) (demo_trader_of demo_home) = (Inr True, a1) \<and>
    on_updates (map (demo_update \<circ> e_status_to_string) [E_new, E_pending_cancel, E_canceled]) a1 = (Inr True, a2) \<and>
    h_out a2 = h_out (demo_trader_of demo_home) @ new \<and>
    deliver_all note_call (map as_message (filter (of_order 5) new)) demo_runner = hears note_call 5 orders demo_runner \<and>
    map ord_status orders = [Submitted, Pending]"
proof -
  define us where "us = map (demo_update \<circ> e_status_to_string) [E_new, E_pending_cancel, E_canceled]"
  have facts: "map_of (bt_orders (demo_trader_of demo_home)) 5 = None"
    "map_of (h_writers (demo_trader_of demo_home)) (get_home_uid demo_runner) = Some (make_location LIVE TD ''binance'' ''acc'', uid demo_home)"
    "known_writers (demo_trader_of demo_home)"
    by (simp_all add: demo_trader_of_def demo_td_def new_apprentice_def apprentice.defs known_writers_def get_home_uid_def)
  have us: "\<forall>u \<in> set us. \<exists>st. up_status u = Inr st" by (simp add: us_def demo_update_facts del: e_status_to_string.simps)
  have code: "keeps_strategies note_call" by (simp add: keeps_strategies_def note_call_def)
  have names: "filter (\<lambda>u. up_client u = 5) us = us" by (simp add: us_def demo_update_facts)
  have final: "until_final us = map (demo_update \<circ> e_status_to_string) [E_new, E_pending_cancel]"
    by (simp add: us_def demo_update_facts stays_def del: e_status_to_string.simps)
  have status: "ord_status (up_order a coid known u (status_of u)) = status_of u" for a coid known u
    by (cases u) (simp_all add: future_order_def spot_order_def updated_order_def)
  obtain i r1 a1 a2 new where run: "insert_order (\<lambda>w n. 5) ''btc_usdt'' FFuture ''binance'' ''acc'' (Zero False) (Zero False) Limit Buy
      GTC Long False demo_runner = (Inr 5, r1)"
    "bnc_insert_order 2 (as_message ((demo_home, 7), 0, T_OrderInput, OrderInputData i)) (demo_trader_of demo_home) = (Inr True, a1)"
    "on_updates us a1 = (Inr True, a2)" "h_out a2 = h_out (demo_trader_of demo_home) @ new"
    "deliver_all note_call (map as_message (filter (of_order 5) new)) demo_runner = hears note_call 5
       (map (\<lambda>u. up_order (demo_trader_of demo_home) 5 (placed_order 2 i) u (status_of u)) (until_final us)) demo_runner"
    using strategy_hears_of_its_order [where r = demo_runner and account = "''acc''" and fuid = "\<lambda>w n. 5" and it = FFuture and side = Buy
        and type = Limit and call = note_call and a = "demo_trader_of demo_home" and us = us and nano = 2 and symbol = "''btc_usdt''"
        and exchange = "''binance''" and price = "Zero False" and volume = "Zero False" and tc = GTC and ps = Long and ro = False,
        OF _ _ _ _ _ _ _ code _ facts(2) _ facts(3) us] facts(1) names
    by (force simp: get_home_uid_def)
  have shown: "map ord_status (map (\<lambda>u. up_order (demo_trader_of demo_home) 5 (placed_order 2 i) u (status_of u)) (until_final us))
      = [Submitted, Pending]"
    by (simp add: final status demo_update_facts del: e_status_to_string.simps)
  show ?thesis
    unfolding us_def [symmetric]
    by (rule exI, rule exI, rule exI, rule exI, rule exI, rule exI, intro conjI, rule run(1), rule run(2), rule run(3), rule run(4),
      rule run(5), rule shown)
qed

end
