(* ===== verification/BinanceMd.thy ===== *)
theory BinanceMd
  imports Answers Broker
begin

text \<open>
  The market data gateway of Binance (marketdata_binance.cpp, marketdata_binance.h, market_db.h):
  the channels it opens for the subscriptions of the strategies, what it publishes for the messages
  of the exchange, and the timer that opens lost channels again.  The messages are those of
  \<open>StreamTypes\<close>, whose decimals are doubles here; the library reads decimals and the gateway converts them.
\<close>

definition EXCHANGE_BINANCE :: string where "EXCHANGE_BINANCE = ''binance''"
definition SOURCE_BINANCE :: string where "SOURCE_BINANCE = ''binance''"

section \<open>State\<close>

record channel_info =
  ci_symbol :: string
  ci_sub_type :: string
  ci_inst_type :: InstrumentType
  ci_handle :: nat
  ci_ready :: bool

text \<open>The cache is a \<open>std::map\<close>: ordered by its keys.  The market information is a table whose
  primary key is the symbol, the exchange and the type.\<close>

record binance_md = apprentice +
  bm_sockets :: sockets
  bm_cache :: "(u32 \<times> channel_info) list"
  bm_market_info :: "((string \<times> string \<times> InstrumentType) \<times> string) list"

definition new_binance_md :: "i64 \<Rightarrow> binance_md" where
  "new_binance_md now = apprentice.extend (new_apprentice (make_location LIVE MD SOURCE_BINANCE SOURCE_BINANCE) now)
     \<lparr>bm_sockets = no_sockets, bm_cache = [], bm_market_info = []\<rparr>"

definition add_market_info :: "string \<Rightarrow> string \<Rightarrow> InstrumentType \<Rightarrow> string \<Rightarrow> binance_md \<Rightarrow> binance_md" where
  "add_market_info symbol exchange it config m =
    m\<lparr>bm_market_info := AList.update (symbol, exchange, it) config (bm_market_info m)\<rparr>"

definition get_config :: "string \<Rightarrow> string \<Rightarrow> InstrumentType \<Rightarrow> binance_md \<Rightarrow> string" where
  "get_config symbol exchange it m =
    (case map_of (bm_market_info m) (symbol, exchange, it) of None \<Rightarrow> [] | Some c \<Rightarrow> c)"

section \<open>Subscriptions\<close>

definition channel_key :: "string \<Rightarrow> instrument \<Rightarrow> u32" where
  "channel_key sub_type i =
    get_sub_symbol_id (to_binance_symbol (c_str (ins_symbol i))) sub_type (ins_instrument_type i) EXCHANGE_BINANCE 0"

definition channel_ready :: "u32 \<Rightarrow> binance_md \<Rightarrow> bool" where
  "channel_ready k m = (case map_of (bm_cache m) k of None \<Rightarrow> False | Some c \<Rightarrow> ci_ready c)"

definition note_channel :: "u32 \<Rightarrow> channel_info \<Rightarrow> binance_md \<Rightarrow> binance_md" where
  "note_channel k c m =
    (case map_of (bm_cache m) k of
       None \<Rightarrow> m\<lparr>bm_cache := insort_key fst (k, c) (bm_cache m)\<rparr>
     | Some c0 \<Rightarrow> m\<lparr>bm_cache := AList.update k (c0\<lparr>ci_ready := True, ci_handle := ci_handle c\<rparr>) (bm_cache m)\<rparr>)"

text \<open>The end of the three loops: the channel is opened and noted.\<close>

definition open_channel :: "ws_host \<Rightarrow> callback_kind \<Rightarrow> string \<Rightarrow> string \<Rightarrow> instrument \<Rightarrow> binance_md \<Rightarrow> binance_md" where
  "open_channel h k channel sub_type i m =
    (case start_channel h k (Some (to_binance_symbol (c_str (ins_symbol i)))) channel (bm_sockets m) of
       (n, s) \<Rightarrow> note_channel (channel_key sub_type i)
         \<lparr>ci_symbol = c_str (ins_symbol i), ci_sub_type = sub_type, ci_inst_type = ins_instrument_type i,
          ci_handle = n, ci_ready = True\<rparr> (m\<lparr>bm_sockets := s\<rparr>))"

definition market_host :: "InstrumentType \<Rightarrow> ws_host option" where
  "market_host it = (if it = Spot then Some Spot_ws else if it = FFuture then Some Ubase_ws
     else if it = DFuture then Some Cbase_ws else None)"

fun bmd_subscribe :: "instrument list \<Rightarrow> binance_md \<Rightarrow> (herror + bool) \<times> binance_md" where
  "bmd_subscribe [] m = (Inr True, m)"
| "bmd_subscribe (i # is) m =
    (if c_str (ins_exchange_id i) \<noteq> EXCHANGE_BINANCE then bmd_subscribe is m
     else if channel_ready (channel_key ''depth'' i) m then bmd_subscribe is m
     else case market_host (ins_instrument_type i) of
            None \<Rightarrow> (Inr False, m)
          | Some h \<Rightarrow> bmd_subscribe is (open_channel h PartDepthsCb ''depth20@100ms'' ''depth'' i m))"

fun bmd_subscribe_trade :: "instrument list \<Rightarrow> binance_md \<Rightarrow> (herror + bool) \<times> binance_md" where
  "bmd_subscribe_trade [] m = (Inr True, m)"
| "bmd_subscribe_trade (i # is) m =
    (if c_str (ins_exchange_id i) \<noteq> EXCHANGE_BINANCE then bmd_subscribe_trade is m
     else if channel_ready (channel_key ''trade'' i) m then bmd_subscribe_trade is m
     else case market_host (ins_instrument_type i) of
            None \<Rightarrow> bmd_subscribe_trade is m
          | Some h \<Rightarrow> bmd_subscribe_trade is
              (if h = Spot_ws then open_channel h TradeCb ''trade'' ''trade'' i m
               else open_channel h AggTradeCb ''aggTrade'' ''trade'' i m))"

fun bmd_subscribe_ticker :: "instrument list \<Rightarrow> binance_md \<Rightarrow> (herror + bool) \<times> binance_md" where
  "bmd_subscribe_ticker [] m = (Inr True, m)"
| "bmd_subscribe_ticker (i # is) m =
    (if c_str (ins_exchange_id i) \<noteq> EXCHANGE_BINANCE then bmd_subscribe_ticker is m
     else if channel_ready (channel_key ''ticker'' i) m then bmd_subscribe_ticker is m
     else case market_host (ins_instrument_type i) of
            None \<Rightarrow> (Inr False, m)
          | Some h \<Rightarrow> bmd_subscribe_ticker is (open_channel h BookTickerCb ''bookTicker'' ''ticker'' i m))"

definition bmd_subscribe_index_price :: "instrument list \<Rightarrow> binance_md \<Rightarrow> (herror + bool) \<times> binance_md" where
  "bmd_subscribe_index_price is m = (Inr False, m)"

definition bmd_subscribe_all :: "binance_md \<Rightarrow> (herror + bool) \<times> binance_md" where
  "bmd_subscribe_all m = (Inr True, m)"

definition bmd_unsubscribe :: "instrument list \<Rightarrow> binance_md \<Rightarrow> (herror + bool) \<times> binance_md" where
  "bmd_unsubscribe is m = (Inr True, m)"

definition binance_md_methods :: "binance_md md_methods" where
  "binance_md_methods = \<lparr>md_subscribe = bmd_subscribe, md_subscribe_trade = bmd_subscribe_trade,
     md_subscribe_ticker = bmd_subscribe_ticker, md_subscribe_index_price = bmd_subscribe_index_price,
     md_subscribe_all = bmd_subscribe_all, md_unsubscribe = bmd_unsubscribe\<rparr>"

section \<open>Lost channels\<close>

text \<open>The loop of the timer over the cache: the channels that are not ready, as instruments to
  subscribe again.\<close>

definition channel_instrument :: "channel_info \<Rightarrow> instrument" where
  "channel_instrument c = zero_instrument\<lparr>ins_symbol := strcpy (ins_symbol zero_instrument) (ci_symbol c),
     ins_exchange_id := strcpy (ins_exchange_id zero_instrument) EXCHANGE_BINANCE,
     ins_instrument_type := ci_inst_type c\<rparr>"

definition checked_host :: "InstrumentType \<Rightarrow> ws_host" where
  "checked_host it = (if it = FFuture then Ubase_ws else Spot_ws)"

fun find_lost :: "(u32 \<times> channel_info) list \<Rightarrow> binance_md \<Rightarrow> (herror + channel_info list) \<times> binance_md" where
  "find_lost [] m = (Inr [], m)"
| "find_lost ((k, c) # cs) m =
    (case is_ready (checked_host (ci_inst_type c)) (ci_handle c) (bm_sockets m) of
       Inl e \<Rightarrow> (Inl e, m)
     | Inr True \<Rightarrow> find_lost cs m
     | Inr False \<Rightarrow>
        bindX (find_lost cs (m\<lparr>bm_cache := AList.update k (c\<lparr>ci_ready := False\<rparr>) (bm_cache m)\<rparr>)) (\<lambda>lost m1.
          (Inr (c # lost), m1)))"

definition lost_of :: "string \<Rightarrow> channel_info list \<Rightarrow> instrument list" where
  "lost_of sub_type cs = map channel_instrument (filter (\<lambda>c. ci_sub_type c = sub_type) cs)"

definition bmd_check_status :: "binance_md \<Rightarrow> (herror + unit) \<times> binance_md" where
  "bmd_check_status m =
    bindX (find_lost (bm_cache m) m) (\<lambda>lost m1.
    bindX (bmd_subscribe (lost_of ''depth'' lost) m1) (\<lambda>_ m2.
    bindX (bmd_subscribe_trade (lost_of ''trade'' lost) m2) (\<lambda>_ m3.
    bindX (bmd_subscribe_ticker (lost_of ''ticker'' lost) m3) (\<lambda>_ m4. (Inr (), m4)))))"

section \<open>Start\<close>

text \<open>\<open>spot\<close> and \<open>future\<close> are the bodies of the answers to the two requests for the instruments, or
  nothing after an error of the network; \<open>parse\<close> and \<open>dump\<close> are those of the json library of the
  program, which reads the text of the futures a second time.\<close>

fun json_elements :: "json \<Rightarrow> json list" where
  "json_elements JNull = []"
| "json_elements (JArray js) = js"
| "json_elements (JObject kvs) = map snd kvs"
| "json_elements j = [j]"

fun add_futures :: "(json \<Rightarrow> string) \<Rightarrow> json list \<Rightarrow> binance_md \<Rightarrow> (herror + unit) \<times> binance_md" where
  "add_futures dump [] m = (Inr (), m)"
| "add_futures dump (j # js) m =
    (case (case jfind j ''symbol'' of None \<Rightarrow> Inl (TypeError ''symbol'') | Some v \<Rightarrow> as_string v) of
       Inl e \<Rightarrow> (Inl (JsonError e), m)
     | Inr symbol \<Rightarrow> add_futures dump js (add_market_info (from_binance_symbol symbol) EXCHANGE_BINANCE FFuture (dump j) m))"

definition add_spots :: "(f64 \<Rightarrow> string) \<Rightarrow> exchange_info \<Rightarrow> binance_md \<Rightarrow> binance_md" where
  "add_spots shw info =
    fold (\<lambda>(symbol, x) m. if sy_status x = ''TRADING''
      then add_market_info (from_binance_symbol symbol) EXCHANGE_BINANCE Spot (fj_text (symbol_json shw x)) m else m)
      (xi_symbols info)"

definition update_spot_info ::
    "(string \<Rightarrow> f64 option) \<Rightarrow> (f64 \<Rightarrow> string) \<Rightarrow> string option \<Rightarrow> binance_md \<Rightarrow> (herror + unit) \<times> binance_md" where
  "update_spot_info dec shw net m =
    (case sync_post (exchange_info_construct dec)
       \<lparr>xi_timezone = [], xi_serverTime = 0, xi_exchangeFilters = [], xi_rateLimits = [], xi_symbols = []\<rparr> net of
       Inl e \<Rightarrow> (Inl e, m)
     | Inr symbols \<Rightarrow> (Inr (), if ar_ec symbols = 0 then add_spots shw (ar_v symbols) m else m))"

definition update_future_info ::
    "(string \<Rightarrow> json option) \<Rightarrow> (json \<Rightarrow> string) \<Rightarrow> string option \<Rightarrow> binance_md \<Rightarrow> (herror + unit) \<times> binance_md" where
  "update_future_info parse dump net m =
    (case sync_post future_exchange_info_construct [] net of
       Inl e \<Rightarrow> (Inl e, m)
     | Inr symbols \<Rightarrow>
        if ar_ec symbols \<noteq> 0 then (Inr (), m)
        else case parse (ar_v symbols) of
               None \<Rightarrow> (Inl (BadText (ar_v symbols)), m)
             | Some j \<Rightarrow> (case jget j ''symbols'' of
                   Inl e \<Rightarrow> (Inl (JsonError e), m)
                 | Inr js \<Rightarrow> add_futures dump (json_elements js) m))"

record md_library =
  ml_dec :: "string \<Rightarrow> f64 option"
  ml_shw :: "f64 \<Rightarrow> string"
  ml_parse :: "string \<Rightarrow> json option"
  ml_dump :: "json \<Rightarrow> string"

definition bmd_on_start :: "md_library \<Rightarrow> string option \<Rightarrow> string option \<Rightarrow> binance_md \<Rightarrow> (herror + unit) \<times> binance_md" where
  "bmd_on_start lib spot future m =
    bindX (publish_state B_LoggedIn m) (\<lambda>_ m1.
    bindX (update_spot_info (ml_dec lib) (ml_shw lib) spot m1) (\<lambda>_ m2.
    bindX (update_future_info (ml_parse lib) (ml_dump lib) future m2) (\<lambda>_. add_time_interval 5000000000)))"

text \<open>Every fired interval is the status check: the gateway adds no other.\<close>

definition bmd_react ::
    "md_library \<Rightarrow> string option \<Rightarrow> string option \<Rightarrow> message \<Rightarrow> binance_md \<Rightarrow> (herror + unit) \<times> binance_md" where
  "bmd_react lib spot future e m =
    bindX (gateway_react (md_dispatch binance_md_methods) (bmd_on_start lib spot future) e m) (\<lambda>_ m1.
    bindX (run_timers_on e m1) (\<lambda>fired m2.
      fold (\<lambda>_ r. bindX r (\<lambda>_. bmd_check_status)) fired (Inr (), m2)))"

section \<open>Messages of the exchange\<close>

text \<open>The levels are read by index, ten of each side; a shorter list is read past its end.\<close>

definition depth_of :: "i64 \<Rightarrow> InstrumentType \<Rightarrow> string \<Rightarrow> part_depths \<Rightarrow> depth" where
  "depth_of now it orig_symbol d =
    zero_depth\<lparr>dep_source_id := strcpy (dep_source_id zero_depth) SOURCE_BINANCE, dep_data_time := now,
      dep_symbol := strcpy (dep_symbol zero_depth) orig_symbol,
      dep_exchange_id := strcpy (dep_exchange_id zero_depth) EXCHANGE_BINANCE, dep_instrument_type := it,
      dep_ask_price := map fst (take 10 (pd_a d)), dep_ask_volume := map snd (take 10 (pd_a d)),
      dep_bid_price := map fst (take 10 (pd_b d)), dep_bid_volume := map snd (take 10 (pd_b d))\<rparr>"

definition on_part_depths ::
    "i64 \<Rightarrow> InstrumentType \<Rightarrow> string \<Rightarrow> i32 \<Rightarrow> part_depths \<Rightarrow> binance_md \<Rightarrow> (herror + bool) \<times> binance_md" where
  "on_part_depths now it orig_symbol ec d m =
    (if ec \<noteq> 0 then (Inr False, m)
     else bindX (get_writer 0 m) (\<lambda>w m1.
       if length (pd_a d) < 10 \<or> length (pd_b d) < 10 then (Inl undefined_behaviour, m1)
       else (Inr True, write_msg w 0 T_Depth (DepthData (depth_of now it orig_symbol d)) m1)))"

definition ms_to_ns :: "u64 \<Rightarrow> i64" where
  "ms_to_ns t = sint (t * 1000 * 1000)"

definition spot_trade :: "string \<Rightarrow> ws_trade \<Rightarrow> trade" where
  "spot_trade orig_symbol t =
    zero_trade\<lparr>trd_trade_time := ms_to_ns (wt_T t), trd_symbol := strncpy SYMBOL_LEN orig_symbol,
      trd_exchange_id := strncpy EXCHANGE_ID_LEN EXCHANGE_BINANCE, trd_instrument_type := Spot,
      trd_trade_id := sint (wt_t t), trd_price := wt_p t, trd_volume := wt_q t,
      trd_ask_id := sint (wt_a t), trd_bid_id := sint (wt_b t), trd_side := (if wt_m t then Sell else Buy)\<rparr>"

text \<open>The trade is published before the error is looked at.\<close>

definition on_spot_trade :: "string \<Rightarrow> i32 \<Rightarrow> ws_trade \<Rightarrow> binance_md \<Rightarrow> (herror + bool) \<times> binance_md" where
  "on_spot_trade orig_symbol ec t m =
    bindX (get_writer 0 m) (\<lambda>w m1.
      let m2 = write_msg w 0 T_Trade (TradeData (spot_trade orig_symbol t)) m1 in
      if ec \<noteq> 0 then (Inr False, m2) else (Inr True, m2))"

definition future_trade :: "InstrumentType \<Rightarrow> string \<Rightarrow> ws_agg_trade \<Rightarrow> trade" where
  "future_trade it orig_symbol t =
    zero_trade\<lparr>trd_trade_time := ms_to_ns (wg_T t), trd_symbol := strncpy SYMBOL_LEN orig_symbol,
      trd_exchange_id := strncpy EXCHANGE_ID_LEN EXCHANGE_BINANCE, trd_instrument_type := it,
      trd_trade_id := sint (wg_a t), trd_price := wg_p t, trd_volume := wg_q t, trd_ask_id := 0, trd_bid_id := 0,
      trd_side := (if wg_m t then Sell else Buy)\<rparr>"

definition on_agg_trade :: "InstrumentType \<Rightarrow> string \<Rightarrow> i32 \<Rightarrow> ws_agg_trade \<Rightarrow> binance_md \<Rightarrow> (herror + bool) \<times> binance_md" where
  "on_agg_trade it orig_symbol ec t m =
    (if ec \<noteq> 0 then (Inr True, m)
     else bindX (get_writer 0 m) (\<lambda>w m1.
       (Inr True, write_msg w 0 T_Trade (TradeData (future_trade it orig_symbol t)) m1)))"

definition ticker_of :: "i64 \<Rightarrow> InstrumentType \<Rightarrow> string \<Rightarrow> ws_book_ticker \<Rightarrow> ticker" where
  "ticker_of now it orig_symbol t =
    zero_ticker\<lparr>tkr_source_id := strncpy SOURCE_ID_LEN SOURCE_BINANCE,
      tkr_data_time := (if 0 < wb_T t then ms_to_ns (wb_T t) else now),
      tkr_symbol := strncpy SYMBOL_LEN orig_symbol, tkr_exchange_id := strncpy EXCHANGE_ID_LEN EXCHANGE_BINANCE,
      tkr_instrument_type := it, tkr_ask_price := wb_a t, tkr_ask_volume := wb_A t,
      tkr_bid_price := wb_b t, tkr_bid_volume := wb_B t\<rparr>"

definition on_book_ticker :: "i64 \<Rightarrow> InstrumentType \<Rightarrow> string \<Rightarrow> i32 \<Rightarrow> ws_book_ticker \<Rightarrow> binance_md \<Rightarrow> (herror + bool) \<times> binance_md" where
  "on_book_ticker now it orig_symbol ec t m =
    (if ec \<noteq> 0 then (Inr False, m)
     else bindX (get_writer 0 m) (\<lambda>w m1.
       (Inr True, write_msg w 0 T_Ticker (TickerData (ticker_of now it orig_symbol t)) m1)))"

text \<open>A channel whose callback returns false stops (\<open>on_read\<close>).\<close>

definition channel_message ::
    "nat \<Rightarrow> (binance_md \<Rightarrow> (herror + bool) \<times> binance_md) \<Rightarrow> binance_md \<Rightarrow> (herror + unit) \<times> binance_md" where
  "channel_message n callback m =
    bindX (callback m) (\<lambda>go m1. (Inr (), if go then m1 else m1\<lparr>bm_sockets := socket_stops n (bm_sockets m1)\<rparr>))"

text \<open>The four kinds of channels, as they were opened: what comes is \<open>ec\<close> and a text.\<close>

definition depth_message ::
    "(string \<Rightarrow> f64 option) \<Rightarrow> i64 \<Rightarrow> InstrumentType \<Rightarrow> string \<Rightarrow> nat \<Rightarrow> i32 \<Rightarrow> string \<Rightarrow> binance_md \<Rightarrow> (herror + unit) \<times> binance_md" where
  "depth_message dec now it orig_symbol n ec body =
    channel_message n (stream_message (part_depths_construct dec) zero_part_depths (on_part_depths now it orig_symbol) ec body)"

definition spot_trade_message ::
    "(string \<Rightarrow> f64 option) \<Rightarrow> string \<Rightarrow> nat \<Rightarrow> i32 \<Rightarrow> string \<Rightarrow> binance_md \<Rightarrow> (herror + unit) \<times> binance_md" where
  "spot_trade_message dec orig_symbol n ec body =
    channel_message n (stream_message (ws_trade_construct dec) zero_ws_trade (on_spot_trade orig_symbol) ec body)"

definition agg_trade_message ::
    "(string \<Rightarrow> f64 option) \<Rightarrow> InstrumentType \<Rightarrow> string \<Rightarrow> nat \<Rightarrow> i32 \<Rightarrow> string \<Rightarrow> binance_md \<Rightarrow> (herror + unit) \<times> binance_md" where
  "agg_trade_message dec it orig_symbol n ec body =
    channel_message n (stream_message (ws_agg_trade_construct dec) zero_ws_agg_trade (on_agg_trade it orig_symbol) ec body)"

definition ticker_message ::
    "(string \<Rightarrow> f64 option) \<Rightarrow> i64 \<Rightarrow> InstrumentType \<Rightarrow> string \<Rightarrow> nat \<Rightarrow> i32 \<Rightarrow> string \<Rightarrow> binance_md \<Rightarrow> (herror + unit) \<times> binance_md" where
  "ticker_message dec now it orig_symbol n ec body =
    channel_message n (stream_message (ws_book_ticker_construct dec) zero_ws_book_ticker (on_book_ticker now it orig_symbol) ec body)"

end
