(* ===== verification/BinanceMdProps.thy ===== *)
theory BinanceMdProps
  imports BinanceMd
begin

text \<open>
  The channels of the market data gateway of Binance.  The three loops that subscribe share a
  contract, the locale \<open>channel_loop\<close>: subscribing again opens nothing, and a loop over lost channels
  opens each of them once.  The properties are that of the status check, and the two cases it does
  not handle: the channels of the coin futures, and a socket deleted by the wrong owner.
\<close>

section \<open>Opening a channel\<close>

lemma map_of_insort [simp]: "map_of xs k = None \<Longrightarrow> map_of (insort_key fst (k, v) xs) = (map_of xs)(k \<mapsto> v)"
proof (induction xs)
  case (Cons x xs)
  then show ?case by (cases x) (auto simp: fun_eq_iff split: if_splits)
qed simp

definition opened :: "ws_host \<Rightarrow> callback_kind \<Rightarrow> string \<Rightarrow> instrument \<Rightarrow> binance_md \<Rightarrow> sockets" where
  "opened h k channel i m =
    snd (start_channel h k (Some (to_binance_symbol (c_str (ins_symbol i)))) channel (bm_sockets m))"

definition noted :: "string \<Rightarrow> instrument \<Rightarrow> nat \<Rightarrow> channel_info option \<Rightarrow> channel_info" where
  "noted sub_type i n c =
    (case c of
       None \<Rightarrow> \<lparr>ci_symbol = c_str (ins_symbol i), ci_sub_type = sub_type, ci_inst_type = ins_instrument_type i,
               ci_handle = n, ci_ready = True\<rparr>
     | Some c0 \<Rightarrow> c0\<lparr>ci_ready := True, ci_handle := n\<rparr>)"

lemma open_channel_sockets [simp]: "bm_sockets (open_channel h k channel sub_type i m) = opened h k channel i m"
  by (simp add: open_channel_def opened_def note_channel_def Let_def split: prod.split option.split)

lemma open_channel_cache [simp]:
  "map_of (bm_cache (open_channel h k channel sub_type i m)) =
    (map_of (bm_cache m))(channel_key sub_type i \<mapsto>
       noted sub_type i (sk_next (bm_sockets m)) (map_of (bm_cache m) (channel_key sub_type i)))"
  by (auto simp: open_channel_def start_channel_def Let_def note_channel_def noted_def update_conv' split: option.split)

lemma open_channel_keys:
  "map_of (bm_cache m) (channel_key sub_type i) \<noteq> None \<Longrightarrow>
    map fst (bm_cache (open_channel h k channel sub_type i m)) = map fst (bm_cache m)"
  by (auto simp: open_channel_def start_channel_def Let_def note_channel_def update_keys map_of_eq_None_iff split: option.split)

lemma open_channel_ready [simp]:
  "channel_ready x (open_channel h k channel sub_type i m) \<longleftrightarrow> x = channel_key sub_type i \<or> channel_ready x m"
  by (simp add: channel_ready_def noted_def split: option.split)

section \<open>The loops\<close>

locale channel_loop =
  fixes loop :: "instrument list \<Rightarrow> binance_md \<Rightarrow> (herror + bool) \<times> binance_md"
    and sub_type :: string and kind :: "ws_host \<Rightarrow> callback_kind" and channel :: "ws_host \<Rightarrow> string" and skips :: bool
  assumes nil: "loop [] m = (Inr True, m)"
    and cons: "loop (i # is) m =
      (if c_str (ins_exchange_id i) \<noteq> EXCHANGE_BINANCE then loop is m
       else if channel_ready (channel_key sub_type i) m then loop is m
       else case market_host (ins_instrument_type i) of
              None \<Rightarrow> if skips then loop is m else (Inr False, m)
            | Some h \<Rightarrow> loop is (open_channel h (kind h) (channel h) sub_type i m))"
begin

text \<open>What a loop has nothing to do for.\<close>

definition settled :: "instrument \<Rightarrow> binance_md \<Rightarrow> bool" where
  "settled i m \<longleftrightarrow> c_str (ins_exchange_id i) \<noteq> EXCHANGE_BINANCE \<or> channel_ready (channel_key sub_type i) m
     \<or> skips \<and> market_host (ins_instrument_type i) = None"

lemma stays_ready: "channel_ready x m \<Longrightarrow> channel_ready x (snd (loop is m))"
  by (induction "is" arbitrary: m) (auto simp: nil cons split: option.split)

lemma loop_settles: "fst (loop is m) = Inr True \<Longrightarrow> i \<in> set is \<Longrightarrow> settled i (snd (loop is m))"
proof (induction "is" arbitrary: m)
  case (Cons j js)
  show ?case
  proof (cases "i = j")
    case True
    have "settled i (snd (loop js m'))" if "settled i m'" for m'
      using that stays_ready by (auto simp: settled_def)
    then show ?thesis using True Cons.prems
      by (auto simp: cons settled_def split: if_splits option.splits)
  next
    case False
    then show ?thesis using Cons by (auto simp: cons split: if_splits option.splits)
  qed
qed simp

lemma loop_settled: "\<forall>i \<in> set is. settled i m \<Longrightarrow> loop is m = (Inr True, m)"
  by (induction "is") (auto simp: nil cons settled_def)

theorem again: "fst (loop is m) = Inr True \<Longrightarrow> loop is (snd (loop is m)) = (Inr True, snd (loop is m))"
  by (rule loop_settled) (simp add: loop_settles)

end

interpretation depth: channel_loop bmd_subscribe "''depth''" "\<lambda>_. PartDepthsCb" "\<lambda>_. ''depth20@100ms''" False
  by unfold_locales simp_all

interpretation trades: channel_loop bmd_subscribe_trade "''trade''" "\<lambda>h. if h = Spot_ws then TradeCb else AggTradeCb"
    "\<lambda>h. if h = Spot_ws then ''trade'' else ''aggTrade''" True
  by unfold_locales (simp_all split: option.split)

interpretation ticker: channel_loop bmd_subscribe_ticker "''ticker''" "\<lambda>_. BookTickerCb" "\<lambda>_. ''bookTicker''" False
  by unfold_locales simp_all

text \<open>A strategy that subscribes to what is subscribed opens no channel.\<close>

lemma subscribing_again:
  "fst (md_subscribe binance_md_methods is m) = Inr True \<Longrightarrow>
    md_subscribe binance_md_methods is (snd (md_subscribe binance_md_methods is m)) =
      (Inr True, snd (md_subscribe binance_md_methods is m))"
  by (simp add: binance_md_methods_def depth.again)

section \<open>Lost channels\<close>

definition at_host :: "InstrumentType \<Rightarrow> bool" where
  "at_host it \<longleftrightarrow> it = Spot \<or> it = FFuture"

lemma at_host_market: "at_host it \<Longrightarrow> market_host it = Some (checked_host it)"
  by (auto simp: at_host_def market_host_def checked_host_def)

definition works :: "binance_md \<Rightarrow> channel_info \<Rightarrow> bool" where
  "works m c \<longleftrightarrow> is_ready (checked_host (ci_inst_type c)) (ci_handle c) (bm_sockets m) = Inr True"

text \<open>Between the operations every channel marked ready works, and is one the check can see.\<close>

definition consistent :: "binance_md \<Rightarrow> bool" where
  "consistent m \<longleftrightarrow> sockets_wf (bm_sockets m) \<and> (\<forall>k c. map_of (bm_cache m) k = Some c \<longrightarrow>
     at_host (ci_inst_type c) \<and> ci_handle c < sk_next (bm_sockets m) \<and> (ci_ready c \<longrightarrow> works m c))"

text \<open>The channels that are ready are untouched; the others at most get a new socket.\<close>

definition kept :: "binance_md \<Rightarrow> binance_md \<Rightarrow> bool" where
  "kept m m' \<longleftrightarrow> map fst (bm_cache m') = map fst (bm_cache m) \<and>
    (\<forall>k c. map_of (bm_cache m) k = Some c \<longrightarrow> (\<exists>c'. map_of (bm_cache m') k = Some c' \<and>
       (c' = c \<or> \<not> ci_ready c \<and> c' = c\<lparr>ci_handle := ci_handle c', ci_ready := True\<rparr>)))"

lemma kept_refl: "kept m m"
  by (simp add: kept_def)

lemma kept_trans: 
  assumes "kept m m1" and "kept m1 m2"
  shows "kept m m2"
proof -
  have "\<exists>c'. map_of (bm_cache m2) k = Some c' \<and> (c' = c \<or> \<not> ci_ready c \<and> c' = c\<lparr>ci_handle := ci_handle c', ci_ready := True\<rparr>)"
    if c: "map_of (bm_cache m) k = Some c" for k c
  proof -
    obtain c1 where c1: "map_of (bm_cache m1) k = Some c1" "c1 = c \<or> \<not> ci_ready c \<and> c1 = c\<lparr>ci_handle := ci_handle c1, ci_ready := True\<rparr>"
      using assms(1) c unfolding kept_def by blast
    obtain c2 where c2: "map_of (bm_cache m2) k = Some c2" "c2 = c1 \<or> \<not> ci_ready c1 \<and> c2 = c1\<lparr>ci_handle := ci_handle c2, ci_ready := True\<rparr>"
      using assms(2) c1(1) unfolding kept_def by blast
    have "c1 = c \<or> ci_ready c1" using c1(2) by (metis channel_info.select_convs(5) channel_info.surjective channel_info.update_convs(5))
    then show ?thesis using c1(2) c2 by auto
  qed
  then show ?thesis using assms unfolding kept_def by simp
qed

lemma opened_next [simp]: "sk_next (opened h k channel i m) = Suc (sk_next (bm_sockets m))"
  by (simp add: opened_def start_channel_def Let_def)

lemma opened_count [simp]: "length (sk_opened (opened h k channel i m)) = Suc (length (sk_opened (bm_sockets m)))"
  by (simp add: opened_def start_channel_def Let_def)

lemma reopen_channel:
  assumes m: "consistent m" and c0: "map_of (bm_cache m) (channel_key sub_type i) = Some c0"
    and type: "ci_inst_type c0 = ins_instrument_type i" and idle: "\<not> ci_ready c0"
    and h: "market_host (ins_instrument_type i) = Some h"
  shows "consistent (open_channel h k channel sub_type i m)" (is "consistent ?m")
    and "kept m (open_channel h k channel sub_type i m)"
proof -
  have wf: "sockets_wf (bm_sockets m)" using m by (simp add: consistent_def)
  have host: "at_host (ci_inst_type c0)" using m c0 by (simp add: consistent_def)
  have other: "works ?m c" if "works m c" "ci_handle c < sk_next (bm_sockets m)" for c
    using that start_channel_ready_others [OF wf] by (simp add: works_def opened_def)
  have this_one: "works ?m (c0\<lparr>ci_ready := True, ci_handle := sk_next (bm_sockets m)\<rparr>)"
    using start_channel_ready [of h k "Some (to_binance_symbol (c_str (ins_symbol i)))" channel "bm_sockets m"]
      at_host_market [OF host] h type by (simp add: works_def opened_def) (simp add: start_channel_def Let_def)
  show "consistent ?m"
    unfolding consistent_def
  proof (intro conjI allI impI)
    show "sockets_wf (bm_sockets ?m)" using sockets_wf_start [OF wf] by (simp add: opened_def)
  qed (use m c0 host other this_one in \<open>auto simp: consistent_def noted_def less_Suc_eq split: if_splits\<close>)
  show "kept m ?m"
    using c0 idle open_channel_keys [of m sub_type i h k channel] by (auto simp: kept_def noted_def)
qed

context channel_loop
begin

lemma loop_reopens:
  assumes "consistent m"
    and "\<forall>i \<in> set is. c_str (ins_exchange_id i) = EXCHANGE_BINANCE \<and>
      (\<exists>c. map_of (bm_cache m) (channel_key sub_type i) = Some c \<and> ci_inst_type c = ins_instrument_type i)"
  shows "\<exists>m'. loop is m = (Inr True, m') \<and> consistent m' \<and> kept m m'
    \<and> (\<forall>i \<in> set is. channel_ready (channel_key sub_type i) m')
    \<and> length (sk_opened (bm_sockets m')) \<le> length (sk_opened (bm_sockets m)) + length is"
  using assms
proof (induction "is" arbitrary: m)
  case Nil
  then show ?case by (simp add: nil kept_refl)
next
  case (Cons i js)
  obtain c where c: "map_of (bm_cache m) (channel_key sub_type i) = Some c" "ci_inst_type c = ins_instrument_type i"
    using Cons.prems(2) by auto
  show ?case
  proof (cases "channel_ready (channel_key sub_type i) m")
    case True
    then obtain m' where "loop js m = (Inr True, m')" "consistent m'" "kept m m'"
      "\<forall>i \<in> set js. channel_ready (channel_key sub_type i) m'"
      "length (sk_opened (bm_sockets m')) \<le> length (sk_opened (bm_sockets m)) + length js"
      using Cons.IH [OF Cons.prems(1)] Cons.prems(2) by auto
    then show ?thesis using Cons.prems(2) True stays_ready [OF True, of js] by (simp add: cons)
  next
    case False
    then have idle: "\<not> ci_ready c" using c by (simp add: channel_ready_def)
    obtain h where h: "market_host (ins_instrument_type i) = Some h"
      using Cons.prems(1) c at_host_market unfolding consistent_def by metis
    define m1 where "m1 = open_channel h (kind h) (channel h) sub_type i m"
    have m1: "consistent m1" "kept m m1" using reopen_channel [OF Cons.prems(1) c idle h] by (simp_all add: m1_def)
    have "\<exists>c. map_of (bm_cache m1) k = Some c \<and> ci_inst_type c = it" if "map_of (bm_cache m) k = Some c'" "ci_inst_type c' = it" for k c' it
      using m1(2) that unfolding kept_def by (metis channel_info.select_convs(3) channel_info.surjective channel_info.update_convs(4,5))
    then obtain m' where m': "loop js m1 = (Inr True, m')" "consistent m'" "kept m1 m'"
      "\<forall>i \<in> set js. channel_ready (channel_key sub_type i) m'"
      "length (sk_opened (bm_sockets m')) \<le> length (sk_opened (bm_sockets m1)) + length js"
      using Cons.IH [OF m1(1)] Cons.prems(2) by (metis list.set_intros(2))
    have "channel_ready (channel_key sub_type i) m'" using stays_ready [of "channel_key sub_type i" m1 js] m'(1) by (simp add: m1_def)
    moreover have "loop (i # js) m = (Inr True, m')" using Cons.prems(2) False h m'(1) by (simp add: cons m1_def)
    ultimately show ?thesis using m' kept_trans [OF m1(2) m'(3)] by (simp add: m1_def)
  qed
qed

end

section \<open>The status check\<close>

definition md_ok :: "binance_md \<Rightarrow> bool" where
  "md_ok m \<longleftrightarrow> distinct (map fst (bm_cache m)) \<and> sockets_wf (bm_sockets m) \<and> (\<forall>(k, c) \<in> set (bm_cache m).
     ci_ready c \<and> at_host (ci_inst_type c) \<and> ci_handle c < sk_next (bm_sockets m)
     \<and> ci_sub_type c \<in> {''depth'', ''trade'', ''ticker''} \<and> channel_key (ci_sub_type c) (channel_instrument c) = k)"

text \<open>Every socket of the cache that the check looks at is still there, or its set knows it is not.\<close>

definition checkable :: "binance_md \<Rightarrow> bool" where
  "checkable m \<longleftrightarrow> (\<forall>(k, c) \<in> set (bm_cache m).
     is_ready (checked_host (ci_inst_type c)) (ci_handle c) (bm_sockets m) \<noteq> Inl undefined_behaviour)"

definition lost_channels :: "binance_md \<Rightarrow> (u32 \<times> channel_info) list" where
  "lost_channels m = filter (\<lambda>(k, c). \<not> works m c) (bm_cache m)"

definition unready :: "u32 \<times> channel_info \<Rightarrow> (u32 \<times> channel_info) list \<Rightarrow> (u32 \<times> channel_info) list" where
  "unready x = AList.update (fst x) ((snd x)\<lparr>ci_ready := False\<rparr>)"

lemma is_ready_cases: "is_ready h n s = Inl undefined_behaviour \<or> is_ready h n s = Inr True \<or> is_ready h n s = Inr False"
  by (auto simp: is_ready_def split: option.split)

lemma find_lost_eq:
  assumes "\<forall>(k, c) \<in> set cs. is_ready (checked_host (ci_inst_type c)) (ci_handle c) (bm_sockets m) \<noteq> Inl undefined_behaviour"
  shows "find_lost cs m = (Inr (map snd (filter (\<lambda>(k, c). \<not> works m c) cs)),
    m\<lparr>bm_cache := fold unready (filter (\<lambda>(k, c). \<not> works m c) cs) (bm_cache m)\<rparr>)"
  using assms
proof (induction cs arbitrary: m)
  case (Cons x cs)
  obtain k c where x: "x = (k, c)" by (cases x)
  have works: "works (m\<lparr>bm_cache := a\<rparr>) = works m" for a by (simp add: works_def fun_eq_iff)
  show ?case
    using Cons.prems Cons.IH [of m] Cons.IH [of "m\<lparr>bm_cache := unready x (bm_cache m)\<rparr>"]
      is_ready_cases [of "checked_host (ci_inst_type c)" "ci_handle c" "bm_sockets m"]
    by (auto simp: x works works_def unready_def)
qed simp

lemma map_of_unready:
  "distinct (map fst cs) \<Longrightarrow> map_of (fold unready cs xs) k =
    (case map_of cs k of None \<Rightarrow> map_of xs k | Some c \<Rightarrow> Some (c\<lparr>ci_ready := False\<rparr>))"
proof (induction cs arbitrary: xs)
  case (Cons x cs)
  have "map_of cs (fst x) = None" using Cons.prems by (simp add: map_of_eq_None_iff)
  then show ?case using Cons by (auto simp: unready_def update_conv' split: option.split)
qed simp

lemma keys_unready: "set (map fst cs) \<subseteq> set (map fst xs) \<Longrightarrow> map fst (fold unready cs xs) = map fst xs"
proof (induction cs arbitrary: xs)
  case (Cons x cs)
  then have "map fst (unready x xs) = map fst xs" by (simp add: unready_def update_keys)
  moreover from this have "set (map fst (unready x xs)) = set (map fst xs)" by (rule arg_cong)
  ultimately show ?case using Cons.IH [of "unready x xs"] Cons.prems by simp
qed simp

lemma lookup_lost:
  assumes "distinct (map fst al)"
  shows "map_of (filter (\<lambda>(i, ch). \<not> works m ch) al) i =
    Option.bind (map_of al i) (\<lambda>ch. if works m ch then None else Some ch)"
  using assms by (induction al) (auto simp: map_of_eq_None_iff split: Option.bind_split)

lemma lost_phase:
  assumes "md_ok m" and "checkable m"
  obtains m1 where "find_lost (bm_cache m) m = (Inr (map snd (lost_channels m)), m1)" and "consistent m1"
    and "bm_sockets m1 = bm_sockets m" and "map fst (bm_cache m1) = map fst (bm_cache m)"
    and "\<forall>k. map_of (bm_cache m1) k = (case map_of (bm_cache m) k of None \<Rightarrow> None
           | Some c \<Rightarrow> Some (if works m c then c else c\<lparr>ci_ready := False\<rparr>))"
proof -
  define m1 where "m1 = m\<lparr>bm_cache := fold unready (lost_channels m) (bm_cache m)\<rparr>"
  have d: "distinct (map fst (bm_cache m))" using assms(1) by (simp add: md_ok_def)
  then have dl: "distinct (map fst (lost_channels m))" by (simp add: lost_channels_def distinct_map_filter)
  have found: "find_lost (bm_cache m) m = (Inr (map snd (lost_channels m)), m1)"
    using find_lost_eq [of "bm_cache m" m] assms(2) by (simp add: checkable_def m1_def lost_channels_def)
  have keys: "map fst (bm_cache m1) = map fst (bm_cache m)"
    by (simp add: m1_def) (rule keys_unready, auto simp: lost_channels_def)
  have entries: "map_of (bm_cache m1) k = (case map_of (bm_cache m) k of None \<Rightarrow> None
           | Some c \<Rightarrow> Some (if works m c then c else c\<lparr>ci_ready := False\<rparr>))" for k
    using map_of_unready [OF dl, of "bm_cache m" k] lookup_lost [OF d, of m k]
    by (auto simp: m1_def lost_channels_def split: option.split Option.bind_split)
  have works: "works m1 = works m" by (simp add: works_def fun_eq_iff m1_def)
  have sockets: "bm_sockets m1 = bm_sockets m" by (simp add: m1_def)
  have "consistent m1"
    unfolding consistent_def
  proof (intro conjI allI impI)
    show "sockets_wf (bm_sockets m1)" using assms(1) by (simp add: m1_def md_ok_def)
  next
    fix k c assume "map_of (bm_cache m1) k = Some c"
    then obtain c0 where "(k, c0) \<in> set (bm_cache m)" "c = (if works m c0 then c0 else c0\<lparr>ci_ready := False\<rparr>)"
      by (auto simp: entries dest: map_of_SomeD split: option.splits)
    then show "at_host (ci_inst_type c)" "ci_handle c < sk_next (bm_sockets m1)" "ci_ready c \<Longrightarrow> works m1 c"
      using assms(1) by (auto simp: md_ok_def works sockets split: if_splits)
  qed
  then show ?thesis using that [OF found] keys entries by (simp add: m1_def)
qed

lemma channel_instrument_read [simp]:
  "c_str (ins_exchange_id (channel_instrument c)) = EXCHANGE_BINANCE"
  "ins_instrument_type (channel_instrument c) = ci_inst_type c"
proof -
  have "c_str (strcpy (replicate EXCHANGE_ID_LEN NUL) EXCHANGE_BINANCE) = EXCHANGE_BINANCE"
  proof (rule strcpy_fits)
    show "NUL \<notin> set EXCHANGE_BINANCE" by code_simp
  qed (simp add: EXCHANGE_BINANCE_def EXCHANGE_ID_LEN_def)
  then show "c_str (ins_exchange_id (channel_instrument c)) = EXCHANGE_BINANCE"
    by (simp add: channel_instrument_def zero_instrument_def)
qed (simp add: channel_instrument_def)

text \<open>What a loop over the lost channels of a type needs: it is the same before the other loops.\<close>

definition lost_in :: "binance_md \<Rightarrow> string \<Rightarrow> channel_info list \<Rightarrow> bool" where
  "lost_in m sub_type cs \<longleftrightarrow> (\<forall>i \<in> set (lost_of sub_type cs). c_str (ins_exchange_id i) = EXCHANGE_BINANCE \<and>
      (\<exists>c. map_of (bm_cache m) (channel_key sub_type i) = Some c \<and> ci_inst_type c = ins_instrument_type i))"

lemma kept_entry: "kept m m' \<Longrightarrow> map_of (bm_cache m) k = Some c \<Longrightarrow>
    \<exists>c'. map_of (bm_cache m') k = Some c' \<and> ci_inst_type c' = ci_inst_type c \<and> ci_symbol c' = ci_symbol c
      \<and> ci_sub_type c' = ci_sub_type c \<and> (ci_ready c \<longrightarrow> c' = c)"
  unfolding kept_def
  by (metis channel_info.select_convs(1-3) channel_info.surjective channel_info.update_convs(4,5))

lemma lost_in_kept: "lost_in m sub_type cs \<Longrightarrow> kept m m' \<Longrightarrow> lost_in m' sub_type cs"
  unfolding lost_in_def by (metis kept_entry)

lemma kept_ready: "kept m m' \<Longrightarrow> channel_ready k m \<Longrightarrow> channel_ready k m'"
  unfolding channel_ready_def by (metis (no_types, lifting) kept_entry option.case_eq_if option.collapse option.distinct(1) option.sel)

lemma length_lost_of: "length (lost_of ''depth'' cs) + length (lost_of ''trade'' cs) + length (lost_of ''ticker'' cs) \<le> length cs"
  by (induction cs) (auto simp: lost_of_def)

lemma reopening_phases:
  assumes "consistent m1" and "lost_in m1 ''depth'' cs" "lost_in m1 ''trade'' cs" "lost_in m1 ''ticker'' cs"
  obtains m2 m3 m4 where "bmd_subscribe (lost_of ''depth'' cs) m1 = (Inr True, m2)"
    and "bmd_subscribe_trade (lost_of ''trade'' cs) m2 = (Inr True, m3)"
    and "bmd_subscribe_ticker (lost_of ''ticker'' cs) m3 = (Inr True, m4)"
    and "consistent m4" and "kept m1 m4"
    and "\<forall>c \<in> set cs. ci_sub_type c \<in> {''depth'', ''trade'', ''ticker''} \<longrightarrow>
           channel_ready (channel_key (ci_sub_type c) (channel_instrument c)) m4"
    and "length (sk_opened (bm_sockets m4)) \<le> length (sk_opened (bm_sockets m1)) + length cs"
proof -
  obtain m2 where m2: "bmd_subscribe (lost_of ''depth'' cs) m1 = (Inr True, m2)" "consistent m2" "kept m1 m2"
      "\<forall>i \<in> set (lost_of ''depth'' cs). channel_ready (channel_key ''depth'' i) m2"
      "length (sk_opened (bm_sockets m2)) \<le> length (sk_opened (bm_sockets m1)) + length (lost_of ''depth'' cs)"
    using depth.loop_reopens [OF assms(1)] assms(2) unfolding lost_in_def by blast
  obtain m3 where m3: "bmd_subscribe_trade (lost_of ''trade'' cs) m2 = (Inr True, m3)" "consistent m3" "kept m2 m3"
      "\<forall>i \<in> set (lost_of ''trade'' cs). channel_ready (channel_key ''trade'' i) m3"
      "length (sk_opened (bm_sockets m3)) \<le> length (sk_opened (bm_sockets m2)) + length (lost_of ''trade'' cs)"
    using trades.loop_reopens [OF m2(2)] lost_in_kept [OF assms(3) m2(3)] unfolding lost_in_def by blast
  obtain m4 where m4: "bmd_subscribe_ticker (lost_of ''ticker'' cs) m3 = (Inr True, m4)" "consistent m4" "kept m3 m4"
      "\<forall>i \<in> set (lost_of ''ticker'' cs). channel_ready (channel_key ''ticker'' i) m4"
      "length (sk_opened (bm_sockets m4)) \<le> length (sk_opened (bm_sockets m3)) + length (lost_of ''ticker'' cs)"
    using ticker.loop_reopens [OF m3(2)] lost_in_kept [OF assms(4) kept_trans [OF m2(3) m3(3)]] unfolding lost_in_def by blast
  have "channel_ready (channel_key (ci_sub_type c) (channel_instrument c)) m4"
    if "c \<in> set cs" "ci_sub_type c \<in> {''depth'', ''trade'', ''ticker''}" for c
    using that m2(4) m3(4) m4(4) kept_ready [OF m4(3)] kept_ready [OF kept_trans [OF m3(3) m4(3)]]
    by (fastforce simp: lost_of_def)
  then show ?thesis
    using that [OF m2(1) m3(1) m4(1,2)] kept_trans [OF m2(3) kept_trans [OF m3(3) m4(3)]] m2(5) m3(5) m4(5)
      length_lost_of [of cs] by simp
qed

text \<open>What the search for lost channels returns can be subscribed again.\<close>

lemma lost_are_known:
  assumes ok: "md_ok m"
    and cache: "\<forall>k. map_of (bm_cache m1) k = (case map_of (bm_cache m) k of None \<Rightarrow> None
           | Some c \<Rightarrow> Some (if works m c then c else c\<lparr>ci_ready := False\<rparr>))"
  shows "lost_in m1 sub_type (map snd (lost_channels m))"
  unfolding lost_in_def
proof
  fix i assume "i \<in> set (lost_of sub_type (map snd (lost_channels m)))"
  then obtain k c where c: "(k, c) \<in> set (bm_cache m)" "ci_sub_type c = sub_type" "i = channel_instrument c"
    by (auto simp: lost_of_def lost_channels_def)
  have "channel_key sub_type i = k" using ok c unfolding md_ok_def by fastforce
  moreover have "map_of (bm_cache m) k = Some c" using ok c(1) by (simp add: md_ok_def)
  ultimately have "\<exists>c'. map_of (bm_cache m1) (channel_key sub_type i) = Some c' \<and> ci_inst_type c' = ci_inst_type c"
    using cache by (simp split: if_splits)
  then show "c_str (ins_exchange_id i) = EXCHANGE_BINANCE \<and>
      (\<exists>c. map_of (bm_cache m1) (channel_key sub_type i) = Some c \<and> ci_inst_type c = ins_instrument_type i)"
    using c(3) by simp
qed

text \<open>A check finds the lost channels and opens them again: the state it ends in, entry by entry.\<close>

definition reopened :: "binance_md \<Rightarrow> binance_md \<Rightarrow> bool" where
  "reopened m m' \<longleftrightarrow> consistent m' \<and> map fst (bm_cache m') = map fst (bm_cache m) \<and>
    (\<forall>(k, c) \<in> set (bm_cache m). \<exists>c'. map_of (bm_cache m') k = Some c' \<and> ci_ready c'
      \<and> channel_instrument c' = channel_instrument c \<and> ci_sub_type c' = ci_sub_type c \<and> (works m c \<longrightarrow> c' = c))"

lemma check_status_reopens:
  assumes ok: "md_ok m" and "checkable m"
  obtains m' where "bmd_check_status m = (Inr (), m')" "reopened m m'"
    "length (sk_opened (bm_sockets m')) \<le> length (sk_opened (bm_sockets m)) + length (lost_channels m)"
proof -
  obtain m1 where m1: "find_lost (bm_cache m) m = (Inr (map snd (lost_channels m)), m1)" "consistent m1"
    "bm_sockets m1 = bm_sockets m" "map fst (bm_cache m1) = map fst (bm_cache m)"
    "\<forall>k. map_of (bm_cache m1) k = (case map_of (bm_cache m) k of None \<Rightarrow> None
           | Some c \<Rightarrow> Some (if works m c then c else c\<lparr>ci_ready := False\<rparr>))"
    by (rule lost_phase [OF assms])
  note known = lost_are_known [OF ok m1(5)]
  obtain m2 m3 m4 where run: "bmd_subscribe (lost_of ''depth'' (map snd (lost_channels m))) m1 = (Inr True, m2)"
    "bmd_subscribe_trade (lost_of ''trade'' (map snd (lost_channels m))) m2 = (Inr True, m3)"
    "bmd_subscribe_ticker (lost_of ''ticker'' (map snd (lost_channels m))) m3 = (Inr True, m4)"
    and m4: "consistent m4" "kept m1 m4"
    "\<forall>c \<in> set (map snd (lost_channels m)). ci_sub_type c \<in> {''depth'', ''trade'', ''ticker''} \<longrightarrow>
           channel_ready (channel_key (ci_sub_type c) (channel_instrument c)) m4"
    "length (sk_opened (bm_sockets m4)) \<le> length (sk_opened (bm_sockets m1)) + length (map snd (lost_channels m))"
    by (rule reopening_phases [OF m1(2) known known known])
  have "\<exists>c'. map_of (bm_cache m4) k = Some c' \<and> ci_ready c' \<and> channel_instrument c' = channel_instrument c
      \<and> ci_sub_type c' = ci_sub_type c \<and> (works m c \<longrightarrow> c' = c)" if c: "(k, c) \<in> set (bm_cache m)" for k c
  proof -
    have chan: "ci_ready c" "ci_sub_type c \<in> {''depth'', ''trade'', ''ticker''}" "channel_key (ci_sub_type c) (channel_instrument c) = k"
      using ok c by (auto simp: md_ok_def)
    have "map_of (bm_cache m) k = Some c" using ok c by (simp add: md_ok_def)
    then obtain c' where c': "map_of (bm_cache m4) k = Some c'" "ci_inst_type c' = ci_inst_type c" "ci_symbol c' = ci_symbol c"
        "ci_sub_type c' = ci_sub_type c" "works m c \<longrightarrow> c' = c"
      using kept_entry [OF m4(2), of k "if works m c then c else c\<lparr>ci_ready := False\<rparr>"] chan(1)
      by (auto simp: m1(5) split: if_splits)
    have "channel_ready k m4" if "\<not> works m c"
      using m4(3) that c chan(2,3) by (force simp: lost_channels_def)
    then have "ci_ready c'" using c' chan(1) by (auto simp: channel_ready_def)
    then show ?thesis using c' by (simp add: channel_instrument_def)
  qed
  then have "reopened m m4" using m4(1,2) m1(4) by (auto simp: reopened_def kept_def)
  moreover have "bmd_check_status m = (Inr (), m4)" by (simp add: bmd_check_status_def m1(1) run)
  ultimately show ?thesis using that m4(4) m1(3) by simp
qed

text \<open>Every entry of the cache after the check comes from one before it.\<close>

lemma reopened_entry:
  assumes "md_ok m" "reopened m m'" "(k, c) \<in> set (bm_cache m')"
  obtains c0 where "(k, c0) \<in> set (bm_cache m)" "ci_ready c" "channel_instrument c = channel_instrument c0"
    "ci_sub_type c = ci_sub_type c0" "works m c0 \<longrightarrow> c = c0"
proof -
  have keys: "map fst (bm_cache m') = map fst (bm_cache m)" using assms(2) by (simp add: reopened_def)
  then obtain c0 where c0: "(k, c0) \<in> set (bm_cache m)"
    using assms(3) by (metis (no_types, lifting) fst_conv image_iff list.set_map prod.collapse)
  moreover have "map_of (bm_cache m') k = Some c" using assms(1,3) keys by (simp add: md_ok_def)
  ultimately show ?thesis using assms(2) that [OF c0] unfolding reopened_def by fastforce
qed

lemma reopened_ok:
  assumes "md_ok m" "reopened m m'"
  shows "md_ok m'"
  unfolding md_ok_def
proof (intro conjI ballI)
  show d: "distinct (map fst (bm_cache m'))" using assms by (simp add: md_ok_def reopened_def)
  show "sockets_wf (bm_sockets m')" using assms(2) by (simp add: reopened_def consistent_def)
  fix x assume x: "x \<in> set (bm_cache m')"
  obtain k c where kc: "x = (k, c)" by (cases x)
  obtain c0 where c0: "(k, c0) \<in> set (bm_cache m)" "ci_ready c" "channel_instrument c = channel_instrument c0"
    "ci_sub_type c = ci_sub_type c0"
    using reopened_entry [OF assms] x kc by metis
  have "at_host (ci_inst_type c)" "ci_handle c < sk_next (bm_sockets m')"
    using assms(2) x kc d by (auto simp: reopened_def consistent_def)
  then show "case x of (k, c) \<Rightarrow> ci_ready c \<and> at_host (ci_inst_type c) \<and> ci_handle c < sk_next (bm_sockets m')
      \<and> ci_sub_type c \<in> {''depth'', ''trade'', ''ticker''} \<and> channel_key (ci_sub_type c) (channel_instrument c) = k"
    using c0 assms(1) kc unfolding md_ok_def by fastforce
qed

text \<open>C32: after the status check of the market data gateway every channel of a cache that satisfies
  \<open>md_ok\<close> and \<open>checkable\<close> works: those that were lost have a new socket, those that worked are untouched,
  no more channels are opened than were lost, and the cache satisfies \<open>md_ok\<close> again.  \<open>md_ok\<close> asks that every
  channel of the cache was opened, under its own key, for an instrument of the spot or the linear futures
  market: the channels of coin-margined futures are opened again and again without ever counting as
  ready (lemma \<open>coin_channels_leak\<close>).  \<open>checkable\<close> asks that no handle the check follows is of a socket that
  was deleted through the socket set of the other market, which is undefined
  (lemma \<open>lost_future_channel_undefined\<close>).\<close>

theorem lost_channels_reopened:
  assumes "md_ok m" and "checkable m"
  shows "\<exists>m'. bmd_check_status m = (Inr (), m') \<and> md_ok m' \<and> map fst (bm_cache m') = map fst (bm_cache m)
    \<and> (\<forall>(k, c) \<in> set (bm_cache m'). works m' c)
    \<and> (\<forall>(k, c) \<in> set (bm_cache m). works m c \<longrightarrow> (k, c) \<in> set (bm_cache m'))
    \<and> length (sk_opened (bm_sockets m')) \<le> length (sk_opened (bm_sockets m)) + length (lost_channels m)"
proof -
  obtain m' where run: "bmd_check_status m = (Inr (), m')"
    and re: "reopened m m'"
    and opened: "length (sk_opened (bm_sockets m')) \<le> length (sk_opened (bm_sockets m)) + length (lost_channels m)"
    by (rule check_status_reopens [OF assms])
  note ok = reopened_ok [OF assms(1) re]
  have "works m' c" if c: "(k, c) \<in> set (bm_cache m')" for k c
  proof -
    have "map_of (bm_cache m') k = Some c" using ok c by (simp add: md_ok_def)
    then show ?thesis using re reopened_entry [OF assms(1) re c] by (auto simp: reopened_def consistent_def)
  qed
  moreover have "(k, c) \<in> set (bm_cache m')" if "(k, c) \<in> set (bm_cache m)" "works m c" for k c
    using re that unfolding reopened_def by (fastforce dest: map_of_SomeD)
  ultimately show ?thesis using run re ok opened by (intro exI [of _ m']) (auto simp: reopened_def)
qed

section \<open>The states the check is made for\<close>

lemma distinct_insort_fst:
  "distinct (map fst (insort_key fst (k, v) xs)) \<longleftrightarrow> k \<notin> fst ` set xs \<and> distinct (map fst xs)"
  by (induction xs) (auto simp: set_insort_key)

lemma md_ok_new: "md_ok (new_binance_md now)"
  by (simp add: md_ok_def new_binance_md_def apprentice.defs sockets_wf_def no_sockets_def)

locale known_channel_loop = channel_loop +
  assumes known: "sub_type \<in> {''depth'', ''trade'', ''ticker''}"
begin

lemma open_channel_ok:
  assumes ok: "md_ok m" and idle: "\<not> channel_ready (channel_key sub_type i) m"
    and "length (c_str (ins_symbol i)) < SYMBOL_LEN" and "at_host (ins_instrument_type i)"
  shows "md_ok (open_channel h k ch sub_type i m)" (is "md_ok ?m")
proof -
  define c where "c = noted sub_type i (sk_next (bm_sockets m)) None"
  have none: "map_of (bm_cache m) (channel_key sub_type i) = None"
    using ok idle by (auto simp: md_ok_def channel_ready_def dest: map_of_SomeD split: option.splits)
  then have cache: "bm_cache ?m = insort_key fst (channel_key sub_type i, c) (bm_cache m)"
    by (simp add: open_channel_def start_channel_def Let_def note_channel_def noted_def c_def)
  have new: "channel_key sub_type i \<notin> fst ` set (bm_cache m)" using none by (simp add: map_of_eq_None_iff)
  have "c_str (strcpy (ins_symbol zero_instrument) (c_str (ins_symbol i))) = c_str (ins_symbol i)"
    by (rule strcpy_fits) (simp_all add: zero_instrument_def assms(3))
  then have "channel_key (ci_sub_type c) (channel_instrument c) = channel_key sub_type i"
    by (simp add: c_def noted_def channel_key_def channel_instrument_def)
  moreover have "sockets_wf (bm_sockets ?m)" using ok sockets_wf_start by (simp add: md_ok_def opened_def)
  moreover have "ci_ready c" "ci_sub_type c = sub_type" "ci_inst_type c = ins_instrument_type i"
    "ci_handle c = sk_next (bm_sockets m)" by (simp_all add: c_def noted_def)
  ultimately show ?thesis
    using ok known cache new assms(4) by (fastforce simp: md_ok_def distinct_insort_fst set_insort_key less_Suc_eq)
qed

theorem loop_keeps_ok:
  assumes "md_ok m" and "\<forall>i \<in> set is. length (c_str (ins_symbol i)) < SYMBOL_LEN \<and> at_host (ins_instrument_type i)"
  shows "md_ok (snd (loop is m))"
  using assms
proof (induction "is" arbitrary: m)
  case (Cons i js)
  then show ?case
    using open_channel_ok [OF Cons.prems(1), of i] by (auto simp: cons split: option.split)
qed (simp add: nil)

end

interpretation depth_channels: known_channel_loop bmd_subscribe "''depth''" "\<lambda>_. PartDepthsCb" "\<lambda>_. ''depth20@100ms''" False
  by unfold_locales simp

interpretation trade_channels: known_channel_loop bmd_subscribe_trade "''trade''" "\<lambda>h. if h = Spot_ws then TradeCb else AggTradeCb"
    "\<lambda>h. if h = Spot_ws then ''trade'' else ''aggTrade''" True
  by unfold_locales simp

interpretation ticker_channels: known_channel_loop bmd_subscribe_ticker "''ticker''" "\<lambda>_. BookTickerCb" "\<lambda>_. ''bookTicker''" False
  by unfold_locales simp

lemmas subscribing_keeps_ok = depth_channels.loop_keeps_ok trade_channels.loop_keeps_ok ticker_channels.loop_keeps_ok

lemma md_ok_delete: "md_ok m \<Longrightarrow> md_ok (m\<lparr>bm_sockets := delete_socket n (bm_sockets m)\<rparr>)"
  by (simp add: md_ok_def sockets_wf_delete)

section \<open>What the check does not handle\<close>

text \<open>The check asks the sockets of the spot market about every channel that is not of the futures:
  a channel of the coin futures, which has its socket elsewhere, is opened again at every check.\<close>

fun run_checks :: "nat \<Rightarrow> binance_md \<Rightarrow> (herror + unit) \<times> binance_md" where
  "run_checks 0 m = (Inr (), m)"
| "run_checks (Suc n) m = bindX (bmd_check_status m) (\<lambda>_. run_checks n)"

definition coin_channel :: "binance_md \<Rightarrow> u32 \<Rightarrow> channel_info \<Rightarrow> bool" where
  "coin_channel m k c \<longleftrightarrow> bm_cache m = [(k, c)] \<and> ci_inst_type c = DFuture \<and> ci_sub_type c = ''depth''
     \<and> channel_key ''depth'' (channel_instrument c) = k \<and> sockets_wf (bm_sockets m)
     \<and> ci_handle c \<notin> set (sk_set (bm_sockets m) Spot_ws)"

definition channel_path :: "channel_info \<Rightarrow> string" where
  "channel_path c = make_channel_name (Some (to_binance_symbol (c_str (ins_symbol (channel_instrument c))))) ''depth20@100ms''"

lemma coin_channel_check:
  assumes "coin_channel m k c"
  shows "\<exists>m' c'. bmd_check_status m = (Inr (), m') \<and> coin_channel m' k c' \<and> channel_path c' = channel_path c
    \<and> sk_opened (bm_sockets m') = sk_opened (bm_sockets m) @ [(Cbase_ws, channel_path c)]
    \<and> sk_set (bm_sockets m') Cbase_ws = sk_next (bm_sockets m) # sk_set (bm_sockets m) Cbase_ws"
proof -
  define s where "s = opened Cbase_ws PartDepthsCb ''depth20@100ms'' (channel_instrument c) m"
  define c' where "c' = c\<lparr>ci_ready := True, ci_handle := sk_next (bm_sockets m)\<rparr>"
  define m' where "m' = m\<lparr>bm_sockets := s, bm_cache := [(k, c')]\<rparr>"
  have c: "bm_cache m = [(k, c)]" "ci_inst_type c = DFuture" "ci_sub_type c = ''depth''"
    "channel_key ''depth'' (channel_instrument c) = k" "sockets_wf (bm_sockets m)"
    "ci_handle c \<notin> set (sk_set (bm_sockets m) Spot_ws)" using assms by (simp_all add: coin_channel_def)
  have s: "sk_set s Spot_ws = sk_set (bm_sockets m) Spot_ws" "sockets_wf s"
    "sk_opened s = sk_opened (bm_sockets m) @ [(Cbase_ws, channel_path c)]"
    "sk_set s Cbase_ws = sk_next (bm_sockets m) # sk_set (bm_sockets m) Cbase_ws"
    using sockets_wf_start [OF c(5)]
    by (simp_all add: s_def opened_def channel_path_def) (simp_all add: start_channel_def Let_def)
  have "sk_next (bm_sockets m) \<notin> set (sk_set (bm_sockets m) Spot_ws)" using c(5) by (auto simp: sockets_wf_def)
  moreover have same: "channel_instrument c' = channel_instrument c" by (simp add: c'_def channel_instrument_def)
  ultimately have "coin_channel m' k c'" using c s by (simp add: coin_channel_def m'_def c'_def)
  moreover have "bmd_check_status m = (Inr (), m')"
    using c by (simp add: bmd_check_status_def checked_host_def is_ready_def lost_of_def channel_ready_def market_host_def
        open_channel_def note_channel_def m'_def c'_def s_def opened_def start_channel_def Let_def)
  ultimately show ?thesis using s(3,4) same by (intro exI [of _ m'] exI [of _ c']) (simp add: m'_def channel_path_def)
qed

text \<open>a channel of the coin futures that works is opened again at every status check, without end:
  after n checks there are n channels more, all to the same stream.\<close>

lemma coin_channels_leak:
  assumes "coin_channel m k c"
  shows "\<exists>m'. run_checks n m = (Inr (), m')
    \<and> sk_opened (bm_sockets m') = sk_opened (bm_sockets m) @ replicate n (Cbase_ws, channel_path c)
    \<and> length (sk_set (bm_sockets m') Cbase_ws) = length (sk_set (bm_sockets m) Cbase_ws) + n"
  using assms
proof (induction n arbitrary: m c)
  case (Suc n)
  obtain m1 c1 where "bmd_check_status m = (Inr (), m1)" "coin_channel m1 k c1" "channel_path c1 = channel_path c"
    "sk_opened (bm_sockets m1) = sk_opened (bm_sockets m) @ [(Cbase_ws, channel_path c)]"
    "sk_set (bm_sockets m1) Cbase_ws = sk_next (bm_sockets m) # sk_set (bm_sockets m) Cbase_ws"
    using coin_channel_check [OF Suc.prems] by blast
  then show ?case using Suc.IH [of m1 c1] by auto
qed simp

text \<open>A socket deleted through the object that opened the first channel of its kind leaves a pointer
  to nothing in the set of its own host, and the next check reads it.\<close>

lemma find_lost_undefined:
  "(k, c) \<in> set cs \<Longrightarrow> is_ready (checked_host (ci_inst_type c)) (ci_handle c) (bm_sockets m) = Inl undefined_behaviour \<Longrightarrow>
    fst (find_lost cs m) = Inl undefined_behaviour"
proof (induction cs arbitrary: m)
  case (Cons x cs)
  obtain k' c' where x: "x = (k', c')" by (cases x)
  show ?case
  proof (cases "is_ready (checked_host (ci_inst_type c')) (ci_handle c') (bm_sockets m) = Inr False")
    case True
    then have "(k, c) \<in> set cs" using Cons.prems x by auto
    then have "fst (find_lost cs (m\<lparr>bm_cache := al\<rparr>)) = Inl undefined_behaviour" for al using Cons by simp
    then show ?thesis using True
      by (cases "find_lost cs (m\<lparr>bm_cache := AList.update k' (c'\<lparr>ci_ready := False\<rparr>) (bm_cache m)\<rparr>)") (simp add: x, metis bindX.simps(1) fst_conv)
  next
    case False
    then show ?thesis using Cons.prems Cons.IH [of m] is_ready_cases [of "checked_host (ci_inst_type c')" "ci_handle c'" "bm_sockets m"]
      by (auto simp: x)
  qed
qed simp

text \<open>when the first book was one of the spot market, a book of the futures whose socket is
  deleted is still in the set of its host, and the next status check reads the deleted object.\<close>

lemma lost_future_channel_undefined:
  assumes first: "sk_owner (bm_sockets m) (sock_kind x) = Some Spot_ws"
    and c: "(k, c) \<in> set (bm_cache m)" "ci_inst_type c = FFuture"
    and x: "map_of (sk_live (bm_sockets m)) (ci_handle c) = Some x" "ci_handle c \<in> set (sk_set (bm_sockets m) Ubase_ws)"
  shows "fst (bmd_check_status (m\<lparr>bm_sockets := delete_socket (ci_handle c) (bm_sockets m)\<rparr>)) = Inl undefined_behaviour"
proof -
  let ?m = "m\<lparr>bm_sockets := delete_socket (ci_handle c) (bm_sockets m)\<rparr>"
  have "is_ready Ubase_ws (ci_handle c) (delete_socket (ci_handle c) (bm_sockets m)) = Inl undefined_behaviour"
    by (rule deleted_dangling [OF x(1) first _ x(2)]) simp
  then have "fst (find_lost (bm_cache ?m) ?m) = Inl undefined_behaviour"
    using c by (intro find_lost_undefined [of k c]) (simp_all add: checked_host_def)
  then show ?thesis
    by (cases "find_lost (bm_cache ?m) ?m") (simp add: bmd_check_status_def)
qed

section \<open>Witnesses\<close>

definition demo_instrument :: "InstrumentType \<Rightarrow> instrument" where
  "demo_instrument it = channel_instrument
     \<lparr>ci_symbol = ''btc_usdt'', ci_sub_type = ''depth'', ci_inst_type = it, ci_handle = 0, ci_ready = True\<rparr>"

lemma demo_instrument_read [simp]:
  "c_str (ins_exchange_id (demo_instrument it)) = EXCHANGE_BINANCE" "ins_instrument_type (demo_instrument it) = it"
  "c_str (ins_symbol (demo_instrument it)) = ''btc_usdt''"
proof -
  have "NUL \<notin> set ''btc_usdt''" by code_simp
  then have "c_str (strcpy (replicate SYMBOL_LEN NUL) ''btc_usdt'') = ''btc_usdt''"
    by (rule strcpy_fits) (simp add: SYMBOL_LEN_def)
  then show "c_str (ins_symbol (demo_instrument it)) = ''btc_usdt''"
    by (simp add: demo_instrument_def channel_instrument_def zero_instrument_def)
qed (simp_all add: demo_instrument_def)

text \<open>A gateway that has subscribed to one book, whose socket is then lost.\<close>

definition demo_lost :: binance_md where
  "demo_lost = (let m = snd (bmd_subscribe [demo_instrument Spot] (new_binance_md 0))
     in m\<lparr>bm_sockets := delete_socket 0 (bm_sockets m)\<rparr>)"

lemma new_binance_md_sel [simp]: "bm_cache (new_binance_md now) = []" "bm_sockets (new_binance_md now) = no_sockets"
  by (simp_all add: new_binance_md_def apprentice.defs)

lemma demo_subscribe: "bmd_subscribe [demo_instrument Spot] (new_binance_md 0) =
    (Inr True, open_channel Spot_ws PartDepthsCb ''depth20@100ms'' ''depth'' (demo_instrument Spot) (new_binance_md 0))"
  by (simp add: channel_ready_def market_host_def)

lemma lost_channels_reopened_witness:
  "\<exists>m'. bmd_check_status demo_lost = (Inr (), m') \<and> bm_cache m' \<noteq> [] \<and> (\<forall>(k, c) \<in> set (bm_cache m'). works m' c)"
proof -
  define m where "m = open_channel Spot_ws PartDepthsCb ''depth20@100ms'' ''depth'' (demo_instrument Spot) (new_binance_md 0)"
  have lost: "demo_lost = m\<lparr>bm_sockets := delete_socket 0 (bm_sockets m)\<rparr>"
    using demo_subscribe by (simp add: demo_lost_def m_def del: bmd_subscribe.simps)
  have "md_ok m"
    using subscribing_keeps_ok(1) [OF md_ok_new, of "[demo_instrument Spot]" 0] demo_subscribe
    by (simp add: m_def SYMBOL_LEN_def at_host_def del: bmd_subscribe.simps)
  then have ok: "md_ok demo_lost" by (simp add: lost md_ok_delete)
  have cache: "map_of (bm_cache m) k = Some c \<Longrightarrow> ci_handle c = 0 \<and> ci_inst_type c = Spot" for k c
    by (auto simp: m_def noted_def no_sockets_def split: if_splits)
  have "is_ready Spot_ws 0 (bm_sockets demo_lost) = Inr False"
    unfolding lost by simp (rule deleted_not_ready(1) [where x = "\<lparr>sock_stop_requested = False, sock_kind = PartDepthsCb\<rparr>"],
      simp_all add: m_def opened_def start_channel_def no_sockets_def)
  then have "checkable demo_lost"
    using cache ok by (auto simp: checkable_def lost checked_host_def md_ok_def)
  from lost_channels_reopened [OF ok this]
  obtain m' where "bmd_check_status demo_lost = (Inr (), m')" "map fst (bm_cache m') = map fst (bm_cache demo_lost)"
    "\<forall>(k, c) \<in> set (bm_cache m'). works m' c" by blast
  moreover have "bm_cache demo_lost \<noteq> []"
    using arg_cong [OF open_channel_cache, of "\<lambda>f. f (channel_key ''depth'' (demo_instrument Spot))"]
    by (auto simp: lost m_def) (metis map_of.simps(1) option.distinct(1) fun_upd_same open_channel_cache)
  ultimately show ?thesis by (metis list.map_disc_iff)
qed

lemma open_channel_new:
  "bm_cache (open_channel h k channel sub_type i (new_binance_md now)) = [(channel_key sub_type i, noted sub_type i 0 None)]"
  by (simp add: open_channel_def start_channel_def Let_def note_channel_def noted_def no_sockets_def)

lemma demo_noted [simp]: "channel_instrument (noted ''depth'' (demo_instrument it) n None) = demo_instrument it"
  by (simp add: noted_def channel_instrument_def) (simp add: demo_instrument_def channel_instrument_def)

lemma coin_channels_leak_witness:
  "\<exists>m'. run_checks 3 (snd (bmd_subscribe [demo_instrument DFuture] (new_binance_md 0))) = (Inr (), m')
    \<and> length (sk_opened (bm_sockets m')) = 4 \<and> length (sk_set (bm_sockets m') Cbase_ws) = 4"
proof -
  define m where "m = open_channel Cbase_ws PartDepthsCb ''depth20@100ms'' ''depth'' (demo_instrument DFuture) (new_binance_md 0)"
  have run: "snd (bmd_subscribe [demo_instrument DFuture] (new_binance_md 0)) = m"
    by (simp add: m_def channel_ready_def market_host_def)
  have "sockets_wf no_sockets" by (simp add: sockets_wf_def no_sockets_def)
  note wf = sockets_wf_start [OF this]
  have one: "length (sk_opened (bm_sockets m)) = 1" "length (sk_set (bm_sockets m) Cbase_ws) = 1" "sk_set (bm_sockets m) Spot_ws = []"
    by (simp_all add: m_def opened_def start_channel_def Let_def no_sockets_def)
  have "coin_channel m (channel_key ''depth'' (demo_instrument DFuture)) (noted ''depth'' (demo_instrument DFuture) 0 None)"
    using one wf by (simp add: coin_channel_def m_def open_channel_new opened_def) (simp add: noted_def)
  from coin_channels_leak [OF this, of 3] show ?thesis unfolding run using one by auto
qed

lemma channel_key_types: "channel_key ''depth'' (demo_instrument FFuture) \<noteq> channel_key ''depth'' (demo_instrument Spot)"
proof -
  have "hash_str_32 (show_int 5) \<noteq> hash_str_32 (show_int 1)"
    by (simp add: show_int_def show_nat.simps digit_char_def hash_eval)
  then show ?thesis by (simp add: channel_key_def get_sub_symbol_id_def enum_lists xor_eq_iff_left xor_eq_iff_right)
qed

lemma lost_future_channel_undefined_witness:
  "fst (bmd_check_status (let m = snd (bmd_subscribe [demo_instrument Spot, demo_instrument FFuture] (new_binance_md 0))
     in m\<lparr>bm_sockets := delete_socket 1 (bm_sockets m)\<rparr>)) = Inl undefined_behaviour"
proof -
  define m where "m = open_channel Ubase_ws PartDepthsCb ''depth20@100ms'' ''depth'' (demo_instrument FFuture)
    (open_channel Spot_ws PartDepthsCb ''depth20@100ms'' ''depth'' (demo_instrument Spot) (new_binance_md 0))"
  have run: "snd (bmd_subscribe [demo_instrument Spot, demo_instrument FFuture] (new_binance_md 0)) = m"
    using channel_key_types by (simp add: m_def channel_ready_def [of _ "new_binance_md 0"] market_host_def)
  have "map_of (bm_cache m) (channel_key ''depth'' (demo_instrument FFuture)) = Some (noted ''depth'' (demo_instrument FFuture) 1 None)"
    using channel_key_types by (simp add: m_def no_sockets_def)
  then have "(channel_key ''depth'' (demo_instrument FFuture), noted ''depth'' (demo_instrument FFuture) 1 None) \<in> set (bm_cache m)"
    by (rule map_of_SomeD)
  from lost_future_channel_undefined [OF _ this, of "\<lparr>sock_stop_requested = False, sock_kind = PartDepthsCb\<rparr>"]
  show ?thesis unfolding run
    by (simp add: m_def noted_def opened_def start_channel_def Let_def no_sockets_def)
qed

end
