(* ===== verification/FlatjsonProps.thy ===== *)
theory FlatjsonProps
  imports FlatjsonParse
begin

text \<open>
  What holds of the json library of the Binance library: its parser ends with an answer on every text
  (the fuel is enough), and reads back the text that is dumped of a value; and what of the readers of
  the fields of a message.
\<close>

section \<open>The parser ends\<close>

lemma drop_while_le: "length (dropWhile P s) \<le> length s"
  by (induction s) auto

lemma check_and_skip_shrinks: "fj_check_and_skip c s = Inr r \<Longrightarrow> c \<noteq> end_char \<Longrightarrow> length r < length s"
  using drop_while_le [of fj_is_space s]
  by (cases "fj_skip_ws s") (auto simp: fj_check_and_skip_def cur_char_def split: if_splits)

lemma check_and_skip_fuel: "fj_check_and_skip c s \<noteq> Inl FJ_NO_FUEL"
  by (simp add: fj_check_and_skip_def)

lemma scan_string_shrinks: "scan_string acc s = Inr (v, r) \<Longrightarrow> length r < length s"
proof (induction acc s rule: scan_string.induct)
  case (2 acc c cs)
  have len: "0 < fj_utf8_char_len c" by (simp add: fj_utf8_char_len_def Let_def)
  from 2 show ?case
    using len by (fastforce simp: Let_def split: if_splits sum.splits)
qed simp

lemma scan_string_fuel: "scan_string acc s \<noteq> Inl FJ_NO_FUEL"
proof (induction acc s rule: scan_string.induct)
  case (2 acc c cs)
  then show ?case by (auto simp: Let_def fj_escape_len_def split: if_splits sum.splits list.splits)
qed simp

lemma parse_string_shrinks: "fj_parse_string s = Inr (v, r) \<Longrightarrow> length r < length s"
  using check_and_skip_shrinks [of quote_char s]
  by (force simp: fj_parse_string_def bindE_Inr_iff quote_char_def end_char_def dest: scan_string_shrinks)

lemma parse_string_fuel: "fj_parse_string s \<noteq> Inl FJ_NO_FUEL"
  using check_and_skip_fuel scan_string_fuel by (auto simp: fj_parse_string_def bindE_Inl_iff)

lemma skip_digits_shrinks: "skip_digits P s = Inr r \<Longrightarrow> length r < length s"
  by (auto simp: skip_digits_def less_Suc_eq_le drop_while_le split: list.splits if_splits)

lemma skip_digits_fuel: "skip_digits P s \<noteq> Inl FJ_NO_FUEL"
  by (simp add: skip_digits_def split: list.split)

lemma skip_fraction_shrinks: "skip_fraction s = Inr r \<Longrightarrow> length r \<le> length s"
  using skip_digits_shrinks [of fj_is_digit "tl s" r] by (auto simp: skip_fraction_def split: if_splits)

lemma skip_exponent_shrinks: "skip_exponent s = Inr r \<Longrightarrow> length r \<le> length s"
  using skip_digits_shrinks [of fj_is_digit "tl s" r] skip_digits_shrinks [of fj_is_digit "tl (tl s)" r]
  by (auto simp: skip_exponent_def Let_def split: if_splits)

lemma parse_number_shrinks: "fj_parse_number s = Inr (v, r) \<Longrightarrow> length r < length s"
  by (fastforce simp: fj_parse_number_def Let_def bindE_Inr_iff split: if_splits
      dest: skip_digits_shrinks skip_fraction_shrinks skip_exponent_shrinks)

lemma parse_number_fuel: "fj_parse_number s \<noteq> Inl FJ_NO_FUEL"
  using skip_digits_fuel
  by (auto simp: fj_parse_number_def Let_def bindE_Inl_iff skip_fraction_def skip_exponent_def split: if_splits)

lemma expect_shrinks: "fj_expect w s = Inr r \<Longrightarrow> w \<noteq> [] \<Longrightarrow> length r < length s"
  by (cases w; cases s) (auto simp: fj_expect_def split: if_splits)

lemma skip_comma_shrinks: "skip_comma c s = Inr r \<Longrightarrow> length r \<le> length s"
  using drop_while_le [of fj_is_space s] by (auto simp: skip_comma_def Let_def split: if_splits)

lemma simple_fuel: "fj_expect w s \<noteq> Inl FJ_NO_FUEL" "skip_comma c s \<noteq> Inl FJ_NO_FUEL"
  by (simp_all add: fj_expect_def skip_comma_def Let_def)

lemma cur_char_skip: "cur_char s \<noteq> end_char \<Longrightarrow> \<exists>c t. fj_skip_ws s = c # t \<and> length t < length s"
  using drop_while_le [of fj_is_space s] by (cases "fj_skip_ws s") (auto simp: cur_char_def)

lemma chars_not_end:
  "CHR ''{'' \<noteq> end_char" "CHR ''['' \<noteq> end_char" "CHR '']'' \<noteq> end_char" "CHR ''}'' \<noteq> end_char" "quote_char \<noteq> end_char"
  "CHR ''n'' \<noteq> end_char" "CHR ''t'' \<noteq> end_char" "CHR ''f'' \<noteq> end_char" "CHR ''-'' \<noteq> end_char" "\<not> fj_is_digit end_char"
  "CHR '':'' \<noteq> end_char"
  by code_simp+

text \<open>What is left is shorter, and the fuel does not run out.\<close>

lemma parse_shrinks:
  "parse_value filling k s = Inr (v, r) \<Longrightarrow> length r < length s"
  "parse_elements filling k n s = Inr (vs, r) \<Longrightarrow> length r < length s"
  "parse_members filling k n s = Inr (kvs, r) \<Longrightarrow> length r < length s"
proof (induction filling k s and filling k n s and filling k n s arbitrary: v r and vs r and kvs r
    rule: parse_value_parse_elements_parse_members.induct)
  case (2 filling k s)
  have "cur_char s \<noteq> end_char"
    using "2.prems" by (auto simp: Let_def chars_not_end split: if_splits)
  then obtain c t where t: "fj_skip_ws s = c # t" "length t < length s" "cur_char s = c"
    using cur_char_skip [of s] by (auto simp: cur_char_def)
  note IH = "2.IH"(1) [OF refl refl] "2.IH"(2) [OF refl refl]
  from "2.prems" show ?case
    using t IH less_trans [OF _ t(2), of "length r"]
    by (auto simp: Let_def bindE_Inr_iff split: if_splits
        dest!: expect_shrinks parse_number_shrinks parse_string_shrinks)
next
  case (4 filling k n s)
  show ?case
  proof (cases "cur_char s = CHR '']''")
    case True
    then show ?thesis using "4.prems" cur_char_skip [of s] by (auto simp: chars_not_end split: if_splits)
  next
    case False
    obtain v r1 r2 ws where *: "parse_value filling k s = Inr (v, r1)" "skip_comma (CHR '']'') r1 = Inr r2"
      "parse_elements filling k (Suc n) r2 = Inr (ws, r)"
      using "4.prems" False by (auto simp: bindE_Inr_iff split: if_splits)
    have "length r1 < length s" using "4.IH"(1) *(1) False "4.prems" by (auto split: if_splits)
    moreover have "length r < length r2" using "4.IH"(2) * False "4.prems" by (auto split: if_splits)
    ultimately show ?thesis using skip_comma_shrinks [OF *(2)] by simp
  qed
next
  case (6 filling k n s)
  show ?case
  proof (cases "cur_char s = CHR ''}''")
    case True
    then show ?thesis using "6.prems" cur_char_skip [of s] by (auto simp: chars_not_end split: if_splits)
  next
    case False
    obtain key r1 r2 v r3 r4 ws where *: "fj_parse_string s = Inr (key, r1)" "fj_check_and_skip (CHR '':'') r1 = Inr r2"
      "parse_value filling k r2 = Inr (v, r3)" "skip_comma (CHR ''}'') r3 = Inr r4"
      "parse_members filling k (Suc n) r4 = Inr (ws, r)"
      using "6.prems" False by (auto simp: bindE_Inr_iff split: if_splits)
    have "length r3 < length r2" using "6.IH"(1) * False "6.prems" by (auto split: if_splits)
    moreover have "length r < length r4" using "6.IH"(2) * False "6.prems" by (auto split: if_splits)
    ultimately show ?thesis
      using skip_comma_shrinks [OF *(4)] parse_string_shrinks [OF *(1)] check_and_skip_shrinks [OF *(2)]
      by (simp add: chars_not_end)
  qed
qed simp_all

lemma parse_fuel:
  "2 * length s < k \<Longrightarrow> parse_value filling k s \<noteq> Inl FJ_NO_FUEL"
  "2 * length s + 1 < k \<Longrightarrow> parse_elements filling k n s \<noteq> Inl FJ_NO_FUEL"
  "2 * length s + 1 < k \<Longrightarrow> parse_members filling k n s \<noteq> Inl FJ_NO_FUEL"
proof (induction filling k s and filling k n s and filling k n s rule: parse_value_parse_elements_parse_members.induct)
  case (2 filling k s)
  note IH = "2.IH"(1) [OF refl refl] "2.IH"(2) [OF refl refl]
  show ?case
  proof (cases "cur_char s = end_char")
    case True
    then show ?thesis using chars_not_end by (simp add: Let_def)
  next
    case False
    then obtain c t where "fj_skip_ws s = c # t" "length t < length s" "cur_char s = c"
      using cur_char_skip [of s] by (auto simp: cur_char_def)
    then show ?thesis
      using IH "2.prems" by (auto simp: Let_def bindE_Inl_iff simple_fuel parse_number_fuel parse_string_fuel)
  qed
next
  case (4 filling k n s)
  show ?case
  proof
    assume out: "parse_elements filling (Suc k) n s = Inl FJ_NO_FUEL"
    then obtain v r1 r2 where *: "\<not> over filling n 65535" "cur_char s \<noteq> CHR '']''" "parse_value filling k s = Inr (v, r1)"
      "\<not> over filling (value_length v) (2 ^ 32 - 1)" "skip_comma (CHR '']'') r1 = Inr r2"
      "parse_elements filling k (Suc n) r2 = Inl FJ_NO_FUEL"
      using "4.IH"(1) "4.prems" by (auto simp: bindE_Inl_iff simple_fuel split: if_splits)
    have "length r2 < length s" using parse_shrinks(1) [OF *(3)] skip_comma_shrinks [OF *(5)] by simp
    then have "2 * length r2 + 1 < k" using "4.prems" by simp
    then show False using "4.IH"(2) * by auto
  qed
next
  case (6 filling k n s)
  show ?case
  proof
    assume out: "parse_members filling (Suc k) n s = Inl FJ_NO_FUEL"
    then obtain key r1 r2 where *: "cur_char s \<noteq> CHR ''}''" "\<not> cur_char s \<noteq> quote_char" "fj_parse_string s = Inr (key, r1)"
      "\<not> over filling (length key) 255" "fj_check_and_skip (CHR '':'') r1 = Inr r2" "\<not> over filling n 65535"
      "bindE (parse_value filling k r2) (\<lambda>(v, r3). if over filling (value_length v) (2 ^ 32 - 1) then Inl FJ_VLEN_OVERFLOW
         else bindE (skip_comma (CHR ''}'') r3) (\<lambda>r4. bindE (parse_members filling k (Suc n) r4) (\<lambda>(kvs, r5). Inr ((key, v) # kvs, r5))))
       = Inl FJ_NO_FUEL"
      by (auto simp: bindE_Inl_iff parse_string_fuel check_and_skip_fuel split: if_splits)
    have short: "length r2 < length s" using parse_string_shrinks [OF *(3)] check_and_skip_shrinks [OF *(5)] by (simp add: chars_not_end)
    then have "parse_value filling k r2 \<noteq> Inl FJ_NO_FUEL" using "6.IH"(1) * "6.prems" by auto
    then obtain v r3 r4 where **: "parse_value filling k r2 = Inr (v, r3)" "\<not> over filling (value_length v) (2 ^ 32 - 1)"
      "skip_comma (CHR ''}'') r3 = Inr r4" "parse_members filling k (Suc n) r4 = Inl FJ_NO_FUEL"
      using *(7) by (auto simp: bindE_Inl_iff simple_fuel split: if_splits)
    have "length r4 < length s" using short parse_shrinks(1) [OF **(1)] skip_comma_shrinks [OF **(3)] by simp
    then have "2 * length r4 + 1 < k" using "6.prems" by simp
    then show False using "6.IH"(2) * ** by auto
  qed
qed simp_all

lemma parse_value_fuel: "parse_value filling (fj_fuel s) s \<noteq> Inl FJ_NO_FUEL"
  by (rule parse_fuel(1)) (simp add: fj_fuel_def)

section \<open>A text that was dumped\<close>

text \<open>Characters that stand for themselves in a string, numerals without a leading zero, and values
  that keep within the widths of the counters.\<close>

definition plain_char :: "char \<Rightarrow> bool" where
  "plain_char c \<longleftrightarrow> 32 \<le> char_code c \<and> char_code c < 128 \<and> c \<noteq> quote_char \<and> c \<noteq> backslash"

definition numeral_text :: "string \<Rightarrow> bool" where
  "numeral_text s \<longleftrightarrow> s \<noteq> [] \<and> list_all fj_is_digit s \<and> (1 < length s \<longrightarrow> hd s \<noteq> CHR ''0'')"

fun plain_json :: "fjson \<Rightarrow> bool" where
  "plain_json (FNumber s) \<longleftrightarrow> numeral_text s \<and> length s < 2 ^ 32 - 1"
| "plain_json (FString s) \<longleftrightarrow> list_all plain_char s \<and> length s < 2 ^ 32 - 1"
| "plain_json (FArray js) \<longleftrightarrow> length js < 65535 \<and> (\<forall>j \<in> set js. plain_json j)"
| "plain_json (FObject kvs) \<longleftrightarrow> length kvs < 65535 \<and> (\<forall>(k, j) \<in> set kvs. list_all plain_char k \<and> length k < 255 \<and> plain_json j)"
| "plain_json j \<longleftrightarrow> True"

text \<open>What may follow a value.\<close>

definition closes :: "string \<Rightarrow> bool" where
  "closes r \<longleftrightarrow> (case r of [] \<Rightarrow> True | c # _ \<Rightarrow> c \<in> set '',]}'')"

lemma scan_plain: "list_all plain_char s \<Longrightarrow> scan_string acc (s @ quote_char # r) = Inr (rev acc @ s, r)"
proof (induction s arbitrary: acc)
  case Nil
  have "char_code quote_char = 34" by (simp add: quote_char_def)
  moreover have "quote_char \<noteq> backslash" by code_simp
  ultimately show ?case by (simp add: Let_def fj_utf8_char_len_def)
next
  case (Cons c s)
  then have "fj_utf8_char_len c = 1" "char_code c \<noteq> 255" "\<not> char_code c < 32"
    by (auto simp: plain_char_def fj_utf8_char_len_def Let_def)
  then show ?case using Cons by (simp add: plain_char_def Let_def)
qed

lemma skip_ws_other: "\<not> fj_is_space c \<Longrightarrow> fj_skip_ws (c # s) = c # s"
  by simp

lemma chars_not_space:
  "\<not> fj_is_space quote_char" "\<not> fj_is_space (CHR '','')" "\<not> fj_is_space (CHR '']'')" "\<not> fj_is_space (CHR ''}'')"
  "\<not> fj_is_space (CHR ''['')" "\<not> fj_is_space (CHR ''{'')" "\<not> fj_is_space (CHR '':'')" "\<not> fj_is_space (CHR ''n'')"
  "\<not> fj_is_space (CHR ''t'')" "\<not> fj_is_space (CHR ''f'')"
  by (simp_all add: fj_is_space_def quote_char_def)

lemma cur_char_other [simp]: "\<not> fj_is_space c \<Longrightarrow> cur_char (c # s) = c"
  by (simp add: cur_char_def)

lemma parse_quoted: "list_all plain_char s \<Longrightarrow> fj_parse_string (quoted s @ r) = Inr (s, r)"
  by (simp add: fj_parse_string_def fj_check_and_skip_def quoted_def chars_not_space scan_plain)

lemma digits_stop:
  assumes "list_all fj_is_digit s" "closes r"
  shows "dropWhile fj_is_digit (s @ r) = r"
  using assms by (induction s) (auto simp: closes_def fj_is_digit_def split: list.splits)

lemma parse_numeral:
  assumes "numeral_text s" "closes r"
  shows "fj_parse_number (s @ r) = Inr (s, r)"
proof -
  obtain c cs where s: "s = c # cs" "fj_is_digit c" using assms(1) by (cases s) (auto simp: numeral_text_def)
  have "c \<noteq> CHR ''-''" using s(2) by (auto simp: fj_is_digit_def)
  moreover have "take 2 (s @ r) \<noteq> ''0x''"
    using s assms by (cases cs; cases r) (auto simp: numeral_text_def closes_def fj_is_digit_def)
  moreover have "skip_digits fj_is_digit (s @ r) = Inr r"
    using s digits_stop [OF _ assms(2), of s] assms(1) by (simp add: skip_digits_def numeral_text_def)
  moreover have "skip_fraction r = Inr r" "skip_exponent r = Inr r"
    using assms(2) by (auto simp: skip_fraction_def skip_exponent_def closes_def split: list.splits)
  ultimately have "(let t = (if take 1 (s @ r) = ''-'' then tl (s @ r) else s @ r) in
      if take 2 t = ''0x'' then skip_digits fj_is_hex_digit (drop 2 t)
      else bindE (skip_digits fj_is_digit t) (\<lambda>s1. bindE (skip_fraction s1) skip_exponent)) = Inr r"
    using s by (auto simp: Let_def)
  moreover have "\<not> (1 < length s \<and> take 1 s = ''0'')" using s assms(1) by (auto simp: numeral_text_def)
  ultimately show ?thesis unfolding fj_parse_number_def Let_def by (simp only: bindE.simps) auto
qed

lemma closes_simps [simp]: "closes []" "closes (CHR '','' # s)" "closes (CHR '']'' # s)" "closes (CHR ''}'' # s)"
  by (simp_all add: closes_def)

lemma fj_text_head:
  assumes "plain_json j"
  shows "\<exists>c cs. fj_text j = c # cs \<and> \<not> fj_is_space c \<and> c \<notin> set '',]}'' \<and> c \<noteq> end_char"
proof (cases j)
  case (FNumber s)
  then obtain c cs where "s = c # cs" "fj_is_digit c" using assms by (cases s) (auto simp: numeral_text_def)
  then show ?thesis using FNumber chars_not_end(10) by (auto simp: fj_is_digit_def fj_is_space_def)
next
  case (FString s)
  have "quote_char \<notin> set '',]}''" by code_simp
  then show ?thesis using FString by (simp add: quoted_def chars_not_space chars_not_end)
qed (auto simp: chars_not_space chars_not_end)

lemma skip_comma_more: "t \<noteq> [] \<Longrightarrow> hd t \<noteq> close \<Longrightarrow> skip_comma close (CHR '','' # t) = Inr t"
  by (cases t) (simp_all add: skip_comma_def chars_not_space)

lemma skip_comma_last: "close \<in> {CHR '']'', CHR ''}''} \<Longrightarrow> skip_comma close (close # t) = Inr (close # t)"
  by (auto simp: skip_comma_def chars_not_space)

lemma join_cons: "join_with sep (x # xs) = x @ (if xs = [] then [] else sep @ join_with sep xs)"
  by (cases xs) simp_all

lemma value_length_plain: "plain_json j \<Longrightarrow> \<not> over filling (value_length j) (2 ^ 32 - 1)"
  by (cases j) (simp_all add: over_def value_length_def)

text \<open>The elements of an array, and the members of an object, when each is read back.\<close>

lemma parse_elements_text:
  assumes "\<forall>j \<in> set js. plain_json j \<and>
      (\<forall>k r. 2 * length (fj_text j) \<le> k \<longrightarrow> closes r \<longrightarrow> parse_value filling k (fj_text j @ r) = Inr (j, r))"
    and "n + length js < 65535" and "2 * length (join_with '','' (map fj_text js)) + 2 \<le> k"
  shows "parse_elements filling k n (join_with '','' (map fj_text js) @ CHR '']'' # r) = Inr (js, r)"
  using assms
proof (induction js arbitrary: n k)
  case Nil
  then obtain k' where "k = Suc k'" by (cases k) auto
  then show ?case using Nil by (simp add: over_def chars_not_space)
next
  case (Cons j js)
  obtain k' where k: "k = Suc k'" using Cons.prems(3) by (cases k) auto
  obtain c cs where c: "fj_text j = c # cs" "\<not> fj_is_space c" "c \<notin> set '',]}''" using fj_text_head Cons.prems(1) by force
  let ?rest = "(if js = [] then [] else '','' @ join_with '','' (map fj_text js)) @ CHR '']'' # r"
  have whole: "join_with '','' (map fj_text (j # js)) @ CHR '']'' # r = fj_text j @ ?rest" by (simp add: join_cons)
  have "closes ?rest" by simp
  then have v: "parse_value filling k' (fj_text j @ ?rest) = Inr (j, ?rest)"
    using Cons.prems(1,3) k by (simp add: join_cons)
  have "skip_comma (CHR '']'') ?rest = Inr (join_with '','' (map fj_text js) @ CHR '']'' # r)"
  proof (cases js)
    case (Cons j1 js1)
    then obtain c1 cs1 where "fj_text j1 = c1 # cs1" "c1 \<notin> set '',]}''" using fj_text_head Cons.prems(1) by force
    then show ?thesis using Cons by (simp add: join_cons skip_comma_more)
  qed (simp add: skip_comma_last)
  moreover have "parse_elements filling k' (Suc n) (join_with '','' (map fj_text js) @ CHR '']'' # r) = Inr (js, r)"
  proof (rule Cons.IH)
    show "2 * length (join_with '','' (map fj_text js)) + 2 \<le> k'"
      using Cons.prems(3) k c(1) by (cases js) (simp_all add: join_cons)
  qed (use Cons.prems in simp_all)
  ultimately show ?case
    using v c Cons.prems(1,2) k value_length_plain [of j filling] unfolding whole by (simp add: over_def)
qed

lemma parse_members_text:
  assumes "\<forall>(key, j) \<in> set kvs. list_all plain_char key \<and> length key < 255 \<and> plain_json j \<and>
      (\<forall>k r. 2 * length (fj_text j) \<le> k \<longrightarrow> closes r \<longrightarrow> parse_value filling k (fj_text j @ r) = Inr (j, r))"
    and "n + length kvs < 65535"
    and "2 * length (join_with '','' (map (\<lambda>(key, j). quoted key @ '':'' @ fj_text j) kvs)) + 2 \<le> k"
  shows "parse_members filling k n (join_with '','' (map (\<lambda>(key, j). quoted key @ '':'' @ fj_text j) kvs) @ CHR ''}'' # r) =
    Inr (kvs, r)"
  using assms
proof (induction kvs arbitrary: n k)
  case Nil
  then obtain k' where "k = Suc k'" by (cases k) auto
  then show ?case using Nil by (simp add: over_def chars_not_space)
next
  case (Cons m kvs)
  let ?member = "\<lambda>(key, j). quoted key @ '':'' @ fj_text j"
  obtain key j where m: "m = (key, j)" by (cases m)
  obtain k' where k: "k = Suc k'" using Cons.prems(3) by (cases k) auto
  obtain c cs where c: "fj_text j = c # cs" using fj_text_head Cons.prems(1) m by force
  let ?rest = "(if kvs = [] then [] else '','' @ join_with '','' (map ?member kvs)) @ CHR ''}'' # r"
  have whole: "join_with '','' (map ?member (m # kvs)) @ CHR ''}'' # r = quoted key @ CHR '':'' # fj_text j @ ?rest"
    by (simp add: join_cons m)
  have "closes ?rest" by simp
  then have v: "parse_value filling k' (fj_text j @ ?rest) = Inr (j, ?rest)"
    using Cons.prems(1,3) k m by (simp add: join_cons quoted_def)
  have "skip_comma (CHR ''}'') ?rest = Inr (join_with '','' (map ?member kvs) @ CHR ''}'' # r)"
  proof (cases kvs)
    case (Cons m1 kvs1)
    have "quote_char \<noteq> CHR ''}''" by code_simp
    then show ?thesis using Cons by (cases m1) (simp add: join_cons skip_comma_more quoted_def)
  qed (simp add: skip_comma_last)
  moreover have "parse_members filling k' (Suc n) (join_with '','' (map ?member kvs) @ CHR ''}'' # r) = Inr (kvs, r)"
  proof (rule Cons.IH)
    show "2 * length (join_with '','' (map ?member kvs)) + 2 \<le> k'"
      using Cons.prems(3) k m c by (cases kvs) (simp_all add: join_cons quoted_def)
  qed (use Cons.prems in simp_all)
  moreover have "fj_parse_string (quoted key @ CHR '':'' # fj_text j @ ?rest) = Inr (key, CHR '':'' # fj_text j @ ?rest)"
    using Cons.prems(1) m by (intro parse_quoted) simp
  moreover have "cur_char (quoted key @ CHR '':'' # fj_text j @ ?rest) = quote_char"
    by (simp add: quoted_def chars_not_space)
  moreover have "quote_char \<noteq> CHR ''}''" by code_simp
  moreover have "fj_check_and_skip (CHR '':'') (CHR '':'' # fj_text j @ ?rest) = Inr (fj_text j @ ?rest)"
    by (simp add: fj_check_and_skip_def chars_not_space)
  ultimately show ?case
    using v c Cons.prems(1,2) k value_length_plain [of j filling] m unfolding whole by (simp add: over_def)
qed

lemma parse_text:
  assumes "plain_json j" "2 * length (fj_text j) \<le> k" "closes r"
  shows "parse_value filling k (fj_text j @ r) = Inr (j, r)"
  using assms
proof (induction j arbitrary: k r)
  case FNull
  then obtain k' where "k = Suc k'" by (cases k) auto
  then show ?case by (simp add: Let_def chars_not_space fj_expect_def)
next
  case (FBool b)
  then obtain k' where "k = Suc k'" by (cases k) (auto split: if_splits)
  then show ?case by (simp add: Let_def chars_not_space fj_expect_def)
next
  case (FNumber s)
  then obtain c cs where s: "s = c # cs" "fj_is_digit c" by (cases s) (auto simp: numeral_text_def)
  obtain k' where "k = Suc k'" using FNumber.prems(2) s by (cases k) auto
  moreover have "\<not> fj_is_space c" "c \<notin> set ''{[ntf''" using s(2) by (auto simp: fj_is_digit_def fj_is_space_def)
  ultimately show ?case using s parse_numeral [of s r] FNumber.prems by (simp add: Let_def)
next
  case (FString s)
  then obtain k' where "k = Suc k'" by (cases k) (auto simp: quoted_def)
  moreover have "cur_char (quoted s @ r) = quote_char" "fj_skip_ws (quoted s @ r) = quoted s @ r"
    by (simp_all add: quoted_def chars_not_space)
  moreover have "quote_char \<notin> set ''{[ntf-''" "\<not> fj_is_digit quote_char" by code_simp+
  ultimately show ?case using parse_quoted [of s r] FString.prems by (simp add: Let_def)
next
  case (FArray js)
  obtain k' where k: "k = Suc k'" using FArray.prems(2) by (cases k) auto
  have "parse_elements filling k' 0 (join_with '','' (map fj_text js) @ CHR '']'' # r) = Inr (js, r)"
    by (rule parse_elements_text) (use FArray k in auto)
  then show ?case using k by (simp add: Let_def chars_not_space)
next
  case (FObject kvs)
  obtain k' where k: "k = Suc k'" using FObject.prems(2) by (cases k) auto
  have "parse_members filling k' 0 (join_with '','' (map (\<lambda>(key, j). quoted key @ '':'' @ fj_text j) kvs) @ CHR ''}'' # r) = Inr (kvs, r)"
  proof (rule parse_members_text)
    show "\<forall>(key, j) \<in> set kvs. list_all plain_char key \<and> length key < 255 \<and> plain_json j \<and>
      (\<forall>k r. 2 * length (fj_text j) \<le> k \<longrightarrow> closes r \<longrightarrow> parse_value filling k (fj_text j @ r) = Inr (j, r))"
      using FObject by fastforce
  qed (use FObject.prems k in auto)
  then show ?case using k by (simp add: Let_def chars_not_space)
qed

text \<open>A value that was dumped is loaded as it was.\<close>

lemma load_text:
  assumes "plain_json j"
  shows "fj_load (fj_text j) = Loaded j"
proof -
  have "parse_value filling (fj_fuel (fj_text j)) (fj_text j) = Inr (j, [])" for filling
    using parse_text [OF assms, of "fj_fuel (fj_text j)" "[]" filling] by (simp add: fj_fuel_def)
  moreover have "fj_text j \<noteq> []" using fj_text_head [OF assms] by auto
  ultimately show ?thesis by (simp add: fj_load_def)
qed

section \<open>Reading the fields of a message\<close>

text \<open>An identifier written in decimal is read as it was.\<close>

lemma sum_digits_snoc: "sum_digits (s @ [c]) = sum_digits s * 10 + word_of_int (int (of_char c) - 48)"
  by (induction s) (simp_all add: algebra_simps)

lemma sum_digits_show: "sum_digits (show_nat n) = of_nat n"
proof (induction n rule: show_nat.induct)
  case (1 n)
  have digit: "word_of_nat (char_code (digit_char d)) - 48 = (of_nat d :: u64)" if "d < 10" for d
  proof -
    have "char_code (digit_char d) = 48 + d" using that by (simp add: digit_char_def)
    then show ?thesis by simp
  qed
  show ?case
  proof (cases "n < 10")
    case True
    then show ?thesis by (simp add: show_nat.simps [of n] digit)
  next
    case False
    have "of_nat (n div 10) * 10 + of_nat (n mod 10) = (of_nat (n div 10 * 10 + n mod 10) :: u64)"
      by (simp only: of_nat_add of_nat_mult of_nat_numeral)
    then show ?thesis using False 1 by (simp add: show_nat.simps [of n] sum_digits_snoc digit)
  qed
qed

lemma conv_unsigned_show [simp]: "conv_unsigned (show_nat (unat w)) = w"
proof -
  have "unat w < 10 ^ 20" using unsigned_less [of w, where ?'a = nat] by simp
  then have "length (show_nat (unat w)) \<le> 20" using show_nat_length [of "unat w" 19] by simp
  then show ?thesis by (simp add: conv_unsigned_def sum_digits_show)
qed

lemma numeral_show: "numeral_text (show_nat n)"
proof (induction n rule: show_nat.induct)
  case (1 n)
  have digit: "fj_is_digit (digit_char d)" if "d < 10" for d using that by (simp add: fj_is_digit_def digit_char_def)
  have zero: "digit_char d \<noteq> CHR ''0''" if "0 < d" "d < 10" for d
  proof
    assume "digit_char d = CHR ''0''"
    then have "of_char (digit_char d) = (48 :: nat)" by simp
    then show False using that by (simp add: digit_char_def)
  qed
  show ?case
  proof (cases "n < 10")
    case True
    then show ?thesis by (simp add: show_nat.simps [of n] numeral_text_def digit)
  next
    case False
    then have IH: "numeral_text (show_nat (n div 10))" using 1 by simp
    obtain c cs where c: "show_nat (n div 10) = c # cs" using IH by (cases "show_nat (n div 10)") (auto simp: numeral_text_def)
    have "c \<noteq> CHR ''0''"
    proof (cases "cs = []")
      case True
      then have "n div 10 < 10" using c by (simp add: show_nat.simps [of "n div 10"] split: if_splits)
      then have "c = digit_char (n div 10)" using c by (simp add: show_nat.simps [of "n div 10"])
      then show ?thesis using zero [of "n div 10"] \<open>n div 10 < 10\<close> False by simp
    next
      case False
      then show ?thesis using IH c by (simp add: numeral_text_def)
    qed
    then show ?thesis using IH c False digit [of "n mod 10"] by (simp add: show_nat.simps [of n] numeral_text_def)
  qed
qed

lemma show_nat_plain [simp]: "list_all plain_char (show_nat n)"
proof -
  have "plain_char c" if "fj_is_digit c" for c
  proof -
    have "char_code quote_char = 34" "char_code backslash = 92" by (simp_all add: quote_char_def backslash_def)
    then show ?thesis using that by (auto simp: plain_char_def fj_is_digit_def)
  qed
  then show ?thesis using numeral_show [of n] by (auto simp: numeral_text_def list_all_iff)
qed

lemma show_size_short [simp]: "length (show_nat (unat (w :: u64))) < 4294967295"
proof -
  have "unat w < 10 ^ 20" using unsigned_less [of w, where ?'a = nat] by simp
  then have "length (show_nat (unat w)) \<le> 20" using show_nat_length [of "unat w" 19] by simp
  then show ?thesis by simp
qed

text \<open>A text or a decimal that is not there makes the reading fail; what fails can be caught, unless there
  is a null.\<close>

fun field_key :: "'r field \<Rightarrow> string" where
  "field_key (FSize k upd) = k"
| "field_key (FInt k upd) = k"
| "field_key (FFlag k upd) = k"
| "field_key (FText k upd) = k"
| "field_key (FDec k upd) = k"

fun required :: "'r field \<Rightarrow> bool" where
  "required (FText k upd) \<longleftrightarrow> True"
| "required (FDec k upd) \<longleftrightarrow> True"
| "required f \<longleftrightarrow> False"

lemma get_fields_missing:
  assumes "f \<in> set fs" "required f" "map_of kvs (field_key f) = None"
  shows "\<exists>e. get_fields dec fs (FObject kvs) r = Inl e"
  using assms(1)
proof (induction fs arbitrary: r)
  case (Cons g fs)
  show ?case
  proof (cases "get_json dec g (FObject kvs) r")
    case (Inr r1)
    then have "g \<noteq> f" using assms(2,3) by (cases f) (auto simp: fj_at_def)
    then show ?thesis using Cons Inr by auto
  qed simp
qed simp

lemma get_json_caught:
  assumes "get_json dec f (FObject kvs) r = Inl e" "FNull \<notin> snd ` set kvs"
  shows "\<not> uncaught e"
proof -
  have "\<not> (fj_at (FObject kvs) k = Inr x \<and> to_sstring x = Inr None)" for k x
    using assms(2)
    by (cases x) (auto simp: fj_at_def split: option.splits dest!: map_of_SomeD intro: rev_image_eqI)
  moreover have "\<not> uncaught x" if "fj_at (FObject kvs) k = Inl x" for k x
    using that by (auto simp: fj_at_def split: option.splits)
  moreover have "\<not> uncaught x" if "to_sstring j = Inl x" for j x using that by (cases j) auto
  ultimately show ?thesis
    using assms(1)
    by (cases f)
      (auto simp: bindE_Inl_iff or_zero_def fj_to_size_def fj_to_int_def fj_to_bool_def fj_to_string_def to_decimal_def
        split: sum.splits if_splits option.splits)
qed

lemma get_fields_caught:
  assumes "get_fields dec fs (FObject kvs) r = Inl e" "FNull \<notin> snd ` set kvs"
  shows "\<not> uncaught e"
  using assms(1)
proof (induction fs arbitrary: r)
  case (Cons f fs)
  then consider "get_json dec f (FObject kvs) r = Inl e" | r1 where "get_fields dec fs (FObject kvs) r1 = Inl e"
    by (auto simp: bindE_Inl_iff)
  then show ?case
  proof cases
    case 1
    then show ?thesis using assms(2) by (rule get_json_caught)
  next
    case (2 r1)
    then show ?thesis by (rule Cons.IH)
  qed
qed simp

end
