(* ===== verification/ExchangeProps.thy ===== *)
theory ExchangeProps
  imports BinanceProps BinanceMd FlatjsonProps
begin

text \<open>
  From the texts of the exchange to the journals of the gateways: messages are read as they are
  printed, what they carry is published, and what happens to texts that are not as expected.
\<close>

section \<open>Messages read as they are printed\<close>

lemma at_object [simp]: "fj_at (FObject kvs) k = (case map_of kvs k of None \<Rightarrow> Inl (KeyNotFound k) | Some v \<Rightarrow> Inr v)"
  by (simp add: fj_at_def)

lemma read_values [simp]:
  "fj_to_size (fj_num w) = Inr w" "fj_to_size (FString (show_nat (unat w))) = Inr w" "fj_to_bool (FBool b) = Inr b"
  "fj_to_string (FString s) = Inr s" "or_zero z (Inr v) = Inr v"
  by (simp_all add: fj_to_size_def fj_num_def fj_to_bool_def conv_bool_def fj_to_string_def or_zero_def)

text \<open>\<open>dec\<close> reads what \<open>shw\<close> prints of the decimals of a message.\<close>

definition exact :: "(string \<Rightarrow> f64 option) \<Rightarrow> (f64 \<Rightarrow> string) \<Rightarrow> f64 list \<Rightarrow> bool" where
  "exact dec shw vs \<longleftrightarrow> (\<forall>v \<in> set vs. dec (shw v) = Some v)"

lemma exact_simps [simp]:
  "exact dec shw []" "exact dec shw (v # vs) \<longleftrightarrow> dec (shw v) = Some v \<and> exact dec shw vs"
  by (auto simp: exact_def)

lemma read_trade:
  assumes "exact dec shw [wt_p t, wt_q t]"
  shows "ws_trade_construct dec (ws_trade_json shw t) = Inr t"
  using assms by (simp add: to_decimal_def ws_trade_construct_def ws_trade_fields_def ws_trade_json_def zero_ws_trade_def)

lemma read_agg_trade:
  assumes "exact dec shw [wg_p t, wg_q t]"
  shows "ws_agg_trade_construct dec (ws_agg_trade_json shw t) = Inr (t\<lparr>wg_M := False\<rparr>)"
  using assms
  by (simp add: to_decimal_def ws_agg_trade_construct_def ws_agg_trade_fields_def ws_agg_trade_json_def zero_ws_agg_trade_def)

lemma read_ticker:
  assumes "exact dec shw [wb_b t, wb_B t, wb_a t, wb_A t]"
  shows "ws_book_ticker_construct dec (ws_book_ticker_json shw t) = Inr t"
  using assms
  by (simp add: to_decimal_def ws_book_ticker_construct_def ws_book_ticker_fields_def ws_book_ticker_json_def zero_ws_book_ticker_def)





text \<open>Messages whose decimals are all zero.\<close>

definition zero_text :: "f64 \<Rightarrow> string" where
  "zero_text v = ''0''"

definition zero_dec :: "string \<Rightarrow> f64 option" where
  "zero_dec s = Some (Zero False)"

definition demo_trade :: ws_trade where
  "demo_trade = zero_ws_trade\<lparr>wt_s := ''BTCUSDT'', wt_t := 7, wt_T := 1, wt_m := True\<rparr>"

definition demo_execution :: "string \<Rightarrow> spot_update" where
  "demo_execution X = zero_spot_update\<lparr>su_e := ''executionReport'', su_s := ''BTCUSDT'', su_c := show_nat (unat (5 :: u64)),
     su_i := 9, su_X := X\<rparr>"

lemma plain_fj_num [simp]: "plain_json (fj_num w)"
  by (simp add: fj_num_def numeral_show)

lemma plain_char_code: "plain_char c \<longleftrightarrow> 32 \<le> char_code c \<and> char_code c < 128 \<and> char_code c \<noteq> 34 \<and> char_code c \<noteq> 92"
proof -
  have "c = char_of (n :: nat) \<longleftrightarrow> char_code c = n" if "n < 256" for n
    using that by (auto simp: take_bit_eq_mod)
  then show ?thesis by (simp add: plain_char_def quote_char_def backslash_def)
qed

lemmas plain_messages = ws_trade_json_def ws_agg_trade_json_def ws_book_ticker_json_def spot_update_json_def order_info_json_def
  zero_ws_trade_def zero_ws_agg_trade_def zero_ws_book_ticker_def zero_spot_update_def zero_order_info_def
  demo_trade_def demo_execution_def zero_text_def

lemma plain_demo:
  "plain_json (ws_trade_json zero_text demo_trade)" "plain_json (ws_agg_trade_json zero_text zero_ws_agg_trade)"
  "plain_json (ws_book_ticker_json zero_text zero_ws_book_ticker)" "plain_json (order_info_json zero_text zero_order_info)"
  by (simp_all add: plain_messages plain_char_code show_nat.simps [of 0] digit_char_def)



section \<open>What a text carries is published\<close>

text \<open>A value that is no error of the exchange.\<close>

definition no_error :: "fjson \<Rightarrow> bool" where
  "no_error j \<longleftrightarrow> is_object j \<and> fj_find j ''code'' = Inr None"

lemma printed_no_error:
  "no_error (ws_trade_json shw t)" "no_error (ws_agg_trade_json shw g)" "no_error (ws_book_ticker_json shw b)"
  "no_error (spot_update_json shw u)"
  by (simp_all add: no_error_def ws_trade_json_def ws_agg_trade_json_def ws_book_ticker_json_def spot_update_json_def)

lemma stream_value:
  assumes "fj_load body = Loaded j" "no_error j"
  shows "stream_message build zero cb 0 body s = construct_and_call build cb j s"
  using assms by (simp add: stream_message_def object_error_def is_api_error_def fj_contains_def no_error_def)

lemma stream_printed:
  assumes "plain_json j" "no_error j" "build j = Inr msg"
  shows "stream_message build zero cb 0 (fj_text j) s = or_else (cb 0 msg s) (\<lambda>s1. (Inr False, s1))"
  by (simp add: stream_value [OF load_text [OF assms(1)] assms(2)] construct_and_call_def assms(3))

text \<open>The levels of a depth message.\<close>

definition levels_json :: "(f64 \<Rightarrow> string) \<Rightarrow> (f64 \<times> f64) list \<Rightarrow> fjson" where
  "levels_json shw xs = FArray (map (\<lambda>(p, a). FArray [FString (shw p), FString (shw a)]) xs)"

lemma read_level_printed:
  "dec (shw p) = Some p \<Longrightarrow> dec (shw a) = Some a \<Longrightarrow>
   read_level dec (FArray [FString (shw p), FString (shw a)]) r = Inr (r @ [(p, a)])"
  by (simp add: read_level_def to_decimal_def)

lemma for_elements_levels:
  assumes "\<forall>(p, a) \<in> set xs. dec (shw p) = Some p \<and> dec (shw a) = Some a"
  shows "for_elements (levels_json shw (ys @ xs)) (read_level dec) [length ys..<length ys + length xs] r = Inr (r @ xs)"
  using assms
proof (induction xs arbitrary: ys r)
  case (Cons x xs)
  have "[length ys..<length ys + length (x # xs)] = length ys # [length (ys @ [x])..<length (ys @ [x]) + length xs]"
    by (subst upt_conv_Cons) simp_all
  moreover have "for_elements (levels_json shw ((ys @ [x]) @ xs)) (read_level dec)
      [length (ys @ [x])..<length (ys @ [x]) + length xs] (r @ [x]) = Inr ((r @ [x]) @ xs)"
    by (rule Cons.IH) (use Cons.prems in simp)
  ultimately show ?case
    using Cons.prems by (cases x) (simp add: levels_json_def read_level_printed nth_append del: upt.simps)
qed simp

lemma read_levels:
  assumes "\<forall>(p, a) \<in> set xs. dec (shw p) = Some p \<and> dec (shw a) = Some a"
  shows "each_element (levels_json shw xs) (read_level dec) [] = Inr xs"
  using for_elements_levels [OF assms, of "[]" "[]"] by (simp add: each_element_def levels_json_def)

text \<open>\<open>operator<<\<close> of a depth message: the two sides, and neither of its times.\<close>

definition part_depths_json :: "(f64 \<Rightarrow> string) \<Rightarrow> part_depths \<Rightarrow> fjson" where
  "part_depths_json shw d = FObject [(''asks'', levels_json shw (pd_a d)), (''bids'', levels_json shw (pd_b d))]"

text \<open>The sides of a book in a message of the spot market, and in one of the futures.\<close>

definition spot_book :: "(f64 \<Rightarrow> string) \<Rightarrow> part_depths \<Rightarrow> (string \<times> fjson) list \<Rightarrow> bool" where
  "spot_book shw d kvs \<longleftrightarrow> map_of kvs ''code'' = None \<and>
    map_of kvs ''asks'' = Some (levels_json shw (pd_a d)) \<and> map_of kvs ''bids'' = Some (levels_json shw (pd_b d))"

definition futures_book :: "(f64 \<Rightarrow> string) \<Rightarrow> part_depths \<Rightarrow> (string \<times> fjson) list \<Rightarrow> bool" where
  "futures_book shw d kvs \<longleftrightarrow> map_of kvs ''code'' = None \<and> map_of kvs ''asks'' = None \<and>
    map_of kvs ''a'' = Some (levels_json shw (pd_a d)) \<and> map_of kvs ''b'' = Some (levels_json shw (pd_b d))"

lemma read_size_member: "\<exists>v. or_zero 0 (bindE (fj_at (FObject kvs) k) fj_to_size) = Inr v"
proof (cases "map_of kvs k")
  case (Some j)
  then show ?thesis by (cases j) (simp_all add: fj_to_size_def or_zero_def)
qed (simp add: or_zero_def)

lemma read_depth:
  assumes "spot_book shw d kvs \<or> futures_book shw d kvs"
    and "\<forall>(p, a) \<in> set (pd_a d) \<union> set (pd_b d). dec (shw p) = Some p \<and> dec (shw a) = Some a"
  shows "\<exists>e t. part_depths_construct dec (FObject kvs) = Inr (d\<lparr>pd_E := e, pd_T := t\<rparr>)"
proof -
  have sides: "each_element (levels_json shw (pd_a d)) (read_level dec) [] = Inr (pd_a d)"
    "each_element (levels_json shw (pd_b d)) (read_level dec) [] = Inr (pd_b d)"
    using assms(2) by (intro read_levels; blast)+
  have ab: "part_depths_sides (FObject kvs) = Inr (levels_json shw (pd_a d), levels_json shw (pd_b d))"
    using assms(1) by (auto simp: part_depths_sides_def fj_contains_def spot_book_def futures_book_def)
  obtain e t where "or_zero 0 (bindE (fj_at (FObject kvs) ''E'') fj_to_size) = Inr e"
    "or_zero 0 (bindE (fj_at (FObject kvs) ''T'') fj_to_size) = Inr t"
    using read_size_member by meson
  then have "part_depths_construct dec (FObject kvs) = Inr (d\<lparr>pd_E := e, pd_T := t\<rparr>)"
    using sides ab by (simp add: part_depths_construct_def zero_part_depths_def del: at_object)
  then show ?thesis by blast
qed

lemma depth_published:
  assumes "fj_load body = Loaded (FObject kvs)" "spot_book shw d kvs \<or> futures_book shw d kvs"
    and "\<forall>(p, a) \<in> set (pd_a d) \<union> set (pd_b d). dec (shw p) = Some p \<and> dec (shw a) = Some a"
    and "10 \<le> length (pd_a d)" "10 \<le> length (pd_b d)" "map_of (h_writers m) 0 = Some w"
  shows "depth_message dec now it name n 0 body m = (Inr (), write_msg w 0 T_Depth (DepthData (depth_of now it name d)) m)"
proof -
  obtain e t where built: "part_depths_construct dec (FObject kvs) = Inr (d\<lparr>pd_E := e, pd_T := t\<rparr>)"
    using read_depth [OF assms(2,3)] by blast
  have "no_error (FObject kvs)" using assms(2) by (auto simp: no_error_def spot_book_def futures_book_def)
  moreover have "depth_of now it name (d\<lparr>pd_E := e, pd_T := t\<rparr>) = depth_of now it name d" by (simp add: depth_of_def)
  ultimately show ?thesis using assms(4-6) built
    by (simp add: depth_message_def channel_message_def stream_value [OF assms(1)] construct_and_call_def on_part_depths_def get_writer_def)
qed

text \<open>C34: what a message of the market carries is published, from its text on: a trade, a trade of the
  futures and a ticker, in the form the library prints them, and a book, from any text of one of the two forms
  the exchanges send (the sides named \<open>asks\<close> and \<open>bids\<close>, as on the spot market and as the library prints it, or
  \<open>a\<close> and \<open>b\<close>, as on the futures markets), are one message each in the public journal of the gateway, and the
  channel goes on.  Of a book the ten first levels of each side are published; it must have them.  The decimals
  must be texts that are read back as they were.\<close>

theorem market_texts_published:
  assumes w: "map_of (h_writers m) 0 = Some w"
    and t: "plain_json (ws_trade_json shw t)" "exact dec shw [wt_p t, wt_q t]"
    and g: "plain_json (ws_agg_trade_json shw g)" "exact dec shw [wg_p g, wg_q g]"
    and b: "plain_json (ws_book_ticker_json shw b)" "exact dec shw [wb_b b, wb_B b, wb_a b, wb_A b]"
    and d: "\<forall>(p, a) \<in> set (pd_a d) \<union> set (pd_b d). dec (shw p) = Some p \<and> dec (shw a) = Some a"
      "10 \<le> length (pd_a d)" "10 \<le> length (pd_b d)" "plain_json (part_depths_json shw d)"
    and spot: "fj_load spot_text = Loaded (FObject kvs)" "spot_book shw d kvs"
    and futures: "fj_load futures_text = Loaded (FObject kvs')" "futures_book shw d kvs'"
  shows "spot_trade_message dec name n 0 (fj_text (ws_trade_json shw t)) m =
      (Inr (), write_msg w 0 T_Trade (TradeData (spot_trade name t)) m) \<and>
    agg_trade_message dec it name n 0 (fj_text (ws_agg_trade_json shw g)) m =
      (Inr (), write_msg w 0 T_Trade (TradeData (future_trade it name g)) m) \<and>
    ticker_message dec now it name n 0 (fj_text (ws_book_ticker_json shw b)) m =
      (Inr (), write_msg w 0 T_Ticker (TickerData (ticker_of now it name b)) m) \<and>
    (\<forall>body \<in> {fj_text (part_depths_json shw d), spot_text, futures_text}. depth_message dec now it name n 0 body m =
      (Inr (), write_msg w 0 T_Depth (DepthData (depth_of now it name d)) m))"
proof (intro conjI ballI)
  have wr: "get_writer 0 m = (Inr w, m)" using w by (simp add: get_writer_def)
  show "spot_trade_message dec name n 0 (fj_text (ws_trade_json shw t)) m =
      (Inr (), write_msg w 0 T_Trade (TradeData (spot_trade name t)) m)"
    by (simp add: stream_printed [where build = "ws_trade_construct dec", OF t(1) printed_no_error(1) read_trade [OF t(2)]] spot_trade_message_def channel_message_def on_spot_trade_def wr Let_def)
  show "agg_trade_message dec it name n 0 (fj_text (ws_agg_trade_json shw g)) m =
      (Inr (), write_msg w 0 T_Trade (TradeData (future_trade it name g)) m)"
    by (simp add: stream_printed [where build = "ws_agg_trade_construct dec", OF g(1) printed_no_error(2) read_agg_trade [OF g(2)]] agg_trade_message_def channel_message_def on_agg_trade_def wr future_trade_def)
  show "ticker_message dec now it name n 0 (fj_text (ws_book_ticker_json shw b)) m =
      (Inr (), write_msg w 0 T_Ticker (TickerData (ticker_of now it name b)) m)"
    by (simp add: stream_printed [where build = "ws_book_ticker_construct dec", OF b(1) printed_no_error(3) read_ticker [OF b(2)]] ticker_message_def channel_message_def on_book_ticker_def wr)
  have "spot_book shw d [(''asks'', levels_json shw (pd_a d)), (''bids'', levels_json shw (pd_b d))]" by (simp add: spot_book_def)
  then have printed: "\<exists>kvs. fj_load (fj_text (part_depths_json shw d)) = Loaded (FObject kvs) \<and> spot_book shw d kvs"
    using load_text [OF d(4)] unfolding part_depths_json_def by blast
  fix body assume "body \<in> {fj_text (part_depths_json shw d), spot_text, futures_text}"
  then have "\<exists>kvs. fj_load body = Loaded (FObject kvs) \<and> (spot_book shw d kvs \<or> futures_book shw d kvs)"
    using printed spot futures by blast
  then show "depth_message dec now it name n 0 body m = (Inr (), write_msg w 0 T_Depth (DepthData (depth_of now it name d)) m)"
    using depth_published [OF _ _ d(1-3) w] by blast
qed

text \<open>A gateway with a public journal, and a depth of ten levels.\<close>

definition demo_key :: journal_key where
  "demo_key = (make_location LIVE MD ''binance'' ''binance'', 0)"

definition demo_md :: binance_md where
  "demo_md = (new_binance_md 0)\<lparr>h_writers := [(0, demo_key)]\<rparr>"

definition demo_depth :: part_depths where
  "demo_depth = zero_part_depths\<lparr>pd_a := replicate 10 (Zero False, Zero False), pd_b := replicate 10 (Zero False, Zero False)\<rparr>"

text \<open>The book of the spot market with the member the exchange adds, and that of the futures.\<close>

definition demo_spot_book :: fjson where
  "demo_spot_book = FObject [(''lastUpdateId'', fj_num 160), (''bids'', levels_json zero_text (pd_b demo_depth)),
     (''asks'', levels_json zero_text (pd_a demo_depth))]"

definition demo_futures_book :: fjson where
  "demo_futures_book = FObject [(''e'', FString ''depthUpdate''), (''E'', fj_num 7), (''T'', fj_num 8),
     (''b'', levels_json zero_text (pd_b demo_depth)), (''a'', levels_json zero_text (pd_a demo_depth))]"

lemma plain_books: "plain_json (part_depths_json zero_text demo_depth)" "plain_json demo_spot_book" "plain_json demo_futures_book"
  by (simp_all add: part_depths_json_def demo_spot_book_def demo_futures_book_def demo_depth_def zero_part_depths_def
      levels_json_def zero_text_def plain_char_code)

theorem market_texts_published_witness:
  "spot_trade_message zero_dec ''btc_usdt'' 3 0 (fj_text (ws_trade_json zero_text demo_trade)) demo_md =
     (Inr (), write_msg demo_key 0 T_Trade (TradeData (spot_trade ''btc_usdt'' demo_trade)) demo_md) \<and>
   depth_message zero_dec 5 Spot ''btc_usdt'' 3 0 (fj_text demo_spot_book) demo_md =
     (Inr (), write_msg demo_key 0 T_Depth (DepthData (depth_of 5 Spot ''btc_usdt'' demo_depth)) demo_md) \<and>
   depth_message zero_dec 5 Spot ''btc_usdt'' 3 0 (fj_text demo_futures_book) demo_md =
     (Inr (), write_msg demo_key 0 T_Depth (DepthData (depth_of 5 Spot ''btc_usdt'' demo_depth)) demo_md)"
proof -
  have w: "map_of (h_writers demo_md) 0 = Some demo_key" by (simp add: demo_md_def)
  have e: "exact zero_dec zero_text [wt_p demo_trade, wt_q demo_trade]"
    "exact zero_dec zero_text [wg_p zero_ws_agg_trade, wg_q zero_ws_agg_trade]"
    "exact zero_dec zero_text [wb_b zero_ws_book_ticker, wb_B zero_ws_book_ticker, wb_a zero_ws_book_ticker, wb_A zero_ws_book_ticker]"
    by (simp_all add: zero_dec_def demo_trade_def zero_ws_trade_def zero_ws_agg_trade_def zero_ws_book_ticker_def)
  have d: "\<forall>(p, a) \<in> set (pd_a demo_depth) \<union> set (pd_b demo_depth).
      zero_dec (zero_text p) = Some p \<and> zero_dec (zero_text a) = Some a"
    "10 \<le> length (pd_a demo_depth)" "10 \<le> length (pd_b demo_depth)"
    by (simp_all add: demo_depth_def zero_dec_def)
  have spot: "\<exists>kvs. fj_load (fj_text demo_spot_book) = Loaded (FObject kvs) \<and> spot_book zero_text demo_depth kvs"
    unfolding load_text [OF plain_books(2)] by (simp add: demo_spot_book_def spot_book_def)
  have futures: "\<exists>kvs. fj_load (fj_text demo_futures_book) = Loaded (FObject kvs) \<and> futures_book zero_text demo_depth kvs"
    unfolding load_text [OF plain_books(3)] by (simp add: demo_futures_book_def futures_book_def)
  obtain ks kf where k: "fj_load (fj_text demo_spot_book) = Loaded (FObject ks)" "spot_book zero_text demo_depth ks"
    "fj_load (fj_text demo_futures_book) = Loaded (FObject kf)" "futures_book zero_text demo_depth kf"
    using spot futures by blast
  show ?thesis
    using market_texts_published [OF w plain_demo(1) e(1) plain_demo(2) e(2) plain_demo(3) e(3) d plain_books(1) k] by blast
qed

section \<open>Updates of orders, from their texts\<close>





section \<open>Texts that are not as expected\<close>

lemma no_commission_caught:
  assumes "map_of kvs ''o'' = Some (FObject os)" "map_of os ''n'' = None \<or> map_of os ''N'' = None"
    and "FNull \<notin> snd ` set kvs" "FNull \<notin> snd ` set os"
  shows "\<exists>e. future_update_construct dec (FObject kvs) = Inl e \<and> \<not> uncaught e"
proof -
  let ?head = "get_fields dec [FText ''e'' fu_e_update, FSize ''T'' fu_T_update, FSize ''E'' fu_E_update] (FObject kvs) zero_future_update"
  have "\<exists>f \<in> set future_data_fields. required f \<and> map_of os (field_key f) = None"
    using assms(2) by (auto simp: future_data_fields_def)
  then have lost: "\<exists>e. get_fields dec future_data_fields (FObject os) d = Inl e" for d
    using get_fields_missing [of _ future_data_fields] by blast
  show ?thesis
  proof (cases ?head)
    case (Inl e)
    have "\<not> uncaught e" by (rule get_fields_caught [OF Inl assms(3)])
    then show ?thesis using Inl by (simp add: future_update_construct_def)
  next
    case (Inr res)
    obtain e where e: "get_fields dec future_data_fields (FObject os) (fu_o res) = Inl e" using lost by blast
    have "\<not> uncaught e" by (rule get_fields_caught [OF e assms(4)])
    then show ?thesis using Inr e assms(1) by (simp add: future_update_construct_def)
  qed
qed

text \<open>C39: The exchange leaves the commission out of an update of a futures order that has none.  The
  library requires both its members, so the update is dropped, and the channel of the account stops:
  nothing is written, and no later update arrives.\<close>

theorem update_without_commission_ends_stream:
  assumes "fj_load body = Loaded (FObject kvs)" "map_of kvs ''e'' = Some (FString ''ORDER_TRADE_UPDATE'')"
    and "map_of kvs ''code'' = None" "map_of kvs ''o'' = Some (FObject os)"
    and "map_of os ''n'' = None \<or> map_of os ''N'' = None"
    and "FNull \<notin> snd ` set kvs" "FNull \<notin> snd ` set os"
  shows "account_message dec FutureOrderCb n 0 body a = (Inr (), a\<lparr>bt_sockets := socket_stops n (bt_sockets a)\<rparr>)"
proof -
  obtain e where e: "future_update_construct dec (FObject kvs) = Inl e" "\<not> uncaught e"
    using no_commission_caught [OF assms(4-7)] by blast
  have "no_error (FObject kvs)" using assms(3) by (simp add: no_error_def)
  moreover have "stream_event body = Inr (FObject kvs, fnv1a ''ORDER_TRADE_UPDATE'')"
    using assms(2) by (simp add: stream_event_def assms(1) fj_contains_def fj_assert_def)
  ultimately show ?thesis
    using e by (simp add: account_message_def account_callback_def stream_value [OF assms(1)] construct_and_call_def
        on_future_order_data_def with_built_def or_else_caught)
qed

text \<open>Answers that refuse an order: an error of the network, no body or none that is json, an error of the
  exchange.\<close>

fun exchange_error :: "fj_loaded \<Rightarrow> bool" where
  "exchange_error (Loaded j) \<longleftrightarrow> object_error j = Inr True \<and> (case construct_error j of Inl _ \<Rightarrow> False | Inr _ \<Rightarrow> True)"
| "exchange_error (NotLoaded code) \<longleftrightarrow> True"
| "exchange_error LoadAborts \<longleftrightarrow> False"

definition refuses :: "i32 \<Rightarrow> string \<Rightarrow> bool" where
  "refuses ec body \<longleftrightarrow> ec \<noteq> 0 \<or> body = [] \<or> exchange_error (fj_load body)"

lemma refuses_invoke:
  assumes "refuses ec body"
  shows "\<exists>code. invoke build zero cb ec body s = or_else (cb code zero s) (\<lambda>s1. (Inr True, s1))"
  using assms
  by (cases "fj_load body") (auto simp: refuses_def invoke_def answer_value_def split: sum.splits prod.splits)

text \<open>C38: An order of the spot market that the exchange or the network refuses is reported to the strategy
  as submitted, with the identifier 0: the callback asks whether the answer is of a known kind, which the
  value it gets with an error is, and not for the error.\<close>

theorem refused_order_submitted:
  assumes "refuses ec body" and "map_of (h_writers a) src = Some w"
  shows "spot_answer dec nano src i ec body a = (Inr True, write_msg w nano T_Order (OrderData ((placed_order nano i)
    \<lparr>ord_ex_order_id := strcpy (ord_ex_order_id (placed_order nano i)) ''0'', ord_status := Submitted\<rparr>)) a)"
proof -
  obtain code where "spot_answer dec nano src i ec body a =
      or_else (on_spot_answer nano src i code default_order_resp a) (\<lambda>s1. (Inr True, s1))"
    using refuses_invoke [OF assms(1)] by (metis spot_answer_def)
  moreover have "show_nat (unat (nk_orderId zero_order_ack)) = ''0''" by code_simp
  ultimately show ?thesis
    using assms(2) by (simp add: on_spot_answer_def get_writer_def default_order_resp_def is_valid_responce_type_def)
qed

lemma sync_post_no_network: "sync_post build zero None = Inl undefined_behaviour"
  by (simp add: sync_post_def fj_load_def Let_def)

lemma start_userdata_no_network: "fst (start_userdata type None a) = Inl undefined_behaviour"
  by (simp add: start_userdata_def sync_post_no_network Let_def)

lemma ping_keys_sockets [simp]: "bt_sockets (ping_keys a) = bt_sockets a"
proof -
  have "bt_sockets (fold (\<lambda>k. td_request (f k)) ks x) = bt_sockets x" for f :: "string \<Rightarrow> rest_request" and ks x
    by (induction ks arbitrary: x) (simp_all add: td_request_def)
  then show ?thesis by (simp add: ping_keys_def)
qed

lemma bindX_fails: "fst r = Inl e \<Longrightarrow> fst (bindX r f) = Inl e"
  by (cases r) auto

text \<open>C40: An error of the network under a synchronous request reads a null pointer: its message is not
  looked at, and the empty body that is left loads to nothing without an error.  So neither gateway
  survives a start without the network, and the trader does not survive a status check without it that
  finds no stream of the spot account, which it then tries to open.\<close>

theorem no_network_ends_gateway:
  assumes "publish_state B_LoggedIn m = (Inr (), m1)" and "fst (fetch_reconnect_flag Spot_ws (bt_sockets a))"
  shows "fst (btd_on_start None a) = Inl undefined_behaviour \<and>
    fst (bmd_on_start lib None future m) = Inl undefined_behaviour \<and>
    fst (btd_check_status None future a) = Inl undefined_behaviour"
proof (intro conjI)
  show "fst (btd_on_start None a) = Inl undefined_behaviour"
    unfolding btd_on_start_def by (rule bindX_fails) (rule start_userdata_no_network)
  show "fst (bmd_on_start lib None future m) = Inl undefined_behaviour"
    by (simp add: bmd_on_start_def assms(1) update_spot_info_def sync_post_no_network)
  have "fst (restart_if_lost Spot_ws Spot None x) = Inl undefined_behaviour" if "bt_sockets x = bt_sockets a" for x
    using assms(2) that
    by (cases "fetch_reconnect_flag Spot_ws (bt_sockets a)") (simp add: restart_if_lost_def start_userdata_no_network Let_def)
  then show "fst (btd_check_status None future a) = Inl undefined_behaviour"
    unfolding btd_check_status_def Let_def by (intro bindX_fails) simp
qed

text \<open>The trader with an order, and answers and updates that are not as expected.\<close>

definition demo_known :: binance_td where
  "demo_known = demo_td\<lparr>bt_orders := [(5, \<lparr>om_order_id = 5, om_ex_order_id = [], om_source = 7, om_last_update = 0,
     om_order = zero_order\<lparr>ord_strategy_id := 3\<rparr>\<rparr>)]\<rparr>"

definition refusal :: fjson where
  "refusal = FObject [(''code'', fj_num 2010), (''msg'', FString ''Account has insufficient balance.'')]"

definition no_commission :: fjson where
  "no_commission = FObject [(''e'', FString ''ORDER_TRADE_UPDATE''), (''E'', fj_num 2), (''T'', fj_num 2),
     (''o'', FObject [(''s'', FString ''BTCUSDT''), (''c'', FString ''5''), (''X'', FString ''NEW'')])]"


theorem update_without_commission_ends_stream_witness:
  "account_message zero_dec FutureOrderCb 0 0 (fj_text no_commission) demo_known =
    (Inr (), demo_known\<lparr>bt_sockets := socket_stops 0 (bt_sockets demo_known)\<rparr>)"
proof -
  have "plain_json no_commission" by (simp add: no_commission_def plain_char_code)
  from load_text [OF this] show ?thesis
    unfolding no_commission_def by (rule update_without_commission_ends_stream [where os = "[(''s'', FString ''BTCUSDT''), (''c'', FString ''5''), (''X'', FString ''NEW'')]"])
      (simp_all add: fj_num_def)
qed

theorem refused_order_submitted_witness:
  "\<exists>o'. spot_answer zero_dec 3 7 (zero_order_input\<lparr>oi_order_id := 5\<rparr>) 0 (fj_text refusal) demo_known =
     (Inr True, write_msg (make_location LIVE TD ''binance'' ''acc'', 7) 3 T_Order (OrderData o') demo_known)
    \<and> ord_order_id o' = 5 \<and> ord_status o' = Submitted"
proof -
  define o' where "o' = (placed_order 3 (zero_order_input\<lparr>oi_order_id := 5\<rparr>))
    \<lparr>ord_ex_order_id := strcpy (ord_ex_order_id (placed_order 3 (zero_order_input\<lparr>oi_order_id := 5\<rparr>))) ''0'', ord_status := Submitted\<rparr>"
  have "plain_json refusal" by (simp add: refusal_def plain_char_code)
  then have "fj_load (fj_text refusal) = Loaded refusal" by (rule load_text)
  then have "refuses 0 (fj_text refusal)"
    by (simp add: refuses_def) (simp add: refusal_def object_error_def is_api_error_def fj_contains_def construct_error_def fj_num_def fj_to_int_def)
  moreover have "map_of (h_writers demo_known) 7 = Some (make_location LIVE TD ''binance'' ''acc'', 7)"
    by (simp add: demo_known_def demo_td_def apprentice.defs hero.defs new_apprentice_def new_hero_def)
  ultimately have "spot_answer zero_dec 3 7 (zero_order_input\<lparr>oi_order_id := 5\<rparr>) 0 (fj_text refusal) demo_known =
      (Inr True, write_msg (make_location LIVE TD ''binance'' ''acc'', 7) 3 T_Order (OrderData o') demo_known)"
    unfolding o'_def by (rule refused_order_submitted)
  moreover have "ord_order_id o' = 5" "ord_status o' = Submitted"
    by (simp_all add: o'_def placed_order_def order_from_input_def)
  ultimately show ?thesis by blast
qed

theorem no_network_ends_gateway_witness:
  "fst (btd_on_start None demo_td) = Inl undefined_behaviour \<and>
   fst (bmd_on_start \<lparr>ml_dec = zero_dec, ml_shw = zero_text, ml_parse = (\<lambda>_. None), ml_dump = (\<lambda>_. [])\<rparr> None None demo_md) = Inl undefined_behaviour \<and>
   fst (btd_check_status None None demo_td) = Inl undefined_behaviour"
proof -
  have "publish_state B_LoggedIn demo_md = (Inr (), snd (publish_state B_LoggedIn demo_md))"
    by (simp add: publish_state_def write_to_def writer_at_def demo_md_def)
  moreover have "fst (fetch_reconnect_flag Spot_ws (bt_sockets demo_td))"
    by (simp add: fetch_reconnect_flag_def demo_td_def no_sockets_def apprentice.defs)
  ultimately show ?thesis by (rule no_network_ends_gateway)
qed

end
