(* ===== verification/RestQueue.thy ===== *)
theory RestQueue
  imports Prelude
begin

text \<open>
  The requests of one connection of the Binance library (\<open>api::impl\<close> in binapi/api.cpp): they are
  queued, one is under way at a time, and each step of the network (resolving, connecting, the
  handshake, writing, reading) may fail.  What was sent and what was answered is recorded, and
  whether the request under way was abandoned with no step of the network left to come.  A callback
  does not make requests of its own connection here, as those of the program do not.
\<close>

record 'i rest_client =
  rc_requests :: "'i list"
  rc_in_process :: bool
  rc_sent :: "'i list"
  rc_replies :: "('i \<times> i32 \<times> string) list"
  rc_abandoned :: bool

definition idle_client :: "'i rest_client" where
  "idle_client = \<lparr>rc_requests = [], rc_in_process = False, rc_sent = [], rc_replies = [],
     rc_abandoned = False\<rparr>"

definition async_post :: "'i rest_client \<Rightarrow> 'i rest_client" where
  "async_post c = (if rc_in_process c then c else c\<lparr>rc_in_process := True, rc_sent := rc_sent c @ [hd (rc_requests c)]\<rparr>)"

definition post_request :: "'i \<Rightarrow> 'i rest_client \<Rightarrow> 'i rest_client" where
  "post_request i c = async_post (c\<lparr>rc_requests := rc_requests c @ [i]\<rparr>)"

definition process_reply :: "i32 \<Rightarrow> string \<Rightarrow> 'i rest_client \<Rightarrow> 'i rest_client" where
  "process_reply ec body c =
    c\<lparr>rc_requests := tl (rc_requests c), rc_replies := rc_replies c @ [(hd (rc_requests c), ec, body)]\<rparr>"

text \<open>\<open>on_resolve\<close>, \<open>on_connect\<close>, \<open>on_handshake\<close>, \<open>on_write\<close> and \<open>on_read\<close> with an error.\<close>

definition network_error :: "i32 \<Rightarrow> 'i rest_client \<Rightarrow> 'i rest_client" where
  "network_error ec c = process_reply ec [] (c\<lparr>rc_in_process := False\<rparr>)"

text \<open>\<open>on_resolve\<close> when the name of the host cannot be set on the new socket: it returns, with the
  request neither answered nor taken from the queue, and with the flag that one is under way still set.\<close>

definition name_not_set :: "'i rest_client \<Rightarrow> 'i rest_client" where
  "name_not_set c = c\<lparr>rc_abandoned := True\<rparr>"

definition on_shutdown :: "string \<Rightarrow> 'i rest_client \<Rightarrow> 'i rest_client" where
  "on_shutdown body c =
    (let c1 = (process_reply 0 body c)\<lparr>rc_in_process := False\<rparr> in if rc_requests c1 \<noteq> [] then async_post c1 else c1)"

text \<open>What may happen: a request is made, and while one is under way and not abandoned the network answers or
  fails, or the request is abandoned.\<close>

inductive client_run :: "'i list \<Rightarrow> 'i rest_client \<Rightarrow> bool" where
  nothing: "client_run [] idle_client"
| request: "client_run made c \<Longrightarrow> client_run (made @ [i]) (post_request i c)"
| failure: "client_run made c \<Longrightarrow> rc_in_process c \<Longrightarrow> \<not> rc_abandoned c \<Longrightarrow> ec \<noteq> 0 \<Longrightarrow> client_run made (network_error ec c)"
| answer: "client_run made c \<Longrightarrow> rc_in_process c \<Longrightarrow> \<not> rc_abandoned c \<Longrightarrow> client_run made (on_shutdown body c)"
| abandoned: "client_run made c \<Longrightarrow> rc_in_process c \<Longrightarrow> \<not> rc_abandoned c \<Longrightarrow> client_run made (name_not_set c)"

inductive_cases client_runE: "client_run made c"







text \<open>After that nothing is sent or answered any more: the only thing that can still happen is a request,
  and it is queued.\<close>

lemma abandoned_for_good:
  assumes "rc_abandoned c" "rc_in_process c"
  shows "post_request i c = c\<lparr>rc_requests := rc_requests c @ [i]\<rparr>"
  using assms(2) by (simp add: post_request_def async_post_def)

lemma abandoned_is_under_way: "client_run made c \<Longrightarrow> rc_abandoned c \<Longrightarrow> rc_in_process c"
proof (induction rule: client_run.induct)
  case (request made c i)
  then show ?case by (cases "rc_in_process c") (simp_all add: post_request_def async_post_def)
qed (simp_all add: idle_client_def network_error_def process_reply_def on_shutdown_def async_post_def name_not_set_def Let_def split: if_splits)



end
