(* ===== verification/Connection.thy ===== *)
theory Connection
  imports Common
begin

text \<open>
  The connection of a channel (\<open>struct websocket\<close> in binapi/websocket.cpp): one operation of the network is
  pending at a time, and the handler of each starts the next or drops the holder of the object, which
  deletes it.  Besides, the timer of the object stops it after three to four hours, and its owner may stop
  it.  A stop closes the socket when it is open, so that the pending operation fails; until then nothing
  happens.  What the callback is called with is recorded, an error or a text.
\<close>

datatype ws_phase = Resolving | Connecting | Securing | Upgrading | Reading | Gone

record connection =
  co_phase :: ws_phase
  co_stop :: bool
  co_timer :: bool
  co_calls :: "(i32 \<times> string) list"

definition new_connection :: connection where
  "new_connection = \<lparr>co_phase = Resolving, co_stop = False, co_timer = True, co_calls = []\<rparr>"

text \<open>What may happen: the pending operation is done or fails, the name of the host is refused, a text
  is read and the callback says whether to go on, the time is up, the owner stops the connection.\<close>

datatype ws_event = Done | Fails i32 | NameRefused i32 | Text string bool | Expires | Stopped

definition co_report :: "i32 \<Rightarrow> connection \<Rightarrow> connection" where
  "co_report ec c = (if co_stop c then c else c\<lparr>co_calls := co_calls c @ [(ec, [])]\<rparr>)"

definition stop_connection :: "connection \<Rightarrow> connection" where
  "stop_connection c = c\<lparr>co_stop := True\<rparr>"

definition drop_holder :: "connection \<Rightarrow> connection" where
  "drop_holder c = c\<lparr>co_phase := Gone\<rparr>"

definition on_resolved :: "ws_event \<Rightarrow> connection \<Rightarrow> connection" where
  "on_resolved e c =
    (case e of
       Fails ec \<Rightarrow> drop_holder (co_report ec c)
     | NameRefused ec \<Rightarrow> drop_holder (c\<lparr>co_calls := co_calls c @ [(ec, [])]\<rparr>)
     | _ \<Rightarrow> c\<lparr>co_phase := Connecting\<rparr>)"

definition on_connected :: "ws_event \<Rightarrow> connection \<Rightarrow> connection" where
  "on_connected e c = (case e of Fails ec \<Rightarrow> drop_holder (co_report ec c) | _ \<Rightarrow> c\<lparr>co_phase := Securing\<rparr>)"

definition on_secured :: "ws_event \<Rightarrow> connection \<Rightarrow> connection" where
  "on_secured e c =
    (case e of Fails ec \<Rightarrow> drop_holder (stop_connection (co_report ec c)) | _ \<Rightarrow> c\<lparr>co_phase := Upgrading\<rparr>)"

definition start_read :: "ws_event \<Rightarrow> connection \<Rightarrow> connection" where
  "start_read e c =
    (case e of Fails ec \<Rightarrow> drop_holder (stop_connection (co_report ec c)) | _ \<Rightarrow> c\<lparr>co_phase := Reading\<rparr>)"

definition on_ws_read :: "ws_event \<Rightarrow> connection \<Rightarrow> connection" where
  "on_ws_read e c =
    (case e of
       Fails ec \<Rightarrow> drop_holder (stop_connection (co_report ec c))
     | Text s ok \<Rightarrow>
         (let c1 = c\<lparr>co_calls := co_calls c @ [(0, s)]\<rparr> in
          if ok then start_read Done c1 else drop_holder (stop_connection c1))
     | _ \<Rightarrow> c)"

definition on_expired :: "connection \<Rightarrow> connection" where
  "on_expired c = (stop_connection c)\<lparr>co_timer := False\<rparr>"

fun on_event :: "ws_event \<Rightarrow> connection \<Rightarrow> connection" where
  "on_event Expires c = on_expired c"
| "on_event Stopped c = stop_connection c"
| "on_event e c =
    (case co_phase c of
       Resolving \<Rightarrow> on_resolved e c
     | Connecting \<Rightarrow> on_connected e c
     | Securing \<Rightarrow> on_secured e c
     | Upgrading \<Rightarrow> start_read e c
     | Reading \<Rightarrow> on_ws_read e c
     | Gone \<Rightarrow> c)"

fun may_happen :: "ws_event \<Rightarrow> connection \<Rightarrow> bool" where
  "may_happen Done c \<longleftrightarrow> co_phase c \<noteq> Gone \<and> co_phase c \<noteq> Reading"
| "may_happen (Fails ec) c \<longleftrightarrow> co_phase c \<noteq> Gone \<and> ec \<noteq> 0"
| "may_happen (NameRefused ec) c \<longleftrightarrow> co_phase c = Resolving \<and> ec \<noteq> 0"
| "may_happen (Text s ok) c \<longleftrightarrow> co_phase c = Reading"
| "may_happen Expires c \<longleftrightarrow> co_phase c \<noteq> Gone \<and> co_timer c"
| "may_happen Stopped c \<longleftrightarrow> co_phase c \<noteq> Gone"

inductive connection_run :: "ws_event list \<Rightarrow> connection \<Rightarrow> bool" where
  opened: "connection_run [] new_connection"
| happens: "connection_run es c \<Longrightarrow> may_happen e c \<Longrightarrow> connection_run (es @ [e]) (on_event e c)"

inductive_cases connection_runE: "connection_run es c"

section \<open>What the callback hears\<close>

fun text_of :: "ws_event \<Rightarrow> string option" where
  "text_of (Text s ok) = Some s"
| "text_of e = None"

text \<open>The events after which nothing comes.\<close>

fun ends_connection :: "ws_event \<Rightarrow> bool" where
  "ends_connection (Fails ec) \<longleftrightarrow> True"
| "ends_connection (NameRefused ec) \<longleftrightarrow> True"
| "ends_connection (Text s ok) \<longleftrightarrow> \<not> ok"
| "ends_connection e \<longleftrightarrow> False"

definition was_stopped :: "ws_event list \<Rightarrow> bool" where
  "was_stopped es \<longleftrightarrow> Expires \<in> set es \<or> Stopped \<in> set es"

fun last_report :: "bool \<Rightarrow> ws_event \<Rightarrow> (i32 \<times> string) list" where
  "last_report stopped (Fails ec) = (if stopped then [] else [(ec, [])])"
| "last_report stopped (NameRefused ec) = [(ec, [])]"
| "last_report stopped e = []"

definition heard :: "ws_event list \<Rightarrow> (i32 \<times> string) list" where
  "heard es = map (Pair 0) (List.map_filter text_of es) @ (if es = [] then [] else last_report (was_stopped es) (last es))"

definition run_ok :: "ws_event list \<Rightarrow> connection \<Rightarrow> bool" where
  "run_ok es c \<longleftrightarrow> co_calls c = heard es \<and> (co_phase c = Gone \<longleftrightarrow> es \<noteq> [] \<and> ends_connection (last es)) \<and>
    (co_phase c \<noteq> Gone \<longrightarrow> co_stop c = was_stopped es)"

lemma map_filter_snoc [simp]:
  "List.map_filter f (xs @ [x]) = List.map_filter f xs @ (case f x of None \<Rightarrow> [] | Some y \<Rightarrow> [y])"
  by (simp add: List.map_filter_def split: option.split)

lemma was_stopped_snoc [simp]: "was_stopped (es @ [e]) \<longleftrightarrow> was_stopped es \<or> e = Expires \<or> e = Stopped"
  by (auto simp: was_stopped_def)

lemma no_report: "\<not> ends_connection e \<Longrightarrow> last_report stopped e = []"
  by (cases e) simp_all

lemma heard_texts:
  assumes "run_ok es c" "co_phase c \<noteq> Gone"
  shows "map (Pair 0) (List.map_filter text_of es) = co_calls c"
  using assms by (auto simp: run_ok_def heard_def no_report)

lemmas co_steps = on_resolved_def on_connected_def on_secured_def start_read_def on_ws_read_def on_expired_def
  drop_holder_def stop_connection_def co_report_def

lemma run_ok_happens:
  assumes ok: "run_ok es c" and e: "may_happen e c"
  shows "run_ok (es @ [e]) (on_event e c)"
proof -
  have alive: "co_phase c \<noteq> Gone" using e by (cases e) auto
  have "co_stop c = was_stopped es" using ok alive by (simp add: run_ok_def)
  then show ?thesis
    using e alive heard_texts [OF ok alive]
    by (cases e; cases "co_phase c") (auto simp: run_ok_def heard_def co_steps Let_def)
qed

text \<open>C37: In every life of a connection, with the network failing where it may and stops at any time, the
  callback hears every text that is read, once and in order, and after them at most one error: that of
  the operation that failed, unless the connection was stopped before, or that of a refused name.  The
  connection is gone as soon as an operation fails or the callback does not go on, never before, and then
  nothing happens any more.  A stop by itself ends nothing: a connection that is stopped while it is being
  opened may go on to read, and its callback hears the texts.\<close>

theorem connection_calls_back:
  assumes "connection_run es c"
  shows "co_calls c = heard es \<and> (co_phase c = Gone \<longleftrightarrow> es \<noteq> [] \<and> ends_connection (last es)) \<and>
    (co_phase c = Gone \<longrightarrow> (\<forall>e. \<not> may_happen e c)) \<and>
    (co_phase c = Resolving \<longrightarrow> (\<forall>s. \<exists>c'. connection_run (es @ [Stopped, Done, Done, Done, Done, Text s True]) c' \<and>
      co_calls c' = heard es @ [(0, s)]))"
proof -
  have ok: "run_ok es c"
    using assms by (induction rule: connection_run.induct)
      (simp_all add: run_ok_happens, simp add: run_ok_def new_connection_def heard_def List.map_filter_def was_stopped_def)
  have "\<not> may_happen e c" if "co_phase c = Gone" for e using that by (cases e) simp_all
  moreover have "\<exists>c'. connection_run (es @ [Stopped, Done, Done, Done, Done, Text s True]) c' \<and> co_calls c' = heard es @ [(0, s)]"
    if "co_phase c = Resolving" for s
  proof -
    let ?c = "on_event (Text s True) (on_event Done (on_event Done (on_event Done (on_event Done (on_event Stopped c)))))"
    have "connection_run ((((((es @ [Stopped]) @ [Done]) @ [Done]) @ [Done]) @ [Done]) @ [Text s True]) ?c"
      by (intro connection_run.happens assms) (simp_all add: co_steps that)
    then have "connection_run (es @ [Stopped, Done, Done, Done, Done, Text s True]) ?c"
      by (simp only: append_assoc append.simps)
    moreover have "co_calls ?c = heard es @ [(0, s)]"
      using ok by (simp add: co_steps that run_ok_def Let_def)
    ultimately show ?thesis by blast
  qed
  ultimately show ?thesis using ok by (simp add: run_ok_def)
qed

text \<open>A connection that reads a text and then fails.\<close>

theorem connection_calls_back_witness:
  "\<exists>c. connection_run [Done, Done, Done, Done, Text ''{}'' True, Fails 2] c \<and> co_calls c = [(0, ''{}''), (2, [])] \<and> co_phase c = Gone"
proof -
  define con where "con p cs = \<lparr>co_phase = p, co_stop = False, co_timer = True, co_calls = cs\<rparr>" for p cs
  note step = connection_run.happens
  have "connection_run [] (con Resolving [])" using connection_run.opened by (simp add: con_def new_connection_def)
  from step [OF this, of Done] have "connection_run [Done] (con Connecting [])" by (simp add: con_def co_steps)
  from step [OF this, of Done] have "connection_run [Done, Done] (con Securing [])" by (simp add: con_def co_steps)
  from step [OF this, of Done] have "connection_run [Done, Done, Done] (con Upgrading [])" by (simp add: con_def co_steps)
  from step [OF this, of Done] have "connection_run [Done, Done, Done, Done] (con Reading [])" by (simp add: con_def co_steps)
  from step [OF this, of "Text ''{}'' True"]
  have "connection_run [Done, Done, Done, Done, Text ''{}'' True] (con Reading [(0, ''{}'')])"
    by (simp add: con_def co_steps Let_def)
  from step [OF this, of "Fails 2"]
  have run: "connection_run [Done, Done, Done, Done, Text ''{}'' True, Fails 2] (on_event (Fails 2) (con Reading [(0, ''{}'')]))"
    by (simp add: con_def del: on_event.simps)
  have "heard [Done, Done, Done, Done, Text ''{}'' True, Fails 2] = [(0, ''{}''), (2, [])]"
    by (simp add: heard_def List.map_filter_def was_stopped_def)
  then show ?thesis using connection_calls_back [OF run] run by auto
qed

end
