(* ===== verification/BinanceCalls.thy ===== *)
theory BinanceCalls
  imports BinanceApi Websockets
begin

text \<open>
  The rest of what can be asked of the exchange: the calls of binapi/api.cpp beside those of \<open>BinanceApi\<close>,
  and the names of the channels of binapi/websocket.cpp.  The gateways use the two requests for the
  instruments and five of the channels; of those the names are the ones \<open>BinanceMd\<close> writes out.
\<close>

section \<open>Requests\<close>

definition ask :: "string \<Rightarrow> string \<Rightarrow> (string \<times> param) list \<Rightarrow> rest_request" where
  "ask host target ps = \<lparr>rq_host = host, rq_signed = False, rq_target = target, rq_verb = HttpGet, rq_params = ps\<rparr>"

definition ask_signed :: "string \<Rightarrow> string \<Rightarrow> (string \<times> param) list \<Rightarrow> rest_request" where
  "ask_signed host target ps = (ask host target ps)\<lparr>rq_signed := True\<rparr>"

definition api_ping :: "string \<Rightarrow> rest_request" where
  "api_ping host = ask host ''/api/v3/ping'' []"

definition api_server_time :: "string \<Rightarrow> rest_request" where
  "api_server_time host = ask host ''/api/v3/time'' []"

definition api_price :: "string \<Rightarrow> string option \<Rightarrow> rest_request" where
  "api_price host symbol = ask host ''/api/v3/ticker/price'' [(''symbol'', PText symbol)]"

definition api_prices :: "string \<Rightarrow> rest_request" where
  "api_prices host = ask host ''/api/v3/ticker/price'' []"

definition api_avg_price :: "string \<Rightarrow> string option \<Rightarrow> rest_request" where
  "api_avg_price host symbol = ask host ''/api/v3/avgPrice'' [(''symbol'', PText symbol)]"

definition api_24hrs_ticker :: "string \<Rightarrow> string option \<Rightarrow> rest_request" where
  "api_24hrs_ticker host symbol = ask host ''/api/v3/ticker/24hr'' [(''symbol'', PText symbol)]"

definition api_24hrs_tickers :: "string \<Rightarrow> rest_request" where
  "api_24hrs_tickers host = ask host ''/api/v3/ticker/24hr'' []"

definition api_exchange_info :: "string \<Rightarrow> rest_request" where
  "api_exchange_info host = ask host ''/api/v3/exchangeInfo'' []"

definition api_exchange_info_symbol :: "string \<Rightarrow> string option \<Rightarrow> rest_request" where
  "api_exchange_info_symbol host symbol = ask host ''/api/v3/exchangeInfo'' [(''symbol'', PText symbol)]"

fun symbols_text :: "string list \<Rightarrow> string" where
  "symbols_text [] = []"
| "symbols_text [s] = char_of (34 :: nat) # s @ [char_of (34 :: nat)]"
| "symbols_text (s # t # ss) = char_of (34 :: nat) # s @ [char_of (34 :: nat)] @ '','' @ symbols_text (t # ss)"

definition api_exchange_info_symbols :: "string \<Rightarrow> string list \<Rightarrow> rest_request" where
  "api_exchange_info_symbols host symbols =
    ask host ''/api/v3/exchangeInfo'' [(''symbols'', PText (Some (''['' @ symbols_text symbols @ '']'')))]"

definition api_depths :: "string \<Rightarrow> string option \<Rightarrow> u64 \<Rightarrow> rest_request" where
  "api_depths host symbol limit = ask host ''/api/v3/depth'' [(''symbol'', PText symbol), (''limit'', PSize limit)]"

definition api_trade :: "string \<Rightarrow> string option \<Rightarrow> rest_request" where
  "api_trade host symbol = ask host ''/api/v3/trades'' [(''symbol'', PText symbol), (''limit'', PSize 1)]"

definition api_trades :: "string \<Rightarrow> string option \<Rightarrow> u64 \<Rightarrow> rest_request" where
  "api_trades host symbol limit = ask host ''/api/v3/trades'' [(''symbol'', PText symbol), (''limit'', PSize limit)]"

definition api_agg_trade :: "string \<Rightarrow> string option \<Rightarrow> rest_request" where
  "api_agg_trade host symbol = ask host ''/api/v3/aggTrades'' [(''symbol'', PText symbol), (''limit'', PSize 1)]"

definition api_agg_trades :: "string \<Rightarrow> string option \<Rightarrow> u64 \<Rightarrow> rest_request" where
  "api_agg_trades host symbol limit = ask host ''/api/v3/aggTrades'' [(''symbol'', PText symbol), (''limit'', PSize limit)]"

definition api_klines :: "string \<Rightarrow> string option \<Rightarrow> string option \<Rightarrow> u64 \<Rightarrow> rest_request" where
  "api_klines host symbol interval limit =
    ask host ''/api/v3/klines'' [(''symbol'', PText symbol), (''limit'', PSize limit), (''interval'', PText interval)]"

definition api_account_info :: "string \<Rightarrow> rest_request" where
  "api_account_info host = ask_signed host ''/api/v3/account'' []"

definition api_open_orders :: "string \<Rightarrow> string option \<Rightarrow> rest_request" where
  "api_open_orders host symbol = ask_signed host ''/api/v3/openOrders'' [(''symbol'', PText symbol)]"

definition api_all_orders :: "string \<Rightarrow> string option \<Rightarrow> u64 \<Rightarrow> u64 \<Rightarrow> u64 \<Rightarrow> u64 \<Rightarrow> rest_request" where
  "api_all_orders host symbol orderid start_time end_time limit =
    ask_signed host ''/api/v3/allOrders'' [(''symbol'', PText symbol), (''orderId'', PSize orderid),
      (''startTime'', PSize start_time), (''endTime'', PSize end_time), (''limit'', PSize limit)]"

text \<open>The test of an order is an order at another target.\<close>

definition api_new_test_order :: "string \<Rightarrow> string \<Rightarrow> e_side \<Rightarrow> e_type \<Rightarrow> e_time \<Rightarrow> e_trade_resp_type \<Rightarrow> string \<Rightarrow> string \<Rightarrow>
    string \<Rightarrow> string \<Rightarrow> string \<Rightarrow> rest_request" where
  "api_new_test_order host symbol side type time resp amount price client_order_id stop_price iceberg =
    (api_new_order host symbol side type time resp amount price client_order_id stop_price iceberg)
      \<lparr>rq_target := ''/api/v3/order/test''\<rparr>"

definition api_my_trades :: "string \<Rightarrow> string option \<Rightarrow> u64 \<Rightarrow> u64 \<Rightarrow> u64 \<Rightarrow> u64 \<Rightarrow> rest_request" where
  "api_my_trades host symbol start_time end_time from_id limit =
    ask_signed host ''/api/v3/myTrades'' [(''symbol'', PText symbol), (''startTime'', PSize start_time),
      (''endTime'', PSize end_time), (''fromId'', PSize from_id), (''limit'', PSize limit)]"

definition api_ping_user_data_stream :: "string \<Rightarrow> string option \<Rightarrow> rest_request" where
  "api_ping_user_data_stream host listen_key =
    (ask host ''/api/v3/userDataStream'' [(''listenKey'', PText listen_key)])\<lparr>rq_verb := HttpPut\<rparr>"

definition api_close_user_data_stream :: "string \<Rightarrow> string option \<Rightarrow> rest_request" where
  "api_close_user_data_stream host listen_key =
    (ask host ''/api/v3/userDataStream'' [(''listenKey'', PText listen_key)])\<lparr>rq_verb := HttpDelete\<rparr>"

definition api_future_exchange_info :: "string \<Rightarrow> rest_request" where
  "api_future_exchange_info host = ask host ''/fapi/v1/exchangeInfo'' []"

section \<open>Channels\<close>

datatype e_freq = Freq_100ms | Freq_1000ms

datatype e_levels = Levels_5 | Levels_10 | Levels_20

fun freq_number :: "e_freq \<Rightarrow> nat" where
  "freq_number Freq_100ms = 100"
| "freq_number Freq_1000ms = 1000"

fun levels_number :: "e_levels \<Rightarrow> nat" where
  "levels_number Levels_5 = 5"
| "levels_number Levels_10 = 10"
| "levels_number Levels_20 = 20"

text \<open>A channel of a pair; the spot market and the futures name them alike.\<close>

definition part_depth_channel :: "string \<Rightarrow> e_levels \<Rightarrow> e_freq \<Rightarrow> string" where
  "part_depth_channel pair level freq =
    make_channel_name (Some pair) (''depth'' @ show_nat (levels_number level) @ ''@'' @ show_nat (freq_number freq) @ ''ms'')"

definition diff_depth_channel :: "string \<Rightarrow> e_freq \<Rightarrow> string" where
  "diff_depth_channel pair freq = make_channel_name (Some pair) (''depth@'' @ show_nat (freq_number freq) @ ''ms'')"

definition kline_periods :: "string list" where
  "kline_periods = [''1m'', ''3m'', ''5m'', ''15m'', ''30m'', ''1h'', ''2h'', ''4h'', ''6h'', ''8h'', ''12h'', ''1d'', ''3d'',
     ''1w'', ''1M'']"

text \<open>A period of another name fails an assertion.\<close>

definition klines_channel :: "string \<Rightarrow> string \<Rightarrow> herror + string" where
  "klines_channel pair period =
    (case switch_hash (map (\<lambda>p. (p, ''kline_'' @ p)) kline_periods) (fnv1a period) of
       Inl e \<Rightarrow> Inl e
     | Inr channel \<Rightarrow> Inr (make_channel_name (Some pair) channel))"

definition trade_channel :: "string \<Rightarrow> string" where
  "trade_channel pair = make_channel_name (Some pair) ''trade''"

definition agg_trade_channel :: "string \<Rightarrow> string" where
  "agg_trade_channel pair = make_channel_name (Some pair) ''aggTrade''"

definition mini_ticker_channel :: "string \<Rightarrow> string" where
  "mini_ticker_channel pair = make_channel_name (Some pair) ''miniTicker''"

definition mini_tickers_channel :: string where
  "mini_tickers_channel = make_channel_name (Some ''!miniTicker'') ''arr''"

definition market_channel :: "string \<Rightarrow> string" where
  "market_channel pair = make_channel_name (Some pair) ''ticker''"

definition markets_channel :: string where
  "markets_channel = make_channel_name (Some ''!ticker'') ''arr''"

definition book_channel :: "string \<Rightarrow> string" where
  "book_channel pair = make_channel_name (Some pair) ''bookTicker''"

definition books_channel :: string where
  "books_channel = make_channel_name None ''!bookTicker''"

definition mark_price_channel :: "string \<Rightarrow> string" where
  "mark_price_channel pair = make_channel_name (Some pair) ''markPrice''"

text \<open>The channel of the depths of the gateway: twenty levels, every 100 ms.\<close>

lemma part_depth_20_100: "part_depth_channel pair Levels_20 Freq_100ms = make_channel_name (Some pair) ''depth20@100ms''"
proof -
  have "show_nat 20 = ''20''" "show_nat 100 = ''100''" by code_simp+
  then show ?thesis by (simp add: part_depth_channel_def)
qed

text \<open>No two periods of a kline collide, so each names its own channel.\<close>

lemma klines_channel_period:
  "list_all (\<lambda>p. klines_channel pair p = Inr (make_channel_name (Some pair) (''kline_'' @ p))) kline_periods"
proof -
  have "list_all (\<lambda>p. switch_hash (map (\<lambda>q. (q, ''kline_'' @ q)) kline_periods) (fnv1a p) = Inr (''kline_'' @ p)) kline_periods"
    by code_simp
  then show ?thesis by (simp add: list_all_iff klines_channel_def)
qed

end
