(* ===== verification/Spec2Isabelle.thy ===== *)
theory Spec2Isabelle
  imports ReaderProps MsgProps ProcessProps TimeText ApprenticeProps BarProps Quota StrategyProps LedgerProps Commander AlgoProps Books
    TradingProps BinanceMdProps ExchangeProps RestQueue Connection BinanceCalls
begin

text \<open>
  A verification development for the C++ core of a trading system.  Paths are relative to
  src/core: yijinjing and practice are under cpp/yijinjing, wingchun under cpp/wingchun, the gateways
  under extensions.

  The program.  Processes (strategies, gateways to exchanges, services) run on one machine and
  talk only through journals: append-only logs of frames in memory-mapped files, one writer each and
  any number of readers.  A master process knows every process, introduces each to the others, and
  opens the journals between them when one asks to write to or to read from another.  Each process
  reads all the journals it has joined as one sequence, merged by generation time, and hands every
  event to its handlers; what it has to say it writes to its own journals.  On top of this, a
  strategy asks a market data gateway for instruments and a trader gateway for orders, and the
  ledger, the bar generator, the commander and the algo service read and write messages of their own.

  The journal (yijinjing).
  \<^item> Prelude: the machine types, the result type \<open>res\<close> of code that throws, strings; Memory: the bytes
    of a mapped file and little-endian integers; Hash (util/hash.cpp, MurmurHash3.cpp): identifiers;
    Locations (common.h, time.h, io.cpp): names, identifiers, page sizes, units of time, socket paths.
  \<^item> Frame (journal/frame.h, page.h): the packed headers as bytes at their offsets.  Journal
    (mmap.cpp, page.cpp, journal.cpp): page files and the cursor of a journal.  Writer (writer.cpp,
    journal.h): open, close, mark, the end of a page; a write that fits its page is the run of a list of
    stores, in the order of the code.  Reader (reader.cpp): several cursors.
  \<^item> Log is the abstract view of a journal, a list of events between two positions; Append shows that
    a write appends to it, Publication that no reader sees part of a write between any two of its stores, Resume how a place is
    found by time.  The properties are in JournalProps and ReaderProps: the round trip from writes to
    reads across pages, atomicity of publication, the merge, and where the code fails (the mark
    with a time on a full page, whose event lands behind a page without one; frames larger than a page, as a
    lemma).

  The processes (practice).
  \<^item> Hero (hero.cpp, hero.h): tables of locations, channels and writers, and the loop.  Master
    (master.cpp): registration, requests, timers, with its properties in MasterProps; Apprentice
    (apprentice.cpp, apprentice.h): an application of the master, with its properties in
    ApprenticeProps, where the two meet: the introduction the master writes starts the application.
  \<^item> Sockets (nanomsg/socket.cpp, io/io.cpp): the sockets and devices of a process, over the nanomsg
    library as a parameter.  Process (hero.cpp, util/signal.cpp): the turn of the loop as it reads its
    sockets, the signal handler, and the life of a process as a step relation over its linearly ordered
    phases.  ProcessProps: the turn is
    that of Hero (a lemma), \<open>on_exit\<close> is called once when only errors of the network end the loop, and twice
    after an interrupted notice, and an application that checks in is started.
  \<^item> A turn is given what it finds: a notice, a request, the frames of the reader, and what the reader stands
    on after them.  Outside live mode the end of the journals ends the loop, or, when no journal ever had data,
    the null pointer that the code reads there ends the process.
  \<^item> A subscription of rxcpp is a function that an event is given to; \<open>publish_event\<close> (Hero) calls them in
    order, drops one that throws and stops the process, as \<open>interrupt_on_error\<close> does.  The \<open>react\<close>
    functions of the components are the subscriptions one after another as long as none throws.
  \<^item> A process record extends \<open>hero\<close>; the subclass hooks that are user code are parameters of the
    operations.  What a process writes is the list \<open>h_out\<close>, each message with the journal it goes to.

  Trading (wingchun).
  \<^item> Double (IEEE 754 binary64, executable), Common (common.h), Json (the json values the program
    uses), Msg (msg.h): the vocabulary and the messages with their conversions; MsgProps has the
    round trips through json and the strings read from the arrays of an order.
  \<^item> Bars (service/bar.cpp) with BarProps, where a bar is the summary of its trades (its volume is the
    difference of the volume fields of the last and the first); Quota (strategy/metric_controller.cpp); Strategy
    (strategy/context.cpp) and Runner (strategy/runner.cpp) with StrategyProps; Broker
    (broker/marketdata.cpp, broker/trader.cpp and extensions/mock_native); Ledger (service/ledger.cpp)
    with LedgerProps; Commander (commander.cpp); Algo (algo/context.cpp, service/algo.cpp) with
    AlgoProps; Books (book/book.cpp).
  \<^item> The Binance library (extensions/binance, binapi): BinanceConvert (names and enumerations),
    BinanceApi (the text of requests) and BinanceCalls (every other request, and the names of the
    channels), RestQueue (the requests of a connection, as a step relation: api.cpp; one whose host name cannot be
    set is abandoned and blocks the queue), Websockets (the
    registry of open channels) and Connection (the life of one: websocket.cpp).  Flatjson (the values of flatjson.hpp, and how a
    field of a message is read from one), FlatjsonParse (the parser and the text of a value), StreamTypes
    and RestTypes (types.hpp, types.cpp: every message, its \<open>construct\<close> and its text), Answers
    (invoker.hpp, api.cpp, websocket.cpp: from a text that arrives to the callback it is for, with what is
    caught and what ends the process).  FlatjsonProps: the fuel of the parser is enough, a printed value is
    read back, and a failed reading of fields without nulls can be caught.
  \<^item> The Binance gateway: BinanceTd (the trader) with BinanceProps, and BinanceMd (market data) with
    BinanceMdProps.  ExchangeProps goes from the texts of the exchange to the journals: printed messages
    are read back, market data and executions are published, and what happens to refusals, to updates
    without a commission, and without a network.  A text of the market's depth names its sides \<open>asks\<close> and
    \<open>bids\<close> (spot) or \<open>a\<close> and \<open>b\<close> (futures); both are covered.
  \<^item> TradingProps: what a strategy hears of an order it sends through Binance, from \<open>insert_order\<close> to
    \<open>on_order\<close>.  TimeText (yijinjing time.cpp): times as text.

  Interfaces.  \<open>event_source\<close> (Reader) is what the reader relies on of a cursor; it is interpreted on
  the cursors of the byte-level journal.  \<open>order_gateway\<close> (StrategyProps) is what a strategy relies on
  of a trader; it is interpreted on the mock gateway.  \<open>channel_loop\<close> and \<open>known_channel_loop\<close>
  (BinanceMdProps) are the contract of the loops that open channels; they are interpreted on the three
  loops of the gateway.

  Bounds and fuel.  Integers that can wrap are words of their width; frame numbers, page offsets and
  identifiers wrap as in C++.  The loops that may not end are \<open>partial_function\<close>s into option, None being
  no end: the two searches of \<open>seek_to_time\<close> (shown to end) and the advance of a bar (shown not to end
  for an interval of zero).  The loop of a reader takes the number of its turns; any number from that of
  the events in front of its cursors on gives the same result.  The loop of a process takes the list of
  what each turn finds.  The json parser takes fuel; twice the length of the text and two is enough, as
  every call consumes a character or is followed by one that does (\<open>parse_value_fuel\<close>).  The clock is an argument; code that polls it takes the list of its readings.

  Not modelled, and why.
  \<^item> Waiting: sleeping, spinning threads, the pipelines of rxcpp, the ten second timeout of a check-in.
    What they deliver is modelled as the operations that are called.
  \<^item> Logging, the C library's formatting of times, stack traces, the Windows branches: no
    decision of the program depends on them.
  \<^item> The network itself (boost asio and beast, OpenSSL): what arrives is a text or an error, as an
    argument or as a step.  The decimals of the exchange (boost multiprecision) are doubles, and reading and
    printing one is a parameter.
  \<^item> Of binapi, reports.cpp and pairslist.cpp, which nothing calls, and the time and number formatting of
    dtf.cpp and tools.cpp.
  \<^item> Python code and its bindings: the hooks of the classes it extends are parameters.
  \<^item> Variants of MurmurHash3 and functions that nothing calls, and the vendored dependencies (json,
    SQLite, fmt, spdlog, googletest, rxcpp, nanomsg, pybind11).
  \<^item> An enumeration read from json with a number outside its range, which is undefined later, is
    an error here at once.
\<close>

end
